(* ===== verification/Prelude.thy ===== *)
theory Prelude
  imports Main "HOL-Library.Sublist"
begin

text \<open>
  Vocabulary shared by every component of the Paxalia Dashboard model.

  \<^item> Python values as the code sees them in a configuration dictionary (\<open>pyval\<close>), with
    truth value, \<open>int()\<close> and \<open>str()\<close>.
  \<^item> Python strings as lists of characters. A character is a code point below 256 (Isabelle's
    \<open>char\<close>); the string methods the code calls are written out for that range.
  \<^item> Exceptions as the datatype \<open>exn\<close>, pure fallible code as \<open>exn + 'a\<close>
    (the stateful code is in the theory State_Err).
\<close>


section \<open>Exceptions\<close>

datatype errno = ENOENT | ENOTDIR | EEXIST | ELOOP | EACCES | EPERM | EISDIR | ENXIO
  | ENOTEMPTY | EXDEV | EINVAL | ENOSYS | EOPNOTSUPP | EIO | EBADF | ENOSPC

datatype sf_kind = SfError | SfDisabled | SfConfiguration | SfUnsupportedPlatform | SfInvalidPath | SfDenied
  | SfNotFound | SfNotDirectory | SfNotRegularFile | SfAlreadyExists | SfTooLarge
  | SfUnsupportedPreview | SfBinaryFile | SfRateLimited | SfAuditUnavailable

datatype exn =
    TypeError
  | ValueError string
  | OverflowError
  | NameError
  | AttributeError
  | KeyError
  | RuntimeError
  | OSError errno
  | PermissionDenied string
  | DoesNotExist
  | DatabaseError
  | ServerFiles sf_kind string
  | Other string

section \<open>Fallible pure code\<close>

type_synonym 'a res = "exn + 'a"

fun bind_res :: "'a res \<Rightarrow> ('a \<Rightarrow> 'b res) \<Rightarrow> 'b res" where
  "bind_res (Inl e) k = Inl e"
| "bind_res (Inr x) k = k x"

lemma bind_res_eq_Inr: "bind_res m k = Inr y \<longleftrightarrow> (\<exists>x. m = Inr x \<and> k x = Inr y)"
  by (cases m) auto

definition check :: "bool \<Rightarrow> exn \<Rightarrow> unit res" where
  "check b e = (if b then Inr () else Inl e)"

lemma check_eq_Inr [simp]: "check b e = Inr u \<longleftrightarrow> b"
  by (simp add: check_def)

lemma check_simps [simp]: "check True e = Inr ()" "check False e = Inl e"
  by (simp_all add: check_def)

fun map_res :: "('a \<Rightarrow> 'b res) \<Rightarrow> 'a list \<Rightarrow> 'b list res" where
  "map_res f [] = Inr []"
| "map_res f (x # xs) = bind_res (f x) (\<lambda>y. bind_res (map_res f xs) (\<lambda>ys. Inr (y # ys)))"

lemma map_res_eq_Inr: "map_res f xs = Inr ys \<longleftrightarrow> list_all2 (\<lambda>x y. f x = Inr y) xs ys"
  by (induction xs arbitrary: ys) (auto simp: bind_res_eq_Inr list_all2_Cons1)

section \<open>Python strings\<close>

definition code :: "char \<Rightarrow> nat" where
  "code c = of_char c"

definition py_space :: "char \<Rightarrow> bool" where
  "py_space c \<longleftrightarrow> (let n = code c in 9 \<le> n \<and> n \<le> 13 \<or> 28 \<le> n \<and> n \<le> 32 \<or> n = 133 \<or> n = 160)"

definition lstrip :: "string \<Rightarrow> string" where
  "lstrip s = dropWhile py_space s"

definition rstrip_by :: "(char \<Rightarrow> bool) \<Rightarrow> string \<Rightarrow> string" where
  "rstrip_by P s = rev (dropWhile P (rev s))"

definition strip :: "string \<Rightarrow> string" where
  "strip s = rstrip_by py_space (lstrip s)"

definition lower_char :: "char \<Rightarrow> char" where
  "lower_char c = (let n = code c in
     if 65 \<le> n \<and> n \<le> 90 \<or> 192 \<le> n \<and> n \<le> 222 \<and> n \<noteq> 215 then char_of (n + 32) else c)"

definition lower :: "string \<Rightarrow> string" where
  "lower s = map lower_char s"

definition casefold :: "string \<Rightarrow> string" where
  "casefold s = concat (map (\<lambda>c. if code c = 223 then ''ss'' else [lower_char c]) s)"

definition starts_with :: "string \<Rightarrow> string \<Rightarrow> bool" where
  "starts_with s p \<longleftrightarrow> take (length p) s = p"

definition ends_with :: "string \<Rightarrow> string \<Rightarrow> bool" where
  "ends_with s p \<longleftrightarrow> length p \<le> length s \<and> drop (length s - length p) s = p"

fun contains :: "string \<Rightarrow> string \<Rightarrow> bool" where
  "contains [] p = (p = [])"
| "contains (c # s) p = (starts_with (c # s) p \<or> contains s p)"

fun split_on :: "char \<Rightarrow> string \<Rightarrow> string list" where
  "split_on d [] = [[]]"
| "split_on d (c # s) =
     (if c = d then [] # split_on d s
      else (case split_on d s of [] \<Rightarrow> [[c]] | p # ps \<Rightarrow> (c # p) # ps))"

fun join :: "string \<Rightarrow> string list \<Rightarrow> string" where
  "join sep [] = []"
| "join sep [p] = p"
| "join sep (p # q # ps) = p @ sep @ join sep (q # ps)"

lemma starts_with_prefix: "starts_with s p \<longleftrightarrow> prefix p s"
  unfolding starts_with_def by (metis append_eq_conv_conj append_take_drop_id prefix_def)

lemma ends_with_suffix: "ends_with s p \<longleftrightarrow> suffix p s"
proof
  assume "ends_with s p"
  then show "suffix p s"
    unfolding ends_with_def suffix_def by (metis append_take_drop_id)
next
  assume "suffix p s"
  then show "ends_with s p" by (auto simp: ends_with_def suffix_def)
qed

lemma contains_sublist: "contains s p \<longleftrightarrow> sublist p s"
  by (induction s) (auto simp: starts_with_prefix sublist_Cons_right)

lemma split_on_ne [simp]: "split_on d s \<noteq> []"
  by (induction s) (auto split: list.splits)

lemma split_on_no_sep: "p \<in> set (split_on d s) \<Longrightarrow> d \<notin> set p"
proof (induction s arbitrary: p)
  case (Cons c s)
  then show ?case
    by (cases "split_on d s") (auto split: if_splits)
qed simp

lemma join_Cons: "ps \<noteq> [] \<Longrightarrow> join sep (p # ps) = p @ sep @ join sep ps"
  by (cases ps) auto

lemma join_split_on: "join [d] (split_on d s) = s"
proof (induction s)
  case (Cons c s)
  obtain p ps where ps: "split_on d s = p # ps"
    using split_on_ne[of d s] by (meson neq_Nil_conv)
  with Cons show ?case
    by (cases ps) auto
qed simp

lemma split_on_no_mem: "d \<notin> set p \<Longrightarrow> split_on d p = [p]"
  by (induction p) auto

lemma split_on_append: "d \<notin> set p \<Longrightarrow> split_on d (p @ d # s) = p # split_on d s"
  by (induction p) auto

lemma split_on_join:
  "ps \<noteq> [] \<Longrightarrow> (\<And>p. p \<in> set ps \<Longrightarrow> d \<notin> set p) \<Longrightarrow> split_on d (join [d] ps) = ps"
proof (induction "[d]" ps rule: join.induct)
  case (3 p q ps)
  have "d \<notin> set p" by (rule 3) simp
  moreover have "split_on d (join [d] (q # ps)) = q # ps"
    by (rule 3) (use 3(3) in auto)
  ultimately show ?case by (simp add: split_on_append)
qed (auto simp: split_on_no_mem)

lemma set_split_on: "p \<in> set (split_on d s) \<Longrightarrow> set p \<subseteq> set s"
proof (induction s arbitrary: p)
  case (Cons c s)
  obtain q qs where q: "split_on d s = q # qs"
    using split_on_ne[of d s] by (meson neq_Nil_conv)
  then have "set q \<subseteq> set s" and "p \<in> set qs \<Longrightarrow> set p \<subseteq> set s"
    by (auto intro!: Cons.IH)
  with Cons.prems q show ?case by (auto split: if_splits)
qed simp

text \<open>\<open>str.encode("utf-8")\<close> for code points below 256.\<close>

definition utf8_char :: "char \<Rightarrow> string" where
  "utf8_char c = (let n = code c in
     if n < 128 then [c] else [char_of (192 + n div 64), char_of (128 + n mod 64)])"

definition utf8 :: "string \<Rightarrow> string" where
  "utf8 s = concat (map utf8_char s)"

section \<open>Python values\<close>

text \<open>
  The values a configuration or a JSON column can hold. A finite float is observed by the code
  only through \<open>int()\<close> (its truncation), \<open>bool()\<close> and \<open>str()\<close>, so it carries its truncation
  and its printed form. \<open>PPath\<close> is an \<open>os.PathLike\<close> whose \<open>os.fspath\<close> is text,
  \<open>PBytesPath\<close> one whose \<open>os.fspath\<close> is bytes.
\<close>

datatype pyval =
    PNone
  | PBool bool
  | PInt int
  | PFloat int string
  | PInf
  | PNaN
  | PStr string
  | PBytes string
  | PPath string
  | PBytesPath string
  | PList "pyval list"
  | PTuple "pyval list"
  | PDict "(pyval \<times> pyval) list"

fun truthy :: "pyval \<Rightarrow> bool" where
  "truthy PNone = False"
| "truthy (PBool b) = b"
| "truthy (PInt i) = (i \<noteq> 0)"
| "truthy (PFloat t r) = (r \<noteq> ''0.0'' \<and> r \<noteq> ''-0.0'')"
| "truthy PInf = True"
| "truthy PNaN = True"
| "truthy (PStr s) = (s \<noteq> [])"
| "truthy (PBytes s) = (s \<noteq> [])"
| "truthy (PPath p) = True"
| "truthy (PBytesPath p) = True"
| "truthy (PList xs) = (xs \<noteq> [])"
| "truthy (PTuple xs) = (xs \<noteq> [])"
| "truthy (PDict kvs) = (kvs \<noteq> [])"

definition is_digit :: "char \<Rightarrow> bool" where
  "is_digit c \<longleftrightarrow> 48 \<le> code c \<and> code c \<le> 57"

definition digit_value :: "char \<Rightarrow> int" where
  "digit_value c = int (code c) - 48"

text \<open>
  \<open>int(text)\<close>: surrounding white space, an optional sign, decimal digits with single
  underscores between them, at most 4300 of them; anything else is a \<open>ValueError\<close>.
\<close>

fun parse_digits :: "int \<Rightarrow> string \<Rightarrow> int option" where
  "parse_digits acc [] = Some acc"
| "parse_digits acc (c # s) =
     (if is_digit c then parse_digits (acc * 10 + digit_value c) s
      else if c = CHR ''_''
      then (case s of [] \<Rightarrow> None
            | d # s' \<Rightarrow> if is_digit d then parse_digits (acc * 10 + digit_value d) s' else None)
      else None)"

definition parse_nat :: "string \<Rightarrow> int option" where
  "parse_nat s =
     (case s of [] \<Rightarrow> None
      | c # s' \<Rightarrow> if is_digit c \<and> length (filter is_digit s) \<le> 4300
                then parse_digits 0 s else None)"

definition parse_int :: "string \<Rightarrow> int option" where
  "parse_int s0 =
     (let s = strip s0 in
      case s of [] \<Rightarrow> None
      | c # s' \<Rightarrow> if c = CHR ''-'' then map_option uminus (parse_nat s')
                else if c = CHR ''+'' then parse_nat s' else parse_nat s)"

fun py_int :: "pyval \<Rightarrow> int res" where
  "py_int (PBool b) = Inr (if b then 1 else 0)"
| "py_int (PInt i) = Inr i"
| "py_int (PFloat t r) = Inr t"
| "py_int PInf = Inl OverflowError"
| "py_int PNaN = Inl (ValueError [])"
| "py_int (PStr s) = (case parse_int s of None \<Rightarrow> Inl (ValueError []) | Some i \<Rightarrow> Inr i)"
| "py_int (PBytes s) = (case parse_int s of None \<Rightarrow> Inl (ValueError []) | Some i \<Rightarrow> Inr i)"
| "py_int v = Inl TypeError"

text \<open>\<open>str(value)\<close>.\<close>

fun show_nat :: "nat \<Rightarrow> string" where
  "show_nat n = (if n < 10 then [char_of (48 + n)] else show_nat (n div 10) @ [char_of (48 + n mod 10)])"

declare show_nat.simps [simp del]

definition show_int :: "int \<Rightarrow> string" where
  "show_int i = (if i < 0 then CHR ''-'' # show_nat (nat (- i)) else show_nat (nat i))"

definition hex_digit :: "nat \<Rightarrow> char" where
  "hex_digit n = (if n < 10 then char_of (48 + n) else char_of (87 + n))"

definition repr_char :: "char \<Rightarrow> char \<Rightarrow> string" where
  "repr_char q c =
     (let n = code c in
      if c = q \<or> n = 92 then [CHR 0x5C, c]
      else if n = 10 then [CHR 0x5C, CHR ''n'']
      else if n = 13 then [CHR 0x5C, CHR ''r'']
      else if n = 9 then [CHR 0x5C, CHR ''t'']
      else if n < 32 \<or> 127 \<le> n \<and> n \<le> 160 \<or> n = 173
      then [CHR 0x5C, CHR ''x'', hex_digit (n div 16), hex_digit (n mod 16)]
      else [c])"

definition repr_str :: "string \<Rightarrow> string" where
  "repr_str s =
     (let q = (if CHR 0x27 \<in> set s \<and> CHR 0x22 \<notin> set s then CHR 0x22 else CHR 0x27)
      in q # concat (map (repr_char q) s) @ [q])"

fun py_repr :: "pyval \<Rightarrow> string" where
  "py_repr PNone = ''None''"
| "py_repr (PBool b) = (if b then ''True'' else ''False'')"
| "py_repr (PInt i) = show_int i"
| "py_repr (PFloat t r) = r"
| "py_repr PInf = ''inf''"
| "py_repr PNaN = ''nan''"
| "py_repr (PStr s) = repr_str s"
| "py_repr (PBytes s) = CHR ''b'' # repr_str s"
| "py_repr (PPath p) = ''PosixPath('' @ repr_str p @ '')''"
| "py_repr (PBytesPath p) = ''PathLike(b'' @ repr_str p @ '')''"
| "py_repr (PList xs) = ''['' @ join '', '' (map py_repr xs) @ '']''"
| "py_repr (PTuple [x]) = ''('' @ py_repr x @ '',)''"
| "py_repr (PTuple xs) = ''('' @ join '', '' (map py_repr xs) @ '')''"
| "py_repr (PDict kvs) =
     ''{'' @ join '', '' (map (\<lambda>(k, v). py_repr k @ '': '' @ py_repr v) kvs) @ ''}''"

fun py_str :: "pyval \<Rightarrow> string" where
  "py_str (PStr s) = s"
| "py_str (PPath p) = p"
| "py_str v = py_repr v"

text \<open>\<open>d.get(key, default)\<close> on a dictionary value with text keys.\<close>

fun dict_get :: "(pyval \<times> pyval) list \<Rightarrow> string \<Rightarrow> pyval option" where
  "dict_get [] k = None"
| "dict_get ((q, v) # kvs) k = (if q = PStr k then Some v else dict_get kvs k)"

fun is_str :: "pyval \<Rightarrow> bool" where
  "is_str (PStr s) = True"
| "is_str v = False"

text \<open>Evaluating a map that was updated looks at its updates instead of unfolding them.\<close>

declare fun_upd_apply [code]

text \<open>Evaluating a character by its bits.\<close>

lemma code_Char [code]: "code (Char b0 b1 b2 b3 b4 b5 b6 b7) =
  of_bool b0 + 2 * of_bool b1 + 4 * of_bool b2 + 8 * of_bool b3 + 16 * of_bool b4 + 32 * of_bool b5 + 64 * of_bool b6 + 128 * of_bool b7"
  by (simp add: code_def)

lemma lower_char_code [code]: "lower_char (Char b0 b1 b2 b3 b4 b5 b6 b7) =
  (if b6 \<and> \<not> b5 \<and> (if b7 then \<not> (b4 \<and> b2 \<and> b1 \<and> b0)
                     else (b0 \<or> b1 \<or> b2 \<or> b3 \<or> b4) \<and> \<not> (b4 \<and> b3 \<and> (b2 \<or> b1 \<and> b0)))
   then Char b0 b1 b2 b3 b4 True b6 b7 else Char b0 b1 b2 b3 b4 b5 b6 b7)"
  unfolding lower_char_def code_Char Let_def char_of_def
  by (cases b0; cases b1; cases b2; cases b3; cases b4; cases b5; cases b6; cases b7; simp add: bit_0)

lemma code_eq_iff: "code c = code d \<longleftrightarrow> c = d"
  by (simp add: code_def)

lemma casefold_code [code]:
  "casefold s = concat (map (\<lambda>c. if c = CHR 0xDF then ''ss'' else [lower_char c]) s)"
proof -
  have "code c = 223 \<longleftrightarrow> c = CHR 0xDF" for c
    using code_eq_iff[of c "CHR 0xDF"] by (simp add: code_def)
  then show ?thesis by (simp add: casefold_def)
qed

end
