(* ===== verification/State_Err.thy ===== *)
theory State_Err
  imports Prelude
begin

text \<open>
  Stateful code that may raise: a function from a state to a result and the state it leaves. A
  raised exception keeps the state changes made before it; only \<open>atomic\<close> (a database transaction)
  undoes some of them. \<open>wp m Q E s\<close> says that running \<open>m\<close> from \<open>s\<close> either returns \<open>x\<close> in a state
  \<open>t\<close> with \<open>Q x t\<close> or raises \<open>e\<close> in a state \<open>t\<close> with \<open>E e t\<close>. The collection \<open>wp_simps\<close>
  turns the weakest precondition of a program into that of its parts.
\<close>

named_theorems wp_simps

type_synonym ('s, 'a) io = "'s \<Rightarrow> (exn + 'a) \<times> 's"

section \<open>Programs\<close>

definition ret :: "'a \<Rightarrow> ('s, 'a) io" where
  "ret x s = (Inr x, s)"

definition raise :: "exn \<Rightarrow> ('s, 'a) io" where
  "raise e s = (Inl e, s)"

definition bind :: "('s, 'a) io \<Rightarrow> ('a \<Rightarrow> ('s, 'b) io) \<Rightarrow> ('s, 'b) io" where
  "bind m k s = (case m s of (Inl e, t) \<Rightarrow> (Inl e, t) | (Inr x, t) \<Rightarrow> k x t)"

definition seq :: "('s, unit) io \<Rightarrow> ('s, 'b) io \<Rightarrow> ('s, 'b) io" where
  "seq m k = bind m (\<lambda>_. k)"

definition lift :: "'a res \<Rightarrow> ('s, 'a) io" where
  "lift r s = (r, s)"

definition gets :: "('s \<Rightarrow> 'a) \<Rightarrow> ('s, 'a) io" where
  "gets f s = (Inr (f s), s)"

definition modify :: "('s \<Rightarrow> 's) \<Rightarrow> ('s, unit) io" where
  "modify f s = (Inr (), f s)"

definition require :: "bool \<Rightarrow> exn \<Rightarrow> ('s, unit) io" where
  "require b e = (if b then ret () else raise e)"

definition unless :: "bool \<Rightarrow> ('s, unit) io \<Rightarrow> ('s, unit) io" where
  "unless b m = (if b then ret () else m)"

definition whenever :: "bool \<Rightarrow> ('s, unit) io \<Rightarrow> ('s, unit) io" where
  "whenever b m = (if b then m else ret ())"

text \<open>\<open>try: m / except: h e\<close>; a handler that does not match re-raises. \<open>cleanup m f\<close> runs its
  second argument on both ways out, and an exception of the clean-up replaces the outcome.\<close>

definition catch :: "('s, 'a) io \<Rightarrow> (exn \<Rightarrow> ('s, 'a) io) \<Rightarrow> ('s, 'a) io" where
  "catch m h s = (case m s of (Inl e, t) \<Rightarrow> h e t | (Inr x, t) \<Rightarrow> (Inr x, t))"

text \<open>\<open>try / except / else\<close>: the continuation runs outside the protected part.\<close>

definition try_else :: "('s, 'a) io \<Rightarrow> (exn \<Rightarrow> ('s, 'b) io) \<Rightarrow> ('a \<Rightarrow> ('s, 'b) io) \<Rightarrow> ('s, 'b) io" where
  "try_else m h k s = (case m s of (Inl e, t) \<Rightarrow> h e t | (Inr x, t) \<Rightarrow> k x t)"

definition cleanup :: "('s, 'a) io \<Rightarrow> ('s, unit) io \<Rightarrow> ('s, 'a) io" where
  "cleanup m f s = (case m s of (r, t) \<Rightarrow> (case f t of (Inl e, u) \<Rightarrow> (Inl e, u) | (Inr _, u) \<Rightarrow> (r, u)))"

fun for_each :: "'a list \<Rightarrow> ('a \<Rightarrow> ('s, unit) io) \<Rightarrow> ('s, unit) io" where
  "for_each [] f = ret ()"
| "for_each (x # xs) f = seq (f x) (for_each xs f)"

section \<open>Weakest preconditions\<close>

definition wp :: "('s, 'a) io \<Rightarrow> ('a \<Rightarrow> 's \<Rightarrow> bool) \<Rightarrow> (exn \<Rightarrow> 's \<Rightarrow> bool) \<Rightarrow> 's \<Rightarrow> bool" where
  "wp m Q E s = (case m s of (Inl e, t) \<Rightarrow> E e t | (Inr x, t) \<Rightarrow> Q x t)"

lemma wp_ret [wp_simps]: "wp (ret x) Q E s = Q x s"
  by (simp add: wp_def ret_def)

lemma wp_raise [wp_simps]: "wp (raise e) Q E s = E e s"
  by (simp add: wp_def raise_def)

lemma wp_bind [wp_simps]: "wp (bind m k) Q E s = wp m (\<lambda>x. wp (k x) Q E) E s"
  by (simp add: wp_def bind_def split: prod.splits sum.splits)

lemma wp_seq [wp_simps]: "wp (seq m k) Q E s = wp m (\<lambda>_. wp k Q E) E s"
  by (simp add: seq_def wp_bind)

lemma wp_lift [wp_simps]: "wp (lift r) Q E s = (case r of Inl e \<Rightarrow> E e s | Inr x \<Rightarrow> Q x s)"
  by (simp add: wp_def lift_def)

lemma wp_gets [wp_simps]: "wp (gets f) Q E s = Q (f s) s"
  by (simp add: wp_def gets_def)

lemma wp_modify [wp_simps]: "wp (modify f) Q E s = Q () (f s)"
  by (simp add: wp_def modify_def)

lemma wp_require [wp_simps]: "wp (require b e) Q E s = (if b then Q () s else E e s)"
  by (simp add: require_def wp_simps)

lemma wp_unless [wp_simps]: "wp (unless b m) Q E s = (if b then Q () s else wp m Q E s)"
  by (simp add: unless_def wp_simps)

lemma wp_whenever [wp_simps]: "wp (whenever b m) Q E s = (if b then wp m Q E s else Q () s)"
  by (simp add: whenever_def wp_simps)

lemma wp_catch [wp_simps]: "wp (catch m h) Q E s = wp m Q (\<lambda>e. wp (h e) Q E) s"
  by (simp add: wp_def catch_def split: prod.splits sum.splits)

lemma wp_try_else [wp_simps]:
  "wp (try_else m h k) Q E s = wp m (\<lambda>x. wp (k x) Q E) (\<lambda>e. wp (h e) Q E) s"
  by (simp add: wp_def try_else_def split: prod.splits sum.splits)

lemma wp_cleanup [wp_simps]:
  "wp (cleanup m f) Q E s =
     wp m (\<lambda>x. wp f (\<lambda>_. Q x) E) (\<lambda>e. wp f (\<lambda>_. E e) E) s"
  by (simp add: wp_def cleanup_def split: prod.splits sum.splits)

lemma wp_if [wp_simps]: "wp (if b then m else n) Q E s = (if b then wp m Q E s else wp n Q E s)"
  by simp

lemma wp_Let [wp_simps]: "wp (let x = v in m x) Q E s = (let x = v in wp (m x) Q E s)"
  by simp

lemma wp_case_option [wp_simps]:
  "wp (case v of None \<Rightarrow> m | Some x \<Rightarrow> n x) Q E s = (case v of None \<Rightarrow> wp m Q E s | Some x \<Rightarrow> wp (n x) Q E s)"
  by (simp split: option.splits)

lemma wp_case_sum [wp_simps]:
  "wp (case v of Inl x \<Rightarrow> m x | Inr y \<Rightarrow> n y) Q E s = (case v of Inl x \<Rightarrow> wp (m x) Q E s | Inr y \<Rightarrow> wp (n y) Q E s)"
  by (simp split: sum.splits)

lemma wp_case_prod [wp_simps]:
  "wp (case v of (x, y) \<Rightarrow> m x y) Q E s = (case v of (x, y) \<Rightarrow> wp (m x y) Q E s)"
  by (simp split: prod.splits)

lemma wp_mono:
  "wp m Q E s \<Longrightarrow> (\<And>x t. Q x t \<Longrightarrow> Q' x t) \<Longrightarrow> (\<And>e t. E e t \<Longrightarrow> E' e t) \<Longrightarrow> wp m Q' E' s"
  by (auto simp: wp_def split: prod.splits sum.splits)

lemma wp_conj: "wp m Q E s \<Longrightarrow> wp m Q' E' s \<Longrightarrow> wp m (\<lambda>x t. Q x t \<and> Q' x t) (\<lambda>e t. E e t \<and> E' e t) s"
  by (auto simp: wp_def split: prod.splits sum.splits)

lemma wp_True [simp]: "wp m (\<lambda>_ _. True) (\<lambda>_ _. True) s"
  by (auto simp: wp_def split: prod.splits sum.splits)

lemma wpD_Inr: "wp m Q E s \<Longrightarrow> m s = (Inr x, t) \<Longrightarrow> Q x t"
  by (simp add: wp_def)

lemma wpD_Inl: "wp m Q E s \<Longrightarrow> m s = (Inl e, t) \<Longrightarrow> E e t"
  by (simp add: wp_def)

lemma wpI: "(\<And>x t. m s = (Inr x, t) \<Longrightarrow> Q x t) \<Longrightarrow> (\<And>e t. m s = (Inl e, t) \<Longrightarrow> E e t) \<Longrightarrow> wp m Q E s"
  by (auto simp: wp_def split: prod.splits sum.splits)

lemma wp_any: "(\<And>x t. Q x t) \<Longrightarrow> (\<And>e t. E e t) \<Longrightarrow> wp m Q E s"
  by (simp add: wp_def split: prod.splits sum.splits)

text \<open>An invariant of a loop body is an invariant of the loop.\<close>

lemma wp_for_each:
  assumes "I s" and "\<And>x t. x \<in> set xs \<Longrightarrow> I t \<Longrightarrow> wp (f x) (\<lambda>_. I) (\<lambda>_. J) t"
  shows "wp (for_each xs f) (\<lambda>_. I) (\<lambda>_. J) s"
  using assms
proof (induction xs arbitrary: s)
  case (Cons x xs)
  have "wp (f x) (\<lambda>_. I) (\<lambda>_. J) s" using Cons.prems by simp
  then show ?case
    unfolding for_each.simps wp_seq
    by (rule wp_mono) (use Cons in auto)
qed (simp add: wp_simps)

text \<open>The same rules as introductions, so that a call is read from front to back.\<close>

lemma wp_bindI: "wp m (\<lambda>x. wp (k x) Q E) E w \<Longrightarrow> wp (bind m k) Q E w"
  by (simp add: wp_bind)

lemma wp_seqI: "wp m (\<lambda>_. wp k Q E) E w \<Longrightarrow> wp (seq m k) Q E w"
  by (simp add: wp_seq)

lemma wp_ifI: "(b \<Longrightarrow> wp m Q E w) \<Longrightarrow> (\<not> b \<Longrightarrow> wp n Q E w) \<Longrightarrow> wp (if b then m else n) Q E w"
  by simp

lemma wp_optionI:
  "(v = None \<Longrightarrow> wp m Q E w) \<Longrightarrow> (\<And>x. v = Some x \<Longrightarrow> wp (n x) Q E w)
    \<Longrightarrow> wp (case v of None \<Rightarrow> m | Some x \<Rightarrow> n x) Q E w"
  by (cases v) auto

lemma wp_sumI:
  "(\<And>x. v = Inl x \<Longrightarrow> wp (m x) Q E w) \<Longrightarrow> (\<And>y. v = Inr y \<Longrightarrow> wp (n y) Q E w)
    \<Longrightarrow> wp (case v of Inl x \<Rightarrow> m x | Inr y \<Rightarrow> n y) Q E w"
  by (cases v) auto

lemma wp_prodI: "(\<And>x y. v = (x, y) \<Longrightarrow> wp (m x y) Q E w) \<Longrightarrow> wp (case v of (x, y) \<Rightarrow> m x y) Q E w"
  by (cases v) auto

lemma wp_letI: "(\<And>x. x = v \<Longrightarrow> wp (m x) Q E w) \<Longrightarrow> wp (let x = v in m x) Q E w"
  by simp

lemma wp_retI: "Q x w \<Longrightarrow> wp (ret x) Q E w"
  by (simp add: wp_ret)

lemma wp_raiseI: "E e w \<Longrightarrow> wp (raise e) Q E w"
  by (simp add: wp_raise)

lemma wp_getsI: "(\<And>x. x = f w \<Longrightarrow> Q x w) \<Longrightarrow> wp (gets f) Q E w"
  by (simp add: wp_gets)

lemma wp_liftI: "(\<And>x. r = Inr x \<Longrightarrow> Q x w) \<Longrightarrow> (\<And>e. r = Inl e \<Longrightarrow> E e w) \<Longrightarrow> wp (lift r) Q E w"
  by (cases r) (simp_all add: wp_lift)

lemma wp_requireI: "(b \<Longrightarrow> Q () w) \<Longrightarrow> (\<not> b \<Longrightarrow> E e w) \<Longrightarrow> wp (require b e) Q E w"
  by (simp add: wp_require)

lemma wp_modifyI: "Q () (f w) \<Longrightarrow> wp (modify f) Q E w"
  by (simp add: wp_modify)

lemma wp_catchI: "wp m Q (\<lambda>e. wp (h e) Q E) w \<Longrightarrow> wp (catch m h) Q E w"
  by (simp add: wp_catch)

lemma wp_unlessI: "(b \<Longrightarrow> Q () w) \<Longrightarrow> (\<not> b \<Longrightarrow> wp m Q E w) \<Longrightarrow> wp (unless b m) Q E w"
  by (simp add: wp_unless)

lemma wp_wheneverI: "(b \<Longrightarrow> wp m Q E w) \<Longrightarrow> (\<not> b \<Longrightarrow> Q () w) \<Longrightarrow> wp (whenever b m) Q E w"
  by (simp add: wp_whenever)

lemmas wp_intros = wp_bindI wp_seqI wp_ifI wp_optionI wp_prodI wp_letI wp_retI wp_raiseI wp_getsI wp_liftI wp_requireI
  wp_modifyI wp_catchI wp_unlessI wp_wheneverI

text \<open>Programs that keep a predicate of the state on every way out.\<close>

definition keeps :: "('s \<Rightarrow> bool) \<Rightarrow> ('s, 'a) io \<Rightarrow> bool" where
  "keeps P m \<longleftrightarrow> (\<forall>s. P s \<longrightarrow> wp m (\<lambda>_. P) (\<lambda>_. P) s)"

lemma keepsD: "keeps P m \<Longrightarrow> P s \<Longrightarrow> wp m (\<lambda>_. P) (\<lambda>_. P) s"
  by (simp add: keeps_def)

lemma keepsI: "(\<And>s. P s \<Longrightarrow> wp m (\<lambda>_. P) (\<lambda>_. P) s) \<Longrightarrow> keeps P m"
  by (simp add: keeps_def)

named_theorems keeps_intros

lemma keeps_ret [keeps_intros]: "keeps P (ret x)"
  and keeps_raise [keeps_intros]: "keeps P (raise e)"
  and keeps_gets [keeps_intros]: "keeps P (gets f)"
  and keeps_require [keeps_intros]: "keeps P (require b e)"
  by (simp_all add: keeps_def wp_simps)

lemma keeps_lift [keeps_intros]: "keeps P (lift r)"
  by (simp add: keeps_def wp_simps split: sum.splits)

lemma keeps_bind [keeps_intros]: "keeps P m \<Longrightarrow> (\<And>x. keeps P (k x)) \<Longrightarrow> keeps P (bind m k)"
  unfolding keeps_def wp_bind by (blast intro: wp_mono)

lemma keeps_seq [keeps_intros]: "keeps P m \<Longrightarrow> keeps P k \<Longrightarrow> keeps P (seq m k)"
  unfolding keeps_def wp_seq by (blast intro: wp_mono)

lemma keeps_catch [keeps_intros]: "keeps P m \<Longrightarrow> (\<And>e. keeps P (h e)) \<Longrightarrow> keeps P (catch m h)"
  unfolding keeps_def wp_catch by (blast intro: wp_mono)

lemma keeps_try_else [keeps_intros]:
  "keeps P m \<Longrightarrow> (\<And>e. keeps P (h e)) \<Longrightarrow> (\<And>x. keeps P (k x)) \<Longrightarrow> keeps P (try_else m h k)"
  unfolding keeps_def wp_try_else by (blast intro: wp_mono)

lemma keeps_cleanup [keeps_intros]: "keeps P m \<Longrightarrow> keeps P f \<Longrightarrow> keeps P (cleanup m f)"
  unfolding keeps_def wp_cleanup by (blast intro: wp_mono)

lemma keeps_if [keeps_intros]: "keeps P m \<Longrightarrow> keeps P n \<Longrightarrow> keeps P (if b then m else n)"
  by simp

lemma keeps_whenever [keeps_intros]: "keeps P m \<Longrightarrow> keeps P (whenever b m)"
  by (simp add: whenever_def keeps_ret)

lemma keeps_unless [keeps_intros]: "keeps P m \<Longrightarrow> keeps P (unless b m)"
  by (simp add: unless_def keeps_ret)

lemma keeps_modify [keeps_intros]: "(\<And>s. P s \<Longrightarrow> P (f s)) \<Longrightarrow> keeps P (modify f)"
  by (simp add: keeps_def wp_simps)

lemma keeps_case_option [keeps_intros]:
  "keeps P m \<Longrightarrow> (\<And>x. keeps P (n x)) \<Longrightarrow> keeps P (case v of None \<Rightarrow> m | Some x \<Rightarrow> n x)"
  by (cases v) auto

lemma keeps_case_sum [keeps_intros]:
  "(\<And>x. keeps P (m x)) \<Longrightarrow> (\<And>y. keeps P (n y)) \<Longrightarrow> keeps P (case v of Inl x \<Rightarrow> m x | Inr y \<Rightarrow> n y)"
  by (cases v) auto

lemma keeps_case_prod [keeps_intros]:
  "(\<And>x y. keeps P (m x y)) \<Longrightarrow> keeps P (case v of (x, y) \<Rightarrow> m x y)"
  by (cases v) auto

lemma keeps_for_each [keeps_intros]: "(\<And>x. keeps P (f x)) \<Longrightarrow> keeps P (for_each xs f)"
  by (induction xs) (auto intro: keeps_intros)

text \<open>From a kept predicate back to a precondition, and programs that only read.\<close>

lemma wp_keeps: "keeps P m \<Longrightarrow> P s \<Longrightarrow> (\<And>x t. P t \<Longrightarrow> Q x t) \<Longrightarrow> (\<And>e t. P t \<Longrightarrow> E e t) \<Longrightarrow> wp m Q E s"
  by (rule wp_mono[OF keepsD])

lemma reads_result: "keeps ((=) s) m \<Longrightarrow> m s = (r, t) \<Longrightarrow> t = s"
  by (auto simp: keeps_def wp_def split: sum.splits)

end
