(* ===== verification/Cache.thy ===== *)
theory Cache
  imports State_Err
begin

text \<open>
  The shared cache (\<open>django.core.cache\<close>) as the code uses it: \<open>get\<close>, \<open>add\<close>, \<open>set\<close>, \<open>incr\<close>
  and \<open>delete\<close> on text keys. The cache is not code of this repository, so the components take its
  operations as a parameter (\<open>'c cache_ops\<close>). The locale \<open>counter_cache\<close> states what its documentation
  promises about counters; \<open>mem_cache\<close> is a cache with time-outs that provides the operations and
  \<open>mem\<close> shows that it keeps the promises. \<open>outage\<close> is the cache whose every operation raises.
\<close>

record 'c cache_ops =
  c_get :: "string \<Rightarrow> ('c, int option) io"
  c_add :: "string \<Rightarrow> int \<Rightarrow> int \<Rightarrow> ('c, bool) io"
  c_set :: "string \<Rightarrow> int \<Rightarrow> int \<Rightarrow> ('c, unit) io"
  c_incr :: "string \<Rightarrow> ('c, int) io"
  c_delete :: "string \<Rightarrow> ('c, unit) io"

text \<open>\<open>view c\<close> is the contents a reader sees. \<open>add\<close> stores only under an absent key and says
  whether it did; \<open>incr\<close> adds one to a present key and raises for an absent one.\<close>

locale counter_cache =
  fixes ops :: "'c cache_ops"
    and view :: "'c \<Rightarrow> string \<Rightarrow> int option"
  assumes get_law: "c_get ops k c = (Inr (view c k), c)"
    and add_new: "view c k = None \<Longrightarrow> 0 < ttl \<Longrightarrow>
      \<exists>d. c_add ops k v ttl c = (Inr True, d) \<and> view d = (view c)(k \<mapsto> v)"
    and add_old: "view c k = Some w \<Longrightarrow> c_add ops k v ttl c = (Inr False, c)"
    and incr_old: "view c k = Some n \<Longrightarrow>
      \<exists>d. c_incr ops k c = (Inr (n + 1), d) \<and> view d = (view c)(k \<mapsto> n + 1)"
    and delete_law: "\<exists>d. c_delete ops k c = (Inr (), d) \<and> view d = (view c)(k := None)"

section \<open>A cache with time-outs\<close>

record mem =
  mem_now :: int
  mem_entries :: "(string \<times> int \<times> int) list"  \<comment> \<open>key, value, expiry\<close>

definition mem_view :: "mem \<Rightarrow> string \<Rightarrow> int option" where
  "mem_view m k =
     (case map_of (mem_entries m) k of
        None \<Rightarrow> None
      | Some (v, expiry) \<Rightarrow> if mem_now m < expiry then Some v else None)"

definition mem_put :: "string \<Rightarrow> int \<Rightarrow> int \<Rightarrow> mem \<Rightarrow> mem" where
  "mem_put k v expiry m = m\<lparr>mem_entries := (k, v, expiry) # mem_entries m\<rparr>"

definition mem_get :: "string \<Rightarrow> (mem, int option) io" where
  "mem_get k = gets (\<lambda>m. mem_view m k)"

definition mem_add :: "string \<Rightarrow> int \<Rightarrow> int \<Rightarrow> (mem, bool) io" where
  "mem_add k v ttl m =
     (case mem_view m k of
        Some _ \<Rightarrow> (Inr False, m)
      | None \<Rightarrow> (Inr True, mem_put k v (mem_now m + ttl) m))"

definition mem_set :: "string \<Rightarrow> int \<Rightarrow> int \<Rightarrow> (mem, unit) io" where
  "mem_set k v ttl m = (Inr (), mem_put k v (mem_now m + ttl) m)"

definition mem_incr :: "string \<Rightarrow> (mem, int) io" where
  "mem_incr k m =
     (case map_of (mem_entries m) k of
        Some (v, expiry) \<Rightarrow>
          if mem_now m < expiry then (Inr (v + 1), mem_put k (v + 1) expiry m)
          else (Inl (ValueError []), m)
      | None \<Rightarrow> (Inl (ValueError []), m))"

definition mem_delete :: "string \<Rightarrow> (mem, unit) io" where
  "mem_delete k m = (Inr (), m\<lparr>mem_entries := filter (\<lambda>e. fst e \<noteq> k) (mem_entries m)\<rparr>)"

definition mem_cache :: "mem cache_ops" where
  "mem_cache = \<lparr>c_get = mem_get, c_add = mem_add, c_set = mem_set, c_incr = mem_incr, c_delete = mem_delete\<rparr>"

lemma map_of_filter_key: "map_of (filter (\<lambda>e. fst e \<noteq> k) kvs) = (map_of kvs)(k := None)"
  by (induction kvs) (auto simp: fun_eq_iff)

lemma mem_view_put: "mem_now m < expiry \<Longrightarrow> mem_view (mem_put k v expiry m) = (mem_view m)(k \<mapsto> v)"
  by (auto simp: mem_view_def mem_put_def fun_eq_iff split: option.splits)

lemma mem_view_delete:
  "mem_view (m\<lparr>mem_entries := filter (\<lambda>e. fst e \<noteq> k) (mem_entries m)\<rparr>) = (mem_view m)(k := None)"
  by (auto simp: mem_view_def map_of_filter_key fun_eq_iff split: option.splits)

interpretation mem_c: counter_cache mem_cache mem_view
proof
  fix k c show "c_get mem_cache k c = (Inr (mem_view c k), c)"
    by (simp add: mem_cache_def mem_get_def gets_def)
next
  fix c k v and ttl :: int
  assume "mem_view c k = None" "0 < ttl"
  then show "\<exists>d. c_add mem_cache k v ttl c = (Inr True, d) \<and> mem_view d = (mem_view c)(k \<mapsto> v)"
    by (auto simp: mem_cache_def mem_add_def mem_view_put)
next
  fix c k w v and ttl :: int
  assume "mem_view c k = Some w"
  then show "c_add mem_cache k v ttl c = (Inr False, c)"
    by (simp add: mem_cache_def mem_add_def)
next
  fix c k n
  assume "mem_view c k = Some n"
  then show "\<exists>d. c_incr mem_cache k c = (Inr (n + 1), d) \<and> mem_view d = (mem_view c)(k \<mapsto> n + 1)"
    by (auto simp: mem_cache_def mem_incr_def mem_view_put mem_view_def[of c] split: option.splits if_splits)
next
  fix k c
  show "\<exists>d. c_delete mem_cache k c = (Inr (), d) \<and> mem_view d = (mem_view c)(k := None)"
    by (simp add: mem_cache_def mem_delete_def mem_view_delete)
qed

text \<open>The cache during an outage.\<close>

definition outage :: "'c cache_ops" where
  "outage = \<lparr>c_get = (\<lambda>_. raise (OSError EIO)), c_add = (\<lambda>_ _ _. raise (OSError EIO)),
     c_set = (\<lambda>_ _ _. raise (OSError EIO)), c_incr = (\<lambda>_. raise (OSError EIO)),
     c_delete = (\<lambda>_. raise (OSError EIO))\<rparr>"

end
