(* ===== verification/Rate_Limit.thy ===== *)
theory Rate_Limit
  imports Cache
begin

text \<open>
  The authentication rate limiter (\<open>security_rate_limit.py\<close>): \<open>rate_key\<close> is \<open>_key\<close>, \<open>allowed\<close>
  consumes one attempt, \<open>clear\<close> forgets a counter. SHA-256 is the parameter \<open>sha\<close>. The quota is
  proved inside the cache interface and read off for the cache with time-outs.
\<close>

definition key_part :: "pyval \<Rightarrow> string" where
  "key_part part = lower (strip (if truthy part then py_str part else []))"

definition rate_key :: "(string \<Rightarrow> string) \<Rightarrow> string \<Rightarrow> pyval list \<Rightarrow> string" where
  "rate_key sha scope parts =
     (let raw = join ''|'' (scope # map key_part parts)
      in ''paxalia:auth-rate:'' @ scope @ '':'' @ sha (utf8 raw))"

definition allowed ::
  "'c cache_ops \<Rightarrow> (string \<Rightarrow> string) \<Rightarrow> string \<Rightarrow> int \<Rightarrow> int \<Rightarrow> pyval list \<Rightarrow> ('c, bool \<times> int) io"
where
  "allowed ops sha scope limit0 window0 parts =
     (let limit = max 1 limit0; window = max 1 window0; key = rate_key sha scope parts;
          consume = (\<lambda>current.
            if limit \<le> current then ret (False, 0)
            else bind (catch (c_incr ops key)
                        (\<lambda>_. seq (c_set ops key (current + 1) window) (ret (current + 1))))
                   (\<lambda>new_value. ret (new_value \<le> limit, max 0 (limit - new_value))))
      in catch
          (bind (c_get ops key) (\<lambda>current.
             case current of
               None \<Rightarrow> bind (c_add ops key 1 window) (\<lambda>added.
                 if \<not> added
                 then bind (c_get ops key) (\<lambda>v. consume (case v of None \<Rightarrow> 0 | Some n \<Rightarrow> n))
                 else ret (True, max 0 (limit - 1)))
             | Some n \<Rightarrow> consume n))
          (\<lambda>_. ret (True, limit)))"

definition clear :: "'c cache_ops \<Rightarrow> (string \<Rightarrow> string) \<Rightarrow> string \<Rightarrow> pyval list \<Rightarrow> ('c, unit) io" where
  "clear ops sha scope parts = catch (c_delete ops (rate_key sha scope parts)) (\<lambda>_. ret ())"

text \<open>A burst of attempts of one caller; the verdicts in order.\<close>

fun attempts ::
  "nat \<Rightarrow> 'c cache_ops \<Rightarrow> (string \<Rightarrow> string) \<Rightarrow> string \<Rightarrow> int \<Rightarrow> int \<Rightarrow> pyval list \<Rightarrow> ('c, bool list) io"
where
  "attempts 0 ops sha scope limit window parts = ret []"
| "attempts (Suc n) ops sha scope limit window parts =
     bind (allowed ops sha scope limit window parts) (\<lambda>(ok, left).
     bind (attempts n ops sha scope limit window parts) (\<lambda>oks. ret (ok # oks)))"

context counter_cache
begin

lemma allowed_fresh:
  assumes "view c (rate_key sha scope parts) = None"
  shows "\<exists>d. allowed ops sha scope limit window parts c = (Inr (True, max 0 (max 1 limit - 1)), d)
    \<and> view d = (view c)(rate_key sha scope parts \<mapsto> 1)"
proof -
  have "0 < max 1 window" by simp
  from add_new[OF assms this]
  obtain d where "c_add ops (rate_key sha scope parts) 1 (max 1 window) c = (Inr True, d)"
    and "view d = (view c)(rate_key sha scope parts \<mapsto> 1)" by auto
  with assms show ?thesis
    by (simp add: allowed_def Let_def catch_def bind_def get_law ret_def)
qed

lemma allowed_below:
  assumes "view c (rate_key sha scope parts) = Some n" "n < max 1 limit"
  shows "\<exists>d. allowed ops sha scope limit window parts c = (Inr (True, max 0 (max 1 limit - (n + 1))), d)
    \<and> view d = (view c)(rate_key sha scope parts \<mapsto> n + 1)"
proof -
  from incr_old[OF assms(1)]
  obtain d where "c_incr ops (rate_key sha scope parts) c = (Inr (n + 1), d)"
    and "view d = (view c)(rate_key sha scope parts \<mapsto> n + 1)" by auto
  with assms show ?thesis
    by (auto simp: allowed_def Let_def catch_def bind_def get_law ret_def)
qed

lemma allowed_full:
  assumes "view c (rate_key sha scope parts) = Some n" "max 1 limit \<le> n"
  shows "allowed ops sha scope limit window parts c = (Inr (False, 0), c)"
  using assms by (auto simp: allowed_def Let_def catch_def bind_def get_law ret_def)

lemma attempts_counted:
  assumes "view c (rate_key sha scope parts) = Some (int k)"
  shows "\<exists>d. attempts n ops sha scope limit window parts c
     = (Inr (map (\<lambda>i. int (k + i) < max 1 limit) [0..<n]), d)"
  using assms
proof (induction n arbitrary: c k)
  case 0
  then show ?case by (simp add: ret_def)
next
  case (Suc n)
  have shift: "map (\<lambda>i. int (k + i) < max 1 limit) [0..<Suc n]
      = (int k < max 1 limit) # map (\<lambda>i. int (Suc k + i) < max 1 limit) [0..<n]"
    by (simp add: upt_conv_Cons map_Suc_upt[symmetric] add.left_commute del: upt_Suc)
  show ?case
  proof (cases "int k < max 1 limit")
    case True
    then obtain d l where d: "allowed ops sha scope limit window parts c = (Inr (True, l), d)"
      and "view d (rate_key sha scope parts) = Some (int (Suc k))"
      using allowed_below[OF Suc.prems] by fastforce
    with Suc.IH[of d "Suc k"] obtain e where
      "attempts n ops sha scope limit window parts d
        = (Inr (map (\<lambda>i. int (Suc k + i) < max 1 limit) [0..<n]), e)" by blast
    with d True show ?thesis unfolding shift by (auto simp: bind_def ret_def)
  next
    case False
    then have full: "allowed ops sha scope limit window parts c = (Inr (False, 0), c)"
      by (intro allowed_full[OF Suc.prems]) linarith
    from Suc.IH[OF Suc.prems] obtain e where
      "attempts n ops sha scope limit window parts c
        = (Inr (map (\<lambda>i. int (k + i) < max 1 limit) [0..<n]), e)" by blast
    moreover from False have "map (\<lambda>i. int (k + i) < max 1 limit) [0..<n]
        = map (\<lambda>i. int (Suc k + i) < max 1 limit) [0..<n]" by auto
    ultimately show ?thesis using full False unfolding shift by (simp add: bind_def ret_def)
  qed
qed

lemma attempts_quota:
  assumes "view c (rate_key sha scope parts) = None"
  shows "\<exists>d. attempts n ops sha scope limit window parts c
     = (Inr (map (\<lambda>i. int i < max 1 limit) [0..<n]), d)"
proof (cases n)
  case 0
  then show ?thesis by (simp add: ret_def)
next
  case (Suc m)
  from allowed_fresh[OF assms] obtain d l where
    d: "allowed ops sha scope limit window parts c = (Inr (True, l), d)"
    and v: "view d (rate_key sha scope parts) = Some (int 1)" by fastforce
  from attempts_counted[OF v] obtain e where
    "attempts m ops sha scope limit window parts d
      = (Inr (map (\<lambda>i. int (1 + i) < max 1 limit) [0..<m]), e)" by blast
  moreover have "map (\<lambda>i. int i < max 1 limit) [0..<Suc m]
      = True # map (\<lambda>i. int (1 + i) < max 1 limit) [0..<m]"
    by (simp add: upt_conv_Cons map_Suc_upt[symmetric] del: upt_Suc)
  ultimately show ?thesis using d Suc by (simp add: bind_def ret_def)
qed

lemma allowed_other_keys:
  assumes "k \<noteq> rate_key sha scope parts"
  shows "view (snd (allowed ops sha scope limit window parts c)) k = view c k"
proof (cases "view c (rate_key sha scope parts)")
  case None
  with allowed_fresh[OF None] assms show ?thesis by (metis fun_upd_apply snd_conv)
next
  case (Some n)
  then show ?thesis
    using allowed_below[OF Some] allowed_full[OF Some] assms
    by (metis fun_upd_apply linorder_not_less snd_conv)
qed

end

text \<open>C3: within one window a caller with no recorded attempt gets exactly the configured number of
  attempts (one, if the configured number is not positive): the first \<open>limit\<close> attempts of a burst
  of any length are allowed and all later ones are refused.\<close>

theorem rate_limit_quota:
  assumes "mem_view m (rate_key sha scope parts) = None"
  shows "fst (attempts n mem_cache sha scope limit window parts m)
     = Inr (map (\<lambda>i. int i < max 1 limit) [0..<n])"
  using mem_c.attempts_quota[OF assms] by (metis fst_conv)

theorem rate_limit_quota_witness:
  "fst (attempts 5 mem_cache id ''login'' 3 900 [PStr '' Root '', PNone] \<lparr>mem_now = 100, mem_entries = []\<rparr>)
     = Inr [True, True, True, False, False]"
proof -
  have "mem_view \<lparr>mem_now = 100, mem_entries = []\<rparr> (rate_key id ''login'' [PStr '' Root '', PNone]) = None"
    by (simp add: mem_view_def)
  from rate_limit_quota[OF this, of 5 3 900] show ?thesis
    by (simp add: upt_rec)
qed

text \<open>A cache outage never blocks an administrator and never leaves a trace: every attempt is
  allowed with the whole quota reported, and \<open>clear\<close> succeeds.\<close>

theorem rate_limit_fails_open:
  "allowed outage sha scope limit window parts c = (Inr (True, max 1 limit), c)
   \<and> clear outage sha scope parts c = (Inr (), c)"
  by (simp add: allowed_def clear_def outage_def Let_def catch_def bind_def raise_def ret_def)

text \<open>Attempts of one caller never change the counter of another.\<close>

theorem rate_limit_separation:
  assumes "rate_key sha scope' parts' \<noteq> rate_key sha scope parts"
  shows "mem_view (snd (allowed mem_cache sha scope limit window parts m)) (rate_key sha scope' parts')
     = mem_view m (rate_key sha scope' parts')"
  using assms by (rule mem_c.allowed_other_keys)

theorem rate_limit_separation_witness:
  "mem_view (snd (allowed mem_cache id ''2fa'' 5 300 [PStr ''7''] \<lparr>mem_now = 0, mem_entries = []\<rparr>))
     (rate_key id ''login'' [PStr ''7''])
   = mem_view \<lparr>mem_now = 0, mem_entries = []\<rparr> (rate_key id ''login'' [PStr ''7''])"
  by (rule rate_limit_separation) code_simp

end
