(* ===== verification/Config.thy ===== *)
theory Config
  imports State_Err
begin

text \<open>
  The configuration layer: \<open>settings.get_config\<close> (the host project's \<open>PAXALIA_DASHBOARD\<close>
  dictionary over the package defaults) and the numeric policies derived from it by
  \<open>server_files/policy.py\<close>, \<open>transfer_center/policy.py\<close>, \<open>conf_uploads.py\<close> and
  \<open>packages/engine.py\<close>. Each getter is total on the value a host may put under its key: it returns
  a bounded number or raises the exception the code raises.
\<close>

type_synonym settings = "(string \<times> pyval) list"

section \<open>Defaults\<close>

definition defaults_server_files :: settings where
  "defaults_server_files =
    [(''UPLOADS_INCOMING_ROOT'', PNone),
     (''UPLOAD_CHUNK_SIZE_MB'', PInt 5),
     (''UPLOAD_MAX_FILE_SIZE_MB'', PInt 2048),
     (''DATA_IMPORT_MAX_FILE_SIZE_MB'', PInt 100),
     (''UPLOAD_SESSION_TTL_HOURS'', PInt 24),
     (''FILE_MANAGER_ENABLED'', PBool False),
     (''FILE_MANAGER_ALLOWED_ROOTS'', PList []),
     (''FILE_MANAGER_DENIED_PATHS'', PList []),
     (''FILE_MANAGER_SENSITIVE_PATTERNS'', PNone),
     (''FILE_MANAGER_ALLOW_HIDDEN'', PBool False),
     (''FILE_MANAGER_ALLOW_SENSITIVE_MUTATIONS'', PBool False),
     (''FILE_MANAGER_MAX_UPLOAD_SIZE_MB'', PInt 100),
     (''FILE_MANAGER_MAX_DOWNLOAD_SIZE_MB'', PInt 1024),
     (''FILE_MANAGER_PREVIEW_MAX_BYTES'', PInt 262144),
     (''FILE_MANAGER_DIRECTORY_PAGE_SIZE'', PInt 100),
     (''FILE_MANAGER_HISTORY_PAGE_SIZE'', PInt 50),
     (''FILE_MANAGER_MAX_DIRECTORY_ENTRIES'', PInt 10000),
     (''FILE_MANAGER_MAX_COPY_SIZE_MB'', PInt 100),
     (''FILE_MANAGER_MAX_MUTATIONS_PER_MINUTE'', PInt 30),
     (''FILE_MANAGER_MAX_READS_PER_MINUTE'', PInt 120),
     (''FILE_MANAGER_RATE_LIMIT_WINDOW_SECONDS'', PInt 60),
     (''FILE_MANAGER_MAX_OPERATION_RECORDS'', PInt 20000),
     (''FILE_MANAGER_OPERATION_RETENTION_DAYS'', PInt 90),
     (''FILE_MANAGER_CLEANUP_BATCH_SIZE'', PInt 500)]"

definition defaults_transfer :: settings where
  "defaults_transfer =
    [(''TRANSFER_CENTER_ENABLED'', PBool True),
     (''TRANSFER_ROOT'', PNone),
     (''TRANSFER_EXCHANGE_ROOT'', PNone),
     (''TRANSFER_EXCHANGE_LIST_LIMIT'', PInt 200),
     (''TRANSFER_MAX_FILE_SIZE_MB'', PInt 2048),
     (''TRANSFER_CHUNK_SIZE_MB'', PInt 5),
     (''TRANSFER_MAX_CONCURRENT'', PInt 3),
     (''TRANSFER_MAX_RETRIES'', PInt 5),
     (''TRANSFER_RETRY_DELAY_SECONDS'', PInt 2),
     (''TRANSFER_STAGING_TTL_HOURS'', PInt 24),
     (''TRANSFER_SYNC_VERIFY_MAX_MB'', PInt 50),
     (''TRANSFER_ALLOW_SYNC_LARGE_PROMOTION'', PBool False),
     (''TRANSFER_CLEANUP_BATCH_SIZE'', PInt 100),
     (''TRANSFER_STAGING_SCAN_LIMIT'', PInt 5000),
     (''TRANSFER_BROWSER_MAX_RECEIVE_MB'', PInt 512),
     (''TRANSFER_MAX_REQUESTS_PER_MINUTE'', PInt 120),
     (''TRANSFER_RATE_LIMIT_WINDOW_SECONDS'', PInt 60)]"

definition defaults_availability :: settings where
  "defaults_availability =
    [(''AVAILABILITY_DEFAULT_INTERVAL_SECONDS'', PInt 300),
     (''AVAILABILITY_MIN_INTERVAL_SECONDS'', PInt 30),
     (''AVAILABILITY_MAX_INTERVAL_SECONDS'', PInt 86400),
     (''AVAILABILITY_DEFAULT_TIMEOUT_SECONDS'', PInt 10),
     (''AVAILABILITY_FAILURE_THRESHOLD'', PInt 2),
     (''AVAILABILITY_RECOVERY_THRESHOLD'', PInt 2),
     (''AVAILABILITY_MAX_RESPONSE_BYTES'', PInt 262144),
     (''AVAILABILITY_MAX_REQUEST_BODY_BYTES'', PInt 65536),
     (''AVAILABILITY_LOG_CORRELATION_WINDOW_SECONDS'', PInt 300),
     (''AVAILABILITY_HISTORY_RETENTION_DAYS'', PInt 90),
     (''AVAILABILITY_MAX_CHECK_RECORDS'', PInt 500000),
     (''AVAILABILITY_CLEANUP_BATCH_SIZE'', PInt 500),
     (''AVAILABILITY_ALLOWED_METHODS'', PList [PStr ''GET'', PStr ''HEAD'', PStr ''POST'']),
     (''AVAILABILITY_MAX_CHECKS_PER_RUN'', PInt 100),
     (''AVAILABILITY_MAX_SCHEDULER_SCAN'', PInt 1000)]"

definition defaults_auth :: settings where
  "defaults_auth =
    [(''ADMIN_MAX_DEVICES'', PInt 5),
     (''ADMIN_SESSION_MAX_AGE_SECONDS'', PInt (8 * 60 * 60)),
     (''SECURITY_LOGIN_RATE_LIMIT_ATTEMPTS'', PInt 8),
     (''SECURITY_LOGIN_RATE_LIMIT_WINDOW_SECONDS'', PInt (15 * 60)),
     (''SECURITY_2FA_RATE_LIMIT_ATTEMPTS'', PInt 5),
     (''SECURITY_2FA_RATE_LIMIT_WINDOW_SECONDS'', PInt (5 * 60)),
     (''SECURITY_DEVICE_RATE_LIMIT_ATTEMPTS'', PInt 5),
     (''SECURITY_DEVICE_RATE_LIMIT_WINDOW_SECONDS'', PInt (5 * 60)),
     (''WEBAUTHN_CHALLENGE_TTL_SECONDS'', PInt 120),
     (''WEBAUTHN_RP_NAME'', PStr ''Paxalia Dashboard''),
     (''WEBAUTHN_RP_ID'', PNone),
     (''WEBAUTHN_ORIGIN'', PNone),
     (''AUTH_BRAND_NAME'', PStr ''Paxalia''),
     (''AUTH_HOME_URL'', PStr ''/''),
     (''AUTH_ADMIN_HOME_URL'', PNone),
     (''AUTH_SUPPORT_URL'', PNone),
     (''AUTH_USE_HOST_LOGIN'', PBool False),
     (''AUTH_LOGIN_URL'', PNone),
     (''AUTH_ISOLATED_AUTHENTICATION_BACKENDS'', PNone),
     (''AUTH_HOST_2FA_URL_NAMES'', PTuple []),
     (''AUTH_HOST_2FA_INTENT_TTL_SECONDS'', PInt 600),
     (''AUTH_HOST_2FA_HANDOFF_COOKIE_NAME'', PStr ''paxalia_admin_handoff''),
     (''AUTH_ISOLATED_SESSION_COOKIE_NAME'', PStr ''paxalia_admin_session''),
     (''AUTH_ISOLATED_SESSION_COOKIE_SAMESITE'', PStr ''Lax''),
     (''AUTH_ISOLATED_SESSION_COOKIE_DOMAIN'', PNone),
     (''AUTH_SIGNUP_ENABLED'', PBool True),
     (''AUTH_PASSWORD_RESET_ENABLED'', PBool True),
     (''AUTH_PASSWORD_CHANGE_ENABLED'', PBool True),
     (''ERROR_BRAND_NAME'', PStr ''Paxalia''),
     (''ERROR_HOME_URL'', PStr ''/''),
     (''ERROR_SUPPORT_URL'', PNone),
     (''SECURITY_RECOVERY_CODE_COUNT'', PInt 10)]"

definition defaults_packages :: settings where
  "defaults_packages =
    [(''PACKAGE_MAX_FILE_SIZE_MB'', PInt 100),
     (''PACKAGE_MAX_OBJECTS'', PInt 10000),
     (''PACKAGE_MAX_RELATIONS'', PInt 50000),
     (''PACKAGE_REQUIRE_ENCRYPTION_FOR_PROTECTED'', PBool True),
     (''PACKAGE_ALLOWED_CONFLICTS'', PList [PStr ''update'', PStr ''skip''])]"

definition DEFAULTS :: settings where
  "DEFAULTS = defaults_server_files @ defaults_transfer @ defaults_availability @ defaults_packages @ defaults_auth"

text \<open>\<open>get_config().get(name, default)\<close>: the host's value, else the package default, else the
  caller's default.\<close>

definition get_config :: "settings \<Rightarrow> settings" where
  "get_config user = user @ DEFAULTS"

definition cfg_get :: "settings \<Rightarrow> string \<Rightarrow> pyval \<Rightarrow> pyval" where
  "cfg_get user name d = (case map_of (get_config user) name of None \<Rightarrow> d | Some v \<Rightarrow> v)"

lemma cfg_get_user [simp]: "cfg_get ((k, v) # user) k d = v"
  by (simp add: cfg_get_def get_config_def)

text \<open>\<open>try: int(v) except (TypeError, ValueError): default\<close>; any other exception escapes.\<close>

fun int_or :: "int \<Rightarrow> pyval \<Rightarrow> int res" where
  "int_or d v =
     (case py_int v of
        Inr i \<Rightarrow> Inr i
      | Inl TypeError \<Rightarrow> Inr d
      | Inl (ValueError m) \<Rightarrow> Inr d
      | Inl e \<Rightarrow> Inl e)"

definition MiB :: int where "MiB = 1024 * 1024"

section \<open>Server Files limits\<close>

definition sf_config_error :: "string \<Rightarrow> exn" where
  "sf_config_error m = ServerFiles SfConfiguration m"

definition positive_int :: "settings \<Rightarrow> string \<Rightarrow> int \<Rightarrow> int \<Rightarrow> int res" where
  "positive_int st name dflt maximum =
     (let err = sf_config_error (''Invalid '' @ name @ '' configuration.'');
          value = cfg_get st name (PInt dflt)
      in case value of
           PBool b \<Rightarrow> Inl err
         | _ \<Rightarrow> (case py_int value of
                  Inl e \<Rightarrow> Inl err
                | Inr i \<Rightarrow> if i \<le> 0 \<or> maximum < i then Inl err else Inr i))"

record sf_limits =
  upload_bytes :: int
  download_bytes :: int
  preview_bytes :: int
  page_size :: int
  scan_limit :: int
  copy_bytes :: int
  rate_limit :: int
  read_rate_limit :: int
  rate_window :: int

definition limits :: "settings \<Rightarrow> sf_limits res" where
  "limits st =
     bind_res (positive_int st ''FILE_MANAGER_MAX_UPLOAD_SIZE_MB'' 100 (1024 * 1024)) (\<lambda>up.
     bind_res (positive_int st ''FILE_MANAGER_MAX_DOWNLOAD_SIZE_MB'' 1024 (1024 * 1024)) (\<lambda>down.
     bind_res (positive_int st ''FILE_MANAGER_PREVIEW_MAX_BYTES'' 262144 (16 * 1024 * 1024)) (\<lambda>prev.
     bind_res (positive_int st ''FILE_MANAGER_DIRECTORY_PAGE_SIZE'' 100 500) (\<lambda>page.
     bind_res (positive_int st ''FILE_MANAGER_MAX_DIRECTORY_ENTRIES'' 10000 100000) (\<lambda>scan.
     bind_res (positive_int st ''FILE_MANAGER_MAX_COPY_SIZE_MB'' 100 (1024 * 1024)) (\<lambda>cp.
     bind_res (positive_int st ''FILE_MANAGER_MAX_MUTATIONS_PER_MINUTE'' 30 10000) (\<lambda>rate.
     bind_res (positive_int st ''FILE_MANAGER_MAX_READS_PER_MINUTE'' 120 10000) (\<lambda>reads.
     bind_res (positive_int st ''FILE_MANAGER_RATE_LIMIT_WINDOW_SECONDS'' 60 3600) (\<lambda>win.
       Inr \<lparr>upload_bytes = up * 1024 * 1024, download_bytes = down * 1024 * 1024,
            preview_bytes = prev, page_size = page, scan_limit = scan,
            copy_bytes = cp * 1024 * 1024, rate_limit = rate, read_rate_limit = reads,
            rate_window = win\<rparr>)))))))))"

definition maximum_operation_records :: "settings \<Rightarrow> int res" where
  "maximum_operation_records st = positive_int st ''FILE_MANAGER_MAX_OPERATION_RECORDS'' 20000 10000000"

definition operation_retention_days :: "settings \<Rightarrow> int res" where
  "operation_retention_days st = positive_int st ''FILE_MANAGER_OPERATION_RETENTION_DAYS'' 90 36500"

definition cleanup_batch_size :: "settings \<Rightarrow> int res" where
  "cleanup_batch_size st = positive_int st ''FILE_MANAGER_CLEANUP_BATCH_SIZE'' 500 10000"

lemma positive_int_cases:
  "positive_int st name d m = (let err = sf_config_error (''Invalid '' @ name @ '' configuration.'') in
     if (\<exists>b. cfg_get st name (PInt d) = PBool b) then Inl err
     else case py_int (cfg_get st name (PInt d)) of Inl e \<Rightarrow> Inl err
          | Inr i \<Rightarrow> if i \<le> 0 \<or> m < i then Inl err else Inr i)"
  by (auto simp: positive_int_def Let_def split: pyval.splits)

lemma positive_int_bounds: "positive_int st name d m = Inr i \<Longrightarrow> 0 < i \<and> i \<le> m"
  by (auto simp: positive_int_cases Let_def split: if_splits sum.splits)

lemma positive_int_error:
  "positive_int st name d m = Inl e \<Longrightarrow> e = sf_config_error (''Invalid '' @ name @ '' configuration.'')"
  by (auto simp: positive_int_cases Let_def split: if_splits sum.splits)

section \<open>Transfer Center numbers\<close>

definition transfer_enabled :: "settings \<Rightarrow> bool" where
  "transfer_enabled st = truthy (cfg_get st ''TRANSFER_CENTER_ENABLED'' (PBool True))"

definition max_transfer_bytes :: "settings \<Rightarrow> int res" where
  "max_transfer_bytes st =
     bind_res (int_or 2048 (cfg_get st ''TRANSFER_MAX_FILE_SIZE_MB'' (PInt 2048)))
       (\<lambda>mb. Inr (max 1 mb * 1024 * 1024))"

definition chunk_size_bytes :: "settings \<Rightarrow> int res" where
  "chunk_size_bytes st =
     bind_res (int_or 5 (cfg_get st ''TRANSFER_CHUNK_SIZE_MB'' (PInt 5)))
       (\<lambda>mb. Inr (max 1 (min mb 64) * 1024 * 1024))"

definition max_concurrent_transfers :: "settings \<Rightarrow> int res" where
  "max_concurrent_transfers st =
     bind_res (int_or 3 (cfg_get st ''TRANSFER_MAX_CONCURRENT'' (PInt 3))) (\<lambda>n. Inr (max 1 n))"

definition max_retries :: "settings \<Rightarrow> int res" where
  "max_retries st =
     bind_res (int_or 5 (cfg_get st ''TRANSFER_MAX_RETRIES'' (PInt 5))) (\<lambda>n. Inr (max 0 n))"

definition retry_delay_seconds :: "settings \<Rightarrow> int res" where
  "retry_delay_seconds st =
     bind_res (int_or 2 (cfg_get st ''TRANSFER_RETRY_DELAY_SECONDS'' (PInt 2)))
       (\<lambda>n. Inr (max 1 (min n 300)))"

definition expiration_hours :: "settings \<Rightarrow> int res" where
  "expiration_hours st =
     bind_res (int_or 24 (cfg_get st ''TRANSFER_STAGING_TTL_HOURS'' (PInt 24))) (\<lambda>n. Inr (max 1 n))"

definition sync_verify_max_bytes :: "settings \<Rightarrow> int res" where
  "sync_verify_max_bytes st =
     bind_res (int_or 50 (cfg_get st ''TRANSFER_SYNC_VERIFY_MAX_MB'' (PInt 50)))
       (\<lambda>mb. Inr (max 0 mb * 1024 * 1024))"

section \<open>Upload numbers and extensions\<close>

text \<open>\<open>conf_uploads._config\<close> reads the host dictionary without the package defaults.\<close>

definition upload_cfg :: "settings \<Rightarrow> string \<Rightarrow> pyval \<Rightarrow> pyval" where
  "upload_cfg st name d = (case map_of st name of None \<Rightarrow> d | Some v \<Rightarrow> v)"

definition get_upload_chunk_size_bytes :: "settings \<Rightarrow> int res" where
  "get_upload_chunk_size_bytes st =
     bind_res (py_int (upload_cfg st ''UPLOAD_CHUNK_SIZE_MB'' (PInt 5))) (\<lambda>mb. Inr (mb * 1024 * 1024))"

definition get_upload_max_file_size_bytes :: "settings \<Rightarrow> int option res" where
  "get_upload_max_file_size_bytes st =
     (let mb = upload_cfg st ''UPLOAD_MAX_FILE_SIZE_MB'' (PInt 2048) in
      if \<not> truthy mb then Inr None
      else bind_res (py_int mb) (\<lambda>n. Inr (Some (n * 1024 * 1024))))"

definition DEFAULT_BLOCKED_EXTENSIONS :: "string list" where
  "DEFAULT_BLOCKED_EXTENSIONS =
     [''.php'', ''.php3'', ''.php4'', ''.php5'', ''.php7'', ''.phtml'', ''.phar'',
      ''.py'', ''.pyc'', ''.pyo'', ''.pyw'', ''.rb'', ''.pl'', ''.cgi'',
      ''.jsp'', ''.jspx'', ''.asp'', ''.aspx'', ''.ashx'',
      ''.sh'', ''.bash'', ''.bat'', ''.cmd'',
      ''.htaccess'', ''.htpasswd'']"

text \<open>Iterating a configured collection: a list, a tuple, the keys of a dictionary or the characters
  of a text; anything else is a \<open>TypeError\<close>.\<close>

fun py_iter :: "pyval \<Rightarrow> pyval list res" where
  "py_iter (PList xs) = Inr xs"
| "py_iter (PTuple xs) = Inr xs"
| "py_iter (PDict kvs) = Inr (map fst kvs)"
| "py_iter (PStr s) = Inr (map (\<lambda>c. PStr [c]) s)"
| "py_iter (PBytes s) = Inr (map (\<lambda>c. PInt (int (code c))) s)"
| "py_iter v = Inl TypeError"

definition get_upload_blocked_extensions :: "settings \<Rightarrow> string list res" where
  "get_upload_blocked_extensions st =
     (case upload_cfg st ''UPLOAD_BLOCKED_EXTENSIONS'' PNone of
        PNone \<Rightarrow> Inr DEFAULT_BLOCKED_EXTENSIONS
      | v \<Rightarrow> bind_res (py_iter v) (\<lambda>xs. Inr (map (\<lambda>e. lower (py_str e)) xs)))"

definition get_upload_allowed_extensions :: "settings \<Rightarrow> string list option res" where
  "get_upload_allowed_extensions st =
     (case upload_cfg st ''UPLOAD_ALLOWED_EXTENSIONS'' PNone of
        PNone \<Rightarrow> Inr None
      | v \<Rightarrow> bind_res (py_iter v) (\<lambda>xs. Inr (Some (map (\<lambda>e. lower (py_str e)) xs))))"

section \<open>Package bounds\<close>

definition max_package_bytes :: "settings \<Rightarrow> int res" where
  "max_package_bytes st =
     (case py_int (cfg_get st ''PACKAGE_MAX_FILE_SIZE_MB'' (PInt 100)) of
        Inr n \<Rightarrow> Inr (max 1 n * 1024 * 1024)
      | Inl TypeError \<Rightarrow> Inr (100 * 1024 * 1024)
      | Inl (ValueError m) \<Rightarrow> Inr (100 * 1024 * 1024)
      | Inl e \<Rightarrow> Inl e)"

definition max_records :: "settings \<Rightarrow> int res" where
  "max_records st =
     bind_res (int_or 10000 (cfg_get st ''PACKAGE_MAX_OBJECTS'' (PInt 10000)))
       (\<lambda>n. Inr (max 1 (min n 1000000)))"

definition max_relations :: "settings \<Rightarrow> int res" where
  "max_relations st =
     (let v = cfg_get st ''PACKAGE_MAX_RELATIONS'' (PInt 50000) in
      bind_res (int_or 50000 (if truthy v then v else PInt 50000))
        (\<lambda>n. Inr (max 1 (min n 1000000))))"

lemmas transfer_number_defs = max_transfer_bytes_def chunk_size_bytes_def
  max_concurrent_transfers_def max_retries_def retry_delay_seconds_def expiration_hours_def
  sync_verify_max_bytes_def

lemma int_or_error: "int_or d v = Inl e \<Longrightarrow> e = OverflowError \<and> v = PInf"
  by (cases v) (auto split: option.splits)

lemma int_or_finite: "v \<noteq> PInf \<Longrightarrow> \<exists>i. int_or d v = Inr i"
  using int_or_error by (metis sum.exhaust)

section \<open>Properties\<close>

lemma limits_page_size: "limits st = Inr l \<Longrightarrow> 1 \<le> page_size l"
  unfolding limits_def bind_res_eq_Inr by (auto dest!: positive_int_bounds)

text \<open>A valid set of Server Files limits is bounded on every field, whatever the host
  configured: no limit is zero or negative, the byte limits are at most a tebibyte (16 MiB for
  previews), the counts at most the hard caps in the code.\<close>

theorem limits_bounded:
  assumes "limits st = Inr l"
  shows "0 < upload_bytes l \<and> upload_bytes l \<le> 2 ^ 40 \<and> 0 < download_bytes l \<and> download_bytes l \<le> 2 ^ 40
    \<and> 0 < preview_bytes l \<and> preview_bytes l \<le> 2 ^ 24 \<and> 0 < page_size l \<and> page_size l \<le> 500
    \<and> 0 < scan_limit l \<and> scan_limit l \<le> 100000 \<and> 0 < copy_bytes l \<and> copy_bytes l \<le> 2 ^ 40
    \<and> 0 < rate_limit l \<and> rate_limit l \<le> 10000 \<and> 0 < read_rate_limit l \<and> read_rate_limit l \<le> 10000
    \<and> 0 < rate_window l \<and> rate_window l \<le> 3600"
  using assms unfolding limits_def bind_res_eq_Inr
  by (auto dest!: positive_int_bounds)

theorem limits_bounded_witness:
  "0 < upload_bytes \<lparr>upload_bytes = 7 * 1024 * 1024, download_bytes = 1024 * 1024 * 1024,
     preview_bytes = 262144, page_size = 100, scan_limit = 10000, copy_bytes = 100 * 1024 * 1024,
     rate_limit = 30, read_rate_limit = 120, rate_window = 60\<rparr>"
proof -
  have "limits [(''FILE_MANAGER_MAX_UPLOAD_SIZE_MB'', PStr '' 7 '')] = Inr \<lparr>upload_bytes = 7 * 1024 * 1024,
     download_bytes = 1024 * 1024 * 1024, preview_bytes = 262144, page_size = 100, scan_limit = 10000,
     copy_bytes = 100 * 1024 * 1024, rate_limit = 30, read_rate_limit = 120, rate_window = 60\<rparr>"
    by code_simp
  from limits_bounded[OF this] show ?thesis by simp
qed

text \<open>The Transfer Center numbers fail in exactly one way: every configured value except a
  floating-point infinity yields a number, the chunk size is then between 1 MiB and 64 MiB, and
  an infinity escapes as an uncaught \<open>OverflowError\<close>.\<close>

theorem chunk_size_total:
  "chunk_size_bytes st =
     (if cfg_get st ''TRANSFER_CHUNK_SIZE_MB'' (PInt 5) = PInf then Inl OverflowError
      else Inr (max MiB (min (64 * MiB) (MiB * projr (int_or 5 (cfg_get st ''TRANSFER_CHUNK_SIZE_MB'' (PInt 5)))))))"
proof (cases "cfg_get st ''TRANSFER_CHUNK_SIZE_MB'' (PInt 5) = PInf")
  case True
  then show ?thesis by (simp add: chunk_size_bytes_def)
next
  case False
  then obtain i where "int_or 5 (cfg_get st ''TRANSFER_CHUNK_SIZE_MB'' (PInt 5)) = Inr i"
    using int_or_finite by blast
  with False show ?thesis
    by (simp add: chunk_size_bytes_def MiB_def del: int_or.simps)
qed

end
