(* ===== verification/Posix_Path.thy ===== *)
theory Posix_Path
  imports Prelude
begin

text \<open>
  The parts of Python's standard library the path policies call: the lexical functions of
  \<open>os.path\<close> on POSIX (\<open>isabs\<close>, \<open>normpath\<close>, \<open>abspath\<close>, \<open>basename\<close>, \<open>splitext\<close>,
  \<open>commonpath\<close>, \<open>relpath\<close>) and \<open>fnmatch.fnmatchcase\<close>. They look at strings only and never at
  the file system.
\<close>

definition isabs :: "string \<Rightarrow> bool" where
  "isabs p = starts_with p ''/''"

definition path_comps :: "string \<Rightarrow> string list" where
  "path_comps p = filter (\<lambda>c. c \<noteq> [] \<and> c \<noteq> ''.'') (split_on CHR ''/'' p)"

text \<open>The component stack of \<open>normpath\<close>, innermost component first; \<open>rooted\<close> tells whether the
  path starts with a slash.\<close>

fun norm_comps :: "bool \<Rightarrow> string list \<Rightarrow> string list \<Rightarrow> string list" where
  "norm_comps rooted acc [] = rev acc"
| "norm_comps rooted acc (c # cs) =
     (if c = ''..'' then
        (if (\<not> rooted \<and> acc = []) \<or> (acc \<noteq> [] \<and> hd acc = ''..'') then norm_comps rooted (c # acc) cs
         else norm_comps rooted (tl acc) cs)
      else norm_comps rooted (c # acc) cs)"

definition initial_slashes :: "string \<Rightarrow> string" where
  "initial_slashes p =
     (if starts_with p ''//'' \<and> \<not> starts_with p ''///'' then ''//''
      else if starts_with p ''/'' then ''/'' else [])"

definition normpath :: "string \<Rightarrow> string" where
  "normpath p =
     (let r = initial_slashes p @ join ''/'' (norm_comps (isabs p) [] (path_comps p))
      in if r = [] then ''.'' else r)"

definition path_join :: "string \<Rightarrow> string \<Rightarrow> string" where
  "path_join a b = (if isabs b then b else if a = [] \<or> ends_with a ''/'' then a @ b else a @ ''/'' @ b)"

definition abspath :: "string \<Rightarrow> string \<Rightarrow> string" where
  "abspath cwd p = normpath (if isabs p then p else path_join cwd p)"

definition basename :: "string \<Rightarrow> string" where
  "basename p = last (split_on CHR ''/'' p)"

text \<open>\<open>os.path.splitext(name)[1]\<close>: from the last dot of the last component, unless only dots
  precede it.\<close>

definition splitext_ext :: "string \<Rightarrow> string" where
  "splitext_ext p =
     (let b = basename p; parts = split_on CHR ''.'' b
      in if length parts < 2 then []
         else if \<forall>q \<in> set (butlast parts). q = [] then []
         else CHR ''.'' # last parts)"

fun common_prefix :: "string list \<Rightarrow> string list \<Rightarrow> string list" where
  "common_prefix (x # xs) (y # ys) = (if x = y then x # common_prefix xs ys else [])"
| "common_prefix xs ys = []"

definition commonpath :: "string \<Rightarrow> string \<Rightarrow> string res" where
  "commonpath p q =
     (if isabs p \<noteq> isabs q then Inl (ValueError [])
      else Inr ((if isabs p then ''/'' else []) @ join ''/'' (common_prefix (path_comps p) (path_comps q))))"

definition relpath :: "string \<Rightarrow> string \<Rightarrow> string" where
  "relpath p start =
     (let ps = path_comps (normpath p); ss = path_comps (normpath start); n = length (common_prefix ps ss);
          rel = replicate (length ss - n) ''..'' @ drop n ps
      in if rel = [] then ''.'' else join ''/'' rel)"

section \<open>fnmatch\<close>

text \<open>\<open>FClass neg rs\<close> is a bracket expression: a list of character ranges, possibly negated.\<close>

datatype fn_tok = FStar | FAny | FChar char | FClass bool "(char \<times> char) list"

fun class_ranges :: "string \<Rightarrow> (char \<times> char) list" where
  "class_ranges (a # h # b # s) =
     (if h = CHR ''-'' then (a, b) # class_ranges s else (a, a) # class_ranges (h # b # s))"
| "class_ranges (a # s) = (a, a) # class_ranges s"
| "class_ranges [] = []"

text \<open>Where a bracket expression whose text follows ends: its inside and what is left, if it is
  closed at all. A closing bracket in first place is an ordinary character.\<close>

definition bracket_split :: "string \<Rightarrow> (string \<times> string) option" where
  "bracket_split s =
     (let n = (if starts_with s ''!'' then 1 else 0);
          m = (if starts_with (drop n s) '']'' then n + 1 else n);
          body = takeWhile (\<lambda>c. c \<noteq> CHR '']'') (drop m s);
          k = m + length body
      in if k < length s then Some (take k s, drop (Suc k) s) else None)"

lemma bracket_split_shorter: "bracket_split s = Some (a, b) \<Longrightarrow> length b < length s"
  by (auto simp: bracket_split_def Let_def split: if_splits)

function fn_tokens :: "string \<Rightarrow> fn_tok list" where
  "fn_tokens [] = []"
| "fn_tokens (c # s) =
     (if c = CHR ''*'' then FStar # fn_tokens s
      else if c = CHR ''?'' then FAny # fn_tokens s
      else if c = CHR ''['' then
        (case bracket_split s of
           None \<Rightarrow> FChar c # fn_tokens s
         | Some (inside, s') \<Rightarrow>
             (if starts_with inside ''!'' then FClass True (class_ranges (tl inside))
              else FClass False (class_ranges inside)) # fn_tokens s')
      else FChar c # fn_tokens s)"
  by pat_completeness auto
termination
  by (relation "measure length") (auto dest: bracket_split_shorter)

definition in_ranges :: "char \<Rightarrow> (char \<times> char) list \<Rightarrow> bool" where
  "in_ranges c rs \<longleftrightarrow> list_ex (\<lambda>(a, b). code a \<le> code c \<and> code c \<le> code b) rs"

fun fn_match :: "fn_tok list \<Rightarrow> string \<Rightarrow> bool" where
  "fn_match [] s = (s = [])"
| "fn_match (FStar # ts) [] = fn_match ts []"
| "fn_match (FStar # ts) (c # s) = (fn_match ts (c # s) \<or> fn_match (FStar # ts) s)"
| "fn_match (FAny # ts) (c # s) = fn_match ts s"
| "fn_match (FChar d # ts) (c # s) = (c = d \<and> fn_match ts s)"
| "fn_match (FClass neg rs # ts) (c # s) = (in_ranges c rs \<noteq> neg \<and> fn_match ts s)"
| "fn_match (t # ts) [] = False"

definition fnmatchcase :: "string \<Rightarrow> string \<Rightarrow> bool" where
  "fnmatchcase name pat = fn_match (fn_tokens pat) name"

section \<open>Facts about canonical paths\<close>

text \<open>An absolute path in canonical form: a slash and components that are neither empty nor dots.\<close>

definition canonical :: "string \<Rightarrow> bool" where
  "canonical p \<longleftrightarrow> p = ''/'' @ join ''/'' (path_comps p)"

lemma path_comps_mem: "c \<in> set (path_comps p) \<Longrightarrow> c \<noteq> [] \<and> c \<noteq> ''.'' \<and> CHR ''/'' \<notin> set c"
  by (auto simp: path_comps_def dest: split_on_no_sep)

lemma path_comps_rooted:
  assumes "\<And>c. c \<in> set cs \<Longrightarrow> c \<noteq> [] \<and> c \<noteq> ''.'' \<and> CHR ''/'' \<notin> set c"
  shows "path_comps (CHR ''/'' # join ''/'' cs) = cs"
proof (cases "cs = []")
  case True
  then show ?thesis by (simp add: path_comps_def)
next
  case False
  with assms have "split_on CHR ''/'' (join ''/'' cs) = cs" by (simp add: split_on_join)
  with assms show ?thesis by (simp add: path_comps_def filter_id_conv)
qed

lemma path_comps_canonical [simp]:
  "path_comps (CHR ''/'' # join ''/'' (path_comps p)) = path_comps p"
  by (rule path_comps_rooted) (rule path_comps_mem)

lemma common_prefix_prefix: "prefix (common_prefix xs ys) xs" "prefix (common_prefix xs ys) ys"
  by (induction xs ys rule: common_prefix.induct) auto

lemma common_prefix_eq_left: "prefix xs ys \<Longrightarrow> common_prefix xs ys = xs"
  by (induction xs ys rule: common_prefix.induct) auto

lemma common_prefix_eq_right: "prefix ys xs \<Longrightarrow> common_prefix xs ys = ys"
  by (induction xs ys rule: common_prefix.induct) auto

lemma isabs_canonical: "canonical p \<Longrightarrow> isabs p"
  by (simp add: canonical_def isabs_def starts_with_prefix) (metis append_Cons append_Nil prefixI)

lemma commonpath_overlap:
  assumes "canonical p" "canonical q" "prefix (path_comps p) (path_comps q)"
  shows "commonpath p q = Inr p"
  using assms isabs_canonical[OF assms(1)] isabs_canonical[OF assms(2)]
  by (simp add: commonpath_def common_prefix_eq_left canonical_def)

lemma commonpath_overlap_right:
  assumes "canonical p" "canonical q" "prefix (path_comps q) (path_comps p)"
  shows "commonpath p q = Inr q"
  using assms isabs_canonical[OF assms(1)] isabs_canonical[OF assms(2)]
  by (simp add: commonpath_def common_prefix_eq_right canonical_def)

end
