(* ===== verification/Path_Policy.thy ===== *)
theory Path_Policy
  imports Config Posix_Path
begin

text \<open>
  The Server Files errors (\<open>server_files/exceptions.py\<close>) and the path and root policy
  (\<open>server_files/policy.py\<close>): validation of relative paths and file names, the sensitive-name
  and denied-prefix policies, capabilities, the access decision \<open>assert_path_allowed\<close> and the
  resolution of the configured roots. The kernel's answers about absolute host paths
  (\<open>lstat\<close>, \<open>stat\<close>, \<open>realpath\<close>) are the parameter \<open>host\<close>.
\<close>

section \<open>Errors\<close>

fun sf_code :: "sf_kind \<Rightarrow> string" where
  "sf_code SfError = ''server_files_error''"
| "sf_code SfDisabled = ''disabled''"
| "sf_code SfConfiguration = ''configuration_error''"
| "sf_code SfUnsupportedPlatform = ''unsupported_platform''"
| "sf_code SfInvalidPath = ''invalid_path''"
| "sf_code SfDenied = ''path_denied''"
| "sf_code SfNotFound = ''not_found''"
| "sf_code SfNotDirectory = ''not_directory''"
| "sf_code SfNotRegularFile = ''not_regular_file''"
| "sf_code SfAlreadyExists = ''already_exists''"
| "sf_code SfTooLarge = ''too_large''"
| "sf_code SfUnsupportedPreview = ''preview_unsupported''"
| "sf_code SfBinaryFile = ''binary_file''"
| "sf_code SfRateLimited = ''rate_limited''"
| "sf_code SfAuditUnavailable = ''audit_unavailable''"

fun sf_public_message :: "sf_kind \<Rightarrow> string" where
  "sf_public_message SfError = ''The filesystem operation could not be completed.''"
| "sf_public_message SfDisabled = ''Paxalia Server Files is disabled.''"
| "sf_public_message SfConfiguration = ''Paxalia Server Files is not configured safely.''"
| "sf_public_message SfUnsupportedPlatform =
     ''Secure filesystem operations are not supported on this platform.''"
| "sf_public_message SfInvalidPath = ''The requested path is invalid.''"
| "sf_public_message SfDenied = ''The requested path is not available.''"
| "sf_public_message SfNotFound = ''The requested item was not found.''"
| "sf_public_message SfNotDirectory = ''The requested item is not a directory.''"
| "sf_public_message SfNotRegularFile = ''Only regular files are supported for this operation.''"
| "sf_public_message SfAlreadyExists = ''An item with that name already exists.''"
| "sf_public_message SfTooLarge = ''The file exceeds the configured size limit.''"
| "sf_public_message SfUnsupportedPreview = ''This file type cannot be previewed.''"
| "sf_public_message SfBinaryFile = ''Binary files cannot be previewed.''"
| "sf_public_message SfRateLimited =
     ''Too many filesystem operations. Please try again shortly.''"
| "sf_public_message SfAuditUnavailable =
     ''The operation was not performed because its audit record could not be created.''"

fun sf_http_status :: "sf_kind \<Rightarrow> nat" where
  "sf_http_status SfError = 400"
| "sf_http_status SfDisabled = 404"
| "sf_http_status SfConfiguration = 503"
| "sf_http_status SfUnsupportedPlatform = 501"
| "sf_http_status SfInvalidPath = 400"
| "sf_http_status SfDenied = 403"
| "sf_http_status SfNotFound = 404"
| "sf_http_status SfNotDirectory = 400"
| "sf_http_status SfNotRegularFile = 400"
| "sf_http_status SfAlreadyExists = 409"
| "sf_http_status SfTooLarge = 413"
| "sf_http_status SfUnsupportedPreview = 415"
| "sf_http_status SfBinaryFile = 415"
| "sf_http_status SfRateLimited = 429"
| "sf_http_status SfAuditUnavailable = 503"

text \<open>\<open>ServerFilesX(message)\<close> and \<open>ServerFilesX()\<close>.\<close>

definition sf :: "sf_kind \<Rightarrow> exn" where
  "sf k = ServerFiles k (sf_public_message k)"

definition sf_msg :: "sf_kind \<Rightarrow> string \<Rightarrow> exn" where
  "sf_msg k m = ServerFiles k (if m = [] then sf_public_message k else m)"

section \<open>File names and relative paths\<close>

definition control_char :: "char \<Rightarrow> bool" where
  "control_char c \<longleftrightarrow> code c < 32 \<or> code c = 127"

definition validate_name :: "string \<Rightarrow> string res" where
  "validate_name value =
     (if value = [] \<or> value = ''.'' \<or> value = ''..''
      then Inl (sf_msg SfInvalidPath ''A single, non-empty filename is required.'')
      else if 255 < length (utf8 value) then Inl (sf_msg SfInvalidPath ''The filename is too long.'')
      else if list_ex (\<lambda>ch. List.member value ch) [CHR ''/'', CHR 0x5C, CHR 0x00, CHR ''%'', CHR '':'']
      then Inl (sf_msg SfInvalidPath ''The filename contains an unsupported character.'')
      else if list_ex control_char value
      then Inl (sf_msg SfInvalidPath ''The filename contains a control character.'')
      else if ends_with value ''.'' \<or> ends_with value '' ''
      then Inl (sf_msg SfInvalidPath ''Filenames ending in a dot or space are not supported.'')
      else Inr value)"

definition split_relative_path :: "pyval \<Rightarrow> bool \<Rightarrow> string list res" where
  "split_relative_path value0 allow_empty =
     (case (if value0 = PNone then PStr [] else value0) of
        PStr value \<Rightarrow>
          if value = [] then (if allow_empty then Inr [] else Inl (sf SfInvalidPath))
          else if 2048 < length value \<or> starts_with value ''/'' \<or> starts_with value [CHR 0x5C]
          then Inl (sf SfInvalidPath)
          else if List.member value CHR 0x00 \<or> List.member value CHR ''%''
            \<or> List.member value CHR 0x5C \<or> List.member value CHR '':''
          then Inl (sf SfInvalidPath)
          else if list_ex control_char value then Inl (sf SfInvalidPath)
          else let parts = split_on CHR ''/'' value in
            if list_ex (\<lambda>part. part = [] \<or> part = ''.'' \<or> part = ''..'') parts
            then Inl (sf SfInvalidPath)
            else bind_res (map_res validate_name parts) (\<lambda>_. Inr parts)
      | _ \<Rightarrow> Inl (sf SfInvalidPath))"

section \<open>Sensitive names\<close>

definition DEFAULT_SENSITIVE_PATTERNS :: "string list" where
  "DEFAULT_SENSITIVE_PATTERNS =
    [''.env'', ''.env.*'', ''*.pem'', ''*.key'', ''*.p12'', ''*.pfx'', ''*.p7b'', ''*.p8'',
     ''*.crt'', ''*.cer'', ''*.der'', ''*.jks'', ''*.keystore'', ''*.secret'', ''*.secrets'',
     ''*.token'', ''*.credentials'', ''id_rsa*'', ''id_ed25519*'', ''id_ecdsa*'', ''id_dsa*'',
     ''authorized_keys'', ''known_hosts'', ''.netrc'', ''.pgpass'', ''.my.cnf'', ''credentials'',
     ''credentials.*'', ''*.sqlite'', ''*.sqlite3'', ''*.db'', ''local_settings.py'',
     ''settings_local.py'', ''settings.py'', ''settings_*.py'', ''secrets.json'', ''secret.json'',
     ''service-account*.json'', ''*.tfstate'', ''*.tfstate.backup'']"

definition DEFAULT_SENSITIVE_DIRECTORIES :: "string list" where
  "DEFAULT_SENSITIVE_DIRECTORIES =
    [''.ssh'', ''.aws'', ''.azure'', ''.gcloud'', ''.kube'', ''.gnupg'', ''secrets'',
     ''secret'', ''credentials'']"

fun seq_items :: "pyval \<Rightarrow> pyval list option" where
  "seq_items (PList xs) = Some xs"
| "seq_items (PTuple xs) = Some xs"
| "seq_items v = None"

fun text_item :: "pyval \<Rightarrow> string option" where
  "text_item (PStr s) = (if strip s = [] then None else Some s)"
| "text_item v = None"

definition sensitive_patterns :: "settings \<Rightarrow> string list res" where
  "sensitive_patterns st =
     (let err = sf_config_error ''FILE_MANAGER_SENSITIVE_PATTERNS must contain non-empty strings.'' in
      case cfg_get st ''FILE_MANAGER_SENSITIVE_PATTERNS'' PNone of
        PNone \<Rightarrow> Inr DEFAULT_SENSITIVE_PATTERNS
      | v \<Rightarrow> (case seq_items v of
               None \<Rightarrow> Inl err
             | Some items \<Rightarrow>
                 if list_ex (\<lambda>i. text_item i = None) items then Inl err
                 else Inr (DEFAULT_SENSITIVE_PATTERNS @ map (\<lambda>i. casefold (strip (the (text_item i)))) items)))"

definition sensitive_component :: "string list \<Rightarrow> string \<Rightarrow> bool" where
  "sensitive_component patterns component =
     (let folded = casefold component in
      List.member DEFAULT_SENSITIVE_DIRECTORIES folded \<or> list_ex (\<lambda>p. fnmatchcase folded p) patterns)"

definition is_sensitive :: "settings \<Rightarrow> string list \<Rightarrow> bool res" where
  "is_sensitive st parts =
     bind_res (sensitive_patterns st) (\<lambda>patterns. Inr (list_ex (sensitive_component patterns) parts))"

section \<open>The host and the configured roots\<close>

datatype file_kind = KDir | KFile | KLink | KSpecial

record pystat =
  st_kind :: file_kind
  st_dev :: int
  st_ino :: int
  st_size :: int
  st_mtime_ns :: int
  st_ctime_ns :: int

text \<open>What the kernel and the C library say about an absolute path.\<close>

record host =
  h_cwd :: string
  h_lstat :: "string \<Rightarrow> pystat res"
  h_stat :: "string \<Rightarrow> pystat res"
  h_realpath :: "string \<Rightarrow> string res"

record sf_root =
  root_id :: string
  root_name :: string
  root_path :: string
  root_device :: int
  root_inode :: int

definition is_enabled :: "settings \<Rightarrow> bool" where
  "is_enabled st = truthy (cfg_get st ''FILE_MANAGER_ENABLED'' (PBool False))"

text \<open>\<open>os.path.splitdrive\<close> finds no drive on POSIX.\<close>

definition is_filesystem_root :: "host \<Rightarrow> string \<Rightarrow> bool" where
  "is_filesystem_root h p = (abspath (h_cwd h) p = abspath (h_cwd h) ''/'')"

datatype fs_text = NotAPath | TextPath string | BytesPath string

fun fspath :: "pyval \<Rightarrow> fs_text" where
  "fspath (PStr s) = TextPath s"
| "fspath (PPath s) = TextPath s"
| "fspath (PBytesPath s) = BytesPath s"
| "fspath v = NotAPath"

fun root_item :: "nat \<Rightarrow> pyval \<Rightarrow> (string \<times> pyval) res" where
  "root_item index (PStr s) = Inr (''Root '' @ show_int (int index + 1), PStr s)"
| "root_item index (PDict kvs) =
     Inr (strip (case dict_get kvs ''name'' of
                   None \<Rightarrow> ''Root '' @ show_int (int index + 1) | Some v \<Rightarrow> py_str v),
          case dict_get kvs ''path'' of None \<Rightarrow> PNone | Some v \<Rightarrow> v)"
| "root_item index v =
     Inl (sf_config_error ''Each allowed root must be a path or a {name, path} mapping.'')"

text \<open>\<open>except (OSError, RuntimeError, ValueError, TypeError)\<close> of the \<open>stat\<close> calls; the code's own
  configuration errors pass.\<close>

fun unavailable :: "exn \<Rightarrow> exn" where
  "unavailable (OSError e) = sf_config_error ''A configured filesystem root is unavailable.''"
| "unavailable (ValueError m) = sf_config_error ''A configured filesystem root is unavailable.''"
| "unavailable TypeError = sf_config_error ''A configured filesystem root is unavailable.''"
| "unavailable e = e"

fun on_error :: "(exn \<Rightarrow> exn) \<Rightarrow> 'a res \<Rightarrow> 'a res" where
  "on_error f (Inl e) = Inl (f e)"
| "on_error f (Inr x) = Inr x"

definition resolve_root :: "host \<Rightarrow> string \<Rightarrow> (string \<times> pystat) res" where
  "resolve_root h raw_path =
     (let raw_absolute = abspath (h_cwd h) raw_path in
      on_error unavailable
       (bind_res (h_lstat h raw_absolute) (\<lambda>raw_stat.
        bind_res (check (st_kind raw_stat = KDir)
          (sf_config_error ''Every allowed root must be an existing, non-symlink directory.'')) (\<lambda>_.
        bind_res (h_realpath h raw_absolute) (\<lambda>canon.
        bind_res (h_stat h canon) (\<lambda>root_stat. Inr (canon, root_stat)))))))"

definition overlaps :: "string \<Rightarrow> string \<Rightarrow> bool" where
  "overlaps previous canon =
     (case commonpath previous canon of
        Inl _ \<Rightarrow> False
      | Inr common \<Rightarrow> common = previous \<or> common = canon)"

definition root_raw_path :: "pyval \<Rightarrow> string res" where
  "root_raw_path raw =
     (case fspath raw of
        NotAPath \<Rightarrow> Inl (sf_config_error ''A configured filesystem root must have an absolute path.'')
      | BytesPath b \<Rightarrow>
          if b = [] then Inl (sf_config_error ''A configured filesystem root must have an absolute path.'')
          else Inl (sf_config_error ''Allowed roots must be configured as text paths.'')
      | TextPath p \<Rightarrow>
          if p = [] then Inl (sf_config_error ''A configured filesystem root must have an absolute path.'')
          else Inr p)"

definition resolve_item :: "settings \<Rightarrow> host \<Rightarrow> nat \<Rightarrow> string list \<Rightarrow> pyval \<Rightarrow> sf_root res" where
  "resolve_item st h index canonical_paths item =
     bind_res (root_item index item) (\<lambda>(name, raw).
     bind_res (check (\<not> (name = [] \<or> 64 < length name \<or> list_ex (\<lambda>ch. code ch < 32) name))
       (sf_config_error ''A configured filesystem root has an invalid display name.'')) (\<lambda>_.
     bind_res (root_raw_path raw) (\<lambda>raw_path.
     bind_res (check (isabs raw_path \<and> \<not> is_filesystem_root h raw_path)
       (sf_config_error ''Allowed roots must be explicit absolute non-root directories.'')) (\<lambda>_.
     bind_res (resolve_root h raw_path) (\<lambda>(canon, root_stat).
     bind_res (check (st_kind root_stat = KDir)
       (sf_config_error ''Every allowed root must be a directory.'')) (\<lambda>_.
     bind_res (is_sensitive st [basename canon]) (\<lambda>sens.
     bind_res (check (\<not> sens)
       (sf_config_error ''An allowed root cannot itself match the built-in sensitive-path policy.'')) (\<lambda>_.
     bind_res (check (\<not> list_ex (\<lambda>previous. overlaps previous canon) canonical_paths)
       (sf_config_error ''Allowed filesystem roots must not overlap or contain one another.'')) (\<lambda>_.
       Inr \<lparr>root_id = ''root-'' @ show_int (int index), root_name = name, root_path = canon,
            root_device = st_dev root_stat, root_inode = st_ino root_stat\<rparr>)))))))))"

fun resolve_items :: "settings \<Rightarrow> host \<Rightarrow> nat \<Rightarrow> string list \<Rightarrow> pyval list \<Rightarrow> sf_root list res" where
  "resolve_items st h index canonical_paths [] = Inr []"
| "resolve_items st h index canonical_paths (item # items) =
     bind_res (resolve_item st h index canonical_paths item) (\<lambda>r.
     bind_res (resolve_items st h (Suc index) (canonical_paths @ [root_path r]) items) (\<lambda>rs.
       Inr (r # rs)))"

definition get_roots :: "settings \<Rightarrow> host \<Rightarrow> sf_root list res" where
  "get_roots st h =
     (if \<not> is_enabled st then Inl (sf SfDisabled)
      else case seq_items (cfg_get st ''FILE_MANAGER_ALLOWED_ROOTS'' (PList [])) of
             None \<Rightarrow> Inr []
           | Some configured \<Rightarrow>
               if configured = [] then Inr []
               else if 32 < length configured
               then Inl (sf_config_error ''At most 32 filesystem roots may be configured.'')
               else resolve_items st h 0 [] configured)"

definition root_id_ok :: "string \<Rightarrow> bool" where
  "root_id_ok s \<longleftrightarrow> starts_with s ''root-''
     \<and> (let ds = drop 5 s in 1 \<le> length ds \<and> length ds \<le> 3 \<and> list_all is_digit ds)"

definition get_root :: "sf_root list res \<Rightarrow> pyval \<Rightarrow> sf_root res" where
  "get_root roots rid =
     bind_res roots (\<lambda>rs.
       case rid of
         PStr s \<Rightarrow>
           if \<not> root_id_ok s then Inl (sf_msg SfInvalidPath ''The selected filesystem root is invalid.'')
           else (case find (\<lambda>r. root_id r = s) rs of
                   Some r \<Rightarrow> Inr r
                 | None \<Rightarrow> Inl (sf_msg SfInvalidPath ''The selected filesystem root is not configured.''))
       | _ \<Rightarrow> Inl (sf_msg SfInvalidPath ''The selected filesystem root is invalid.''))"

section \<open>Denied prefixes\<close>

text \<open>One configured entry: no prefix, one prefix, or an error.\<close>

definition denied_prefix :: "host \<Rightarrow> sf_root \<Rightarrow> pyval \<Rightarrow> string list list res" where
  "denied_prefix h root item =
     (case fspath item of
        NotAPath \<Rightarrow> Inl (sf_config_error ''Denied paths must be strings.'')
      | BytesPath b \<Rightarrow> Inl (sf_config_error ''Denied paths must be configured as text paths.'')
      | TextPath value \<Rightarrow>
          if value = [] then Inr []
          else if isabs value then
            (case bind_res (h_realpath h (abspath (h_cwd h) value)) (\<lambda>candidate.
                    bind_res (commonpath (root_path root) candidate) (\<lambda>common. Inr (candidate, common))) of
               Inl (OSError e) \<Rightarrow> Inr []
             | Inl (ValueError m) \<Rightarrow> Inr []
             | Inl TypeError \<Rightarrow> Inr []
             | Inl e \<Rightarrow> Inl e
             | Inr (candidate, common) \<Rightarrow>
                 if common \<noteq> root_path root then Inr []
                 else let relative = relpath candidate (root_path root) in
                   if relative = ''.'' then Inr [[]]
                   else bind_res (split_relative_path (PStr relative) True) (\<lambda>ps. Inr [ps]))
          else bind_res (split_relative_path (PStr value) True) (\<lambda>ps. Inr [ps]))"

definition denied_prefixes :: "settings \<Rightarrow> host \<Rightarrow> sf_root \<Rightarrow> string list list res" where
  "denied_prefixes st h root =
     (case seq_items (cfg_get st ''FILE_MANAGER_DENIED_PATHS'' (PList [])) of
        None \<Rightarrow> Inl (sf_config_error ''FILE_MANAGER_DENIED_PATHS must be a list or tuple.'')
      | Some denied \<Rightarrow> bind_res (map_res (denied_prefix h root) denied) (\<lambda>pss. Inr (concat pss)))"

definition is_denied :: "settings \<Rightarrow> host \<Rightarrow> sf_root \<Rightarrow> string list \<Rightarrow> bool res" where
  "is_denied st h root parts =
     bind_res (denied_prefixes st h root) (\<lambda>prefixes.
       Inr (list_ex (\<lambda>p. length p \<le> length parts \<and> take (length p) parts = p) prefixes))"

section \<open>Users and the access decision\<close>

text \<open>A Django user. \<open>u_perm_cache\<close> is the permission set Django cached on this instance, if any;
  \<open>u_backend_perm\<close> is what the permission backends answer now (they may raise).\<close>

record user =
  u_id :: int
  u_authenticated :: bool
  u_active :: bool
  u_staff :: bool
  u_superuser :: bool
  u_perm_cache :: "string list option"
  u_backend_perm :: "string \<Rightarrow> bool res"

definition user_has_perm :: "user \<Rightarrow> string \<Rightarrow> bool res" where
  "user_has_perm u perm =
     (case u_perm_cache u of
        Some ps \<Rightarrow> Inr (List.member ps perm)
      | None \<Rightarrow> u_backend_perm u perm)"

definition has_capability :: "user \<Rightarrow> string \<Rightarrow> bool res" where
  "has_capability u codename =
     (if \<not> u_authenticated u then Inr False
      else if \<not> u_active u then Inr False
      else if u_superuser u then Inr True
      else let fresh = u\<lparr>u_perm_cache := None\<rparr> in
        (case user_has_perm fresh (''paxalia.'' @ codename) of
           Inl AttributeError \<Rightarrow> Inr False
         | Inl TypeError \<Rightarrow> Inr False
         | Inl (ValueError m) \<Rightarrow> Inr False
         | r \<Rightarrow> r))"

definition assert_path_allowed ::
  "settings \<Rightarrow> host \<Rightarrow> sf_root \<Rightarrow> string list \<Rightarrow> user \<Rightarrow> bool \<Rightarrow> bool res"
where
  "assert_path_allowed st h root parts u write =
     bind_res (is_denied st h root parts) (\<lambda>denied.
     bind_res (check (\<not> denied) (sf SfDenied)) (\<lambda>_.
     bind_res (is_sensitive st parts) (\<lambda>sensitive.
     bind_res (if sensitive then has_capability u ''view_sensitive_files'' else Inr True) (\<lambda>may_view.
     bind_res (check may_view (sf SfDenied)) (\<lambda>_.
     bind_res
       (if write \<and> sensitive then
          bind_res (check (truthy (cfg_get st ''FILE_MANAGER_ALLOW_SENSITIVE_MUTATIONS'' (PBool False)))
            (sf_msg SfDenied ''Sensitive filesystem mutations are disabled by policy.'')) (\<lambda>_.
          bind_res (has_capability u ''modify_sensitive_files'') (\<lambda>may_modify.
          check may_modify
            (sf_msg SfDenied ''You do not have permission to modify protected files.'')))
        else Inr ()) (\<lambda>_.
       Inr sensitive))))))"

end
