(* ===== verification/Os_Model.thy ===== *)
theory Os_Model
  imports State_Err Path_Policy
begin

text \<open>
  The part of POSIX that \<open>server_files/service.py\<close> calls through Python's \<open>os\<close> module: a heap of
  inodes, a table of open descriptors with their offsets, and the descriptor-relative system
  calls. Every call consumes one event of a schedule: it may fail with any errno (permissions,
  quota, I/O errors), transfer fewer bytes than asked, or be preceded by an arbitrary change of
  the file system by another process. An exhausted schedule means no further disturbance.
\<close>

section \<open>State\<close>

text \<open>\<open>i_parent\<close> is what \<open>..\<close> names in a directory; \<open>i_entries\<close> are the other names.\<close>

record inode =
  i_kind :: file_kind
  i_dev :: int
  i_data :: string
  i_entries :: "(string \<times> nat) list"
  i_parent :: nat
  i_mode :: nat
  i_uid :: nat
  i_gid :: nat
  i_mtime :: int
  i_ctime :: int

type_synonym fs = "nat \<Rightarrow> inode option"

datatype event = Quiet | Fail errno | Short nat | Interfere "fs \<Rightarrow> fs"

text \<open>\<open>os_paths\<close> resolves the absolute paths of the configured roots (opened without following a
  final link); \<open>os_link_errno\<close> is the errno with which the kernel refuses to open a symbolic link
  as a directory without following it (Linux: \<open>ENOTDIR\<close>, elsewhere \<open>ELOOP\<close>); \<open>os_uuid\<close> is the
  stream of \<open>uuid4().hex\<close> values.\<close>

record os =
  os_fs :: fs
  os_next :: nat
  os_fds :: "nat \<Rightarrow> nat option"
  os_pos :: "nat \<Rightarrow> nat"
  os_nfd :: nat
  os_sched :: "event list"
  os_paths :: "string \<Rightarrow> errno + nat"
  os_link_errno :: errno
  os_uuid :: "nat \<Rightarrow> string"
  os_uuids :: nat
  os_clock :: int

type_synonym 'a osio = "(os, 'a) io"

record fstat = pystat +
  st_perm :: nat
  st_uid :: nat
  st_gid :: nat

section \<open>Operations on the inode heap\<close>

definition is_kind :: "fs \<Rightarrow> nat \<Rightarrow> file_kind \<Rightarrow> bool" where
  "is_kind f i k = (case f i of None \<Rightarrow> False | Some n \<Rightarrow> i_kind n = k)"

definition entries :: "fs \<Rightarrow> nat \<Rightarrow> (string \<times> nat) list" where
  "entries f d = (case f d of None \<Rightarrow> [] | Some n \<Rightarrow> i_entries n)"

definition file_data :: "fs \<Rightarrow> nat \<Rightarrow> string" where
  "file_data f i = (case f i of None \<Rightarrow> [] | Some n \<Rightarrow> i_data n)"

definition fs_lookup :: "fs \<Rightarrow> nat \<Rightarrow> string \<Rightarrow> nat option" where
  "fs_lookup f d n =
     (if \<not> is_kind f d KDir then None
      else if n = ''.'' then Some d
      else if n = ''..'' then map_option i_parent (f d)
      else map_of (entries f d) n)"

definition set_entries :: "((string \<times> nat) list \<Rightarrow> (string \<times> nat) list) \<Rightarrow> nat \<Rightarrow> fs \<Rightarrow> fs" where
  "set_entries g d f = (case f d of None \<Rightarrow> f | Some n \<Rightarrow> f(d := Some (n\<lparr>i_entries := g (i_entries n)\<rparr>)))"

definition set_data :: "string \<Rightarrow> int \<Rightarrow> nat \<Rightarrow> fs \<Rightarrow> fs" where
  "set_data bs now i f =
     (case f i of None \<Rightarrow> f | Some n \<Rightarrow> f(i := Some (n\<lparr>i_data := bs, i_mtime := now, i_ctime := now\<rparr>)))"

definition add_entry :: "string \<Rightarrow> nat \<Rightarrow> nat \<Rightarrow> fs \<Rightarrow> fs" where
  "add_entry name i = set_entries (\<lambda>es. es @ [(name, i)])"

definition del_entry :: "string \<Rightarrow> nat \<Rightarrow> fs \<Rightarrow> fs" where
  "del_entry name = set_entries (filter (\<lambda>e. fst e \<noteq> name))"

definition dot_name :: "string \<Rightarrow> bool" where
  "dot_name n \<longleftrightarrow> n = ''.'' \<or> n = ''..''"

definition stat_of :: "nat \<Rightarrow> inode \<Rightarrow> fstat" where
  "stat_of i n = \<lparr>st_kind = i_kind n, st_dev = i_dev n, st_ino = int i,
     st_size = int (length (i_data n)), st_mtime_ns = i_mtime n, st_ctime_ns = i_ctime n,
     st_perm = i_mode n, st_uid = i_uid n, st_gid = i_gid n\<rparr>"

text \<open>The changes the calls make, or the errno they report.\<close>

definition fs_mkdir :: "nat \<Rightarrow> string \<Rightarrow> nat \<Rightarrow> nat \<Rightarrow> int \<Rightarrow> fs \<Rightarrow> errno + fs" where
  "fs_mkdir d name new mode now f =
     (case f d of None \<Rightarrow> Inl ENOENT
      | Some n \<Rightarrow>
          if i_kind n \<noteq> KDir then Inl ENOTDIR
          else if fs_lookup f d name \<noteq> None then Inl EEXIST
          else Inr (add_entry name new d (f(new := Some
                 \<lparr>i_kind = KDir, i_dev = i_dev n, i_data = [], i_entries = [], i_parent = d,
                  i_mode = mode, i_uid = 0, i_gid = 0, i_mtime = now, i_ctime = now\<rparr>))))"

definition fs_create :: "nat \<Rightarrow> string \<Rightarrow> nat \<Rightarrow> nat \<Rightarrow> int \<Rightarrow> fs \<Rightarrow> errno + fs" where
  "fs_create d name new mode now f =
     (case f d of None \<Rightarrow> Inl ENOENT
      | Some n \<Rightarrow>
          if i_kind n \<noteq> KDir then Inl ENOTDIR
          else if fs_lookup f d name \<noteq> None then Inl EEXIST
          else Inr (add_entry name new d (f(new := Some
                 \<lparr>i_kind = KFile, i_dev = i_dev n, i_data = [], i_entries = [], i_parent = d,
                  i_mode = mode, i_uid = 0, i_gid = 0, i_mtime = now, i_ctime = now\<rparr>))))"

definition fs_unlink :: "nat \<Rightarrow> string \<Rightarrow> fs \<Rightarrow> errno + fs" where
  "fs_unlink d name f =
     (if dot_name name then Inl EISDIR
      else case fs_lookup f d name of None \<Rightarrow> Inl ENOENT
      | Some i \<Rightarrow> if is_kind f i KDir then Inl EISDIR else Inr (del_entry name d f))"

definition fs_rmdir :: "nat \<Rightarrow> string \<Rightarrow> fs \<Rightarrow> errno + fs" where
  "fs_rmdir d name f =
     (if dot_name name then Inl EINVAL
      else case fs_lookup f d name of None \<Rightarrow> Inl ENOENT
      | Some i \<Rightarrow> if \<not> is_kind f i KDir then Inl ENOTDIR
                else if entries f i \<noteq> [] then Inl ENOTEMPTY else Inr (del_entry name d f))"

definition fs_link :: "nat \<Rightarrow> string \<Rightarrow> nat \<Rightarrow> string \<Rightarrow> fs \<Rightarrow> errno + fs" where
  "fs_link sd sname dd dname f =
     (case fs_lookup f sd sname of None \<Rightarrow> Inl ENOENT
      | Some i \<Rightarrow>
          if is_kind f i KDir then Inl EPERM
          else if \<not> is_kind f dd KDir then Inl ENOTDIR
          else if fs_lookup f dd dname \<noteq> None then Inl EEXIST
          else Inr (add_entry dname i dd f))"

text \<open>The directories above \<open>d\<close> (through \<open>i_parent\<close>), for the kernel's refusal to move a directory
  below itself. \<open>n\<close> bounds the walk; the kernel's own walk ends at the file system's root.\<close>

fun above :: "nat \<Rightarrow> fs \<Rightarrow> nat \<Rightarrow> nat list" where
  "above 0 f d = [d]"
| "above (Suc n) f d = (case f d of None \<Rightarrow> [d] | Some i \<Rightarrow> if i_parent i = d then [d] else d # above n f (i_parent i))"

definition set_parent :: "nat \<Rightarrow> nat \<Rightarrow> fs \<Rightarrow> fs" where
  "set_parent p i f = (case f i of None \<Rightarrow> f
     | Some n \<Rightarrow> if i_kind n = KDir then f(i := Some (n\<lparr>i_parent := p\<rparr>)) else f)"

definition fs_rename_noreplace :: "nat \<Rightarrow> nat \<Rightarrow> string \<Rightarrow> nat \<Rightarrow> string \<Rightarrow> fs \<Rightarrow> errno + fs" where
  "fs_rename_noreplace n sd sname dd dname f =
     (if dot_name sname \<or> dot_name dname then Inl EINVAL
      else case fs_lookup f sd sname of None \<Rightarrow> Inl ENOENT
      | Some i \<Rightarrow>
          if \<not> is_kind f dd KDir then Inl ENOTDIR
          else if fs_lookup f dd dname \<noteq> None then Inl EEXIST
          else if is_kind f i KDir \<and> List.member (above n f dd) i then Inl EINVAL
          else Inr (set_parent dd i (add_entry dname i dd (del_entry sname sd f))))"

section \<open>System calls\<close>

text \<open>One event per call. A short count concerns \<open>read\<close> and \<open>write\<close> only.\<close>

definition next_event :: "os \<Rightarrow> event \<times> os" where
  "next_event s = (case os_sched s of [] \<Rightarrow> (Quiet, s) | ev # r \<Rightarrow> (ev, s\<lparr>os_sched := r\<rparr>))"

definition syscall :: "(nat option \<Rightarrow> 'a osio) \<Rightarrow> 'a osio" where
  "syscall act s =
     (case next_event s of
        (Fail e, t) \<Rightarrow> (Inl (OSError e), t)
      | (Interfere g, t) \<Rightarrow> act None (t\<lparr>os_fs := g (os_fs t)\<rparr>)
      | (Short n, t) \<Rightarrow> act (Some n) t
      | (Quiet, t) \<Rightarrow> act None t)"

definition fd_inode :: "nat \<Rightarrow> nat osio" where
  "fd_inode fd s = (case os_fds s fd of None \<Rightarrow> (Inl (OSError EBADF), s) | Some i \<Rightarrow> (Inr i, s))"

definition new_fd :: "nat \<Rightarrow> nat osio" where
  "new_fd i s = (Inr (os_nfd s),
     s\<lparr>os_fds := (os_fds s)(os_nfd s := Some i), os_pos := (os_pos s)(os_nfd s := 0), os_nfd := Suc (os_nfd s)\<rparr>)"

definition update_fs :: "(fs \<Rightarrow> errno + fs) \<Rightarrow> unit osio" where
  "update_fs g s = (case g (os_fs s) of Inl e \<Rightarrow> (Inl (OSError e), s) | Inr f \<Rightarrow> (Inr (), s\<lparr>os_fs := f\<rparr>))"

definition new_inode :: "nat osio" where
  "new_inode s = (Inr (os_next s), s\<lparr>os_next := Suc (os_next s)\<rparr>)"

text \<open>\<open>os.close\<close> releases the descriptor even when it reports an error.\<close>

definition os_close :: "nat \<Rightarrow> unit osio" where
  "os_close fd s = syscall (\<lambda>_ t. (Inr (), t)) (s\<lparr>os_fds := (os_fds s)(fd := None)\<rparr>)"

text \<open>\<open>os.open(path, O_RDONLY | O_DIRECTORY | O_NOFOLLOW)\<close> for an absolute path, and relative to
  an open directory.\<close>

definition open_inode_dir :: "nat \<Rightarrow> nat osio" where
  "open_inode_dir i s =
     (if is_kind (os_fs s) i KDir then new_fd i s
      else if is_kind (os_fs s) i KLink then (Inl (OSError (os_link_errno s)), s)
      else if os_fs s i = None then (Inl (OSError ENOENT), s)
      else (Inl (OSError ENOTDIR), s))"

definition open_dir_path :: "string \<Rightarrow> nat osio" where
  "open_dir_path path = syscall (\<lambda>_ s.
     case os_paths s path of Inl e \<Rightarrow> (Inl (OSError e), s) | Inr i \<Rightarrow> open_inode_dir i s)"

definition open_dir_at :: "nat \<Rightarrow> string \<Rightarrow> nat osio" where
  "open_dir_at fd name = syscall (\<lambda>_. bind (fd_inode fd) (\<lambda>d s.
     case fs_lookup (os_fs s) d name of None \<Rightarrow> (Inl (OSError ENOENT), s) | Some i \<Rightarrow> open_inode_dir i s))"

definition os_dup :: "nat \<Rightarrow> nat osio" where
  "os_dup fd = syscall (\<lambda>_. bind (fd_inode fd) new_fd)"

definition os_fstat :: "nat \<Rightarrow> fstat osio" where
  "os_fstat fd = syscall (\<lambda>_. bind (fd_inode fd) (\<lambda>i s.
     case os_fs s i of None \<Rightarrow> (Inl (OSError EIO), s) | Some n \<Rightarrow> (Inr (stat_of i n), s)))"

text \<open>\<open>os.stat(name, dir_fd=fd, follow_symlinks=False)\<close>.\<close>

definition stat_at :: "nat \<Rightarrow> string \<Rightarrow> fstat osio" where
  "stat_at fd name = syscall (\<lambda>_. bind (fd_inode fd) (\<lambda>d s.
     case fs_lookup (os_fs s) d name of None \<Rightarrow> (Inl (OSError ENOENT), s)
     | Some i \<Rightarrow> (case os_fs s i of None \<Rightarrow> (Inl (OSError ENOENT), s) | Some n \<Rightarrow> (Inr (stat_of i n), s))))"

text \<open>\<open>os.open(name, O_RDONLY | O_NOFOLLOW | O_NONBLOCK, dir_fd=fd)\<close>: a link is \<open>ELOOP\<close>, a
  directory and most special files do open.\<close>

definition open_read_at :: "nat \<Rightarrow> string \<Rightarrow> nat osio" where
  "open_read_at fd name = syscall (\<lambda>_. bind (fd_inode fd) (\<lambda>d s.
     case fs_lookup (os_fs s) d name of None \<Rightarrow> (Inl (OSError ENOENT), s)
     | Some i \<Rightarrow> if is_kind (os_fs s) i KLink then (Inl (OSError ELOOP), s)
               else if os_fs s i = None then (Inl (OSError ENOENT), s) else new_fd i s))"

text \<open>\<open>os.open(name, O_WRONLY | O_CREAT | O_EXCL | O_NOFOLLOW, mode, dir_fd=fd)\<close>.\<close>

definition create_at :: "nat \<Rightarrow> string \<Rightarrow> nat \<Rightarrow> nat osio" where
  "create_at fd name mode = syscall (\<lambda>_. bind (fd_inode fd) (\<lambda>d. bind new_inode (\<lambda>new s.
     (case fs_create d name new mode (os_clock s) (os_fs s) of
        Inl e \<Rightarrow> (Inl (OSError e), s)
      | Inr f \<Rightarrow> new_fd new (s\<lparr>os_fs := f\<rparr>)))))"

definition take_int :: "int \<Rightarrow> string \<Rightarrow> string" where
  "take_int n xs = (if int (length xs) \<le> n then xs else take (nat n) xs)"

definition os_read :: "nat \<Rightarrow> int \<Rightarrow> string osio" where
  "os_read fd count = syscall (\<lambda>lim. bind (fd_inode fd) (\<lambda>i s.
     let available = take_int count (drop (os_pos s fd) (file_data (os_fs s) i));
         bs = (case lim of None \<Rightarrow> available | Some k \<Rightarrow> take (max 1 k) available)
     in (Inr bs, s\<lparr>os_pos := (os_pos s)(fd := os_pos s fd + length bs)\<rparr>)))"

definition splice :: "nat \<Rightarrow> string \<Rightarrow> string \<Rightarrow> string" where
  "splice pos bs old = take pos old @ replicate (pos - length old) (CHR 0x00) @ bs @ drop (pos + length bs) old"

definition os_write :: "nat \<Rightarrow> string \<Rightarrow> nat osio" where
  "os_write fd bs = syscall (\<lambda>lim. bind (fd_inode fd) (\<lambda>i s.
     let cs = (case lim of None \<Rightarrow> bs | Some k \<Rightarrow> take k bs) in
     (Inr (length cs),
      s\<lparr>os_fs := set_data (splice (os_pos s fd) cs (file_data (os_fs s) i)) (os_clock s) i (os_fs s),
        os_pos := (os_pos s)(fd := os_pos s fd + length cs)\<rparr>)))"

definition os_fsync :: "nat \<Rightarrow> unit osio" where
  "os_fsync fd = syscall (\<lambda>_. bind (fd_inode fd) (\<lambda>_. ret ()))"

definition os_fchmod :: "nat \<Rightarrow> nat \<Rightarrow> unit osio" where
  "os_fchmod fd mode = syscall (\<lambda>_. bind (fd_inode fd) (\<lambda>i. update_fs (\<lambda>f.
     Inr (case f i of None \<Rightarrow> f | Some n \<Rightarrow> f(i := Some (n\<lparr>i_mode := mode\<rparr>))))))"

definition mkdir_at :: "nat \<Rightarrow> string \<Rightarrow> nat \<Rightarrow> unit osio" where
  "mkdir_at fd name mode = syscall (\<lambda>_. bind (fd_inode fd) (\<lambda>d. bind new_inode (\<lambda>new.
     bind (gets os_clock) (\<lambda>now. update_fs (fs_mkdir d name new mode now)))))"

definition unlink_at :: "nat \<Rightarrow> string \<Rightarrow> unit osio" where
  "unlink_at fd name = syscall (\<lambda>_. bind (fd_inode fd) (\<lambda>d. update_fs (fs_unlink d name)))"

definition rmdir_at :: "nat \<Rightarrow> string \<Rightarrow> unit osio" where
  "rmdir_at fd name = syscall (\<lambda>_. bind (fd_inode fd) (\<lambda>d. update_fs (fs_rmdir d name)))"

definition link_at :: "nat \<Rightarrow> string \<Rightarrow> nat \<Rightarrow> string \<Rightarrow> unit osio" where
  "link_at sfd sname dfd dname = syscall (\<lambda>_. bind (fd_inode sfd) (\<lambda>sd. bind (fd_inode dfd) (\<lambda>dd.
     update_fs (fs_link sd sname dd dname))))"

definition renameat2_noreplace :: "nat \<Rightarrow> string \<Rightarrow> nat \<Rightarrow> string \<Rightarrow> unit osio" where
  "renameat2_noreplace sfd sname dfd dname = syscall (\<lambda>_. bind (fd_inode sfd) (\<lambda>sd. bind (fd_inode dfd) (\<lambda>dd.
     bind (gets os_next) (\<lambda>n. update_fs (fs_rename_noreplace n sd sname dd dname)))))"

definition scandir :: "nat \<Rightarrow> string list osio" where
  "scandir fd = syscall (\<lambda>_. bind (fd_inode fd) (\<lambda>d s.
     if is_kind (os_fs s) d KDir then (Inr (map fst (entries (os_fs s) d)), s) else (Inl (OSError ENOTDIR), s)))"

definition fresh_uuid :: "string osio" where
  "fresh_uuid s = (Inr (os_uuid s (os_uuids s)), s\<lparr>os_uuids := Suc (os_uuids s)\<rparr>)"

end
