(* ===== verification/Server_Files.thy ===== *)
theory Server_Files
  imports Os_Model "HOL-Library.Product_Lexorder" "HOL-Library.List_Lexorder" "HOL-Library.Char_ord"
begin

text \<open>
  The Server Files operations (\<open>server_files/service.py\<close>), over the descriptor-relative system
  calls of the theory Os_Model. A context manager of the source is a function that takes the body
  of its \<open>with\<close> statement. What the process finds on its host besides the file system is the
  record \<open>sf_env\<close>: the settings, the answers about absolute paths, the platform's capabilities,
  the MIME type and the account databases.
\<close>

record sf_env =
  e_settings :: settings
  e_host :: host
  e_dirfd_supported :: bool
  e_linux :: bool
  e_renameat2 :: bool
  e_mime :: "string \<Rightarrow> string option"
  e_pwd :: "nat \<Rightarrow> string option"
  e_grp :: "nat \<Rightarrow> string option"

section \<open>Errors of the kernel\<close>

definition filesystem_error :: "errno \<Rightarrow> exn" where
  "filesystem_error e =
     (if e = ENOENT \<or> e = ENOTDIR then
        (if e = ENOTDIR then sf SfNotDirectory else sf SfNotFound)
      else if e = EEXIST then sf SfAlreadyExists
      else if e = ELOOP \<or> e = EACCES \<or> e = EPERM then sf SfDenied
      else if e = EISDIR \<or> e = ENXIO then sf SfNotRegularFile
      else sf_msg SfDenied ''The filesystem rejected this operation.'')"

text \<open>\<open>except OSError as error: h error.errno\<close>.\<close>

definition on_os_error :: "'a osio \<Rightarrow> (errno \<Rightarrow> 'a osio) \<Rightarrow> 'a osio" where
  "on_os_error m h = catch m (\<lambda>e. case e of OSError n \<Rightarrow> h n | _ \<Rightarrow> raise e)"

definition fs_call :: "'a osio \<Rightarrow> 'a osio" where
  "fs_call m = on_os_error m (\<lambda>n. raise (filesystem_error n))"

section \<open>Opening directories and files\<close>

definition require_secure_platform :: "sf_env \<Rightarrow> unit osio" where
  "require_secure_platform env = require (e_dirfd_supported env) (sf SfUnsupportedPlatform)"

definition open_root :: "sf_env \<Rightarrow> sf_root \<Rightarrow> (nat \<Rightarrow> 'a osio) \<Rightarrow> 'a osio" where
  "open_root env root body =
     seq (require_secure_platform env)
     (bind (fs_call (open_dir_path (root_path root))) (\<lambda>fd.
      cleanup
        (bind (os_fstat fd) (\<lambda>current.
         seq (require (st_kind current = KDir \<and> st_dev current = root_device root \<and> st_ino current = root_inode root)
               (sf_msg SfDenied ''The configured filesystem root changed after validation.''))
         (body fd)))
        (os_close fd)))"

text \<open>One component: on \<open>ENOTDIR\<close> a symbolic link is reported as such.\<close>

definition open_component :: "nat \<Rightarrow> string \<Rightarrow> nat osio" where
  "open_component fd component =
     on_os_error (open_dir_at fd component) (\<lambda>n.
       seq (whenever (n = ENOTDIR)
             (bind (on_os_error (stat_at fd component) (\<lambda>_. raise (filesystem_error n))) (\<lambda>entry_stat.
              require (st_kind entry_stat \<noteq> KLink)
                (sf_msg SfDenied ''Symbolic links are not available through Server Files.''))))
           (raise (filesystem_error n)))"

text \<open>The loop over the components: the descriptor of the last one, or the one that was open when
  a component failed (the \<open>finally\<close> clause closes it).\<close>

fun open_components :: "nat \<Rightarrow> string list \<Rightarrow> os \<Rightarrow> (exn \<times> nat + nat) \<times> os" where
  "open_components fd [] s = (Inr fd, s)"
| "open_components fd (component # parts) s =
     (case open_component fd component s of
        (Inl e, t) \<Rightarrow> (Inl (e, fd), t)
      | (Inr next_fd, t) \<Rightarrow>
          (case os_close fd t of
             (Inl e, u) \<Rightarrow> (Inl (e, fd), u)
           | (Inr _, u) \<Rightarrow> open_components next_fd parts u))"

definition close_quietly :: "nat \<Rightarrow> unit osio" where
  "close_quietly fd = on_os_error (os_close fd) (\<lambda>_. ret ())"

definition open_directory :: "sf_env \<Rightarrow> sf_root \<Rightarrow> string list \<Rightarrow> (nat \<Rightarrow> 'a osio) \<Rightarrow> 'a osio" where
  "open_directory env root parts body =
     bind (open_root env root os_dup) (\<lambda>fd s.
       case open_components fd parts s of
         (Inl (e, fd'), t) \<Rightarrow> cleanup (raise e) (close_quietly fd') t
       | (Inr fd', t) \<Rightarrow>
           cleanup
             (bind (os_fstat fd') (\<lambda>current.
              seq (require (st_kind current = KDir) (sf SfNotDirectory)) (body fd')))
             (close_quietly fd') t)"

definition open_parent :: "sf_env \<Rightarrow> sf_root \<Rightarrow> string list \<Rightarrow> (nat \<Rightarrow> string \<Rightarrow> 'a osio) \<Rightarrow> 'a osio" where
  "open_parent env root parts body =
     seq (require (parts \<noteq> []) (sf_msg SfInvalidPath ''A filename is required for this operation.''))
         (open_directory env root (butlast parts) (\<lambda>parent_fd. body parent_fd (last parts)))"

definition safe_stat :: "nat \<Rightarrow> string \<Rightarrow> fstat osio" where
  "safe_stat parent_fd name =
     bind (fs_call (stat_at parent_fd name)) (\<lambda>result.
     seq (require (st_kind result \<noteq> KLink)
           (sf_msg SfDenied ''Symbolic links are not available through Server Files.''))
         (ret result))"

text \<open>Every call of the source opens for reading (\<open>write\<close> and \<open>exclusive\<close> are never passed).\<close>

definition open_regular_file :: "sf_env \<Rightarrow> sf_root \<Rightarrow> string list \<Rightarrow> (nat \<Rightarrow> fstat \<Rightarrow> 'a osio) \<Rightarrow> 'a osio" where
  "open_regular_file env root parts body =
     open_parent env root parts (\<lambda>parent_fd name.
       bind (fs_call (open_read_at parent_fd name)) (\<lambda>fd.
         cleanup
           (bind (os_fstat fd) (\<lambda>file_stat.
            seq (require (st_kind file_stat = KFile) (sf SfNotRegularFile)) (body fd file_stat)))
           (os_close fd)))"

section \<open>Directory entries\<close>

record entry_rec =
  er_name :: string
  er_path :: string
  er_kind :: string
  er_is_directory :: bool
  er_is_regular_file :: bool
  er_can_preview :: bool
  er_size :: "int option"
  er_modified :: int
  er_permissions :: string
  er_owner :: string
  er_group :: string
  er_content_type :: string
  er_root_id :: string

definition owner_name :: "sf_env \<Rightarrow> nat \<Rightarrow> string" where
  "owner_name env uid = (case e_pwd env uid of Some n \<Rightarrow> n | None \<Rightarrow> show_nat uid)"

definition group_name :: "sf_env \<Rightarrow> nat \<Rightarrow> string" where
  "group_name env gid = (case e_grp env gid of Some n \<Rightarrow> n | None \<Rightarrow> show_nat gid)"

text \<open>\<open>format(n, "04o")\<close>.\<close>

fun octal :: "nat \<Rightarrow> string" where
  "octal n = (if n < 8 then [char_of (48 + n)] else octal (n div 8) @ [char_of (48 + n mod 8)])"

declare octal.simps [simp del]

definition octal4 :: "nat \<Rightarrow> string" where
  "octal4 n = (let s = octal n in replicate (4 - length s) (CHR ''0'') @ s)"

definition DEFAULT_PREVIEW_EXTENSIONS :: "string list" where
  "DEFAULT_PREVIEW_EXTENSIONS =
     [''.txt'', ''.json'', ''.csv'', ''.md'', ''.yaml'', ''.yml'', ''.log'', ''.py'', ''.html'', ''.htm'',
      ''.xml'', ''.toml'', ''.ini'', ''.cfg'', ''.conf'', ''.sql'', ''.css'', ''.js'']"

definition preview_extension_allowed :: "settings \<Rightarrow> string \<Rightarrow> bool" where
  "preview_extension_allowed st name =
     (let configured = cfg_get st ''FILE_MANAGER_PREVIEW_EXTENSIONS'' PNone;
          exts = (if configured = PNone then Some (map PStr DEFAULT_PREVIEW_EXTENSIONS) else seq_items configured)
      in case exts of
           None \<Rightarrow> False
         | Some vs \<Rightarrow>
             let suffix = splitext_ext (casefold name);
                 allowed = map (\<lambda>v. casefold (py_str v)) (filter is_str vs)
             in List.member allowed suffix)"

fun kind_name :: "file_kind \<Rightarrow> string" where
  "kind_name KDir = ''directory''"
| "kind_name KFile = ''file''"
| "kind_name KLink = ''symlink''"
| "kind_name KSpecial = ''special''"

definition entry_record :: "sf_env \<Rightarrow> string \<Rightarrow> fstat \<Rightarrow> string \<Rightarrow> string list \<Rightarrow> entry_rec" where
  "entry_record env name st rid parts =
     (let kind = kind_name (st_kind st) in
      \<lparr>er_name = name, er_path = join ''/'' (parts @ [name]), er_kind = kind,
       er_is_directory = (kind = ''directory''), er_is_regular_file = (kind = ''file''),
       er_can_preview = (kind = ''file'' \<and> preview_extension_allowed (e_settings env) name),
       er_size = (if kind = ''file'' then Some (st_size st) else None),
       er_modified = st_mtime_ns st,
       er_permissions = octal4 (st_perm st mod 4096),
       er_owner = owner_name env (st_uid st), er_group = group_name env (st_gid st),
       er_content_type = (case e_mime env name of Some t \<Rightarrow> if t = [] then ''application/octet-stream'' else t
                          | None \<Rightarrow> ''application/octet-stream''),
       er_root_id = rid\<rparr>)"

text \<open>The sort key is a tuple; its middle component is a number, a text or a pair of texts.\<close>

type_synonym sort_key = "bool \<times> (int \<times> string \<times> string) \<times> string"

definition entry_sort_key :: "string \<Rightarrow> entry_rec \<Rightarrow> sort_key" where
  "entry_sort_key sort_by item =
     (let value =
        (if sort_by = ''size'' then (case er_size item of Some n \<Rightarrow> n | None \<Rightarrow> -1, [], [])
         else if sort_by = ''modified'' then (er_modified item, [], [])
         else if sort_by = ''type'' then (0, er_content_type item, er_kind item)
         else (0, casefold (er_name item), []))
      in (\<not> er_is_directory item, value, casefold (er_name item)))"

text \<open>\<open>list.sort(key=..., reverse=...)\<close> is stable in both directions.\<close>

definition py_sort :: "('a \<Rightarrow> 'k::linorder) \<Rightarrow> bool \<Rightarrow> 'a list \<Rightarrow> 'a list" where
  "py_sort key reverse xs = (if reverse then rev (sort_key key (rev xs)) else sort_key key xs)"

section \<open>Listing\<close>

record list_query =
  q_page :: pyval
  q_search :: pyval
  q_sort_by :: string
  q_direction :: string
  q_show_hidden :: bool
  q_show_sensitive :: bool

record listing =
  ls_root :: sf_root
  ls_path :: string
  ls_parts :: "string list"
  ls_items :: "entry_rec list"
  ls_page :: int
  ls_page_size :: int
  ls_total :: int
  ls_page_count :: int
  ls_truncated :: bool
  ls_search :: string
  ls_sort_by :: string
  ls_direction :: string
  ls_show_hidden :: bool
  ls_hidden_allowed :: bool
  ls_show_sensitive :: bool

text \<open>Whether a name passes the filters that need no system call.\<close>

definition entry_visible ::
  "sf_env \<Rightarrow> sf_root \<Rightarrow> string list \<Rightarrow> user \<Rightarrow> string \<Rightarrow> bool \<Rightarrow> bool \<Rightarrow> string \<Rightarrow> bool res"
where
  "entry_visible env root parts u search show_hidden show_sensitive name =
     (if name = ''.'' \<or> name = ''..'' then Inr False
      else if starts_with name ''.'' \<and> \<not> show_hidden then Inr False
      else if search \<noteq> [] \<and> \<not> contains (casefold name) search then Inr False
      else bind_res (is_denied (e_settings env) (e_host env) root (parts @ [name])) (\<lambda>denied.
        if denied then Inr False
        else bind_res (is_sensitive (e_settings env) (parts @ [name])) (\<lambda>sensitive.
          if \<not> sensitive then Inr True
          else if \<not> show_sensitive then Inr False
          else has_capability u ''view_sensitive_files'')))"

fun scan_entries ::
  "sf_env \<Rightarrow> sf_root \<Rightarrow> string list \<Rightarrow> nat \<Rightarrow> (string \<Rightarrow> bool res) \<Rightarrow> int \<Rightarrow> int \<Rightarrow> string list
    \<Rightarrow> (entry_rec list \<times> bool) osio"
where
  "scan_entries env root parts fd visible limit scanned [] = ret ([], False)"
| "scan_entries env root parts fd visible limit scanned (name # names) =
     (if scanned + 1 > limit then ret ([], True)
      else bind (lift (visible name)) (\<lambda>shown.
        bind (if \<not> shown then ret []
              else on_os_error
                     (bind (stat_at fd name) (\<lambda>st. ret [entry_record env name st (root_id root) parts]))
                     (\<lambda>_. ret [])) (\<lambda>item.
        bind (scan_entries env root parts fd visible limit (scanned + 1) names) (\<lambda>(items, truncated).
          ret (item @ items, truncated)))))"

definition require_capability :: "user \<Rightarrow> string \<Rightarrow> string \<Rightarrow> unit osio" where
  "require_capability u codename message =
     bind (lift (has_capability u codename)) (\<lambda>ok. require ok (PermissionDenied message))"

definition page_number :: "pyval \<Rightarrow> int" where
  "page_number v = (case py_int v of Inr n \<Rightarrow> max 1 n | Inl _ \<Rightarrow> 1)"

definition search_text :: "list_query \<Rightarrow> string" where
  "search_text q = casefold (strip (take 128 (if truthy (q_search q) then py_str (q_search q) else [])))"

definition allow_hidden :: "sf_env \<Rightarrow> bool" where
  "allow_hidden env = truthy (cfg_get (e_settings env) ''FILE_MANAGER_ALLOW_HIDDEN'' (PBool False))"

definition sort_column :: "list_query \<Rightarrow> string" where
  "sort_column q =
     (if List.member [''name'', ''type'', ''size'', ''modified''] (q_sort_by q) then q_sort_by q else ''name'')"

text \<open>Sorting and paging of the entries that were found.\<close>

definition sorted_items :: "list_query \<Rightarrow> entry_rec list \<Rightarrow> entry_rec list" where
  "sorted_items q = py_sort (entry_sort_key (sort_column q)) (q_direction q = ''desc'')"

definition make_listing ::
  "sf_env \<Rightarrow> sf_root \<Rightarrow> string list \<Rightarrow> int \<Rightarrow> list_query \<Rightarrow> entry_rec list \<Rightarrow> bool \<Rightarrow> listing"
where
  "make_listing env root parts per q items0 truncated =
     (let items = sorted_items q items0;
          total = int (length items);
          page_count = max 1 ((total + per - 1) div per);
          page = min (page_number (q_page q)) page_count;
          start = (page - 1) * per
      in \<lparr>ls_root = root, ls_path = join ''/'' parts, ls_parts = parts,
          ls_items = take (nat per) (drop (nat start) items),
          ls_page = page, ls_page_size = per, ls_total = total, ls_page_count = page_count,
          ls_truncated = truncated, ls_search = search_text q, ls_sort_by = sort_column q,
          ls_direction = (if q_direction q = ''desc'' then ''desc'' else ''asc''),
          ls_show_hidden = (q_show_hidden q \<and> allow_hidden env), ls_hidden_allowed = allow_hidden env,
          ls_show_sensitive = q_show_sensitive q\<rparr>)"

definition list_directory :: "sf_env \<Rightarrow> pyval \<Rightarrow> pyval \<Rightarrow> user \<Rightarrow> list_query \<Rightarrow> listing osio" where
  "list_directory env rid path u q =
     seq (require_capability u ''view_server_files'' ''You do not have permission to view Paxalia Server Files.'')
     (bind (lift (get_root (get_roots (e_settings env) (e_host env)) rid)) (\<lambda>root.
      bind (lift (split_relative_path path True)) (\<lambda>parts.
      bind (lift (assert_path_allowed (e_settings env) (e_host env) root parts u False)) (\<lambda>_.
      bind (lift (limits (e_settings env))) (\<lambda>lim.
      bind (open_directory env root parts (\<lambda>fd. fs_call
          (bind (scandir fd) (\<lambda>names.
           scan_entries env root parts fd
             (entry_visible env root parts u (search_text q) (q_show_hidden q \<and> allow_hidden env) (q_show_sensitive q))
             (scan_limit lim) 0 names)))) (\<lambda>(items, truncated).
      ret (make_listing env root parts (page_size lim) q items truncated)))))))"

definition get_metadata :: "sf_env \<Rightarrow> pyval \<Rightarrow> pyval \<Rightarrow> user \<Rightarrow> entry_rec osio" where
  "get_metadata env rid path u =
     seq (require_capability u ''view_server_files'' ''You do not have permission to view Paxalia Server Files.'')
     (bind (lift (get_root (get_roots (e_settings env) (e_host env)) rid)) (\<lambda>root.
      bind (lift (split_relative_path path False)) (\<lambda>parts.
      bind (lift (assert_path_allowed (e_settings env) (e_host env) root parts u False)) (\<lambda>_.
      open_parent env root parts (\<lambda>parent_fd name.
        bind (safe_stat parent_fd name) (\<lambda>st.
        ret (entry_record env name st (root_id root) (butlast parts))))))))"

section \<open>Downloads\<close>

text \<open>\<open>_BoundedFileReader\<close> over any stream \<open>wread\<close> with a state of type \<open>'s\<close>. A size of \<open>None\<close> or
  a negative one asks for everything.\<close>

definition reader_limit :: "int \<Rightarrow> nat" where
  "reader_limit byte_limit = nat (max 0 byte_limit)"

definition reader_read ::
  "(nat \<Rightarrow> ('s, string) io) \<Rightarrow> int option \<Rightarrow> nat \<Rightarrow> ('s, string \<times> nat) io"
where
  "reader_read wread sz remaining =
     (if remaining = 0 then ret ([], 0)
      else let n = (case sz of None \<Rightarrow> remaining
                    | Some k \<Rightarrow> if k < 0 \<or> k > int remaining then remaining else nat k)
           in bind (wread n) (\<lambda>chunk. ret (chunk, remaining - length chunk)))"

record download =
  dl_fd :: nat
  dl_limit :: nat
  dl_stat :: fstat
  dl_name :: string
  dl_root :: sf_root

definition open_download :: "sf_env \<Rightarrow> pyval \<Rightarrow> pyval \<Rightarrow> user \<Rightarrow> download osio" where
  "open_download env rid path u =
     seq (require_capability u ''download_server_files'' ''You do not have permission to download Server Files.'')
     (bind (lift (get_root (get_roots (e_settings env) (e_host env)) rid)) (\<lambda>root.
      bind (lift (split_relative_path path False)) (\<lambda>parts.
      bind (lift (assert_path_allowed (e_settings env) (e_host env) root parts u False)) (\<lambda>_.
      open_regular_file env root parts (\<lambda>fd file_stat.
        bind (lift (limits (e_settings env))) (\<lambda>lim.
        seq (require (st_size file_stat \<le> download_bytes lim) (sf SfTooLarge))
        (bind (os_dup fd) (\<lambda>stream.
        ret \<lparr>dl_fd = stream, dl_limit = reader_limit (st_size file_stat), dl_stat = file_stat,
             dl_name = last parts, dl_root = root\<rparr>))))))))"

section \<open>Changes\<close>

definition create_directory :: "sf_env \<Rightarrow> pyval \<Rightarrow> pyval \<Rightarrow> string \<Rightarrow> user \<Rightarrow> (sf_root \<times> string) osio" where
  "create_directory env rid path name0 u =
     seq (require_capability u ''modify_server_files'' ''You do not have permission to modify Server Files.'')
     (bind (lift (get_root (get_roots (e_settings env) (e_host env)) rid)) (\<lambda>root.
      bind (lift (split_relative_path path True)) (\<lambda>parts.
      bind (lift (validate_name name0)) (\<lambda>name.
      bind (lift (assert_path_allowed (e_settings env) (e_host env) root (parts @ [name]) u True)) (\<lambda>_.
      seq (open_directory env root parts (\<lambda>parent_fd.
             seq (fs_call (mkdir_at parent_fd name 488)) (os_fsync parent_fd)))
      (ret (root, join ''/'' (parts @ [name]))))))))"

text \<open>\<open>while view: count = os.write(fd, view); ...; view = view[count:]\<close>.\<close>

function write_all :: "nat \<Rightarrow> string \<Rightarrow> os \<Rightarrow> (exn + unit) \<times> os" where
  "write_all fd view s =
     (if view = [] then (Inr (), s)
      else case os_write fd view s of
             (Inl e, t) \<Rightarrow> (Inl e, t)
           | (Inr count, t) \<Rightarrow>
               if count = 0 then (Inl (OSError EIO), t) else write_all fd (drop count view) t)"
  by pat_completeness auto
termination
  by (relation "measure (\<lambda>(fd, view, s). length view)") auto

declare write_all.simps [simp del]

text \<open>The uploaded file: its declared size and what iterating its chunks yields (the client may
  disconnect in the middle).\<close>

record uploaded =
  up_size :: "int option"
  up_chunks :: "string res list"

fun write_chunks :: "nat \<Rightarrow> int \<Rightarrow> int \<Rightarrow> int \<Rightarrow> string res list \<Rightarrow> int osio" where
  "write_chunks fd max_bytes declared written [] = ret written"
| "write_chunks fd max_bytes declared written (c # cs) =
     bind (lift c) (\<lambda>chunk.
       let written' = written + int (length chunk) in
       seq (require (\<not> (written' > max_bytes \<or> written' > declared)) (sf SfTooLarge))
       (seq (write_all fd chunk) (write_chunks fd max_bytes declared written' cs)))"

text \<open>Publishing a finished temporary file: \<open>store\<close> fills it through its descriptor, \<open>os.link\<close> gives
  it the final name and never replaces an existing entry. \<open>created\<close> is true on every way out but
  the one after the temporary name was removed.\<close>

definition discard_temp :: "nat \<Rightarrow> string \<Rightarrow> unit osio" where
  "discard_temp dir_fd temp = on_os_error (unlink_at dir_fd temp) (\<lambda>_. ret ())"

definition publish :: "nat \<Rightarrow> string \<Rightarrow> string \<Rightarrow> (nat \<Rightarrow> 'a osio) \<Rightarrow> 'a osio" where
  "publish dir_fd temp name store =
     bind (create_at dir_fd temp 416) (\<lambda>fd.
     bind
       (catch
         (bind (cleanup (store fd) (os_close fd)) (\<lambda>x.
          seq (fs_call (link_at dir_fd temp dir_fd name))
          (seq (unlink_at dir_fd temp) (ret x))))
         (\<lambda>e. seq (discard_temp dir_fd temp) (raise e))) (\<lambda>x.
     seq (os_fsync dir_fd) (ret x)))"

definition upload_body :: "nat \<Rightarrow> int \<Rightarrow> int \<Rightarrow> string res list \<Rightarrow> int osio" where
  "upload_body fd max_bytes declared chunks =
     bind (write_chunks fd max_bytes declared 0 chunks) (\<lambda>written.
     seq (require (written = declared)
           (sf_msg SfInvalidPath ''The uploaded file size did not match its declared size.''))
     (seq (os_fsync fd) (seq (os_fchmod fd 416) (ret written))))"

definition upload_file ::
  "sf_env \<Rightarrow> pyval \<Rightarrow> pyval \<Rightarrow> string \<Rightarrow> uploaded \<Rightarrow> user \<Rightarrow> (sf_root \<times> string \<times> int) osio"
where
  "upload_file env rid path name0 up u =
     seq (require_capability u ''upload_server_files'' ''You do not have permission to upload Server Files.'')
     (bind (lift (get_root (get_roots (e_settings env) (e_host env)) rid)) (\<lambda>root.
      bind (lift (split_relative_path path True)) (\<lambda>parts.
      bind (lift (validate_name name0)) (\<lambda>name.
      bind (lift (assert_path_allowed (e_settings env) (e_host env) root (parts @ [name]) u True)) (\<lambda>_.
      bind (lift (limits (e_settings env))) (\<lambda>lim.
      bind (case up_size up of None \<Rightarrow> raise (sf SfTooLarge)
            | Some n \<Rightarrow> if n < 0 \<or> n > upload_bytes lim then raise (sf SfTooLarge) else ret n) (\<lambda>declared.
      bind fresh_uuid (\<lambda>hex.
      bind (open_directory env root parts (\<lambda>parent_fd.
              publish parent_fd (''.paxalia-upload-'' @ hex @ ''.part'') name
                (\<lambda>fd. upload_body fd (upload_bytes lim) declared (up_chunks up)))) (\<lambda>written.
      ret (root, join ''/'' (parts @ [name]), written))))))))))"

definition rename_noreplace :: "sf_env \<Rightarrow> nat \<Rightarrow> string \<Rightarrow> nat \<Rightarrow> string \<Rightarrow> unit osio" where
  "rename_noreplace env src_fd src_name dst_fd dst_name =
     seq (require (e_linux env) (sf_msg SfDenied ''Safe no-overwrite rename is unavailable on this platform.''))
     (seq (require (e_renameat2 env) (sf_msg SfDenied ''Safe no-overwrite rename is unavailable on this platform.''))
     (on_os_error (renameat2_noreplace src_fd src_name dst_fd dst_name) (\<lambda>n.
       if n = EEXIST then raise (sf SfAlreadyExists)
       else if n = EXDEV \<or> n = EINVAL \<or> n = ENOSYS \<or> n = EOPNOTSUPP
       then raise (sf_msg SfDenied ''The filesystem cannot perform this safe move.'')
       else raise (filesystem_error n))))"

definition rename_or_move ::
  "sf_env \<Rightarrow> pyval \<Rightarrow> pyval \<Rightarrow> pyval \<Rightarrow> pyval \<Rightarrow> string \<Rightarrow> user \<Rightarrow> (sf_root \<times> string \<times> string) osio"
where
  "rename_or_move env rid path dst_rid dst_path name0 u =
     seq (require_capability u ''modify_server_files'' ''You do not have permission to modify Server Files.'')
     (bind (lift (get_root (get_roots (e_settings env) (e_host env)) rid)) (\<lambda>src_root.
      bind (lift (get_root (get_roots (e_settings env) (e_host env)) dst_rid)) (\<lambda>dst_root.
      bind (lift (split_relative_path path False)) (\<lambda>src_parts.
      bind (lift (split_relative_path dst_path True)) (\<lambda>dst_parts.
      bind (lift (validate_name name0)) (\<lambda>new_name.
      bind (lift (assert_path_allowed (e_settings env) (e_host env) src_root src_parts u True)) (\<lambda>_.
      bind (lift (assert_path_allowed (e_settings env) (e_host env) dst_root (dst_parts @ [new_name]) u True)) (\<lambda>_.
      seq (open_parent env src_root src_parts (\<lambda>src_fd src_name.
             bind (safe_stat src_fd src_name) (\<lambda>source_stat.
             seq (require (st_kind source_stat = KFile \<or> st_kind source_stat = KDir) (sf SfNotRegularFile))
             (seq (require (\<not> (st_kind source_stat = KDir \<and> root_id src_root = root_id dst_root
                       \<and> length dst_parts \<ge> length src_parts \<and> take (length src_parts) dst_parts = src_parts))
                    (sf_msg SfInvalidPath ''A directory cannot be moved into itself or one of its descendants.''))
             (open_directory env dst_root dst_parts (\<lambda>dst_fd.
                fs_call
                  (seq (rename_noreplace env src_fd src_name dst_fd new_name)
                  (seq (os_fsync src_fd)
                       (whenever (dst_fd \<noteq> src_fd) (os_fsync dst_fd)))))))))
          )
      (ret (dst_root, join ''/'' (dst_parts @ [new_name]), join ''/'' src_parts))))))))))"

text \<open>\<open>while True: chunk = os.read(src_fd, _READ_CHUNK); ...\<close>: every round that goes on has read at
  least one byte, and more than \<open>max_bytes\<close> of them end the loop.\<close>

definition READ_CHUNK :: int where
  "READ_CHUNK = 1024 * 1024"

function copy_loop :: "nat \<Rightarrow> nat \<Rightarrow> int \<Rightarrow> int \<Rightarrow> os \<Rightarrow> (exn + int) \<times> os" where
  "copy_loop src_fd dst_fd max_bytes copied s =
     (case os_read src_fd READ_CHUNK s of
        (Inl e, t) \<Rightarrow> (Inl e, t)
      | (Inr chunk, t) \<Rightarrow>
          if chunk = [] then (Inr copied, t)
          else let copied' = copied + int (length chunk) in
            if copied' > max_bytes
            then (Inl (sf_msg SfTooLarge ''The file exceeds the configured copy size limit.''), t)
            else (case write_all dst_fd chunk t of
                    (Inl e, v) \<Rightarrow> (Inl e, v)
                  | (Inr _, v) \<Rightarrow> copy_loop src_fd dst_fd max_bytes copied' v))"
  by pat_completeness auto
termination
  by (relation "measure (\<lambda>(a, b, max_bytes, copied, s). nat (max_bytes - copied))")
     (auto simp: neq_Nil_conv)

declare copy_loop.simps [simp del]

definition same_file :: "fstat \<Rightarrow> fstat \<Rightarrow> bool" where
  "same_file a b \<longleftrightarrow> (st_dev a, st_ino a, st_size a, st_mtime_ns a, st_ctime_ns a)
                 = (st_dev b, st_ino b, st_size b, st_mtime_ns b, st_ctime_ns b)"

definition copy_body :: "nat \<Rightarrow> fstat \<Rightarrow> int \<Rightarrow> nat \<Rightarrow> int osio" where
  "copy_body src_fd source_stat max_bytes dst_fd =
     bind (copy_loop src_fd dst_fd max_bytes 0) (\<lambda>copied.
     bind (os_fstat src_fd) (\<lambda>current_source.
     seq (require (\<not> (copied \<noteq> st_size source_stat \<or> \<not> same_file current_source source_stat))
           (sf_msg SfInvalidPath ''The source file changed while it was being copied.''))
     (seq (os_fsync dst_fd) (seq (os_fchmod dst_fd 416) (ret copied)))))"

definition copy_file ::
  "sf_env \<Rightarrow> pyval \<Rightarrow> pyval \<Rightarrow> pyval \<Rightarrow> pyval \<Rightarrow> string \<Rightarrow> user \<Rightarrow> (sf_root \<times> string \<times> int) osio"
where
  "copy_file env rid path dst_rid dst_path name0 u =
     seq (require_capability u ''modify_server_files'' ''You do not have permission to modify Server Files.'')
     (bind (lift (get_root (get_roots (e_settings env) (e_host env)) rid)) (\<lambda>src_root.
      bind (lift (get_root (get_roots (e_settings env) (e_host env)) dst_rid)) (\<lambda>dst_root.
      bind (lift (split_relative_path path False)) (\<lambda>src_parts.
      bind (lift (split_relative_path dst_path True)) (\<lambda>dst_parts.
      bind (lift (validate_name name0)) (\<lambda>new_name.
      bind (lift (assert_path_allowed (e_settings env) (e_host env) src_root src_parts u True)) (\<lambda>_.
      bind (lift (assert_path_allowed (e_settings env) (e_host env) dst_root (dst_parts @ [new_name]) u True)) (\<lambda>_.
      bind (lift (limits (e_settings env))) (\<lambda>lim.
      bind (open_regular_file env src_root src_parts (\<lambda>src_fd source_stat.
              seq (require (st_size source_stat \<le> copy_bytes lim)
                    (sf_msg SfTooLarge ''The file exceeds the configured copy size limit.''))
              (bind fresh_uuid (\<lambda>hex.
              open_directory env dst_root dst_parts (\<lambda>dst_dir_fd.
                publish dst_dir_fd (''.paxalia-copy-'' @ hex @ ''.part'') new_name
                  (copy_body src_fd source_stat (copy_bytes lim))))))) (\<lambda>copied.
      ret (dst_root, join ''/'' (dst_parts @ [new_name]), copied)))))))))))"

definition delete_item :: "sf_env \<Rightarrow> pyval \<Rightarrow> pyval \<Rightarrow> user \<Rightarrow> (sf_root \<times> string) osio" where
  "delete_item env rid path u =
     seq (require_capability u ''delete_server_files'' ''You do not have permission to delete Server Files.'')
     (bind (lift (get_root (get_roots (e_settings env) (e_host env)) rid)) (\<lambda>root.
      bind (lift (split_relative_path path False)) (\<lambda>parts.
      bind (lift (assert_path_allowed (e_settings env) (e_host env) root parts u True)) (\<lambda>_.
      seq (open_parent env root parts (\<lambda>parent_fd name.
             bind (safe_stat parent_fd name) (\<lambda>file_stat.
             on_os_error
               (seq (if st_kind file_stat = KDir then rmdir_at parent_fd name
                     else if st_kind file_stat = KFile then unlink_at parent_fd name
                     else raise (sf SfNotRegularFile))
                    (os_fsync parent_fd))
               (\<lambda>n. if n = ENOTEMPTY
                    then raise (sf_msg SfDenied ''Only empty directories can be deleted from Server Files.'')
                    else raise (filesystem_error n)))))
      (ret (root, join ''/'' parts))))))"

end
