(* ===== verification/Os_Spec.thy ===== *)
theory Os_Spec
  imports Server_Files
begin

text \<open>
  A Hoare logic for code that runs between system calls: \<open>ok\<close> describes a process that runs without
  other writers but under any schedule of failing and short calls, \<open>spec s m Q E\<close> is a triple for
  code started in \<open>s\<close> (\<open>Q\<close> for its result, \<open>E\<close> for any exception), with one rule per system
  call and per context manager of \<open>server_files/service.py\<close>. \<open>walk\<close> and \<open>resolves\<close> are the
  specification of path resolution: every component a directory, no link followed.
\<close>

section \<open>Undisturbed runs\<close>

fun interferes :: "event \<Rightarrow> bool" where
  "interferes (Interfere g) = True"
| "interferes ev = False"

text \<open>No other process writes to the file system, and the inode and descriptor counters are ahead
  of what is in use.\<close>

definition ok :: "os \<Rightarrow> bool" where
  "ok s \<longleftrightarrow> list_all (\<lambda>ev. \<not> interferes ev) (os_sched s)
     \<and> (\<forall>i. os_next s \<le> i \<longrightarrow> os_fs s i = None) \<and> (\<forall>fd. os_nfd s \<le> fd \<longrightarrow> os_fds s fd = None)"

text \<open>What a caller may rely on across any code: its own descriptors.\<close>

definition frame :: "os \<Rightarrow> os \<Rightarrow> bool" where
  "frame s t \<longleftrightarrow> (\<forall>fd < os_nfd s. os_fds t fd = os_fds s fd) \<and> os_nfd s \<le> os_nfd t \<and> os_next s \<le> os_next t
     \<and> os_paths t = os_paths s \<and> os_clock t = os_clock s"

definition reach :: "os \<Rightarrow> os \<Rightarrow> bool" where
  "reach s t \<longleftrightarrow> ok t \<and> frame s t"

lemma frame_refl [simp]: "frame s s"
  by (simp add: frame_def)

lemma frame_trans: "frame s t \<Longrightarrow> frame t u \<Longrightarrow> frame s u"
  by (auto simp: frame_def)

lemma reach_refl [simp]: "reach s s \<longleftrightarrow> ok s"
  by (simp add: reach_def)

lemma reach_trans: "reach s t \<Longrightarrow> reach t u \<Longrightarrow> reach s u"
  by (auto simp: reach_def intro: frame_trans)

lemma reach_ok: "reach s t \<Longrightarrow> ok t"
  by (simp add: reach_def)

lemma frame_fd: "frame s t \<Longrightarrow> ok s \<Longrightarrow> os_fds s fd = Some i \<Longrightarrow> os_fds t fd = Some i"
  unfolding frame_def ok_def by (metis not_le_imp_less option.distinct(1))

lemma reach_fd: "reach s t \<Longrightarrow> ok s \<Longrightarrow> os_fds s fd = Some i \<Longrightarrow> os_fds t fd = Some i"
  by (auto simp: reach_def intro: frame_fd)

section \<open>Triples\<close>

definition spec :: "os \<Rightarrow> 'a osio \<Rightarrow> ('a \<Rightarrow> os \<Rightarrow> bool) \<Rightarrow> (os \<Rightarrow> bool) \<Rightarrow> bool" where
  "spec s m Q E \<longleftrightarrow> wp m (\<lambda>x t. reach s t \<and> Q x t) (\<lambda>_ t. reach s t \<and> E t) s"

lemma spec_mono:
  "spec s m Q E \<Longrightarrow> (\<And>x t. reach s t \<Longrightarrow> Q x t \<Longrightarrow> Q' x t) \<Longrightarrow> (\<And>t. reach s t \<Longrightarrow> E t \<Longrightarrow> E' t) \<Longrightarrow> spec s m Q' E'"
  unfolding spec_def by (auto elim: wp_mono)

lemma spec_from: "spec t m Q E \<Longrightarrow> reach s t \<Longrightarrow> wp m (\<lambda>x u. reach s u \<and> Q x u) (\<lambda>_ u. reach s u \<and> E u) t"
  unfolding spec_def by (auto elim: wp_mono intro: reach_trans)

lemma spec_bind:
  assumes "spec s m R E" "\<And>x t. reach s t \<Longrightarrow> R x t \<Longrightarrow> spec t (k x) Q E"
  shows "spec s (bind m k) Q E"
  unfolding spec_def wp_bind
  by (rule wp_mono[OF assms(1)[unfolded spec_def]]) (auto intro: spec_from assms(2))

lemma spec_seq:
  assumes "spec s m (\<lambda>_. R) E" "\<And>t. reach s t \<Longrightarrow> R t \<Longrightarrow> spec t k Q E"
  shows "spec s (seq m k) Q E"
  unfolding seq_def by (rule spec_bind[OF assms(1)]) (rule assms(2))

lemma spec_ret: "ok s \<Longrightarrow> Q x s \<Longrightarrow> spec s (ret x) Q E"
  by (simp add: spec_def wp_simps)

lemma spec_raise: "ok s \<Longrightarrow> E s \<Longrightarrow> spec s (raise e) Q E"
  by (simp add: spec_def wp_simps)

lemma spec_require: "ok s \<Longrightarrow> (b \<Longrightarrow> Q () s) \<Longrightarrow> (\<not> b \<Longrightarrow> E s) \<Longrightarrow> spec s (require b e) Q E"
  by (simp add: spec_def wp_simps)

lemma spec_lift:
  "ok s \<Longrightarrow> (\<And>x. r = Inr x \<Longrightarrow> Q x s) \<Longrightarrow> E s \<Longrightarrow> spec s (lift r) Q E"
  by (simp add: spec_def wp_simps split: sum.splits)

lemma spec_whenever: "ok s \<Longrightarrow> (b \<Longrightarrow> spec s m Q E) \<Longrightarrow> (\<not> b \<Longrightarrow> Q () s) \<Longrightarrow> spec s (whenever b m) Q E"
  by (simp add: spec_def wp_simps)

lemma spec_catch:
  assumes "spec s m Q R" "\<And>e t. reach s t \<Longrightarrow> R t \<Longrightarrow> spec t (h e) Q E"
  shows "spec s (catch m h) Q E"
  unfolding spec_def wp_catch
  by (rule wp_mono[OF assms(1)[unfolded spec_def]]) (auto intro: spec_from assms(2))

lemma spec_on_os_error:
  assumes "spec s m Q R" "\<And>e t. reach s t \<Longrightarrow> R t \<Longrightarrow> spec t (h e) Q E" "\<And>t. reach s t \<Longrightarrow> R t \<Longrightarrow> E t"
  shows "spec s (on_os_error m h) Q E"
  unfolding on_os_error_def
  by (rule spec_catch[OF assms(1)]) (auto split: exn.splits intro!: assms spec_raise dest: reach_ok)

lemma spec_fs_call: "spec s m Q E \<Longrightarrow> spec s (fs_call m) Q E"
  unfolding fs_call_def by (erule spec_on_os_error) (auto intro: spec_raise dest: reach_ok)

lemma spec_pure_guard:
  "spec s (bind (lift r) k) Q E" if "ok s" "E s" "\<And>x. r = Inr x \<Longrightarrow> spec s (k x) Q E"
  using that by (simp add: spec_def wp_simps split: sum.splits)

lemma wp_of_spec: "spec s m Q E \<Longrightarrow> wp m Q (\<lambda>_. E) s"
  unfolding spec_def by (erule wp_mono) auto

section \<open>System calls\<close>

text \<open>Losing an event, or failing, keeps everything a predicate of files and descriptors can see.\<close>

definition same_view :: "os \<Rightarrow> os \<Rightarrow> bool" where
  "same_view s t \<longleftrightarrow> (\<exists>r. t = s\<lparr>os_sched := r\<rparr>)"

lemma same_view_simps:
  assumes "same_view s t"
  shows "os_fs t = os_fs s" "os_fds t = os_fds s" "os_next t = os_next s" "os_nfd t = os_nfd s"
    "os_pos t = os_pos s" "os_paths t = os_paths s" "os_clock t = os_clock s" "os_link_errno t = os_link_errno s"
  using assms by (auto simp: same_view_def)

lemma next_event_ok:
  assumes "ok s"
  shows "case next_event s of (ev, t) \<Rightarrow> \<not> interferes ev \<and> same_view s t \<and> ok t"
proof (cases "os_sched s")
  case Nil
  then show ?thesis
    using assms by (auto simp: next_event_def same_view_def intro: exI[of _ "[]"])
next
  case (Cons ev r)
  then show ?thesis
    using assms by (auto simp: next_event_def same_view_def ok_def)
qed

lemma frame_same_view: "same_view s t \<Longrightarrow> frame s t"
  by (auto simp: frame_def same_view_simps)

lemma wp_syscall:
  assumes "ok s"
    and "\<And>t e. ok t \<Longrightarrow> same_view s t \<Longrightarrow> E (OSError e) t"
    and "\<And>t lim. ok t \<Longrightarrow> same_view s t \<Longrightarrow> wp (act lim) Q E t"
  shows "wp (syscall act) Q E s"
proof -
  obtain ev t where ev: "next_event s = (ev, t)" by fastforce
  with next_event_ok[OF assms(1)] have t: "\<not> interferes ev" "same_view s t" "ok t" by auto
  with assms(2,3) ev show ?thesis
    by (cases ev) (auto simp: wp_def syscall_def)
qed

lemma spec_syscall:
  assumes "ok s" "\<And>t. reach s t \<Longrightarrow> same_view s t \<Longrightarrow> E t"
    and "\<And>t lim. reach s t \<Longrightarrow> same_view s t \<Longrightarrow> spec t (act lim) Q E"
  shows "spec s (syscall act) Q E"
  unfolding spec_def
proof (rule wp_syscall[OF assms(1)])
  fix t e assume "ok t" "same_view s t"
  then show "reach s t \<and> E t" using assms(2) by (simp add: reach_def frame_same_view)
next
  fix t lim assume t: "ok t" "same_view s t"
  then have r: "reach s t" by (simp add: reach_def frame_same_view)
  show "wp (act lim) (\<lambda>x t. reach s t \<and> Q x t) (\<lambda>_ t. reach s t \<and> E t) t"
    by (rule spec_from[OF assms(3)[OF r t(2)] r])
qed

lemma spec_fd_inode:
  assumes "ok s" "os_fds s fd = Some d"
  shows "spec s (fd_inode fd) (\<lambda>i t. i = d \<and> t = s) (\<lambda>t. False)"
  using assms by (auto simp: spec_def wp_def fd_inode_def)

lemma reach_new_fd:
  assumes "ok s"
  shows "reach s (s\<lparr>os_fds := (os_fds s)(os_nfd s \<mapsto> i), os_pos := p, os_nfd := Suc (os_nfd s)\<rparr>)"
  using assms by (auto simp: ok_def reach_def frame_def)

text \<open>A call that returns a new descriptor for an inode and changes no file.\<close>

definition opened :: "os \<Rightarrow> nat \<Rightarrow> nat \<Rightarrow> os \<Rightarrow> bool" where
  "opened s i fd t \<longleftrightarrow> os_nfd s \<le> fd \<and> fd < os_nfd t \<and> os_fs t = os_fs s \<and> os_next t = os_next s
     \<and> os_fds t fd = Some i \<and> os_pos t fd = 0"

abbreviation same_fs :: "os \<Rightarrow> os \<Rightarrow> bool" where
  "same_fs s t \<equiv> os_fs t = os_fs s \<and> os_next t = os_next s"

lemma spec_new_fd:
  assumes "ok s"
  shows "spec s (new_fd i) (opened s i) E"
  using reach_new_fd[OF assms, where i = i] by (auto simp: spec_def wp_def new_fd_def opened_def)

lemma opened_same_view: "opened t i fd u \<Longrightarrow> same_view s t \<Longrightarrow> opened s i fd u"
  by (simp add: opened_def same_view_simps)

lemma spec_open_inode_dir:
  assumes "ok s"
  shows "spec s (open_inode_dir i) (\<lambda>fd t. opened s i fd t \<and> is_kind (os_fs s) i KDir) (same_fs s)"
proof (cases "is_kind (os_fs s) i KDir")
  case True
  have "spec s (new_fd i) (\<lambda>fd t. opened s i fd t \<and> is_kind (os_fs s) i KDir) (same_fs s)"
    by (rule spec_mono[OF spec_new_fd[OF assms]]) (use True in auto)
  with True show ?thesis by (simp add: spec_def wp_def open_inode_dir_def)
next
  case False
  with assms show ?thesis by (simp add: spec_def wp_def open_inode_dir_def)
qed

lemma spec_open_dir_path:
  assumes "ok s"
  shows "spec s (open_dir_path p)
    (\<lambda>fd t. \<exists>i. os_paths s p = Inr i \<and> opened s i fd t \<and> is_kind (os_fs s) i KDir) (same_fs s)"
  unfolding open_dir_path_def
proof (rule spec_syscall[OF assms])
  fix t assume "reach s t" "same_view s t"
  then show "same_fs s t" by (simp add: same_view_simps)
next
  fix t lim assume t: "reach s t" "same_view s t"
  let ?Q = "\<lambda>fd u. \<exists>i. os_paths s p = Inr i \<and> opened s i fd u \<and> is_kind (os_fs s) i KDir"
  show "spec t (\<lambda>s. case os_paths s p of Inl e \<Rightarrow> (Inl (OSError e), s) | Inr i \<Rightarrow> open_inode_dir i s) ?Q (same_fs s)"
  proof (cases "os_paths s p")
    case (Inl e)
    with t show ?thesis by (simp add: spec_def wp_def same_view_simps reach_ok)
  next
    case (Inr i)
    have "spec t (open_inode_dir i) ?Q (same_fs s)"
      by (rule spec_mono[OF spec_open_inode_dir[OF reach_ok[OF t(1)]]])
         (use t Inr in \<open>auto simp: same_view_simps opened_def\<close>)
    with t Inr show ?thesis by (simp add: spec_def wp_def same_view_simps)
  qed
qed

text \<open>A descriptor-relative call: the descriptor's inode, then the body.\<close>

lemma spec_at:
  assumes "ok s" "os_fds s fd = Some d"
    and "\<And>t. reach s t \<Longrightarrow> same_view s t \<Longrightarrow> E t"
    and "\<And>t lim. reach s t \<Longrightarrow> same_view s t \<Longrightarrow> spec t (act lim d) Q E"
  shows "spec s (syscall (\<lambda>lim. bind (fd_inode fd) (act lim))) Q E"
proof (rule spec_syscall[OF assms(1)])
  fix t assume "reach s t" "same_view s t"
  then show "E t" by (rule assms(3))
next
  fix t lim assume t: "reach s t" "same_view s t"
  have fd: "os_fds t fd = Some d" using assms(2) t(2) by (simp add: same_view_simps)
  show "spec t (bind (fd_inode fd) (act lim)) Q E"
  proof (rule spec_bind)
    show "spec t (fd_inode fd) (\<lambda>i u. i = d \<and> u = t) E"
      by (rule spec_mono[OF spec_fd_inode[OF reach_ok[OF t(1)] fd]]) auto
  next
    fix i u assume "i = d \<and> u = t"
    then show "spec u (act lim i) Q E" using assms(4)[OF t] by simp
  qed
qed

lemma spec_open_dir_at:
  assumes "ok s" "os_fds s fd = Some d"
  shows "spec s (open_dir_at fd name)
    (\<lambda>fd' t. \<exists>i. fs_lookup (os_fs s) d name = Some i \<and> opened s i fd' t \<and> is_kind (os_fs s) i KDir) (same_fs s)"
  unfolding open_dir_at_def
proof (rule spec_at[OF assms])
  fix t assume "reach s t" "same_view s t"
  then show "same_fs s t" by (simp add: same_view_simps)
next
  fix t and lim :: "nat option" assume t: "reach s t" "same_view s t"
  let ?Q = "\<lambda>fd' t. \<exists>i. fs_lookup (os_fs s) d name = Some i \<and> opened s i fd' t \<and> is_kind (os_fs s) i KDir"
  show "spec t (\<lambda>s. case fs_lookup (os_fs s) d name of None \<Rightarrow> (Inl (OSError ENOENT), s) | Some i \<Rightarrow> open_inode_dir i s)
          ?Q (same_fs s)"
  proof (cases "fs_lookup (os_fs s) d name")
    case None
    with t show ?thesis by (simp add: spec_def wp_def same_view_simps reach_ok)
  next
    case (Some i)
    have "spec t (open_inode_dir i) ?Q (same_fs s)"
      by (rule spec_mono[OF spec_open_inode_dir[OF reach_ok[OF t(1)]]])
         (use t Some in \<open>auto simp: same_view_simps opened_def\<close>)
    with t Some show ?thesis by (simp add: spec_def wp_def same_view_simps)
  qed
qed

lemma spec_os_dup:
  assumes "ok s" "os_fds s fd = Some d"
  shows "spec s (os_dup fd) (opened s d) (same_fs s)"
  unfolding os_dup_def
proof (rule spec_at[OF assms])
  fix t and lim :: "nat option" assume t: "reach s t" "same_view s t"
  show "spec t (new_fd d) (opened s d) (same_fs s)"
    by (rule spec_mono[OF spec_new_fd[OF reach_ok[OF t(1)]]]) (auto intro: opened_same_view t(2))
qed (simp add: same_view_simps)

lemma spec_os_fstat:
  assumes "ok s" "os_fds s fd = Some d"
  shows "spec s (os_fstat fd) (\<lambda>st t. same_fs s t \<and> (\<exists>n. os_fs s d = Some n \<and> st = stat_of d n) \<and> os_pos t = os_pos s) (same_fs s)"
  unfolding os_fstat_def
  by (rule spec_at[OF assms])
     (auto simp: spec_def wp_def same_view_simps reach_ok split: option.splits)

lemma spec_stat_at:
  assumes "ok s" "os_fds s fd = Some d"
  shows "spec s (stat_at fd name)
    (\<lambda>st t. same_fs s t \<and> (\<exists>i n. fs_lookup (os_fs s) d name = Some i \<and> os_fs s i = Some n \<and> st = stat_of i n)) (same_fs s)"
  unfolding stat_at_def
  by (rule spec_at[OF assms])
     (auto simp: spec_def wp_def same_view_simps reach_ok split: option.splits)


section \<open>Context managers\<close>

definition closed :: "nat \<Rightarrow> os \<Rightarrow> os \<Rightarrow> bool" where
  "closed fd t u \<longleftrightarrow> ok u \<and> (\<exists>r. u = t\<lparr>os_fds := (os_fds t)(fd := None), os_sched := r\<rparr>)"

lemma closed_simps:
  assumes "closed fd t u"
  shows "os_fs u = os_fs t" "os_next u = os_next t" "os_nfd u = os_nfd t" "os_pos u = os_pos t"
    "os_fds u = (os_fds t)(fd := None)" "os_paths u = os_paths t" "os_clock u = os_clock t" "ok u"
  using assms by (auto simp: closed_def)

lemma wp_close_os:
  assumes "ok s"
  shows "wp (os_close fd) (\<lambda>_. closed fd s) (\<lambda>e t. (\<exists>n. e = OSError n) \<and> closed fd s t) s"
proof -
  let ?s = "s\<lparr>os_fds := (os_fds s)(fd := None)\<rparr>"
  have "ok ?s" using assms by (auto simp: ok_def)
  then have "wp (syscall (\<lambda>_ t. (Inr (), t))) (\<lambda>_ t. ok t \<and> same_view ?s t)
      (\<lambda>e t. (\<exists>n. e = OSError n) \<and> ok t \<and> same_view ?s t) ?s"
    by (rule wp_syscall) (auto simp: wp_def)
  then have "wp (os_close fd) (\<lambda>_ t. ok t \<and> same_view ?s t)
      (\<lambda>e t. (\<exists>n. e = OSError n) \<and> ok t \<and> same_view ?s t) s"
    by (simp add: wp_def os_close_def)
  then show ?thesis
    by (rule wp_mono) (auto simp: same_view_def closed_def)
qed

lemma wp_close:
  assumes "ok t"
  shows "wp (os_close fd) (\<lambda>_. closed fd t) (\<lambda>_. closed fd t) t"
  by (rule wp_mono[OF wp_close_os[OF assms]]) auto

lemma wp_close_quietly:
  assumes "ok s"
  shows "wp (close_quietly fd) (\<lambda>_. closed fd s) (\<lambda>_ _. False) s"
  unfolding close_quietly_def on_os_error_def wp_catch
  by (rule wp_mono[OF wp_close_os[OF assms]]) (auto simp: wp_simps)

lemma reach_closed: "reach s t \<Longrightarrow> os_nfd s \<le> fd \<Longrightarrow> closed fd t u \<Longrightarrow> reach s u"
  by (auto simp: reach_def frame_def closed_simps)

text \<open>\<open>fd = open(...); try: body finally: os.close(fd)\<close>.\<close>

lemma spec_with_fd:
  assumes m: "spec s m (\<lambda>fd t. os_nfd s \<le> fd \<and> R fd t) E'"
    and body: "\<And>fd t. reach s t \<Longrightarrow> os_nfd s \<le> fd \<Longrightarrow> R fd t \<Longrightarrow> spec t (body fd) (Q fd) (E fd)"
    and fin: "\<And>fd x t u. os_nfd s \<le> fd \<Longrightarrow> closed fd t u \<Longrightarrow> Q fd x t \<Longrightarrow> Q' x u"
    and err: "\<And>fd x t u. os_nfd s \<le> fd \<Longrightarrow> closed fd t u \<Longrightarrow> Q fd x t \<Longrightarrow> E' u"
      "\<And>fd x t u. os_nfd s \<le> fd \<Longrightarrow> closed fd t u \<Longrightarrow> E fd t \<Longrightarrow> E' u"
  shows "spec s (bind m (\<lambda>fd. cleanup (body fd) (os_close fd))) Q' E'"
  unfolding spec_def wp_bind
proof (rule wp_mono[OF m[unfolded spec_def]])
  fix fd t assume t: "reach s t \<and> os_nfd s \<le> fd \<and> R fd t"
  let ?E = "\<lambda>_ u. reach s u \<and> E' u"
  show "wp (cleanup (body fd) (os_close fd)) (\<lambda>x t. reach s t \<and> Q' x t) ?E t"
    unfolding wp_cleanup
  proof (rule wp_mono)
    show "wp (body fd) (\<lambda>x u. reach s u \<and> Q fd x u) (\<lambda>_ u. reach s u \<and> E fd u) t"
      by (rule spec_from[OF body]) (use t in auto)
  next
    fix x u assume u: "reach s u \<and> Q fd x u"
    show "wp (os_close fd) (\<lambda>_ t. reach s t \<and> Q' x t) ?E u"
      by (rule wp_mono[OF wp_close]) (use u t fin err(1) in \<open>auto intro: reach_closed reach_ok\<close>)
  next
    fix e u assume u: "reach s u \<and> E fd u"
    show "wp (os_close fd) (\<lambda>_. ?E e) ?E u"
      by (rule wp_mono[OF wp_close]) (use u t err(2) in \<open>auto intro: reach_closed reach_ok\<close>)
  qed
qed auto

text \<open>The inode a configured root's path names, with the identity recorded at configuration time.\<close>

definition root_inode_at :: "os \<Rightarrow> sf_root \<Rightarrow> nat \<Rightarrow> bool" where
  "root_inode_at s root i \<longleftrightarrow> os_paths s (root_path root) = Inr i \<and> is_kind (os_fs s) i KDir
     \<and> int i = root_inode root \<and> map_option i_dev (os_fs s i) = Some (root_device root)"

lemma spec_open_root_dup:
  assumes "ok s"
  shows "spec s (open_root env root os_dup) (\<lambda>fd t. \<exists>i. opened s i fd t \<and> root_inode_at s root i) (same_fs s)"
  unfolding open_root_def require_secure_platform_def
proof (rule spec_seq[OF spec_require[OF assms]])
  show "spec t (bind (fs_call (open_dir_path (root_path root))) (\<lambda>fd. cleanup
          (bind (os_fstat fd) (\<lambda>current. seq (require (st_kind current = KDir \<and> st_dev current = root_device root
              \<and> st_ino current = root_inode root)
            (sf_msg SfDenied ''The configured filesystem root changed after validation.'')) (os_dup fd))) (os_close fd)))
        (\<lambda>fd t. \<exists>i. opened s i fd t \<and> root_inode_at s root i) (same_fs s)"
    if "reach s t" "t = s" for t
    unfolding that(2)
  proof (rule spec_with_fd)
    show "spec s (fs_call (open_dir_path (root_path root)))
       (\<lambda>fd t. os_nfd s \<le> fd \<and> (\<exists>i. os_paths s (root_path root) = Inr i \<and> opened s i fd t \<and> is_kind (os_fs s) i KDir)) (same_fs s)"
      by (rule spec_mono[OF spec_fs_call[OF spec_open_dir_path[OF assms]]]) (auto simp: opened_def)
  next
    fix fd t assume t: "reach s t" "os_nfd s \<le> fd"
      "\<exists>i. os_paths s (root_path root) = Inr i \<and> opened s i fd t \<and> is_kind (os_fs s) i KDir"
    then obtain i where i: "os_paths s (root_path root) = Inr i" "opened s i fd t" "is_kind (os_fs s) i KDir" by blast
    have fd: "os_fds t fd = Some i" and fs: "same_fs s t" and lt: "fd < os_nfd t" using i(2) by (auto simp: opened_def)
    show "spec t (bind (os_fstat fd) (\<lambda>current. seq (require (st_kind current = KDir \<and> st_dev current = root_device root
              \<and> st_ino current = root_inode root)
            (sf_msg SfDenied ''The configured filesystem root changed after validation.'')) (os_dup fd)))
          (\<lambda>fd' u. fd < fd' \<and> fd' < os_nfd u \<and> same_fs s u \<and> os_pos u fd' = 0
             \<and> (\<exists>i. os_fds u fd' = Some i \<and> root_inode_at s root i)) (same_fs s)"
    proof (rule spec_bind)
      show "spec t (os_fstat fd) (\<lambda>st u. same_fs t u \<and> (\<exists>n. os_fs t i = Some n \<and> st = stat_of i n)) (same_fs s)"
        by (rule spec_mono[OF spec_os_fstat[OF reach_ok[OF t(1)] fd]]) (use fs in auto)
    next
      fix st u assume u: "reach t u" "same_fs t u \<and> (\<exists>n. os_fs t i = Some n \<and> st = stat_of i n)"
      have fdu: "os_fds u fd = Some i" by (rule reach_fd[OF u(1) reach_ok[OF t(1)] fd])
      have ltu: "fd < os_nfd u" using lt u(1) by (auto simp: reach_def frame_def)
      show "spec u (seq (require (st_kind st = KDir \<and> st_dev st = root_device root
              \<and> st_ino st = root_inode root)
            (sf_msg SfDenied ''The configured filesystem root changed after validation.'')) (os_dup fd))
          (\<lambda>fd' u. fd < fd' \<and> fd' < os_nfd u \<and> same_fs s u \<and> os_pos u fd' = 0
             \<and> (\<exists>i. os_fds u fd' = Some i \<and> root_inode_at s root i)) (same_fs s)"
      proof (rule spec_seq[OF spec_require[OF reach_ok[OF u(1)]]])
        show "spec v (os_dup fd) (\<lambda>fd' u. fd < fd' \<and> fd' < os_nfd u \<and> same_fs s u \<and> os_pos u fd' = 0
             \<and> (\<exists>i. os_fds u fd' = Some i \<and> root_inode_at s root i)) (same_fs s)"
          if "v = u \<and> (st_kind st = KDir \<and> st_dev st = root_device root \<and> st_ino st = root_inode root)" for v
          by (rule spec_mono[OF spec_os_dup[of _ _ i]])
             (use that u fs fdu ltu i in \<open>auto simp: reach_ok opened_def root_inode_at_def stat_of_def\<close>)
      qed (use u fs in auto)
    qed
  next
    fix fd fd' t u assume "os_nfd s \<le> fd" "closed fd t u"
      "fd < fd' \<and> fd' < os_nfd t \<and> same_fs s t \<and> os_pos t fd' = 0 \<and> (\<exists>i. os_fds t fd' = Some i \<and> root_inode_at s root i)"
    then show "\<exists>i. opened s i fd' u \<and> root_inode_at s root i" "same_fs s u"
      by (auto simp: opened_def closed_simps)
  qed (auto simp: closed_simps)
qed (use assms in auto)

text \<open>Path resolution: every component is a directory, no link is followed.\<close>

fun walk :: "fs \<Rightarrow> nat \<Rightarrow> string list \<Rightarrow> nat option" where
  "walk f d [] = Some d"
| "walk f d (p # ps) =
     (case fs_lookup f d p of None \<Rightarrow> None | Some i \<Rightarrow> if is_kind f i KDir then walk f i ps else None)"

lemma spec_open_component:
  assumes "ok s" "os_fds s fd = Some d"
  shows "spec s (open_component fd p)
    (\<lambda>fd' t. \<exists>i. fs_lookup (os_fs s) d p = Some i \<and> opened s i fd' t \<and> is_kind (os_fs s) i KDir) (same_fs s)"
  unfolding open_component_def
proof (rule spec_on_os_error[OF spec_open_dir_at[OF assms]])
  fix n t assume t: "reach s t" "same_fs s t"
  have fd: "os_fds t fd = Some d" by (rule reach_fd[OF t(1) assms])
  let ?Q = "\<lambda>fd' t. \<exists>i. fs_lookup (os_fs s) d p = Some i \<and> opened s i fd' t \<and> is_kind (os_fs s) i KDir"
  show "spec t (seq (whenever (n = ENOTDIR)
             (bind (on_os_error (stat_at fd p) (\<lambda>_. raise (filesystem_error n))) (\<lambda>entry_stat.
              require (st_kind entry_stat \<noteq> KLink)
                (sf_msg SfDenied ''Symbolic links are not available through Server Files.''))))
           (raise (filesystem_error n))) ?Q (same_fs s)"
  proof (rule spec_seq[where R = "same_fs s"])
    show "spec t (whenever (n = ENOTDIR)
             (bind (on_os_error (stat_at fd p) (\<lambda>_. raise (filesystem_error n))) (\<lambda>entry_stat.
              require (st_kind entry_stat \<noteq> KLink)
                (sf_msg SfDenied ''Symbolic links are not available through Server Files.'')))) (\<lambda>_. same_fs s) (same_fs s)"
    proof (rule spec_whenever)
      show "spec t (bind (on_os_error (stat_at fd p) (\<lambda>_. raise (filesystem_error n))) (\<lambda>entry_stat.
              require (st_kind entry_stat \<noteq> KLink)
                (sf_msg SfDenied ''Symbolic links are not available through Server Files.''))) (\<lambda>_. same_fs s) (same_fs s)"
      proof (rule spec_bind[where R = "\<lambda>_. same_fs s"])
        show "spec t (on_os_error (stat_at fd p) (\<lambda>_. raise (filesystem_error n))) (\<lambda>_. same_fs s) (same_fs s)"
          by (rule spec_on_os_error[where R = "same_fs s"])
             (use t in \<open>auto intro!: spec_raise spec_mono[OF spec_stat_at[OF reach_ok[OF t(1)] fd]] dest: reach_ok\<close>)
      qed (auto intro!: spec_require dest: reach_ok)
    qed (use t in \<open>auto dest: reach_ok\<close>)
  qed (auto intro!: spec_raise dest: reach_ok)
qed auto

lemma open_components_spec:
  assumes "reach s0 s" "same_fs s0 s" "os_fds s fd = Some d" "os_nfd s0 \<le> fd" "fd < os_nfd s" "is_kind (os_fs s0) d KDir"
  shows "case open_components fd ps s of
      (Inr fd', t) \<Rightarrow> reach s0 t \<and> same_fs s0 t \<and> os_nfd s0 \<le> fd' \<and> fd' < os_nfd t
         \<and> (\<exists>i. walk (os_fs s0) d ps = Some i \<and> os_fds t fd' = Some i \<and> is_kind (os_fs s0) i KDir)
    | (Inl (e, fd'), t) \<Rightarrow> reach s0 t \<and> same_fs s0 t \<and> os_nfd s0 \<le> fd'"
  using assms
proof (induction ps arbitrary: fd s d)
  case (Cons p ps)
  have "wp (open_component fd p)
      (\<lambda>fd' t. reach s t \<and> (\<exists>i. fs_lookup (os_fs s) d p = Some i \<and> opened s i fd' t \<and> is_kind (os_fs s) i KDir))
      (\<lambda>_ t. reach s t \<and> same_fs s t) s"
    using spec_open_component[OF reach_ok[OF Cons.prems(1)] Cons.prems(3)] by (simp add: spec_def)
  then consider (err) e t where "open_component fd p s = (Inl e, t)" "reach s t" "same_fs s t"
    | (opn) fd' t i where "open_component fd p s = (Inr fd', t)" "reach s t" "fs_lookup (os_fs s) d p = Some i"
        "opened s i fd' t" "is_kind (os_fs s) i KDir"
    by (auto simp: wp_def split: prod.splits sum.splits)
  then show ?case
  proof cases
    case err
    with Cons.prems show ?thesis by (auto intro: reach_trans)
  next
    case opn
    have ne: "fd' \<noteq> fd" using opn(4) Cons.prems(5) by (auto simp: opened_def)
    have "wp (os_close fd) (\<lambda>_. closed fd t) (\<lambda>_. closed fd t) t" by (rule wp_close[OF reach_ok[OF opn(2)]])
    then obtain r u where cl: "os_close fd t = (r, u)" "closed fd t u"
      by (auto simp: wp_def split: prod.splits sum.splits)
    have reach_t: "reach s0 t" by (rule reach_trans[OF Cons.prems(1) opn(2)])
    have u: "reach s0 u" by (rule reach_closed[OF reach_t Cons.prems(4) cl(2)])
    have fs: "same_fs s0 u" using Cons.prems(2) opn(4) cl(2) by (auto simp: opened_def closed_simps)
    show ?thesis
    proof (cases r)
      case (Inl e)
      with opn cl u fs Cons.prems show ?thesis by simp
    next
      case (Inr x)
      have "fs_lookup (os_fs s0) d p = Some i" "is_kind (os_fs s0) i KDir" using opn Cons.prems(2) by auto
      moreover have "os_fds u fd' = Some i" "os_nfd s0 \<le> fd'" "fd' < os_nfd u"
        using opn(4) cl(2) ne Cons.prems(4,5) by (auto simp: opened_def closed_simps)
      ultimately show ?thesis
        using Cons.IH[OF u fs, of fd' i] Inr opn(1) cl(1) by (simp split: prod.splits sum.splits)
    qed
  qed
qed simp

lemma wp_cleanup_quietly:
  assumes m: "wp m (\<lambda>x t. reach s0 t \<and> Q x t) (\<lambda>_ t. reach s0 t \<and> E t) s" and le: "os_nfd s0 \<le> fd"
    and stable: "\<And>x t u. closed fd t u \<Longrightarrow> Q x t \<Longrightarrow> Q x u" "\<And>t u. closed fd t u \<Longrightarrow> E t \<Longrightarrow> E u"
  shows "wp (cleanup m (close_quietly fd)) (\<lambda>x t. reach s0 t \<and> Q x t) (\<lambda>_ t. reach s0 t \<and> E t) s"
  unfolding wp_cleanup
proof (rule wp_mono[OF m])
  show "wp (close_quietly fd) (\<lambda>_ t. reach s0 t \<and> Q x t) (\<lambda>_ t. reach s0 t \<and> E t) u" if "reach s0 u \<and> Q x u" for x u
    by (rule wp_mono[OF wp_close_quietly]) (use that le stable in \<open>auto intro: reach_closed reach_ok\<close>)
  show "wp (close_quietly fd) (\<lambda>_ t. reach s0 t \<and> E t) (\<lambda>_ t. reach s0 t \<and> E t) u" if "reach s0 u \<and> E u" for e :: exn and u
    by (rule wp_mono[OF wp_close_quietly]) (use that le stable in \<open>auto intro: reach_closed reach_ok\<close>)
qed

definition resolves :: "os \<Rightarrow> sf_root \<Rightarrow> string list \<Rightarrow> nat \<Rightarrow> bool" where
  "resolves s root parts d \<longleftrightarrow>
     (\<exists>i. root_inode_at s root i \<and> walk (os_fs s) i parts = Some d) \<and> is_kind (os_fs s) d KDir"

lemma spec_open_directory:
  assumes "ok s"
    and body: "\<And>fd d t. reach s t \<Longrightarrow> same_fs s t \<Longrightarrow> os_fds t fd = Some d \<Longrightarrow> os_nfd s \<le> fd \<Longrightarrow>
      resolves s root parts d \<Longrightarrow> spec t (body fd) Q E"
    and stable: "\<And>fd x t u. os_nfd s \<le> fd \<Longrightarrow> closed fd t u \<Longrightarrow> Q x t \<Longrightarrow> Q x u" "\<And>fd t u. closed fd t u \<Longrightarrow> E t \<Longrightarrow> E u"
    and err: "\<And>t. same_fs s t \<Longrightarrow> E t"
  shows "spec s (open_directory env root parts body) Q E"
  unfolding open_directory_def spec_def wp_bind
proof (rule wp_mono[OF spec_open_root_dup[OF assms(1), unfolded spec_def]])
  fix fd t assume "reach s t \<and> (\<exists>i. opened s i fd t \<and> root_inode_at s root i)"
  then obtain i where t: "reach s t" "opened s i fd t" "root_inode_at s root i" by blast
  have comps: "case open_components fd parts t of
      (Inr fd', t) \<Rightarrow> reach s t \<and> same_fs s t \<and> os_nfd s \<le> fd' \<and> fd' < os_nfd t
         \<and> (\<exists>j. walk (os_fs s) i parts = Some j \<and> os_fds t fd' = Some j \<and> is_kind (os_fs s) j KDir)
    | (Inl (e, fd'), t) \<Rightarrow> reach s t \<and> same_fs s t \<and> os_nfd s \<le> fd'"
    by (rule open_components_spec) (use t in \<open>auto simp: opened_def root_inode_at_def\<close>)
  let ?W = "\<lambda>m u. wp m (\<lambda>x t. reach s t \<and> Q x t) (\<lambda>_ t. reach s t \<and> E t) u"
  let ?k = "\<lambda>s. case open_components fd parts s of
         (Inl (e, fd'), t) \<Rightarrow> cleanup (raise e) (close_quietly fd') t
       | (Inr fd', t) \<Rightarrow>
           cleanup (bind (os_fstat fd') (\<lambda>current.
              seq (require (st_kind current = KDir) (sf SfNotDirectory)) (body fd'))) (close_quietly fd') t"
  show "?W ?k t"
  proof (cases "open_components fd parts t")
    case (Pair r u)
    show ?thesis
    proof (cases r)
      case (Inl p)
      obtain e fd' where p: "p = (e, fd')" by (cases p)
      have "?W (cleanup (raise e) (close_quietly fd')) u"
        by (rule wp_cleanup_quietly) (use comps Pair Inl p stable err in \<open>auto simp: wp_simps\<close>)
      with Pair Inl p show ?thesis by (simp add: wp_def)
    next
      case (Inr fd')
      with comps Pair obtain j where u: "reach s u" "same_fs s u" "os_nfd s \<le> fd'" "fd' < os_nfd u"
        "walk (os_fs s) i parts = Some j" "os_fds u fd' = Some j" "is_kind (os_fs s) j KDir" by auto
      have res: "resolves s root parts j" using t u by (auto simp: resolves_def)
      have inner: "spec u (bind (os_fstat fd') (\<lambda>current.
              seq (require (st_kind current = KDir) (sf SfNotDirectory)) (body fd'))) Q E"
      proof (rule spec_bind)
        show "spec u (os_fstat fd') (\<lambda>st. same_fs s) E"
          by (rule spec_mono[OF spec_os_fstat[OF reach_ok[OF u(1)] u(6)]]) (use u err in auto)
      next
        fix st v assume v: "reach u v" "same_fs s v"
        have fdv: "os_fds v fd' = Some j" by (rule reach_fd[OF v(1) reach_ok[OF u(1)] u(6)])
        have rv: "reach s v" by (rule reach_trans[OF u(1) v(1)])
        show "spec v (seq (require (st_kind st = KDir) (sf SfNotDirectory)) (body fd')) Q E"
          by (rule spec_seq[OF spec_require[where Q = "\<lambda>_ w. w = v"]])
             (use v rv fdv u res err in \<open>auto intro: body dest: reach_ok\<close>)
      qed
      have "?W (cleanup (bind (os_fstat fd') (\<lambda>current.
              seq (require (st_kind current = KDir) (sf SfNotDirectory)) (body fd'))) (close_quietly fd')) u"
        by (rule wp_cleanup_quietly[OF spec_from[OF inner u(1)] u(3)]) (use stable u(3) in auto)
      with Pair Inr show ?thesis by (simp add: wp_def)
    qed
  qed
qed (use err in auto)

section \<open>Calls that change the file system\<close>

definition below :: "nat \<Rightarrow> fs \<Rightarrow> bool" where
  "below n f \<longleftrightarrow> (\<forall>i. n \<le> i \<longrightarrow> f i = None)"

lemma below_Suc: "below n f \<Longrightarrow> below (Suc n) f"
  by (simp add: below_def)

lemma below_set_entries: "below n f \<Longrightarrow> below n (set_entries g d f)"
  by (auto simp: below_def set_entries_def split: option.splits)

lemma below_set_parent: "below n f \<Longrightarrow> below n (set_parent p i f)"
  by (auto simp: below_def set_parent_def split: option.splits)

lemma below_set_data: "below n f \<Longrightarrow> below n (set_data bs now i f)"
  by (auto simp: below_def set_data_def split: option.splits)

lemma below_upd: "below n f \<Longrightarrow> new < n \<Longrightarrow> below n (f(new \<mapsto> x))"
  by (auto simp: below_def)

lemmas below_intros = below_set_entries below_set_parent below_set_data below_upd

lemma below_mkdir: "fs_mkdir d name new m now f = Inr g \<Longrightarrow> below n f \<Longrightarrow> new < n \<Longrightarrow> below n g"
  by (auto simp: fs_mkdir_def add_entry_def intro!: below_intros split: if_splits option.splits)

lemma below_create: "fs_create d name new m now f = Inr g \<Longrightarrow> below n f \<Longrightarrow> new < n \<Longrightarrow> below n g"
  by (auto simp: fs_create_def add_entry_def intro!: below_intros split: if_splits option.splits)

lemma ok_below: "ok s \<Longrightarrow> below (os_next s) (os_fs s)"
  by (simp add: ok_def below_def)

lemma ok_update: "ok s \<Longrightarrow> below (os_next s) f \<Longrightarrow> reach s (s\<lparr>os_fs := f, os_pos := p\<rparr>)"
  by (auto simp: ok_def reach_def frame_def below_def)

lemma spec_update_fs:
  assumes "ok s" "\<And>f. g (os_fs s) = Inr f \<Longrightarrow> below (os_next s) f"
  shows "spec s (update_fs g) (\<lambda>_ t. \<exists>f. g (os_fs s) = Inr f \<and> t = s\<lparr>os_fs := f\<rparr>) (same_fs s)"
proof -
  have "reach s (s\<lparr>os_fs := f\<rparr>)" if "g (os_fs s) = Inr f" for f
    using ok_update[OF assms(1) assms(2)[OF that], of "os_pos s"] by simp
  then show ?thesis
    using assms(1) by (auto simp: spec_def wp_def update_fs_def split: sum.splits)
qed

lemma spec_update_call:
  assumes "ok s" "os_fds s fd = Some d" "\<And>f. g d (os_fs s) = Inr f \<Longrightarrow> below (os_next s) f"
  shows "spec s (syscall (\<lambda>_. bind (fd_inode fd) (\<lambda>d. update_fs (g d))))
    (\<lambda>_ t. g d (os_fs s) = Inr (os_fs t)) (\<lambda>t. os_fs t = os_fs s)"
proof (rule spec_at[OF assms(1,2)])
  fix t and lim :: "nat option" assume t: "reach s t" "same_view s t"
  show "spec t (update_fs (g d)) (\<lambda>_ t. g d (os_fs s) = Inr (os_fs t)) (\<lambda>t. os_fs t = os_fs s)"
    by (rule spec_mono[OF spec_update_fs[OF reach_ok[OF t(1)]]]) (use t assms(3) in \<open>auto simp: same_view_simps\<close>)
qed (simp add: same_view_simps)

lemma spec_unlink_at:
  assumes "ok s" "os_fds s fd = Some d"
  shows "spec s (unlink_at fd name) (\<lambda>_ t. fs_unlink d name (os_fs s) = Inr (os_fs t)) (\<lambda>t. os_fs t = os_fs s)"
  unfolding unlink_at_def
  by (rule spec_update_call[OF assms])
     (auto simp: fs_unlink_def del_entry_def intro!: below_intros ok_below[OF assms(1)] split: if_splits option.splits)

lemma spec_rmdir_at:
  assumes "ok s" "os_fds s fd = Some d"
  shows "spec s (rmdir_at fd name) (\<lambda>_ t. fs_rmdir d name (os_fs s) = Inr (os_fs t)) (\<lambda>t. os_fs t = os_fs s)"
  unfolding rmdir_at_def
  by (rule spec_update_call[OF assms])
     (auto simp: fs_rmdir_def del_entry_def intro!: below_intros ok_below[OF assms(1)] split: if_splits option.splits)

lemma spec_link_at:
  assumes "ok s" "os_fds s sfd = Some sd" "os_fds s dfd = Some dd"
  shows "spec s (link_at sfd sname dfd dname)
    (\<lambda>_ t. fs_link sd sname dd dname (os_fs s) = Inr (os_fs t)) (\<lambda>t. os_fs t = os_fs s)"
  unfolding link_at_def
proof (rule spec_at[OF assms(1,2)])
  fix t and lim :: "nat option" assume t: "reach s t" "same_view s t"
  show "spec t (bind (fd_inode dfd) (\<lambda>dd. update_fs (fs_link sd sname dd dname)))
     (\<lambda>_ t. fs_link sd sname dd dname (os_fs s) = Inr (os_fs t)) (\<lambda>t. os_fs t = os_fs s)"
  proof (rule spec_bind)
    show "spec t (fd_inode dfd) (\<lambda>i u. i = dd \<and> u = t) (\<lambda>t. os_fs t = os_fs s)"
      by (rule spec_mono[OF spec_fd_inode[OF reach_ok[OF t(1)]]]) (use t assms(3) in \<open>auto simp: same_view_simps\<close>)
    show "spec u (update_fs (fs_link sd sname i dname))
      (\<lambda>_ t. fs_link sd sname dd dname (os_fs s) = Inr (os_fs t)) (\<lambda>t. os_fs t = os_fs s)" if "i = dd \<and> u = t" for i u
      by (rule spec_mono[OF spec_update_fs])
         (use t that ok_below[OF assms(1)] in \<open>auto simp: reach_ok same_view_simps fs_link_def add_entry_def
            intro!: below_intros split: if_splits option.splits\<close>)
  qed
qed (simp add: same_view_simps)

lemma spec_rename:
  assumes "ok s" "os_fds s sfd = Some sd" "os_fds s dfd = Some dd"
  shows "spec s (renameat2_noreplace sfd sname dfd dname)
    (\<lambda>_ t. \<exists>n. fs_rename_noreplace n sd sname dd dname (os_fs s) = Inr (os_fs t)) (\<lambda>t. os_fs t = os_fs s)"
  unfolding renameat2_noreplace_def
proof (rule spec_at[OF assms(1,2)])
  fix t and lim :: "nat option" assume t: "reach s t" "same_view s t"
  show "spec t (bind (fd_inode dfd) (\<lambda>dd. bind (gets os_next) (\<lambda>n. update_fs (fs_rename_noreplace n sd sname dd dname))))
     (\<lambda>_ t. \<exists>n. fs_rename_noreplace n sd sname dd dname (os_fs s) = Inr (os_fs t)) (\<lambda>t. os_fs t = os_fs s)"
  proof (rule spec_bind)
    show "spec t (fd_inode dfd) (\<lambda>i u. i = dd \<and> u = t) (\<lambda>t. os_fs t = os_fs s)"
      by (rule spec_mono[OF spec_fd_inode[OF reach_ok[OF t(1)]]]) (use t assms(3) in \<open>auto simp: same_view_simps\<close>)
    show "spec u (bind (gets os_next) (\<lambda>n. update_fs (fs_rename_noreplace n sd sname i dname)))
      (\<lambda>_ t. \<exists>n. fs_rename_noreplace n sd sname dd dname (os_fs s) = Inr (os_fs t)) (\<lambda>t. os_fs t = os_fs s)"
      if "i = dd \<and> u = t" for i u
    proof (rule spec_bind[where R = "\<lambda>n v. v = u"])
      show "spec u (gets os_next) (\<lambda>n v. v = u) (\<lambda>t. os_fs t = os_fs s)"
        using that t by (auto simp: spec_def wp_simps reach_ok)
      show "spec v (update_fs (fs_rename_noreplace n sd sname i dname))
        (\<lambda>_ t. \<exists>n. fs_rename_noreplace n sd sname dd dname (os_fs s) = Inr (os_fs t)) (\<lambda>t. os_fs t = os_fs s)"
        if "v = u" for n v
        by (rule spec_mono[OF spec_update_fs])
           (use t \<open>v = u\<close> \<open>i = dd \<and> u = t\<close> ok_below[OF assms(1)] in
             \<open>auto simp: reach_ok same_view_simps fs_rename_noreplace_def add_entry_def del_entry_def
                intro!: below_intros split: if_splits option.splits\<close>)
    qed
  qed
qed (simp add: same_view_simps)

lemma spec_new_inode:
  assumes "ok s"
  shows "spec s new_inode (\<lambda>i t. i = os_next s \<and> t = s\<lparr>os_next := Suc (os_next s)\<rparr>) E"
  using assms by (auto simp: spec_def wp_def new_inode_def reach_def ok_def frame_def)

lemma dir_below: "below n f \<Longrightarrow> f d = Some x \<Longrightarrow> d < n"
  unfolding below_def by (metis not_le_imp_less option.distinct(1))

lemma spec_mkdir_at:
  assumes "ok s" "os_fds s fd = Some d"
  shows "spec s (mkdir_at fd name mode)
    (\<lambda>_ t. \<exists>new. os_fs s new = None \<and> fs_mkdir d name new mode (os_clock s) (os_fs s) = Inr (os_fs t))
    (\<lambda>t. os_fs t = os_fs s)" (is "spec _ _ ?Q ?E")
  unfolding mkdir_at_def
proof (rule spec_at[OF assms])
  fix t and lim :: "nat option" assume t: "reach s t" "same_view s t"
  let ?u = "t\<lparr>os_next := Suc (os_next t)\<rparr>"
  show "spec t (bind new_inode (\<lambda>new. bind (gets os_clock) (\<lambda>now. update_fs (fs_mkdir d name new mode now)))) ?Q ?E"
  proof (rule spec_bind[OF spec_new_inode[OF reach_ok[OF t(1)]]])
    fix new u assume u: "reach t u" "new = os_next t \<and> u = ?u"
    have fresh: "os_fs s new = None" using u t ok_below[OF assms(1)] by (auto simp: same_view_simps below_def)
    show "spec u (bind (gets os_clock) (\<lambda>now. update_fs (fs_mkdir d name new mode now))) ?Q ?E"
    proof (rule spec_bind[where R = "\<lambda>n v. n = os_clock s \<and> v = u"])
      show "spec u (gets os_clock) (\<lambda>n v. n = os_clock s \<and> v = u) ?E"
        using u t by (auto simp: spec_def wp_simps reach_ok same_view_simps)
      show "spec v (update_fs (fs_mkdir d name new mode n)) ?Q ?E" if "n = os_clock s \<and> v = u" for n v
        by (rule spec_mono[OF spec_update_fs])
           (use u t that fresh ok_below[OF assms(1)] in
             \<open>auto simp: reach_ok same_view_simps intro: below_mkdir below_Suc\<close>)
    qed
  qed
qed (simp add: same_view_simps)

lemma spec_create_at:
  assumes "ok s" "os_fds s fd = Some d"
  shows "spec s (create_at fd name mode)
    (\<lambda>fd' t. \<exists>new. os_fs s new = None \<and> fs_create d name new mode (os_clock s) (os_fs s) = Inr (os_fs t)
       \<and> os_nfd s \<le> fd' \<and> fd' < os_nfd t \<and> os_fds t fd' = Some new \<and> os_pos t fd' = 0)
    (\<lambda>t. os_fs t = os_fs s)" (is "spec _ _ ?Q ?E")
  unfolding create_at_def
proof (rule spec_at[OF assms])
  fix t and lim :: "nat option" assume t: "reach s t" "same_view s t"
  let ?u = "t\<lparr>os_next := Suc (os_next t)\<rparr>"
  show "spec t (bind new_inode (\<lambda>new s. case fs_create d name new mode (os_clock s) (os_fs s) of
        Inl e \<Rightarrow> (Inl (OSError e), s) | Inr f \<Rightarrow> new_fd new (s\<lparr>os_fs := f\<rparr>))) ?Q ?E"
  proof (rule spec_bind[OF spec_new_inode[OF reach_ok[OF t(1)]]])
    fix new u assume u: "reach t u" "new = os_next t \<and> u = ?u"
    have fresh: "os_fs s new = None" using u t ok_below[OF assms(1)] by (auto simp: same_view_simps below_def)
    have eq: "os_fs u = os_fs s" "os_clock u = os_clock s" "os_nfd u = os_nfd s" "ok u"
      using u t by (auto simp: same_view_simps reach_ok)
    show "spec u (\<lambda>s. case fs_create d name new mode (os_clock s) (os_fs s) of
        Inl e \<Rightarrow> (Inl (OSError e), s) | Inr f \<Rightarrow> new_fd new (s\<lparr>os_fs := f\<rparr>)) ?Q ?E"
    proof (cases "fs_create d name new mode (os_clock u) (os_fs u)")
      case (Inl e)
      with eq show ?thesis by (simp add: spec_def wp_def)
    next
      case (Inr f)
      have "below (os_next u) f"
        by (rule below_create[OF Inr ok_below[OF eq(4)]]) (use u in simp)
      then have r: "reach u (u\<lparr>os_fs := f\<rparr>)" using ok_update[OF eq(4), of f "os_pos u"] by simp
      have "spec (u\<lparr>os_fs := f\<rparr>) (new_fd new) ?Q ?E"
        by (rule spec_mono[OF spec_new_fd[OF reach_ok[OF r]]]) (use Inr eq fresh in \<open>auto simp: opened_def\<close>)
      from spec_from[OF this r] Inr show ?thesis by (simp add: spec_def wp_def)
    qed
  qed
qed (simp add: same_view_simps)

lemma spec_os_fsync:
  assumes "ok s" "os_fds s fd = Some d"
  shows "spec s (os_fsync fd) (\<lambda>_ t. same_fs s t \<and> os_pos t = os_pos s) (same_fs s)"
  unfolding os_fsync_def
  by (rule spec_at[OF assms]) (auto simp: same_view_simps intro!: spec_ret dest: reach_ok)

end
