(* ===== verification/Publish.thy ===== *)
theory Publish
  imports Os_Spec
begin

text \<open>
  Writing a temporary file and linking it under its final name: what \<open>write_all\<close>, \<open>write_chunks\<close>,
  \<open>copy_loop\<close> and \<open>publish\<close> of the theory Server_Files do to the file system, exceptions included.
  \<open>holds_file f d es new bs g\<close> says that \<open>g\<close> is \<open>f\<close> but for the entries \<open>es\<close> of the directory
  \<open>d\<close> and the regular file \<open>new\<close> with content \<open>bs\<close>.
\<close>

definition holds_file :: "fs \<Rightarrow> nat \<Rightarrow> (string \<times> nat) list \<Rightarrow> nat \<Rightarrow> string \<Rightarrow> fs \<Rightarrow> bool" where
  "holds_file f d es new bs g \<longleftrightarrow> f new = None \<and> d \<noteq> new \<and> is_kind f d KDir
     \<and> (\<forall>j. j \<noteq> d \<longrightarrow> j \<noteq> new \<longrightarrow> g j = f j)
     \<and> g d = map_option (i_entries_update (\<lambda>_. es)) (f d)
     \<and> is_kind g new KFile \<and> file_data g new = bs"

lemma holds_file_lookup:
  "holds_file f d es new bs g \<Longrightarrow> \<not> dot_name n \<Longrightarrow> fs_lookup g d n = map_of es n"
  by (auto simp: holds_file_def fs_lookup_def is_kind_def dot_name_def entries_def split: option.splits)

lemma holds_file_entries:
  "holds_file f d es new bs g \<Longrightarrow> holds_file f d es' new bs (set_entries (\<lambda>_. es') d g)"
  by (auto simp: holds_file_def set_entries_def is_kind_def file_data_def split: option.splits)

lemma holds_file_dir: "holds_file f d es new bs g \<Longrightarrow> \<exists>n. g d = Some n \<and> i_entries n = es \<and> i_kind n = KDir"
  by (auto simp: holds_file_def is_kind_def split: option.splits)

lemma holds_file_update:
  assumes "holds_file f d es new bs g"
  shows "holds_file f d (h es) new bs (set_entries h d g)"
proof -
  obtain n where n: "g d = Some n" "i_entries n = es" using holds_file_dir[OF assms] by blast
  then have "set_entries h d g = set_entries (\<lambda>_. h es) d g" by (simp add: set_entries_def)
  with holds_file_entries[OF assms, of "h es"] show ?thesis by simp
qed

lemma holds_file_add: "holds_file f d es new bs g \<Longrightarrow> holds_file f d (es @ [(name, i)]) new bs (add_entry name i d g)"
  unfolding add_entry_def by (rule holds_file_update)

lemma holds_file_del:
  "holds_file f d es new bs g \<Longrightarrow> holds_file f d (filter (\<lambda>e. fst e \<noteq> name) es) new bs (del_entry name d g)"
  unfolding del_entry_def by (rule holds_file_update)

lemma holds_file_data: "holds_file f d es new bs g \<Longrightarrow> holds_file f d es new cs (set_data cs now new g)"
  by (auto simp: holds_file_def set_data_def is_kind_def file_data_def split: option.splits)

lemma holds_file_other: "holds_file f d es new bs g \<Longrightarrow> f i = Some n \<Longrightarrow> i \<noteq> d \<Longrightarrow> g i = Some n"
  by (auto simp: holds_file_def)

lemma fs_create_holds:
  assumes "fs_create d name new mode now f = Inr g" "f new = None"
  shows "holds_file f d (entries f d @ [(name, new)]) new [] g \<and> fs_lookup f d name = None"
proof -
  from assms obtain n where n: "f d = Some n" "i_kind n = KDir" "fs_lookup f d name = None"
    by (auto simp: fs_create_def split: option.splits if_splits)
  with assms show ?thesis
    by (auto simp: fs_create_def holds_file_def add_entry_def set_entries_def is_kind_def file_data_def entries_def)
qed

section \<open>Writing\<close>

lemma splice_end: "splice (length old) bs old = old @ bs"
  by (simp add: splice_def)

lemma spec_os_write:
  assumes "ok s" "os_fds s fd = Some new" "holds_file f d es new bs (os_fs s)" "os_pos s fd = length bs"
  shows "spec s (os_write fd cs)
    (\<lambda>n t. n \<le> length cs \<and> holds_file f d es new (bs @ take n cs) (os_fs t) \<and> os_pos t = (os_pos s)(fd := length bs + n))
    (\<lambda>t. os_fs t = os_fs s)" (is "spec _ _ ?Q ?E")
  unfolding os_write_def
proof (rule spec_at[OF assms(1,2)])
  fix t and lim :: "nat option" assume t: "reach s t" "same_view s t"
  define ds where "ds = (case lim of None \<Rightarrow> cs | Some k \<Rightarrow> take k cs)"
  have ds: "ds = take (length ds) cs" "length ds \<le> length cs" by (auto simp: ds_def min_def split: option.splits)
  let ?f = "set_data (splice (os_pos t fd) ds (file_data (os_fs t) new)) (os_clock t) new (os_fs t)"
  have data: "file_data (os_fs t) new = bs" using assms(3) t by (simp add: holds_file_def same_view_simps)
  have "holds_file f d es new (bs @ ds) ?f"
    using holds_file_data[OF assms(3)] t assms(4) data by (simp add: same_view_simps splice_end)
  moreover have "reach t (t\<lparr>os_fs := ?f, os_pos := (os_pos t)(fd := os_pos t fd + length ds)\<rparr>)"
    by (rule ok_update[OF reach_ok[OF t(1)]]) (rule below_set_data[OF ok_below[OF reach_ok[OF t(1)]]])
  ultimately show "spec t (\<lambda>s. let cs = (case lim of None \<Rightarrow> cs | Some k \<Rightarrow> take k cs) in
     (Inr (length cs),
      s\<lparr>os_fs := set_data (splice (os_pos s fd) cs (file_data (os_fs s) new)) (os_clock s) new (os_fs s),
        os_pos := (os_pos s)(fd := os_pos s fd + length cs)\<rparr>)) ?Q ?E"
    using t assms(4) ds by (simp add: spec_def wp_def ds_def[symmetric] same_view_simps)
qed (simp add: same_view_simps)

lemma write_all_unfold:
  "write_all fd view = (if view = [] then ret () else bind (os_write fd view) (\<lambda>n.
     if n = 0 then raise (OSError EIO) else write_all fd (drop n view)))"
proof
  fix s show "write_all fd view s = (if view = [] then ret () else bind (os_write fd view) (\<lambda>n.
     if n = 0 then raise (OSError EIO) else write_all fd (drop n view))) s"
    by (subst write_all.simps) (auto simp: ret_def bind_def raise_def split: prod.splits sum.splits)
qed

lemma spec_write_all:
  assumes "ok s" "os_fds s fd = Some new" "holds_file f d es new bs (os_fs s)" "os_pos s fd = length bs"
  shows "spec s (write_all fd view)
    (\<lambda>_ t. holds_file f d es new (bs @ view) (os_fs t) \<and> os_pos t = (os_pos s)(fd := length (bs @ view)))
    (\<lambda>t. \<exists>cs. holds_file f d es new cs (os_fs t))"
  using assms
proof (induction "length view" arbitrary: view s bs rule: less_induct)
  case less
  show ?case
  proof (cases "view = []")
    case True
    then show ?thesis using less.prems by (subst write_all_unfold) (auto intro!: spec_ret)
  next
    case False
    have "spec s (bind (os_write fd view) (\<lambda>n. if n = 0 then raise (OSError EIO) else write_all fd (drop n view)))
      (\<lambda>_ t. holds_file f d es new (bs @ view) (os_fs t) \<and> os_pos t = (os_pos s)(fd := length (bs @ view)))
      (\<lambda>t. \<exists>cs. holds_file f d es new cs (os_fs t))"
    proof (rule spec_bind)
      show "spec s (os_write fd view)
        (\<lambda>n t. n \<le> length view \<and> holds_file f d es new (bs @ take n view) (os_fs t) \<and> os_pos t = (os_pos s)(fd := length bs + n))
        (\<lambda>t. \<exists>cs. holds_file f d es new cs (os_fs t))"
        by (rule spec_mono[OF spec_os_write[OF less.prems]]) (use less.prems(3) in auto)
    next
      fix n t assume t: "reach s t" "n \<le> length view \<and> holds_file f d es new (bs @ take n view) (os_fs t)
        \<and> os_pos t = (os_pos s)(fd := length bs + n)"
      have fd: "os_fds t fd = Some new" by (rule reach_fd[OF t(1) less.prems(1,2)])
      show "spec t (if n = 0 then raise (OSError EIO) else write_all fd (drop n view))
        (\<lambda>_ t. holds_file f d es new (bs @ view) (os_fs t) \<and> os_pos t = (os_pos s)(fd := length (bs @ view)))
        (\<lambda>t. \<exists>cs. holds_file f d es new cs (os_fs t))"
      proof (cases "n = 0")
        case True
        then show ?thesis using t by (auto intro!: spec_raise dest: reach_ok)
      next
        case n: False
        have "spec t (write_all fd (drop n view))
          (\<lambda>_ u. holds_file f d es new ((bs @ take n view) @ drop n view) (os_fs u)
             \<and> os_pos u = (os_pos t)(fd := length ((bs @ take n view) @ drop n view)))
          (\<lambda>t. \<exists>cs. holds_file f d es new cs (os_fs t))"
          by (rule less.hyps) (use t n False fd in \<open>auto dest: reach_ok simp: min_absorb2\<close>)
        then show ?thesis using n t by (auto elim!: spec_mono)
      qed
    qed
    then show ?thesis using False by (subst write_all_unfold) simp
  qed
qed

text \<open>An upload's chunks: what is written is their concatenation, and its length is the count.\<close>

definition chunk_bytes :: "string res list \<Rightarrow> string" where
  "chunk_bytes cs = concat (map (\<lambda>c. case c of Inr b \<Rightarrow> b | Inl _ \<Rightarrow> []) cs)"

lemma spec_write_chunks:
  assumes "ok s" "os_fds s fd = Some new" "holds_file f d es new bs (os_fs s)" "os_pos s fd = length bs"
    "w = int (length bs)"
  shows "spec s (write_chunks fd m dcl w cs)
    (\<lambda>x t. x = int (length (bs @ chunk_bytes cs)) \<and> (cs \<noteq> [] \<longrightarrow> x \<le> m)
       \<and> holds_file f d es new (bs @ chunk_bytes cs) (os_fs t))
    (\<lambda>t. \<exists>cs. holds_file f d es new cs (os_fs t))"
  using assms
proof (induction cs arbitrary: s bs w)
  case Nil
  then show ?case by (auto simp: chunk_bytes_def intro!: spec_ret)
next
  case (Cons c cs)
  let ?E = "\<lambda>t. \<exists>cs. holds_file f d es new cs (os_fs t)"
  show ?case
    unfolding write_chunks.simps Let_def
  proof (rule spec_pure_guard[OF Cons.prems(1)])
    show "?E s" using Cons.prems by auto
  next
    fix chunk assume c: "c = Inr chunk"
    show "spec s (seq (require (\<not> (w + int (length chunk) > m \<or> w + int (length chunk) > dcl)) (sf SfTooLarge))
       (seq (write_all fd chunk) (write_chunks fd m dcl (w + int (length chunk)) cs)))
      (\<lambda>x t. x = int (length (bs @ chunk_bytes (c # cs))) \<and> (c # cs \<noteq> [] \<longrightarrow> x \<le> m)
       \<and> holds_file f d es new (bs @ chunk_bytes (c # cs)) (os_fs t)) ?E"
    proof (rule spec_seq[OF spec_require[where Q = "\<lambda>_ t. t = s \<and> w + int (length chunk) \<le> m"]])
      fix t assume t: "t = s \<and> w + int (length chunk) \<le> m"
      show "spec t (seq (write_all fd chunk) (write_chunks fd m dcl (w + int (length chunk)) cs))
        (\<lambda>x t. x = int (length (bs @ chunk_bytes (c # cs))) \<and> (c # cs \<noteq> [] \<longrightarrow> x \<le> m)
         \<and> holds_file f d es new (bs @ chunk_bytes (c # cs)) (os_fs t)) ?E"
      proof (rule spec_seq[OF spec_write_all])
        fix u assume u: "reach t u" "holds_file f d es new (bs @ chunk) (os_fs u) \<and> os_pos u = (os_pos t)(fd := length (bs @ chunk))"
        have fd: "os_fds u fd = Some new" using reach_fd[of t u fd new] t u Cons.prems by simp
        have IH: "spec u (write_chunks fd m dcl (w + int (length chunk)) cs)
          (\<lambda>x t. x = int (length ((bs @ chunk) @ chunk_bytes cs)) \<and> (cs \<noteq> [] \<longrightarrow> x \<le> m)
             \<and> holds_file f d es new ((bs @ chunk) @ chunk_bytes cs) (os_fs t)) ?E"
          by (rule Cons.IH) (use t u fd Cons.prems in \<open>auto dest: reach_ok\<close>)
        have last: "cs = [] \<Longrightarrow> int (length ((bs @ chunk) @ chunk_bytes cs)) \<le> m"
          using t Cons.prems(5) by (simp add: chunk_bytes_def)
        show "spec u (write_chunks fd m dcl (w + int (length chunk)) cs)
          (\<lambda>x t. x = int (length (bs @ chunk_bytes (c # cs))) \<and> (c # cs \<noteq> [] \<longrightarrow> x \<le> m)
           \<and> holds_file f d es new (bs @ chunk_bytes (c # cs)) (os_fs t)) ?E"
          by (rule spec_mono[OF IH]) (use c last in \<open>auto simp: chunk_bytes_def\<close>)
      qed (use t Cons.prems in auto)
    qed (use Cons.prems in auto)
  qed
qed

lemma spec_os_fchmod:
  assumes "ok s" "os_fds s fd = Some new" "holds_file f d es new bs (os_fs s)"
  shows "spec s (os_fchmod fd mode) (\<lambda>_ t. holds_file f d es new bs (os_fs t)) (\<lambda>t. holds_file f d es new bs (os_fs t))"
proof -
  let ?g = "\<lambda>i f. Inr (case f i of None \<Rightarrow> f | Some n \<Rightarrow> f(i := Some (n\<lparr>i_mode := mode\<rparr>))) :: errno + fs"
  have below: "below (os_next s) g" if "?g new (os_fs s) = Inr g" for g
    using ok_below[OF assms(1)] that by (auto simp: below_def split: option.splits)
  have "spec s (os_fchmod fd mode) (\<lambda>_ t. ?g new (os_fs s) = Inr (os_fs t)) (\<lambda>t. os_fs t = os_fs s)"
    unfolding os_fchmod_def by (rule spec_update_call[OF assms(1,2), where g = ?g]) (rule below)
  then show ?thesis
  proof (rule spec_mono)
    fix t assume "?g new (os_fs s) = Inr (os_fs t)"
    then have "os_fs t = (case os_fs s new of None \<Rightarrow> os_fs s | Some n \<Rightarrow> (os_fs s)(new := Some (n\<lparr>i_mode := mode\<rparr>)))" by simp
    with assms(3) show "holds_file f d es new bs (os_fs t)"
      by (auto simp: holds_file_def is_kind_def file_data_def split: option.splits)
  qed (use assms(3) in auto)
qed

section \<open>Publishing\<close>

text \<open>A triple relative to an earlier state, for code that closes its own descriptors.\<close>

definition within :: "os \<Rightarrow> os \<Rightarrow> 'a osio \<Rightarrow> ('a \<Rightarrow> os \<Rightarrow> bool) \<Rightarrow> (os \<Rightarrow> bool) \<Rightarrow> bool" where
  "within s t m Q E \<longleftrightarrow> wp m (\<lambda>x u. reach s u \<and> Q x u) (\<lambda>_ u. reach s u \<and> E u) t"

lemma within_spec: "spec t m Q E \<Longrightarrow> reach s t \<Longrightarrow> within s t m Q E"
  unfolding within_def by (rule spec_from)

lemma within_bind:
  "within s t m R E \<Longrightarrow> (\<And>x u. reach s u \<Longrightarrow> R x u \<Longrightarrow> within s u (k x) Q E) \<Longrightarrow> within s t (bind m k) Q E"
  unfolding within_def wp_bind by (erule wp_mono) auto

lemma within_seq:
  "within s t m (\<lambda>_. R) E \<Longrightarrow> (\<And>u. reach s u \<Longrightarrow> R u \<Longrightarrow> within s u k Q E) \<Longrightarrow> within s t (seq m k) Q E"
  unfolding within_def wp_seq by (erule wp_mono) auto

lemma within_catch:
  "within s t m Q R \<Longrightarrow> (\<And>e u. reach s u \<Longrightarrow> R u \<Longrightarrow> within s u (h e) Q E) \<Longrightarrow> within s t (catch m h) Q E"
  unfolding within_def wp_catch by (erule wp_mono) auto

lemma within_close:
  assumes "within s t m Q E" "os_nfd s \<le> fd"
    and "\<And>x t u. closed fd t u \<Longrightarrow> Q x t \<Longrightarrow> Q' x u" "\<And>x t u. closed fd t u \<Longrightarrow> Q x t \<Longrightarrow> E' u"
      "\<And>t u. closed fd t u \<Longrightarrow> E t \<Longrightarrow> E' u"
  shows "within s t (cleanup m (os_close fd)) Q' E'"
  unfolding within_def wp_cleanup
proof (rule wp_mono[OF assms(1)[unfolded within_def]])
  show "wp (os_close fd) (\<lambda>_ u. reach s u \<and> Q' x u) (\<lambda>_ u. reach s u \<and> E' u) u" if "reach s u \<and> Q x u" for x u
    by (rule wp_mono[OF wp_close]) (use that assms in \<open>auto intro: reach_closed reach_ok\<close>)
  show "wp (os_close fd) (\<lambda>_ u. reach s u \<and> E' u) (\<lambda>_ u. reach s u \<and> E' u) u" if "reach s u \<and> E u" for e :: exn and u
    by (rule wp_mono[OF wp_close]) (use that assms in \<open>auto intro: reach_closed reach_ok\<close>)
qed

lemma spec_of_within: "within s s m Q E \<Longrightarrow> spec s m Q E"
  by (simp add: within_def spec_def)

text \<open>What a finished publication leaves, and what any publication may leave: nothing, an orphan, the
  temporary name, or the complete file.\<close>

definition published :: "fs \<Rightarrow> nat \<Rightarrow> string \<Rightarrow> (string \<Rightarrow> bool) \<Rightarrow> fs \<Rightarrow> bool" where
  "published f d name P g \<longleftrightarrow> fs_lookup f d name = None
     \<and> (\<exists>new bs. P bs \<and> holds_file f d (entries f d @ [(name, new)]) new bs g)"

definition remains :: "fs \<Rightarrow> nat \<Rightarrow> string \<Rightarrow> string \<Rightarrow> (string \<Rightarrow> bool) \<Rightarrow> fs \<Rightarrow> bool" where
  "remains f d temp name P g \<longleftrightarrow> g = f
     \<or> (\<exists>new bs. holds_file f d (entries f d) new bs g \<or> holds_file f d (entries f d @ [(temp, new)]) new bs g)
     \<or> fs_lookup f d name = None
       \<and> (\<exists>new bs. P bs \<and> (holds_file f d (entries f d @ [(name, new)]) new bs g
            \<or> holds_file f d (entries f d @ [(temp, new), (name, new)]) new bs g))"

lemma published_remains: "published f d name (P x) g \<Longrightarrow> remains f d temp name (\<lambda>bs. \<exists>x. P x bs) g"
  unfolding published_def remains_def by blast

lemma filter_fresh:
  assumes "fs_lookup f d temp = None" "is_kind f d KDir" "\<not> dot_name temp"
  shows "filter (\<lambda>e. fst e \<noteq> temp) (entries f d) = entries f d"
proof -
  have "temp \<notin> fst ` set (entries f d)"
    using assms by (simp add: fs_lookup_def dot_name_def map_of_eq_None_iff)
  then show ?thesis by (force simp: filter_id_conv)
qed

lemma fs_link_holds:
  assumes "fs_link d temp d name g = Inr h" "holds_file f d (entries f d @ [(temp, new)]) new bs g"
    and fresh: "fs_lookup f d temp = None" and dots: "\<not> dot_name temp" "\<not> dot_name name"
  shows "fs_lookup f d name = None \<and> name \<noteq> temp
    \<and> holds_file f d (entries f d @ [(temp, new), (name, new)]) new bs h"
proof -
  have dir: "is_kind f d KDir" using assms(2) by (simp add: holds_file_def)
  have absent: "map_of (entries f d) temp = None"
    using fresh dir dots by (auto simp: fs_lookup_def dot_name_def)
  have linked: "fs_lookup g d temp = Some new"
    using holds_file_lookup[OF assms(2) dots(1)] absent by (simp add: map_add_def)
  with assms(1) have free: "fs_lookup g d name = None" and h: "h = add_entry name new d g"
    by (auto simp: fs_link_def split: if_splits)
  have ne: "name \<noteq> temp" using linked free by auto
  have "map_of (entries f d) name = None"
    using free holds_file_lookup[OF assms(2) dots(2)] by (auto simp: map_add_def split: option.splits if_splits)
  then have "fs_lookup f d name = None" using dir dots by (simp add: fs_lookup_def dot_name_def)
  with holds_file_add[OF assms(2), of name new] h ne show ?thesis by simp
qed

lemma discard_remains:
  assumes "remains f d temp name P g" "fs_unlink d temp g = Inr h"
    and dots: "\<not> dot_name temp" and fresh: "fs_lookup f d temp = None" "is_kind f d KDir"
  shows "remains f d temp name P h"
proof -
  have h: "h = del_entry temp d g"
    using assms(2) by (auto simp: fs_unlink_def split: if_splits option.splits)
  note del = holds_file_del[of f d _ _ _ g temp]
  have gf: False if "g = f"
    using that assms(2) fresh dots by (simp add: fs_unlink_def)
  from assms(1) h show ?thesis
    unfolding remains_def by (auto dest!: del gf simp: filter_fresh[OF fresh dots] split: if_splits)
qed

definition storing :: "fs \<Rightarrow> nat \<Rightarrow> string \<Rightarrow> nat \<Rightarrow> string \<Rightarrow> os \<Rightarrow> bool" where
  "storing f d temp new bs t \<longleftrightarrow> holds_file f d (entries f d @ [(temp, new)]) new bs (os_fs t)"

lemma spec_publish:
  fixes P :: "'a \<Rightarrow> string \<Rightarrow> bool"
  defines "any \<equiv> (\<lambda>bs. \<exists>x. P x bs)"
  assumes s: "ok s" "os_fds s dfd = Some d" and f: "f = os_fs s"
    and dots: "\<not> dot_name temp" "\<not> dot_name name"
    and store: "\<And>fd new t. reach s t \<Longrightarrow> os_nfd s \<le> fd \<Longrightarrow> os_fds t fd = Some new \<Longrightarrow> os_pos t fd = 0 \<Longrightarrow>
      storing f d temp new [] t \<Longrightarrow>
      spec t (store fd) (\<lambda>x u. \<exists>bs. P x bs \<and> storing f d temp new bs u) (\<lambda>u. \<exists>bs. storing f d temp new bs u)"
  shows "spec s (publish dfd temp name store) (\<lambda>x t. published f d name (P x) (os_fs t))
    (\<lambda>t. remains f d temp name any (os_fs t))"
  unfolding publish_def
proof (rule spec_of_within, rule within_bind)
  let ?Q = "\<lambda>x t. published f d name (P x) (os_fs t)"
  let ?E = "\<lambda>t. remains f d temp name any (os_fs t)"
  show "within s s (create_at dfd temp 416) (\<lambda>fd t. os_nfd s \<le> fd \<and> fs_lookup f d temp = None \<and> is_kind f d KDir
      \<and> (\<exists>new. os_fds t fd = Some new \<and> os_pos t fd = 0 \<and> storing f d temp new [] t)) ?E"
    by (rule within_spec, rule spec_mono[OF spec_create_at[OF s]])
       (use s(1) f in \<open>auto simp: remains_def storing_def holds_file_def dest!: fs_create_holds\<close>)
next
  let ?Q = "\<lambda>x t. published f d name (P x) (os_fs t)"
  let ?E = "\<lambda>t. remains f d temp name any (os_fs t)"
  fix fd t
  assume t: "reach s t" "os_nfd s \<le> fd \<and> fs_lookup f d temp = None \<and> is_kind f d KDir
      \<and> (\<exists>new. os_fds t fd = Some new \<and> os_pos t fd = 0 \<and> storing f d temp new [] t)"
  then obtain new where new: "os_fds t fd = Some new" "os_pos t fd = 0" "storing f d temp new [] t"
    and fresh: "fs_lookup f d temp = None" "is_kind f d KDir" and le: "os_nfd s \<le> fd" by blast
  have dfd: "os_fds u dfd = Some d" if "reach s u" for u by (rule reach_fd[OF that s])
  have close: "within s t (cleanup (store fd) (os_close fd))
      (\<lambda>x u. \<exists>bs. P x bs \<and> storing f d temp new bs u) ?E"
    by (rule within_close[OF within_spec[OF store[OF t(1) le new] t(1)] le])
       (auto simp: storing_def remains_def closed_simps)
  have link: "within s u (fs_call (link_at dfd temp dfd name))
      (\<lambda>_ v. \<exists>bs. P x bs \<and> fs_lookup f d name = None \<and> name \<noteq> temp
         \<and> holds_file f d (entries f d @ [(temp, new), (name, new)]) new bs (os_fs v)) ?E"
    if u: "reach s u" "P x bs" "storing f d temp new bs u" for u x bs
    by (rule within_spec[OF spec_fs_call[OF spec_mono[OF spec_link_at[OF reach_ok[OF u(1)] dfd[OF u(1)] dfd[OF u(1)]]]] u(1)])
       (use u fs_link_holds[OF _ _ fresh(1) dots] in \<open>auto simp: storing_def remains_def\<close>)
  have unlink: "within s u (unlink_at dfd temp) (\<lambda>_ v. published f d name (P x) (os_fs v)) ?E"
    if u: "reach s u" "P x bs" "fs_lookup f d name = None" "name \<noteq> temp"
      "holds_file f d (entries f d @ [(temp, new), (name, new)]) new bs (os_fs u)"
    for u x bs
  proof (rule within_spec[OF spec_mono[OF spec_unlink_at[OF reach_ok[OF u(1)] dfd[OF u(1)]]] u(1)])
    fix v assume "fs_unlink d temp (os_fs u) = Inr (os_fs v)"
    then have v: "os_fs v = del_entry temp d (os_fs u)" by (auto simp: fs_unlink_def split: if_splits option.splits)
    from holds_file_del[OF u(5), of temp] show "published f d name (P x) (os_fs v)"
      using u v by (auto simp: published_def filter_fresh[OF fresh dots(1)])
  next
    fix v assume "os_fs v = os_fs u"
    with u show "?E v" unfolding remains_def any_def by fastforce
  qed
  have discard: "within s u (seq (discard_temp dfd temp) (raise e)) Q ?E" if u: "reach s u" "?E u" for u e and Q :: "'a \<Rightarrow> os \<Rightarrow> bool"
  proof (rule within_seq[where R = ?E])
    show "within s u (discard_temp dfd temp) (\<lambda>_. ?E) ?E"
      unfolding discard_temp_def
    proof (rule within_spec[OF spec_on_os_error[where R = ?E] u(1)])
      show "spec u (unlink_at dfd temp) (\<lambda>_. ?E) ?E"
        by (rule spec_mono[OF spec_unlink_at[OF reach_ok[OF u(1)] dfd[OF u(1)]]])
           (use u discard_remains[OF _ _ dots(1) fresh] in auto)
    qed (auto intro: spec_ret reach_ok)
  qed (simp add: within_def wp_simps)
  have fsync: "within s u (seq (os_fsync dfd) (ret x)) ?Q ?E" if u: "reach s u" "?Q x u" for u x
    by (rule within_seq[where R = "?Q x"], rule within_spec[OF spec_mono[OF spec_os_fsync[OF reach_ok[OF u(1)] dfd[OF u(1)]]] u(1)])
       (use u published_remains[of f d name P x "os_fs u" temp] in \<open>auto simp: within_def wp_simps any_def\<close>)
  show "within s t (bind
       (catch
         (bind (cleanup (store fd) (os_close fd)) (\<lambda>x.
          seq (fs_call (link_at dfd temp dfd name))
          (seq (unlink_at dfd temp) (ret x))))
         (\<lambda>e. seq (discard_temp dfd temp) (raise e))) (\<lambda>x.
     seq (os_fsync dfd) (ret x))) ?Q ?E"
  proof (rule within_bind[where R = ?Q], rule within_catch[where R = ?E], rule within_bind[OF close])
    fix x u assume u: "reach s u" "\<exists>bs. P x bs \<and> storing f d temp new bs u"
    then obtain bs where bs: "P x bs" "storing f d temp new bs u" by blast
    show "within s u (seq (fs_call (link_at dfd temp dfd name)) (seq (unlink_at dfd temp) (ret x))) ?Q ?E"
    proof (rule within_seq[OF link[OF u(1) bs]])
      fix v assume v: "reach s v" "\<exists>bs. P x bs \<and> fs_lookup f d name = None \<and> name \<noteq> temp
         \<and> holds_file f d (entries f d @ [(temp, new), (name, new)]) new bs (os_fs v)"
      then obtain cs where cs: "P x cs" "fs_lookup f d name = None" "name \<noteq> temp"
        "holds_file f d (entries f d @ [(temp, new), (name, new)]) new cs (os_fs v)" by blast
      show "within s v (seq (unlink_at dfd temp) (ret x)) ?Q ?E"
        by (rule within_seq[OF unlink[OF v(1) cs]]) (simp add: within_def wp_simps)
    qed
  qed (auto intro: discard fsync)
qed

section \<open>Contents\<close>

lemma spec_upload_body:
  assumes "ok t" "os_fds t fd = Some new" "os_pos t fd = 0" "storing f d temp new [] t"
  shows "spec t (upload_body fd m dcl cs)
    (\<lambda>x u. \<exists>bs. (bs = chunk_bytes cs \<and> x = dcl \<and> int (length bs) = dcl) \<and> storing f d temp new bs u)
    (\<lambda>u. \<exists>bs. storing f d temp new bs u)"
  unfolding upload_body_def storing_def
proof (rule spec_bind[OF spec_mono[OF spec_write_chunks[OF assms(1,2) assms(4)[unfolded storing_def]]]])
  let ?h = "holds_file f d (entries f d @ [(temp, new)]) new"
  let ?E = "\<lambda>u. \<exists>bs. ?h bs (os_fs u)"
  let ?Q = "\<lambda>x u. \<exists>bs. (bs = chunk_bytes cs \<and> x = dcl \<and> int (length bs) = dcl) \<and> ?h bs (os_fs u)"
  fix x u assume u: "reach t u" "x = int (length (chunk_bytes cs)) \<and> ?h (chunk_bytes cs) (os_fs u)"
  have fd: "os_fds v fd = Some new" if "reach u v" for v by (rule reach_fd[OF reach_trans[OF u(1) that] assms(1,2)])
  show "spec u (seq (require (x = dcl) (sf_msg SfInvalidPath ''The uploaded file size did not match its declared size.''))
     (seq (os_fsync fd) (seq (os_fchmod fd 416) (ret x)))) ?Q ?E"
  proof (rule spec_seq[OF spec_require[where Q = "\<lambda>_ v. v = u \<and> x = dcl"]])
    fix v assume v: "v = u \<and> x = dcl"
    show "spec v (seq (os_fsync fd) (seq (os_fchmod fd 416) (ret x))) ?Q ?E"
    proof (rule spec_seq[OF spec_mono[OF spec_os_fsync[where fd = fd and d = new]]])
      fix w assume w: "reach v w" "?h (chunk_bytes cs) (os_fs w)"
      show "spec w (seq (os_fchmod fd 416) (ret x)) ?Q ?E"
        by (rule spec_seq[OF spec_mono[OF spec_os_fchmod[OF reach_ok[OF w(1)] fd w(2)]]])
           (use u v w in \<open>auto intro!: spec_ret dest: reach_ok\<close>)
    qed (use u v fd in \<open>auto dest: reach_ok\<close>)
  qed (use u in \<open>auto dest: reach_ok\<close>)
qed (use assms(3) in auto)

lemma copy_loop_unfold:
  "copy_loop src_fd dst_fd m k = bind (os_read src_fd READ_CHUNK) (\<lambda>chunk.
     if chunk = [] then ret k
     else seq (require (k + int (length chunk) \<le> m) (sf_msg SfTooLarge ''The file exceeds the configured copy size limit.''))
       (seq (write_all dst_fd chunk) (copy_loop src_fd dst_fd m (k + int (length chunk)))))"
proof
  fix s
  show "copy_loop src_fd dst_fd m k s = bind (os_read src_fd READ_CHUNK) (\<lambda>chunk.
     if chunk = [] then ret k
     else seq (require (k + int (length chunk) \<le> m) (sf_msg SfTooLarge ''The file exceeds the configured copy size limit.''))
       (seq (write_all dst_fd chunk) (copy_loop src_fd dst_fd m (k + int (length chunk))))) s"
    by (subst copy_loop.simps)
       (auto simp: bind_def seq_def ret_def raise_def require_def Let_def split: prod.splits sum.splits)
qed

definition piece :: "string \<Rightarrow> nat \<Rightarrow> string \<Rightarrow> bool" where
  "piece bs p xs \<longleftrightarrow> bs = take (length bs) (drop p xs)"

lemma piece_take: "piece (take n (drop p xs)) p xs"
  by (auto simp: piece_def min_def)

lemma piece_drop: "piece (drop p xs) p xs"
  by (simp add: piece_def)

lemma piece_Nil [simp]: "piece [] p xs"
  by (simp add: piece_def)

lemma piece_append:
  assumes "piece bs p xs" "piece cs (p + length bs) xs"
  shows "piece (bs @ cs) p xs"
proof -
  have "take (length bs + length cs) (drop p xs) = take (length bs) (drop p xs) @ take (length cs) (drop (length bs) (drop p xs))"
    by (rule take_add)
  with assms show ?thesis by (simp add: piece_def add.commute)
qed

lemma piece_whole:
  assumes "piece cs p xs" "length cs = length xs"
  shows "cs = xs"
proof -
  have "length cs \<le> length xs - p" using assms(1) unfolding piece_def by (metis length_drop length_take min.cobounded1)
  with assms(2) have "p = 0 \<or> xs = []" by (cases xs) auto
  with assms show ?thesis by (auto simp: piece_def)
qed

lemma spec_os_read:
  assumes "ok s" "os_fds s fd = Some i"
  shows "spec s (os_read fd n)
    (\<lambda>bs t. os_fs t = os_fs s \<and> os_pos t = (os_pos s)(fd := os_pos s fd + length bs)
       \<and> piece bs (os_pos s fd) (file_data (os_fs s) i))
    (\<lambda>t. os_fs t = os_fs s)" (is "spec _ _ ?Q ?E")
  unfolding os_read_def
proof (rule spec_at[OF assms])
  fix t and lim :: "nat option" assume t: "reach s t" "same_view s t"
  let ?a = "take_int n (drop (os_pos t fd) (file_data (os_fs t) i))"
  let ?bs = "case lim of None \<Rightarrow> ?a | Some k \<Rightarrow> take (max 1 k) ?a"
  have "reach t (t\<lparr>os_pos := p\<rparr>)" for p
    using reach_ok[OF t(1)] by (auto simp: ok_def reach_def frame_def)
  moreover have "piece ?bs (os_pos t fd) (file_data (os_fs t) i)"
    by (auto simp: take_int_def piece_drop piece_take split: option.splits)
  ultimately show "spec t (\<lambda>s. let available = take_int n (drop (os_pos s fd) (file_data (os_fs s) i));
         bs = (case lim of None \<Rightarrow> available | Some k \<Rightarrow> take (max 1 k) available)
     in (Inr bs, s\<lparr>os_pos := (os_pos s)(fd := os_pos s fd + length bs)\<rparr>)) ?Q ?E"
    using t by (auto simp: spec_def wp_def Let_def same_view_simps)
qed (simp add: same_view_simps)

lemma spec_copy_loop:
  assumes "ok s" "os_fds s src = Some i" "os_fds s dst = Some new" "f i = Some n" "i \<noteq> d"
    and "holds_file f d es new bs (os_fs s)" "os_pos s dst = length bs" "k = int (length bs)"
    and "os_pos s src = p + length bs" "piece bs p (i_data n)"
  shows "spec s (copy_loop src dst m k)
    (\<lambda>x t. \<exists>cs. x = int (length cs) \<and> piece cs p (i_data n) \<and> holds_file f d es new cs (os_fs t))
    (\<lambda>t. \<exists>cs. holds_file f d es new cs (os_fs t))" (is "spec _ _ ?Q ?E")
  using assms
proof (induction "nat (m - k)" arbitrary: s bs k rule: less_induct)
  case less
  note prems = less.prems
  have ne: "src \<noteq> dst" using prems(2,3,4,6) by (auto simp: holds_file_def)
  have data: "file_data (os_fs s) i = i_data n"
    using holds_file_other[OF prems(6) prems(4,5)] by (simp add: file_data_def)
  show ?case
    unfolding copy_loop_unfold[of src dst m k]
  proof (rule spec_bind[OF spec_mono[OF spec_os_read[OF prems(1,2)]]])
    fix chunk t assume t: "reach s t" "os_fs t = os_fs s \<and> os_pos t = (os_pos s)(src := os_pos s src + length chunk)
       \<and> piece chunk (os_pos s src) (file_data (os_fs s) i)"
    have bs': "piece (bs @ chunk) p (i_data n)"
      by (rule piece_append) (use t prems(9,10) data in auto)
    show "spec t (if chunk = [] then ret k
     else seq (require (k + int (length chunk) \<le> m) (sf_msg SfTooLarge ''The file exceeds the configured copy size limit.''))
       (seq (write_all dst chunk) (copy_loop src dst m (k + int (length chunk))))) ?Q ?E"
    proof (cases "chunk = []")
      case True
      then show ?thesis using t prems by (auto intro!: spec_ret dest: reach_ok)
    next
      case False
      have "spec t (seq (require (k + int (length chunk) \<le> m) (sf_msg SfTooLarge ''The file exceeds the configured copy size limit.''))
       (seq (write_all dst chunk) (copy_loop src dst m (k + int (length chunk))))) ?Q ?E"
      proof (rule spec_seq[OF spec_require[where Q = "\<lambda>_ u. u = t \<and> k + int (length chunk) \<le> m"]])
        fix u assume u: "u = t \<and> k + int (length chunk) \<le> m"
        have dec: "nat (m - (k + int (length chunk))) < nat (m - k)"
          using False u by (cases chunk) auto
        have h: "holds_file f d es new bs (os_fs u)" "os_pos u dst = length bs" using u t prems ne by auto
        show "spec u (seq (write_all dst chunk) (copy_loop src dst m (k + int (length chunk)))) ?Q ?E"
        proof (rule spec_seq[OF spec_write_all])
          fix v assume v: "reach u v" "holds_file f d es new (bs @ chunk) (os_fs v) \<and> os_pos v = (os_pos u)(dst := length (bs @ chunk))"
          have rv: "reach s v" using t u v by (auto intro: reach_trans)
          show "spec v (copy_loop src dst m (k + int (length chunk))) ?Q ?E"
            by (rule less.hyps[where bs = "bs @ chunk", OF dec])
               (use u v t prems ne bs' rv in \<open>auto dest: reach_ok intro: reach_fd\<close>)
        qed (use u t prems h in \<open>auto dest: reach_ok intro: reach_fd\<close>)
      qed (use t prems in \<open>auto dest: reach_ok\<close>)
      with False show ?thesis by simp
    qed
  qed (use prems in auto)
qed

lemma spec_copy_body:
  assumes "ok t" "os_fds t fd = Some new" "os_pos t fd = 0" "storing f d temp new [] t"
    and src: "os_fds t src = Some i" "f i = Some n" "i \<noteq> d"
  shows "spec t (copy_body src (stat_of i n) m fd)
    (\<lambda>x u. \<exists>bs. (bs = i_data n \<and> x = int (length bs)) \<and> storing f d temp new bs u)
    (\<lambda>u. \<exists>bs. storing f d temp new bs u)"
  unfolding copy_body_def storing_def
proof (rule spec_bind[OF spec_copy_loop[where bs = "[]" and p = "os_pos t src"]])
  let ?h = "holds_file f d (entries f d @ [(temp, new)]) new"
  let ?E = "\<lambda>u. \<exists>bs. ?h bs (os_fs u)"
  let ?Q = "\<lambda>x u. \<exists>bs. (bs = i_data n \<and> x = int (length bs)) \<and> ?h bs (os_fs u)"
  fix x u assume u: "reach t u" "\<exists>cs. x = int (length cs) \<and> piece cs (os_pos t src) (i_data n) \<and> ?h cs (os_fs u)"
  then obtain cs where cs: "x = int (length cs)" "piece cs (os_pos t src) (i_data n)" "?h cs (os_fs u)" by blast
  have whole: "length cs = length (i_data n) \<Longrightarrow> cs = i_data n" by (rule piece_whole[OF cs(2)])
  have fds: "os_fds v fd = Some new" "os_fds v src = Some i" if "reach u v" for v
    using reach_fd[OF reach_trans[OF u(1) that] assms(1,2)] reach_fd[OF reach_trans[OF u(1) that] assms(1) src(1)] by auto
  show "spec u (bind (os_fstat src) (\<lambda>current_source.
     seq (require (\<not> (x \<noteq> st_size (stat_of i n) \<or> \<not> same_file current_source (stat_of i n)))
           (sf_msg SfInvalidPath ''The source file changed while it was being copied.''))
     (seq (os_fsync fd) (seq (os_fchmod fd 416) (ret x))))) ?Q ?E"
  proof (rule spec_bind[OF spec_mono[OF spec_os_fstat[where fd = src and d = i]]])
    fix st v assume v: "reach u v" "?h cs (os_fs v)"
    show "spec v (seq (require (\<not> (x \<noteq> st_size (stat_of i n) \<or> \<not> same_file st (stat_of i n)))
           (sf_msg SfInvalidPath ''The source file changed while it was being copied.''))
     (seq (os_fsync fd) (seq (os_fchmod fd 416) (ret x)))) ?Q ?E"
    proof (rule spec_seq[OF spec_require[where Q = "\<lambda>_ w. w = v \<and> length cs = length (i_data n)"]])
      fix w assume w: "w = v \<and> length cs = length (i_data n)"
      show "spec w (seq (os_fsync fd) (seq (os_fchmod fd 416) (ret x))) ?Q ?E"
      proof (rule spec_seq[OF spec_mono[OF spec_os_fsync[where fd = fd and d = new]]])
        fix z assume z: "reach w z" "?h cs (os_fs z)"
        have uz: "reach u z" using v(1) w z(1) by (auto intro: reach_trans)
        show "spec z (seq (os_fchmod fd 416) (ret x)) ?Q ?E"
          by (rule spec_seq[OF spec_mono[OF spec_os_fchmod[OF reach_ok[OF z(1)] fds(1)[OF uz] z(2)]]])
             (use w whole cs(1) in \<open>auto intro!: spec_ret dest: reach_ok\<close>)
      qed (use u v w fds cs in \<open>auto dest: reach_ok\<close>)
    qed (use v cs in \<open>auto simp: stat_of_def dest: reach_ok\<close>)
  qed (use u fds cs in \<open>auto dest: reach_ok\<close>)
qed (use assms in \<open>auto simp: storing_def\<close>)

end
