(* ===== verification/Path_Policy_Props.thy ===== *)
theory Path_Policy_Props
  imports Path_Policy
begin

text \<open>
  What the Server Files path policy guarantees: which path texts are accepted and what they decode
  to, that protection covers whole subtrees and cannot be configured away, what an access decision
  means, and that the configured roots never overlap. The locale \<open>subtree_guard\<close> is the contract
  shared by the denied and the sensitive policies.
\<close>

section \<open>Accepted names and paths\<close>

text \<open>The specification of a file name that may be passed to a descriptor-relative system call.\<close>

definition safe_name :: "string \<Rightarrow> bool" where
  "safe_name n \<longleftrightarrow> n \<noteq> [] \<and> n \<noteq> ''.'' \<and> n \<noteq> ''..'' \<and> length (utf8 n) \<le> 255
     \<and> CHR ''/'' \<notin> set n \<and> CHR 0x5C \<notin> set n \<and> CHR 0x00 \<notin> set n \<and> CHR ''%'' \<notin> set n \<and> CHR '':'' \<notin> set n
     \<and> \<not> list_ex control_char n \<and> \<not> suffix ''.'' n \<and> \<not> suffix '' '' n"

lemma validate_name_safe: "validate_name v = Inr w \<longleftrightarrow> safe_name v \<and> w = v"
  by (auto simp: validate_name_def safe_name_def ends_with_suffix)

lemma map_res_validate: "map_res validate_name ps = Inr qs \<longleftrightarrow> list_all safe_name ps \<and> qs = ps"
  by (induction ps arbitrary: qs) (auto simp: bind_res_eq_Inr validate_name_safe)

lemma set_join: "set (join sep ps) \<subseteq> (\<Union>p \<in> set ps. set p) \<union> set sep"
  by (induction sep ps rule: join.induct) auto

lemma join_absent:
  assumes "list_all (\<lambda>p. c \<notin> set p) ps" "c \<notin> set sep"
  shows "c \<notin> set (join sep ps)"
  using assms set_join[of sep ps] by (auto simp: list_all_iff)

lemma join_list_ex:
  "list_all (\<lambda>p. \<not> list_ex P p) ps \<Longrightarrow> \<not> list_ex P sep \<Longrightarrow> \<not> list_ex P (join sep ps)"
  using set_join[of sep ps] by (fastforce simp: list_all_iff list_ex_iff)

lemma join_starts: "ps \<noteq> [] \<Longrightarrow> hd ps \<noteq> [] \<Longrightarrow> hd (join sep ps) = hd (hd ps) \<and> join sep ps \<noteq> []"
  by (induction sep ps rule: join.induct) auto

lemma join_safe_Nil: "[] = join sep ps \<Longrightarrow> list_all safe_name ps \<Longrightarrow> ps = []"
  using join_starts[of ps sep] by (cases ps) (auto simp: safe_name_def)

lemma starts_with_one: "starts_with s [c] \<longleftrightarrow> s \<noteq> [] \<and> hd s = c"
  by (cases s) (auto simp: starts_with_def)

text \<open>C6: exactly the joined lists of safe names of at most 2048 characters are accepted as
  relative paths, and they decode to those names; the empty path decodes to the root where it is
  allowed. So an accepted path never holds an empty, \<open>.\<close> or \<open>..\<close> component, a separator of
  another platform, an escape or a control character, and no two texts name the same path.\<close>

theorem split_relative_path_spec:
  "split_relative_path (PStr v) allow_empty = Inr parts \<longleftrightarrow>
     v = join ''/'' parts \<and> length v \<le> 2048 \<and> list_all safe_name parts \<and> (parts = [] \<longrightarrow> allow_empty)"
proof (cases "v = []")
  case True
  then show ?thesis
    by (auto simp: split_relative_path_def dest: join_safe_Nil)
next
  case False
  show ?thesis
  proof
    assume "split_relative_path (PStr v) allow_empty = Inr parts"
    with False show "v = join ''/'' parts \<and> length v \<le> 2048 \<and> list_all safe_name parts \<and> (parts = [] \<longrightarrow> allow_empty)"
      by (auto simp: split_relative_path_def Let_def bind_res_eq_Inr map_res_validate join_split_on split: if_splits)
  next
    assume r: "v = join ''/'' parts \<and> length v \<le> 2048 \<and> list_all safe_name parts \<and> (parts = [] \<longrightarrow> allow_empty)"
    with False have ne: "parts \<noteq> []" by auto
    with r have hd_ne: "hd parts \<noteq> []" and safe_hd: "safe_name (hd parts)"
      by (auto simp: list_all_iff safe_name_def)
    have split: "split_on CHR ''/'' v = parts"
      using r ne by (auto simp: list_all_iff safe_name_def intro!: split_on_join)
    have ab: "c \<notin> set v" if "\<And>n. safe_name n \<Longrightarrow> c \<notin> set n" "c \<noteq> CHR ''/''" for c
    proof -
      have "list_all (\<lambda>p. c \<notin> set p) parts"
        using r that(1) by (simp add: list_all_iff)
      with r that(2) show ?thesis by (simp add: join_absent)
    qed
    have absent: "CHR 0x5C \<notin> set v" "CHR 0x00 \<notin> set v" "CHR ''%'' \<notin> set v" "CHR '':'' \<notin> set v"
      by (rule ab; simp add: safe_name_def)+
    have ctrl: "\<not> list_ex control_char v"
    proof -
      have "list_all (\<lambda>p. \<not> list_ex control_char p) parts"
        using r by (simp add: list_all_iff safe_name_def)
      with r show ?thesis by (simp add: join_list_ex control_char_def code_def)
    qed
    have "hd v = hd (hd parts)" using r join_starts[OF ne hd_ne] by auto
    with safe_hd hd_ne have "hd v \<noteq> CHR ''/''" "hd v \<noteq> CHR 0x5C"
      by (auto simp: safe_name_def) (metis hd_in_set)+
    with r False split absent ctrl show "split_relative_path (PStr v) allow_empty = Inr parts"
      by (auto simp: split_relative_path_def starts_with_one map_res_validate list_all_iff list_ex_iff safe_name_def bind_res_eq_Inr)
  qed
qed

theorem split_relative_path_spec_witness:
  "split_relative_path (PStr ''docs/read me.md'') False = Inr [''docs'', ''read me.md'']"
  using split_relative_path_spec[of "''docs/read me.md''" False "[''docs'', ''read me.md'']"] by code_simp

section \<open>Subtree protection\<close>

text \<open>A guard over component lists that protects everything below a protected path.\<close>

locale subtree_guard =
  fixes guard :: "string list \<Rightarrow> bool res"
  assumes total_below: "guard ps = Inr b \<Longrightarrow> \<exists>c. guard qs = Inr c"
    and inherited: "guard ps = Inr True \<Longrightarrow> guard (ps @ qs) = Inr True"
begin

lemma open_above: "guard (ps @ qs) = Inr False \<Longrightarrow> guard ps = Inr False"
  using total_below[of "ps @ qs" False ps] inherited[of ps qs] by auto

lemma error_everywhere: "guard ps = Inl e \<Longrightarrow> \<exists>e'. guard qs = Inl e'"
  using total_below[of qs _ ps] by (cases "guard qs") auto

end

interpretation sensitive_guard: subtree_guard "is_sensitive st" for st
  by unfold_locales (auto simp: is_sensitive_def bind_res_eq_Inr)

lemma is_denied_prefix:
  "is_denied st h root parts =
     bind_res (denied_prefixes st h root) (\<lambda>prefixes. Inr (list_ex (\<lambda>p. prefix p parts) prefixes))"
proof -
  have "length p \<le> length parts \<and> take (length p) parts = p \<longleftrightarrow> prefix p parts" for p
    by (auto simp: prefix_def) (metis append_take_drop_id)
  then show ?thesis by (simp add: is_denied_def)
qed

interpretation denied_guard: subtree_guard "is_denied st h root" for st h root
proof
  fix ps b qs assume "is_denied st h root ps = Inr b"
  then show "\<exists>c. is_denied st h root qs = Inr c" by (auto simp: is_denied_prefix bind_res_eq_Inr)
next
  fix ps qs assume "is_denied st h root ps = Inr True"
  then show "is_denied st h root (ps @ qs) = Inr True"
    by (auto simp: is_denied_prefix bind_res_eq_Inr list_ex_iff intro: prefix_prefix)
qed

text \<open>Protection covers whole subtrees: whatever lies below a sensitive or denied path is
  sensitive or denied too, for every configuration and root.\<close>

theorem protection_inherited:
  "(is_sensitive st ps = Inr True \<longrightarrow> is_sensitive st (ps @ qs) = Inr True) \<and>
   (is_denied st h root ps = Inr True \<longrightarrow> is_denied st h root (ps @ qs) = Inr True)"
  by (blast intro: sensitive_guard.inherited denied_guard.inherited)

definition example_host :: host where
  "example_host = \<lparr>h_cwd = ''/srv'',
     h_lstat = (\<lambda>p. Inr \<lparr>st_kind = KDir, st_dev = 1, st_ino = int (length p), st_size = 0, st_mtime_ns = 0, st_ctime_ns = 0\<rparr>),
     h_stat = (\<lambda>p. Inr \<lparr>st_kind = KDir, st_dev = 1, st_ino = int (length p), st_size = 0, st_mtime_ns = 0, st_ctime_ns = 0\<rparr>),
     h_realpath = (\<lambda>p. Inr (''/'' @ join ''/'' (path_comps p)))\<rparr>"

definition example_root :: sf_root where
  "example_root = \<lparr>root_id = ''root-0'', root_name = ''Data'', root_path = ''/srv/data'', root_device = 1, root_inode = 9\<rparr>"

theorem protection_inherited_witness:
  "is_sensitive [] [''app'', ''.SSH'', ''config''] = Inr True \<and>
   is_denied [(''FILE_MANAGER_DENIED_PATHS'', PList [PStr ''/srv/data/private''])] example_host example_root
     [''private'', ''keys''] = Inr True"
  using protection_inherited[of "[]" "[''app'', ''.SSH'']" "[''config'']"]
    protection_inherited[of "[(''FILE_MANAGER_DENIED_PATHS'', PList [PStr ''/srv/data/private''])]"
      "[''private'']" "[''keys'']" example_host example_root]
  by code_simp

text \<open>C8: a host can strengthen the sensitive-name policy but not weaken it: every accepted
  configuration still protects whatever the built-in policy protects.\<close>

lemma sensitive_patterns_extend:
  "sensitive_patterns st = Inr pats \<Longrightarrow> set DEFAULT_SENSITIVE_PATTERNS \<subseteq> set pats"
  by (auto simp: sensitive_patterns_def Let_def split: pyval.splits option.splits if_splits)

theorem baseline_protected:
  assumes "sensitive_patterns st = Inr pats"
    and "list_ex (sensitive_component DEFAULT_SENSITIVE_PATTERNS) parts"
  shows "is_sensitive st parts = Inr True"
proof -
  have "sensitive_component pats c" if "sensitive_component DEFAULT_SENSITIVE_PATTERNS c" for c
    using that sensitive_patterns_extend[OF assms(1)]
    by (auto simp: sensitive_component_def Let_def list_ex_iff)
  with assms show ?thesis by (auto simp: is_sensitive_def list_ex_iff)
qed

theorem baseline_protected_witness:
  "is_sensitive [(''FILE_MANAGER_SENSITIVE_PATTERNS'', PList [PStr ''*.bak''])] [''etc'', ''Server.KEY''] = Inr True"
proof -
  have "sensitive_patterns [(''FILE_MANAGER_SENSITIVE_PATTERNS'', PList [PStr ''*.bak''])]
    = Inr (DEFAULT_SENSITIVE_PATTERNS @ [''*.bak''])" by code_simp
  then show ?thesis by (rule baseline_protected) code_simp
qed

section \<open>Capabilities and access decisions\<close>

text \<open>A capability check never trusts a stale permission cache: its answer is the same whatever
  Django cached on the user object.\<close>

theorem capability_ignores_cache:
  "has_capability (u\<lparr>u_perm_cache := c\<rparr>) codename = has_capability u codename"
  by (simp add: has_capability_def user_has_perm_def)

text \<open>The access decision: a path is granted exactly when it is not denied and, if it is
  sensitive, the user may view sensitive files and, for a write, sensitive mutations are enabled and
  the user may modify sensitive files. The answer says whether the path is sensitive.\<close>

theorem assert_path_allowed_spec:
  "assert_path_allowed st h root parts u write = Inr sensitive \<longleftrightarrow>
     is_denied st h root parts = Inr False \<and> is_sensitive st parts = Inr sensitive \<and>
     (sensitive \<longrightarrow> has_capability u ''view_sensitive_files'' = Inr True) \<and>
     (sensitive \<and> write \<longrightarrow>
        truthy (cfg_get st ''FILE_MANAGER_ALLOW_SENSITIVE_MUTATIONS'' (PBool False)) \<and>
        has_capability u ''modify_sensitive_files'' = Inr True)"
proof (cases "is_denied st h root parts")
  case (Inl e)
  then show ?thesis by (simp add: assert_path_allowed_def)
next
  case d: (Inr denied)
  show ?thesis
  proof (cases "is_sensitive st parts")
    case (Inl e)
    with d show ?thesis by (cases denied) (simp_all add: assert_path_allowed_def)
  next
    case (Inr b)
    with d show ?thesis
      by (cases denied; cases b; cases "write"; cases "has_capability u ''view_sensitive_files''";
          cases "has_capability u ''modify_sensitive_files''")
        (auto simp: assert_path_allowed_def check_def)
  qed
qed

definition viewer :: user where
  "viewer = \<lparr>u_id = 7, u_authenticated = True, u_active = True, u_staff = True, u_superuser = False,
     u_perm_cache = None, u_backend_perm = (\<lambda>p. Inr (p = ''paxalia.view_sensitive_files''))\<rparr>"

theorem assert_path_allowed_spec_witness:
  "assert_path_allowed [] example_host example_root [''backup'', ''db.sqlite3''] viewer False = Inr True \<and>
   assert_path_allowed [] example_host example_root [''backup'', ''db.sqlite3''] viewer True \<noteq> Inr True"
  unfolding assert_path_allowed_spec by code_simp

section \<open>Configured roots\<close>

text \<open>A host whose \<open>realpath\<close> answers with canonical paths, as its documentation says.\<close>

definition canonical_host :: "host \<Rightarrow> bool" where
  "canonical_host h \<longleftrightarrow> (\<forall>p q. h_realpath h p = Inr q \<longrightarrow> canonical q)"

lemma resolve_root_realpath:
  "resolve_root h raw = Inr (p, stt) \<Longrightarrow> h_realpath h (abspath (h_cwd h) raw) = Inr p \<and> h_stat h p = Inr stt"
proof -
  have on_error_Inr: "on_error f r = Inr x \<Longrightarrow> r = Inr x" for f and r :: "'z res" and x
    by (cases r) auto
  assume "resolve_root h raw = Inr (p, stt)"
  then show ?thesis
    by (auto simp: resolve_root_def Let_def bind_res_eq_Inr dest!: on_error_Inr)
qed

lemma resolve_item_facts:
  assumes "resolve_item st h index prev item = Inr r"
  shows "root_id r = ''root-'' @ show_int (int index)"
    and "list_all (\<lambda>p. \<not> overlaps p (root_path r)) prev"
    and "is_sensitive st [basename (root_path r)] = Inr False"
    and "canonical_host h \<Longrightarrow> canonical (root_path r)"
    and "\<exists>stt. h_stat h (root_path r) = Inr stt \<and> st_kind stt = KDir \<and> root_device r = st_dev stt \<and> root_inode r = st_ino stt"
  using assms unfolding resolve_item_def bind_res_eq_Inr
  by (auto simp: list_all_iff list_ex_iff canonical_host_def bind_res_eq_Inr
      dest!: resolve_root_realpath)

lemma not_overlaps_prefix:
  assumes "\<not> overlaps p q" "canonical p" "canonical q"
  shows "\<not> prefix (path_comps p) (path_comps q) \<and> \<not> prefix (path_comps q) (path_comps p)"
  using assms by (auto simp: overlaps_def commonpath_overlap commonpath_overlap_right)

lemma resolve_items_facts:
  assumes "resolve_items st h index prev items = Inr rs" "canonical_host h"
  shows "length rs = length items \<and> (\<forall>i < length rs. root_id (rs ! i) = ''root-'' @ show_int (int (index + i))
      \<and> canonical (root_path (rs ! i)) \<and> list_all (\<lambda>p. \<not> overlaps p (root_path (rs ! i))) prev
      \<and> (\<forall>j < i. \<not> overlaps (root_path (rs ! j)) (root_path (rs ! i))))"
  using assms(1)
proof (induction items arbitrary: index prev rs)
  case (Cons item items)
  then obtain r rs' where r: "resolve_item st h index prev item = Inr r"
    and rs': "resolve_items st h (Suc index) (prev @ [root_path r]) items = Inr rs'" and rs: "rs = r # rs'"
    by (auto simp: bind_res_eq_Inr)
  note f = resolve_item_facts[OF r]
  note IH = Cons.IH[OF rs']
  show ?case
  proof (intro conjI allI impI)
    show "length rs = length (item # items)" using IH rs by simp
  next
    fix i assume i: "i < length rs"
    show "root_id (rs ! i) = ''root-'' @ show_int (int (index + i))"
      using f(1) IH i rs by (cases i) auto
    show "canonical (root_path (rs ! i))"
      using f(4)[OF assms(2)] IH i rs by (cases i) auto
    show "list_all (\<lambda>p. \<not> overlaps p (root_path (rs ! i))) prev"
      using f(2) IH i rs by (cases i) auto
    fix j assume j: "j < i"
    show "\<not> overlaps (root_path (rs ! j)) (root_path (rs ! i))"
      using IH i j rs by (cases i; cases j) auto
  qed
qed simp

lemma get_roots_items:
  "get_roots st h = Inr rs \<Longrightarrow> rs = [] \<or> (\<exists>items. resolve_items st h 0 [] items = Inr rs)"
  by (auto simp: get_roots_def split: if_splits option.splits)

text \<open>No configured root contains another: on a host whose \<open>realpath\<close> is canonical, two
  roots at different positions never lie on one path, in either direction, so a relative path below
  one root can never reach the files of another.\<close>

theorem roots_disjoint:
  assumes "get_roots st h = Inr rs" "canonical_host h" "i < length rs" "j < length rs" "i \<noteq> j"
  shows "\<not> prefix (path_comps (root_path (rs ! i))) (path_comps (root_path (rs ! j)))"
proof -
  from get_roots_items[OF assms(1)] assms(3) obtain items where
    "resolve_items st h 0 [] items = Inr rs" by auto
  from resolve_items_facts[OF this assms(2)]
  have c: "canonical (root_path (rs ! k))" if "k < length rs" for k using that by blast
  from resolve_items_facts[OF \<open>resolve_items st h 0 [] items = Inr rs\<close> assms(2)]
  have o: "\<not> overlaps (root_path (rs ! k)) (root_path (rs ! l))" if "k < l" "l < length rs" for k l
    using that by blast
  from assms(5) consider "i < j" | "j < i" by linarith
  then show ?thesis
    by cases (use not_overlaps_prefix[OF o] c assms(3,4) in blast)+
qed

theorem roots_disjoint_witness:
  "\<not> prefix (path_comps (root_path ([example_root, example_root\<lparr>root_id := ''root-1'', root_name := ''Root 2'', root_path := ''/srv/database'', root_inode := 13\<rparr>] ! 0)))
     (path_comps (root_path ([example_root, example_root\<lparr>root_id := ''root-1'', root_name := ''Root 2'', root_path := ''/srv/database'', root_inode := 13\<rparr>] ! 1)))"
proof (rule roots_disjoint)
  show "get_roots [(''FILE_MANAGER_ENABLED'', PBool True),
      (''FILE_MANAGER_ALLOWED_ROOTS'', PList [PDict [(PStr ''name'', PStr ''Data''), (PStr ''path'', PStr ''/srv/x/../data'')],
        PStr ''/srv/database/''])] example_host
    = Inr [example_root, example_root\<lparr>root_id := ''root-1'', root_name := ''Root 2'', root_path := ''/srv/database'', root_inode := 13\<rparr>]"
    by code_simp
  show "canonical_host example_host"
    by (auto simp: canonical_host_def example_host_def canonical_def)
qed simp_all

text \<open>The guard against exposing the whole file system can be passed by: on a POSIX host the
  configured root \<open>//\<close> is accepted and resolves to the root directory itself, because
  \<open>os.path.abspath\<close> keeps a double leading slash and the comparison is with a single one.\<close>

theorem double_slash_root_accepted:
  "map_res (\<lambda>r. Inr (root_path r)) (projr (get_roots [(''FILE_MANAGER_ENABLED'', PBool True),
     (''FILE_MANAGER_ALLOWED_ROOTS'', PList [PStr ''//''])] example_host)) = Inr [''/'']
   \<and> get_roots [(''FILE_MANAGER_ENABLED'', PBool True), (''FILE_MANAGER_ALLOWED_ROOTS'', PList [PStr ''/''])] example_host
     = Inl (sf_config_error ''Allowed roots must be explicit absolute non-root directories.'')"
  by code_simp

end
