(* ===== verification/Server_Files_Props.thy ===== *)
theory Server_Files_Props
  imports Publish Path_Policy_Props
begin

text \<open>
  What the Server Files operations do to the file system, under every schedule of failing and short
  system calls: where they may change something (only in the directory the request names, reached
  without following a link), what they may leave behind, and what they never do (overwrite, publish
  a partial file, delete a directory with content).
\<close>

section \<open>Requests\<close>

text \<open>A request the policy lets through, and the root and components it designates.\<close>

definition names_root :: "sf_env \<Rightarrow> pyval \<Rightarrow> sf_root \<Rightarrow> bool" where
  "names_root env rid root \<longleftrightarrow> get_root (get_roots (e_settings env) (e_host env)) rid = Inr root"

definition may_write :: "sf_env \<Rightarrow> sf_root \<Rightarrow> string list \<Rightarrow> user \<Rightarrow> bool" where
  "may_write env root parts u \<longleftrightarrow>
     (\<exists>b. assert_path_allowed (e_settings env) (e_host env) root parts u True = Inr b)"

definition write_request ::
  "sf_env \<Rightarrow> string \<Rightarrow> pyval \<Rightarrow> pyval \<Rightarrow> string \<Rightarrow> user \<Rightarrow> sf_root \<Rightarrow> string list \<Rightarrow> bool"
where
  "write_request env capability rid path name u root parts \<longleftrightarrow>
     has_capability u capability = Inr True \<and> names_root env rid root
     \<and> split_relative_path path True = Inr parts \<and> safe_name name \<and> may_write env root (parts @ [name]) u"

lemma spec_require_capability:
  assumes "ok s" "E s" "has_capability u c = Inr True \<Longrightarrow> spec s k Q E"
  shows "spec s (seq (require_capability u c msg) k) Q E"
  using assms by (auto simp: spec_def require_capability_def wp_simps split: sum.splits)

lemma safe_not_dot: "safe_name n \<Longrightarrow> \<not> dot_name n"
  by (auto simp: safe_name_def dot_name_def)

lemma outcome:
  assumes "spec s m Q E" "m s = (r, t)"
  shows "case r of Inr x \<Rightarrow> Q x t | Inl e \<Rightarrow> E t"
  using wp_of_spec[OF assms(1)] assms(2) by (simp add: wp_def split: sum.splits)

section \<open>Creating a directory\<close>

definition empty_dir :: "fs \<Rightarrow> nat \<Rightarrow> nat \<Rightarrow> int \<Rightarrow> inode" where
  "empty_dir f d mode now = \<lparr>i_kind = KDir, i_dev = (case f d of Some n \<Rightarrow> i_dev n | None \<Rightarrow> 0), i_data = [],
     i_entries = [], i_parent = d, i_mode = mode, i_uid = 0, i_gid = 0, i_mtime = now, i_ctime = now\<rparr>"

definition dir_created :: "os \<Rightarrow> nat \<Rightarrow> string \<Rightarrow> fs \<Rightarrow> bool" where
  "dir_created s d name g \<longleftrightarrow>
     (\<exists>new. os_fs s new = None \<and> fs_lookup (os_fs s) d name = None
        \<and> g = add_entry name new d ((os_fs s)(new \<mapsto> empty_dir (os_fs s) d 488 (os_clock s))))"

lemma fs_mkdir_Inr:
  "fs_mkdir d name new mode now f = Inr g \<Longrightarrow>
     fs_lookup f d name = None \<and> g = add_entry name new d (f(new \<mapsto> empty_dir f d mode now))"
  by (auto simp: fs_mkdir_def empty_dir_def split: option.splits if_splits)

lemma create_directory_body:
  assumes "ok t" "os_fds t fd = Some d" "os_fs t = os_fs s" "os_clock t = os_clock s"
  shows "spec t (seq (fs_call (mkdir_at fd name 488)) (os_fsync fd))
    (\<lambda>_ v. dir_created s d name (os_fs v)) (\<lambda>v. os_fs v = os_fs s \<or> dir_created s d name (os_fs v))"
proof (rule spec_seq[where R = "\<lambda>v. dir_created s d name (os_fs v)"])
  show "spec t (fs_call (mkdir_at fd name 488)) (\<lambda>_ v. dir_created s d name (os_fs v))
     (\<lambda>v. os_fs v = os_fs s \<or> dir_created s d name (os_fs v))"
    by (rule spec_mono[OF spec_fs_call[OF spec_mkdir_at[OF assms(1,2)]]])
       (use assms(3,4) in \<open>auto simp: dir_created_def dest: fs_mkdir_Inr\<close>)
next
  fix v assume v: "reach t v" "dir_created s d name (os_fs v)"
  show "spec v (os_fsync fd) (\<lambda>_ v. dir_created s d name (os_fs v)) (\<lambda>v. os_fs v = os_fs s \<or> dir_created s d name (os_fs v))"
    by (rule spec_mono[OF spec_os_fsync[OF reach_ok[OF v(1)] reach_fd[OF v(1) assms(1,2)]]]) (use v in auto)
qed

text \<open>Whatever system calls fail, creating a directory changes nothing unless the policy allows
  the request; then at most one entry is added, an empty directory under a name that was free, in the
  directory that the request's path reaches from its root without following a link. A normal
  return means that it was added.\<close>

theorem create_directory_effect:
  assumes "ok s" "create_directory env rid path name u s = (r, t)"
  shows "(\<exists>e. r = Inl e) \<and> os_fs t = os_fs s
    \<or> (\<exists>root parts d. write_request env ''modify_server_files'' rid path name u root parts
         \<and> resolves s root parts d \<and> dir_created s d name (os_fs t))"
proof -
  let ?made = "\<lambda>t. \<exists>root parts d. write_request env ''modify_server_files'' rid path name u root parts
         \<and> resolves s root parts d \<and> dir_created s d name (os_fs t)"
  have "spec s (create_directory env rid path name u) (\<lambda>_ t. ?made t) (\<lambda>t. os_fs t = os_fs s \<or> ?made t)"
    unfolding create_directory_def
  proof (intro spec_require_capability spec_pure_guard assms(1); (rule disjI1 refl)?)
    fix root parts n b
    assume cap: "has_capability u ''modify_server_files'' = Inr True"
      and root: "get_root (get_roots (e_settings env) (e_host env)) rid = Inr root"
      and parts: "split_relative_path path True = Inr parts"
      and n: "validate_name name = Inr n"
      and allowed: "assert_path_allowed (e_settings env) (e_host env) root (parts @ [n]) u True = Inr b"
    have req: "write_request env ''modify_server_files'' rid path name u root parts"
      using cap root parts n allowed
      by (auto simp: write_request_def names_root_def may_write_def validate_name_safe)
    have n': "n = name" using n by (simp add: validate_name_safe)
    show "spec s (seq (open_directory env root parts (\<lambda>fd. seq (fs_call (mkdir_at fd n 488)) (os_fsync fd)))
           (ret (root, join ''/'' (parts @ [n])))) (\<lambda>_ t. ?made t) (\<lambda>t. os_fs t = os_fs s \<or> ?made t)"
    proof (rule spec_seq[where R = ?made], rule spec_open_directory[OF assms(1)])
      fix fd d t assume t: "reach s t" "same_fs s t" "os_fds t fd = Some d" "resolves s root parts d"
      show "spec t (seq (fs_call (mkdir_at fd n 488)) (os_fsync fd)) (\<lambda>_ t. ?made t) (\<lambda>t. os_fs t = os_fs s \<or> ?made t)"
        by (rule spec_mono[OF create_directory_body[of t fd d s]])
           (use t req n' in \<open>auto simp: reach_ok reach_def frame_def\<close>)
    qed (auto simp: closed_simps intro!: spec_ret dest: reach_ok)
  qed auto
  from outcome[OF this assms(2)] show ?thesis by (auto split: sum.splits)
qed

text \<open>A small host for the concrete runs: the root (inode 9) holds a directory \<open>docs\<close> (3) with a
  file \<open>a.txt\<close> (4), a link to it and an empty directory.\<close>

definition plain_inode :: "file_kind \<Rightarrow> string \<Rightarrow> (string \<times> nat) list \<Rightarrow> nat \<Rightarrow> inode" where
  "plain_inode k bs es p = \<lparr>i_kind = k, i_dev = 1, i_data = bs, i_entries = es, i_parent = p, i_mode = 420,
     i_uid = 0, i_gid = 0, i_mtime = 0, i_ctime = 0\<rparr>"

definition example_fs :: fs where
  "example_fs i =
     (if i = 9 then Some (plain_inode KDir [] [(''docs'', 3), (''link'', 5)] 9)
      else if i = 3 then Some (plain_inode KDir [] [(''a.txt'', 4), (''empty'', 6)] 9)
      else if i = 4 then Some (plain_inode KFile ''hello'' [] 3)
      else if i = 5 then Some (plain_inode KLink ''docs'' [] 9)
      else if i = 6 then Some (plain_inode KDir [] [] 3) else None)"

definition example_os :: "event list \<Rightarrow> os" where
  "example_os sched = \<lparr>os_fs = example_fs, os_next = 20, os_fds = (\<lambda>_. None), os_pos = (\<lambda>_. 0), os_nfd = 3,
     os_sched = sched, os_paths = (\<lambda>p. if p = ''/srv/data'' then Inr 9 else Inl ENOENT),
     os_link_errno = ENOTDIR, os_uuid = (\<lambda>n. ''cafe''), os_uuids = 0, os_clock = 100\<rparr>"

lemma ok_example_os: "list_all (\<lambda>ev. \<not> interferes ev) sched \<Longrightarrow> ok (example_os sched)"
  by (auto simp: ok_def example_os_def example_fs_def)

definition example_env :: sf_env where
  "example_env = \<lparr>e_settings = [(''FILE_MANAGER_ENABLED'', PBool True),
       (''FILE_MANAGER_ALLOWED_ROOTS'', PList [PDict [(PStr ''name'', PStr ''Data''), (PStr ''path'', PStr ''/srv/data'')]])],
     e_host = example_host, e_dirfd_supported = True, e_linux = True, e_renameat2 = True,
     e_mime = (\<lambda>_. None), e_pwd = (\<lambda>_. None), e_grp = (\<lambda>_. None)\<rparr>"

definition manager :: user where
  "manager = viewer\<lparr>u_backend_perm := (\<lambda>p. Inr True)\<rparr>"

theorem create_directory_effect_witness:
  "\<exists>root parts d. write_request example_env ''modify_server_files'' (PStr ''root-0'') (PStr ''docs'') ''new'' manager root parts
     \<and> resolves (example_os [Quiet, Short 2]) root parts d
     \<and> dir_created (example_os [Quiet, Short 2]) d ''new''
         (os_fs (snd (create_directory example_env (PStr ''root-0'') (PStr ''docs'') ''new'' manager (example_os [Quiet, Short 2]))))"
proof -
  let ?run = "create_directory example_env (PStr ''root-0'') (PStr ''docs'') ''new'' manager (example_os [Quiet, Short 2])"
  have returns: "\<not> isl (fst ?run)" by code_simp
  have ok: "ok (example_os [Quiet, Short 2])" by (simp add: ok_example_os)
  have "?run = (fst ?run, snd ?run)" by simp
  from create_directory_effect[OF ok this] returns show ?thesis by auto
qed

section \<open>Uploads and copies\<close>

lemma spec_fresh_uuid: "ok s \<Longrightarrow> spec s fresh_uuid (\<lambda>_ t. same_fs s t \<and> os_fds t = os_fds s) E"
  by (auto simp: spec_def wp_def fresh_uuid_def reach_def frame_def ok_def)

text \<open>The content a finished upload must have.\<close>

definition whole_upload :: "sf_env \<Rightarrow> uploaded \<Rightarrow> string \<Rightarrow> bool" where
  "whole_upload env up bs \<longleftrightarrow> bs = chunk_bytes (up_chunks up) \<and> up_size up = Some (int (length bs))
     \<and> (\<exists>lim. limits (e_settings env) = Inr lim \<and> int (length bs) \<le> upload_bytes lim)"

definition temp_name :: "string \<Rightarrow> string \<Rightarrow> bool" where
  "temp_name kind temp \<longleftrightarrow> (\<exists>hex. temp = ''.paxalia-'' @ kind @ hex @ ''.part'')"

lemma temp_not_dot: "temp_name kind temp \<Longrightarrow> \<not> dot_name temp"
  by (auto simp: temp_name_def dot_name_def)

text \<open>What an upload may leave behind: the published content, or a part of it under a temporary name.\<close>

definition upload_request :: "sf_env \<Rightarrow> pyval \<Rightarrow> pyval \<Rightarrow> string \<Rightarrow> user \<Rightarrow> os \<Rightarrow> nat \<Rightarrow> string \<Rightarrow> bool" where
  "upload_request env rid path name u s d temp \<longleftrightarrow> temp_name ''upload-'' temp
     \<and> (\<exists>root parts. write_request env ''upload_server_files'' rid path name u root parts \<and> resolves s root parts d)"

definition upload_done :: "sf_env \<Rightarrow> pyval \<Rightarrow> pyval \<Rightarrow> string \<Rightarrow> uploaded \<Rightarrow> user \<Rightarrow> os \<Rightarrow> os \<Rightarrow> bool" where
  "upload_done env rid path name up u s t \<longleftrightarrow> (\<exists>d temp. upload_request env rid path name u s d temp
     \<and> published (os_fs s) d name (whole_upload env up) (os_fs t))"

definition upload_left :: "sf_env \<Rightarrow> pyval \<Rightarrow> pyval \<Rightarrow> string \<Rightarrow> uploaded \<Rightarrow> user \<Rightarrow> os \<Rightarrow> os \<Rightarrow> bool" where
  "upload_left env rid path name up u s t \<longleftrightarrow> os_fs t = os_fs s \<or> (\<exists>d temp. upload_request env rid path name u s d temp
     \<and> remains (os_fs s) d temp name (whole_upload env up) (os_fs t))"

lemma upload_left_same_fs: "os_fs t = os_fs s \<Longrightarrow> upload_left env rid path name up u s t"
  by (simp add: upload_left_def)

lemma upload_left_closed: "os_fs t = os_fs v \<Longrightarrow> upload_left env rid path name up u s t = upload_left env rid path name up u s v"
  by (simp add: upload_left_def)

lemma upload_done_closed: "os_fs t = os_fs v \<Longrightarrow> upload_done env rid path name up u s t = upload_done env rid path name up u s v"
  by (simp add: upload_done_def)

lemma spec_upload_published:
  assumes "write_request env ''upload_server_files'' rid path name u root parts" "\<not> dot_name name"
    and "limits (e_settings env) = Inr lim" "up_size up = Some m" "m \<le> upload_bytes lim"
    and "reach s w" "same_fs s w" "os_fds w fd = Some d" "resolves s root parts d"
  shows "spec w (publish fd (''.paxalia-upload-'' @ hex @ ''.part'') name (\<lambda>fd. upload_body fd (upload_bytes lim) m (up_chunks up)))
    (\<lambda>_. upload_done env rid path name up u s) (upload_left env rid path name up u s)"
proof -
  let ?temp = "''.paxalia-upload-'' @ hex @ ''.part''"
  let ?P = "\<lambda>(x::int) bs. (bs = chunk_bytes (up_chunks up) \<and> x = m \<and> int (length bs) = m)"
  have temp: "temp_name ''upload-'' ?temp" by (auto simp: temp_name_def)
  have req: "upload_request env rid path name u s d ?temp"
    using assms(1,9) temp by (auto simp: upload_request_def)
  have whole: "whole_upload env up bs" if "?P x bs" for x bs using assms(3-5) that by (auto simp: whole_upload_def)
  show ?thesis
  proof (rule spec_mono[OF spec_publish[where P = ?P and f = "os_fs s" and d = d]])
    show "spec y (upload_body fd' (upload_bytes lim) m (up_chunks up))
        (\<lambda>x z. \<exists>bs. ?P x bs \<and> storing (os_fs s) d ?temp new bs z) (\<lambda>z. \<exists>bs. storing (os_fs s) d ?temp new bs z)"
      if "reach w y" "os_fds y fd' = Some new" "os_pos y fd' = 0" "storing (os_fs s) d ?temp new [] y" for y fd' new
      by (rule spec_upload_body) (use that in \<open>auto dest: reach_ok\<close>)
  next
    fix x and z :: os assume "published (os_fs s) d name (?P x) (os_fs z)"
    then have "published (os_fs s) d name (whole_upload env up) (os_fs z)" using whole unfolding published_def by blast
    then show "upload_done env rid path name up u s z" using req unfolding upload_done_def by blast
  next
    fix z :: os assume "remains (os_fs s) d ?temp name (\<lambda>bs. \<exists>x. ?P x bs) (os_fs z)"
    then have "remains (os_fs s) d ?temp name (whole_upload env up) (os_fs z)" using whole unfolding remains_def by blast
    then show "upload_left env rid path name up u s z" using req unfolding upload_left_def by blast
  qed (use assms temp in \<open>auto dest: reach_ok temp_not_dot\<close>)
qed

lemma spec_upload_into:
  assumes "write_request env ''upload_server_files'' rid path name u root parts" "\<not> dot_name name"
    and "limits (e_settings env) = Inr lim" "up_size up = Some m" "m \<le> upload_bytes lim" "reach s v" "same_fs s v" "os_fds v = os_fds s"
  shows "spec v (open_directory env root parts (\<lambda>fd. publish fd (''.paxalia-upload-'' @ hex @ ''.part'') name
      (\<lambda>fd. upload_body fd (upload_bytes lim) m (up_chunks up))))
    (\<lambda>_. upload_done env rid path name up u s) (upload_left env rid path name up u s)"
proof (rule spec_open_directory[OF reach_ok[OF assms(6)]])
  fix fd d w assume w: "reach v w" "same_fs v w" "os_fds w fd = Some d" "resolves v root parts d"
  have "resolves s root parts d" using w(4) assms(6-8) by (auto simp: resolves_def root_inode_at_def reach_def frame_def)
  then show "spec w (publish fd (''.paxalia-upload-'' @ hex @ ''.part'') name (\<lambda>fd. upload_body fd (upload_bytes lim) m (up_chunks up)))
      (\<lambda>_. upload_done env rid path name up u s) (upload_left env rid path name up u s)"
    using w assms by (intro spec_upload_published) (auto intro: reach_trans)
qed (use assms in \<open>auto simp: closed_simps upload_left_def upload_done_def\<close>)

lemma spec_declared_size:
  assumes "ok s" "E s"
  shows "spec s (case up_size up of None \<Rightarrow> raise (sf SfTooLarge)
            | Some n \<Rightarrow> if n < 0 \<or> n > most then raise (sf SfTooLarge) else ret n)
          (\<lambda>m v. v = s \<and> up_size up = Some m \<and> m \<le> most) E"
  using assms by (auto split: option.splits intro!: spec_raise spec_ret)

lemma spec_upload_file:
  assumes "ok s"
  shows "spec s (upload_file env rid path name up u) (\<lambda>_. upload_done env rid path name up u s) (upload_left env rid path name up u s)"
  unfolding upload_file_def
proof (intro spec_require_capability spec_pure_guard assms)
  fix root parts n b lim
  assume given: "has_capability u ''upload_server_files'' = Inr True" "get_root (get_roots (e_settings env) (e_host env)) rid = Inr root"
      "split_relative_path path True = Inr parts" "validate_name name = Inr n"
      "assert_path_allowed (e_settings env) (e_host env) root (parts @ [n]) u True = Inr b"
    and lim: "limits (e_settings env) = Inr lim"
  have req: "write_request env ''upload_server_files'' rid path name u root parts" and n: "n = name" and dot: "\<not> dot_name name"
    using given by (auto simp: write_request_def names_root_def may_write_def validate_name_safe safe_not_dot)
  note into = spec_upload_into[OF req dot lim]
  show "spec s (bind (case up_size up of None \<Rightarrow> raise (sf SfTooLarge)
          | Some n \<Rightarrow> if n < 0 \<or> n > upload_bytes lim then raise (sf SfTooLarge) else ret n) (\<lambda>declared.
    bind fresh_uuid (\<lambda>hex.
    bind (open_directory env root parts (\<lambda>parent_fd.
            publish parent_fd (''.paxalia-upload-'' @ hex @ ''.part'') n
              (\<lambda>fd. upload_body fd (upload_bytes lim) declared (up_chunks up)))) (\<lambda>written.
    ret (root, join ''/'' (parts @ [n]), written)))))
      (\<lambda>_. upload_done env rid path name up u s) (upload_left env rid path name up u s)"
    unfolding n
    by (rule spec_bind[OF spec_declared_size], (simp_all add: assms upload_left_def)[2], elim conjE, hypsubst,
        rule spec_bind[OF spec_fresh_uuid[OF assms]], rule spec_bind[OF into])
       (auto simp: upload_left_def intro!: spec_ret dest: reach_ok)
qed (simp_all add: upload_left_def)

text \<open>C14: an upload is all or nothing under every schedule of failing and short system calls. A
  normal return means that the requested name was free and now holds exactly the uploaded bytes,
  as many as declared and within the limit, in the directory the policy allowed. After an
  exception the requested name is untouched or holds the complete upload; besides it at most a
  \<open>.paxalia-upload-*.part\<close> name is left. No existing entry or content changes in any case.\<close>

theorem upload_all_or_nothing:
  assumes "ok s" "upload_file env rid path name up u s = (r, t)"
  shows "(\<exists>e. r = Inl e) \<and> os_fs t = os_fs s
    \<or> (\<exists>root parts d temp. write_request env ''upload_server_files'' rid path name u root parts
         \<and> resolves s root parts d \<and> temp_name ''upload-'' temp
         \<and> (case r of Inr _ \<Rightarrow> published (os_fs s) d name (whole_upload env up) (os_fs t)
            | Inl _ \<Rightarrow> remains (os_fs s) d temp name (whole_upload env up) (os_fs t)))"
  using outcome[OF spec_upload_file[OF assms(1)] assms(2)]
  by (cases r; simp add: upload_done_def upload_left_def upload_request_def; blast)

definition hello_upload :: uploaded where
  "hello_upload = \<lparr>up_size = Some 5, up_chunks = [Inr ''hel'', Inr ''lo'']\<rparr>"

theorem upload_all_or_nothing_witness:
  "let s = example_os (replicate 8 Quiet @ [Short 2]);
       t = snd (upload_file example_env (PStr ''root-0'') (PStr ''docs'') ''b.txt'' hello_upload manager s)
   in \<exists>root parts d. write_request example_env ''upload_server_files'' (PStr ''root-0'') (PStr ''docs'') ''b.txt'' manager root parts
        \<and> resolves s root parts d \<and> published (os_fs s) d ''b.txt'' (whole_upload example_env hello_upload) (os_fs t)"
proof -
  let ?s = "example_os (replicate 8 Quiet @ [Short 2])"
  let ?run = "upload_file example_env (PStr ''root-0'') (PStr ''docs'') ''b.txt'' hello_upload manager ?s"
  have returns: "\<not> isl (fst ?run)" by code_simp
  have ok: "ok ?s" by (rule ok_example_os) (simp add: list_all_iff)
  obtain x where x: "fst ?run = Inr x" using returns by (cases "fst ?run") auto
  have run: "?run = (Inr x, snd ?run)" using x by (metis prod.collapse)
  from upload_all_or_nothing[OF ok run] show ?thesis unfolding Let_def by (simp; blast)
qed

end
