(* ===== verification/Server_Files_Moves.thy ===== *)
theory Server_Files_Moves
  imports Server_Files_Props
begin

text \<open>
  Copying, moving and deleting: the remaining mutating operations of \<open>server_files/service.py\<close>,
  with the same style of guarantee as the theory Server_Files_Props.
\<close>

section \<open>Opening below a root\<close>

text \<open>The entry a non-empty path names: its parent directory and its inode.\<close>

definition names_entry :: "os \<Rightarrow> sf_root \<Rightarrow> string list \<Rightarrow> nat \<Rightarrow> nat \<Rightarrow> bool" where
  "names_entry s root parts d i \<longleftrightarrow> parts \<noteq> [] \<and> resolves s root (butlast parts) d
     \<and> fs_lookup (os_fs s) d (last parts) = Some i"

lemma resolves_cong: "frame s t \<Longrightarrow> os_fs t = os_fs s \<Longrightarrow> resolves t root parts d = resolves s root parts d"
  by (simp add: resolves_def root_inode_at_def frame_def)

lemma names_entry_cong:
  "frame s t \<Longrightarrow> os_fs t = os_fs s \<Longrightarrow> names_entry t root parts d i = names_entry s root parts d i"
  by (simp add: names_entry_def resolves_cong)

lemma spec_open_parent:
  assumes "ok s"
    and body: "\<And>fd d t. reach s t \<Longrightarrow> same_fs s t \<Longrightarrow> os_fds t fd = Some d \<Longrightarrow> os_nfd s \<le> fd \<Longrightarrow> parts \<noteq> [] \<Longrightarrow>
      resolves s root (butlast parts) d \<Longrightarrow> spec t (body fd (last parts)) Q E"
    and stable: "\<And>fd x t u. os_nfd s \<le> fd \<Longrightarrow> closed fd t u \<Longrightarrow> Q x t \<Longrightarrow> Q x u" "\<And>fd t u. closed fd t u \<Longrightarrow> E t \<Longrightarrow> E u"
    and err: "\<And>t. same_fs s t \<Longrightarrow> E t"
  shows "spec s (open_parent env root parts body) Q E"
  unfolding open_parent_def
proof (rule spec_seq[OF spec_require[where Q = "\<lambda>_ t. t = s \<and> parts \<noteq> []"]])
  fix t assume t: "t = s \<and> parts \<noteq> []"
  have "spec s (open_directory env root (butlast parts) (\<lambda>fd. body fd (last parts))) Q E"
    by (rule spec_open_directory[OF assms(1) _ stable err]) (use t in \<open>auto intro: body\<close>)
  with t show "spec t (open_directory env root (butlast parts) (\<lambda>fd. body fd (last parts))) Q E" by simp
qed (use assms in auto)

lemma spec_open_read_at:
  assumes "ok s" "os_fds s fd = Some d"
  shows "spec s (open_read_at fd name)
    (\<lambda>fd' t. \<exists>i. fs_lookup (os_fs s) d name = Some i \<and> opened s i fd' t \<and> \<not> is_kind (os_fs s) i KLink) (same_fs s)"
    (is "spec _ _ ?Q _")
  unfolding open_read_at_def
proof (rule spec_at[OF assms])
  fix t and lim :: "nat option" assume t: "reach s t" "same_view s t"
  show "spec t (\<lambda>s. case fs_lookup (os_fs s) d name of None \<Rightarrow> (Inl (OSError ENOENT), s)
     | Some i \<Rightarrow> if is_kind (os_fs s) i KLink then (Inl (OSError ELOOP), s)
               else if os_fs s i = None then (Inl (OSError ENOENT), s) else new_fd i s) ?Q (same_fs s)"
  proof (cases "fs_lookup (os_fs s) d name")
    case None
    with t show ?thesis by (simp add: spec_def wp_def same_view_simps reach_ok)
  next
    case (Some i)
    show ?thesis
    proof (cases "is_kind (os_fs s) i KLink \<or> os_fs s i = None")
      case True
      with t Some show ?thesis by (auto simp: spec_def wp_def same_view_simps reach_ok)
    next
      case False
      have "spec t (new_fd i) ?Q (same_fs s)"
        by (rule spec_mono[OF spec_new_fd[OF reach_ok[OF t(1)]]]) (use t Some False in \<open>auto intro: opened_same_view\<close>)
      with t Some False show ?thesis by (auto simp: spec_def wp_def same_view_simps)
    qed
  qed
qed (simp add: same_view_simps)

lemma spec_open_regular_file:
  assumes "ok s"
    and body: "\<And>fd d i n t. reach s t \<Longrightarrow> same_fs s t \<Longrightarrow> os_fds t fd = Some i \<Longrightarrow> os_nfd s \<le> fd \<Longrightarrow>
      names_entry s root parts d i \<Longrightarrow> os_fs s i = Some n \<Longrightarrow> i_kind n = KFile \<Longrightarrow> spec t (body fd (stat_of i n)) Q E"
    and stable: "\<And>fd x t u. os_nfd s \<le> fd \<Longrightarrow> closed fd t u \<Longrightarrow> Q x t \<Longrightarrow> Q x u" "\<And>fd t u. closed fd t u \<Longrightarrow> E t \<Longrightarrow> E u"
    and err: "\<And>t. same_fs s t \<Longrightarrow> E t" "\<And>x t. Q x t \<Longrightarrow> E t"
  shows "spec s (open_regular_file env root parts body) Q E"
  unfolding open_regular_file_def
proof (rule spec_open_parent[OF assms(1) _ stable err(1)])
  fix pfd d t
  assume t: "reach s t" "same_fs s t" "os_fds t pfd = Some d" "os_nfd s \<le> pfd" "parts \<noteq> []" "resolves s root (butlast parts) d"
  have nfd: "os_nfd s \<le> os_nfd t" using t(1) by (simp add: reach_def frame_def)
  have st: "\<And>fd x v w. os_nfd t \<le> fd \<Longrightarrow> closed fd v w \<Longrightarrow> Q x v \<Longrightarrow> Q x w"
    by (rule stable(1)[OF le_trans[OF nfd]])
  let ?R = "\<lambda>fd u. \<exists>i. fs_lookup (os_fs t) d (last parts) = Some i \<and> opened t i fd u \<and> \<not> is_kind (os_fs t) i KLink"
  show "spec t (bind (fs_call (open_read_at pfd (last parts))) (\<lambda>fd. cleanup
           (bind (os_fstat fd) (\<lambda>file_stat.
            seq (require (st_kind file_stat = KFile) (sf SfNotRegularFile)) (body fd file_stat))) (os_close fd))) Q E"
  proof (rule spec_with_fd[where R = ?R and Q = "\<lambda>_. Q" and E = "\<lambda>_. E"])
    show "spec t (fs_call (open_read_at pfd (last parts))) (\<lambda>fd u. os_nfd t \<le> fd \<and> ?R fd u) E"
      by (rule spec_mono[OF spec_fs_call[OF spec_open_read_at[OF reach_ok[OF t(1)] t(3)]]])
         (use t err in \<open>auto simp: opened_def\<close>)
  next
    fix fd u assume u: "reach t u" "os_nfd t \<le> fd" "?R fd u"
    then obtain i where i: "fs_lookup (os_fs t) d (last parts) = Some i" "opened t i fd u" by blast
    have fd: "os_fds u fd = Some i" and fs: "same_fs s u" using i(2) t(2) by (auto simp: opened_def)
    have ent: "names_entry s root parts d i" using t i(1) by (simp add: names_entry_def)
    show "spec u (bind (os_fstat fd) (\<lambda>file_stat.
            seq (require (st_kind file_stat = KFile) (sf SfNotRegularFile)) (body fd file_stat))) Q E"
    proof (rule spec_bind[OF spec_mono[OF spec_os_fstat[OF reach_ok[OF u(1)] fd]]])
      fix st v assume v: "reach u v" "same_fs s v \<and> (\<exists>n. os_fs s i = Some n \<and> st = stat_of i n)"
      then obtain n where n: "os_fs s i = Some n" "st = stat_of i n" by blast
      have sv: "reach s v" using t(1) u(1) v(1) by (blast intro: reach_trans)
      have fdv: "os_fds v fd = Some i" by (rule reach_fd[OF v(1) reach_ok[OF u(1)] fd])
      show "spec v (seq (require (st_kind st = KFile) (sf SfNotRegularFile)) (body fd st)) Q E"
      proof (rule spec_seq[OF spec_require[where Q = "\<lambda>_ w. w = v \<and> st_kind st = KFile"]])
        fix w assume w: "w = v \<and> st_kind st = KFile"
        show "spec w (body fd st) Q E"
          unfolding n(2) by (rule body) (use w v n sv fdv u nfd ent in \<open>auto simp: stat_of_def\<close>)
      qed (use v err in \<open>auto dest: reach_ok\<close>)
    qed (use fs err in auto)
  qed (use st stable(2) err in \<open>auto simp: closed_simps\<close>)
qed

section \<open>Copies\<close>

text \<open>A request to copy the regular file \<open>n\<close>, within the limit, into the directory \<open>d\<close>; the policy
  allows writing at both ends.\<close>

definition copy_request ::
  "sf_env \<Rightarrow> os \<Rightarrow> pyval \<Rightarrow> pyval \<Rightarrow> pyval \<Rightarrow> pyval \<Rightarrow> string \<Rightarrow> user \<Rightarrow> inode \<Rightarrow> nat \<Rightarrow> bool"
where
  "copy_request env s rid path dst_rid dst_path name u n d \<longleftrightarrow>
     (\<exists>src_root src_parts sd i. names_root env rid src_root \<and> split_relative_path path False = Inr src_parts
        \<and> may_write env src_root src_parts u \<and> names_entry s src_root src_parts sd i
        \<and> os_fs s i = Some n \<and> i_kind n = KFile)
     \<and> (\<exists>lim. limits (e_settings env) = Inr lim \<and> int (length (i_data n)) \<le> copy_bytes lim)
     \<and> (\<exists>dst_root dst_parts. write_request env ''modify_server_files'' dst_rid dst_path name u dst_root dst_parts
        \<and> resolves s dst_root dst_parts d)"

text \<open>C15: copying never changes the source and never replaces a file, under every schedule of
  failing and short system calls. A normal return means that the free destination name now holds
  exactly the source's bytes, within the copy limit; after an exception the destination name is
  untouched or holds the complete copy. Both ends must be allowed for writing.\<close>

theorem copy_all_or_nothing:
  assumes "ok s" "copy_file env rid path dst_rid dst_path name u s = (r, t)"
  shows "(\<exists>e. r = Inl e) \<and> os_fs t = os_fs s
    \<or> (\<exists>n d temp. copy_request env s rid path dst_rid dst_path name u n d \<and> temp_name ''copy-'' temp
         \<and> (case r of Inr _ \<Rightarrow> published (os_fs s) d name (\<lambda>bs. bs = i_data n) (os_fs t)
            | Inl _ \<Rightarrow> remains (os_fs s) d temp name (\<lambda>bs. bs = i_data n) (os_fs t)))"
proof -
  let ?src = "\<lambda>n d temp. copy_request env s rid path dst_rid dst_path name u n d \<and> temp_name ''copy-'' temp"
  let ?Q = "\<lambda>t. \<exists>n d temp. ?src n d temp \<and> published (os_fs s) d name (\<lambda>bs. bs = i_data n) (os_fs t)"
  let ?E = "\<lambda>t. os_fs t = os_fs s \<or> (\<exists>n d temp. ?src n d temp \<and> remains (os_fs s) d temp name (\<lambda>bs. bs = i_data n) (os_fs t))"
  have QE: "?E t" if "?Q t" for t
  proof -
    from that obtain n d temp where src: "?src n d temp" and p: "published (os_fs s) d name (\<lambda>bs. bs = i_data n) (os_fs t)"
      by blast
    from p have "remains (os_fs s) d temp name (\<lambda>bs. bs = i_data n) (os_fs t)" unfolding published_def remains_def by blast
    with src show ?thesis by blast
  qed
  have "spec s (copy_file env rid path dst_rid dst_path name u) (\<lambda>_ t. ?Q t) ?E"
    unfolding copy_file_def
  proof (intro spec_require_capability spec_pure_guard assms(1))
    fix sr dr sp dp nn b1 b2 lim
    assume cap: "has_capability u ''modify_server_files'' = Inr True"
      and roots: "get_root (get_roots (e_settings env) (e_host env)) rid = Inr sr"
        "get_root (get_roots (e_settings env) (e_host env)) dst_rid = Inr dr"
      and parts: "split_relative_path path False = Inr sp" "split_relative_path dst_path True = Inr dp"
      and n: "validate_name name = Inr nn"
      and allowed: "assert_path_allowed (e_settings env) (e_host env) sr sp u True = Inr b1"
        "assert_path_allowed (e_settings env) (e_host env) dr (dp @ [nn]) u True = Inr b2"
      and lim: "limits (e_settings env) = Inr lim"
    have nn: "nn = name" and dot: "\<not> dot_name name" using n by (auto simp: validate_name_safe safe_not_dot)
    have src: "names_root env rid sr" "split_relative_path path False = Inr sp" "may_write env sr sp u"
      and dst: "write_request env ''modify_server_files'' dst_rid dst_path name u dr dp"
      using cap roots parts n allowed
      by (auto simp: write_request_def names_root_def may_write_def validate_name_safe)
    show "spec s (bind (open_regular_file env sr sp (\<lambda>src_fd source_stat.
              seq (require (st_size source_stat \<le> copy_bytes lim)
                    (sf_msg SfTooLarge ''The file exceeds the configured copy size limit.''))
              (bind fresh_uuid (\<lambda>hex.
              open_directory env dr dp (\<lambda>dst_dir_fd.
                publish dst_dir_fd (''.paxalia-copy-'' @ hex @ ''.part'') nn
                  (copy_body src_fd source_stat (copy_bytes lim))))))) (\<lambda>copied.
      ret (dr, join ''/'' (dp @ [nn]), copied))) (\<lambda>_. ?Q) ?E"
    proof (rule spec_bind[where R = "\<lambda>_. ?Q"], rule spec_open_regular_file[OF assms(1)])
      fix src sd i n t
      assume t: "reach s t" "same_fs s t" "os_fds t src = Some i" and ent: "names_entry s sr sp sd i"
        and i: "os_fs s i = Some n" "i_kind n = KFile"
      show "spec t (seq (require (st_size (stat_of i n) \<le> copy_bytes lim)
                    (sf_msg SfTooLarge ''The file exceeds the configured copy size limit.''))
              (bind fresh_uuid (\<lambda>hex. open_directory env dr dp (\<lambda>dst_dir_fd.
                publish dst_dir_fd (''.paxalia-copy-'' @ hex @ ''.part'') nn
                  (copy_body src (stat_of i n) (copy_bytes lim)))))) (\<lambda>_. ?Q) ?E"
      proof (rule spec_seq[OF spec_require[where Q = "\<lambda>_ v. v = t \<and> int (length (i_data n)) \<le> copy_bytes lim"]])
        fix v assume v: "v = t \<and> int (length (i_data n)) \<le> copy_bytes lim"
        show "spec v (bind fresh_uuid (\<lambda>hex. open_directory env dr dp (\<lambda>dst_dir_fd.
                publish dst_dir_fd (''.paxalia-copy-'' @ hex @ ''.part'') nn
                  (copy_body src (stat_of i n) (copy_bytes lim))))) (\<lambda>_. ?Q) ?E"
        proof (rule spec_bind[OF spec_fresh_uuid])
          show "ok v" using v t(1) by (simp add: reach_ok)
        next
          fix hex w assume w: "reach v w" "same_fs v w \<and> os_fds w = os_fds v"
          let ?temp = "''.paxalia-copy-'' @ hex @ ''.part''"
          have sw: "reach s w" and fsw: "same_fs s w" and fdw: "os_fds w src = Some i"
            using t v w by (auto intro: reach_trans)
          show "spec w (open_directory env dr dp (\<lambda>dst_dir_fd.
                publish dst_dir_fd ?temp nn (copy_body src (stat_of i n) (copy_bytes lim)))) (\<lambda>_. ?Q) ?E"
          proof (rule spec_open_directory[OF reach_ok[OF sw]])
            fix fd d x assume x: "reach w x" "same_fs w x" "os_fds x fd = Some d" "resolves w dr dp d"
            have d: "resolves s dr dp d" using x(4) sw fsw resolves_cong[of s w] by (simp add: reach_def)
            have ne: "i \<noteq> d" using d i by (auto simp: resolves_def is_kind_def)
            have temp: "temp_name ''copy-'' ?temp" by (auto simp: temp_name_def)
            have req: "copy_request env s rid path dst_rid dst_path name u n d"
              unfolding copy_request_def using src dst ent i lim v d by blast
            show "spec x (publish fd ?temp nn (copy_body src (stat_of i n) (copy_bytes lim))) (\<lambda>_. ?Q) ?E"
            proof (rule spec_mono[OF spec_publish[where P = "\<lambda>k bs. bs = i_data n \<and> k = int (length bs)" and f = "os_fs s" and d = d]])
              show "spec z (copy_body src (stat_of i n) (copy_bytes lim) fd')
                  (\<lambda>k y. \<exists>bs. (bs = i_data n \<and> k = int (length bs)) \<and> storing (os_fs s) d ?temp new bs y)
                  (\<lambda>y. \<exists>bs. storing (os_fs s) d ?temp new bs y)"
                if "reach x z" "os_fds z fd' = Some new" "os_pos z fd' = 0" "storing (os_fs s) d ?temp new [] z" for z fd' new
              proof (rule spec_copy_body[OF reach_ok[OF that(1)] that(2,3,4) _ i(1) ne])
                show "os_fds z src = Some i"
                  by (rule reach_fd[OF that(1) reach_ok[OF x(1)]]) (rule reach_fd[OF x(1) reach_ok[OF sw] fdw])
              qed
            next
              fix k y assume "published (os_fs s) d nn (\<lambda>bs. bs = i_data n \<and> k = int (length bs)) (os_fs y)"
              then have "published (os_fs s) d name (\<lambda>bs. bs = i_data n) (os_fs y)"
                using nn unfolding published_def by blast
              with req temp show "?Q y" by blast
            next
              fix y assume "remains (os_fs s) d ?temp nn (\<lambda>bs. \<exists>k. bs = i_data n \<and> k = int (length bs)) (os_fs y)"
              then have "remains (os_fs s) d ?temp name (\<lambda>bs. bs = i_data n) (os_fs y)"
                using nn unfolding remains_def by blast
              with req temp show "?E y" by blast
            qed (use x fsw nn dot in \<open>auto simp: dot_name_def dest: reach_ok\<close>)
          qed (use fsw in \<open>auto simp: closed_simps\<close>)
        qed
      qed (use t in \<open>auto simp: stat_of_def dest: reach_ok\<close>)
    next
      fix x v assume "?Q v"
      then show "?E v" by (rule QE)
    next
      fix x v assume "reach s v" "?Q v"
      then show "spec v (ret (dr, join ''/'' (dp @ [nn]), x)) (\<lambda>_. ?Q) ?E" by (intro spec_ret reach_ok)
    qed (simp_all add: closed_simps)
  qed auto
  note out = outcome[OF this assms(2)]
  show ?thesis
  proof (cases r)
    case (Inl e)
    with out show ?thesis by (simp; blast)
  next
    case (Inr x)
    with out show ?thesis by (simp; blast)
  qed
qed

theorem copy_all_or_nothing_witness:
  "let s = example_os [Quiet, Quiet, Short 3];
       t = snd (copy_file example_env (PStr ''root-0'') (PStr ''docs/a.txt'') (PStr ''root-0'') (PStr []) ''b.txt'' manager s)
   in \<exists>n d. copy_request example_env s (PStr ''root-0'') (PStr ''docs/a.txt'') (PStr ''root-0'') (PStr []) ''b.txt'' manager n d
        \<and> published (os_fs s) d ''b.txt'' (\<lambda>bs. bs = i_data n) (os_fs t)"
proof -
  let ?s = "example_os [Quiet, Quiet, Short 3]"
  let ?run = "copy_file example_env (PStr ''root-0'') (PStr ''docs/a.txt'') (PStr ''root-0'') (PStr []) ''b.txt'' manager ?s"
  have returns: "\<not> isl (fst ?run)" by code_simp
  have ok: "ok ?s" by (rule ok_example_os) simp
  obtain x where x: "fst ?run = Inr x" using returns by (cases "fst ?run") auto
  have run: "?run = (Inr x, snd ?run)" using x by (metis prod.collapse)
  from copy_all_or_nothing[OF ok run] show ?thesis unfolding Let_def by (simp; blast)
qed

section \<open>Deletion\<close>

lemma spec_safe_stat:
  assumes "ok s" "os_fds s fd = Some d"
  shows "spec s (safe_stat fd name)
    (\<lambda>st t. same_fs s t \<and> (\<exists>i n. fs_lookup (os_fs s) d name = Some i \<and> os_fs s i = Some n \<and> st = stat_of i n
       \<and> i_kind n \<noteq> KLink)) (same_fs s)"
  unfolding safe_stat_def
proof (rule spec_bind[OF spec_fs_call[OF spec_stat_at[OF assms]]])
  fix st t
  assume t: "reach s t" "same_fs s t \<and> (\<exists>i n. fs_lookup (os_fs s) d name = Some i \<and> os_fs s i = Some n \<and> st = stat_of i n)"
  show "spec t (seq (require (st_kind st \<noteq> KLink)
           (sf_msg SfDenied ''Symbolic links are not available through Server Files.'')) (ret st))
    (\<lambda>st t. same_fs s t \<and> (\<exists>i n. fs_lookup (os_fs s) d name = Some i \<and> os_fs s i = Some n \<and> st = stat_of i n
       \<and> i_kind n \<noteq> KLink)) (same_fs s)"
    by (rule spec_seq[OF spec_require[where Q = "\<lambda>_ u. u = t \<and> st_kind st \<noteq> KLink"]])
       (use t in \<open>auto intro!: spec_ret simp: stat_of_def dest: reach_ok\<close>)
qed

text \<open>What a deletion may remove: a regular file, or a directory without entries.\<close>

definition removable :: "fs \<Rightarrow> nat \<Rightarrow> bool" where
  "removable f i \<longleftrightarrow> is_kind f i KFile \<or> is_kind f i KDir \<and> entries f i = []"

definition delete_request :: "sf_env \<Rightarrow> os \<Rightarrow> pyval \<Rightarrow> pyval \<Rightarrow> user \<Rightarrow> string \<Rightarrow> nat \<Rightarrow> nat \<Rightarrow> bool" where
  "delete_request env s rid path u name d i \<longleftrightarrow> has_capability u ''delete_server_files'' = Inr True
     \<and> (\<exists>root parts. names_root env rid root \<and> split_relative_path path False = Inr parts \<and> may_write env root parts u
          \<and> names_entry s root parts d i \<and> name = last parts)"

lemma removed_entry:
  assumes "fs_lookup f d name = Some i" "f i = Some n"
    and "i_kind n = KDir \<and> fs_rmdir d name f = Inr g \<or> i_kind n = KFile \<and> fs_unlink d name f = Inr g"
  shows "removable f i \<and> g = del_entry name d f"
  using assms by (auto simp: removable_def fs_rmdir_def fs_unlink_def is_kind_def split: if_splits)

text \<open>C16: deleting removes at most one directory entry, the one the request names in a directory
  reached without following a link, and only when the policy allows it and the entry is a regular
  file or an empty directory. Every other entry and every file content stays; a normal return means
  that the entry was removed.\<close>

theorem delete_item_effect:
  assumes "ok s" "delete_item env rid path u s = (r, t)"
  shows "(\<exists>e. r = Inl e) \<and> os_fs t = os_fs s
    \<or> (\<exists>name d i. delete_request env s rid path u name d i \<and> removable (os_fs s) i
         \<and> os_fs t = del_entry name d (os_fs s))"
proof -
  let ?Q = "\<lambda>t. \<exists>name d i. delete_request env s rid path u name d i \<and> removable (os_fs s) i
         \<and> os_fs t = del_entry name d (os_fs s)"
  let ?E = "\<lambda>t. os_fs t = os_fs s \<or> ?Q t"
  have "spec s (delete_item env rid path u) (\<lambda>_. ?Q) ?E"
    unfolding delete_item_def
  proof (intro spec_require_capability spec_pure_guard assms(1))
    fix root parts b
    assume cap: "has_capability u ''delete_server_files'' = Inr True"
      and root: "get_root (get_roots (e_settings env) (e_host env)) rid = Inr root"
      and parts: "split_relative_path path False = Inr parts"
      and allowed: "assert_path_allowed (e_settings env) (e_host env) root parts u True = Inr b"
    show "spec s (seq (open_parent env root parts (\<lambda>parent_fd name.
             bind (safe_stat parent_fd name) (\<lambda>file_stat.
             on_os_error
               (seq (if st_kind file_stat = KDir then rmdir_at parent_fd name
                     else if st_kind file_stat = KFile then unlink_at parent_fd name
                     else raise (sf SfNotRegularFile))
                    (os_fsync parent_fd))
               (\<lambda>n. if n = ENOTEMPTY
                    then raise (sf_msg SfDenied ''Only empty directories can be deleted from Server Files.'')
                    else raise (filesystem_error n)))))
      (ret (root, join ''/'' parts))) (\<lambda>_. ?Q) ?E"
    proof (rule spec_seq[where R = ?Q], rule spec_open_parent[OF assms(1)])
      fix fd d t
      assume t: "reach s t" "same_fs s t" "os_fds t fd = Some d" "parts \<noteq> []" "resolves s root (butlast parts) d"
      let ?name = "last parts"
      show "spec t (bind (safe_stat fd ?name) (\<lambda>file_stat.
             on_os_error
               (seq (if st_kind file_stat = KDir then rmdir_at fd ?name
                     else if st_kind file_stat = KFile then unlink_at fd ?name
                     else raise (sf SfNotRegularFile))
                    (os_fsync fd))
               (\<lambda>n. if n = ENOTEMPTY
                    then raise (sf_msg SfDenied ''Only empty directories can be deleted from Server Files.'')
                    else raise (filesystem_error n)))) (\<lambda>_. ?Q) ?E"
      proof (rule spec_bind[OF spec_mono[OF spec_safe_stat[OF reach_ok[OF t(1)] t(3)]]])
        fix st v
        assume v: "reach t v" "same_fs s v \<and> (\<exists>i n. fs_lookup (os_fs s) d ?name = Some i \<and> os_fs s i = Some n \<and> st = stat_of i n)"
        then obtain i n where i: "fs_lookup (os_fs s) d ?name = Some i" "os_fs s i = Some n" "st = stat_of i n" by blast
        have req: "delete_request env s rid path u ?name d i"
          unfolding delete_request_def names_root_def may_write_def names_entry_def
          using cap root parts allowed t i by blast
        have fd: "os_fds v fd = Some d" by (rule reach_fd[OF v(1) reach_ok[OF t(1)] t(3)])
        have gone: "?Q w" if "i_kind n = KDir \<and> fs_rmdir d ?name (os_fs v) = Inr (os_fs w)
            \<or> i_kind n = KFile \<and> fs_unlink d ?name (os_fs v) = Inr (os_fs w)" for w
          using removed_entry[OF i(1,2), of "os_fs w"] that v(2) req by auto
        have "spec v (seq (if st_kind st = KDir then rmdir_at fd ?name
                     else if st_kind st = KFile then unlink_at fd ?name
                     else raise (sf SfNotRegularFile)) (os_fsync fd)) (\<lambda>_. ?Q) ?E"
        proof (rule spec_seq[where R = ?Q])
          have "spec v (rmdir_at fd ?name) (\<lambda>_. ?Q) ?E" if "i_kind n = KDir"
            by (rule spec_mono[OF spec_rmdir_at[OF reach_ok[OF v(1)] fd]]) (use v that gone in auto)
          moreover have "spec v (unlink_at fd ?name) (\<lambda>_. ?Q) ?E" if "i_kind n = KFile"
            by (rule spec_mono[OF spec_unlink_at[OF reach_ok[OF v(1)] fd]]) (use v that gone in auto)
          ultimately show "spec v (if st_kind st = KDir then rmdir_at fd ?name
                     else if st_kind st = KFile then unlink_at fd ?name
                     else raise (sf SfNotRegularFile)) (\<lambda>_. ?Q) ?E"
            using i(3) v by (auto simp: stat_of_def intro: spec_raise dest: reach_ok)
        next
          fix w assume w: "reach v w" "?Q w"
          show "spec w (os_fsync fd) (\<lambda>_. ?Q) ?E"
            by (rule spec_mono[OF spec_os_fsync[OF reach_ok[OF w(1)] reach_fd[OF w(1) reach_ok[OF v(1)] fd]]]) (use w in auto)
        qed
        then show "spec v (on_os_error
               (seq (if st_kind st = KDir then rmdir_at fd ?name
                     else if st_kind st = KFile then unlink_at fd ?name
                     else raise (sf SfNotRegularFile)) (os_fsync fd))
               (\<lambda>n. if n = ENOTEMPTY
                    then raise (sf_msg SfDenied ''Only empty directories can be deleted from Server Files.'')
                    else raise (filesystem_error n))) (\<lambda>_. ?Q) ?E"
          by (rule spec_on_os_error) (auto intro: spec_raise dest: reach_ok)
      qed (use t in auto)
    next
      fix v assume "reach s v" "?Q v"
      then show "spec v (ret (root, join ''/'' parts)) (\<lambda>_. ?Q) ?E" by (intro spec_ret reach_ok)
    qed (auto simp: closed_simps)
  qed auto
  from outcome[OF this assms(2)] show ?thesis by (cases r) auto
qed

theorem delete_item_effect_witness:
  "let s = example_os []; t = snd (delete_item example_env (PStr ''root-0'') (PStr ''docs/empty'') manager s)
   in \<exists>name d i. delete_request example_env s (PStr ''root-0'') (PStr ''docs/empty'') manager name d i
        \<and> removable (os_fs s) i \<and> os_fs t = del_entry name d (os_fs s)"
proof -
  let ?run = "delete_item example_env (PStr ''root-0'') (PStr ''docs/empty'') manager (example_os [])"
  have returns: "\<not> isl (fst ?run)" by code_simp
  have ok: "ok (example_os [])" by (rule ok_example_os) simp
  obtain x where x: "fst ?run = Inr x" using returns by (cases "fst ?run") auto
  have run: "?run = (Inr x, snd ?run)" using x by (metis prod.collapse)
  from delete_item_effect[OF ok run] show ?thesis unfolding Let_def by simp
qed

section \<open>Renaming and moving\<close>

definition move_request ::
  "sf_env \<Rightarrow> os \<Rightarrow> pyval \<Rightarrow> pyval \<Rightarrow> pyval \<Rightarrow> pyval \<Rightarrow> string \<Rightarrow> user \<Rightarrow> string \<Rightarrow> nat \<Rightarrow> nat \<Rightarrow> nat \<Rightarrow> bool"
where
  "move_request env s rid path dst_rid dst_path name u src_name sd i dd \<longleftrightarrow>
     (\<exists>root parts. names_root env rid root \<and> split_relative_path path False = Inr parts \<and> may_write env root parts u
        \<and> names_entry s root parts sd i \<and> src_name = last parts)
     \<and> (\<exists>root parts. write_request env ''modify_server_files'' dst_rid dst_path name u root parts \<and> resolves s root parts dd)"

definition moved :: "fs \<Rightarrow> string \<Rightarrow> nat \<Rightarrow> nat \<Rightarrow> nat \<Rightarrow> string \<Rightarrow> fs \<Rightarrow> bool" where
  "moved f src_name sd i dd name g \<longleftrightarrow> (is_kind f i KFile \<or> is_kind f i KDir) \<and> fs_lookup f dd name = None
     \<and> g = set_parent dd i (add_entry name i dd (del_entry src_name sd f))"

lemma renamed_moved:
  assumes "fs_rename_noreplace n sd src_name dd name f = Inr g" "fs_lookup f sd src_name = Some i"
    and "is_kind f i KFile \<or> is_kind f i KDir"
  shows "moved f src_name sd i dd name g"
  using assms by (auto simp: moved_def fs_rename_noreplace_def split: if_splits)

lemma spec_rename_noreplace:
  assumes "ok s" "os_fds s sfd = Some sd" "os_fds s dfd = Some dd"
  shows "spec s (rename_noreplace env sfd sname dfd dname)
    (\<lambda>_ t. \<exists>n. fs_rename_noreplace n sd sname dd dname (os_fs s) = Inr (os_fs t)) (\<lambda>t. os_fs t = os_fs s)"
  unfolding rename_noreplace_def
proof (rule spec_seq[OF spec_require[where Q = "\<lambda>_ t. t = s"]], use assms(1) in simp_all,
    rule spec_seq[OF spec_require[where Q = "\<lambda>_ t. t = s"]], use assms(1) in simp_all)
  let ?Q = "\<lambda>_ t. \<exists>n. fs_rename_noreplace n sd sname dd dname (os_fs s) = Inr (os_fs t)"
  show "spec s (on_os_error (renameat2_noreplace sfd sname dfd dname) (\<lambda>n.
       if n = EEXIST then raise (sf SfAlreadyExists)
       else if n = EXDEV \<or> n = EINVAL \<or> n = ENOSYS \<or> n = EOPNOTSUPP
       then raise (sf_msg SfDenied ''The filesystem cannot perform this safe move.'')
       else raise (filesystem_error n))) ?Q (\<lambda>t. os_fs t = os_fs s)"
    by (rule spec_on_os_error[OF spec_rename[OF assms]]) (auto intro: spec_raise dest: reach_ok)
qed

text \<open>C17: renaming or moving never replaces anything. Either the file system is unchanged, or the
  policy allows both ends, the destination name was free, and the only change is that the named
  regular file or directory is now under the destination name instead of the source name, with its
  inode and so its content untouched. A normal return means that it moved.\<close>

theorem rename_or_move_effect:
  assumes "ok s" "rename_or_move env rid path dst_rid dst_path name u s = (r, t)"
  shows "(\<exists>e. r = Inl e) \<and> os_fs t = os_fs s
    \<or> (\<exists>src_name sd i dd. move_request env s rid path dst_rid dst_path name u src_name sd i dd
         \<and> moved (os_fs s) src_name sd i dd name (os_fs t))"
proof -
  let ?Q = "\<lambda>t. \<exists>src_name sd i dd. move_request env s rid path dst_rid dst_path name u src_name sd i dd
         \<and> moved (os_fs s) src_name sd i dd name (os_fs t)"
  let ?E = "\<lambda>t. os_fs t = os_fs s \<or> ?Q t"
  have "spec s (rename_or_move env rid path dst_rid dst_path name u) (\<lambda>_. ?Q) ?E"
    unfolding rename_or_move_def
  proof (intro spec_require_capability spec_pure_guard assms(1))
    fix sr dr sp dp nn b1 b2
    assume cap: "has_capability u ''modify_server_files'' = Inr True"
      and roots: "get_root (get_roots (e_settings env) (e_host env)) rid = Inr sr"
        "get_root (get_roots (e_settings env) (e_host env)) dst_rid = Inr dr"
      and parts: "split_relative_path path False = Inr sp" "split_relative_path dst_path True = Inr dp"
      and n: "validate_name name = Inr nn"
      and allowed: "assert_path_allowed (e_settings env) (e_host env) sr sp u True = Inr b1"
        "assert_path_allowed (e_settings env) (e_host env) dr (dp @ [nn]) u True = Inr b2"
    have nn: "nn = name" using n by (simp add: validate_name_safe)
    have src: "names_root env rid sr" "split_relative_path path False = Inr sp" "may_write env sr sp u"
      and dst: "write_request env ''modify_server_files'' dst_rid dst_path name u dr dp"
      using cap roots parts n allowed
      by (auto simp: write_request_def names_root_def may_write_def validate_name_safe)
    let ?body = "\<lambda>src_fd src_name st. open_directory env dr dp (\<lambda>dst_fd.
                fs_call (seq (rename_noreplace env src_fd src_name dst_fd nn)
                  (seq (os_fsync src_fd) (whenever (dst_fd \<noteq> src_fd) (os_fsync dst_fd)))))"
    let ?g1 = "\<lambda>st. require (st_kind st = KFile \<or> st_kind st = KDir) (sf SfNotRegularFile)"
    let ?g2 = "\<lambda>st. require (\<not> (st_kind st = KDir \<and> root_id sr = root_id dr
                       \<and> length dp \<ge> length sp \<and> take (length sp) dp = sp))
                    (sf_msg SfInvalidPath ''A directory cannot be moved into itself or one of its descendants.'')"
    show "spec s (seq (open_parent env sr sp (\<lambda>src_fd src_name. bind (safe_stat src_fd src_name) (\<lambda>st.
             seq (?g1 st) (seq (?g2 st) (?body src_fd src_name st)))))
          (ret (dr, join ''/'' (dp @ [nn]), join ''/'' sp))) (\<lambda>_. ?Q) ?E"
    proof (rule spec_seq[where R = ?Q], rule spec_open_parent[OF assms(1)])
      fix fd sd t
      assume t: "reach s t" "same_fs s t" "os_fds t fd = Some sd" "sp \<noteq> []" "resolves s sr (butlast sp) sd"
      show "spec t (bind (safe_stat fd (last sp)) (\<lambda>st. seq (?g1 st) (seq (?g2 st) (?body fd (last sp) st)))) (\<lambda>_. ?Q) ?E"
      proof (rule spec_bind[OF spec_mono[OF spec_safe_stat[OF reach_ok[OF t(1)] t(3)]]])
        fix st v
        assume v: "reach t v" "same_fs s v \<and> (\<exists>i n. fs_lookup (os_fs s) sd (last sp) = Some i \<and> os_fs s i = Some n \<and> st = stat_of i n)"
        then obtain i n where i: "fs_lookup (os_fs s) sd (last sp) = Some i" "os_fs s i = Some n" "st = stat_of i n" by blast
        have sv: "reach s v" by (rule reach_trans[OF t(1) v(1)])
        have fd: "os_fds v fd = Some sd" by (rule reach_fd[OF v(1) reach_ok[OF t(1)] t(3)])
        show "spec v (seq (?g1 st) (seq (?g2 st) (?body fd (last sp) st))) (\<lambda>_. ?Q) ?E"
        proof (rule spec_seq[OF spec_require[where Q = "\<lambda>_ w. w = v \<and> (i_kind n = KFile \<or> i_kind n = KDir)"]])
          fix w assume w: "w = v \<and> (i_kind n = KFile \<or> i_kind n = KDir)"
          have kind: "is_kind (os_fs s) i KFile \<or> is_kind (os_fs s) i KDir" using w i by (simp add: is_kind_def)
          show "spec w (seq (?g2 st) (?body fd (last sp) st)) (\<lambda>_. ?Q) ?E"
          proof (rule spec_seq[OF spec_require[where Q = "\<lambda>_ x. x = v"]])
            fix x assume x: "x = v"
            show "spec x (?body fd (last sp) st) (\<lambda>_. ?Q) ?E"
              unfolding x
            proof (rule spec_open_directory[OF reach_ok[OF sv]])
              fix dfd dd y assume y: "reach v y" "same_fs v y" "os_fds y dfd = Some dd" "resolves v dr dp dd"
              have dd: "resolves s dr dp dd" using y(4) sv v(2) resolves_cong[of s v] by (simp add: reach_def)
              have req: "move_request env s rid path dst_rid dst_path name u (last sp) sd i dd"
                unfolding move_request_def names_entry_def using src dst dd t i by blast
              have fdy: "os_fds z fd = Some sd" "os_fds z dfd = Some dd" if "reach y z" for z
                using reach_fd[OF that reach_ok[OF y(1)] reach_fd[OF y(1) reach_ok[OF sv] fd]]
                  reach_fd[OF that reach_ok[OF y(1)] y(3)] by auto
              show "spec y (fs_call (seq (rename_noreplace env fd (last sp) dfd nn)
                  (seq (os_fsync fd) (whenever (dfd \<noteq> fd) (os_fsync dfd))))) (\<lambda>_. ?Q) ?E"
              proof (rule spec_fs_call, rule spec_seq[where R = ?Q])
                show "spec y (rename_noreplace env fd (last sp) dfd nn) (\<lambda>_. ?Q) ?E"
                proof (rule spec_mono[OF spec_rename_noreplace[OF reach_ok[OF y(1)] fdy(1) y(3)]])
                  show "reach y y" using y(1) by (simp add: reach_ok)
                next
                  fix z assume "\<exists>n. fs_rename_noreplace n sd (last sp) dd nn (os_fs y) = Inr (os_fs z)"
                  then have "moved (os_fs s) (last sp) sd i dd name (os_fs z)"
                    using renamed_moved[OF _ i(1) kind] y(2) v(2) nn by auto
                  with req show "?Q z" by blast
                next
                  fix z assume "os_fs z = os_fs y"
                  then show "?E z" using y(2) v(2) by simp
                qed
              next
                fix z assume z: "reach y z" "?Q z"
                show "spec z (seq (os_fsync fd) (whenever (dfd \<noteq> fd) (os_fsync dfd))) (\<lambda>_. ?Q) ?E"
                proof (rule spec_seq[OF spec_mono[OF spec_os_fsync[OF reach_ok[OF z(1)] fdy(1)[OF z(1)]]]])
                  fix a assume a: "reach z a" "?Q a"
                  have ya: "reach y a" by (rule reach_trans[OF z(1) a(1)])
                  show "spec a (whenever (dfd \<noteq> fd) (os_fsync dfd)) (\<lambda>_. ?Q) ?E"
                    by (rule spec_whenever, use a in \<open>simp add: reach_ok\<close>,
                        rule spec_mono[OF spec_os_fsync[OF reach_ok[OF a(1)] fdy(2)[OF ya]]]) (use a in auto)
                qed (use z in auto)
              qed
            qed (use v in \<open>auto simp: closed_simps\<close>)
          qed (use v w in \<open>auto dest: reach_ok\<close>)
        qed (use v i in \<open>auto simp: stat_of_def dest: reach_ok\<close>)
      qed (use t in auto)
    next
      fix v assume "reach s v" "?Q v"
      then show "spec v (ret (dr, join ''/'' (dp @ [nn]), join ''/'' sp)) (\<lambda>_. ?Q) ?E" by (intro spec_ret reach_ok)
    qed (auto simp: closed_simps)
  qed auto
  from outcome[OF this assms(2)] show ?thesis by (cases r) auto
qed

theorem rename_or_move_effect_witness:
  "let s = example_os [];
       t = snd (rename_or_move example_env (PStr ''root-0'') (PStr ''docs/a.txt'') (PStr ''root-0'') PNone ''b.txt'' manager s)
   in \<exists>src_name sd i dd. move_request example_env s (PStr ''root-0'') (PStr ''docs/a.txt'') (PStr ''root-0'') PNone ''b.txt'' manager src_name sd i dd
        \<and> moved (os_fs s) src_name sd i dd ''b.txt'' (os_fs t)"
proof -
  let ?run = "rename_or_move example_env (PStr ''root-0'') (PStr ''docs/a.txt'') (PStr ''root-0'') PNone ''b.txt'' manager (example_os [])"
  have returns: "\<not> isl (fst ?run)" by code_simp
  have ok: "ok (example_os [])" by (rule ok_example_os) simp
  obtain x where x: "fst ?run = Inr x" using returns by (cases "fst ?run") auto
  have run: "?run = (Inr x, snd ?run)" using x by (metis prod.collapse)
  from rename_or_move_effect[OF ok run] show ?thesis unfolding Let_def by simp
qed

end
