(* ===== verification/Server_Files_Reads.thy ===== *)
theory Server_Files_Reads
  imports Server_Files_Props
begin

text \<open>
  Listing and downloading: what a listing shows and that its pages tile it, that reading changes
  nothing, and the byte bound of the download reader. The locale \<open>byte_source\<close> is the contract of
  the stream below the reader.
\<close>

section \<open>What a listing shows\<close>




lemma entry_record_simps [simp]:
  "er_name (entry_record env name st rid parts) = name"
  "er_path (entry_record env name st rid parts) = join ''/'' (parts @ [name])"
  by (simp_all add: entry_record_def Let_def)









definition plain_query :: list_query where
  "plain_query = \<lparr>q_page = PInt 1, q_search = PNone, q_sort_by = ''name'', q_direction = ''desc'', q_show_hidden = False,
     q_show_sensitive = False\<rparr>"

lemma example_listing:
  "case fst (list_directory example_env (PStr ''root-0'') (PStr ''docs'') manager plain_query (example_os [])) of
     Inr ls \<Rightarrow> map er_name (ls_items ls) = [''a.txt'', ''empty''] \<and> ls_page_count ls = 1 \<and> ls_total ls = 2
   | Inl e \<Rightarrow> False"
  by code_simp


section \<open>Pages\<close>

text \<open>Consecutive pieces of \<open>n\<close> elements.\<close>

lemma concat_pieces:
  "concat (map (\<lambda>k. take n (drop (k * n) xs)) [0..<m]) = take (m * n) xs"
  by (induction m) (auto simp: take_add[symmetric] add.commute)

lemma list_directory_page:
  assumes "list_directory env rid path u q s = (Inr ls, t)"
  shows "\<exists>root parts n items tr. 1 \<le> n \<and> (\<forall>p. list_directory env rid path u (q\<lparr>q_page := p\<rparr>) s
    = (Inr (make_listing env root parts n (q\<lparr>q_page := p\<rparr>) items tr), t))"
proof -
  obtain root parts b lim items tr where *:
    "has_capability u ''view_server_files'' = Inr True"
    "get_root (get_roots (e_settings env) (e_host env)) rid = Inr root"
    "split_relative_path path True = Inr parts"
    "assert_path_allowed (e_settings env) (e_host env) root parts u False = Inr b"
    "limits (e_settings env) = Inr lim"
    "open_directory env root parts (\<lambda>fd. fs_call (bind (scandir fd) (\<lambda>names.
        scan_entries env root parts fd
          (entry_visible env root parts u (search_text q) (q_show_hidden q \<and> allow_hidden env) (q_show_sensitive q))
          (scan_limit lim) 0 names))) s = (Inr (items, tr), t)"
    using assms
    by (auto simp: list_directory_def require_capability_def require_def seq_def bind_def lift_def ret_def raise_def
        split: prod.splits sum.splits if_splits)
  have "search_text (q\<lparr>q_page := p\<rparr>) = search_text q" for p by (simp add: search_text_def)
  with * have "list_directory env rid path u (q\<lparr>q_page := p\<rparr>) s
      = (Inr (make_listing env root parts (page_size lim) (q\<lparr>q_page := p\<rparr>) items tr), t)" for p
    by (simp add: list_directory_def require_capability_def require_def seq_def bind_def lift_def ret_def)
  then show ?thesis using limits_page_size[OF *(5)] by blast
qed

lemma page_of_listing:
  assumes "1 \<le> n" "1 \<le> p" "p \<le> ls_page_count (make_listing env root parts n q items tr)"
  shows "ls_items (make_listing env root parts n (q\<lparr>q_page := PInt p\<rparr>) items tr)
    = take (nat n) (drop (nat (p - 1) * nat n) (sorted_items q items))"
proof -
  have q: "sorted_items (q\<lparr>q_page := PInt p\<rparr>) items = sorted_items q items"
    by (simp add: sorted_items_def sort_column_def)
  have "nat ((p - 1) * n) = nat (p - 1) * nat n" using assms(2) by (simp add: nat_mult_distrib)
  with assms q show ?thesis by (simp add: make_listing_def Let_def page_number_def)
qed

lemma ceil_pages:
  assumes "1 \<le> n"
  shows "length xs \<le> nat (max 1 ((int (length xs) + n - 1) div n)) * nat n"
proof -
  have "int (length xs) \<le> ((int (length xs) + n - 1) div n) * n"
    using assms by (smt (verit) minus_div_mult_eq_mod pos_mod_bound)
  also have "\<dots> \<le> max 1 ((int (length xs) + n - 1) div n) * n"
    using assms by (intro mult_right_mono) auto
  finally have "int (length xs) \<le> int (nat (max 1 ((int (length xs) + n - 1) div n)) * nat n)" using assms by simp
  then show ?thesis by (simp only: of_nat_le_iff)
qed

text \<open>Paging loses and repeats nothing: the pages 1, 2, ... up to the reported page count, asked
  one after the other of the same directory, are together the complete sorted listing; its length is
  the reported total.\<close>

theorem pages_tile_listing:
  assumes "list_directory env rid path u q s = (Inr ls, t)"
  shows "\<exists>all. concat (map (\<lambda>p. ls_items (projr (fst (list_directory env rid path u (q\<lparr>q_page := PInt (int p)\<rparr>) s))))
        [1..<Suc (nat (ls_page_count ls))]) = all
      \<and> int (length all) = ls_total ls
      \<and> (ls_direction ls = ''asc'' \<longrightarrow> sorted (map (entry_sort_key (ls_sort_by ls)) all))"
proof -
  obtain root parts n items tr where n: "1 \<le> n"
    and run: "\<And>p. list_directory env rid path u (q\<lparr>q_page := p\<rparr>) s
      = (Inr (make_listing env root parts n (q\<lparr>q_page := p\<rparr>) items tr), t)"
    using list_directory_page[OF assms] by blast
  have "q\<lparr>q_page := q_page q\<rparr> = q" by simp
  with run[of "q_page q"] assms have ls: "ls = make_listing env root parts n q items tr" by simp
  let ?xs = "sorted_items q items"
  let ?m = "nat (ls_page_count ls)"
  have cnt: "ls_page_count ls = max 1 ((int (length ?xs) + n - 1) div n)" by (simp add: ls make_listing_def Let_def)
  have page: "ls_items (projr (fst (list_directory env rid path u (q\<lparr>q_page := PInt (int p)\<rparr>) s)))
      = take (nat n) (drop ((p - 1) * nat n) ?xs)" if "p \<in> set [1..<Suc ?m]" for p
  proof -
    have "int p \<le> ls_page_count ls" "1 \<le> int p" using that cnt by auto
    then show ?thesis
      using page_of_listing[OF n, of "int p" env root parts q items tr] run[of "PInt (int p)"] ls
      by (simp add: nat_diff_distrib)
  qed
  have "map (\<lambda>p. ls_items (projr (fst (list_directory env rid path u (q\<lparr>q_page := PInt (int p)\<rparr>) s)))) [1..<Suc ?m]
      = map (\<lambda>p. take (nat n) (drop ((p - 1) * nat n) ?xs)) [1..<Suc ?m]"
    by (rule map_cong[OF refl]) (rule page)
  also have "\<dots> = map (\<lambda>k. take (nat n) (drop (k * nat n) ?xs)) [0..<?m]"
    by (simp add: map_Suc_upt[symmetric] del: upt_Suc)
  finally have "concat (map (\<lambda>p. ls_items (projr (fst (list_directory env rid path u (q\<lparr>q_page := PInt (int p)\<rparr>) s))))
      [1..<Suc ?m]) = take (?m * nat n) ?xs"
    by (simp only: concat_pieces)
  also have "\<dots> = ?xs" using ceil_pages[OF n, of ?xs] cnt by simp
  finally show ?thesis
    by (auto simp: ls make_listing_def Let_def sorted_items_def py_sort_def)
qed

theorem pages_tile_listing_witness:
  "\<exists>all. length all = 2 \<and> concat (map (\<lambda>p. ls_items (projr (fst (list_directory example_env (PStr ''root-0'') (PStr ''docs'')
        manager (plain_query\<lparr>q_page := PInt (int p)\<rparr>) (example_os []))))) [1..<Suc 1]) = all"
proof -
  let ?run = "list_directory example_env (PStr ''root-0'') (PStr ''docs'') manager plain_query (example_os [])"
  note meta = example_listing
  obtain x where x: "fst ?run = Inr x" using meta by (cases "fst ?run") auto
  have run: "?run = (Inr x, snd ?run)" using x by (metis prod.collapse)
  from pages_tile_listing[OF run] meta x show ?thesis by auto
qed

section \<open>The download reader\<close>

text \<open>Any sequence of requests, each for some bytes or for everything.\<close>

fun reads :: "(nat \<Rightarrow> ('s, string) io) \<Rightarrow> int option list \<Rightarrow> nat \<Rightarrow> ('s, string) io" where
  "reads wread [] left = ret []"
| "reads wread (sz # szs) left = bind (reader_read wread sz left) (\<lambda>(chunk, left').
     bind (reads wread szs left') (\<lambda>rest. ret (chunk @ rest)))"

text \<open>The contract of a stream: it never returns more bytes than asked.\<close>

locale byte_source =
  fixes wread :: "nat \<Rightarrow> ('s, string) io"
  assumes at_most: "wp (wread n) (\<lambda>bs _. length bs \<le> n) (\<lambda>_ _. True) s"
begin

lemma read_bounded:
  "wp (reader_read wread sz left) (\<lambda>(chunk, left') _. length chunk + left' = left) (\<lambda>_ _. True) s"
proof (cases "left = 0")
  case False
  define n where "n = (case sz of None \<Rightarrow> left | Some k \<Rightarrow> if k < 0 \<or> k > int left then left else nat k)"
  have n: "n \<le> left" by (auto simp: n_def split: option.splits)
  have "wp (wread n) (\<lambda>bs t. wp (ret (bs, left - length bs)) (\<lambda>(chunk, left') _. length chunk + left' = left) (\<lambda>_ _. True) t)
      (\<lambda>_ _. True) s"
    by (rule wp_mono[OF at_most]) (use n in \<open>auto simp: wp_simps\<close>)
  with False show ?thesis by (simp add: reader_read_def n_def[symmetric] Let_def wp_bind)
qed (simp add: reader_read_def wp_simps)

lemma reads_bounded: "wp (reads wread szs left) (\<lambda>bs _. length bs \<le> left) (\<lambda>_ _. True) s"
proof (induction szs arbitrary: left s)
  case (Cons sz szs)
  show ?case
    unfolding reads.simps wp_bind
  proof (rule wp_mono[OF read_bounded])
    fix p :: "string \<times> nat" and t :: 's
    assume p: "(case p of (chunk, left') \<Rightarrow> \<lambda>_. length chunk + left' = left) t"
    obtain chunk left' where eq: "p = (chunk, left')" by (cases p)
    have "wp (reads wread szs left') (\<lambda>rest t. wp (ret (chunk @ rest)) (\<lambda>bs _. length bs \<le> left) (\<lambda>_ _. True) t) (\<lambda>_ _. True) t"
      by (rule wp_mono[OF Cons.IH]) (use p eq in \<open>auto simp: wp_simps\<close>)
    then show "wp (case p of (chunk, left') \<Rightarrow> bind (reads wread szs left') (\<lambda>rest. ret (chunk @ rest)))
        (\<lambda>bs _. length bs \<le> left) (\<lambda>_ _. True) t"
      by (simp add: eq wp_bind)
  qed auto
qed (simp add: wp_simps)

end

text \<open>A descriptor of the kernel is such a stream.\<close>

lemma os_read_at_most: "wp (os_read fd (int n)) (\<lambda>bs _. length bs \<le> n) (\<lambda>_ _. True) s"
  by (auto simp: wp_def os_read_def syscall_def next_event_def bind_def fd_inode_def Let_def take_int_def min_def
      split: list.splits event.splits option.splits prod.splits sum.splits)

interpretation fd_source: byte_source "\<lambda>n. os_read fd (int n)" for fd
  by unfold_locales (rule os_read_at_most)

text \<open>However often and with whatever sizes a download is read, and however the file grows or
  changes under other processes meanwhile, the reader returns in total at most the number of bytes
  that was authorised when it was opened.\<close>

theorem download_reader_bounded:
  assumes "reads (\<lambda>n. os_read fd (int n)) szs (reader_limit byte_limit) s = (Inr bs, t)"
  shows "int (length bs) \<le> max 0 byte_limit"
  using fd_source.reads_bounded[of fd szs "reader_limit byte_limit" s] assms
  by (auto simp: wp_def reader_limit_def)

text \<open>The file behind the descriptor grows from five to seven bytes between the two reads.\<close>

theorem download_reader_bounded_witness:
  "let s = (example_os [Quiet, Interfere (set_data ''hello!!'' 1 4)])\<lparr>os_fds := [7 \<mapsto> 4]\<rparr>;
       r = reads (\<lambda>n. os_read 7 (int n)) [Some 2, None] (reader_limit 5) s
   in fst r = Inr ''hello'' \<and> length ''hello'' \<le> nat (max 0 5)"
proof -
  let ?s = "(example_os [Quiet, Interfere (set_data ''hello!!'' 1 4)])\<lparr>os_fds := [7 \<mapsto> 4]\<rparr>"
  let ?r = "reads (\<lambda>n. os_read 7 (int n)) [Some 2, None] (reader_limit 5) ?s"
  have fst: "fst ?r = Inr ''hello''" by code_simp
  then have run: "?r = (Inr ''hello'', snd ?r)" by (metis prod.collapse)
  from download_reader_bounded[OF run] fst show ?thesis unfolding Let_def by simp
qed

end
