(* ===== verification/Server_Files_Web.thy ===== *)
theory Server_Files_Web
  imports Server_Files Cache
begin

text \<open>
  The HTTP side of Server Files: the request-size middleware (\<open>server_files/middleware.py\<close>), the
  operation history (\<open>server_files/audit.py\<close>, \<open>models.ServerFileOperation\<close>) and the views that
  change files (\<open>server_files/views.py\<close>): rate limiting, re-authentication, audited permission
  checks and \<open>server_files_operation\<close>. The mirror to the security log and the failure alert are
  non-fatal side channels and are left out. A database write takes its outcome from the schedule
  \<open>w_db\<close> (\<open>True\<close> means that it raises).
\<close>

section \<open>Request size\<close>

datatype resp = Passed | Page nat | ReauthRedirect | Done

text \<open>\<open>int(request.META.get("CONTENT_LENGTH"))\<close>; a missing header is \<open>None\<close>.\<close>

definition check_length :: "pyval \<Rightarrow> int \<Rightarrow> resp option" where
  "check_length raw maximum =
     (case py_int raw of
        Inl _ \<Rightarrow> Some (Page 411)
      | Inr content_length \<Rightarrow>
          if content_length < 0 then Some (Page 411)
          else if content_length > maximum then Some (Page 413) else None)"

definition slash :: "char \<Rightarrow> bool" where
  "slash c \<longleftrightarrow> c = CHR ''/''"

definition limit_middleware :: "settings \<Rightarrow> string \<Rightarrow> string \<Rightarrow> pyval \<Rightarrow> resp res" where
  "limit_middleware st http_method path_info raw_length =
     (let path = rstrip_by slash path_info in
      if http_method = ''POST'' \<and> is_enabled st then
        (if ends_with path ''/server-files/operation'' then
           (case limits st of
              Inl (ServerFiles k m) \<Rightarrow> Inr (Page 503)
            | Inl e \<Rightarrow> Inl e
            | Inr l \<Rightarrow> Inr (case check_length raw_length (upload_bytes l + 1024 * 1024) of Some r \<Rightarrow> r | None \<Rightarrow> Passed))
         else if ends_with path ''/server-files/reauth'' then
           Inr (case check_length raw_length 8192 of Some r \<Rightarrow> r | None \<Rightarrow> Passed)
         else Inr Passed)
      else Inr Passed)"

section \<open>State\<close>

record op_row =
  ro_actor :: "int option"
  ro_operation :: string
  ro_root_id :: string
  ro_path :: string
  ro_target_root_id :: string
  ro_target_path :: string
  ro_status :: string
  ro_error_code :: string
  ro_request_id :: string
  ro_finished_at :: "int option"

text \<open>The stamp a session holds: nothing, a text that does not parse as a time, or a time.\<close>

datatype stamp = NoStamp | BadStamp | StampAt int

record 'c web =
  w_os :: os
  w_rows :: "op_row list"
  w_db :: "bool list"
  w_cache :: 'c
  w_now :: int
  w_reauth :: stamp

type_synonym ('c, 'a) wio = "('c web, 'a) io"

record sf_upload = uploaded +
  up_name :: string

record sf_request =
  rq_user :: user
  rq_address :: string
  rq_request_id :: string
  rq_operation :: string
  rq_root :: string
  rq_path :: string
  rq_target_root :: string
  rq_target_path :: string
  rq_name :: string
  rq_file :: "sf_upload option"

definition on_os :: "'a osio \<Rightarrow> ('c, 'a) wio" where
  "on_os m w = (case m (w_os w) of (r, s) \<Rightarrow> (r, w\<lparr>w_os := s\<rparr>))"

definition on_cache :: "('c, 'a) io \<Rightarrow> ('c, 'a) wio" where
  "on_cache m w = (case m (w_cache w) of (r, c) \<Rightarrow> (r, w\<lparr>w_cache := c\<rparr>))"

definition db_write :: "('c web \<Rightarrow> 'c web) \<Rightarrow> ('c, unit) wio" where
  "db_write f w =
     (case w_db w of
        [] \<Rightarrow> (Inr (), f w)
      | fails # r \<Rightarrow> if fails then (Inl DatabaseError, w\<lparr>w_db := r\<rparr>) else (Inr (), f (w\<lparr>w_db := r\<rparr>)))"

section \<open>Operation history\<close>

definition audit_path :: "settings \<Rightarrow> string \<Rightarrow> bool \<Rightarrow> string res" where
  "audit_path st path force_redact =
     (if force_redact then Inr ''[protected]''
      else case split_relative_path (PStr path) True of
             Inl _ \<Rightarrow> Inr ''[invalid]''
           | Inr parts \<Rightarrow> bind_res (is_sensitive st parts) (\<lambda>sensitive.
               Inr (if sensitive then ''[protected]'' else take 1024 (join ''/'' parts))))"

definition request_id_char :: "char \<Rightarrow> bool" where
  "request_id_char c \<longleftrightarrow> (let n = code c in 48 \<le> n \<and> n \<le> 57 \<or> 65 \<le> n \<and> n \<le> 90 \<or> 97 \<le> n \<and> n \<le> 122
     \<or> c \<in> {CHR ''.'', CHR ''_'', CHR '':'', CHR ''-''})"

definition request_id :: "sf_request \<Rightarrow> string" where
  "request_id rq = (let v = strip (rq_request_id rq) in
     if 1 \<le> length v \<and> length v \<le> 128 \<and> list_all request_id_char v then v else [])"

text \<open>\<open>begin_operation\<close> returns the position of the new row.\<close>

definition begin_operation ::
  "settings \<Rightarrow> sf_request \<Rightarrow> string \<Rightarrow> string \<Rightarrow> string \<Rightarrow> string \<Rightarrow> string \<Rightarrow> bool \<Rightarrow> bool \<Rightarrow> ('c, nat option) wio"
where
  "begin_operation st rq operation rid path target_rid target_path force_redact required =
     catch
       (bind (lift (audit_path st path force_redact)) (\<lambda>p.
        bind (lift (audit_path st target_path force_redact)) (\<lambda>tp.
        bind (gets (\<lambda>w. length (w_rows w))) (\<lambda>index.
        seq (db_write (\<lambda>w. w\<lparr>w_rows := w_rows w @
               [\<lparr>ro_actor = (if u_authenticated (rq_user rq) then Some (u_id (rq_user rq)) else None),
                 ro_operation = operation, ro_root_id = take 64 rid, ro_path = p,
                 ro_target_root_id = take 64 target_rid, ro_target_path = tp, ro_status = ''started'',
                 ro_error_code = [], ro_request_id = request_id rq, ro_finished_at = None\<rparr>]\<rparr>))
        (ret (Some index))))))
       (\<lambda>_. if required then raise (sf SfAuditUnavailable) else ret None)"

definition finish_operation :: "nat option \<Rightarrow> string \<Rightarrow> string \<Rightarrow> ('c, unit) wio" where
  "finish_operation record status error_code =
     (case record of
        None \<Rightarrow> ret ()
      | Some i \<Rightarrow> catch
          (db_write (\<lambda>w. w\<lparr>w_rows := (w_rows w)[i := (w_rows w ! i)
             \<lparr>ro_status := status, ro_error_code := take 64 error_code, ro_finished_at := Some (w_now w)\<rparr>]\<rparr>))
          (\<lambda>_. ret ()))"

section \<open>Guards of the views\<close>

definition sensitive_path :: "settings \<Rightarrow> string \<Rightarrow> bool res" where
  "sensitive_path st path =
     (case bind_res (split_relative_path (PStr path) True) (is_sensitive st) of
        Inl (ServerFiles k m) \<Rightarrow> Inr False
      | r \<Rightarrow> r)"

definition has_recent_reauth :: "settings \<Rightarrow> ('c, bool) wio" where
  "has_recent_reauth st w =
     (Inr (case w_reauth w of
             NoStamp \<Rightarrow> False
           | BadStamp \<Rightarrow> False
           | StampAt t \<Rightarrow>
               (case py_int (cfg_get st ''BACKUP_REAUTH_MINUTES'' (PInt 15)) of
                  Inl _ \<Rightarrow> False
                | Inr minutes \<Rightarrow> if minutes \<le> 0 \<or> minutes > 1440 then False else w_now w \<le> t + minutes * 60)), w)"

definition sf_rate_key :: "(string \<Rightarrow> string) \<Rightarrow> sf_request \<Rightarrow> string \<Rightarrow> string" where
  "sf_rate_key sha rq action =
     ''paxalia:server-files:rate:'' @
       sha (utf8 (show_int (u_id (rq_user rq)) @ [CHR 0x00] @ take 128 (rq_address rq) @ [CHR 0x00] @ action))"

definition enforce_rate_limit ::
  "'c cache_ops \<Rightarrow> (string \<Rightarrow> string) \<Rightarrow> settings \<Rightarrow> sf_request \<Rightarrow> string \<Rightarrow> ('c, unit) wio"
where
  "enforce_rate_limit ops sha st rq action =
     bind (lift (limits st)) (\<lambda>lims.
       let key = sf_rate_key sha rq action;
           lim = (if List.member [''list'', ''preview'', ''download'', ''history''] action
                  then read_rate_limit lims else rate_limit lims)
       in catch
            (bind (on_cache (c_add ops key 0 (rate_window lims))) (\<lambda>_.
             bind (on_cache (c_incr ops key)) (\<lambda>count. require (count \<le> lim) (sf SfRateLimited))))
            (\<lambda>e. case e of
               ServerFiles k m \<Rightarrow> raise e
             | _ \<Rightarrow> raise (sf_msg SfRateLimited
                 ''The operation is temporarily unavailable because rate limiting could not be verified.'')))"

definition audit ::
  "settings \<Rightarrow> sf_request \<Rightarrow> string \<Rightarrow> string \<Rightarrow> string \<Rightarrow> string \<Rightarrow> string \<Rightarrow> ('c, nat option) wio"
where
  "audit st rq operation rid path target_rid target_path =
     bind (lift (sensitive_path st path)) (\<lambda>s1.
     bind (if s1 then ret True else lift (sensitive_path st target_path)) (\<lambda>force.
     begin_operation st rq operation rid path target_rid target_path force True))"

definition require_capability_audited ::
  "settings \<Rightarrow> sf_request \<Rightarrow> string \<Rightarrow> string \<Rightarrow> string \<Rightarrow> string \<Rightarrow> string \<Rightarrow> string \<Rightarrow> ('c, unit) wio"
where
  "require_capability_audited st rq codename operation rid path target_rid target_path =
     bind (lift (has_capability (rq_user rq) codename)) (\<lambda>ok.
       if ok then ret ()
       else seq
         (catch
           (bind (lift (sensitive_path st path)) (\<lambda>s1.
            bind (if s1 then ret True else lift (sensitive_path st target_path)) (\<lambda>force.
            bind (begin_operation st rq operation rid path target_rid target_path force False) (\<lambda>record.
            finish_operation record ''denied'' ''permission_denied''))))
           (\<lambda>_. ret ()))
         (bind (lift (has_capability (rq_user rq) codename)) (\<lambda>still.
          require still (PermissionDenied ''You do not have permission to perform this Server Files operation.''))))"

definition error_parts :: "exn \<Rightarrow> nat \<times> string" where
  "error_parts e = (case e of ServerFiles k m \<Rightarrow> (sf_http_status k, sf_code k) | _ \<Rightarrow> (400, ''server_files_error''))"

definition finish_failed :: "nat option \<Rightarrow> exn \<Rightarrow> ('c, unit) wio" where
  "finish_failed record e =
     finish_operation record (if fst (error_parts e) = 403 then ''denied'' else ''failed'') (snd (error_parts e))"

section \<open>Changing files\<close>

definition operation_permission :: "string \<Rightarrow> string" where
  "operation_permission action =
     (if action = ''upload'' then ''upload_server_files''
      else if action = ''delete'' then ''delete_server_files'' else ''modify_server_files'')"

text \<open>Source parts, destination root, destination parts and whether a protected path is involved.\<close>

definition plan_operation ::
  "settings \<Rightarrow> sf_request \<Rightarrow> string \<Rightarrow> string \<Rightarrow> (string list \<times> string \<times> string list \<times> bool) res"
where
  "plan_operation st rq action effective_name =
     bind_res (split_relative_path (PStr (rq_path rq)) (action = ''upload'' \<or> action = ''mkdir'')) (\<lambda>source_parts.
     bind_res
       (if action = ''rename'' then Inr (rq_root rq, butlast source_parts @ [effective_name])
        else if action = ''move'' \<or> action = ''copy'' then
          bind_res (split_relative_path (PStr (rq_target_path rq)) True) (\<lambda>tp.
            Inr (if rq_target_root rq = [] then rq_root rq else rq_target_root rq,
                 tp @ [if effective_name = [] then (if source_parts = [] then [] else last source_parts) else effective_name]))
        else if action = ''upload'' \<or> action = ''mkdir'' then Inr (rq_root rq, source_parts @ [effective_name])
        else Inr ([], [])) (\<lambda>(destination_root, destination_parts).
     bind_res (sensitive_path st (rq_path rq)) (\<lambda>s1.
     bind_res (if s1 then Inr True else sensitive_path st (join ''/'' destination_parts)) (\<lambda>s2.
     bind_res (if s2 then Inr True else sensitive_path st (rq_target_path rq)) (\<lambda>s3.
     Inr (source_parts, destination_root, destination_parts, s3))))))"

definition plan_or_default ::
  "settings \<Rightarrow> sf_request \<Rightarrow> string \<Rightarrow> string \<Rightarrow> (string list \<times> string \<times> string list \<times> bool) res"
where
  "plan_or_default st rq action effective_name =
     (case plan_operation st rq action effective_name of
        Inl (ServerFiles k m) \<Rightarrow>
          Inr ([], if rq_target_root rq = [] then rq_root rq else rq_target_root rq, [], False)
      | r \<Rightarrow> r)"

definition perform ::
  "sf_env \<Rightarrow> sf_request \<Rightarrow> string \<Rightarrow> string \<Rightarrow> string list \<Rightarrow> string \<Rightarrow> unit osio"
where
  "perform env rq action effective_name source_parts destination_root =
     (let u = rq_user rq; rid = PStr (rq_root rq); path = PStr (rq_path rq) in
      if action = ''upload'' then
        (case rq_file rq of
           None \<Rightarrow> raise (sf_msg SfError ''Select a file to upload.'')
         | Some f \<Rightarrow> bind (upload_file env rid path effective_name (uploaded.truncate f) u) (\<lambda>_. ret ()))
      else if action = ''mkdir'' then bind (create_directory env rid path effective_name u) (\<lambda>_. ret ())
      else if action = ''rename'' then
        bind (rename_or_move env rid path rid (PStr (join ''/'' (butlast source_parts))) effective_name u) (\<lambda>_. ret ())
      else if action = ''move'' then
        bind (rename_or_move env rid path (PStr destination_root) (PStr (rq_target_path rq)) effective_name u) (\<lambda>_. ret ())
      else if action = ''copy'' then
        bind (copy_file env rid path (PStr destination_root) (PStr (rq_target_path rq))
               (if effective_name = [] then (if source_parts = [] then [] else last source_parts) else effective_name) u)
          (\<lambda>_. ret ())
      else bind (delete_item env rid path u) (\<lambda>_. ret ()))"

text \<open>The last part of the view, after the guards: audit row, service call, final status.\<close>

definition audited_run ::
  "sf_env \<Rightarrow> sf_request \<Rightarrow> string \<Rightarrow> string \<Rightarrow> string list \<Rightarrow> string \<Rightarrow> string list \<Rightarrow> ('c, resp) wio"
where
  "audited_run env rq action effective_name source_parts destination_root destination_parts =
     (let is_delete = (action = ''delete'');
          audit_root = (if is_delete then rq_target_root rq else destination_root);
          audit_target = (if is_delete then rq_target_path rq else join ''/'' destination_parts)
      in catch
          (bind (audit (e_settings env) rq action (rq_root rq) (rq_path rq) audit_root audit_target) (\<lambda>record.
           seq (catch
                 (seq (on_os (perform env rq action effective_name source_parts destination_root))
                      (finish_operation record ''success'' []))
                 (\<lambda>e. seq (finish_failed record e) (raise e)))
               (ret Done)))
          (\<lambda>e. case e of
             ServerFiles k m \<Rightarrow> ret (Page (sf_http_status k))
           | PermissionDenied m \<Rightarrow> raise e
           | _ \<Rightarrow> ret (Page 500)))"

definition operations :: "string list" where
  "operations = [''upload'', ''mkdir'', ''rename'', ''move'', ''copy'', ''delete'']"

definition server_files_operation ::
  "'c cache_ops \<Rightarrow> (string \<Rightarrow> string) \<Rightarrow> sf_env \<Rightarrow> sf_request \<Rightarrow> ('c, resp) wio"
where
  "server_files_operation ops sha env rq =
     (let st = e_settings env; action = casefold (strip (rq_operation rq)) in
      if \<not> List.member operations action then ret (Page 400)
      else
        let upload = (if action = ''upload'' then rq_file rq else None);
            effective_name = (if rq_name rq \<noteq> [] then rq_name rq
                              else case upload of None \<Rightarrow> [] | Some f \<Rightarrow> up_name f)
        in
        try_else (enforce_rate_limit ops sha st rq action)
          (\<lambda>e. case e of ServerFiles k m \<Rightarrow> ret (Page (sf_http_status k)) | _ \<Rightarrow> raise e)
          (\<lambda>_. seq (require_capability_audited st rq (operation_permission action) action (rq_root rq) (rq_path rq)
                     (rq_target_root rq) (rq_target_path rq))
          (bind (lift (plan_or_default st rq action effective_name)) (\<lambda>(source_parts, destination_root, destination_parts, sensitive).
           bind (if sensitive
                 then seq (require_capability_audited st rq ''view_sensitive_files'' action (rq_root rq) (rq_path rq)
                            destination_root (join ''/'' destination_parts))
                          (has_recent_reauth st)
                 else ret True) (\<lambda>fresh1.
           bind (if fresh1 \<and> action = ''delete'' then has_recent_reauth st else ret True) (\<lambda>fresh2.
           if \<not> fresh1 \<or> \<not> fresh2 then ret ReauthRedirect
           else audited_run env rq action effective_name source_parts destination_root destination_parts))))))"

section \<open>Confirming the password\<close>

text \<open>\<open>authenticate\<close> is Django's and the password backends' answer for the session's user name: the
  primary key of the account that authenticated, if any.\<close>

definition server_files_reauth ::
  "'c cache_ops \<Rightarrow> (string \<Rightarrow> string) \<Rightarrow> settings \<Rightarrow> sf_request \<Rightarrow> (string \<Rightarrow> int option) \<Rightarrow> string \<Rightarrow> string
    \<Rightarrow> ('c, resp) wio"
where
  "server_files_reauth ops sha st rq authenticate http_method password0 =
     (if http_method = ''GET'' then ret (Page 200)
      else if http_method \<noteq> ''POST'' then ret (Page 405)
      else try_else (enforce_rate_limit ops sha st rq ''reauth'')
        (\<lambda>e. case e of ServerFiles k m \<Rightarrow> ret (Page (sf_http_status k)) | _ \<Rightarrow> raise e)
        (\<lambda>_. let password = (if 4096 < length password0 then [] else password0) in
           case authenticate password of
             Some pk \<Rightarrow> if pk = u_id (rq_user rq)
                        then seq (modify (\<lambda>w. w\<lparr>w_reauth := StampAt (w_now w)\<rparr>)) (ret Done)
                        else ret (Page 401)
           | None \<Rightarrow> ret (Page 401)))"

end
