(* ===== verification/Server_Files_Web_Props.thy ===== *)
theory Server_Files_Web_Props
  imports Server_Files_Web Server_Files_Props
begin

text \<open>
  What the Server Files views guarantee around the service calls: the operation history is
  append-only, no file changes without a history row, destructive and protected changes need a
  recent password confirmation, and an unavailable history or rate limiter stops every change.
\<close>

section \<open>Code that touches no file\<close>

definition guarded :: "'c web \<Rightarrow> 'c web \<Rightarrow> bool" where
  "guarded w v \<longleftrightarrow> w_os v = w_os w \<and> prefix (w_rows w) (w_rows v) \<and> w_reauth v = w_reauth w \<and> w_now v = w_now w"

lemma guarded_refl [simp]: "guarded w w"
  by (simp add: guarded_def)

lemma guarded_trans: "guarded u v \<Longrightarrow> guarded v w \<Longrightarrow> guarded u w"
  by (auto simp: guarded_def intro: prefix_order.trans)

lemma keeps_db_write:
  "(\<And>v r. guarded w v \<Longrightarrow> guarded w (f (v\<lparr>w_db := r\<rparr>))) \<Longrightarrow> keeps (guarded w) (db_write f)"
proof (rule keepsI)
  fix v assume f: "\<And>v r. guarded w v \<Longrightarrow> guarded w (f (v\<lparr>w_db := r\<rparr>))" and v: "guarded w v"
  have "v\<lparr>w_db := w_db v\<rparr> = v" by simp
  with f[OF v, of "w_db v"] f[OF v] v show "wp (db_write f) (\<lambda>_. guarded w) (\<lambda>_. guarded w) v"
    by (auto simp: wp_def db_write_def guarded_def split: list.splits if_splits)
qed

lemma keeps_on_cache [keeps_intros]: "keeps (guarded w) (on_cache m)"
  by (auto simp: keeps_def wp_def on_cache_def guarded_def split: prod.splits sum.splits)

lemma keeps_begin [keeps_intros]:
  "keeps (guarded w) (begin_operation st rq operation rid path trid tpath force required)"
  unfolding begin_operation_def
  by (intro keeps_intros keeps_db_write) (auto simp: guarded_def)

lemma finish_new_row:
  assumes "\<And>i. row = Some i \<Longrightarrow> length (w_rows w) \<le> i"
  shows "keeps (guarded w) (finish_operation row status ec)"
proof (cases row)
  case (Some i)
  then have i: "length (w_rows w) \<le> i" by (rule assms)
  have "keeps (guarded w) (db_write (\<lambda>w. w\<lparr>w_rows := (w_rows w)[i := (w_rows w ! i)
       \<lparr>ro_status := status, ro_error_code := take 64 ec, ro_finished_at := Some (w_now w)\<rparr>]\<rparr>))"
    by (rule keeps_db_write) (use i in \<open>auto simp: guarded_def prefix_def list_update_append\<close>)
  with Some show ?thesis by (simp add: finish_operation_def keeps_catch keeps_ret)
qed (simp add: finish_operation_def keeps_ret)

lemma keeps_audit [keeps_intros]: "keeps (guarded w) (audit st rq operation rid path trid tpath)"
  unfolding audit_def by (intro keeps_intros)

text \<open>The outcome of an audited start: a new row for the operation, and nothing else.\<close>

definition started :: "'c web \<Rightarrow> nat option \<Rightarrow> string \<Rightarrow> 'c web \<Rightarrow> bool" where
  "started w row operation v \<longleftrightarrow> guarded w v
     \<and> (case row of None \<Rightarrow> True
        | Some i \<Rightarrow> length (w_rows w) \<le> i \<and> i < length (w_rows v) \<and> ro_operation (w_rows v ! i) = operation)"

lemma wp_begin:
  assumes "guarded w0 w"
  shows "wp (begin_operation st rq operation rid path trid tpath force required)
     (\<lambda>row v. started w0 row operation v \<and> (required \<longrightarrow> row \<noteq> None)) (\<lambda>_ v. guarded w0 v) w"
proof -
  have le: "length (w_rows w0) \<le> length (w_rows w)" using assms by (simp add: guarded_def prefix_length_le)
  show ?thesis
    unfolding begin_operation_def wp_simps
    using assms le
    by (auto simp: wp_def db_write_def started_def guarded_def prefix_def ret_def raise_def nth_append
        split: sum.splits list.splits if_splits)
qed

lemma wp_audit:
  assumes "guarded w0 w"
  shows "wp (audit st rq operation rid path trid tpath)
     (\<lambda>row v. started w0 row operation v \<and> row \<noteq> None) (\<lambda>_ v. guarded w0 v) w"
  unfolding audit_def wp_simps
  using assms by (auto simp: wp_simps intro!: wp_mono[OF wp_begin] split: sum.splits)

lemma keeps_require_capability_audited [keeps_intros]:
  "keeps (guarded w0) (require_capability_audited st rq codename operation rid path trid tpath)"
proof -
  have inner: "keeps (guarded w0) (bind (begin_operation st rq operation rid path trid tpath force False) (\<lambda>row.
      finish_operation row ''denied'' ''permission_denied''))" for force
  proof (rule keepsI)
    fix w assume w: "guarded w0 w"
    show "wp (bind (begin_operation st rq operation rid path trid tpath force False) (\<lambda>row.
      finish_operation row ''denied'' ''permission_denied'')) (\<lambda>_. guarded w0) (\<lambda>_. guarded w0) w"
      unfolding wp_bind
    proof (rule wp_mono[OF wp_begin[OF w]])
      fix row v assume v: "started w0 row operation v \<and> (False \<longrightarrow> row \<noteq> None)"
      show "wp (finish_operation row ''denied'' ''permission_denied'') (\<lambda>_. guarded w0) (\<lambda>_. guarded w0) v"
        by (rule keepsD[OF finish_new_row]) (use v in \<open>auto simp: started_def\<close>)
    qed
  qed
  show ?thesis
    unfolding require_capability_audited_def
    by (intro keeps_intros inner)
qed

lemma keeps_has_recent_reauth [keeps_intros]: "keeps P (has_recent_reauth st)"
  by (simp add: keeps_def wp_def has_recent_reauth_def)

lemma keeps_enforce_rate_limit [keeps_intros]: "keeps (guarded w0) (enforce_rate_limit ops sha st rq action)"
  unfolding enforce_rate_limit_def Let_def
  by (intro keeps_intros) (auto split: exn.splits intro: keeps_intros)

section \<open>The audited run\<close>

definition recorded :: "'c web \<Rightarrow> string \<Rightarrow> 'c web \<Rightarrow> bool" where
  "recorded w operation v \<longleftrightarrow> prefix (w_rows w) (w_rows v) \<and> w_reauth v = w_reauth w \<and> w_now v = w_now w
     \<and> (\<exists>i. length (w_rows w) \<le> i \<and> i < length (w_rows v) \<and> ro_operation (w_rows v ! i) = operation)"

lemma keeps_finish_recorded:
  assumes "\<And>i. row = Some i \<Longrightarrow> length (w_rows w) \<le> i"
  shows "keeps (recorded w operation) (finish_operation row status ec)"
proof (rule keepsI)
  fix v assume v: "recorded w operation v"
  have upd: "recorded w operation (u\<lparr>w_rows := (w_rows u)[i := (w_rows u ! i)\<lparr>ro_status := a, ro_error_code := b, ro_finished_at := c\<rparr>]\<rparr>)"
    if u: "recorded w operation u" "row = Some i" for u i a b c
  proof -
    obtain j where j: "length (w_rows w) \<le> j" "j < length (w_rows u)" "ro_operation (w_rows u ! j) = operation"
      using u(1) by (auto simp: recorded_def)
    have "ro_operation ((w_rows u)[i := (w_rows u ! i)\<lparr>ro_status := a, ro_error_code := b, ro_finished_at := c\<rparr>] ! j) = operation"
      using j by (cases "i = j") auto
    with u assms j show ?thesis
      by (auto simp: recorded_def prefix_def list_update_append)
  qed
  have db: "recorded w operation (v\<lparr>w_db := r\<rparr>)" for r using v by (simp add: recorded_def)
  show "wp (finish_operation row status ec) (\<lambda>_. recorded w operation) (\<lambda>_. recorded w operation) v"
    using v upd[OF v] upd[OF db] db
    by (auto simp: wp_def finish_operation_def catch_def ret_def db_write_def split: option.splits list.splits if_splits)
qed

text \<open>Either nothing happened to the files, or a row of this run records the operation.\<close>

definition accounted :: "'c web \<Rightarrow> string \<Rightarrow> 'c web \<Rightarrow> bool" where
  "accounted w operation v \<longleftrightarrow> guarded w v \<or> recorded w operation v"

lemma wp_audited_run:
  assumes "guarded w0 w"
  shows "wp (audited_run env rq action name sp dr dp) (\<lambda>_. accounted w0 action) (\<lambda>_. accounted w0 action) w"
proof -
  have run: "wp (seq (catch (seq (on_os m) (finish_operation row ''success'' []))
                 (\<lambda>e. seq (finish_failed row e) (raise e))) (ret Done))
       (\<lambda>_. recorded w0 action) (\<lambda>_. recorded w0 action) v"
    if v: "started w0 row action v" "row \<noteq> None" for m row v
  proof -
    obtain i where i: "row = Some i" "length (w_rows w0) \<le> i" "i < length (w_rows v)" "ro_operation (w_rows v ! i) = action"
      "guarded w0 v" using v by (auto simp: started_def)
    have rec: "recorded w0 action v" using i by (auto simp: recorded_def guarded_def)
    have os: "recorded w0 action (v\<lparr>w_os := x\<rparr>)" for x using rec by (simp add: recorded_def)
    have fin: "keeps (recorded w0 action) (finish_operation row status ec)" for status ec
      by (rule keeps_finish_recorded) (use i in simp)
    show ?thesis
      unfolding wp_seq wp_catch wp_ret wp_raise finish_failed_def
      by (auto simp: wp_def[of "on_os m"] on_os_def split: prod.splits sum.splits
          intro!: keepsD[OF fin] os wp_mono[OF keepsD[OF fin]])
  qed
  show ?thesis
    unfolding audited_run_def Let_def wp_catch wp_bind
  proof (rule wp_mono[OF wp_audit[OF assms]])
    fix row v assume v: "started w0 row action v \<and> row \<noteq> None"
    show "wp (seq (catch (seq (on_os (perform env rq action name sp dr)) (finish_operation row ''success'' []))
                 (\<lambda>e. seq (finish_failed row e) (raise e))) (ret Done))
       (\<lambda>_. accounted w0 action)
       (\<lambda>e. wp (case e of ServerFiles k m \<Rightarrow> ret (Page (sf_http_status k)) | PermissionDenied m \<Rightarrow> raise e | _ \<Rightarrow> ret (Page 500))
              (\<lambda>_. accounted w0 action) (\<lambda>_. accounted w0 action)) v"
      by (rule wp_mono[OF run]) (use v in \<open>auto simp: accounted_def wp_simps split: exn.splits\<close>)
  qed (auto simp: accounted_def wp_simps split: exn.splits)
qed

section \<open>The view\<close>

lemma wp_capability_audited:
  assumes "guarded w0 w"
  shows "wp (require_capability_audited st rq codename operation rid path trid tpath)
    (\<lambda>_ v. guarded w0 v \<and> has_capability (rq_user rq) codename = Inr True) (\<lambda>_. guarded w0) w"
proof -
  have "wp (require_capability_audited st rq codename operation rid path trid tpath)
    (\<lambda>_ v. has_capability (rq_user rq) codename = Inr True) (\<lambda>_ _. True) w"
  proof (cases "has_capability (rq_user rq) codename")
    case (Inr b)
    have denied: "wp (seq m (bind (lift (Inr False)) (\<lambda>still. require still x))) Q (\<lambda>_ _. True) w"
      for m :: "('b, unit) wio" and x Q w
      unfolding wp_seq by (rule wp_mono[OF wp_True]) (simp_all add: wp_simps)
    show ?thesis
      using Inr by (cases b) (simp_all add: require_capability_audited_def wp_bind wp_lift wp_ret denied)
  qed (simp add: require_capability_audited_def wp_simps)
  from wp_conj[OF keepsD[OF keeps_require_capability_audited assms] this] show ?thesis
    by (rule wp_mono) auto
qed

definition recent :: "settings \<Rightarrow> 'c web \<Rightarrow> bool" where
  "recent st w \<longleftrightarrow> fst (has_recent_reauth st w) = Inr True"

lemma recent_guarded: "guarded w v \<Longrightarrow> recent st v = recent st w"
  by (simp add: recent_def has_recent_reauth_def guarded_def split: stamp.splits sum.splits)

lemma wp_recent: "wp (has_recent_reauth st) Q E w = Q (recent st w) w"
  by (simp add: wp_def recent_def has_recent_reauth_def)

definition op_action :: "sf_request \<Rightarrow> string" where
  "op_action rq = casefold (strip (rq_operation rq))"

definition op_name :: "sf_request \<Rightarrow> string" where
  "op_name rq = (if rq_name rq \<noteq> [] then rq_name rq
     else case (if op_action rq = ''upload'' then rq_file rq else None) of None \<Rightarrow> [] | Some f \<Rightarrow> up_name f)"

definition touches_protected :: "settings \<Rightarrow> sf_request \<Rightarrow> bool" where
  "touches_protected st rq \<longleftrightarrow>
     (\<exists>sp dr dp. plan_or_default st rq (op_action rq) (op_name rq) = Inr (sp, dr, dp, True))"

text \<open>The guards a changing run has passed.\<close>

definition cleared :: "settings \<Rightarrow> sf_request \<Rightarrow> 'c web \<Rightarrow> bool" where
  "cleared st rq w \<longleftrightarrow> List.member operations (op_action rq)
     \<and> has_capability (rq_user rq) (operation_permission (op_action rq)) = Inr True
     \<and> (op_action rq = ''delete'' \<longrightarrow> recent st w)
     \<and> (touches_protected st rq \<longrightarrow> recent st w \<and> has_capability (rq_user rq) ''view_sensitive_files'' = Inr True)"

definition op_result :: "settings \<Rightarrow> sf_request \<Rightarrow> 'c web \<Rightarrow> 'c web \<Rightarrow> bool" where
  "op_result st rq w v \<longleftrightarrow> guarded w v \<or> recorded w (op_action rq) v \<and> cleared st rq w"

lemma wp_operation:
  "wp (server_files_operation ops sha env rq) (\<lambda>_. op_result (e_settings env) rq w) (\<lambda>_. op_result (e_settings env) rq w) w"
proof -
  let ?st = "e_settings env" and ?a = "op_action rq" and ?n = "op_name rq"
  let ?R = "op_result ?st rq w"
  have g: "?R v" if "guarded w v" for v using that by (simp add: op_result_def)
  show ?thesis
  proof (cases "List.member operations ?a")
    case False
    then show ?thesis using g[of w] by (simp add: server_files_operation_def op_action_def Let_def wp_simps)
  next
    case True
    let ?rest = "bind (lift (plan_or_default ?st rq ?a ?n)) (\<lambda>(sp, dr, dp, sens).
           bind (if sens
                 then seq (require_capability_audited ?st rq ''view_sensitive_files'' ?a (rq_root rq) (rq_path rq) dr (join ''/'' dp))
                          (has_recent_reauth ?st)
                 else ret True) (\<lambda>fresh1.
           bind (if fresh1 \<and> ?a = ''delete'' then has_recent_reauth ?st else ret True) (\<lambda>fresh2.
           if \<not> fresh1 \<or> \<not> fresh2 then ret ReauthRedirect
           else audited_run env rq ?a ?n sp dr dp)))"
    have run: "wp (audited_run env rq ?a ?n sp dr dp) (\<lambda>_. ?R) (\<lambda>_. ?R) v"
      if "guarded w v" "cleared ?st rq w" for v sp dr dp
      by (rule wp_mono[OF wp_audited_run[OF that(1)]]) (use that(2) in \<open>auto simp: accounted_def op_result_def\<close>)
    have rest: "wp ?rest (\<lambda>_. ?R) (\<lambda>_. ?R) v"
      if v: "guarded w v" and cap: "has_capability (rq_user rq) (operation_permission ?a) = Inr True" for v
    proof (cases "plan_or_default ?st rq ?a ?n")
      case (Inl e)
      then show ?thesis using g[OF v] by (simp add: wp_simps)
    next
      case (Inr p)
      obtain sp dr dp sens where p: "p = (sp, dr, dp, sens)" by (cases p)
      have tp: "touches_protected ?st rq \<longleftrightarrow> sens" using Inr p by (simp add: touches_protected_def)
      have tail: "wp (bind (if f \<and> ?a = ''delete'' then has_recent_reauth ?st else ret True) (\<lambda>fresh2.
           if \<not> f \<or> \<not> fresh2 then ret ReauthRedirect else audited_run env rq ?a ?n sp dr dp)) (\<lambda>_. ?R) (\<lambda>_. ?R) u"
        if u: "guarded w u" and f: "f \<Longrightarrow> sens \<Longrightarrow> recent ?st w \<and> has_capability (rq_user rq) ''view_sensitive_files'' = Inr True" for f u
        unfolding wp_bind
      proof (rule wp_mono)
        show "wp (if f \<and> ?a = ''delete'' then has_recent_reauth ?st else ret True)
            (\<lambda>fresh2 v. v = u \<and> (f \<longrightarrow> fresh2 \<longrightarrow> ?a = ''delete'' \<longrightarrow> recent ?st w)) (\<lambda>_ _. False) u"
          by (simp add: wp_recent wp_ret recent_guarded[OF u])
      next
        fix fresh2 v assume v: "v = u \<and> (f \<longrightarrow> fresh2 \<longrightarrow> ?a = ''delete'' \<longrightarrow> recent ?st w)"
        show "wp (if \<not> f \<or> \<not> fresh2 then ret ReauthRedirect else audited_run env rq ?a ?n sp dr dp) (\<lambda>_. ?R) (\<lambda>_. ?R) v"
        proof (cases "f \<and> fresh2")
          case True
          have "cleared ?st rq w"
            unfolding cleared_def using True \<open>List.member operations ?a\<close> cap tp f v by blast
          with run[of v sp dr dp] True v u show ?thesis by simp
        qed (use v g[OF u] in \<open>auto simp: wp_ret\<close>)
      qed simp
      show ?thesis
      proof (cases sens)
        case True
        have "wp (seq (require_capability_audited ?st rq ''view_sensitive_files'' ?a (rq_root rq) (rq_path rq) dr (join ''/'' dp))
                 (has_recent_reauth ?st))
           (\<lambda>f u. guarded w u \<and> (f \<longrightarrow> recent ?st w \<and> has_capability (rq_user rq) ''view_sensitive_files'' = Inr True))
           (\<lambda>_. guarded w) v"
          unfolding wp_seq
          by (rule wp_mono[OF wp_capability_audited[OF v]]) (auto simp: wp_recent recent_guarded)
        then have "wp (bind (seq (require_capability_audited ?st rq ''view_sensitive_files'' ?a (rq_root rq) (rq_path rq) dr (join ''/'' dp))
                 (has_recent_reauth ?st)) (\<lambda>f. bind (if f \<and> ?a = ''delete'' then has_recent_reauth ?st else ret True) (\<lambda>fresh2.
           if \<not> f \<or> \<not> fresh2 then ret ReauthRedirect else audited_run env rq ?a ?n sp dr dp))) (\<lambda>_. ?R) (\<lambda>_. ?R) v"
          unfolding wp_bind[of "seq _ _"]
        proof (rule wp_mono)
          fix f u assume u: "guarded w u \<and> (f \<longrightarrow> recent ?st w \<and> has_capability (rq_user rq) ''view_sensitive_files'' = Inr True)"
          show "wp (bind (if f \<and> ?a = ''delete'' then has_recent_reauth ?st else ret True) (\<lambda>fresh2.
             if \<not> f \<or> \<not> fresh2 then ret ReauthRedirect else audited_run env rq ?a ?n sp dr dp)) (\<lambda>_. ?R) (\<lambda>_. ?R) u"
            by (rule tail) (use u in blast)+
        qed (rule g)
        with Inr p True show ?thesis by (simp add: wp_bind wp_lift)
      next
        case False
        from tail[OF v, of True] False Inr p show ?thesis by (simp add: wp_bind wp_lift wp_ret)
      qed
    qed
    have "wp (enforce_rate_limit ops sha ?st rq ?a) (\<lambda>_. guarded w) (\<lambda>_. guarded w) w"
      by (rule keepsD[OF keeps_enforce_rate_limit]) simp
    then have "wp (try_else (enforce_rate_limit ops sha ?st rq ?a)
          (\<lambda>e. case e of ServerFiles k m \<Rightarrow> ret (Page (sf_http_status k)) | _ \<Rightarrow> raise e)
          (\<lambda>_. seq (require_capability_audited ?st rq (operation_permission ?a) ?a (rq_root rq) (rq_path rq)
                     (rq_target_root rq) (rq_target_path rq)) ?rest)) (\<lambda>_. ?R) (\<lambda>_. ?R) w"
      unfolding wp_try_else
    proof (rule wp_mono)
      fix v assume v: "guarded w v"
      show "wp (seq (require_capability_audited ?st rq (operation_permission ?a) ?a (rq_root rq) (rq_path rq)
                     (rq_target_root rq) (rq_target_path rq)) ?rest) (\<lambda>_. ?R) (\<lambda>_. ?R) v"
        unfolding wp_seq
      proof (rule wp_mono[OF wp_capability_audited[OF v]])
        fix x u assume u: "guarded w u \<and> has_capability (rq_user rq) (operation_permission ?a) = Inr True"
        show "wp ?rest (\<lambda>_. ?R) (\<lambda>_. ?R) u" by (rule rest) (use u in blast)+
      qed (rule g)
    next
      fix e v assume "guarded w v"
      then show "wp (case e of ServerFiles k m \<Rightarrow> ret (Page (sf_http_status k)) | _ \<Rightarrow> raise e) (\<lambda>_. ?R) (\<lambda>_. ?R) v"
        by (auto simp: wp_simps g split: exn.splits)
    qed
    with True show ?thesis
      by (simp only: server_files_operation_def Let_def op_action_def[symmetric] op_name_def[symmetric]
          not_True_eq_False if_False)
  qed
qed

section \<open>A request that creates a directory\<close>

definition mkdir_request :: sf_request where
  "mkdir_request = \<lparr>rq_user = manager, rq_address = ''10.0.0.1'', rq_request_id = ''r-1'', rq_operation = '' MkDir'',
     rq_root = ''root-0'', rq_path = ''docs'', rq_target_root = [], rq_target_path = [], rq_name = ''new'', rq_file = None\<rparr>"

definition example_web :: "event list \<Rightarrow> mem web" where
  "example_web sched = \<lparr>w_os = example_os sched, w_rows = [], w_db = [False], w_cache = \<lparr>mem_now = 0, mem_entries = []\<rparr>,
     w_now = 100, w_reauth = NoStamp\<rparr>"

text \<open>The request runs to its end, and the new directory has the next inode number.\<close>

lemma mkdir_runs:
  "let (r, v) = server_files_operation mem_cache (\<lambda>s. s) example_env mkdir_request (example_web [Quiet, Short 2])
   in r = Inr Done \<and> os_fs (w_os v) 20 \<noteq> None"
  by code_simp

lemma mkdir_changes:
  obtains v where "server_files_operation mem_cache (\<lambda>s. s) example_env mkdir_request (example_web [Quiet, Short 2]) = (Inr Done, v)"
    and "os_fs (w_os v) \<noteq> os_fs (w_os (example_web [Quiet, Short 2]))"
proof -
  let ?w = "example_web [Quiet, Short 2]"
  let ?run = "server_files_operation mem_cache (\<lambda>s. s) example_env mkdir_request ?w"
  obtain v where run: "?run = (Inr Done, v)" and new: "os_fs (w_os v) 20 \<noteq> None"
    using mkdir_runs by (cases ?run) simp
  have "os_fs (w_os ?w) 20 = None" by (simp add: example_web_def example_os_def example_fs_def)
  with new have "os_fs (w_os v) \<noteq> os_fs (w_os ?w)" by metis
  with run show thesis by (rule that)
qed

text \<open>C21: no file changes without a history row. Whatever an operation request asks, whoever sends
  it and whatever fails, either the file system is untouched or this very run has appended a row
  naming the operation; rows that were there before are never altered or removed.\<close>

theorem operation_leaves_row:
  assumes "server_files_operation ops sha env rq w = (r, v)"
  shows "prefix (w_rows w) (w_rows v)
    \<and> (os_fs (w_os v) \<noteq> os_fs (w_os w) \<longrightarrow>
        (\<exists>row \<in> set (drop (length (w_rows w)) (w_rows v)). ro_operation row = op_action rq))"
proof -
  have "op_result (e_settings env) rq w v"
    using wp_operation[of ops sha env rq w] assms by (auto simp: wp_def split: sum.splits)
  then show ?thesis
  proof (unfold op_result_def, elim disjE conjE)
    assume "recorded w (op_action rq) v"
    then obtain i where "prefix (w_rows w) (w_rows v)" "length (w_rows w) \<le> i" "i < length (w_rows v)"
      "ro_operation (w_rows v ! i) = op_action rq" by (auto simp: recorded_def)
    moreover from this have "w_rows v ! i \<in> set (drop (length (w_rows w)) (w_rows v))"
      using nth_mem[of "i - length (w_rows w)" "drop (length (w_rows w)) (w_rows v)"] by simp
    ultimately show ?thesis by blast
  qed (simp add: guarded_def)
qed

theorem operation_leaves_row_witness:
  "\<exists>v. server_files_operation mem_cache (\<lambda>s. s) example_env mkdir_request (example_web [Quiet, Short 2]) = (Inr Done, v)
     \<and> (\<exists>row \<in> set (w_rows v). ro_operation row = op_action mkdir_request)"
proof -
  obtain v where run: "server_files_operation mem_cache (\<lambda>s. s) example_env mkdir_request (example_web [Quiet, Short 2]) = (Inr Done, v)"
    and changed: "os_fs (w_os v) \<noteq> os_fs (w_os (example_web [Quiet, Short 2]))" by (rule mkdir_changes)
  from operation_leaves_row[OF run] changed have "\<exists>row \<in> set (drop 0 (w_rows v)). ro_operation row = op_action mkdir_request"
    by (simp add: example_web_def)
  with run show ?thesis by auto
qed

text \<open>C22: no file changes without the guards. A changed file system means a supported operation, its
  capability held by the user, a password confirmation within the configured window for every
  deletion, and for every operation on a protected path that confirmation and the capability to see
  protected files.\<close>

theorem operation_cleared:
  assumes "server_files_operation ops sha env rq w = (r, v)" "os_fs (w_os v) \<noteq> os_fs (w_os w)"
  shows "List.member operations (op_action rq)
    \<and> has_capability (rq_user rq) (operation_permission (op_action rq)) = Inr True
    \<and> (op_action rq = ''delete'' \<longrightarrow> recent (e_settings env) w)
    \<and> (touches_protected (e_settings env) rq \<longrightarrow>
        recent (e_settings env) w \<and> has_capability (rq_user rq) ''view_sensitive_files'' = Inr True)"
proof -
  have "op_result (e_settings env) rq w v"
    using wp_operation[of ops sha env rq w] assms(1) by (auto simp: wp_def split: sum.splits)
  with assms(2) show ?thesis by (auto simp: op_result_def guarded_def cleared_def)
qed

theorem operation_cleared_witness:
  "List.member operations (op_action mkdir_request)
    \<and> has_capability manager (operation_permission (op_action mkdir_request)) = Inr True"
proof -
  obtain v where run: "server_files_operation mem_cache (\<lambda>s. s) example_env mkdir_request (example_web [Quiet, Short 2]) = (Inr Done, v)"
    and changed: "os_fs (w_os v) \<noteq> os_fs (w_os (example_web [Quiet, Short 2]))" by (rule mkdir_changes)
  have "rq_user mkdir_request = manager" by (simp add: mkdir_request_def)
  with operation_cleared[OF run changed] show ?thesis by simp
qed

lemma wp_unmetered:
  assumes "wp m (\<lambda>_ _. False) (\<lambda>_. P) w"
  shows "wp (try_else m (\<lambda>e. case e of ServerFiles k m \<Rightarrow> ret (Page (sf_http_status k)) | _ \<Rightarrow> raise e) k)
     (\<lambda>_. P) (\<lambda>_. P) w"
  unfolding wp_try_else by (rule wp_mono[OF assms]) (auto simp: wp_simps split: exn.splits)

lemma wp_outage:
  "wp (enforce_rate_limit outage sha st rq action) (\<lambda>_ _. False) (\<lambda>_ v. w_os v = w_os w \<and> w_rows v = w_rows w) w"
  by (auto simp: enforce_rate_limit_def Let_def wp_simps wp_def[of "on_cache _"] on_cache_def outage_def raise_def
      split: sum.splits)

text \<open>The rate limiter fails closed: while the cache is down, an operation request changes no
  file and writes no history, whatever it asks.\<close>

theorem operation_needs_cache:
  assumes "server_files_operation outage sha env rq w = (r, v)"
  shows "w_os v = w_os w \<and> w_rows v = w_rows w"
proof -
  let ?P = "\<lambda>v. w_os v = w_os w \<and> w_rows v = w_rows w"
  have "wp (server_files_operation outage sha env rq) (\<lambda>_. ?P) (\<lambda>_. ?P) w"
  proof (cases "List.member operations (casefold (strip (rq_operation rq)))")
    case True
    then show ?thesis
      by (simp add: server_files_operation_def Let_def wp_unmetered[OF wp_outage])
  qed (simp add: server_files_operation_def Let_def wp_ret)
  with assms show ?thesis
    by (cases r) (auto dest: wpD_Inl wpD_Inr)
qed

theorem operation_needs_cache_witness:
  "let w = example_web []; v = snd (server_files_operation outage (\<lambda>s. s) example_env mkdir_request w)
   in w_os v = w_os w \<and> w_rows v = []"
proof -
  let ?w = "example_web []"
  have "server_files_operation outage (\<lambda>s. s) example_env mkdir_request ?w
      = (fst (server_files_operation outage (\<lambda>s. s) example_env mkdir_request ?w),
         snd (server_files_operation outage (\<lambda>s. s) example_env mkdir_request ?w))" by simp
  from operation_needs_cache[OF this] show ?thesis by (simp add: Let_def example_web_def)
qed

end
