(* ===== verification/Staging.thy ===== *)
theory Staging
  imports Server_Files
begin

text \<open>
  Absolute paths as \<open>pathlib\<close> uses them, and the safety policy of the Transfer Center's private
  staging area (\<open>transfer_center/policy.py\<close>): the configured roots, their creation, the rejection
  of symbolic links on the way to a staging file, and the file name policy. An absolute path is
  looked up in \<open>os_paths\<close> (its last component not followed); staging directories and files are only
  ever reached this way.
\<close>

section \<open>Environment\<close>

text \<open>\<open>te_expand\<close> is \<open>Path.expanduser\<close>, \<open>te_base_dir\<close> the project's \<open>BASE_DIR\<close>, \<open>te_sha\<close> the
  hexadecimal SHA-256 digest of a byte string, \<open>te_user\<close> the account with a primary key.\<close>

record t_env =
  te_files :: sf_env
  te_expand :: "string \<Rightarrow> string res"
  te_base_dir :: string
  te_sha :: "string \<Rightarrow> string"
  te_user :: "int \<Rightarrow> user option"

abbreviation te_settings :: "t_env \<Rightarrow> settings" where
  "te_settings te \<equiv> e_settings (te_files te)"

abbreviation te_host :: "t_env \<Rightarrow> host" where
  "te_host te \<equiv> e_host (te_files te)"

section \<open>Lexical operations on absolute paths\<close>

definition child :: "string \<Rightarrow> string \<Rightarrow> string" where
  "child p name = path_join p name"

definition of_comps :: "string \<Rightarrow> string list \<Rightarrow> string" where
  "of_comps p cs = initial_slashes p @ join ''/'' cs"

text \<open>The path itself and everything above it, innermost first.\<close>

definition self_and_parents :: "string \<Rightarrow> string list" where
  "self_and_parents p = map (\<lambda>k. of_comps p (take k (path_comps p))) (rev [0..<Suc (length (path_comps p))])"

definition parent_path :: "string \<Rightarrow> string" where
  "parent_path p = of_comps p (butlast (path_comps p))"

definition relative_to :: "string \<Rightarrow> string \<Rightarrow> string list option" where
  "relative_to p root =
     (if initial_slashes p = initial_slashes root
         \<and> take (length (path_comps root)) (path_comps p) = path_comps root
         \<and> length (path_comps root) \<le> length (path_comps p)
      then Some (drop (length (path_comps root)) (path_comps p)) else None)"

definition is_anchor :: "string \<Rightarrow> bool" where
  "is_anchor p \<longleftrightarrow> path_comps p = []"

section \<open>System calls on absolute paths\<close>

definition lstat_path :: "string \<Rightarrow> fstat osio" where
  "lstat_path p = syscall (\<lambda>_ s.
     case os_paths s p of Inl e \<Rightarrow> (Inl (OSError e), s)
     | Inr i \<Rightarrow> (case os_fs s i of None \<Rightarrow> (Inl (OSError ENOENT), s) | Some n \<Rightarrow> (Inr (stat_of i n), s)))"

text \<open>Following a final symbolic link, at most \<open>n\<close> times (the kernel allows 40).\<close>

fun follow :: "nat \<Rightarrow> os \<Rightarrow> string \<Rightarrow> errno + nat" where
  "follow 0 s p = Inl ELOOP"
| "follow (Suc n) s p =
     (case os_paths s p of Inl e \<Rightarrow> Inl e
      | Inr i \<Rightarrow> if is_kind (os_fs s) i KLink
                then follow n s (abspath (parent_path p) (file_data (os_fs s) i)) else Inr i)"

definition stat_path :: "string \<Rightarrow> fstat osio" where
  "stat_path p = syscall (\<lambda>_ s.
     case follow 41 s p of Inl e \<Rightarrow> (Inl (OSError e), s)
     | Inr i \<Rightarrow> (case os_fs s i of None \<Rightarrow> (Inl (OSError ENOENT), s) | Some n \<Rightarrow> (Inr (stat_of i n), s)))"

text \<open>\<open>pathlib\<close> takes these errors for "no such file" and lets the others through.\<close>

definition ignored_errno :: "errno \<Rightarrow> bool" where
  "ignored_errno e \<longleftrightarrow> e = ENOENT \<or> e = ENOTDIR \<or> e = EBADF \<or> e = ELOOP"

definition path_test :: "fstat osio \<Rightarrow> (fstat \<Rightarrow> bool) \<Rightarrow> bool osio" where
  "path_test m P =
     on_os_error (bind m (\<lambda>st. ret (P st))) (\<lambda>n. if ignored_errno n then ret False else raise (OSError n))"

definition is_symlink :: "string \<Rightarrow> bool osio" where
  "is_symlink p = path_test (lstat_path p) (\<lambda>st. st_kind st = KLink)"

definition path_exists :: "string \<Rightarrow> bool osio" where
  "path_exists p = path_test (stat_path p) (\<lambda>_. True)"

definition path_is_dir :: "string \<Rightarrow> bool osio" where
  "path_is_dir p = path_test (stat_path p) (\<lambda>st. st_kind st = KDir)"

definition path_is_file :: "string \<Rightarrow> bool osio" where
  "path_is_file p = path_test (stat_path p) (\<lambda>st. st_kind st = KFile)"

definition set_path :: "string \<Rightarrow> errno + nat \<Rightarrow> unit osio" where
  "set_path p v = modify (\<lambda>s. s\<lparr>os_paths := (os_paths s)(p := v)\<rparr>)"

definition mkdir_path :: "string \<Rightarrow> unit osio" where
  "mkdir_path p = syscall (\<lambda>_ s.
     case os_paths s p of
       Inr _ \<Rightarrow> (Inl (OSError EEXIST), s)
     | Inl e \<Rightarrow>
         if e \<noteq> ENOENT then (Inl (OSError e), s)
         else case os_paths s (parent_path p) of
             Inl e' \<Rightarrow> (Inl (OSError e'), s)
           | Inr d \<Rightarrow>
               (case os_fs s d of None \<Rightarrow> (Inl (OSError ENOENT), s)
                | Some n \<Rightarrow>
                    if i_kind n \<noteq> KDir then (Inl (OSError ENOTDIR), s)
                    else (Inr (), s\<lparr>os_fs := (os_fs s)(os_next s := Some
                           \<lparr>i_kind = KDir, i_dev = i_dev n, i_data = [], i_entries = [], i_parent = d, i_mode = 511,
                            i_uid = 0, i_gid = 0, i_mtime = os_clock s, i_ctime = os_clock s\<rparr>),
                         os_next := Suc (os_next s), os_paths := (os_paths s)(p := Inr (os_next s))\<rparr>)))"

text \<open>\<open>path.mkdir(parents=True, exist_ok=True)\<close> on the components, innermost first.\<close>

definition mkdir_exist_ok :: "string \<Rightarrow> unit osio" where
  "mkdir_exist_ok p =
     on_os_error (mkdir_path p) (\<lambda>n. bind (path_is_dir p) (\<lambda>d. require d (OSError n)))"

fun mkdir_parents :: "string \<Rightarrow> string list \<Rightarrow> unit osio" where
  "mkdir_parents anchor [] = mkdir_exist_ok (of_comps anchor [])"
| "mkdir_parents anchor (c # cs) =
     (let p = of_comps anchor (rev (c # cs)) in
      on_os_error (mkdir_path p) (\<lambda>n.
        if n = ENOENT then seq (mkdir_parents anchor cs) (mkdir_exist_ok p)
        else bind (path_is_dir p) (\<lambda>d. require d (OSError n))))"

definition mkdir_p :: "string \<Rightarrow> unit osio" where
  "mkdir_p p = mkdir_parents p (rev (path_comps p))"

text \<open>\<open>path.unlink(missing_ok=True)\<close>.\<close>

definition unlink_path :: "string \<Rightarrow> unit osio" where
  "unlink_path p = syscall (\<lambda>_ s.
     case os_paths s p of
       Inl e \<Rightarrow> (if e = ENOENT then Inr () else Inl (OSError e), s)
     | Inr i \<Rightarrow> if is_kind (os_fs s) i KDir then (Inl (OSError EISDIR), s)
               else (Inr (), s\<lparr>os_paths := (os_paths s)(p := Inl ENOENT)\<rparr>))"

text \<open>\<open>os.open(str(path), O_RDONLY | O_NOFOLLOW)\<close>.\<close>

definition open_read_path :: "string \<Rightarrow> nat osio" where
  "open_read_path p = syscall (\<lambda>_ s.
     case os_paths s p of Inl e \<Rightarrow> (Inl (OSError e), s)
     | Inr i \<Rightarrow> if is_kind (os_fs s) i KLink then (Inl (OSError ELOOP), s)
               else if os_fs s i = None then (Inl (OSError ENOENT), s) else new_fd i s)"

section \<open>Roots\<close>

text \<open>\<open>except (OSError, ...) as exc: raise ValueError(message) from exc\<close>; \<open>ValueError\<close> itself and
  \<open>TypeError\<close> are caught in the same place.\<close>

definition os_as_value :: "string \<Rightarrow> 'a osio \<Rightarrow> 'a osio" where
  "os_as_value message m = on_os_error m (\<lambda>_. raise (ValueError message))"

fun path_error :: "string \<Rightarrow> exn \<Rightarrow> exn" where
  "path_error message (OSError e) = ValueError message"
| "path_error message TypeError = ValueError message"
| "path_error message (ValueError m) = ValueError message"
| "path_error message e = e"

definition configured_path :: "t_env \<Rightarrow> string \<Rightarrow> string \<Rightarrow> string res" where
  "configured_path te message text =
     on_error (path_error message)
       (bind_res (te_expand te text) (\<lambda>p. Inr (abspath (h_cwd (te_host te)) p)))"

fun reject_links :: "string list \<Rightarrow> unit osio" where
  "reject_links [] = ret ()"
| "reject_links (current # ps) =
     bind (is_symlink current) (\<lambda>link.
     seq (require (\<not> link) (ValueError ''Transfer staging paths must not traverse symbolic links.''))
         (reject_links ps))"

definition reject_existing_symlink_components :: "t_env \<Rightarrow> string \<Rightarrow> unit osio" where
  "reject_existing_symlink_components te candidate =
     os_as_value ''Transfer staging path could not be inspected safely.''
       (reject_links (self_and_parents (abspath (h_cwd (te_host te)) candidate)))"

definition reject_symlink_components :: "string \<Rightarrow> string \<Rightarrow> unit osio" where
  "reject_symlink_components candidate root =
     (case relative_to candidate root of
        None \<Rightarrow> raise (ValueError ''Transfer staging path escapes the configured Paxalia transfer root.'')
      | Some parts \<Rightarrow>
          seq (require (parts \<noteq> []) (ValueError ''Transfer staging path must identify a file, not a staging directory.''))
          (os_as_value ''Transfer staging path could not be inspected safely.''
            (reject_links (map (\<lambda>k. of_comps root (path_comps root @ take k parts)) [1..<Suc (length parts)]))))"

fun overlaps_any :: "host \<Rightarrow> string \<Rightarrow> sf_root list \<Rightarrow> bool res" where
  "overlaps_any h root [] = Inr False"
| "overlaps_any h root (r # rs) =
     bind_res (h_realpath h (root_path r)) (\<lambda>server_path.
       if relative_to root server_path \<noteq> None \<or> relative_to server_path root \<noteq> None
       then Inr True else overlaps_any h root rs)"

definition transfer_root_overlaps_server_files :: "t_env \<Rightarrow> string \<Rightarrow> bool res" where
  "transfer_root_overlaps_server_files te root =
     (case get_roots (te_settings te) (te_host te) of
        Inl (ServerFiles k m) \<Rightarrow>
          if k = SfDisabled then Inr False
          else if k = SfConfiguration
          then Inl (ValueError ''Server Files configuration is invalid; transfer staging could not be validated.'')
          else Inl (ServerFiles k m)
      | Inl e \<Rightarrow> Inl e
      | Inr server_roots \<Rightarrow> overlaps_any (te_host te) root server_roots)"

definition transfer_root :: "t_env \<Rightarrow> string osio" where
  "transfer_root te =
     (let configured = cfg_get (te_settings te) ''TRANSFER_ROOT'' PNone;
          text = (if truthy configured then py_str configured else child (te_base_dir te) ''paxalia-files'')
      in bind (lift (configured_path te ''Transfer staging root is invalid.'' text)) (\<lambda>root.
         seq (require (\<not> is_anchor root) (ValueError ''Transfer staging root must be an explicit non-root directory.''))
         (seq (reject_existing_symlink_components te root)
         (bind (lift (transfer_root_overlaps_server_files te root)) (\<lambda>overlap.
          seq (require (\<not> overlap) (ValueError ''Transfer staging root must not overlap a Server Files root.''))
          (seq (os_as_value ''Transfer staging root could not be inspected safely.''
                 (bind (path_exists root) (\<lambda>ex.
                  bind (if ex then path_is_dir root else ret True) (\<lambda>d.
                  require d (ValueError ''Transfer staging root must be a directory.'')))))
               (ret root)))))))"

definition transfer_exchange_root :: "t_env \<Rightarrow> string osio" where
  "transfer_exchange_root te =
     (let configured = cfg_get (te_settings te) ''TRANSFER_EXCHANGE_ROOT'' PNone in
      seq (require (truthy configured) (ValueError ''Transfer exchange directory is not configured.''))
      (bind (lift (configured_path te ''Transfer exchange directory is invalid.'' (py_str configured))) (\<lambda>root.
       seq (require (\<not> is_anchor root) (ValueError ''Transfer exchange directory must be an explicit non-root directory.''))
       (seq (reject_existing_symlink_components te root)
       (seq (os_as_value ''Transfer exchange directory could not be inspected safely.''
              (bind (path_exists root) (\<lambda>ex.
               bind (if ex then path_is_dir root else ret False) (\<lambda>d.
               bind (if d then is_symlink root else ret True) (\<lambda>link.
               require (\<not> link) (ValueError ''Transfer exchange directory is unavailable.''))))))
            (lift (h_realpath (te_host te) root)))))))"

definition ensure_staging_directory :: "t_env \<Rightarrow> string \<Rightarrow> string osio" where
  "ensure_staging_directory te root0 =
     (let root = abspath (h_cwd (te_host te)) root0;
          failed = (\<lambda>m :: string osio. catch m (\<lambda>e. case e of
             OSError n \<Rightarrow> raise (ValueError ''Transfer staging directory could not be inspected safely.'')
           | RuntimeError \<Rightarrow> raise (ValueError ''Transfer staging directory could not be inspected safely.'')
           | _ \<Rightarrow> raise e))
      in seq (reject_existing_symlink_components te root)
         (failed
           (seq (mkdir_p (parent_path root))
           (bind (path_exists root) (\<lambda>ex.
            bind (if ex then is_symlink root else ret False) (\<lambda>link.
            seq (require (\<not> link) (ValueError ''Transfer staging directory must not be a symbolic link.''))
            (seq (mkdir_p root)
            (bind (is_symlink root) (\<lambda>link2.
             seq (require (\<not> link2) (ValueError ''Transfer staging directory must not be a symbolic link.''))
             (bind (path_is_dir root) (\<lambda>d.
              seq (require d (ValueError ''Transfer staging path must be a directory.''))
                  (lift (h_realpath (te_host te) root)))))))))))))"

definition send_root :: "t_env \<Rightarrow> string osio" where
  "send_root te = bind (transfer_root te) (\<lambda>root. ensure_staging_directory te (child root ''send''))"

definition receive_root :: "t_env \<Rightarrow> string osio" where
  "receive_root te = bind (transfer_root te) (\<lambda>root. ensure_staging_directory te (child root ''receive''))"

definition staging_roots :: "t_env \<Rightarrow> (string \<times> string) osio" where
  "staging_roots te = bind (send_root te) (\<lambda>s. bind (receive_root te) (\<lambda>r. ret (s, r)))"

text \<open>\<open>os.path.expanduser\<close> leaves a path alone where \<open>Path.expanduser\<close> raises.\<close>

definition safe_staging_path :: "t_env \<Rightarrow> string \<Rightarrow> string osio" where
  "safe_staging_path te path =
     (let candidate = abspath (h_cwd (te_host te)) (case te_expand te path of Inr q \<Rightarrow> q | Inl _ \<Rightarrow> path)
      in bind (staging_roots te) (\<lambda>(s, r).
         case find (\<lambda>root. relative_to candidate root \<noteq> None) [s, r] of
           None \<Rightarrow> raise (ValueError ''Transfer staging path escapes the configured Paxalia transfer root.'')
         | Some root \<Rightarrow> seq (reject_symlink_components candidate root) (ret candidate)))"

definition send_upload_temp_path :: "t_env \<Rightarrow> string \<Rightarrow> string osio" where
  "send_upload_temp_path te upload_id =
     bind (send_root te) (\<lambda>root. safe_staging_path te (child root (''.upload-'' @ upload_id)))"

section \<open>File names\<close>

definition pure_name :: "string \<Rightarrow> string" where
  "pure_name raw = (case rev (path_comps raw) of [] \<Rightarrow> [] | c # _ \<Rightarrow> c)"

definition longest_match :: "string list \<Rightarrow> string \<Rightarrow> string option" where
  "longest_match candidates lowered =
     find (\<lambda>ext. ends_with lowered ext) (py_sort length True (remdups candidates))"

definition validate_transfer_filename :: "settings \<Rightarrow> string \<Rightarrow> string res" where
  "validate_transfer_filename st name =
     (let raw = strip name in
      if raw = [] \<or> raw = ''.'' \<or> raw = ''..'' \<or> pure_name raw \<noteq> raw
         \<or> List.member raw CHR ''/'' \<or> List.member raw CHR 0x5C
      then Inl (ValueError ''Transfer filenames must contain a single filename, not a path.'')
      else bind_res (get_upload_blocked_extensions st) (\<lambda>bs.
           bind_res (get_upload_allowed_extensions st) (\<lambda>as0.
             let blocked = map lower bs;
                 allowed = map_option (map lower) as0;
                 matched = longest_match (blocked @ (case allowed of None \<Rightarrow> [] | Some xs \<Rightarrow> xs)) (lower raw)
             in if (case matched of None \<Rightarrow> False | Some ext \<Rightarrow> List.member blocked ext)
                then Inl (ValueError (''Files with extension '' @ [CHR 0x22] @ the matched @ [CHR 0x22] @ '' are not allowed.''))
                else if (case allowed of None \<Rightarrow> False
                         | Some xs \<Rightarrow> (case matched of None \<Rightarrow> True | Some ext \<Rightarrow> \<not> List.member xs ext))
                then Inl (ValueError ''The selected file extension is not allowed by this deployment.'')
                else Inr raw)))"

end
