(* ===== verification/Transfers.thy ===== *)
theory Transfers
  imports Staging
begin

text \<open>
  The Transfer Center (\<open>transfer_center/service.py\<close>, \<open>transfer_center/models.py\<close>): resumable sends
  and receives between a client and one fixed exchange directory, with checksums on both sides.

  The tables \<open>PaxaliaTransfer\<close> and \<open>FileUpload\<close> are lists of rows; \<open>atomic\<close> is a database
  transaction, whose tables go back to what they were when its body raises while the file system
  keeps what was done. Row locks make the transactions run one after the other. The clock stands
  still during a call. Alerts and log records are side channels that never raise and are left out.
\<close>

section \<open>Rows\<close>

datatype direction = Send | Receive

datatype t_status = Queued | Preparing | Transferring | Paused | Interrupted | Verifying
  | Completed | Failed | Cancelled | Expired

datatype u_status = UPending | UUploading | UCompleted | UFailed

datatype purpose = Release | TransferSend

record transfer =
  tr_id :: string
  tr_actor :: "int option"
  tr_direction :: direction
  tr_filename :: string
  tr_size :: int
  tr_bytes :: int
  tr_chunk_size :: int
  tr_total_chunks :: int
  tr_received :: "pyval list"
  tr_root_id :: string
  tr_path :: string
  tr_staging :: string
  tr_upload :: "string option"
  tr_status :: t_status
  tr_source_sum :: string
  tr_dest_sum :: string
  tr_retries :: int
  tr_max_retries :: int
  tr_error :: string
  tr_request_id :: string
  tr_created :: int
  tr_started :: "int option"
  tr_updated :: int
  tr_completed :: "int option"
  tr_expires :: "int option"

record file_upload =
  fu_id :: string
  fu_owner :: "int option"
  fu_filename :: string
  fu_total_size :: int
  fu_bytes :: int
  fu_chunk_size :: int
  fu_total_chunks :: int
  fu_chunks :: int
  fu_status :: u_status
  fu_purpose :: purpose
  fu_transfer :: "string option"
  fu_storage :: string
  fu_error :: string
  fu_created :: int
  fu_updated :: int
  fu_completed :: "int option"

text \<open>What the detail page says of the two checksums.\<close>

definition app_checksum :: "transfer \<Rightarrow> string" where
  "app_checksum t = (if tr_direction t = Send then tr_source_sum t else tr_dest_sum t)"

definition server_checksum :: "transfer \<Rightarrow> string" where
  "server_checksum t = (if tr_direction t = Send then tr_dest_sum t else tr_source_sum t)"

definition checksum_status :: "transfer \<Rightarrow> string" where
  "checksum_status t =
     (let client = app_checksum t; server = server_checksum t in
      if client \<noteq> [] \<and> server \<noteq> [] then (if client = server then ''verified'' else ''mismatch'')
      else if tr_status t = Verifying \<or> client \<noteq> [] \<or> server \<noteq> [] then ''pending''
      else ''not_available'')"

definition active_status :: "t_status \<Rightarrow> bool" where
  "active_status s \<longleftrightarrow> List.member [Queued, Preparing, Transferring, Paused, Interrupted, Verifying] s"

definition terminal_status :: "t_status \<Rightarrow> bool" where
  "terminal_status s \<longleftrightarrow> List.member [Completed, Failed, Cancelled, Expired] s"

section \<open>State\<close>

text \<open>\<open>tw_temp\<close> is the local variable \<open>temp_created\<close> of the promotion that is running, with what its
  clean-up needs: the root, the parts and the temporary name; \<open>tw_previous\<close> is the local variable
  \<open>previous_size\<close> of the chunk upload that is running, \<open>tw_moved\<close> holds \<open>final_path\<close> and \<open>temp_path\<close>
  of a completion once \<open>moved_to_final\<close> is set. \<open>tw_uuid\<close> is the stream of primary keys
  that \<open>uuid4\<close> will give to new rows.\<close>

record tworld =
  tw_os :: os
  tw_transfers :: "transfer list"
  tw_uploads :: "file_upload list"
  tw_now :: int
  tw_uuid :: "nat \<Rightarrow> string"
  tw_uuids :: nat
  tw_temp :: "(sf_root \<times> string list \<times> string) option"
  tw_previous :: int
  tw_moved :: "(string \<times> string) option"

type_synonym 'a tio = "(tworld, 'a) io"

definition on_fs :: "'a osio \<Rightarrow> 'a tio" where
  "on_fs m w = (case m (tw_os w) of (r, s) \<Rightarrow> (r, w\<lparr>tw_os := s\<rparr>))"

text \<open>A context manager of the Server Files service around a body that also uses the tables.\<close>

definition with_fs ::
  "((nat \<Rightarrow> string \<Rightarrow> ((exn + 'a) \<times> tworld) osio) \<Rightarrow> ((exn + 'a) \<times> tworld) osio)
    \<Rightarrow> (nat \<Rightarrow> string \<Rightarrow> 'a tio) \<Rightarrow> 'a tio"
where
  "with_fs manager body w =
     (case manager (\<lambda>fd name s. case body fd name (w\<lparr>tw_os := s\<rparr>) of (r, v) \<Rightarrow> (Inr (r, v), tw_os v)) (tw_os w) of
        (Inl e, s) \<Rightarrow> (Inl e, w\<lparr>tw_os := s\<rparr>)
      | (Inr (r, v), s) \<Rightarrow> (r, v\<lparr>tw_os := s\<rparr>))"

definition fresh_id :: "string tio" where
  "fresh_id w = (Inr (tw_uuid w (tw_uuids w)), w\<lparr>tw_uuids := Suc (tw_uuids w)\<rparr>)"

definition atomic :: "'a tio \<Rightarrow> 'a tio" where
  "atomic m w =
     (case m w of
        (Inl e, v) \<Rightarrow> (Inl e, v\<lparr>tw_transfers := tw_transfers w, tw_uploads := tw_uploads w\<rparr>)
      | r \<Rightarrow> r)"

definition find_transfer :: "string \<Rightarrow> transfer option tio" where
  "find_transfer i = gets (\<lambda>w. find (\<lambda>t. tr_id t = i) (tw_transfers w))"

definition get_transfer :: "string \<Rightarrow> transfer tio" where
  "get_transfer i = bind (find_transfer i) (\<lambda>r. case r of None \<Rightarrow> raise DoesNotExist | Some t \<Rightarrow> ret t)"

definition get_transfer_or :: "string \<Rightarrow> direction option \<Rightarrow> transfer tio" where
  "get_transfer_or i d =
     bind (find_transfer i) (\<lambda>r. case r of
       Some t \<Rightarrow> if d = None \<or> d = Some (tr_direction t) then ret t else raise (ValueError ''Transfer was not found.'')
     | None \<Rightarrow> raise (ValueError ''Transfer was not found.''))"

definition find_upload :: "string option \<Rightarrow> file_upload option tio" where
  "find_upload i = gets (\<lambda>w. case i of None \<Rightarrow> None | Some k \<Rightarrow> find (\<lambda>r. fu_id r = k) (tw_uploads w))"

text \<open>\<open>save(update_fields=[..., "updated_at"])\<close>: \<open>f\<close> changes the listed fields. The saved row is
  returned.\<close>

definition save_transfer :: "string \<Rightarrow> (transfer \<Rightarrow> transfer) \<Rightarrow> transfer tio" where
  "save_transfer i f =
     seq (modify (\<lambda>w. w\<lparr>tw_transfers :=
            map (\<lambda>t. if tr_id t = i then (f t)\<lparr>tr_updated := tw_now w\<rparr> else t) (tw_transfers w)\<rparr>))
         (get_transfer i)"

definition save_upload :: "string \<Rightarrow> (int \<Rightarrow> file_upload \<Rightarrow> file_upload) \<Rightarrow> unit tio" where
  "save_upload i f = modify (\<lambda>w. w\<lparr>tw_uploads :=
     map (\<lambda>r. if fu_id r = i then f (tw_now w) r else r) (tw_uploads w)\<rparr>)"

section \<open>Guards and helpers\<close>

definition ensure_enabled :: "t_env \<Rightarrow> unit tio" where
  "ensure_enabled te = require (transfer_enabled (te_settings te)) (PermissionDenied ''Paxalia Transfer Center is disabled.'')"

definition check_capability :: "user \<Rightarrow> string \<Rightarrow> unit tio" where
  "check_capability u codename =
     bind (lift (has_capability u codename)) (\<lambda>ok.
     require ok (PermissionDenied ''You do not have permission to perform this transfer operation.''))"

definition transfer_capabilities :: "user \<Rightarrow> direction \<Rightarrow> unit tio" where
  "transfer_capabilities u d =
     seq (check_capability u ''view_transfers'')
     (seq (check_capability u ''create_transfers'')
          (check_capability u (if d = Send then ''upload_server_files'' else ''download_server_files'')))"

definition owns :: "user \<Rightarrow> transfer \<Rightarrow> bool" where
  "owns u t \<longleftrightarrow> tr_actor t = Some (u_id u) \<or> u_superuser u"

definition require_owner :: "user \<Rightarrow> transfer \<Rightarrow> unit tio" where
  "require_owner u t = require (owns u t) (PermissionDenied ''You do not own this transfer.'')"

definition safe_filename :: "settings \<Rightarrow> string \<Rightarrow> string res" where
  "safe_filename st name = bind_res (validate_transfer_filename st name) validate_name"

definition staging_filename :: "t_env \<Rightarrow> string \<Rightarrow> string \<Rightarrow> string osio" where
  "staging_filename te file_id filename =
     bind (send_root te) (\<lambda>root.
     bind (lift (safe_filename (te_settings te) filename)) (\<lambda>name.
     ret (child root (file_id @ ''_'' @ name))))"

text \<open>\<open>except (OSError, ValueError): pass\<close>.\<close>

definition quietly :: "unit osio \<Rightarrow> unit osio" where
  "quietly m = catch m (\<lambda>e. case e of OSError n \<Rightarrow> ret () | ValueError t \<Rightarrow> ret () | _ \<Rightarrow> raise e)"

definition cleanup_staging :: "t_env \<Rightarrow> string \<Rightarrow> unit tio" where
  "cleanup_staging te path =
     on_fs (whenever (path \<noteq> []) (quietly (bind (safe_staging_path te path) unlink_path)))"

definition cleanup_send_upload_temp :: "t_env \<Rightarrow> string option \<Rightarrow> unit tio" where
  "cleanup_send_upload_temp te upload_id =
     (case upload_id of None \<Rightarrow> ret ()
      | Some i \<Rightarrow> on_fs (quietly (bind (send_upload_temp_path te i) unlink_path)))"

definition synced_upload :: "u_status option \<Rightarrow> string option \<Rightarrow> bool \<Rightarrow> int \<Rightarrow> file_upload \<Rightarrow> file_upload" where
  "synced_upload status message clear_storage now r =
     (let r1 = (case status of None \<Rightarrow> r | Some s \<Rightarrow> r\<lparr>fu_status := s\<rparr>);
          r2 = (case message of None \<Rightarrow> r1 | Some m \<Rightarrow> r1\<lparr>fu_error := take 500 m\<rparr>);
          r3 = (if clear_storage then r2\<lparr>fu_storage := []\<rparr> else r2);
          r4 = (if status = Some UFailed then r3\<lparr>fu_completed := None\<rparr> else r3)
      in if r4 = r then r else r4\<lparr>fu_updated := now\<rparr>)"

definition sync_transfer_upload_state ::
  "file_upload option \<Rightarrow> u_status option \<Rightarrow> string option \<Rightarrow> bool \<Rightarrow> unit tio"
where
  "sync_transfer_upload_state upload status message clear_storage =
     (case upload of None \<Rightarrow> ret ()
      | Some r \<Rightarrow> if fu_purpose r \<noteq> TransferSend then ret ()
                else save_upload (fu_id r) (synced_upload status message clear_storage))"

definition hex_digit_char :: "char \<Rightarrow> bool" where
  "hex_digit_char c \<longleftrightarrow> List.member ''0123456789abcdef'' c"

definition normalize_checksum :: "bool \<Rightarrow> pyval \<Rightarrow> string res" where
  "normalize_checksum optional value =
     (let checksum = lower (strip (if truthy value then py_str value else [])) in
      if checksum = [] \<and> optional then Inr []
      else if length checksum \<noteq> 64 \<or> list_ex (\<lambda>ch. \<not> hex_digit_char ch) checksum
      then Inl (ValueError ''A valid SHA-256 checksum is required.'')
      else Inr checksum)"

definition chunk_index :: "int \<Rightarrow> pyval \<Rightarrow> int list res" where
  "chunk_index total_chunks raw =
     (case py_int raw of
        Inr i \<Rightarrow> Inr (if 0 \<le> i \<and> i < total_chunks then [i] else [])
      | Inl TypeError \<Rightarrow> Inr []
      | Inl (ValueError m) \<Rightarrow> Inr []
      | Inl e \<Rightarrow> Inl e)"

definition valid_chunk_indexes :: "transfer \<Rightarrow> pyval list \<Rightarrow> int list res" where
  "valid_chunk_indexes t raws =
     bind_res (map_res (chunk_index (tr_total_chunks t)) raws) (\<lambda>iss. Inr (remdups (concat iss)))"

definition received_bytes :: "transfer \<Rightarrow> pyval list \<Rightarrow> int res" where
  "received_bytes t raws =
     bind_res (valid_chunk_indexes t raws) (\<lambda>indexes.
       Inr (min (tr_size t)
         (sum_list (map (\<lambda>i. min (tr_chunk_size t) (max 0 (tr_size t - i * tr_chunk_size t))) indexes))))"

section \<open>Reading to the end\<close>

lemma os_read_progress:
  assumes "os_read fd count s = (Inr bs, t)" "bs \<noteq> []"
  shows "(t, s) \<in> measures [\<lambda>s. length (os_sched s), \<lambda>s. case os_fds s fd of None \<Rightarrow> 0
     | Some i \<Rightarrow> length (file_data (os_fs s) i) - os_pos s fd]"
proof (cases "os_sched s")
  case Nil
  then have e: "next_event s = (Quiet, s)" by (simp add: next_event_def)
  obtain i where i: "os_fds s fd = Some i"
    using assms(1) e by (cases "os_fds s fd") (auto simp: os_read_def syscall_def bind_def fd_inode_def)
  have bs: "bs = take_int count (drop (os_pos s fd) (file_data (os_fs s) i))"
    and t: "t = s\<lparr>os_pos := (os_pos s)(fd := os_pos s fd + length bs)\<rparr>"
    using assms(1) e i by (auto simp: os_read_def syscall_def bind_def fd_inode_def Let_def)
  have "os_pos s fd < length (file_data (os_fs s) i)"
    using assms(2) bs by (auto simp: take_int_def split: if_splits)
  then show ?thesis using assms(2) t Nil i by (simp add: neq_Nil_conv) fastforce
next
  case (Cons ev evs)
  have "os_sched t = evs"
    using assms(1) Cons
    by (cases ev) (auto simp: os_read_def syscall_def bind_def fd_inode_def next_event_def Let_def
        split: option.splits)
  with Cons show ?thesis by simp
qed

function read_to_end :: "nat \<Rightarrow> string \<Rightarrow> os \<Rightarrow> (exn + string) \<times> os" where
  "read_to_end fd acc s =
     (case os_read fd READ_CHUNK s of
        (Inl e, t) \<Rightarrow> (Inl e, t)
      | (Inr chunk, t) \<Rightarrow> if chunk = [] then (Inr acc, t) else read_to_end fd (acc @ chunk) t)"
  by pat_completeness auto
termination
  by (relation "measures [\<lambda>(fd, acc, s). length (os_sched s), \<lambda>(fd, acc, s). case os_fds s fd of None \<Rightarrow> 0
     | Some i \<Rightarrow> length (file_data (os_fs s) i) - os_pos s fd]") (auto dest!: os_read_progress[OF sym])

declare read_to_end.simps [simp del]

definition hash_server_file :: "t_env \<Rightarrow> sf_root \<Rightarrow> string list \<Rightarrow> string osio" where
  "hash_server_file te root parts =
     bind (open_regular_file (te_files te) root parts (\<lambda>fd _. read_to_end fd [])) (\<lambda>bs. ret (te_sha te bs))"

definition os_lseek :: "nat \<Rightarrow> nat \<Rightarrow> unit osio" where
  "os_lseek fd pos = syscall (\<lambda>_. bind (fd_inode fd) (\<lambda>_.
     modify (\<lambda>s. s\<lparr>os_pos := (os_pos s)(fd := pos)\<rparr>)))"

definition hash_fd :: "t_env \<Rightarrow> nat \<Rightarrow> string osio" where
  "hash_fd te fd = seq (os_lseek fd 0) (bind (read_to_end fd []) (\<lambda>bs. ret (te_sha te bs)))"

section \<open>The exchange directory\<close>

definition resolve_transfer_exchange :: "t_env \<Rightarrow> user \<Rightarrow> bool \<Rightarrow> (sf_root \<times> string list) osio" where
  "resolve_transfer_exchange te u write =
     bind (transfer_exchange_root te) (\<lambda>exchange.
     bind (lift (get_roots (te_settings te) (te_host te))) (\<lambda>roots.
     bind (lift (map_res (\<lambda>root. bind_res (h_realpath (te_host te) (root_path root)) (\<lambda>root_path'.
        Inr (case relative_to exchange root_path' of
               None \<Rightarrow> [] | Some parts \<Rightarrow> if parts = [] then [] else [(root, parts)]))) roots)) (\<lambda>matches.
     case concat matches of
       [(root, folder_parts)] \<Rightarrow>
         bind (lift (assert_path_allowed (te_settings te) (te_host te) root folder_parts u write)) (\<lambda>_.
         bind (path_is_dir exchange) (\<lambda>d.
         bind (if d then is_symlink exchange else ret True) (\<lambda>link.
         seq (require (\<not> link) (ValueError ''Transfer exchange directory is unavailable.''))
             (ret (root, folder_parts)))))
     | _ \<Rightarrow> raise (ValueError ''Transfer exchange directory must be inside exactly one configured Server Files root.''))))"

definition not_authorized :: exn where
  "not_authorized = PermissionDenied ''The transfer path is no longer authorized by the transfer exchange policy.''"

fun as_not_authorized :: "sf_kind list \<Rightarrow> exn \<Rightarrow> exn" where
  "as_not_authorized ks (ServerFiles k m) = (if List.member ks k then not_authorized else ServerFiles k m)"
| "as_not_authorized ks (ValueError m) = not_authorized"
| "as_not_authorized ks e = e"

definition resolve_bound_transfer_path :: "t_env \<Rightarrow> transfer \<Rightarrow> user \<Rightarrow> bool \<Rightarrow> (sf_root \<times> string list) osio" where
  "resolve_bound_transfer_path te t u write =
     bind (catch (resolve_transfer_exchange te u write)
             (\<lambda>e. raise (as_not_authorized [SfConfiguration, SfDisabled, SfDenied] e))) (\<lambda>(root, folder_parts).
     bind (lift (on_error (as_not_authorized [SfInvalidPath, SfConfiguration, SfDenied, SfDisabled])
             (bind_res (get_root (get_roots (te_settings te) (te_host te)) (PStr (tr_root_id t))) (\<lambda>stored_root.
              bind_res (split_relative_path (PStr (tr_path t)) False) (\<lambda>stored_parts.
              bind_res (safe_filename (te_settings te) (tr_filename t)) (\<lambda>expected_name.
              Inr (stored_root, stored_parts, expected_name))))))) (\<lambda>(stored_root, stored_parts, expected_name).
     seq (require (root_id stored_root = root_id root) not_authorized)
     (seq (require (length stored_parts = length folder_parts + 1) not_authorized)
     (seq (require (butlast stored_parts = folder_parts \<and> last stored_parts = expected_name) not_authorized)
     (bind (lift (assert_path_allowed (te_settings te) (te_host te) root stored_parts u write)) (\<lambda>_.
      ret (root, stored_parts)))))))"

definition exchange_file_parts :: "t_env \<Rightarrow> user \<Rightarrow> string \<Rightarrow> bool \<Rightarrow> (sf_root \<times> string list \<times> string) osio" where
  "exchange_file_parts te u filename write =
     bind (resolve_transfer_exchange te u write) (\<lambda>(root, folder_parts).
     bind (lift (safe_filename (te_settings te) filename)) (\<lambda>name.
     bind (lift (assert_path_allowed (te_settings te) (te_host te) root (folder_parts @ [name]) u write)) (\<lambda>_.
     ret (root, folder_parts @ [name], name))))"

record exchange_file =
  xf_name :: string
  xf_size :: int
  xf_modified :: int
  xf_content_type :: string

definition exchange_list_limit :: "settings \<Rightarrow> int res" where
  "exchange_list_limit st =
     (case py_int (cfg_get st ''TRANSFER_EXCHANGE_LIST_LIMIT'' (PInt 200)) of
        Inr n \<Rightarrow> Inr (max 1 (min n 1000))
      | Inl TypeError \<Rightarrow> Inr 200
      | Inl (ValueError m) \<Rightarrow> Inr 200
      | Inl e \<Rightarrow> Inl e)"

text \<open>What one directory entry contributes; \<open>OSError\<close>, \<open>ServerFilesDenied\<close> and
  \<open>ServerFilesInvalidPath\<close> drop it.\<close>

definition exchange_entry :: "t_env \<Rightarrow> user \<Rightarrow> sf_root \<Rightarrow> string list \<Rightarrow> nat \<Rightarrow> string \<Rightarrow> exchange_file list osio" where
  "exchange_entry te u root folder_parts fd name =
     (if starts_with name ''.'' then ret []
      else catch
        (bind (stat_at fd name) (\<lambda>st.
         if st_kind st \<noteq> KFile then ret []
         else bind (lift (validate_name name)) (\<lambda>_.
              bind (lift (assert_path_allowed (te_settings te) (te_host te) root (folder_parts @ [name]) u False)) (\<lambda>_.
              bind (stat_at fd name) (\<lambda>file_stat.
              ret [\<lparr>xf_name = name, xf_size = st_size file_stat, xf_modified = st_mtime_ns file_stat,
                    xf_content_type = (case e_mime (te_files te) name of
                       Some t \<Rightarrow> if t = [] then ''application/octet-stream'' else t
                     | None \<Rightarrow> ''application/octet-stream'')\<rparr>])))))
        (\<lambda>e. case e of OSError n \<Rightarrow> ret []
           | ServerFiles k m \<Rightarrow> if k = SfDenied \<or> k = SfInvalidPath then ret [] else raise e
           | _ \<Rightarrow> raise e))"

fun exchange_entries ::
  "t_env \<Rightarrow> user \<Rightarrow> sf_root \<Rightarrow> string list \<Rightarrow> nat \<Rightarrow> int \<Rightarrow> exchange_file list \<Rightarrow> string list \<Rightarrow> exchange_file list osio"
where
  "exchange_entries te u root folder_parts fd limit files [] = ret files"
| "exchange_entries te u root folder_parts fd limit files (name # names) =
     (if int (length files) \<ge> limit then ret files
      else bind (exchange_entry te u root folder_parts fd name) (\<lambda>item.
           exchange_entries te u root folder_parts fd limit (files @ item) names))"

definition list_transfer_exchange_files :: "t_env \<Rightarrow> user \<Rightarrow> exchange_file list osio" where
  "list_transfer_exchange_files te u =
     bind (resolve_transfer_exchange te u False) (\<lambda>(root, folder_parts).
     bind (lift (exchange_list_limit (te_settings te))) (\<lambda>limit.
     bind (open_directory (te_files te) root folder_parts (\<lambda>fd.
        on_os_error
          (bind (scandir fd) (\<lambda>names. exchange_entries te u root folder_parts fd limit [] names))
          (\<lambda>_. raise (ValueError ''The transfer exchange directory could not be listed safely.'')))) (\<lambda>files.
     ret (py_sort (\<lambda>item. casefold (xf_name item)) False files))))"

section \<open>Creating and resuming\<close>

definition active_count :: "tworld \<Rightarrow> int" where
  "active_count w = int (length (filter (\<lambda>t. active_status (tr_status t)) (tw_transfers w)))"

definition acquire_transfer_slot :: "t_env \<Rightarrow> unit tio" where
  "acquire_transfer_slot te =
     bind (gets active_count) (\<lambda>n.
     bind (lift (max_concurrent_transfers (te_settings te))) (\<lambda>m.
     require (\<not> n \<ge> m) (PermissionDenied ''The configured concurrent transfer limit has been reached.'')))"

definition insert_transfer :: "transfer \<Rightarrow> unit tio" where
  "insert_transfer t = modify (\<lambda>w. w\<lparr>tw_transfers := tw_transfers w @ [t]\<rparr>)"

definition insert_upload :: "file_upload \<Rightarrow> unit tio" where
  "insert_upload r = modify (\<lambda>w. w\<lparr>tw_uploads := tw_uploads w @ [r]\<rparr>)"

text \<open>\<open>int(total_size)\<close> with \<open>TypeError\<close> and \<open>ValueError\<close> turned into a message.\<close>

definition parse_total_size :: "pyval \<Rightarrow> int res" where
  "parse_total_size v =
     (case py_int v of
        Inl TypeError \<Rightarrow> Inl (ValueError ''Transfer size must be an integer.'')
      | Inl (ValueError m) \<Rightarrow> Inl (ValueError ''Transfer size must be an integer.'')
      | r \<Rightarrow> r)"

text \<open>The preflight: the requested name is free in the exchange directory.\<close>

definition require_free_name :: "t_env \<Rightarrow> sf_root \<Rightarrow> string list \<Rightarrow> unit osio" where
  "require_free_name te root parts =
     catch
       (open_parent (te_files te) root parts (\<lambda>parent_fd name.
          bind (on_os_error (bind (stat_at parent_fd name) (\<lambda>_. ret True))
                  (\<lambda>n. if n = ENOENT then ret False else raise (OSError n))) (\<lambda>exists.
          require (\<not> exists) (sf_msg SfAlreadyExists
            ''A file with this name already exists in the transfer exchange. Rename the local file and upload again.''))))
       (\<lambda>e. case e of
          ServerFiles k m \<Rightarrow>
            if k = SfNotFound then raise (ValueError ''The transfer exchange directory is unavailable.'') else raise e
        | _ \<Rightarrow> raise e)"

definition create_send_transfer ::
  "t_env \<Rightarrow> user \<Rightarrow> string \<Rightarrow> pyval \<Rightarrow> pyval \<Rightarrow> string \<Rightarrow> (transfer \<times> string) tio"
where
  "create_send_transfer te u filename0 total_size0 source_checksum0 request_id0 =
     (let st = te_settings te in
      seq (ensure_enabled te)
      (seq (transfer_capabilities u Send)
      (bind (lift (normalize_checksum True source_checksum0)) (\<lambda>source_checksum.
       bind (lift (parse_total_size total_size0)) (\<lambda>total_size.
       bind (lift (max_transfer_bytes st)) (\<lambda>most.
       seq (require (\<not> (total_size \<le> 0 \<or> total_size > most)) (ValueError ''Transfer size exceeds the configured limit.''))
       (bind (lift (safe_filename st filename0)) (\<lambda>filename1.
        bind (on_fs (exchange_file_parts te u filename1 True)) (\<lambda>(root, exchange_parts, filename).
        seq (on_fs (require_free_name te root exchange_parts))
        (bind (gets tw_now) (\<lambda>now.
         atomic
          (seq (acquire_transfer_slot te)
          (bind fresh_id (\<lambda>tid.
           bind (lift (chunk_size_bytes st)) (\<lambda>chunk.
           bind (lift (max_retries st)) (\<lambda>retries.
           bind (lift (expiration_hours st)) (\<lambda>hours.
           seq (insert_transfer
             \<lparr>tr_id = tid, tr_actor = Some (u_id u), tr_direction = Send, tr_filename = filename, tr_size = total_size,
              tr_bytes = 0, tr_chunk_size = chunk, tr_total_chunks = (total_size + chunk - 1) div chunk, tr_received = [],
              tr_root_id = take 64 (root_id root), tr_path = join ''/'' (butlast exchange_parts @ [filename]),
              tr_staging = [], tr_upload = None, tr_status = Queued, tr_source_sum = source_checksum, tr_dest_sum = [],
              tr_retries = 0, tr_max_retries = retries, tr_error = [], tr_request_id = take 128 request_id0,
              tr_created = now, tr_started = Some now, tr_updated = now, tr_completed = None,
              tr_expires = Some (now + hours * 3600)\<rparr>)
           (bind fresh_id (\<lambda>uid.
            seq (insert_upload
              \<lparr>fu_id = uid, fu_owner = Some (u_id u), fu_filename = filename, fu_total_size = total_size, fu_bytes = 0,
               fu_chunk_size = chunk, fu_total_chunks = (total_size + chunk - 1) div chunk, fu_chunks = 0,
               fu_status = UPending, fu_purpose = TransferSend, fu_transfer = Some tid, fu_storage = [], fu_error = [],
               fu_created = now, fu_updated = now, fu_completed = None\<rparr>)
            (bind (on_fs (staging_filename te uid filename)) (\<lambda>staging.
             bind (save_transfer tid (\<lambda>t. t\<lparr>tr_upload := Some uid, tr_status := Preparing, tr_staging := staging\<rparr>)) (\<lambda>t.
             ret (t, uid)))))))))))))))))))))))"

text \<open>What a resumable send has: either its finished staging file, or the partial upload.\<close>

definition resumed_send :: "t_env \<Rightarrow> transfer \<Rightarrow> file_upload \<Rightarrow> string \<Rightarrow> (t_status \<times> int) osio" where
  "resumed_send te t upload ending =
     (if fu_status upload = UCompleted then
        bind (safe_staging_path te (tr_staging t)) (\<lambda>staging.
        bind (path_is_file staging) (\<lambda>present.
        bind (if present then bind (stat_path staging) (\<lambda>st. ret (st_size st = tr_size t)) else ret False) (\<lambda>fine.
        seq (require fine (ValueError (''Completed transfer staging data is missing or inconsistent'' @ ending)))
        (bind (if fu_storage upload = [] then ret True
               else bind (lift (h_realpath (te_host te) (fu_storage upload))) (\<lambda>a.
                    bind (lift (h_realpath (te_host te) staging)) (\<lambda>b. ret (a = b)))) (\<lambda>same.
         seq (require same (ValueError (''Completed transfer staging data is inconsistent'' @ ending)))
             (ret (Verifying, tr_size t)))))))
      else
        bind (send_upload_temp_path te (fu_id upload)) (\<lambda>temp.
        bind (if fu_chunks upload \<noteq> 0
              then bind (path_is_file temp) (\<lambda>present.
                   if present then bind (stat_path temp) (\<lambda>st. ret (st_size st = fu_bytes upload)) else ret False)
              else ret True) (\<lambda>fine.
        seq (require fine (ValueError (
               (if ending = ''.'' then ''Resumable'' else ''Verified'')
               @ '' transfer staging data is missing or inconsistent'' @ ending)))
            (ret (if fu_chunks upload \<noteq> 0 then Transferring else Preparing,
                  min (tr_size t) (max 0 (fu_bytes upload)))))))"

definition get_upload :: "string option \<Rightarrow> file_upload tio" where
  "get_upload i = bind (find_upload i) (\<lambda>r. case r of None \<Rightarrow> raise DoesNotExist | Some x \<Rightarrow> ret x)"

definition resume_send_transfer :: "t_env \<Rightarrow> string \<Rightarrow> user \<Rightarrow> (transfer \<times> file_upload) tio" where
  "resume_send_transfer te transfer_id u =
     seq (ensure_enabled te)
     (seq (transfer_capabilities u Send)
     (atomic
       (bind (get_transfer_or transfer_id (Some Send)) (\<lambda>t.
        seq (require_owner u t)
        (seq (require (\<not> terminal_status (tr_status t)) (ValueError ''This transfer cannot be resumed.''))
        (seq (require (tr_upload t \<noteq> None) (ValueError ''This transfer cannot be resumed.''))
        (bind (on_fs (resolve_bound_transfer_path te t u True)) (\<lambda>_.
         bind (get_upload (tr_upload t)) (\<lambda>upload.
         seq (require (fu_owner upload = Some (u_id u) \<or> u_superuser u)
               (PermissionDenied ''You do not own this transfer upload.''))
         (seq (require (fu_status upload \<noteq> UFailed)
                (ValueError ''The transfer upload session has failed; a new transfer is required.''))
         (bind (on_fs (resumed_send te t upload ''.'')) (\<lambda>(status, bytes).
          bind (gets tw_now) (\<lambda>now.
          bind (lift (expiration_hours (te_settings te))) (\<lambda>hours.
          bind (save_transfer (tr_id t) (\<lambda>r. r\<lparr>tr_status := status, tr_bytes := bytes,
                  tr_expires := Some (now + hours * 3600),
                  tr_started := (case tr_started t of None \<Rightarrow> Some now | Some x \<Rightarrow> tr_started r)\<rparr>)) (\<lambda>r.
          ret (r, upload))))))))))))))))"

definition resume_receive_transfer :: "t_env \<Rightarrow> string \<Rightarrow> user \<Rightarrow> transfer tio" where
  "resume_receive_transfer te transfer_id u =
     seq (ensure_enabled te)
     (seq (transfer_capabilities u Receive)
     (atomic
       (bind (get_transfer_or transfer_id (Some Receive)) (\<lambda>t.
        seq (require_owner u t)
        (seq (require (\<not> terminal_status (tr_status t)) (ValueError ''This transfer cannot be resumed.''))
        (bind (on_fs (resolve_bound_transfer_path te t u False)) (\<lambda>_.
         bind (gets tw_now) (\<lambda>now.
         bind (lift (expiration_hours (te_settings te))) (\<lambda>hours.
         save_transfer (tr_id t) (\<lambda>r. r\<lparr>tr_status := Transferring, tr_expires := Some (now + hours * 3600)\<rparr>))))))))))"

definition pause_transfer :: "t_env \<Rightarrow> transfer \<Rightarrow> user \<Rightarrow> transfer tio" where
  "pause_transfer te t0 u =
     seq (ensure_enabled te)
     (seq (transfer_capabilities u (tr_direction t0))
     (atomic
       (bind (get_transfer (tr_id t0)) (\<lambda>t.
        seq (require_owner u t)
        (seq (require (List.member [Preparing, Transferring, Interrupted] (tr_status t))
               (ValueError ''Only active transfers can be paused.''))
        (save_transfer (tr_id t) (\<lambda>r. r\<lparr>tr_status := Paused\<rparr>)))))))"

definition retry_send :: "t_env \<Rightarrow> transfer \<Rightarrow> user \<Rightarrow> (t_status \<times> int) tio" where
  "retry_send te t u =
     seq (check_capability u ''create_transfers'')
     (seq (check_capability u ''upload_server_files'')
     (bind (on_fs (resolve_bound_transfer_path te t u True)) (\<lambda>_.
      seq (require (tr_upload t \<noteq> None) (ValueError ''The resumable upload session is missing.''))
      (bind (find_upload (tr_upload t)) (\<lambda>r. case r of
         None \<Rightarrow> raise (ValueError ''The resumable upload session is missing.'')
       | Some upload \<Rightarrow>
           seq (require (fu_status upload \<noteq> UFailed)
                 (ValueError ''The transfer upload session has failed; a new transfer is required.''))
               (on_fs (resumed_send te t upload ''; a new transfer is required.'')))))))"

definition retry_transfer :: "t_env \<Rightarrow> transfer \<Rightarrow> user \<Rightarrow> transfer tio" where
  "retry_transfer te t0 u =
     seq (ensure_enabled te)
     (seq (transfer_capabilities u (tr_direction t0))
     (atomic
       (bind (get_transfer (tr_id t0)) (\<lambda>t.
        seq (require_owner u t)
        (seq (require (List.member [Failed, Interrupted, Paused] (tr_status t))
               (ValueError ''Only failed, interrupted, or paused transfers can be resumed.''))
        (let is_retry = List.member [Failed, Interrupted, Paused] (tr_status t);
             needs_new_slot = List.member [Failed, Interrupted] (tr_status t)
         in seq (require (\<not> (is_retry \<and> tr_retries t \<ge> tr_max_retries t))
                 (ValueError ''The configured transfer retry limit has been reached.''))
            (seq (whenever needs_new_slot (acquire_transfer_slot te))
            (bind (if tr_direction t = Send then retry_send te t u
                   else seq (bind (on_fs (resolve_bound_transfer_path te t u False)) (\<lambda>_. ret ()))
                        (bind (lift (valid_chunk_indexes t (tr_received t))) (\<lambda>indexes.
                         ret (if indexes \<noteq> [] then Transferring else Preparing, tr_bytes t)))) (\<lambda>(status, bytes).
             bind (gets tw_now) (\<lambda>now.
             bind (lift (expiration_hours (te_settings te))) (\<lambda>hours.
             save_transfer (tr_id t) (\<lambda>r. r\<lparr>tr_status := status, tr_bytes := bytes,
               tr_retries := (if is_retry then tr_retries t + 1 else tr_retries t),
               tr_error := [], tr_expires := Some (now + hours * 3600)\<rparr>))))))))))))"

section \<open>Finishing a send\<close>

function promote_copy :: "nat \<Rightarrow> nat \<Rightarrow> int \<Rightarrow> string \<Rightarrow> os \<Rightarrow> (exn + string) \<times> os" where
  "promote_copy source_fd fd sz acc s =
     (if int (length acc) \<ge> sz then (Inr acc, s)
      else case os_read source_fd (min READ_CHUNK (sz - int (length acc))) s of
             (Inl e, t) \<Rightarrow> (Inl e, t)
           | (Inr chunk, t) \<Rightarrow>
               if chunk = [] then (Inl (OSError EIO), t)
               else (case write_all fd chunk t of
                       (Inl e, v) \<Rightarrow> (Inl e, v)
                     | (Inr _, v) \<Rightarrow> promote_copy source_fd fd sz (acc @ chunk) v))"
  by pat_completeness auto
termination
  by (relation "measure (\<lambda>(a, b, sz, acc, s). nat (sz - int (length acc)))") (auto simp: neq_Nil_conv)

declare promote_copy.simps [simp del]

definition fail_send :: "t_env \<Rightarrow> transfer \<Rightarrow> file_upload \<Rightarrow> string \<Rightarrow> string \<Rightarrow> bool \<Rightarrow> transfer tio" where
  "fail_send te t upload staging message remove =
     seq (whenever remove (cleanup_staging te staging))
     (seq (sync_transfer_upload_state (Some upload) (Some UFailed) (Some message) True)
     (save_transfer (tr_id t) (\<lambda>r. r\<lparr>tr_status := Failed, tr_error := message, tr_source_sum := tr_source_sum t\<rparr>)))"

text \<open>The verified copy under its temporary name becomes the exchange file, or the transfer fails.\<close>

definition promote_link ::
  "t_env \<Rightarrow> transfer \<Rightarrow> file_upload \<Rightarrow> string \<Rightarrow> nat \<Rightarrow> string \<Rightarrow> string \<Rightarrow> string \<Rightarrow> transfer tio"
where
  "promote_link te t upload staging parent_fd temp name destination_hash =
     bind (on_fs (on_os_error (seq (link_at parent_fd temp parent_fd name) (ret True))
             (\<lambda>n. if n = EEXIST then ret False else raise (OSError n)))) (\<lambda>linked.
     if \<not> linked then
       save_transfer (tr_id t) (\<lambda>r. r\<lparr>tr_dest_sum := [], tr_status := Failed,
         tr_error := ''A file with this name already exists in the transfer exchange. Rename the local file and upload again.'',
         tr_source_sum := tr_source_sum t\<rparr>)
     else
       seq (on_fs (unlink_at parent_fd temp))
       (seq (modify (\<lambda>w. w\<lparr>tw_temp := None\<rparr>))
       (seq (on_fs (os_fsync parent_fd))
       (seq (cleanup_staging te staging)
       (seq (sync_transfer_upload_state (Some upload) (Some UCompleted) None True)
       (bind (gets tw_now) (\<lambda>now.
        save_transfer (tr_id t) (\<lambda>r. r\<lparr>tr_dest_sum := destination_hash, tr_status := Completed, tr_completed := Some now,
          tr_error := [], tr_bytes := tr_size t, tr_source_sum := tr_source_sum t\<rparr>)))))))) "

definition promote_body ::
  "t_env \<Rightarrow> transfer \<Rightarrow> file_upload \<Rightarrow> string \<Rightarrow> nat \<Rightarrow> fstat \<Rightarrow> sf_root \<Rightarrow> string list \<Rightarrow> nat \<Rightarrow> string \<Rightarrow> transfer tio"
where
  "promote_body te t upload staging source_fd source_stat root parts parent_fd name =
     bind (on_fs fresh_uuid) (\<lambda>hex. let temp = ''.paxalia-transfer-'' @ hex @ ''.part'' in
     bind (on_fs (create_at parent_fd temp 384)) (\<lambda>fd.
     seq (modify (\<lambda>w. w\<lparr>tw_temp := Some (root, parts, temp)\<rparr>))
     (cleanup
       (bind (on_fs (promote_copy source_fd fd (tr_size t) [])) (\<lambda>bytes.
        seq (require (int (length bytes) = tr_size t) (OSError EIO))
        (bind (on_fs (os_fstat source_fd)) (\<lambda>current_source.
         seq (require (same_file source_stat current_source) (ValueError ''Transfer staging file changed during verification.''))
         (seq (on_fs (os_fsync fd))
         (bind (on_fs (hash_fd te fd)) (\<lambda>destination_hash.
          let source_hash = te_sha te bytes;
              message = ''Source and server destination SHA-256 checksums do not match.''
          in if source_hash \<noteq> tr_source_sum t \<or> destination_hash \<noteq> source_hash then
               seq (cleanup_staging te staging)
               (seq (sync_transfer_upload_state (Some upload) (Some UFailed) (Some message) True)
               (save_transfer (tr_id t) (\<lambda>r. r\<lparr>tr_dest_sum := [], tr_status := Failed, tr_error := message,
                  tr_source_sum := tr_source_sum t\<rparr>)))
             else promote_link te t upload staging parent_fd temp name destination_hash)))))))
       (seq (on_fs (os_close fd))
       (bind (gets tw_temp) (\<lambda>tc.
        whenever (tc \<noteq> None)
          (seq (on_fs (on_os_error (unlink_at parent_fd temp) (\<lambda>_. ret ())))
               (modify (\<lambda>w. w\<lparr>tw_temp := None\<rparr>)))))))))"

definition promote :: "t_env \<Rightarrow> transfer \<Rightarrow> file_upload \<Rightarrow> string \<Rightarrow> user \<Rightarrow> transfer tio" where
  "promote te t upload staging u =
     bind (on_fs (open_read_path staging)) (\<lambda>source_fd.
     cleanup
       (bind (on_fs (os_fstat source_fd)) (\<lambda>source_stat.
        seq (require (st_kind source_stat = KFile \<and> st_size source_stat = tr_size t)
              (ValueError ''Transfer staging file changed during verification.''))
        (bind (on_fs (resolve_bound_transfer_path te t u True)) (\<lambda>(root, parts).
         bind (lift (validate_name (last parts))) (\<lambda>_.
         with_fs (open_parent (te_files te) root parts)
           (promote_body te t upload staging source_fd source_stat root parts))))))
       (on_fs (os_close source_fd)))"

text \<open>\<open>except (OSError, ValueError, PermissionDenied) as exc\<close>: a temporary file that its own clean-up
  could not reach is removed, then the row is marked.\<close>

definition promotion_message :: "exn \<Rightarrow> string option" where
  "promotion_message e =
     (case e of
        OSError n \<Rightarrow> Some (if n = ENOENT then ''Transfer destination promotion failed; the exchange directory is unavailable.''
                          else ''Transfer destination promotion failed; retry or inspect server logs.'')
      | PermissionDenied m \<Rightarrow> Some ''Transfer destination promotion failed; permission was denied.''
      | ValueError m \<Rightarrow> Some ''Transfer destination promotion failed; retry or inspect server logs.''
      | _ \<Rightarrow> None)"

definition promotion_failed :: "t_env \<Rightarrow> transfer \<Rightarrow> exn \<Rightarrow> transfer tio" where
  "promotion_failed te t e =
     (case promotion_message e of
        None \<Rightarrow> raise e
      | Some message \<Rightarrow>
          bind (gets tw_temp) (\<lambda>tc.
          seq (case tc of None \<Rightarrow> ret ()
               | Some (root, parts, temp) \<Rightarrow>
                   catch (on_fs (open_parent (te_files te) root parts (\<lambda>parent_fd _. unlink_at parent_fd temp)))
                     (\<lambda>_. ret ()))
          (save_transfer (tr_id t) (\<lambda>r. r\<lparr>tr_status := Failed, tr_error := message\<rparr>))))"

definition finalize_ready :: "t_env \<Rightarrow> transfer \<Rightarrow> file_upload \<Rightarrow> string \<Rightarrow> user \<Rightarrow> bool \<Rightarrow> transfer tio" where
  "finalize_ready te t upload staging u allow_large =
     seq (bind (save_transfer (tr_id t) (\<lambda>r. r\<lparr>tr_status := Verifying, tr_error := [], tr_source_sum := tr_source_sum t\<rparr>))
            (\<lambda>_. ret ()))
     (bind (lift (sync_verify_max_bytes (te_settings te))) (\<lambda>most.
      if tr_size t > most \<and> \<not> (allow_large
           \<or> truthy (cfg_get (te_settings te) ''TRANSFER_ALLOW_SYNC_LARGE_PROMOTION'' (PBool False)))
      then get_transfer (tr_id t)
      else seq (modify (\<lambda>w. w\<lparr>tw_temp := None\<rparr>))
             (catch (promote te t upload staging u) (promotion_failed te t))))"

definition finalize_upload ::
  "t_env \<Rightarrow> transfer \<Rightarrow> file_upload \<Rightarrow> user \<Rightarrow> bool \<Rightarrow> transfer tio"
where
  "finalize_upload te t upload u allow_large =
     bind (on_fs (safe_staging_path te (tr_staging t))) (\<lambda>staging.
     if fu_storage upload = []
     then fail_send te t upload staging ''Transfer upload staging reference is missing.'' True
     else bind (lift (h_realpath (te_host te) (fu_storage upload))) (\<lambda>a.
          bind (lift (h_realpath (te_host te) staging)) (\<lambda>b.
          if a \<noteq> b then fail_send te t upload staging ''Transfer upload staging data is inconsistent.'' True
          else bind (on_fs (path_is_file staging)) (\<lambda>present.
               if \<not> present then fail_send te t upload staging ''Transfer staging file is missing.'' False
               else bind (on_fs (stat_path staging)) (\<lambda>st.
                    if st_size st \<noteq> tr_size t
                    then fail_send te t upload staging ''Transfer staging file size does not match the declared size.'' True
                    else if tr_source_sum t = []
                    then fail_send te t upload staging
                           ''A source SHA-256 checksum is required before transfer completion.'' True
                    else finalize_ready te t upload staging u allow_large)))))"

definition sync_finalize_send :: "t_env \<Rightarrow> string \<Rightarrow> user \<Rightarrow> pyval \<Rightarrow> bool \<Rightarrow> transfer tio" where
  "sync_finalize_send te transfer_id u source_checksum allow_large =
     seq (ensure_enabled te)
     (seq (transfer_capabilities u Send)
     (atomic
       (bind (get_transfer_or transfer_id None) (\<lambda>t.
        seq (require (tr_direction t = Send) (ValueError ''Not a send transfer.''))
        (seq (require_owner u t)
        (if terminal_status (tr_status t) then ret t
         else
           seq (require (tr_status t \<noteq> Paused) (ValueError ''Transfer is paused; resume it before finalization.''))
           (seq (require (List.member [Preparing, Transferring, Interrupted, Verifying] (tr_status t))
                  (ValueError ''Transfer is not ready for finalization.''))
           (bind (find_upload (tr_upload t)) (\<lambda>r. case r of
              None \<Rightarrow> raise (ValueError ''The transfer upload session is not complete.'')
            | Some upload \<Rightarrow>
                seq (require (fu_status upload = UCompleted) (ValueError ''The transfer upload session is not complete.''))
                (seq (require (fu_owner upload = tr_actor t \<or> u_superuser u)
                       (PermissionDenied ''You do not own this transfer upload.''))
                (bind (if source_checksum = PNone then ret [] else lift (normalize_checksum True source_checksum)) (\<lambda>submitted.
                 finalize_upload te (if submitted = [] then t else t\<lparr>tr_source_sum := submitted\<rparr>) upload u allow_large))))))))))))"
section \<open>Receiving\<close>

definition create_receive_transfer :: "t_env \<Rightarrow> user \<Rightarrow> string \<Rightarrow> string \<Rightarrow> transfer tio" where
  "create_receive_transfer te u source_path filename0 =
     (let st = te_settings te; requested = (if filename0 \<noteq> [] then filename0 else source_path) in
      seq (ensure_enabled te)
      (seq (transfer_capabilities u Receive)
      (seq (require (\<not> (requested = [] \<or> List.member requested CHR ''/'' \<or> List.member requested CHR 0x5C))
             (ValueError ''Choose a file from the configured Paxalia transfer exchange.''))
      (bind (on_fs (exchange_file_parts te u requested False)) (\<lambda>(root, parts, name).
       bind (on_fs (open_regular_file (te_files te) root parts (\<lambda>fd file_stat.
              bind (lift (max_transfer_bytes st)) (\<lambda>most.
              seq (require (\<not> (st_size file_stat \<le> 0 \<or> st_size file_stat > most))
                    (ValueError ''File exceeds the configured transfer size limit.''))
                  (ret (st_size file_stat)))))) (\<lambda>sz.
       bind (gets tw_now) (\<lambda>now.
       atomic
        (seq (acquire_transfer_slot te)
        (bind fresh_id (\<lambda>tid.
         bind (lift (chunk_size_bytes st)) (\<lambda>chunk.
         bind (lift (max_retries st)) (\<lambda>retries.
         bind (lift (expiration_hours st)) (\<lambda>hours.
         seq (insert_transfer
           \<lparr>tr_id = tid, tr_actor = Some (u_id u), tr_direction = Receive, tr_filename = name, tr_size = sz,
            tr_bytes = 0, tr_chunk_size = chunk, tr_total_chunks = (sz + chunk - 1) div chunk, tr_received = [],
            tr_root_id = take 64 (root_id root), tr_path = join ''/'' parts,
            tr_staging = [], tr_upload = None, tr_status = Preparing, tr_source_sum = [], tr_dest_sum = [],
            tr_retries = 0, tr_max_retries = retries, tr_error = [], tr_request_id = [],
            tr_created = now, tr_started = Some now, tr_updated = now, tr_completed = None,
            tr_expires = Some (now + hours * 3600)\<rparr>)
         (bind (lift (sync_verify_max_bytes st)) (\<lambda>most.
          bind (if sz \<le> most
                then on_fs (on_os_error (bind (hash_server_file te root parts) (\<lambda>h. ret (h, Preparing, [])))
                       (\<lambda>_. ret ([], Failed, ''The source file could not be hashed safely.'')))
                else ret ([], Preparing, [])) (\<lambda>(checksum, status, message).
          bind (save_transfer tid (\<lambda>r. r\<lparr>tr_source_sum := checksum, tr_status := status\<rparr>)) (\<lambda>r.
          ret (r\<lparr>tr_error := message\<rparr>))))))))))))))))))"

function read_exactly :: "nat \<Rightarrow> int \<Rightarrow> string \<Rightarrow> os \<Rightarrow> (exn + string) \<times> os" where
  "read_exactly fd len buffer s =
     (if int (length buffer) \<ge> len then (Inr buffer, s)
      else case os_read fd (min READ_CHUNK (len - int (length buffer))) s of
             (Inl e, t) \<Rightarrow> (Inl e, t)
           | (Inr piece, t) \<Rightarrow> if piece = [] then (Inr buffer, t) else read_exactly fd len (buffer @ piece) t)"
  by pat_completeness auto
termination
  by (relation "measure (\<lambda>(fd, len, buffer, s). nat (len - int (length buffer)))") (auto simp: neq_Nil_conv)

declare read_exactly.simps [simp del]

text \<open>\<open>{int(index) for index in received if str(index).lstrip("-").isdigit()}\<close>.\<close>

definition digit_text :: "string \<Rightarrow> bool" where
  "digit_text s \<longleftrightarrow> s \<noteq> [] \<and> list_all (\<lambda>c. is_digit c \<or> List.member [CHR 0xB2, CHR 0xB3, CHR 0xB9] c) s"

definition recorded_chunk :: "pyval \<Rightarrow> int list res" where
  "recorded_chunk index =
     (if digit_text (dropWhile (\<lambda>c. c = CHR ''-'') (py_str index)) then bind_res (py_int index) (\<lambda>i. Inr [i]) else Inr [])"

definition recorded_chunks :: "pyval list \<Rightarrow> int \<Rightarrow> int list res" where
  "recorded_chunks raws new =
     bind_res (map_res recorded_chunk raws) (\<lambda>iss. Inr (sort (remdups (new # concat iss))))"

definition chunk_position :: "pyval \<Rightarrow> int res" where
  "chunk_position v =
     (case py_int v of
        Inl TypeError \<Rightarrow> Inl (ValueError ''Invalid chunk index.'')
      | Inl (ValueError m) \<Rightarrow> Inl (ValueError ''Invalid chunk index.'')
      | r \<Rightarrow> r)"

definition read_receive_chunk :: "t_env \<Rightarrow> transfer \<Rightarrow> user \<Rightarrow> pyval \<Rightarrow> string tio" where
  "read_receive_chunk te t0 u chunk_index0 =
     seq (ensure_enabled te)
     (seq (transfer_capabilities u Receive)
     (seq (require (tr_direction t0 = Receive) (ValueError ''Not a receive transfer.''))
     (seq (require_owner u t0)
     (seq (require (\<not> terminal_status (tr_status t0)) (ValueError ''Transfer is not active.''))
     (seq (require (tr_status t0 \<noteq> Paused) (ValueError ''Transfer is paused.''))
     (bind (lift (chunk_position chunk_index0)) (\<lambda>index.
      seq (require (\<not> (index < 0 \<or> index \<ge> tr_total_chunks t0)) (ValueError ''Chunk out of range.''))
      (bind (on_fs (resolve_bound_transfer_path te t0 u False)) (\<lambda>(root, parts).
       let start = index * tr_chunk_size t0; len = min (tr_chunk_size t0) (tr_size t0 - start) in
       bind (on_fs (open_regular_file (te_files te) root parts (\<lambda>fd file_stat.
              seq (require (st_size file_stat = tr_size t0) (ValueError ''The source file changed during transfer.''))
              (seq (os_lseek fd (nat start)) (read_exactly fd len []))))) (\<lambda>buffer.
       seq (require (int (length buffer) = len)
             (ValueError ''The requested transfer chunk could not be read completely.''))
       (seq (atomic
         (bind (get_transfer (tr_id t0)) (\<lambda>t.
          seq (require (\<not> (terminal_status (tr_status t) \<or> tr_status t = Paused)) (ValueError ''Transfer is not active.''))
          (bind (lift (recorded_chunks (tr_received t) index)) (\<lambda>received.
           bind (lift (received_bytes t (map PInt received))) (\<lambda>bytes.
           bind (save_transfer (tr_id t) (\<lambda>r. r\<lparr>tr_received := map PInt received, tr_bytes := bytes,
                   tr_status := Transferring\<rparr>)) (\<lambda>_. ret ())))))))
        (ret buffer))))))))))))"

definition complete_receive :: "t_env \<Rightarrow> transfer \<Rightarrow> user \<Rightarrow> pyval \<Rightarrow> transfer tio" where
  "complete_receive te t0 u destination_checksum =
     seq (ensure_enabled te)
     (seq (transfer_capabilities u Receive)
     (bind (lift (normalize_checksum False destination_checksum)) (\<lambda>checksum.
      atomic
       (bind (get_transfer (tr_id t0)) (\<lambda>t.
        seq (require_owner u t)
        (bind (on_fs (resolve_bound_transfer_path te t u False)) (\<lambda>(root, parts).
         seq (require (tr_direction t = Receive) (ValueError ''Not a receive transfer.''))
         (if terminal_status (tr_status t) then ret t
          else
            bind (lift (valid_chunk_indexes t (tr_received t))) (\<lambda>indexes.
            seq (require (\<not> int (length indexes) < tr_total_chunks t)
                  (ValueError ''The receive transfer is incomplete; not all chunks have been received.''))
            (bind (lift (sync_verify_max_bytes (te_settings te))) (\<lambda>most.
             bind (gets tw_now) (\<lambda>now.
             if tr_size t \<le> most
             then bind (on_fs (hash_server_file te root parts)) (\<lambda>current.
                  save_transfer (tr_id t) (\<lambda>r. r\<lparr>tr_dest_sum := checksum, tr_bytes := tr_size t, tr_source_sum := current,
                    tr_status := (if current \<noteq> checksum then Failed else Completed),
                    tr_error := (if current \<noteq> checksum then ''Source and client SHA-256 checksums do not match.'' else []),
                    tr_completed := (if current \<noteq> checksum then tr_completed r else Some now)\<rparr>))
             else save_transfer (tr_id t) (\<lambda>r. r\<lparr>tr_dest_sum := checksum, tr_status := Verifying, tr_bytes := tr_size t\<rparr>)
             ))))))))))))"

section \<open>Cancelling\<close>

definition owned_upload_id :: "file_upload option \<Rightarrow> string option" where
  "owned_upload_id upload =
     (case upload of None \<Rightarrow> None | Some r \<Rightarrow> if fu_purpose r = TransferSend then Some (fu_id r) else None)"

definition cancel_transfer :: "t_env \<Rightarrow> transfer \<Rightarrow> user \<Rightarrow> transfer tio" where
  "cancel_transfer te t0 u =
     seq (ensure_enabled te)
     (seq (transfer_capabilities u (tr_direction t0))
     (bind (atomic
        (bind (get_transfer (tr_id t0)) (\<lambda>t.
         seq (require_owner u t)
         (if List.member [Completed, Cancelled, Expired] (tr_status t) then ret (t, None)
          else
            seq (require (tr_status t \<noteq> Verifying)
                  (ValueError ''Transfer verification is in progress and cannot be cancelled.''))
            (bind (if tr_direction t = Send then find_upload (tr_upload t) else ret None) (\<lambda>upload.
             seq (sync_transfer_upload_state upload (Some UFailed) (Some ''Transfer was cancelled.'') True)
             (bind (save_transfer (tr_id t) (\<lambda>r. r\<lparr>tr_status := Cancelled\<rparr>)) (\<lambda>r.
             ret (r, Some (owned_upload_id upload))))))))))
        (\<lambda>(t, cleaning). case cleaning of
           None \<Rightarrow> ret t
         | Some upload_id \<Rightarrow>
             seq (cleanup_staging te (tr_staging t)) (seq (cleanup_send_upload_temp te upload_id) (ret t)))))"

section \<open>Maintenance\<close>

record m_report =
  m_processed :: int
  m_completed :: int
  m_expired :: int
  m_failed :: int
  m_eligible :: "int option"  \<comment> \<open>of a dry run\<close>

definition maintenance_batch :: "settings \<Rightarrow> pyval \<Rightarrow> int" where
  "maintenance_batch st batch_size =
     (case py_int (if truthy batch_size then batch_size else cfg_get st ''TRANSFER_CLEANUP_BATCH_SIZE'' (PInt 100)) of
        Inr n \<Rightarrow> max 1 (min n 1000)
      | Inl _ \<Rightarrow> 100)"

definition expirable :: "int \<Rightarrow> transfer \<Rightarrow> bool" where
  "expirable now t \<longleftrightarrow> active_status (tr_status t) \<and> (case tr_expires t of None \<Rightarrow> False | Some x \<Rightarrow> x < now)"

definition expire_row :: "t_env \<Rightarrow> string \<Rightarrow> bool tio" where
  "expire_row te i =
     bind (atomic
       (bind (gets (\<lambda>w. find (\<lambda>t. tr_id t = i \<and> expirable (tw_now w) t) (tw_transfers w))) (\<lambda>r. case r of
          None \<Rightarrow> ret None
        | Some t \<Rightarrow>
            bind (save_transfer i (\<lambda>r. r\<lparr>tr_status := Expired,
                    tr_error := ''Transfer staging record expired before completion.''\<rparr>)) (\<lambda>_.
            bind (if tr_direction t = Send then find_upload (tr_upload t) else ret None) (\<lambda>upload.
            seq (sync_transfer_upload_state upload (Some UFailed) (Some ''Transfer expired.'') True)
                (ret (Some (tr_staging t, owned_upload_id upload))))))))
       (\<lambda>r. case r of None \<Rightarrow> ret False
          | Some (staging, upload_id) \<Rightarrow>
              seq (cleanup_staging te staging) (seq (cleanup_send_upload_temp te upload_id) (ret True)))"

fun expire_rows :: "t_env \<Rightarrow> int \<Rightarrow> int \<Rightarrow> string list \<Rightarrow> int tio" where
  "expire_rows te batch processed [] = ret processed"
| "expire_rows te batch processed (i # ids) =
     bind (expire_row te i) (\<lambda>done.
       let processed' = (if done then processed + 1 else processed) in
       if done \<and> processed' \<ge> batch then ret processed' else expire_rows te batch processed' ids)"

text \<open>Marking a row that cannot be verified; \<open>None\<close> when it is no longer waiting for it.\<close>

definition fail_verifying :: "t_env \<Rightarrow> string \<Rightarrow> string \<Rightarrow> bool \<Rightarrow> bool tio" where
  "fail_verifying te i message with_upload =
     bind (atomic
       (bind (gets (\<lambda>w. find (\<lambda>t. tr_id t = i \<and> tr_status t = Verifying) (tw_transfers w))) (\<lambda>r. case r of
          None \<Rightarrow> ret None
        | Some t \<Rightarrow>
            bind (if with_upload then find_upload (tr_upload t) else ret None) (\<lambda>upload.
            seq (sync_transfer_upload_state upload (Some UFailed) (Some message) True)
            (bind (save_transfer i (\<lambda>r. r\<lparr>tr_status := Failed, tr_error := message\<rparr>)) (\<lambda>_.
            ret (Some (tr_staging t, owned_upload_id upload))))))))
       (\<lambda>r. case r of None \<Rightarrow> ret False
          | Some (staging, upload_id) \<Rightarrow>
              seq (whenever with_upload (seq (cleanup_staging te staging) (cleanup_send_upload_temp te upload_id)))
                  (ret True))"

text \<open>The handlers name an exception variable that they never bind: reaching the log call raises
  \<open>NameError\<close>.\<close>

definition verify_send_row :: "t_env \<Rightarrow> string \<Rightarrow> t_status option tio" where
  "verify_send_row te i =
     bind (find_transfer i) (\<lambda>r. case r of
       None \<Rightarrow> ret None
     | Some t \<Rightarrow>
         (case (case tr_actor t of None \<Rightarrow> None | Some a \<Rightarrow> te_user te a) of
            None \<Rightarrow>
              bind (fail_verifying te i ''Transfer owner is no longer available for verification.'' True) (\<lambda>marked.
              ret (if marked then Some Failed else None))
          | Some u \<Rightarrow>
              try_else (sync_finalize_send te i u PNone True)
                (\<lambda>_. bind (fail_verifying te i ''Transfer verification could not be completed safely.'' True) (\<lambda>marked.
                     if marked then raise NameError else ret None))
                (\<lambda>updated. ret (Some (tr_status updated)))))"

definition anonymous :: user where
  "anonymous = \<lparr>u_id = -1, u_authenticated = False, u_active = False, u_staff = False, u_superuser = False,
     u_perm_cache = None, u_backend_perm = (\<lambda>_. Inr False)\<rparr>"

definition verify_receive_row :: "t_env \<Rightarrow> string \<Rightarrow> t_status option tio" where
  "verify_receive_row te i =
     catch
       (atomic
         (bind (gets (\<lambda>w. find (\<lambda>t. tr_id t = i \<and> tr_direction t = Receive \<and> tr_status t = Verifying) (tw_transfers w)))
           (\<lambda>r. case r of
             None \<Rightarrow> ret None
           | Some t \<Rightarrow>
               bind (on_fs (resolve_bound_transfer_path te t
                       (case (case tr_actor t of None \<Rightarrow> None | Some a \<Rightarrow> te_user te a) of None \<Rightarrow> anonymous | Some u \<Rightarrow> u) False))
                 (\<lambda>(root, parts).
               bind (on_fs (hash_server_file te root parts)) (\<lambda>checksum.
               bind (gets tw_now) (\<lambda>now.
               bind (save_transfer i (\<lambda>r. r\<lparr>tr_source_sum := checksum,
                       tr_status := (if checksum = tr_dest_sum t then Completed else Failed),
                       tr_error := (if checksum = tr_dest_sum t then [] else ''Source and client SHA-256 checksums do not match.''),
                       tr_completed := (if checksum = tr_dest_sum t then Some now else tr_completed r)\<rparr>)) (\<lambda>r.
               ret (Some (tr_status r)))))))))
       (\<lambda>_. bind (fail_verifying te i ''Transfer verification could not be completed safely.'' False) (\<lambda>marked.
            if marked then raise NameError else ret None))"

fun verify_rows :: "(string \<Rightarrow> t_status option tio) \<Rightarrow> int \<Rightarrow> m_report \<Rightarrow> string list \<Rightarrow> (int \<times> m_report) tio" where
  "verify_rows verify remaining m [] = ret (remaining, m)"
| "verify_rows verify remaining m (i # ids) =
     bind (verify i) (\<lambda>r. case r of
       None \<Rightarrow> verify_rows verify remaining m ids
     | Some s \<Rightarrow>
         let m' = m\<lparr>m_processed := m_processed m + 1,
                    m_completed := m_completed m + of_bool (s = Completed),
                    m_failed := m_failed m + of_bool (s = Failed)\<rparr>
         in if remaining - 1 \<le> 0 then ret (remaining - 1, m') else verify_rows verify (remaining - 1) m' ids)"

definition maintenance :: "t_env \<Rightarrow> pyval \<Rightarrow> bool \<Rightarrow> m_report tio" where
  "maintenance te batch_size dry_run =
     (let batch = maintenance_batch (te_settings te) batch_size in
      bind (gets tw_now) (\<lambda>now.
      bind (gets (\<lambda>w. filter (expirable now) (tw_transfers w))) (\<lambda>expiring.
      bind (gets (\<lambda>w. int (length (filter (\<lambda>t. tr_status t = Verifying) (tw_transfers w))))) (\<lambda>verifying.
      if dry_run
      then ret \<lparr>m_processed = min batch (int (length expiring) + verifying), m_completed = 0,
                m_expired = min batch (int (length expiring)), m_failed = 0,
                m_eligible = Some (int (length expiring) + verifying)\<rparr>
      else
        bind (expire_rows te batch 0 (map tr_id (take (nat batch) (sort_key (\<lambda>t. the (tr_expires t)) expiring)))) (\<lambda>expired.
        let m0 = \<lparr>m_processed = expired, m_completed = 0, m_expired = expired, m_failed = 0, m_eligible = None\<rparr>;
            remaining = batch - expired
        in if remaining \<le> 0 then ret m0
           else
             bind (gets (\<lambda>w. map tr_id (take (nat remaining) (sort_key tr_updated
               (filter (\<lambda>t. tr_direction t = Send \<and> tr_status t = Verifying) (tw_transfers w)))))) (\<lambda>send_rows.
             bind (verify_rows (verify_send_row te) remaining m0 send_rows) (\<lambda>(remaining1, m1).
             if remaining1 \<le> 0 then ret m1
             else
               bind (gets (\<lambda>w. map tr_id (take (nat remaining1) (sort_key tr_updated
                 (filter (\<lambda>t. tr_direction t = Receive \<and> tr_status t = Verifying \<and> tr_dest_sum t \<noteq> []) (tw_transfers w))))))
                 (\<lambda>receive_rows.
               bind (verify_rows (verify_receive_row te) remaining1 m1 receive_rows) (\<lambda>(_, m2). ret m2)))))))))"

end
