(* ===== verification/Transfer_Life.thy ===== *)
theory Transfer_Life
  imports Transfers
begin

text \<open>
  The life of a transfer row. Every call of the Transfer Center is a step of a small state machine
  over the status of each row; a completed row has been verified; the number of active rows stays
  within the configured limit.
\<close>

section \<open>Calls\<close>

datatype t_call =
    CreateSend user string pyval pyval string
  | ResumeSend user string
  | ResumeReceive user string
  | Pause user transfer
  | Retry user transfer
  | Finalize user string pyval bool
  | CreateReceive user string string
  | ReadChunk user transfer pyval
  | CompleteReceive user transfer pyval
  | Cancel user transfer
  | Maintain pyval bool

definition ignore :: "'a tio \<Rightarrow> unit tio" where
  "ignore m = bind m (\<lambda>_. ret ())"

fun run_call :: "t_env \<Rightarrow> t_call \<Rightarrow> unit tio" where
  "run_call te (CreateSend u n sz ck req) = ignore (create_send_transfer te u n sz ck req)"
| "run_call te (ResumeSend u i) = ignore (resume_send_transfer te i u)"
| "run_call te (ResumeReceive u i) = ignore (resume_receive_transfer te i u)"
| "run_call te (Pause u t) = ignore (pause_transfer te t u)"
| "run_call te (Retry u t) = ignore (retry_transfer te t u)"
| "run_call te (Finalize u i ck large) = ignore (sync_finalize_send te i u ck large)"
| "run_call te (CreateReceive u p n) = ignore (create_receive_transfer te u p n)"
| "run_call te (ReadChunk u t i) = ignore (read_receive_chunk te t u i)"
| "run_call te (CompleteReceive u t ck) = ignore (complete_receive te t u ck)"
| "run_call te (Cancel u t) = ignore (cancel_transfer te t u)"
| "run_call te (Maintain batch dry) = ignore (maintenance te batch dry)"

section \<open>The life cycle\<close>

text \<open>What a call may do to the status of a row.\<close>

inductive t_step :: "t_call \<Rightarrow> t_status \<Rightarrow> t_status \<Rightarrow> bool" where
  resume_send: "\<not> terminal_status s \<Longrightarrow> s' \<in> {Preparing, Transferring, Verifying} \<Longrightarrow> t_step (ResumeSend u i) s s'"
| resume_receive: "\<not> terminal_status s \<Longrightarrow> t_step (ResumeReceive u i) s Transferring"
| pause: "s \<in> {Preparing, Transferring, Interrupted} \<Longrightarrow> t_step (Pause u t) s Paused"
| retry: "s \<in> {Failed, Interrupted, Paused} \<Longrightarrow> s' \<in> {Preparing, Transferring, Verifying} \<Longrightarrow> t_step (Retry u t) s s'"
| finalize: "s \<in> {Preparing, Transferring, Interrupted, Verifying} \<Longrightarrow> s' \<in> {Verifying, Completed, Failed}
    \<Longrightarrow> t_step (Finalize u i ck large) s s'"
| chunk: "\<not> terminal_status s \<Longrightarrow> s \<noteq> Paused \<Longrightarrow> t_step (ReadChunk u t i) s Transferring"
| complete: "\<not> terminal_status s \<Longrightarrow> s' \<in> {Verifying, Completed, Failed} \<Longrightarrow> t_step (CompleteReceive u t ck) s s'"
| cancel: "s \<notin> {Completed, Cancelled, Expired, Verifying} \<Longrightarrow> t_step (Cancel u t) s Cancelled"
| expire: "active_status s \<Longrightarrow> t_step (Maintain b d) s Expired"
| verify: "s \<in> {Preparing, Transferring, Interrupted, Verifying} \<Longrightarrow> s' \<in> {Verifying, Completed, Failed}
    \<Longrightarrow> t_step (Maintain b d) s s'"

inductive_cases t_stepE: "t_step c s s'"

inductive_simps t_step_simps:
  "t_step (ResumeSend u i) s s'" "t_step (ResumeReceive u i) s s'" "t_step (Pause u t) s s'" "t_step (Retry u t) s s'"
  "t_step (Finalize u i ck large) s s'" "t_step (ReadChunk u t k) s s'" "t_step (CompleteReceive u t ck) s s'"
  "t_step (Cancel u t) s s'" "t_step (Maintain b d) s s'" "t_step (CreateSend u n sz ck req) s s'"
  "t_step (CreateReceive u n sz) s s'"

text \<open>The fields no call changes.\<close>

definition identity :: "transfer \<Rightarrow> transfer" where
  "identity t = t\<lparr>tr_bytes := 0, tr_received := [], tr_staging := [], tr_upload := None, tr_status := Queued,
     tr_source_sum := [], tr_dest_sum := [], tr_retries := 0, tr_error := [], tr_started := None,
     tr_updated := 0, tr_completed := None, tr_expires := None\<rparr>"

text \<open>The invariant of a row: progress stays within the declared size, retries within their limit, and
  a completed row has equal checksums on both sides and all its bytes.\<close>

definition sound_row :: "transfer \<Rightarrow> bool" where
  "sound_row t \<longleftrightarrow> 0 < tr_size t \<and> 0 < tr_chunk_size t
     \<and> tr_total_chunks t = (tr_size t + tr_chunk_size t - 1) div tr_chunk_size t
     \<and> 0 \<le> tr_bytes t \<and> tr_bytes t \<le> tr_size t \<and> tr_retries t \<le> tr_max_retries t
     \<and> (tr_status t = Completed \<longrightarrow> tr_source_sum t = tr_dest_sum t \<and> tr_bytes t = tr_size t)
     \<and> (tr_status t = Verifying \<and> tr_direction t = Receive \<longrightarrow> tr_bytes t = tr_size t)"

definition row_step :: "t_call \<Rightarrow> transfer \<Rightarrow> transfer \<Rightarrow> bool" where
  "row_step c t t' \<longleftrightarrow> t' = t \<or> identity t' = identity t \<and> (sound_row t \<longrightarrow> sound_row t')
     \<and> (tr_status t' = tr_status t \<or> t_step c (tr_status t) (tr_status t'))
     \<and> tr_retries t \<le> tr_retries t'"

text \<open>The keys in use come from the part of the stream that was consumed.\<close>

definition known_ids :: "tworld \<Rightarrow> bool" where
  "known_ids w \<longleftrightarrow> inj (tw_uuid w) \<and> distinct (map tr_id (tw_transfers w))
     \<and> set (map tr_id (tw_transfers w)) \<subseteq> tw_uuid w ` {..<tw_uuids w}"

text \<open>How the table may change: each old row by a step, and new rows behind them.\<close>

definition creates :: "t_call \<Rightarrow> bool" where
  "creates c = (case c of CreateSend _ _ _ _ _ \<Rightarrow> True | CreateReceive _ _ _ \<Rightarrow> True | _ \<Rightarrow> False)"

definition evolves :: "t_call \<Rightarrow> tworld \<Rightarrow> tworld \<Rightarrow> bool" where
  "evolves c w v \<longleftrightarrow> known_ids v \<and> tw_now v = tw_now w \<and> tw_uuid v = tw_uuid w \<and> tw_uuids w \<le> tw_uuids v
     \<and> (\<exists>new. list_all2 (row_step c) (tw_transfers w) (take (length (tw_transfers w)) (tw_transfers v))
          \<and> tw_transfers v = take (length (tw_transfers w)) (tw_transfers v) @ new \<and> list_all sound_row new
          \<and> (new \<noteq> [] \<longrightarrow> creates c))"

section \<open>Reading the calls\<close>

lemma wp_on_fs:
  "(\<And>x s. Q x (w\<lparr>tw_os := s\<rparr>)) \<Longrightarrow> (\<And>e s. E e (w\<lparr>tw_os := s\<rparr>)) \<Longrightarrow> wp (on_fs m) Q E w"
  by (simp add: wp_def on_fs_def split: prod.splits sum.splits)

lemma wp_atomic:
  "wp m Q (\<lambda>e v. E e (v\<lparr>tw_transfers := tw_transfers w, tw_uploads := tw_uploads w\<rparr>)) w \<Longrightarrow> wp (atomic m) Q E w"
  by (simp add: wp_def atomic_def split: prod.splits sum.splits)

lemma wp_guard:
  "(\<And>x. Q x w) \<Longrightarrow> (\<And>e. E e w) \<Longrightarrow> snd (m w) = w \<Longrightarrow> wp m Q E w"
  by (auto simp: wp_def split: prod.splits sum.splits)

lemma wp_ensure_enabled: "Q () w \<Longrightarrow> (\<And>e. E e w) \<Longrightarrow> wp (ensure_enabled te) Q E w"
  by (simp add: ensure_enabled_def wp_simps)

lemma wp_check_capability: "Q () w \<Longrightarrow> (\<And>e. E e w) \<Longrightarrow> wp (check_capability u c) Q E w"
  by (simp add: check_capability_def wp_simps split: sum.splits)

lemma wp_transfer_capabilities: "Q () w \<Longrightarrow> (\<And>e. E e w) \<Longrightarrow> wp (transfer_capabilities u d) Q E w"
  unfolding transfer_capabilities_def wp_seq by (intro wp_check_capability)

lemma wp_require_owner: "Q () w \<Longrightarrow> (\<And>e. E e w) \<Longrightarrow> wp (require_owner u t) Q E w"
  by (simp add: require_owner_def wp_simps)

lemma wp_lift_any: "(\<And>x. r = Inr x \<Longrightarrow> Q x w) \<Longrightarrow> (\<And>e. E e w) \<Longrightarrow> wp (lift r) Q E w"
  by (simp add: wp_simps split: sum.splits)

lemma wp_require_any: "(b \<Longrightarrow> Q () w) \<Longrightarrow> E e w \<Longrightarrow> wp (require b e) Q E w"
  by (simp add: wp_simps)

lemma wp_find_upload: "(\<And>x. Q x w) \<Longrightarrow> wp (find_upload i) Q E w"
  by (simp add: find_upload_def wp_simps)

text \<open>Reading a row inside a transaction.\<close>

lemma find_member: "find P xs = Some x \<Longrightarrow> x \<in> set xs \<and> P x"
  by (induction xs) (auto split: if_splits)

lemma find_key: "distinct (map k xs) \<Longrightarrow> x \<in> set xs \<Longrightarrow> find (\<lambda>r. k r = k x) xs = Some x"
  by (induction xs) (auto intro: rev_image_eqI)

lemma wp_find_transfer:
  "Q None w \<Longrightarrow> (\<And>t. t \<in> set (tw_transfers w) \<Longrightarrow> tr_id t = i \<Longrightarrow> Q (Some t) w) \<Longrightarrow> wp (find_transfer i) Q E w"
  by (cases "find (\<lambda>t. tr_id t = i) (tw_transfers w)") (auto simp: find_transfer_def wp_simps dest: find_member)

lemma wp_get_transfer:
  "(\<And>t. t \<in> set (tw_transfers w) \<Longrightarrow> Q t w) \<Longrightarrow> (\<And>e. E e w) \<Longrightarrow> wp (get_transfer i) Q E w"
  unfolding get_transfer_def wp_bind by (rule wp_find_transfer) (auto simp: wp_simps)

lemma wp_get_transfer_or:
  "(\<And>t. t \<in> set (tw_transfers w) \<Longrightarrow> d = None \<or> d = Some (tr_direction t) \<Longrightarrow> Q t w)
    \<Longrightarrow> (\<And>e. E e w) \<Longrightarrow> wp (get_transfer_or i d) Q E w"
  unfolding get_transfer_or_def wp_bind by (rule wp_find_transfer) (auto simp: wp_simps)

text \<open>Writing it back.\<close>

definition saved :: "transfer \<Rightarrow> (transfer \<Rightarrow> transfer) \<Rightarrow> tworld \<Rightarrow> tworld" where
  "saved t f w = w\<lparr>tw_transfers :=
     map (\<lambda>r. if tr_id r = tr_id t then (f r)\<lparr>tr_updated := tw_now w\<rparr> else r) (tw_transfers w)\<rparr>"

lemma saved_ids:
  assumes "known_ids w" "t \<in> set (tw_transfers w)" "tr_id (f t) = tr_id t"
  shows "map tr_id (tw_transfers (saved t f w)) = map tr_id (tw_transfers w)"
proof -
  have "tr_id r = tr_id t \<Longrightarrow> r = t" if "r \<in> set (tw_transfers w)" for r
    using assms(1,2) that by (auto simp: known_ids_def distinct_map dest: inj_onD)
  then show ?thesis using assms(3) by (auto simp: saved_def)
qed

lemma wp_save_transfer:
  assumes "known_ids w" "t \<in> set (tw_transfers w)" "tr_id (f t) = tr_id t"
    and Q: "Q ((f t)\<lparr>tr_updated := tw_now w\<rparr>) (saved t f w)"
  shows "wp (save_transfer (tr_id t) f) Q E w"
proof -
  let ?t = "(f t)\<lparr>tr_updated := tw_now w\<rparr>"
  have "distinct (map tr_id (tw_transfers (saved t f w)))"
    using assms(1) by (simp only: saved_ids[where f = f, OF assms(1-3)]) (simp add: known_ids_def)
  moreover have "?t \<in> set (tw_transfers (saved t f w))"
    using assms(2) by (auto simp: saved_def intro!: image_eqI[of _ _ t])
  ultimately have "find (\<lambda>r. tr_id r = tr_id ?t) (tw_transfers (saved t f w)) = Some ?t" by (rule find_key)
  with assms(3) Q show ?thesis
    by (simp add: save_transfer_def wp_simps get_transfer_def find_transfer_def saved_def)
qed

lemma known_ids_saved:
  assumes "known_ids w" "t \<in> set (tw_transfers w)" "tr_id (f t) = tr_id t"
  shows "known_ids (saved t f w)"
proof -
  have "tw_uuid (saved t f w) = tw_uuid w" "tw_uuids (saved t f w) = tw_uuids w" by (simp_all add: saved_def)
  with assms(1) show ?thesis
    unfolding known_ids_def list.set_map[symmetric] saved_ids[where f = f, OF assms] by simp
qed

lemma known_ids_more:
  "known_ids w \<Longrightarrow> tw_transfers v = tw_transfers w \<Longrightarrow> tw_uuid v = tw_uuid w \<Longrightarrow> tw_uuids w \<le> tw_uuids v \<Longrightarrow> known_ids v"
  by (auto simp: known_ids_def subset_iff image_iff Bex_def) (metis order_less_le_trans)

lemma evolves_skip:
  "known_ids w \<Longrightarrow> tw_transfers v = tw_transfers w \<Longrightarrow> tw_uuid v = tw_uuid w \<Longrightarrow> tw_uuids w \<le> tw_uuids v
    \<Longrightarrow> tw_now v = tw_now w \<Longrightarrow> evolves c w v"
  using known_ids_more[of w v] by (auto simp: evolves_def row_step_def list.rel_refl)

lemma evolves_refl: "known_ids w \<Longrightarrow> evolves c w w"
  by (auto simp: evolves_def row_step_def list.rel_refl)

lemma evolves_saved:
  assumes "known_ids w" "t \<in> set (tw_transfers w)" "tr_id (f t) = tr_id t" "row_step c t ((f t)\<lparr>tr_updated := tw_now w\<rparr>)"
  shows "evolves c w (saved t f w)"
proof -
  have eq: "tr_id r = tr_id t \<Longrightarrow> r = t" if "r \<in> set (tw_transfers w)" for r
    using assms(1,2) that by (auto simp: known_ids_def distinct_map dest: inj_onD)
  have "row_step c r (if tr_id r = tr_id t then (f r)\<lparr>tr_updated := tw_now w\<rparr> else r)"
    if "r \<in> set (tw_transfers w)" for r
    using eq[OF that] assms(4) by (auto simp: row_step_def)
  then have "list_all2 (row_step c) (tw_transfers w) (tw_transfers (saved t f w))"
    by (auto simp: saved_def list_all2_conv_all_nth)
  moreover have "length (tw_transfers (saved t f w)) = length (tw_transfers w)" by (simp add: saved_def)
  ultimately show ?thesis
    using known_ids_saved[where f = f, OF assms(1-3)] by (auto simp: evolves_def saved_def)
qed

text \<open>What the file system, the uploads and the local variable do not matter for.\<close>

lemma evolves_other [simp]:
  "evolves c w (v\<lparr>tw_os := s\<rparr>) = evolves c w v" "evolves c (w\<lparr>tw_os := s\<rparr>) v = evolves c w v"
  "evolves c w (v\<lparr>tw_uploads := us\<rparr>) = evolves c w v" "evolves c (w\<lparr>tw_uploads := us\<rparr>) v = evolves c w v"
  "evolves c (w\<lparr>tw_temp := tmp\<rparr>) v = evolves c w v" "evolves c w (v\<lparr>tw_temp := tmp\<rparr>) = evolves c w v"
  "known_ids (w\<lparr>tw_os := s\<rparr>) = known_ids w" "known_ids (w\<lparr>tw_uploads := us\<rparr>) = known_ids w"
  "known_ids (w\<lparr>tw_temp := tmp\<rparr>) = known_ids w"
  by (auto simp: evolves_def known_ids_def)

lemma wp_ignore: "wp m (\<lambda>_. Q ()) E w \<Longrightarrow> wp (ignore m) Q E w"
  by (simp add: ignore_def wp_def bind_def ret_def split: prod.splits sum.splits)

lemmas t_wp = wp_atomic wp_ensure_enabled wp_transfer_capabilities wp_require_owner wp_check_capability
  wp_get_transfer wp_get_transfer_or wp_find_upload wp_lift_any wp_require_any
  wp_bindI wp_seqI wp_ifI wp_optionI wp_prodI wp_letI wp_retI wp_raiseI wp_getsI wp_on_fs

lemma wp_save:
  assumes "known_ids w" "t \<in> set (tw_transfers w)" "tr_id (f t) = tr_id t" "row_step c t ((f t)\<lparr>tr_updated := tw_now w\<rparr>)"
    and "evolves c w (saved t f w) \<Longrightarrow> Q ((f t)\<lparr>tr_updated := tw_now w\<rparr>) (saved t f w)"
  shows "wp (save_transfer (tr_id t) f) Q E w"
  using assms by (intro wp_save_transfer) (auto intro: evolves_saved)

lemma row_stepI:
  "identity t' = identity t \<Longrightarrow> (sound_row t \<Longrightarrow> sound_row t') \<Longrightarrow> t_step c (tr_status t) (tr_status t')
    \<Longrightarrow> tr_retries t \<le> tr_retries t' \<Longrightarrow> row_step c t t'"
  by (simp add: row_step_def)

lemma evolves_undo [simp]:
  "evolves c w (v\<lparr>tw_transfers := tw_transfers w, tw_uploads := us\<rparr>) \<longleftrightarrow>
     evolves c w (v\<lparr>tw_transfers := tw_transfers w\<rparr>)"
  by (auto simp: evolves_def known_ids_def)

lemma evolves_same: "known_ids w \<Longrightarrow> evolves c w (w\<lparr>tw_transfers := tw_transfers w, tw_uploads := us\<rparr>)"
  using evolves_refl by auto

section \<open>What a file system call can return\<close>

definition gives :: "('a \<Rightarrow> bool) \<Rightarrow> ('s, 'a) io \<Rightarrow> bool" where
  "gives P m \<longleftrightarrow> (\<forall>s. wp m (\<lambda>x _. P x) (\<lambda>_ _. True) s)"

named_theorems gives_intros

lemma gives_ret [gives_intros]: "P x \<Longrightarrow> gives P (ret x)"
  and gives_raise [gives_intros]: "gives P (raise e)"
  and gives_lift [gives_intros]: "(\<And>x. r = Inr x \<Longrightarrow> P x) \<Longrightarrow> gives P (lift r)"
  by (simp_all add: gives_def wp_simps split: sum.splits)

lemma gives_bind [gives_intros]: "(\<And>x. gives P (k x)) \<Longrightarrow> gives P (bind m k)"
  by (auto simp: gives_def wp_bind intro: wp_mono[OF wp_True])

lemma gives_seq [gives_intros]: "gives P k \<Longrightarrow> gives P (seq m k)"
  by (auto simp: gives_def wp_seq intro: wp_mono[OF wp_True])

lemma gives_catch [gives_intros]: "gives P m \<Longrightarrow> (\<And>e. gives P (h e)) \<Longrightarrow> gives P (catch m h)"
  unfolding gives_def wp_catch by (blast intro: wp_mono)

lemma gives_cleanup [gives_intros]: "gives P m \<Longrightarrow> gives P (cleanup m f)"
  unfolding gives_def wp_cleanup by (blast intro: wp_mono[OF wp_True] wp_mono)

lemma gives_if [gives_intros]: "(b \<Longrightarrow> gives P m) \<Longrightarrow> (\<not> b \<Longrightarrow> gives P n) \<Longrightarrow> gives P (if b then m else n)"
  by simp

lemma gives_prod [gives_intros]: "(\<And>x y. gives P (m x y)) \<Longrightarrow> gives P (case v of (x, y) \<Rightarrow> m x y)"
  by (cases v) auto

lemma gives_guard: "(b \<Longrightarrow> gives P k) \<Longrightarrow> gives P (seq (require b e) k)"
  by (simp add: gives_def wp_simps)

lemma gives_on_os_error [gives_intros]: "gives P m \<Longrightarrow> (\<And>n. gives P (h n)) \<Longrightarrow> gives P (on_os_error m h)"
  unfolding on_os_error_def by (rule gives_catch) (auto intro: gives_raise split: exn.splits)

lemma givesI: "(\<And>s x t. m s = (Inr x, t) \<Longrightarrow> P x) \<Longrightarrow> gives P m"
  by (auto simp: gives_def intro: wpI)

lemma givesD: "gives P m \<Longrightarrow> m s = (Inr x, t) \<Longrightarrow> P x"
  by (auto simp: gives_def dest: wpD_Inr)

lemma gives_open_directory [gives_intros]:
  assumes "\<And>fd. gives P (body fd)"
  shows "gives P (open_directory env root parts body)"
  unfolding open_directory_def
proof (intro gives_bind givesI)
  fix fd s x t
  assume run: "(case open_components fd parts s of
         (Inl (e, fd'), t) \<Rightarrow> cleanup (raise e) (close_quietly fd') t
       | (Inr fd', t) \<Rightarrow>
           cleanup
             (bind (os_fstat fd') (\<lambda>current.
              seq (require (st_kind current = KDir) (sf SfNotDirectory)) (body fd')))
             (close_quietly fd') t) = (Inr x, t)"
  have raised: "gives P (cleanup (raise e) (close_quietly n))" for e n by (intro gives_intros)
  have opened: "gives P (cleanup (bind (os_fstat n) (\<lambda>current.
              seq (require (st_kind current = KDir) (sf SfNotDirectory)) (body n))) (close_quietly n))" for n
    by (intro gives_intros assms)
  from run show "P x"
    by (auto split: prod.splits sum.splits dest: givesD[OF raised] givesD[OF opened])
qed

lemma gives_open_parent [gives_intros]:
  "(\<And>fd name. gives P (body fd name)) \<Longrightarrow> gives P (open_parent env root parts body)"
  unfolding open_parent_def by (intro gives_intros)

lemma gives_open_regular_file [gives_intros]:
  "(\<And>fd st. gives P (body fd st)) \<Longrightarrow> gives P (open_regular_file env root parts body)"
  unfolding open_regular_file_def by (intro gives_intros)

lemma wp_on_fs_gives:
  "gives P m \<Longrightarrow> (\<And>x s. P x \<Longrightarrow> Q x (w\<lparr>tw_os := s\<rparr>)) \<Longrightarrow> (\<And>e s. E e (w\<lparr>tw_os := s\<rparr>)) \<Longrightarrow> wp (on_fs m) Q E w"
  unfolding gives_def wp_def on_fs_def by (fastforce split: prod.splits sum.splits)

definition resumable :: "transfer \<Rightarrow> t_status \<times> int \<Rightarrow> bool" where
  "resumable t p \<longleftrightarrow> fst p \<in> {Preparing, Transferring, Verifying} \<and> (0 \<le> tr_size t \<longrightarrow> 0 \<le> snd p \<and> snd p \<le> tr_size t)"

lemma resumed_send_range: "gives (resumable t) (resumed_send te t upload ending)"
  unfolding resumed_send_def by (intro gives_intros) (auto simp: resumable_def)

lemma wp_resumed_send:
  "(\<And>x s. resumable t x \<Longrightarrow> Q x (w\<lparr>tw_os := s\<rparr>)) \<Longrightarrow> (\<And>e s. E e (w\<lparr>tw_os := s\<rparr>))
    \<Longrightarrow> wp (on_fs (resumed_send te t upload ending)) Q E w"
  by (rule wp_on_fs_gives[OF resumed_send_range])

lemma identity_upd [simp]:
  "identity (t\<lparr>tr_bytes := a\<rparr>) = identity t" "identity (t\<lparr>tr_received := b\<rparr>) = identity t"
  "identity (t\<lparr>tr_staging := c\<rparr>) = identity t" "identity (t\<lparr>tr_upload := d\<rparr>) = identity t"
  "identity (t\<lparr>tr_status := e\<rparr>) = identity t" "identity (t\<lparr>tr_source_sum := c\<rparr>) = identity t"
  "identity (t\<lparr>tr_dest_sum := c\<rparr>) = identity t" "identity (t\<lparr>tr_retries := a\<rparr>) = identity t"
  "identity (t\<lparr>tr_error := c\<rparr>) = identity t" "identity (t\<lparr>tr_started := f\<rparr>) = identity t"
  "identity (t\<lparr>tr_updated := a\<rparr>) = identity t" "identity (t\<lparr>tr_completed := f\<rparr>) = identity t"
  "identity (t\<lparr>tr_expires := f\<rparr>) = identity t"
  by (simp_all add: identity_def)

lemma sound_resumed:
  assumes "sound_row t" "resumable t (s, b)" "tr_direction t = Send" "r \<le> tr_max_retries t"
  shows "sound_row (t\<lparr>tr_status := s, tr_bytes := b, tr_retries := r\<rparr>)"
  using assms by (auto simp: sound_row_def resumable_def)

lemma sound_other [simp]:
  "sound_row (t\<lparr>tr_error := c\<rparr>) = sound_row t" "sound_row (t\<lparr>tr_started := f\<rparr>) = sound_row t"
  "sound_row (t\<lparr>tr_updated := a\<rparr>) = sound_row t" "sound_row (t\<lparr>tr_completed := f\<rparr>) = sound_row t"
  "sound_row (t\<lparr>tr_expires := f\<rparr>) = sound_row t" "sound_row (t\<lparr>tr_received := b\<rparr>) = sound_row t"
  "sound_row (t\<lparr>tr_staging := c\<rparr>) = sound_row t" "sound_row (t\<lparr>tr_upload := d\<rparr>) = sound_row t"
  by (simp_all add: sound_row_def)

section \<open>Each call\<close>

lemma pause_evolves:
  assumes "known_ids w"
  shows "wp (run_call te (Pause u t)) (\<lambda>_. evolves (Pause u t) w) (\<lambda>_. evolves (Pause u t) w) w"
  unfolding run_call.simps pause_transfer_def
  apply (intro wp_ignore t_wp wp_save[where c = "Pause u t"] row_stepI)
  apply (simp_all add: assms evolves_refl)
   apply (simp_all add: identity_def sound_row_def t_step_simps)
  done

lemma resume_receive_evolves:
  assumes "known_ids w"
  shows "wp (run_call te (ResumeReceive u t)) (\<lambda>_. evolves (ResumeReceive u t) w) (\<lambda>_. evolves (ResumeReceive u t) w) w"
  unfolding run_call.simps resume_receive_transfer_def
  apply (intro wp_ignore t_wp wp_save[where c = "ResumeReceive u t"] row_stepI)
  apply (simp_all add: assms evolves_refl)
   apply (simp_all add: identity_def sound_row_def t_step_simps)
  done

lemma resume_send_evolves:
  assumes "known_ids w"
  shows "wp (run_call te (ResumeSend u t)) (\<lambda>_. evolves (ResumeSend u t) w) (\<lambda>_. evolves (ResumeSend u t) w) w"
  unfolding run_call.simps resume_send_transfer_def get_upload_def
  apply (intro wp_ignore wp_resumed_send t_wp wp_save[where c = "ResumeSend u t"] row_stepI)
  apply (simp_all add: assms evolves_refl)
   apply (auto simp: sound_row_def t_step_simps resumable_def)
  done

lemma retry_evolves:
  assumes "known_ids w"
  shows "wp (run_call te (Retry u t)) (\<lambda>_. evolves (Retry u t) w) (\<lambda>_. evolves (Retry u t) w) w"
  unfolding run_call.simps retry_transfer_def retry_send_def acquire_transfer_slot_def whenever_def
  apply (intro wp_ignore wp_resumed_send t_wp wp_save[where c = "Retry u t"] row_stepI)
  apply (simp_all add: assms evolves_refl)
  apply (simp_all add: sound_resumed)
  apply (simp_all add: sound_row_def t_step_simps resumable_def split: if_splits)
  done

lemma received_bytes_range:
  assumes "received_bytes t raws = Inr b" "0 < tr_size t" "0 < tr_chunk_size t"
  shows "0 \<le> b \<and> b \<le> tr_size t"
proof -
  obtain ks where b: "b = min (tr_size t)
         (sum_list (map (\<lambda>i. min (tr_chunk_size t) (max 0 (tr_size t - i * tr_chunk_size t))) ks))"
    using assms(1) by (auto simp: received_bytes_def bind_res_eq_Inr)
  have "0 \<le> sum_list (map (\<lambda>i. min (tr_chunk_size t) (max 0 (tr_size t - i * tr_chunk_size t))) ks)"
    using assms(3) by (intro sum_list_nonneg) auto
  with b assms(2) show ?thesis by simp
qed

lemma chunk_evolves:
  assumes "known_ids w"
  shows "wp (run_call te (ReadChunk u t k)) (\<lambda>_. evolves (ReadChunk u t k) w) (\<lambda>_. evolves (ReadChunk u t k) w) w"
  unfolding run_call.simps read_receive_chunk_def
  apply (intro wp_ignore t_wp wp_save[where c = "ReadChunk u t k"] row_stepI)
  apply (simp_all add: assms evolves_refl t_step_simps)
  apply (auto simp: sound_row_def dest!: received_bytes_range)
  done

lemma complete_evolves:
  assumes "known_ids w"
  shows "wp (run_call te (CompleteReceive u t k)) (\<lambda>_. evolves (CompleteReceive u t k) w)
    (\<lambda>_. evolves (CompleteReceive u t k) w) w"
  unfolding run_call.simps complete_receive_def
  apply (intro wp_ignore t_wp wp_save[where c = "CompleteReceive u t k"] row_stepI)
  apply (simp_all add: assms evolves_refl t_step_simps)
   apply (auto simp: sound_row_def)
  done

lemma wp_sync: "(\<And>us. Q () (w\<lparr>tw_uploads := us\<rparr>)) \<Longrightarrow> wp (sync_transfer_upload_state r s m c) Q E w"
proof -
  assume Q: "\<And>us. Q () (w\<lparr>tw_uploads := us\<rparr>)"
  have "Q () w" using Q[of "tw_uploads w"] by simp
  with Q show ?thesis
    by (auto simp: sync_transfer_upload_state_def save_upload_def wp_simps split: option.splits)
qed

lemma wp_cleanups:
  "(\<And>s. Q () (w\<lparr>tw_os := s\<rparr>)) \<Longrightarrow> (\<And>e s. E e (w\<lparr>tw_os := s\<rparr>)) \<Longrightarrow> wp (cleanup_staging te p) Q E w"
  "(\<And>s. Q () (w\<lparr>tw_os := s\<rparr>)) \<Longrightarrow> (\<And>e s. E e (w\<lparr>tw_os := s\<rparr>)) \<Longrightarrow> wp (cleanup_send_upload_temp te i) Q E w"
proof -
  assume Q: "\<And>s. Q () (w\<lparr>tw_os := s\<rparr>)" "\<And>e s. E e (w\<lparr>tw_os := s\<rparr>)"
  show "wp (cleanup_staging te p) Q E w" unfolding cleanup_staging_def by (rule wp_on_fs) (use Q in auto)
  have "Q () w" using Q(1)[of "tw_os w"] by simp
  then show "wp (cleanup_send_upload_temp te i) Q E w"
    unfolding cleanup_send_upload_temp_def by (cases i) (auto simp: wp_ret intro!: wp_on_fs Q)
qed

lemma cancel_evolves:
  assumes "known_ids w"
  shows "wp (run_call te (Cancel u t)) (\<lambda>_. evolves (Cancel u t) w) (\<lambda>_. evolves (Cancel u t) w) w"
  unfolding run_call.simps cancel_transfer_def
  apply (intro wp_ignore wp_sync wp_cleanups t_wp wp_save[where c = "Cancel u t"] row_stepI)
  apply (simp_all add: assms evolves_refl t_step_simps)
     apply (auto simp: sound_row_def)
  done

text \<open>A row inserted and saved in the same transaction.\<close>

lemma wp_save_new:
  fixes w i f
  defines "rows \<equiv> butlast (tw_transfers w)" and "t \<equiv> (f (last (tw_transfers w)))\<lparr>tr_updated := tw_now w\<rparr>"
  assumes "tw_transfers w \<noteq> []" "tr_id (last (tw_transfers w)) = i" "i \<notin> tr_id ` set rows" "tr_id t = i"
    and Q: "Q t (w\<lparr>tw_transfers := rows @ [t]\<rparr>)"
  shows "wp (save_transfer i f) Q E w"
proof -
  have w: "tw_transfers w = rows @ [last (tw_transfers w)]" using assms by simp
  have "map (\<lambda>r. if tr_id r = i then (f r)\<lparr>tr_updated := tw_now w\<rparr> else r) rows = rows"
    using assms(5) by (intro map_idI) (auto simp: image_iff)
  then have map_rows: "map (\<lambda>r. if tr_id r = i then (f r)\<lparr>tr_updated := tw_now w\<rparr> else r) (tw_transfers w) = rows @ [t]"
    using assms(4) by (subst w) (simp add: t_def)
  have "find (\<lambda>r. tr_id r = i) rows = None" using assms(5) by (auto simp: find_None_iff image_iff)
  then have "find (\<lambda>r. tr_id r = i) (rows @ [t]) = Some t"
    using assms(6) by (induction rows) (auto split: if_splits)
  with map_rows Q show ?thesis
    by (simp add: save_transfer_def wp_simps get_transfer_def find_transfer_def)
qed

lemma fresh_key: "known_ids w \<Longrightarrow> tw_uuid w (tw_uuids w) \<notin> tr_id ` set (tw_transfers w)"
  unfolding known_ids_def by (metis imageE image_set in_mono inj_eq lessThan_iff less_irrefl_nat)

lemma evolves_new:
  assumes "creates c" "known_ids w" "sound_row r" "tr_id r = tw_uuid w (tw_uuids w)" "tw_uuids w < tw_uuids v"
    "tw_transfers v = tw_transfers w @ [r]" "tw_now v = tw_now w" "tw_uuid v = tw_uuid w"
  shows "evolves c w v"
proof -
  have "tw_uuid w ` {..<tw_uuids w} \<subseteq> tw_uuid w ` {..<tw_uuids v}" using assms(5) by auto
  then have "known_ids v"
    using assms fresh_key[OF assms(2)] by (auto simp: known_ids_def)
  with assms show ?thesis
    by (auto simp: evolves_def row_step_def list.rel_refl)
qed

lemma wp_fresh_id: "Q (tw_uuid w (tw_uuids w)) (w\<lparr>tw_uuids := Suc (tw_uuids w)\<rparr>) \<Longrightarrow> wp fresh_id Q E w"
  by (simp add: wp_def fresh_id_def)

lemma wp_source_size:
  "(\<And>x s. 0 < x \<Longrightarrow> Q x (w\<lparr>tw_os := s\<rparr>)) \<Longrightarrow> (\<And>e s. E e (w\<lparr>tw_os := s\<rparr>)) \<Longrightarrow>
   wp (on_fs (open_regular_file env root parts (\<lambda>fd file_stat. bind (lift r) (\<lambda>most.
     seq (require (\<not> (st_size file_stat \<le> 0 \<or> st_size file_stat > most)) e0) (ret (st_size file_stat)))))) Q E w"
  by (rule wp_on_fs_gives[where P = "\<lambda>x. 0 < x"]) (intro gives_guard gives_intros; simp)+

lemma wp_source_hash:
  "(\<And>x s. fst (snd x) \<in> {Preparing, Failed} \<Longrightarrow> Q x (w\<lparr>tw_os := s\<rparr>)) \<Longrightarrow> (\<And>e s. E e (w\<lparr>tw_os := s\<rparr>)) \<Longrightarrow>
   wp (on_fs (on_os_error (bind m (\<lambda>h. ret (h, Preparing, []))) (\<lambda>_. ret ([], Failed, message)))) Q E w"
  by (rule wp_on_fs_gives[where P = "\<lambda>x. fst (snd x) \<in> {Preparing, Failed}"]) (intro gives_intros; simp)+

lemma chunk_size_positive: "chunk_size_bytes st = Inr n \<Longrightarrow> 0 < n"
  by (auto simp: chunk_size_bytes_def bind_res_eq_Inr)

lemma max_retries_nonneg: "max_retries st = Inr n \<Longrightarrow> 0 \<le> n"
  by (auto simp: max_retries_def bind_res_eq_Inr)

lemma create_receive_evolves:
  assumes "known_ids w"
  shows "wp (run_call te (CreateReceive u n k)) (\<lambda>_. evolves (CreateReceive u n k) w)
    (\<lambda>_. evolves (CreateReceive u n k) w) w"
  unfolding run_call.simps create_receive_transfer_def insert_transfer_def acquire_transfer_slot_def
  apply (intro wp_ignore wp_fresh_id wp_modifyI wp_source_size wp_source_hash t_wp wp_save_new)
  apply (simp_all add: assms evolves_skip evolves_refl fresh_key)
   apply (rule evolves_new[OF _ assms]; auto simp: creates_def sound_row_def dest: chunk_size_positive max_retries_nonneg)+
  done

lemma create_send_evolves:
  assumes "known_ids w"
  shows "wp (run_call te (CreateSend u n sz k req)) (\<lambda>_. evolves (CreateSend u n sz k req) w)
    (\<lambda>_. evolves (CreateSend u n sz k req) w) w"
  unfolding run_call.simps create_send_transfer_def insert_transfer_def insert_upload_def acquire_transfer_slot_def
  apply (intro wp_ignore wp_fresh_id wp_modifyI t_wp wp_save_new)
  apply (simp_all add: assms evolves_skip evolves_refl fresh_key)
   apply (rule evolves_new[OF _ assms]; auto simp: creates_def sound_row_def dest: chunk_size_positive max_retries_nonneg)+
  done

section \<open>Finishing a send\<close>

text \<open>The table of \<open>w\<close> with the row of \<open>t\<close> replaced by one that satisfies \<open>G\<close>.\<close>

definition steady :: "tworld \<Rightarrow> tworld \<Rightarrow> bool" where
  "steady w v \<longleftrightarrow> tw_now v = tw_now w \<and> tw_uuid v = tw_uuid w \<and> tw_uuids v = tw_uuids w"

definition pending :: "(transfer \<Rightarrow> bool) \<Rightarrow> tworld \<Rightarrow> transfer \<Rightarrow> tworld \<Rightarrow> bool" where
  "pending G w t v \<longleftrightarrow> steady w v \<and> (\<exists>r. tr_id r = tr_id t \<and> G r
     \<and> tw_transfers v = map (\<lambda>x. if tr_id x = tr_id t then r else x) (tw_transfers w))"

lemma pending_other [simp]:
  "pending G w t (v\<lparr>tw_os := s\<rparr>) = pending G w t v" "pending G w t (v\<lparr>tw_uploads := us\<rparr>) = pending G w t v"
  "pending G w t (v\<lparr>tw_temp := tmp\<rparr>) = pending G w t v" "pending G (w\<lparr>tw_os := s\<rparr>) t v = pending G w t v"
  "pending G (w\<lparr>tw_uploads := us\<rparr>) t v = pending G w t v" "pending G (w\<lparr>tw_temp := tmp\<rparr>) t v = pending G w t v"
  "steady w (v\<lparr>tw_os := s\<rparr>) = steady w v" "steady w (v\<lparr>tw_uploads := us\<rparr>) = steady w v"
  "steady (w\<lparr>tw_os := s\<rparr>) v = steady w v" "steady w w"
  "steady w (v\<lparr>tw_temp := tmp\<rparr>) = steady w v"
  by (auto simp: pending_def steady_def)

lemma pending_steady: "pending G w t v \<Longrightarrow> steady w v"
  by (simp add: pending_def)

lemma same_id_same_row:
  "known_ids w \<Longrightarrow> t \<in> set (tw_transfers w) \<Longrightarrow> r \<in> set (tw_transfers w) \<Longrightarrow> tr_id r = tr_id t \<Longrightarrow> r = t"
  by (auto simp: known_ids_def distinct_map dest: inj_onD)

lemma pending_evolves:
  assumes "known_ids w" "t \<in> set (tw_transfers w)" "pending G w t v" "\<And>r. G r \<Longrightarrow> row_step c t r"
  shows "evolves c w v"
proof -
  obtain r where r: "tr_id r = tr_id t" "G r" "steady w v"
    and v: "tw_transfers v = map (\<lambda>x. if tr_id x = tr_id t then r else x) (tw_transfers w)"
    using assms(3) by (auto simp: pending_def)
  have step: "row_step c x (if tr_id x = tr_id t then r else x)" if "x \<in> set (tw_transfers w)" for x
    using same_id_same_row[OF assms(1,2) that] assms(4)[OF r(2)] by (auto simp: row_step_def)
  have ids: "map tr_id (tw_transfers v) = map tr_id (tw_transfers w)" using v r(1) by auto
  have "known_ids v"
    using assms(1) r(3) unfolding known_ids_def steady_def ids list.set_map[symmetric] by simp
  moreover have "list_all2 (row_step c) (tw_transfers w) (tw_transfers v)"
    using step v by (auto simp: list_all2_conv_all_nth)
  ultimately show ?thesis using v r(3) by (auto simp: evolves_def steady_def)
qed

lemma wp_save_first:
  assumes "known_ids w" "t \<in> set (tw_transfers w)" "tr_id (f t) = tr_id t" "G ((f t)\<lparr>tr_updated := tw_now w\<rparr>)"
    and "pending G w t (saved t f w) \<Longrightarrow> Q ((f t)\<lparr>tr_updated := tw_now w\<rparr>) (saved t f w)"
  shows "wp (save_transfer (tr_id t) f) Q E w"
proof -
  have "map (\<lambda>r. if tr_id r = tr_id t then (f r)\<lparr>tr_updated := tw_now w\<rparr> else r) (tw_transfers w)
      = map (\<lambda>r. if tr_id r = tr_id t then (f t)\<lparr>tr_updated := tw_now w\<rparr> else r) (tw_transfers w)"
    using same_id_same_row[OF assms(1,2)] by auto
  then have "pending G w t (saved t f w)"
    using assms(3,4) unfolding pending_def
    by (intro conjI exI[of _ "(f t)\<lparr>tr_updated := tw_now w\<rparr>"]) (simp_all add: saved_def steady_def)
  with assms show ?thesis by (intro wp_save_transfer) auto
qed

lemma keeps_pending [keeps_intros]:
  "keeps (pending G w t) (on_fs m)" "keeps (pending G w t) (sync_transfer_upload_state r s msg c)"
  "keeps (pending G w t) (cleanup_staging te p)" "keeps (pending G w t) (get_transfer i)"
  "keeps (pending G w t) (modify (\<lambda>w. w\<lparr>tw_temp := tmp\<rparr>))"
  by (auto simp: keeps_def wp_simps intro!: wp_on_fs wp_sync wp_cleanups wp_get_transfer)

lemma keeps_save [keeps_intros]:
  assumes "i = tr_id t" "\<And>r. tr_id (f r) = tr_id r" "\<And>r n. G r \<Longrightarrow> G ((f r)\<lparr>tr_updated := n\<rparr>)"
  shows "keeps (pending G w t) (save_transfer i f)"
proof (rule keepsI)
  fix v assume "pending G w t v"
  then obtain r where r: "tr_id r = tr_id t" "G r" "steady w v"
    and v: "tw_transfers v = map (\<lambda>x. if tr_id x = tr_id t then r else x) (tw_transfers w)"
    by (auto simp: pending_def)
  let ?r = "(f r)\<lparr>tr_updated := tw_now v\<rparr>"
  have "map (\<lambda>x. if tr_id x = tr_id t then (f x)\<lparr>tr_updated := tw_now v\<rparr> else x) (tw_transfers v)
      = map (\<lambda>x. if tr_id x = tr_id t then ?r else x) (tw_transfers w)"
    using v r(1) by auto
  moreover have "tr_id ?r = tr_id t" "G ?r" using r assms by auto
  ultimately have "pending G w t (v\<lparr>tw_transfers :=
      map (\<lambda>x. if tr_id x = tr_id t then (f x)\<lparr>tr_updated := tw_now v\<rparr> else x) (tw_transfers v)\<rparr>)"
    using r(3) unfolding pending_def by (intro conjI exI[of _ ?r]) (simp_all add: steady_def)
  then show "wp (save_transfer i f) (\<lambda>_. pending G w t) (\<lambda>_. pending G w t) v"
    by (simp add: save_transfer_def wp_simps assms(1)) (intro wp_get_transfer)
qed

lemma keeps_cond: "(b \<Longrightarrow> keeps P m) \<Longrightarrow> (\<not> b \<Longrightarrow> keeps P n) \<Longrightarrow> keeps P (if b then m else n)"
  by simp

lemma keeps_with_fs:
  assumes "\<And>B R. (\<And>fd name. gives R (B fd name)) \<Longrightarrow> gives R (manager B)"
    and body: "\<And>fd name. keeps P (body fd name)" and os: "\<And>v s. P v \<Longrightarrow> P (v\<lparr>tw_os := s\<rparr>)"
  shows "keeps P (with_fs manager body)"
proof (rule keepsI)
  fix w assume w: "P w"
  let ?B = "\<lambda>fd name s. case body fd name (w\<lparr>tw_os := s\<rparr>) of (r, v) \<Rightarrow> (Inr (r, v), tw_os v)"
  have "gives (\<lambda>(r, v). P v) (?B fd name)" for fd name
  proof (rule givesI)
    fix s x t assume "?B fd name s = (Inr x, t)"
    then show "case x of (r, v) \<Rightarrow> P v"
      using keepsD[OF body os[OF w], of fd name s] by (auto simp: wp_def split: prod.splits sum.splits)
  qed
  then have "gives (\<lambda>(r, v). P v) (manager ?B)" by (rule assms(1))
  then show "wp (with_fs manager body) (\<lambda>_. P) (\<lambda>_. P) w"
    using os w by (auto simp: wp_def with_fs_def dest!: givesD split: prod.splits sum.splits)
qed

text \<open>The rows a finalization may leave.\<close>

definition finalized :: "transfer \<Rightarrow> transfer \<Rightarrow> bool" where
  "finalized t r \<longleftrightarrow> identity r = identity t \<and> tr_status r \<in> {Verifying, Completed, Failed} \<and> tr_retries r = tr_retries t
     \<and> (sound_row t \<longrightarrow> sound_row r)"

lemma identity_fields: "identity r = identity t \<Longrightarrow> tr_size r = tr_size t \<and> tr_direction r = tr_direction t \<and> tr_id r = tr_id t"
  by (cases r; cases t) (simp add: identity_def)

lemma sound_verdict:
  assumes "sound_row r" "tr_direction r = Send"
  shows "s \<in> {Verifying, Failed} \<Longrightarrow> sound_row (r\<lparr>tr_status := s, tr_error := m, tr_source_sum := a\<rparr>)"
    "s \<in> {Verifying, Failed} \<Longrightarrow> sound_row (r\<lparr>tr_status := s, tr_error := m\<rparr>)"
    "sound_row (r\<lparr>tr_dest_sum := b, tr_status := Failed, tr_error := m, tr_source_sum := a\<rparr>)"
    "sound_row (r\<lparr>tr_dest_sum := a, tr_status := Completed, tr_completed := d, tr_error := m, tr_bytes := tr_size r,
       tr_source_sum := a\<rparr>)"
  using assms by (simp_all add: sound_row_def) blast+

lemma finalized_saves:
  assumes "tr_direction t = Send" "finalized t r"
  shows "s \<in> {Verifying, Failed} \<Longrightarrow> finalized t (r\<lparr>tr_status := s, tr_error := m, tr_source_sum := a, tr_updated := n\<rparr>)"
    "s \<in> {Verifying, Failed} \<Longrightarrow> finalized t (r\<lparr>tr_status := s, tr_error := m, tr_updated := n\<rparr>)"
    "finalized t (r\<lparr>tr_dest_sum := b, tr_status := Failed, tr_error := m, tr_source_sum := a, tr_updated := n\<rparr>)"
    "finalized t (r\<lparr>tr_dest_sum := a, tr_status := Completed, tr_completed := d, tr_error := m, tr_bytes := tr_size t,
       tr_source_sum := a, tr_updated := n\<rparr>)"
proof -
  have r: "identity r = identity t" "tr_retries r = tr_retries t" "sound_row t \<Longrightarrow> sound_row r" "tr_direction r = Send"
    and sz: "tr_size t = tr_size r"
    using assms identity_fields[of r t] by (simp_all add: finalized_def)
  show "s \<in> {Verifying, Failed} \<Longrightarrow> finalized t (r\<lparr>tr_status := s, tr_error := m, tr_source_sum := a, tr_updated := n\<rparr>)"
    "s \<in> {Verifying, Failed} \<Longrightarrow> finalized t (r\<lparr>tr_status := s, tr_error := m, tr_updated := n\<rparr>)"
    "finalized t (r\<lparr>tr_dest_sum := b, tr_status := Failed, tr_error := m, tr_source_sum := a, tr_updated := n\<rparr>)"
    "finalized t (r\<lparr>tr_dest_sum := a, tr_status := Completed, tr_completed := d, tr_error := m, tr_bytes := tr_size t,
       tr_source_sum := a, tr_updated := n\<rparr>)"
    using sound_verdict[OF r(3) r(4)] by (auto simp: finalized_def r(1,2) sz)
qed

lemma keeps_promote_link:
  "tr_direction t = Send \<Longrightarrow>
    keeps (pending (finalized t) w t) (promote_link te (t\<lparr>tr_source_sum := a\<rparr>) upload staging fd temp name a)"
  unfolding promote_link_def
  by (intro keeps_intros; (simp add: finalized_saves)?)

lemma keeps_promote_body:
  "tr_direction t = Send \<Longrightarrow>
    keeps (pending (finalized t) w t) (promote_body te (t\<lparr>tr_source_sum := a\<rparr>) upload staging sfd sst root parts fd name)"
  unfolding promote_body_def Let_def
  by (intro keeps_cond keeps_intros; (simp add: finalized_saves keeps_promote_link)?)

lemma keeps_promote:
  "tr_direction t = Send \<Longrightarrow> keeps (pending (finalized t) w t) (promote te (t\<lparr>tr_source_sum := a\<rparr>) upload staging u)"
  unfolding promote_def
  by (intro keeps_intros keeps_with_fs keeps_promote_body; (simp add: gives_open_parent)?)

lemma keeps_promotion_failed:
  "tr_direction t = Send \<Longrightarrow> keeps (pending (finalized t) w t) (promotion_failed te (t\<lparr>tr_source_sum := a\<rparr>) e)"
  unfolding promotion_failed_def
  by (intro keeps_intros; (simp add: finalized_saves)?)

lemma wp_pending:
  "keeps (pending G w t) m \<Longrightarrow> pending G w t v \<Longrightarrow> (\<And>x v. pending G w t v \<Longrightarrow> Q x v) \<Longrightarrow> (\<And>e v. pending G w t v \<Longrightarrow> E e v)
    \<Longrightarrow> wp m Q E v"
  by (rule wp_mono[OF keepsD[of "pending G w t"]])

lemma row_finalized: "tr_direction t = Send \<Longrightarrow> s \<in> {Verifying, Failed} \<Longrightarrow>
    finalized t (t\<lparr>tr_status := s, tr_error := m, tr_source_sum := a, tr_updated := n\<rparr>)"
  by (auto simp: finalized_def sound_row_def)

lemma wp_save_finalized:
  assumes w: "known_ids w" "t \<in> set (tw_transfers w)" "tr_direction t = Send"
    and r: "finalized t ((f t)\<lparr>tr_updated := tw_now w\<rparr>)" "tr_id (f t) = tr_id t" "i = tr_id t"
    and Q: "\<And>x v. pending (finalized t) w t v \<Longrightarrow> Q x v"
  shows "wp (save_transfer i f) Q E w"
  unfolding r(3) by (rule wp_save_first[where G = "finalized t"]) (use assms in auto)

lemma fail_send_pending:
  assumes w: "known_ids w" "t \<in> set (tw_transfers w)" "tr_direction t = Send"
  shows "wp (fail_send te (t\<lparr>tr_source_sum := a\<rparr>) upload staging m b) (\<lambda>_. pending (finalized t) w t) (\<lambda>_. steady w) w"
  unfolding fail_send_def whenever_def
  apply (intro wp_sync wp_cleanups t_wp wp_save_finalized[where t = t])
  apply (simp_all add: w row_finalized)
  done

lemma finalize_ready_pending:
  assumes w: "known_ids w" "t \<in> set (tw_transfers w)" "tr_direction t = Send"
  shows "wp (finalize_ready te (t\<lparr>tr_source_sum := a\<rparr>) upload staging u large)
    (\<lambda>_. pending (finalized t) w t) (\<lambda>_. steady w) w"
proof -
  let ?t = "t\<lparr>tr_source_sum := a\<rparr>"
  have rest: "keeps (pending (finalized t) w t) (seq (modify (\<lambda>w. w\<lparr>tw_temp := None\<rparr>))
             (catch (promote te ?t upload staging u) (promotion_failed te ?t)))"
    by (intro keeps_intros keeps_promote keeps_promotion_failed w) simp_all
  show ?thesis
    unfolding finalize_ready_def
    apply (intro wp_bindI wp_seqI wp_save_finalized[where t = t] wp_lift_any wp_retI)
         apply (simp_all add: w row_finalized pending_steady)
    apply (auto intro!: wp_pending[OF keeps_pending(4)] wp_pending[OF rest] intro: pending_steady)
    done
qed

lemma finalize_upload_pending:
  assumes w: "known_ids w" "t \<in> set (tw_transfers w)" "tr_direction t = Send"
  shows "wp (finalize_upload te (t\<lparr>tr_source_sum := a\<rparr>) upload u large)
    (\<lambda>_. pending (finalized t) w t) (\<lambda>_. steady w) w"
proof -
  have os: "known_ids (w\<lparr>tw_os := s\<rparr>)" "t \<in> set (tw_transfers (w\<lparr>tw_os := s\<rparr>))" for s using w by simp_all
  have fail: "wp (fail_send te (t\<lparr>tr_source_sum := a\<rparr>) upload x m b) (\<lambda>_. pending (finalized t) w t) (\<lambda>_. steady w)
      (w\<lparr>tw_os := s\<rparr>)" for te upload x m b s a
    by (rule wp_mono[OF fail_send_pending[OF os w(3)]]) simp_all
  have ready: "wp (finalize_ready te (t\<lparr>tr_source_sum := a\<rparr>) upload x u large) (\<lambda>_. pending (finalized t) w t)
      (\<lambda>_. steady w) (w\<lparr>tw_os := s\<rparr>)" for te upload x u large s a
    by (rule wp_mono[OF finalize_ready_pending[OF os w(3)]]) simp_all
  show ?thesis
    unfolding finalize_upload_def by (intro t_wp) (simp_all add: fail ready)
qed

lemma sync_finalize_evolves:
  assumes w: "known_ids w"
    and c: "\<And>s s'. s \<in> {Preparing, Transferring, Interrupted, Verifying} \<Longrightarrow> s' \<in> {Verifying, Completed, Failed} \<Longrightarrow> t_step c s s'"
  shows "wp (sync_finalize_send te i u ck large) (\<lambda>_. evolves c w) (\<lambda>_. evolves c w) w"
proof -
  have upload: "wp (finalize_upload te (t\<lparr>tr_source_sum := a\<rparr>) upload u large) (\<lambda>_. evolves c w)
      (\<lambda>_ v. evolves c w (v\<lparr>tw_transfers := tw_transfers w\<rparr>)) w"
    if t: "t \<in> set (tw_transfers w)" "tr_direction t = Send"
      "tr_status t = Preparing \<or> tr_status t = Transferring \<or> tr_status t = Interrupted \<or> tr_status t = Verifying" for t a upload
  proof (rule wp_mono[OF finalize_upload_pending[OF w t(1,2)]])
    fix v assume "pending (finalized t) w t v"
    then show "evolves c w v"
      by (rule pending_evolves[OF w t(1)]) (use c t(3) in \<open>auto simp: finalized_def row_step_def\<close>)
  next
    fix v assume "steady w v"
    then show "evolves c w (v\<lparr>tw_transfers := tw_transfers w\<rparr>)"
      using w by (intro evolves_skip) (auto simp: steady_def)
  qed
  have upload': "wp (finalize_upload te t upload u large) (\<lambda>_. evolves c w)
      (\<lambda>_ v. evolves c w (v\<lparr>tw_transfers := tw_transfers w\<rparr>)) w"
    if t: "t \<in> set (tw_transfers w)" "tr_direction t = Send"
      "tr_status t = Preparing \<or> tr_status t = Transferring \<or> tr_status t = Interrupted \<or> tr_status t = Verifying" for t upload
    using upload[OF t, of "tr_source_sum t" upload] by simp
  show ?thesis
    unfolding sync_finalize_send_def
    apply (intro t_wp)
    apply (simp_all add: w evolves_refl evolves_skip)
       apply (auto intro: upload upload')
    done
qed

section \<open>Maintenance\<close>

lemma maintain_trans: "t_step (Maintain b d) r s \<Longrightarrow> t_step (Maintain b d) s t \<Longrightarrow> t_step (Maintain b d) r t"
  by (cases s) (auto simp: t_step_simps active_status_def)

lemma row_step_maintain_trans:
  assumes "row_step (Maintain b d) r s" "row_step (Maintain b d) s t"
  shows "row_step (Maintain b d) r t"
proof (cases "s = r \<or> t = s")
  case False
  then have a: "identity s = identity r" "sound_row r \<longrightarrow> sound_row s" "tr_retries r \<le> tr_retries s"
      "tr_status s = tr_status r \<or> t_step (Maintain b d) (tr_status r) (tr_status s)"
    and b: "identity t = identity s" "sound_row s \<longrightarrow> sound_row t" "tr_retries s \<le> tr_retries t"
      "tr_status t = tr_status s \<or> t_step (Maintain b d) (tr_status s) (tr_status t)"
    using assms by (simp_all add: row_step_def)
  have "tr_status t = tr_status r \<or> t_step (Maintain b d) (tr_status r) (tr_status t)"
    using a(4) b(4) maintain_trans by metis
  with a b show ?thesis by (simp add: row_step_def)
qed (use assms in auto)

lemma list_all2_sound: "list_all2 (row_step c) xs ys \<Longrightarrow> list_all sound_row xs \<Longrightarrow> list_all sound_row ys"
  by (induction rule: list_all2_induct) (auto simp: row_step_def)

lemma evolves_trans:
  assumes trans: "\<And>r s t. row_step c r s \<Longrightarrow> row_step c s t \<Longrightarrow> row_step c r t"
    and wv: "evolves c w v" and vu: "evolves c v u"
  shows "evolves c w u"
proof -
  let ?n = "length (tw_transfers w)" and ?m = "length (tw_transfers v)"
  obtain a where a: "list_all2 (row_step c) (tw_transfers w) (take ?n (tw_transfers v))"
    "tw_transfers v = take ?n (tw_transfers v) @ a" "list_all sound_row a" "a \<noteq> [] \<longrightarrow> creates c" using wv by (auto simp: evolves_def)
  obtain b where b: "list_all2 (row_step c) (tw_transfers v) (take ?m (tw_transfers u))"
    "tw_transfers u = take ?m (tw_transfers u) @ b" "list_all sound_row b" "b \<noteq> [] \<longrightarrow> creates c" using vu by (auto simp: evolves_def)
  have len: "?n \<le> ?m" using a(1) by (auto dest: list_all2_lengthD)
  have len2: "length (tw_transfers u) \<ge> ?m" using b(1) by (auto dest: list_all2_lengthD)
  have t: "take ?n (take ?m (tw_transfers u)) = take ?n (tw_transfers u)" using len by (simp add: min_def)
  have b1: "list_all2 (row_step c) (take ?n (tw_transfers v)) (take ?n (tw_transfers u))"
    using list_all2_takeI[OF b(1), of ?n] t by simp
  have b2: "list_all2 (row_step c) (drop ?n (tw_transfers v)) (drop ?n (take ?m (tw_transfers u)))"
    using list_all2_dropI[OF b(1), of ?n] .
  have "drop ?n (tw_transfers v) = a" using a(2) by (metis append_eq_conv_conj append_take_drop_id same_append_eq)
  with b2 a(3,4) have new: "list_all sound_row (drop ?n (take ?m (tw_transfers u)))"
      "drop ?n (take ?m (tw_transfers u)) \<noteq> [] \<longrightarrow> creates c"
    by (auto intro: list_all2_sound dest: list_all2_lengthD)
  have "list_all2 (row_step c) (tw_transfers w) (take ?n (tw_transfers u))"
    by (rule list_all2_trans[OF trans a(1) b1])
  moreover have "tw_transfers u = take ?n (tw_transfers u) @ (drop ?n (take ?m (tw_transfers u)) @ b)"
    using b(2) t by (metis append.assoc append_take_drop_id)
  moreover have "known_ids u" "tw_now u = tw_now w" "tw_uuid u = tw_uuid w" "tw_uuids w \<le> tw_uuids u"
    using wv vu by (auto simp: evolves_def)
  moreover have "list_all sound_row (drop ?n (take ?m (tw_transfers u)) @ b)"
    "drop ?n (take ?m (tw_transfers u)) @ b \<noteq> [] \<longrightarrow> creates c" using new b(3,4) by auto
  ultimately show ?thesis unfolding evolves_def by blast
qed

lemma keeps_evolves:
  assumes "\<And>v. known_ids v \<Longrightarrow> wp m (\<lambda>_. evolves (Maintain b d) v) (\<lambda>_. evolves (Maintain b d) v) v"
  shows "keeps (evolves (Maintain b d) w) m"
proof (rule keepsI)
  fix v assume v: "evolves (Maintain b d) w v"
  then have "known_ids v" by (simp add: evolves_def)
  from assms[OF this] show "wp m (\<lambda>_. evolves (Maintain b d) w) (\<lambda>_. evolves (Maintain b d) w) v"
    by (rule wp_mono) (auto intro: evolves_trans[OF row_step_maintain_trans v])
qed

lemma wp_find_row:
  "Q None w \<Longrightarrow> (\<And>t. t \<in> set (tw_transfers w) \<Longrightarrow> P w t \<Longrightarrow> Q (Some t) w)
    \<Longrightarrow> wp (gets (\<lambda>w. find (P w) (tw_transfers w))) Q E w"
  by (cases "find (P w) (tw_transfers w)") (auto simp: wp_gets dest: find_member)

lemma wp_save_maintain:
  assumes "known_ids w" "t \<in> set (tw_transfers w)" "tr_id (f t) = tr_id t" "i = tr_id t"
    "row_step c t ((f t)\<lparr>tr_updated := tw_now w\<rparr>)" "\<And>x v. evolves c w v \<Longrightarrow> Q x v"
  shows "wp (save_transfer i f) Q E w"
  unfolding assms(4) by (rule wp_save) (use assms in auto)

lemma wp_try_elseI: "wp m (\<lambda>x. wp (k x) Q E) (\<lambda>e. wp (h e) Q E) w \<Longrightarrow> wp (try_else m h k) Q E w"
  by (simp add: wp_try_else)

lemma expire_row_evolves: "known_ids w \<Longrightarrow> wp (expire_row te i) (\<lambda>_. evolves (Maintain b d) w) (\<lambda>_. evolves (Maintain b d) w) w"
  unfolding expire_row_def
  apply (intro wp_sync wp_cleanups wp_find_row t_wp wp_save_maintain[where c = "Maintain b d"] row_stepI)
  apply (simp_all add: evolves_refl)
   apply (auto simp: sound_row_def t_step_simps expirable_def)
  done

lemma fail_verifying_evolves:
  "known_ids w \<Longrightarrow> wp (fail_verifying te i m wu) (\<lambda>_. evolves (Maintain b d) w) (\<lambda>_. evolves (Maintain b d) w) w"
  unfolding fail_verifying_def whenever_def
  apply (intro wp_sync wp_cleanups wp_find_row t_wp wp_save_maintain[where c = "Maintain b d"] row_stepI)
  apply (simp_all add: evolves_refl)
   apply (auto simp: sound_row_def t_step_simps)
  done

lemma keeps_fail_verifying [keeps_intros]: "keeps (evolves (Maintain b d) w) (fail_verifying te i m wu)"
  by (rule keeps_evolves[OF fail_verifying_evolves])

lemma keeps_finalize [keeps_intros]: "keeps (evolves (Maintain b d) w) (sync_finalize_send te i u ck large)"
  by (rule keeps_evolves, rule sync_finalize_evolves) (auto simp: t_step_simps)

lemma keeps_expire_row [keeps_intros]: "keeps (evolves (Maintain b d) w) (expire_row te i)"
  by (rule keeps_evolves[OF expire_row_evolves])

lemma keeps_find_transfer [keeps_intros]: "keeps P (find_transfer i)"
  unfolding find_transfer_def by (intro keeps_intros)

lemma keeps_verify_send [keeps_intros]: "keeps (evolves (Maintain b d) w) (verify_send_row te i)"
  unfolding verify_send_row_def by (intro keeps_intros)

lemma verified_step:
  assumes "tr_direction t = Receive" "tr_status t = Verifying"
  shows "row_step (Maintain b d) t (t\<lparr>tr_source_sum := tr_dest_sum t, tr_status := Completed,
      tr_error := e, tr_completed := a, tr_updated := n\<rparr>)"
    "row_step (Maintain b d) t (t\<lparr>tr_source_sum := k, tr_status := Failed, tr_error := e, tr_updated := n\<rparr>)"
  using assms by (auto intro!: row_stepI simp: t_step_simps sound_row_def)

lemma verify_receive_body:
  "known_ids w \<Longrightarrow> wp (atomic
         (bind (gets (\<lambda>w. find (\<lambda>t. tr_id t = i \<and> tr_direction t = Receive \<and> tr_status t = Verifying) (tw_transfers w)))
           (\<lambda>r. case r of
             None \<Rightarrow> ret None
           | Some t \<Rightarrow>
               bind (on_fs (resolve_bound_transfer_path te t
                       (case (case tr_actor t of None \<Rightarrow> None | Some a \<Rightarrow> te_user te a) of None \<Rightarrow> anonymous | Some u \<Rightarrow> u) False))
                 (\<lambda>(root, parts).
               bind (on_fs (hash_server_file te root parts)) (\<lambda>checksum.
               bind (gets tw_now) (\<lambda>now.
               bind (save_transfer i (\<lambda>r. r\<lparr>tr_source_sum := checksum,
                       tr_status := (if checksum = tr_dest_sum t then Completed else Failed),
                       tr_error := (if checksum = tr_dest_sum t then [] else ''Source and client SHA-256 checksums do not match.''),
                       tr_completed := (if checksum = tr_dest_sum t then Some now else tr_completed r)\<rparr>)) (\<lambda>r.
               ret (Some (tr_status r)))))))))
    (\<lambda>_. evolves (Maintain b d) w) (\<lambda>_. evolves (Maintain b d) w) w"
  apply (intro wp_find_row t_wp wp_save_maintain[where c = "Maintain b d"])
  apply (simp_all add: evolves_refl)
   apply (auto simp: verified_step)
  done

lemma keeps_verify_receive [keeps_intros]: "keeps (evolves (Maintain b d) w) (verify_receive_row te i)"
  unfolding verify_receive_row_def
  by (rule keeps_catch, rule keeps_evolves, rule verify_receive_body, assumption) (intro keeps_intros)

lemma keeps_expire_rows [keeps_intros]: "keeps (evolves (Maintain b d) w) (expire_rows te batch n ids)"
  by (induction ids arbitrary: n) (auto simp: Let_def intro!: keeps_intros)

lemma keeps_verify_rows [keeps_intros]:
  "(\<And>i. keeps P (f i)) \<Longrightarrow> keeps P (verify_rows f remaining m ids)"
  by (induction ids arbitrary: remaining m) (auto simp: Let_def intro!: keeps_intros split: option.splits)

lemma maintain_evolves:
  assumes "known_ids w"
  shows "wp (run_call te (Maintain b d)) (\<lambda>_. evolves (Maintain b d) w) (\<lambda>_. evolves (Maintain b d) w) w"
proof -
  have "keeps (evolves (Maintain b d) w) (run_call te (Maintain b d))"
    unfolding run_call.simps ignore_def maintenance_def Let_def by (intro keeps_intros)
  then show ?thesis using evolves_refl[OF assms] by (rule keepsD)
qed

lemma finalize_evolves:
  assumes "known_ids w"
  shows "wp (run_call te (Finalize u i k l)) (\<lambda>_. evolves (Finalize u i k l) w) (\<lambda>_. evolves (Finalize u i k l) w) w"
  unfolding run_call.simps by (intro wp_ignore sync_finalize_evolves assms) (simp add: t_step_simps)

lemma call_evolves: "known_ids w \<Longrightarrow> wp (run_call te c) (\<lambda>_. evolves c w) (\<lambda>_. evolves c w) w"
  by (cases c) (simp_all only: create_send_evolves resume_send_evolves resume_receive_evolves pause_evolves retry_evolves
      finalize_evolves create_receive_evolves chunk_evolves complete_evolves cancel_evolves maintain_evolves)

end
