(* ===== verification/Transfer_Props.thy ===== *)
theory Transfer_Props
  imports Transfer_Life Server_Files_Props
begin

text \<open>
  What the Transfer Center guarantees: each call is a step of the status machine \<open>t_step\<close>, completed
  transfers were verified, final statuses stay, and the number of active transfers stays within the
  configured limit. Two properties show where the code departs from its comments: a retry of an
  interrupted transfer counts that transfer itself, and a maintenance run dies of a name error on
  the first send that it cannot verify.
\<close>

section \<open>Runs of the system\<close>

text \<open>Between two calls, other components and the clock may change everything but the transfer table:
  the uploads, the files and the time.\<close>

inductive t_run :: "t_env \<Rightarrow> tworld \<Rightarrow> tworld \<Rightarrow> bool" for te where
  start: "t_run te w w"
| call: "t_run te w v \<Longrightarrow> run_call te c v = (r, u) \<Longrightarrow> t_run te w u"
| other: "t_run te w v \<Longrightarrow> t_run te w (v\<lparr>tw_os := s, tw_uploads := us, tw_now := n\<rparr>)"

lemma call_evolvesD: "known_ids w \<Longrightarrow> run_call te c w = (r, v) \<Longrightarrow> evolves c w v"
  using call_evolves[of w te c] by (auto simp: wp_def split: sum.splits)

lemma evolves_rows:
  assumes "evolves c w v" "n < length (tw_transfers w)"
  shows "n < length (tw_transfers v)" "row_step c (tw_transfers w ! n) (tw_transfers v ! n)"
  using assms by (auto simp: evolves_def list_all2_conv_all_nth)

lemma evolves_new_sound:
  assumes "evolves c w v" "list_all sound_row (tw_transfers w)"
  shows "list_all sound_row (tw_transfers v)"
proof -
  obtain a where a: "list_all2 (row_step c) (tw_transfers w) (take (length (tw_transfers w)) (tw_transfers v))"
    "tw_transfers v = take (length (tw_transfers w)) (tw_transfers v) @ a" "list_all sound_row a"
    using assms(1) by (auto simp: evolves_def)
  from list_all2_sound[OF a(1) assms(2)] a(3) show ?thesis by (subst a(2)) simp
qed

lemma t_run_known: "t_run te w v \<Longrightarrow> known_ids w \<Longrightarrow> known_ids v"
proof (induction rule: t_run.induct)
  case (call w v c r u)
  then show ?case using call_evolvesD[of v te c r u] by (simp add: evolves_def)
next
  case (other w v s us n)
  then show ?case by (simp add: known_ids_def)
qed

lemma row_stepD:
  "row_step c t t' \<Longrightarrow> identity t' = identity t \<and> (tr_status t' = tr_status t \<or> t_step c (tr_status t) (tr_status t'))"
  by (auto simp: row_step_def)

text \<open>C24: the Transfer Center implements the status machine \<open>t_step\<close>: whatever a call does or fails
  at, no row disappears, none changes its identity (owner, direction, file, size, chunking, exchange
  path), and its status stays or makes a step that the machine allows for that call.\<close>

theorem calls_refine_lifecycle:
  assumes "known_ids w" "run_call te c w = (r, v)"
  shows "length (tw_transfers w) \<le> length (tw_transfers v)
    \<and> (\<forall>n < length (tw_transfers w).
        identity (tw_transfers v ! n) = identity (tw_transfers w ! n)
        \<and> (tr_status (tw_transfers v ! n) = tr_status (tw_transfers w ! n)
           \<or> t_step c (tr_status (tw_transfers w ! n)) (tr_status (tw_transfers v ! n))))"
proof -
  have ev: "evolves c w v" using call_evolvesD[OF assms] .
  then have "length (tw_transfers w) \<le> length (tw_transfers v)"
    by (auto simp: evolves_def dest: list_all2_lengthD)
  with row_stepD[OF evolves_rows(2)[OF ev]] show ?thesis by simp
qed

text \<open>C25: in every state the system can reach from an empty table, each row has received between
  nothing and its declared size, its retries are within its limit, and a completed row holds the same
  checksum for both sides and all its bytes.\<close>

theorem reachable_rows_sound:
  assumes "t_run te w v" "known_ids w" "tw_transfers w = []" "t \<in> set (tw_transfers v)"
  shows "0 \<le> tr_bytes t \<and> tr_bytes t \<le> tr_size t \<and> tr_retries t \<le> tr_max_retries t
    \<and> (tr_status t = Completed \<longrightarrow> tr_source_sum t = tr_dest_sum t \<and> tr_bytes t = tr_size t)"
proof -
  have "list_all sound_row (tw_transfers v)"
    using assms(1,2,3)
  proof (induction rule: t_run.induct)
    case (call w v c r u)
    then show ?case using t_run_known[OF call.hyps(1) call.prems(1)]
      by (auto intro: evolves_new_sound call_evolvesD)
  qed auto
  with assms(4) show ?thesis by (auto simp: list_all_iff sound_row_def)
qed

text \<open>C26: completed, cancelled and expired are final: once a row has such a status, it keeps it
  through every later call, whoever makes it.\<close>

theorem final_status_stays:
  assumes "t_run te w v" "known_ids w" "n < length (tw_transfers w)"
    "tr_status (tw_transfers w ! n) = s" "s \<in> {Completed, Cancelled, Expired}"
  shows "n < length (tw_transfers v) \<and> tr_status (tw_transfers v ! n) = s"
  using assms
proof (induction rule: t_run.induct)
  case (call w v c r u)
  then have n: "n < length (tw_transfers v)" "tr_status (tw_transfers v ! n) = s" and s: "s \<in> {Completed, Cancelled, Expired}"
    by auto
  have ev: "evolves c v u" using call_evolvesD t_run_known call by blast
  have "\<not> t_step c s s'" for s' using s by (auto elim!: t_stepE simp: terminal_status_def active_status_def)
  then have "tr_status (tw_transfers u ! n) = s"
    using evolves_rows(2)[OF ev n(1)] n(2) by (auto simp: row_step_def)
  with evolves_rows(1)[OF ev n(1)] show ?case by blast
qed auto

section \<open>Concurrency\<close>

lemma active_count_tables: "tw_transfers v = tw_transfers w \<Longrightarrow> active_count v = active_count w"
  by (simp add: active_count_def)

lemma filter_update_length:
  assumes "distinct (map k xs)" "x \<in> set xs"
  shows "length (filter P (map (\<lambda>r. if k r = k x then g r else r) xs))
      \<le> length (filter P xs) + (if P x then 0 else 1)"
  using assms
proof (induction xs)
  case (Cons y ys)
  have other: "k x \<notin> k ` set ys \<Longrightarrow> map (\<lambda>r. if k r = k x then g r else r) ys = ys"
    by (rule map_idI) (metis imageI)
  show ?case
  proof (cases "y = x")
    case True
    with Cons.prems(1) other show ?thesis by auto
  next
    case False
    with Cons.prems have "k y \<noteq> k x" "x \<in> set ys" "distinct (map k ys)" by auto
    with Cons.IH show ?thesis by auto
  qed
qed simp

lemma active_saved:
  assumes "known_ids w" "t \<in> set (tw_transfers w)"
  shows "active_count (saved t f w) \<le> active_count w + of_bool (\<not> active_status (tr_status t))"
proof -
  have "distinct (map tr_id (tw_transfers w))" using assms(1) by (simp add: known_ids_def)
  from filter_update_length[OF this assms(2), of "\<lambda>t. active_status (tr_status t)" "\<lambda>r. (f r)\<lparr>tr_updated := tw_now w\<rparr>"]
  show ?thesis by (simp add: active_count_def saved_def split: if_splits)
qed

lemma wp_save_count:
  assumes "known_ids w" "t \<in> set (tw_transfers w)" "tr_id (f t) = tr_id t" "i = tr_id t"
    "\<And>x v. active_count v \<le> active_count w + of_bool (\<not> active_status (tr_status t)) \<Longrightarrow> Q x v"
  shows "wp (save_transfer i f) Q E w"
  unfolding assms(4) by (rule wp_save_transfer) (use assms active_saved in auto)

definition slots :: "t_env \<Rightarrow> int" where
  "slots te = (case max_concurrent_transfers (te_settings te) of Inr m \<Rightarrow> m | Inl _ \<Rightarrow> 0)"

lemma active_count_other [simp]:
  "active_count (w\<lparr>tw_os := s\<rparr>) = active_count w" "active_count (w\<lparr>tw_uploads := us\<rparr>) = active_count w"
  "active_count (w\<lparr>tw_uuids := n\<rparr>) = active_count w" "active_count (w\<lparr>tw_temp := tmp\<rparr>) = active_count w"
  "active_count (v\<lparr>tw_transfers := tw_transfers w\<rparr>) = active_count w"
  "active_count (v\<lparr>tw_transfers := tw_transfers w @ [t]\<rparr>) = active_count w + of_bool (active_status (tr_status t))"
  by (simp_all add: active_count_def)

lemma retry_count:
  assumes "known_ids w" "active_count w \<le> slots te"
  shows "wp (run_call te (Retry u t)) (\<lambda>_ v. active_count v \<le> slots te) (\<lambda>_ v. active_count v \<le> slots te) w"
  unfolding run_call.simps retry_transfer_def retry_send_def acquire_transfer_slot_def whenever_def
  apply (intro wp_ignore t_wp wp_save_count)
  apply (simp_all add: assms)
  apply (use assms(2) in \<open>auto simp: slots_def active_status_def\<close>)
  done

lemma create_receive_count:
  assumes "known_ids w" "active_count w \<le> slots te"
  shows "wp (run_call te (CreateReceive u n k)) (\<lambda>_ v. active_count v \<le> slots te) (\<lambda>_ v. active_count v \<le> slots te) w"
  unfolding run_call.simps create_receive_transfer_def insert_transfer_def acquire_transfer_slot_def
  apply (intro wp_ignore wp_fresh_id wp_modifyI t_wp wp_save_new)
  apply (simp_all add: assms fresh_key)
  apply (auto simp: slots_def of_bool_def)
  done

lemma create_send_count:
  assumes "known_ids w" "active_count w \<le> slots te"
  shows "wp (run_call te (CreateSend u n sz k req)) (\<lambda>_ v. active_count v \<le> slots te) (\<lambda>_ v. active_count v \<le> slots te) w"
  unfolding run_call.simps create_send_transfer_def insert_transfer_def insert_upload_def acquire_transfer_slot_def
  apply (intro wp_ignore wp_fresh_id wp_modifyI t_wp wp_save_new)
  apply (simp_all add: assms fresh_key)
  apply (auto simp: slots_def of_bool_def)
  done

lemma evolves_count:
  assumes "evolves c w v" "\<not> creates c" "\<And>u t. c \<noteq> Retry u t"
  shows "active_count v \<le> active_count w"
proof -
  have rows: "list_all2 (row_step c) (tw_transfers w) (tw_transfers v)"
    using assms(1,2) by (auto simp: evolves_def)
  have "active_status (tr_status t') \<Longrightarrow> active_status (tr_status t)" if "row_step c t t'" for t t'
  proof -
    have "active_status s" if "t_step c s s'" "active_status s'" for s s'
      using that assms(3) by (cases s) (auto elim!: t_stepE simp: active_status_def terminal_status_def)
    with row_stepD[OF that] show "active_status (tr_status t') \<Longrightarrow> active_status (tr_status t)" by metis
  qed
  with rows have "length (filter (\<lambda>t. active_status (tr_status t)) (tw_transfers v))
      \<le> length (filter (\<lambda>t. active_status (tr_status t)) (tw_transfers w))"
    by (induction rule: list_all2_induct) auto
  then show ?thesis by (simp add: active_count_def)
qed

lemma call_count:
  assumes "known_ids w" "active_count w \<le> slots te"
  shows "wp (run_call te c) (\<lambda>_ v. active_count v \<le> slots te) (\<lambda>_ v. active_count v \<le> slots te) w"
proof (cases "creates c \<or> (\<exists>u t. c = Retry u t)")
  case True
  then show ?thesis
    by (auto simp: creates_def simp del: run_call.simps split: t_call.splits
        intro: retry_count[OF assms] create_send_count[OF assms] create_receive_count[OF assms])
next
  case False
  then show ?thesis
    by (intro wp_mono[OF call_evolves[OF assms(1)]]) (use assms(2) evolves_count in \<open>fastforce+\<close>)
qed

section \<open>An example deployment\<close>

definition example_te :: "pyval \<Rightarrow> t_env" where
  "example_te enabled = \<lparr>te_files = example_env\<lparr>e_settings := e_settings example_env @
       [(''TRANSFER_CENTER_ENABLED'', enabled), (''TRANSFER_EXCHANGE_ROOT'', PStr ''/srv/data/docs''),
        (''TRANSFER_MAX_CONCURRENT'', PInt 1)]\<rparr>,
     te_expand = Inr, te_base_dir = ''/srv/app'', te_sha = (\<lambda>bs. ''sha256:'' @ bs), te_user = (\<lambda>_. Some manager)\<rparr>"

definition example_transfer :: "direction \<Rightarrow> t_status \<Rightarrow> transfer" where
  "example_transfer d s = \<lparr>tr_id = ''t'', tr_actor = Some 7, tr_direction = d, tr_filename = ''a.txt'', tr_size = 5,
     tr_bytes = 0, tr_chunk_size = 8, tr_total_chunks = 1, tr_received = [], tr_root_id = ''root-0'', tr_path = ''docs/a.txt'',
     tr_staging = [], tr_upload = None, tr_status = s, tr_source_sum = [], tr_dest_sum = [], tr_retries = 0,
     tr_max_retries = 5, tr_error = [], tr_request_id = [], tr_created = 0, tr_started = None, tr_updated = 0,
     tr_completed = None, tr_expires = None\<rparr>"

definition example_tw :: "transfer list \<Rightarrow> tworld" where
  "example_tw ts = \<lparr>tw_os = (example_os [])\<lparr>os_paths := (\<lambda>p. if p = ''/'' then Inr 9 else if p = ''/srv'' then Inr 9
       else if p = ''/srv/data'' then Inr 9 else if p = ''/srv/data/docs'' then Inr 3 else Inl ENOENT)\<rparr>,
     tw_transfers = ts, tw_uploads = [], tw_now = 1000, tw_uuid = (\<lambda>n. CHR ''t'' # replicate n CHR ''0''), tw_uuids = length ts, tw_temp = None, tw_previous = 0, tw_moved = None\<rparr>"

lemma known_example: "known_ids (example_tw [])" "known_ids (example_tw [example_transfer d s])"
  by (auto simp: known_ids_def example_tw_def example_transfer_def inj_def replicate_eq_replicate)

lemma receive_runs:
  "let (r, v) = run_call (example_te (PBool True)) (CreateReceive manager ''a.txt'' []) (example_tw [])
   in r = Inr () \<and> map tr_status (tw_transfers v) = [Preparing] \<and> map tr_source_sum (tw_transfers v) = [''sha256:hello'']"
  by code_simp

lemma cancel_runs:
  "let (r, v) = run_call (example_te (PBool True)) (Cancel manager (example_transfer Receive Paused))
                  (example_tw [example_transfer Receive Paused])
   in r = Inr () \<and> map tr_status (tw_transfers v) = [Cancelled]"
  by code_simp

theorem calls_refine_lifecycle_witness:
  "\<exists>v. run_call (example_te (PBool True)) (Cancel manager (example_transfer Receive Paused))
         (example_tw [example_transfer Receive Paused]) = (Inr (), v)
     \<and> tr_status (tw_transfers v ! 0) = Cancelled \<and> t_step (Cancel manager (example_transfer Receive Paused)) Paused Cancelled"
proof -
  let ?t = "example_transfer Receive Paused"
  let ?w = "example_tw [?t]"
  let ?c = "Cancel manager ?t"
  obtain v where run: "run_call (example_te (PBool True)) ?c ?w = (Inr (), v)" and "map tr_status (tw_transfers v) = [Cancelled]"
    using cancel_runs by (auto simp: Let_def split: prod.splits)
  moreover from this have "tr_status (tw_transfers v ! 0) = Cancelled" by (cases "tw_transfers v") auto
  moreover have "tw_transfers ?w = [?t]" "tr_status ?t = Paused" by (simp_all add: example_tw_def example_transfer_def)
  ultimately show ?thesis using calls_refine_lifecycle[OF known_example(2) run] by auto
qed

theorem reachable_rows_sound_witness:
  "\<exists>v. t_run (example_te (PBool True)) (example_tw []) v \<and> tw_transfers v \<noteq> [] \<and> 0 \<le> tr_bytes (hd (tw_transfers v))"
proof -
  let ?c = "CreateReceive manager ''a.txt'' []"
  obtain v where run: "run_call (example_te (PBool True)) ?c (example_tw []) = (Inr (), v)"
    and rows: "map tr_status (tw_transfers v) = [Preparing]"
    using receive_runs by (auto simp: Let_def split: prod.splits)
  have reach: "t_run (example_te (PBool True)) (example_tw []) v" by (rule t_run.call[OF t_run.start run])
  have "tw_transfers (example_tw []) = []" by (simp add: example_tw_def)
  from reachable_rows_sound[OF reach known_example(1) this hd_in_set] rows reach show ?thesis by auto
qed

theorem final_status_stays_witness:
  "\<exists>v. t_run (example_te (PBool True)) (example_tw [example_transfer Receive Completed]) v
     \<and> tr_status (tw_transfers v ! 0) = Completed"
proof -
  let ?t = "example_transfer Receive Completed"
  let ?run = "run_call (example_te (PBool True)) (Cancel manager ?t) (example_tw [?t])"
  have "t_run (example_te (PBool True)) (example_tw [?t]) (snd ?run)"
    by (rule t_run.call[OF t_run.start]) (rule prod.collapse[symmetric])
  from this final_status_stays[OF this known_example(2), of 0 Completed] show ?thesis
    by (auto simp: example_tw_def example_transfer_def)
qed

text \<open>C27: whatever is asked of it, the Transfer Center never has more active transfers than the
  configured limit allows (at least one).\<close>

theorem active_within_limit:
  assumes "t_run te w v" "known_ids w" "active_count w \<le> slots te"
  shows "active_count v \<le> slots te"
  using assms
proof (induction rule: t_run.induct)
  case (call w v c r u)
  have "wp (run_call te c) (\<lambda>_ v. active_count v \<le> slots te) (\<lambda>_ v. active_count v \<le> slots te) v"
    by (rule call_count[OF t_run_known[OF call.hyps(1) call.prems(1)] call.IH[OF call.prems]])
  with call.hyps(2) show ?case by (cases r) (auto simp: wp_def)
qed (simp_all add: active_count_def)

theorem active_within_limit_witness:
  "\<exists>v. t_run (example_te (PBool True)) (example_tw []) v \<and> active_count v = 1 \<and> slots (example_te (PBool True)) = 1"
proof -
  let ?te = "example_te (PBool True)"
  obtain v where run: "run_call ?te (CreateReceive manager ''a.txt'' []) (example_tw []) = (Inr (), v)"
    and rows: "map tr_status (tw_transfers v) = [Preparing]"
    using receive_runs by (auto simp: Let_def split: prod.splits)
  have reach: "t_run ?te (example_tw []) v" by (rule t_run.call[OF t_run.start run])
  have one: "slots ?te = 1" by code_simp
  have "active_count (example_tw []) \<le> slots ?te" unfolding one by (simp add: active_count_def example_tw_def)
  from active_within_limit[OF reach known_example(1) this] one rows reach show ?thesis
    by (auto simp: active_count_def active_status_def Cons_eq_map_conv)
qed

text \<open>An interrupted transfer holds a slot of its own: with every slot taken its retry is refused,
  also when it is itself the transfer that takes the last one. (The comment in \<open>retry_transfer\<close> says
  that interrupted transfers no longer consume an active slot.)\<close>

theorem interrupted_retry_refused:
  assumes "\<forall>c. has_capability u c = Inr True" "transfer_enabled (te_settings te)"
    "find (\<lambda>r. tr_id r = tr_id t0) (tw_transfers w) = Some t" "owns u t"
    "tr_status t = Interrupted" "tr_retries t < tr_max_retries t"
    "max_concurrent_transfers (te_settings te) = Inr m" "m \<le> active_count w"
  shows "retry_transfer te t0 u w
    = (Inl (PermissionDenied ''The configured concurrent transfer limit has been reached.''), w)"
  using assms
  by (simp add: retry_transfer_def transfer_capabilities_def check_capability_def ensure_enabled_def seq_def bind_def require_def ret_def raise_def atomic_def get_transfer_def
      find_transfer_def gets_def require_owner_def whenever_def acquire_transfer_slot_def lift_def)

theorem interrupted_retry_refused_witness:
  "let w = example_tw [example_transfer Receive Interrupted] in
   active_count w = 1 \<and> retry_transfer (example_te (PBool True)) (example_transfer Receive Interrupted) manager w
    = (Inl (PermissionDenied ''The configured concurrent transfer limit has been reached.''), w)"
proof -
  let ?t = "example_transfer Receive Interrupted"
  let ?w = "example_tw [?t]"
  let ?te = "example_te (PBool True)"
  have capable: "\<forall>c. has_capability manager c = Inr True"
    by (simp add: has_capability_def manager_def viewer_def user_has_perm_def)
  have enabled: "transfer_enabled (te_settings ?te)" and limit: "max_concurrent_transfers (te_settings ?te) = Inr 1"
    by code_simp+
  have active: "active_count ?w = 1" by (simp add: active_count_def example_tw_def example_transfer_def active_status_def)
  have row: "find (\<lambda>r. tr_id r = tr_id ?t) (tw_transfers ?w) = Some ?t" "owns manager ?t" "tr_status ?t = Interrupted"
    "tr_retries ?t < tr_max_retries ?t"
    by (simp_all add: example_tw_def example_transfer_def owns_def manager_def viewer_def)
  from interrupted_retry_refused[OF capable enabled row limit] active show ?thesis by simp
qed

text \<open>A send whose finalization is refused before anything is read leaves the tables as they were.\<close>

lemma finalize_refused:
  assumes "find_transfer (tr_id t) w = (Inr (Some t), w)" "tr_direction t = Send" "tr_status t = Verifying"
    and "\<not> transfer_enabled (te_settings te)
      \<or> (\<exists>c \<in> {''view_transfers'', ''create_transfers'', ''upload_server_files''}. has_capability u c \<noteq> Inr True)
      \<or> (\<forall>r \<in> set (tw_uploads w). tr_upload t = Some (fu_id r) \<longrightarrow> fu_status r \<noteq> UCompleted)"
  shows "\<exists>e. sync_finalize_send te (tr_id t) u PNone True w = (Inl e, w)"
proof -
  have pure: "\<exists>r. transfer_capabilities u Send w = (r, w)
      \<and> ((\<exists>c \<in> {''view_transfers'', ''create_transfers'', ''upload_server_files''}. has_capability u c \<noteq> Inr True) \<longrightarrow> (\<exists>e. r = Inl e))"
    by (auto simp: transfer_capabilities_def check_capability_def seq_def bind_def lift_def require_def ret_def raise_def
        split: sum.splits)
  then obtain r where r: "transfer_capabilities u Send w = (r, w)"
    "(\<exists>c \<in> {''view_transfers'', ''create_transfers'', ''upload_server_files''}. has_capability u c \<noteq> Inr True) \<longrightarrow> (\<exists>e. r = Inl e)"
    by blast
  show ?thesis
  proof (cases "transfer_enabled (te_settings te) \<and> (\<exists>x. r = Inr x)")
    case False
    then show ?thesis
      by (cases r) (auto simp: sync_finalize_send_def ensure_enabled_def seq_def bind_def require_def ret_def raise_def r)
  next
    case True
    with assms(4) r(2) have upload: "\<forall>r \<in> set (tw_uploads w). tr_upload t = Some (fu_id r) \<longrightarrow> fu_status r \<noteq> UCompleted" by auto
    have "\<exists>q. find_upload (tr_upload t) w = (Inr q, w) \<and> (\<forall>r. q = Some r \<longrightarrow> fu_status r \<noteq> UCompleted)"
      using upload by (auto simp: find_upload_def gets_def find_Some_iff split: option.split)
    then obtain q where q: "find_upload (tr_upload t) w = (Inr q, w)" "\<And>r. q = Some r \<Longrightarrow> fu_status r \<noteq> UCompleted" by blast
    from True obtain x where x: "r = Inr x" by blast
    show ?thesis
      using True q(2) assms(1-3)
      by (cases q) (auto simp: sync_finalize_send_def ensure_enabled_def seq_def bind_def require_def ret_def raise_def r x q(1)
          atomic_def get_transfer_or_def require_owner_def terminal_status_def)
  qed
qed

lemma find_key_and:
  assumes "distinct (map f xs)" "t \<in> set xs" "P t"
  shows "find (\<lambda>r. f r = f t \<and> P r) xs = Some t"
proof -
  have "find (\<lambda>r. f r = f t \<and> P r) xs = find (\<lambda>r. f r = f t) xs"
    by (rule find_cong[OF refl]) (metis assms inj_onD distinct_map)
  then show ?thesis by (simp add: find_key[OF assms(1,2)])
qed

text \<open>C29: maintenance does not survive a send that it cannot verify. When the Transfer Center is disabled, or
  the owner of the first waiting send has lost a capability, or its upload session is gone or incomplete, the
  row is marked failed, and then the run raises (the handler names an exception it never bound) instead of
  reporting: no other row is touched, so every transfer that waits behind it stays as it is.\<close>

theorem maintenance_stops_at_failure:
  assumes "known_ids w" "filter (expirable (tw_now w)) (tw_transfers w) = []"
    and "sort_key tr_updated (filter (\<lambda>t. tr_direction t = Send \<and> tr_status t = Verifying) (tw_transfers w)) = t # ts"
    and "tr_actor t = Some a" "te_user te a = Some u"
    and "\<not> transfer_enabled (te_settings te)
      \<or> (\<exists>c \<in> {''view_transfers'', ''create_transfers'', ''upload_server_files''}. has_capability u c \<noteq> Inr True)
      \<or> (\<forall>r \<in> set (tw_uploads w). tr_upload t = Some (fu_id r) \<longrightarrow> fu_status r \<noteq> UCompleted)"
  shows "\<exists>e v. maintenance te b False w = (Inl e, v)
    \<and> tw_transfers v = map (\<lambda>r. if tr_id r = tr_id t
        then r\<lparr>tr_status := Failed, tr_error := ''Transfer verification could not be completed safely.'', tr_updated := tw_now w\<rparr>
        else r) (tw_transfers w)"
proof -
  let ?T = "map (\<lambda>r. if tr_id r = tr_id t
        then r\<lparr>tr_status := Failed, tr_error := ''Transfer verification could not be completed safely.'', tr_updated := tw_now w\<rparr>
        else r) (tw_transfers w)"
  have "t \<in> set (sort_key tr_updated (filter (\<lambda>t. tr_direction t = Send \<and> tr_status t = Verifying) (tw_transfers w)))"
    by (simp only: assms(3)) simp
  then have t: "t \<in> set (tw_transfers w)" "tr_direction t = Send" "tr_status t = Verifying" by simp_all
  have ids: "distinct (map tr_id (tw_transfers w))" using assms(1) by (simp add: known_ids_def)
  have find: "find_transfer (tr_id t) w = (Inr (Some t), w)"
    using find_key[OF ids t(1)] by (simp add: find_transfer_def gets_def)
  obtain e where refused: "sync_finalize_send te (tr_id t) u PNone True w = (Inl e, w)"
    using finalize_refused[OF find t(2,3) assms(6)] by blast
  have waiting: "find (\<lambda>r. tr_id r = tr_id t \<and> tr_status r = Verifying) (tw_transfers w) = Some t"
    by (rule find_key_and[where P = "\<lambda>r. tr_status r = Verifying", OF ids t(1,3)])
  have saved: "wp (save_transfer (tr_id t) f) (\<lambda>_ v. tw_transfers v = map (\<lambda>r. if tr_id r = tr_id t then (f r)\<lparr>tr_updated := tw_now w\<rparr> else r) (tw_transfers w))
      (\<lambda>_ _. False) w'" if "\<And>r. tr_id (f r) = tr_id r" "tw_transfers w' = tw_transfers w" "tw_now w' = tw_now w" for f w'
  proof -
    let ?S = "map (\<lambda>r. if tr_id r = tr_id t then (f r)\<lparr>tr_updated := tw_now w\<rparr> else r) (tw_transfers w)"
    have "find (\<lambda>r. tr_id r = tr_id t) ?S \<noteq> None" using t(1) that(1) by (auto simp: find_None_iff)
    then obtain y where "find (\<lambda>r. tr_id r = tr_id t) ?S = Some y" by blast
    then show ?thesis
      unfolding save_transfer_def get_transfer_def find_transfer_def wp_seq wp_modify that(2,3) by (simp add: wp_simps)
  qed
  let ?m = "''Transfer verification could not be completed safely.''"
  have body: "wp (bind (find_upload (tr_upload t)) (\<lambda>upload.
        seq (sync_transfer_upload_state upload (Some UFailed) (Some ?m) True)
        (bind (save_transfer (tr_id t) (\<lambda>r. r\<lparr>tr_status := Failed, tr_error := ?m\<rparr>))
          (\<lambda>_. ret (Some (tr_staging t, owned_upload_id upload))))))
      (\<lambda>r v. r \<noteq> None \<and> tw_transfers v = ?T) (\<lambda>_ _. False) w"
    unfolding find_upload_def by (intro wp_bindI wp_getsI wp_seqI wp_sync wp_mono[OF saved] wp_retI) auto
  have tail: "wp (case r of None \<Rightarrow> ret False
      | Some (staging, upload_id) \<Rightarrow> seq (whenever True (seq (cleanup_staging te staging) (cleanup_send_upload_temp te upload_id))) (ret True))
      (\<lambda>marked v. marked \<and> tw_transfers v = ?T) (\<lambda>_ v. tw_transfers v = ?T) v" if "r \<noteq> None \<and> tw_transfers v = ?T" for r v
    using that by (cases r) (auto simp: whenever_def intro!: wp_seqI wp_cleanups wp_retI)
  have marked: "wp (fail_verifying te (tr_id t) ?m True)
      (\<lambda>marked v. marked \<and> tw_transfers v = ?T) (\<lambda>_ v. tw_transfers v = ?T) w"
    unfolding fail_verifying_def wp_bind
    apply (rule wp_atomic)
    apply (subst wp_bind, simp only: wp_gets waiting option.case if_True)
    apply (rule wp_mono[OF body])
     apply (rule tail, assumption)
    apply simp
    done
  have "wp (verify_send_row te (tr_id t)) (\<lambda>_ _. False) (\<lambda>_ v. tw_transfers v = ?T) w"
    using wp_mono[OF marked]
    by (simp add: verify_send_row_def wp_bind wp_def[of "find_transfer _"] find assms(4,5) wp_try_else wp_def[of "sync_finalize_send _ _ _ _ _"] refused wp_if wp_raise)
  then have row: "wp (verify_send_row te (tr_id t)) Q (\<lambda>_ v. tw_transfers v = ?T) w" for Q
    by (rule wp_mono) auto
  have batch: "0 < maintenance_batch (te_settings te) b" by (auto simp: maintenance_batch_def split: sum.splits)
  have "wp (maintenance te b False) (\<lambda>_ _. False) (\<lambda>_ v. tw_transfers v = ?T) w"
    using batch assms(2,3) row by (simp add: maintenance_def Let_def wp_simps take_Cons')
  then show ?thesis by (cases "maintenance te b False w") (auto simp: wp_def split: sum.splits)
qed

theorem maintenance_stops_at_failure_witness:
  "let w = example_tw [example_transfer Send Verifying] in
   \<exists>e v. maintenance (example_te (PBool True)) (PInt 10) False w = (Inl e, v) \<and> map tr_status (tw_transfers v) = [Failed]"
proof -
  let ?te = "example_te (PBool True)"
  let ?t = "example_transfer Send Verifying"
  let ?w = "example_tw [?t]"
  have user: "tr_actor ?t = Some 7" "te_user ?te 7 = Some manager" by (simp_all add: example_transfer_def example_te_def)
  have rows: "filter (expirable (tw_now ?w)) (tw_transfers ?w) = []"
    "sort_key tr_updated (filter (\<lambda>t. tr_direction t = Send \<and> tr_status t = Verifying) (tw_transfers ?w)) = [?t]"
    "\<forall>r \<in> set (tw_uploads ?w). tr_upload ?t = Some (fu_id r) \<longrightarrow> fu_status r \<noteq> UCompleted"
    by (simp_all add: example_tw_def example_transfer_def expirable_def)
  then have "tw_transfers ?w = [?t]" by (simp add: example_tw_def)
  with maintenance_stops_at_failure[OF known_example(2) rows(1,2) user, of "PInt 10"] rows(3) show ?thesis by (auto simp: Let_def)
qed

end
