(* ===== verification/Uploads.thy ===== *)
theory Uploads
  imports Transfers
begin

text \<open>
  Chunked, resumable uploads (\<open>views/uploads.py\<close>, \<open>conf_uploads.py\<close>): the views behind their
  gates, with the staging file of each upload and its row. A database query may fail: \<open>u_db\<close> says
  which queries of a request raise. The buffered writer of a chunk is modelled as writing every piece
  through, and a percentage that only the client shows is left out of the replies.
\<close>

section \<open>Requests and replies\<close>

record u_request =
  ur_user :: user
  ur_post :: bool  \<comment> \<open>the method is POST\<close>
  ur_filename :: string
  ur_total_size :: "string option"
  ur_chunk_size :: "string option"
  ur_chunk_index :: "string option"
  ur_chunk :: "(int \<times> string list) option"  \<comment> \<open>the declared size and the pieces\<close>

record public_upload =
  pu_id :: string
  pu_filename :: string
  pu_status :: u_status
  pu_total_size :: int
  pu_created :: int
  pu_completed :: "int option"
  pu_uploader :: "int option"
  pu_purpose :: purpose
  pu_transfer :: "string option"

datatype u_reply =
    UError nat string
  | UCreated string int int
  | UProgress int int int bool  \<comment> \<open>the last field: nothing had to be done\<close>
  | UFile public_upload bool
  | UFiles "public_upload list"
  | UDeleted

definition public_upload_of :: "file_upload \<Rightarrow> public_upload" where
  "public_upload_of r = \<lparr>pu_id = fu_id r, pu_filename = fu_filename r, pu_status = fu_status r,
     pu_total_size = fu_total_size r, pu_created = fu_created r, pu_completed = fu_completed r,
     pu_uploader = fu_owner r, pu_purpose = fu_purpose r, pu_transfer = fu_transfer r\<rparr>"

datatype u_query = QCreate | QOwned | QCandidate | QTransfer | QLocked | QPolicy | QSave | QCommit | QDelete

type_synonym u_db = "u_query \<Rightarrow> bool"

definition query :: "u_db \<Rightarrow> u_query \<Rightarrow> 'a tio \<Rightarrow> 'a tio" where
  "query db q m = seq (require (\<not> db q) DatabaseError) m"

definition transaction :: "u_db \<Rightarrow> 'a tio \<Rightarrow> 'a tio" where
  "transaction db m = atomic (bind m (\<lambda>x. query db QCommit (ret x)))"

text \<open>An \<open>OSError\<close> built from a message has no errno; nothing reads it.\<close>

definition plain_os_error :: exn where
  "plain_os_error = OSError EIO"

section \<open>System calls on paths\<close>

definition os_path_exists :: "string \<Rightarrow> bool osio" where
  "os_path_exists p = on_os_error (bind (stat_path p) (\<lambda>_. ret True)) (\<lambda>_. ret False)"

definition os_path_isdir :: "string \<Rightarrow> bool osio" where
  "os_path_isdir p = on_os_error (bind (stat_path p) (\<lambda>st. ret (st_kind st = KDir))) (\<lambda>_. ret False)"

definition os_path_islink :: "string \<Rightarrow> bool osio" where
  "os_path_islink p = on_os_error (bind (lstat_path p) (\<lambda>st. ret (st_kind st = KLink))) (\<lambda>_. ret False)"

definition os_path_getsize :: "string \<Rightarrow> int osio" where
  "os_path_getsize p = bind (stat_path p) (\<lambda>st. ret (st_size st))"

text \<open>\<open>os.makedirs(name, exist_ok=True)\<close> on the components, innermost first.\<close>

definition makedir_exist_ok :: "string \<Rightarrow> unit osio" where
  "makedir_exist_ok p = on_os_error (mkdir_path p) (\<lambda>n. bind (os_path_isdir p) (\<lambda>d. require d (OSError n)))"

fun makedirs :: "string \<Rightarrow> string list \<Rightarrow> unit osio" where
  "makedirs anchor [] = makedir_exist_ok (of_comps anchor [])"
| "makedirs anchor (c # cs) =
     bind (os_path_exists (of_comps anchor (rev cs))) (\<lambda>ex.
     seq (unless ex (on_os_error (makedirs anchor cs) (\<lambda>n. if n = EEXIST then ret () else raise (OSError n))))
         (makedir_exist_ok (of_comps anchor (rev (c # cs)))))"

text \<open>\<open>os.open(path, O_WRONLY | O_CREAT | O_APPEND | O_NOFOLLOW, 0o600)\<close>.\<close>

definition open_append_path :: "string \<Rightarrow> nat osio" where
  "open_append_path p = syscall (\<lambda>_ s.
     case os_paths s p of
       Inr i \<Rightarrow> if is_kind (os_fs s) i KLink then (Inl (OSError ELOOP), s)
               else if is_kind (os_fs s) i KDir then (Inl (OSError EISDIR), s)
               else if os_fs s i = None then (Inl (OSError ENOENT), s) else new_fd i s
     | Inl e \<Rightarrow>
         if e \<noteq> ENOENT then (Inl (OSError e), s)
         else case os_paths s (parent_path p) of
             Inl e' \<Rightarrow> (Inl (OSError e'), s)
           | Inr d \<Rightarrow>
               (case os_fs s d of None \<Rightarrow> (Inl (OSError ENOENT), s)
                | Some n \<Rightarrow>
                    if i_kind n \<noteq> KDir then (Inl (OSError ENOTDIR), s)
                    else new_fd (os_next s) (s\<lparr>os_fs := (os_fs s)(os_next s := Some
                           \<lparr>i_kind = KFile, i_dev = i_dev n, i_data = [], i_entries = [], i_parent = d, i_mode = 384,
                            i_uid = 0, i_gid = 0, i_mtime = os_clock s, i_ctime = os_clock s\<rparr>),
                         os_next := Suc (os_next s), os_paths := (os_paths s)(p := Inr (os_next s))\<rparr>)))"

text \<open>A write at the end of the file; the kernel takes at least one byte.\<close>

definition os_append :: "nat \<Rightarrow> string \<Rightarrow> nat osio" where
  "os_append fd bs = syscall (\<lambda>lim. bind (fd_inode fd) (\<lambda>i s.
     let cs = (case lim of None \<Rightarrow> bs | Some k \<Rightarrow> take (max 1 k) bs); old = file_data (os_fs s) i in
     (Inr (length cs),
      s\<lparr>os_fs := set_data (old @ cs) (os_clock s) i (os_fs s),
        os_pos := (os_pos s)(fd := length old + length cs)\<rparr>)))"

lemma os_append_progress: "os_append fd view s = (Inr n, t) \<Longrightarrow> view \<noteq> [] \<Longrightarrow> 0 < n"
  by (auto simp: os_append_def syscall_def bind_def fd_inode_def Let_def split: prod.splits event.splits option.splits)

function append_all :: "nat \<Rightarrow> string \<Rightarrow> os \<Rightarrow> (exn + unit) \<times> os" where
  "append_all fd view s =
     (if view = [] then (Inr (), s)
      else case os_append fd view s of
             (Inl e, t) \<Rightarrow> (Inl e, t)
           | (Inr n, t) \<Rightarrow> append_all fd (drop n view) t)"
  by pat_completeness auto
termination
  by (relation "measure (\<lambda>(fd, view, s). length view)") (auto dest!: os_append_progress[OF sym])

declare append_all.simps [simp del]

text \<open>\<open>open(path, "r+b")\<close> follows links.\<close>

definition open_update_path :: "string \<Rightarrow> nat osio" where
  "open_update_path p = syscall (\<lambda>_ s.
     case follow 41 s p of Inl e \<Rightarrow> (Inl (OSError e), s)
     | Inr i \<Rightarrow> if is_kind (os_fs s) i KDir then (Inl (OSError EISDIR), s)
               else if os_fs s i = None then (Inl (OSError ENOENT), s) else new_fd i s)"

definition os_ftruncate :: "nat \<Rightarrow> nat \<Rightarrow> unit osio" where
  "os_ftruncate fd n = syscall (\<lambda>_. bind (fd_inode fd) (\<lambda>i s.
     let old = file_data (os_fs s) i in
     (Inr (), s\<lparr>os_fs := set_data (take n old @ replicate (n - length old) (CHR 0x00)) (os_clock s) i (os_fs s)\<rparr>)))"

definition remove_path :: "string \<Rightarrow> unit osio" where
  "remove_path p = syscall (\<lambda>_ s.
     case os_paths s p of
       Inl e \<Rightarrow> (Inl (OSError e), s)
     | Inr i \<Rightarrow> if is_kind (os_fs s) i KDir then (Inl (OSError EISDIR), s)
               else (Inr (), s\<lparr>os_paths := (os_paths s)(p := Inl ENOENT)\<rparr>))"

text \<open>\<open>os.replace\<close>: everything below a moved directory moves with it.\<close>

definition moved_paths :: "string \<Rightarrow> string \<Rightarrow> (string \<Rightarrow> errno + nat) \<Rightarrow> string \<Rightarrow> errno + nat" where
  "moved_paths src dst paths q =
     (if q = dst then paths src
      else if q = src then Inl ENOENT
      else if starts_with q (dst @ ''/'') then paths (src @ drop (length dst) q)
      else if starts_with q (src @ ''/'') then Inl ENOENT else paths q)"

definition replace_path :: "string \<Rightarrow> string \<Rightarrow> unit osio" where
  "replace_path src dst = syscall (\<lambda>_ s.
     case os_paths s src of
       Inl e \<Rightarrow> (Inl (OSError e), s)
     | Inr i \<Rightarrow>
         (case os_paths s (parent_path dst) of
            Inl e \<Rightarrow> (Inl (OSError e), s)
          | Inr d \<Rightarrow>
              if \<not> is_kind (os_fs s) d KDir then (Inl (OSError ENOTDIR), s)
              else let moved = (Inr (), s\<lparr>os_paths := moved_paths src dst (os_paths s)\<rparr>) in
                (case os_paths s dst of
                   Inl e \<Rightarrow> if e = ENOENT then moved else (Inl (OSError e), s)
                 | Inr j \<Rightarrow>
                     if i = j then (Inr (), s)
                     else if is_kind (os_fs s) j KDir
                     then (if \<not> is_kind (os_fs s) i KDir then (Inl (OSError EISDIR), s)
                           else if entries (os_fs s) j \<noteq> [] then (Inl (OSError ENOTEMPTY), s) else moved)
                     else if is_kind (os_fs s) i KDir then (Inl (OSError ENOTDIR), s) else moved)))"

section \<open>Directories and names\<close>

definition get_uploads_incoming_root :: "t_env \<Rightarrow> string osio" where
  "get_uploads_incoming_root te =
     (let configured = upload_cfg (te_settings te) ''UPLOADS_INCOMING_ROOT'' PNone;
          root = (if truthy configured then py_str configured else path_join (te_base_dir te) ''uploads_incoming'');
          full = abspath (h_cwd (te_host te)) root
      in seq (makedirs full (rev (path_comps full))) (ret root))"

definition get_temp_dir :: "t_env \<Rightarrow> string osio" where
  "get_temp_dir te =
     bind (get_uploads_incoming_root te) (\<lambda>root.
     bind (lift (te_expand te root)) (\<lambda>expanded.
       let base = abspath (h_cwd (te_host te)) expanded in
       catch
         (bind (path_exists base) (\<lambda>ex.
          bind (if ex then is_symlink base else ret False) (\<lambda>link.
          seq (require (\<not> link) plain_os_error)
          (seq (mkdir_p base)
          (bind (lift (h_realpath (te_host te) base)) (\<lambda>real.
             let temp_dir = child real ''.tmp'' in
             bind (path_exists temp_dir) (\<lambda>ex2.
             bind (if ex2 then is_symlink temp_dir else ret False) (\<lambda>link2.
             seq (require (\<not> link2) plain_os_error)
             (seq (mkdir_p temp_dir) (lift (h_realpath (te_host te) temp_dir)))))))))))
         (\<lambda>e. case e of OSError n \<Rightarrow> raise plain_os_error | RuntimeError \<Rightarrow> raise plain_os_error | _ \<Rightarrow> raise e)))"

definition safe_upload_name :: "string \<Rightarrow> string" where
  "safe_upload_name name =
     (let raw = strip name in
      if raw = [] \<or> raw = ''.'' \<or> raw = ''..'' \<or> pure_name raw \<noteq> raw
         \<or> List.member raw CHR ''/'' \<or> List.member raw CHR 0x5C
      then [] else take 255 raw)"

definition extension_error :: "settings \<Rightarrow> string \<Rightarrow> string option res" where
  "extension_error st filename =
     (let lower_name = lower filename; q = [CHR 0x22] in
      bind_res (get_upload_blocked_extensions st) (\<lambda>bs.
      bind_res (get_upload_allowed_extensions st) (\<lambda>as0.
        let blocked = map lower bs;
            allowed = map_option (map lower) as0;
            matched_ext = (case longest_match (blocked @ (case allowed of None \<Rightarrow> [] | Some xs \<Rightarrow> xs)) lower_name of
                             Some ext \<Rightarrow> ext | None \<Rightarrow> splitext_ext lower_name)
        in Inr (if List.member blocked matched_ext
                then Some (''Files with extension '' @ q @ matched_ext @ q @ '' are not allowed.'')
                else (case allowed of None \<Rightarrow> None
                  | Some xs \<Rightarrow> if List.member xs matched_ext then None
                     else Some (''Extension '' @ q @ matched_ext @ q @ '' is not in the allowed list for this deployment.''))))))"

definition safe_managed_path :: "t_env \<Rightarrow> string \<Rightarrow> string option osio" where
  "safe_managed_path te path =
     (if path = [] then ret None
      else catch
        (bind (get_uploads_incoming_root te) (\<lambda>incoming.
         bind (lift (h_realpath (te_host te) (abspath (h_cwd (te_host te)) incoming))) (\<lambda>root.
         bind (lift (h_realpath (te_host te) (abspath (h_cwd (te_host te)) path))) (\<lambda>candidate.
         ret (if relative_to candidate root = None then None else Some candidate)))))
        (\<lambda>e. case e of OSError n \<Rightarrow> ret None | RuntimeError \<Rightarrow> ret None | TypeError \<Rightarrow> ret None
           | ValueError m \<Rightarrow> ret None | _ \<Rightarrow> raise e))"

section \<open>Starting an upload\<close>

definition given :: "string option \<Rightarrow> bool" where
  "given v = (case v of None \<Rightarrow> False | Some s \<Rightarrow> s \<noteq> [])"

text \<open>\<open>int(text)\<close> of a form field.\<close>

definition field_int :: "string option \<Rightarrow> int option" where
  "field_int v = (case v of None \<Rightarrow> None | Some s \<Rightarrow> parse_int s)"

definition size_limit_text :: "int \<Rightarrow> string" where
  "size_limit_text most = ''File exceeds maximum allowed size ('' @ show_int (most div (1024 * 1024)) @ '' MB)''"

text \<open>The checks before the privileged gate, and the view itself with its own copy of them.\<close>

definition upload_init_preflight :: "settings \<Rightarrow> u_request \<Rightarrow> u_reply option res" where
  "upload_init_preflight st rq =
     (if \<not> ur_post rq then Inr None
      else let filename = safe_upload_name (ur_filename rq) in
        if filename = [] \<or> \<not> given (ur_total_size rq)
        then Inr (Some (UError 400 ''filename and total_size are required''))
        else bind_res (extension_error st filename) (\<lambda>ext_error.
          case ext_error of Some m \<Rightarrow> Inr (Some (UError 400 m))
          | None \<Rightarrow>
              (case field_int (ur_total_size rq) of
                 None \<Rightarrow> Inr (Some (UError 400 ''total_size must be an integer''))
               | Some total_size \<Rightarrow>
                   if total_size \<le> 0 then Inr (Some (UError 400 ''total_size must be positive''))
                   else bind_res (get_upload_max_file_size_bytes st) (\<lambda>max_size.
                     if (case max_size of None \<Rightarrow> False | Some m \<Rightarrow> total_size > m)
                     then Inr (Some (UError 413 (size_limit_text (the max_size))))
                     else bind_res (if given (ur_chunk_size rq) then Inr (field_int (ur_chunk_size rq))
                                    else bind_res (get_upload_chunk_size_bytes st) (\<lambda>n. Inr (Some n))) (\<lambda>chunk.
                       case chunk of None \<Rightarrow> Inr (Some (UError 400 ''chunk_size must be an integer''))
                       | Some chunk_size \<Rightarrow>
                           bind_res (get_upload_chunk_size_bytes st) (\<lambda>configured.
                             Inr (if chunk_size \<le> 0 then Some (UError 400 ''chunk_size must be positive'')
                                  else if chunk_size > configured
                                  then Some (UError 413 ''chunk_size exceeds the configured maximum'') else None)))))))"

definition upload_init :: "t_env \<Rightarrow> u_db \<Rightarrow> u_request \<Rightarrow> u_reply tio" where
  "upload_init te db rq =
     (let st = te_settings te; filename = safe_upload_name (ur_filename rq) in
      if filename = [] \<or> \<not> given (ur_total_size rq)
      then ret (UError 400 ''filename and total_size are required'')
      else bind (lift (extension_error st filename)) (\<lambda>ext_error.
        case ext_error of Some m \<Rightarrow> ret (UError 400 m)
        | None \<Rightarrow>
            (case field_int (ur_total_size rq) of
               None \<Rightarrow> ret (UError 400 ''total_size must be an integer'')
             | Some total_size \<Rightarrow>
                 if total_size \<le> 0 then ret (UError 400 ''total_size must be positive'')
                 else bind (lift (get_upload_max_file_size_bytes st)) (\<lambda>max_size.
                   if (case max_size of None \<Rightarrow> False | Some m \<Rightarrow> total_size > m)
                   then ret (UError 413 (size_limit_text (the max_size)))
                   else bind (if given (ur_chunk_size rq) then ret (field_int (ur_chunk_size rq))
                              else bind (lift (get_upload_chunk_size_bytes st)) (\<lambda>n. ret (Some n))) (\<lambda>chunk.
                     case chunk of None \<Rightarrow> ret (UError 400 ''chunk_size must be an integer'')
                     | Some chunk_size \<Rightarrow>
                         bind (lift (get_upload_chunk_size_bytes st)) (\<lambda>configured.
                         if chunk_size \<le> 0 then ret (UError 400 ''chunk_size must be positive'')
                         else if chunk_size > configured
                         then ret (UError 413 ''chunk_size exceeds the configured maximum'')
                         else
                           let total_chunks = (total_size + chunk_size - 1) div chunk_size in
                           bind (gets tw_now) (\<lambda>now.
                           bind fresh_id (\<lambda>uid.
                           seq (query db QCreate (insert_upload
                             \<lparr>fu_id = uid, fu_owner = Some (u_id (ur_user rq)), fu_filename = filename, fu_total_size = total_size,
                              fu_bytes = 0, fu_chunk_size = chunk_size, fu_total_chunks = total_chunks, fu_chunks = 0,
                              fu_status = UPending, fu_purpose = Release, fu_transfer = None, fu_storage = [], fu_error = [],
                              fu_created = now, fu_updated = now, fu_completed = None\<rparr>))
                           (ret (UCreated uid total_chunks chunk_size))))))))))"

section \<open>Access\<close>

definition get_owned_upload :: "user \<Rightarrow> string \<Rightarrow> file_upload option tio" where
  "get_owned_upload u i =
     gets (\<lambda>w. find (\<lambda>r. fu_id r = i \<and> (u_superuser u \<or> fu_owner r = Some (u_id u))) (tw_uploads w))"

definition send_transfer :: "string option \<Rightarrow> transfer option tio" where
  "send_transfer i = gets (\<lambda>w. find (\<lambda>t. Some (tr_id t) = i \<and> tr_direction t = Send) (tw_transfers w))"

definition transfer_state_error :: "user \<Rightarrow> file_upload \<Rightarrow> bool \<Rightarrow> transfer \<Rightarrow> u_reply option" where
  "transfer_state_error u r for_write t =
     (if tr_actor t \<noteq> fu_owner r then Some (UError 409 ''Transfer session ownership is inconsistent.'')
      else if \<not> u_superuser u \<and> tr_actor t \<noteq> Some (u_id u) then Some (UError 403 ''You do not own this transfer.'')
      else if tr_status t = Paused \<and> for_write then Some (UError 409 ''This transfer is paused.'')
      else if List.member [Cancelled, Expired, Failed, Completed] (tr_status t)
      then Some (UError 409 ''This transfer is no longer active.'') else None)"

definition transfer_upload_error ::
  "u_db \<Rightarrow> user \<Rightarrow> file_upload \<Rightarrow> bool \<Rightarrow> transfer option \<Rightarrow> u_reply option tio"
where
  "transfer_upload_error db u r for_write t0 =
     (if fu_purpose r \<noteq> TransferSend then ret None
      else bind (lift (has_capability u ''view_transfers'')) (\<lambda>a.
        if \<not> a then ret (Some (UError 403 ''Transfer Center permission is required for this upload.''))
        else bind (lift (has_capability u ''create_transfers'')) (\<lambda>b.
        if \<not> b then ret (Some (UError 403 ''Transfer creation permission is required for this upload.''))
        else bind (if for_write then lift (has_capability u ''upload_server_files'') else ret True) (\<lambda>c.
        if \<not> c then ret (Some (UError 403 ''Server Files upload permission is required for this transfer.''))
        else bind (case t0 of Some t \<Rightarrow> ret (Some t) | None \<Rightarrow> query db QPolicy (send_transfer (fu_transfer r))) (\<lambda>t.
        case t of None \<Rightarrow> ret (Some (UError 409 ''Transfer session not found.''))
        | Some t \<Rightarrow> ret (transfer_state_error u r for_write t))))))"

definition upload_temp_path :: "t_env \<Rightarrow> file_upload \<Rightarrow> string osio" where
  "upload_temp_path te r =
     (if fu_purpose r = TransferSend then send_upload_temp_path te (fu_id r)
      else bind (get_temp_dir te) (\<lambda>d. ret (path_join d (fu_id r))))"

section \<open>Receiving a chunk\<close>

definition expected_chunk_size :: "file_upload \<Rightarrow> int \<Rightarrow> int" where
  "expected_chunk_size r i =
     (if i < fu_total_chunks r - 1 then fu_chunk_size r
      else fu_total_size r - fu_chunk_size r * (fu_total_chunks r - 1))"

definition bad_chunk_size :: "file_upload \<Rightarrow> int \<Rightarrow> int \<Rightarrow> int \<Rightarrow> bool" where
  "bad_chunk_size r configured i sz \<longleftrightarrow>
     expected_chunk_size r i \<le> 0 \<or> sz \<noteq> expected_chunk_size r i \<or> sz > configured"

definition upload_chunk_preflight :: "t_env \<Rightarrow> u_db \<Rightarrow> string \<Rightarrow> u_request \<Rightarrow> u_reply option tio" where
  "upload_chunk_preflight te db upload_id rq =
     (if \<not> ur_post rq \<or> \<not> u_authenticated (ur_user rq) then ret None
      else bind (query db QOwned (get_owned_upload (ur_user rq) upload_id)) (\<lambda>r. case r of
        None \<Rightarrow> ret None
      | Some r \<Rightarrow>
          bind (transfer_upload_error db (ur_user rq) r True None) (\<lambda>err.
          if err \<noteq> None then ret err
          else (case (field_int (ur_chunk_index rq), ur_chunk rq) of
             (Some i, Some (sz, pieces)) \<Rightarrow>
               if i < 0 \<or> i \<ge> fu_total_chunks r then ret None
               else bind (lift (get_upload_chunk_size_bytes (te_settings te))) (\<lambda>configured.
                 if bad_chunk_size r configured i sz then ret (Some (UError 413 ''Invalid chunk size''))
                 else if i < fu_chunks r then ret None
                 else if fu_bytes r + sz > fu_total_size r
                 then ret (Some (UError 413 ''Chunk exceeds declared upload size'')) else ret None)
           | _ \<Rightarrow> ret None))))"

definition progress_reply :: "bool \<Rightarrow> file_upload \<Rightarrow> u_reply" where
  "progress_reply idle r = UProgress (fu_chunks r) (fu_total_chunks r) (fu_bytes r) idle"

text \<open>The checks of \<open>upload_chunk\<close> on the row read without a lock: a reply, or the index, the size
  and the pieces of the chunk.\<close>

definition chunk_request :: "settings \<Rightarrow> u_request \<Rightarrow> file_upload \<Rightarrow> (u_reply + int \<times> int \<times> string list) res" where
  "chunk_request st rq r =
     (if fu_status r = UCompleted then Inr (Inl (UError 400 ''Upload already completed''))
      else if fu_status r = UFailed then Inr (Inl (UError 409 ''Upload session has failed''))
      else case (ur_chunk_index rq, ur_chunk rq) of
        (Some raw, Some (sz, pieces)) \<Rightarrow>
          (case parse_int raw of
             None \<Rightarrow> Inr (Inl (UError 400 ''chunk_index must be an integer''))
           | Some i \<Rightarrow>
               if i < 0 \<or> i \<ge> fu_total_chunks r then Inr (Inl (UError 400 ''chunk_index out of range''))
               else if i < fu_chunks r then Inr (Inl (progress_reply True r))
               else if i > fu_chunks r
               then Inr (Inl (UError 409 (''Expected chunk '' @ show_int (fu_chunks r) @ '', got '' @ show_int i
                      @ ''. Chunks must arrive in order.'')))
               else bind_res (get_upload_chunk_size_bytes st) (\<lambda>configured.
                 if bad_chunk_size r configured i sz then Inr (Inl (UError 413 ''Invalid chunk size''))
                 else if fu_bytes r + sz > fu_total_size r
                 then Inr (Inl (UError 413 ''Chunk exceeds declared upload size''))
                 else Inr (Inr (i, sz, pieces))))
      | _ \<Rightarrow> Inr (Inl (UError 400 ''chunk_index and chunk file are required'')))"

text \<open>The file part: what is there before, then the append.\<close>

definition write_chunk_file :: "string \<Rightarrow> string list \<Rightarrow> unit tio" where
  "write_chunk_file temp pieces =
     bind (on_fs (os_path_exists temp)) (\<lambda>ex.
     seq (whenever ex
           (bind (on_fs (os_path_islink temp)) (\<lambda>link.
            seq (require (\<not> link) plain_os_error)
            (bind (on_fs (os_path_getsize temp)) (\<lambda>n. modify (\<lambda>w. w\<lparr>tw_previous := n\<rparr>))))))
     (on_fs (bind (open_append_path temp) (\<lambda>fd. cleanup (for_each pieces (append_all fd)) (os_close fd)))))"

text \<open>The rows under their locks: a reply, or the locked upload.\<close>

definition locked_upload :: "u_db \<Rightarrow> user \<Rightarrow> string \<Rightarrow> string \<Rightarrow> (u_reply + file_upload) tio" where
  "locked_upload db u upload_id changed =
     bind (query db QCandidate (get_owned_upload u upload_id)) (\<lambda>c. case c of
       None \<Rightarrow> ret (Inl (UError 404 ''Upload session not found''))
     | Some candidate \<Rightarrow>
         bind (if fu_purpose candidate = TransferSend
               then query db QTransfer (send_transfer (fu_transfer candidate)) else ret None) (\<lambda>t.
         bind (query db QLocked (get_owned_upload u upload_id)) (\<lambda>l. case l of
           None \<Rightarrow> ret (Inl (UError 404 ''Upload session not found''))
         | Some locked \<Rightarrow>
             if (case t of None \<Rightarrow> False | Some x \<Rightarrow> fu_transfer locked \<noteq> Some (tr_id x))
             then ret (Inl (UError 409 changed))
             else bind (transfer_upload_error db u locked True t) (\<lambda>err.
               case err of Some reply \<Rightarrow> ret (Inl reply) | None \<Rightarrow> ret (Inr locked)))))"

definition store_chunk :: "u_db \<Rightarrow> u_request \<Rightarrow> string \<Rightarrow> int \<Rightarrow> int \<Rightarrow> string list \<Rightarrow> string \<Rightarrow> u_reply tio" where
  "store_chunk db rq upload_id i sz pieces temp =
     bind (locked_upload db (ur_user rq) upload_id ''Upload session changed; retry this chunk'') (\<lambda>r. case r of
       Inl reply \<Rightarrow> ret reply
     | Inr locked \<Rightarrow>
         if fu_status locked = UCompleted then ret (UError 400 ''Upload already completed'')
         else if fu_chunks locked > i then ret (progress_reply True locked)
         else if fu_chunks locked < i then ret (UError 409 ''Upload state changed; retry this chunk'')
         else
           seq (write_chunk_file temp pieces)
           (seq (query db QSave (save_upload (fu_id locked) (\<lambda>now r.
                   r\<lparr>fu_bytes := fu_bytes locked + sz, fu_chunks := fu_chunks locked + 1, fu_status := UUploading,
                     fu_updated := now\<rparr>)))
           (ret (progress_reply False (locked\<lparr>fu_bytes := fu_bytes locked + sz, fu_chunks := fu_chunks locked + 1\<rparr>)))))"

text \<open>The handler: cut the file back to \<open>previous_size\<close>, or remove a file that was not there.\<close>

definition truncate_path :: "string \<Rightarrow> int \<Rightarrow> unit osio" where
  "truncate_path p n = bind (open_update_path p) (\<lambda>fd. cleanup (os_ftruncate fd (nat n)) (os_close fd))"

definition restore_temp :: "string \<Rightarrow> unit tio" where
  "restore_temp temp =
     bind (gets tw_previous) (\<lambda>previous_size.
     on_fs (on_os_error (truncate_path temp previous_size)
       (\<lambda>_. on_os_error (whenever (previous_size = 0) (remove_path temp)) (\<lambda>_. ret ()))))"

definition chunk_failed :: "exn \<Rightarrow> u_reply" where
  "chunk_failed e = UError 500
     (case e of OSError n \<Rightarrow> ''Failed to write chunk to disk''
      | _ \<Rightarrow> ''Upload state could not be committed; retry this chunk'')"

definition guarded_chunk :: "u_db \<Rightarrow> u_request \<Rightarrow> string \<Rightarrow> int \<Rightarrow> int \<Rightarrow> string list \<Rightarrow> string \<Rightarrow> u_reply tio" where
  "guarded_chunk db rq upload_id i sz pieces temp =
     seq (modify (\<lambda>w. w\<lparr>tw_previous := 0\<rparr>))
     (catch (transaction db (store_chunk db rq upload_id i sz pieces temp))
       (\<lambda>e. seq (restore_temp temp) (ret (chunk_failed e))))"

definition upload_chunk :: "t_env \<Rightarrow> u_db \<Rightarrow> string \<Rightarrow> u_request \<Rightarrow> u_reply tio" where
  "upload_chunk te db upload_id rq =
     bind (query db QOwned (get_owned_upload (ur_user rq) upload_id)) (\<lambda>r. case r of
       None \<Rightarrow> ret (UError 404 ''Upload session not found'')
     | Some upload \<Rightarrow>
         bind (lift (chunk_request (te_settings te) rq upload)) (\<lambda>request. case request of
           Inl reply \<Rightarrow> ret reply
         | Inr (i, sz, pieces) \<Rightarrow>
             bind (on_fs (upload_temp_path te upload)) (guarded_chunk db rq upload_id i sz pieces)))"

section \<open>Completing, listing and deleting\<close>

definition fail_upload :: "u_db \<Rightarrow> file_upload \<Rightarrow> string \<Rightarrow> nat \<Rightarrow> string \<Rightarrow> u_reply tio" where
  "fail_upload db r message status reply =
     seq (query db QSave (save_upload (fu_id r) (\<lambda>now x. x\<lparr>fu_status := UFailed, fu_error := message, fu_updated := now\<rparr>)))
         (ret (UError status reply))"

definition final_dir :: "t_env \<Rightarrow> file_upload \<Rightarrow> string osio" where
  "final_dir te r = (if fu_purpose r = TransferSend then send_root te else get_uploads_incoming_root te)"

text \<open>The move to the final name; the text of the operating system's error is not modelled.\<close>

definition finish_upload :: "t_env \<Rightarrow> u_db \<Rightarrow> file_upload \<Rightarrow> string \<Rightarrow> u_reply tio" where
  "finish_upload te db r temp =
     bind (on_fs (final_dir te r)) (\<lambda>d.
       let final = path_join d (fu_id r @ ''_'' @ fu_filename r) in
       bind (on_fs (on_os_error (seq (replace_path temp final) (ret True)) (\<lambda>_. ret False))) (\<lambda>done.
       if \<not> done then fail_upload db r ''Failed to move file to final location'' 500 ''Failed to finalize upload''
       else
         seq (modify (\<lambda>w. w\<lparr>tw_moved := Some (final, temp)\<rparr>))
         (bind (gets tw_now) (\<lambda>now.
          seq (query db QSave (save_upload (fu_id r) (\<lambda>n x. x\<lparr>fu_status := UCompleted, fu_storage := final,
                 fu_completed := Some now, fu_updated := n\<rparr>)))
          (ret (UFile (public_upload_of (r\<lparr>fu_status := UCompleted, fu_storage := final, fu_completed := Some now\<rparr>)) False))))))"

definition complete_body :: "t_env \<Rightarrow> u_db \<Rightarrow> string \<Rightarrow> u_request \<Rightarrow> u_reply tio" where
  "complete_body te db upload_id rq =
     bind (locked_upload db (ur_user rq) upload_id ''Upload session changed; retry completion'') (\<lambda>l. case l of
       Inl reply \<Rightarrow> ret reply
     | Inr r \<Rightarrow>
         if fu_status r = UCompleted then ret (UFile (public_upload_of r) True)
         else if fu_chunks r \<noteq> fu_total_chunks r
         then ret (UError 400 (''Not all chunks received ('' @ show_int (fu_chunks r) @ ''/'' @ show_int (fu_total_chunks r) @ '')''))
         else
           bind (on_fs (upload_temp_path te r)) (\<lambda>temp.
           bind (on_fs (os_path_islink temp)) (\<lambda>link.
           if link then fail_upload db r ''Upload temp file is a symbolic link and cannot be finalized safely.'' 400
                ''Upload temp file is not safe''
           else
             bind (on_fs (os_path_exists temp)) (\<lambda>ex.
             if \<not> ex then fail_upload db r ''Temp file missing at completion time'' 500 ''Temp file missing''
             else
               bind (on_fs (os_path_getsize temp)) (\<lambda>actual_size.
               if actual_size \<noteq> fu_total_size r
               then let m = ''Size mismatch: expected '' @ show_int (fu_total_size r) @ '', got '' @ show_int actual_size
                    in fail_upload db r m 400 m
               else finish_upload te db r temp)))))"

definition move_back :: "unit tio" where
  "move_back =
     bind (gets tw_moved) (\<lambda>moved. case moved of None \<Rightarrow> ret ()
       | Some (final, temp) \<Rightarrow> on_fs (on_os_error (replace_path final temp) (\<lambda>_. ret ())))"

definition upload_complete :: "t_env \<Rightarrow> u_db \<Rightarrow> string \<Rightarrow> u_request \<Rightarrow> u_reply tio" where
  "upload_complete te db upload_id rq =
     seq (modify (\<lambda>w. w\<lparr>tw_moved := None\<rparr>))
     (catch (transaction db (complete_body te db upload_id rq))
       (\<lambda>_. seq move_back (ret (UError 500 ''Upload completion could not be committed safely''))))"

definition upload_list :: "u_request \<Rightarrow> u_reply tio" where
  "upload_list rq =
     bind (gets (\<lambda>w. filter (\<lambda>r. u_superuser (ur_user rq) \<or> fu_owner r = Some (u_id (ur_user rq))) (tw_uploads w))) (\<lambda>rs.
     ret (UFiles (map public_upload_of (take 100 (sort_key (\<lambda>r. - fu_created r) rs)))))"

definition delete_file :: "string \<Rightarrow> bool osio" where
  "delete_file path =
     bind (os_path_exists path) (\<lambda>ex.
     if \<not> ex then ret True
     else on_os_error (seq (remove_path path) (ret True)) (\<lambda>_. ret False))"

fun delete_files :: "string list \<Rightarrow> bool osio" where
  "delete_files [] = ret True"
| "delete_files (p # ps) = bind (delete_file p) (\<lambda>a. bind (delete_files ps) (\<lambda>b. ret (a \<and> b)))"

definition upload_delete :: "t_env \<Rightarrow> u_db \<Rightarrow> string \<Rightarrow> u_request \<Rightarrow> u_reply tio" where
  "upload_delete te db upload_id rq =
     bind (query db QOwned (get_owned_upload (ur_user rq) upload_id)) (\<lambda>r. case r of
       None \<Rightarrow> ret (UError 404 ''Upload session not found'')
     | Some upload \<Rightarrow>
         if fu_purpose upload = TransferSend
         then ret (UError 409 ''Transfer Center uploads must be cancelled from the Transfer Center.'')
         else
           bind (on_fs (safe_managed_path te (fu_storage upload))) (\<lambda>stored.
           bind (on_fs (get_temp_dir te)) (\<lambda>temp_dir.
           bind (on_fs (safe_managed_path te (path_join temp_dir (fu_id upload)))) (\<lambda>temp.
           bind (on_fs (delete_files (rev (remdups (rev (map the (filter (\<lambda>p. p \<noteq> None) [stored, temp]))))))) (\<lambda>fine.
           if \<not> fine then ret (UError 500
             ''Upload files could not be removed safely. The upload record was kept so the operation can be retried.'')
           else
             seq (query db QDelete (modify (\<lambda>w. w\<lparr>tw_uploads := filter (\<lambda>x. fu_id x \<noteq> fu_id upload) (tw_uploads w)\<rparr>)))
                 (ret UDeleted))))))"

end
