(* ===== verification/Upload_Props.thy ===== *)
theory Upload_Props
  imports Uploads Transfer_Props
begin

text \<open>
  What the upload views guarantee: the preflight of a new upload agrees with the view, the counters
  of every row stay consistent through every run of uploads and transfers, and a chunk is appended
  whole or cut off again. Two properties show when the cut destroys data: the handler does not know
  the previous size before it was read, and it follows the symbolic link that the code refuses.
\<close>

section \<open>The preflight of a new upload\<close>

lemma bind_lift: "bind (lift (Inl e)) k = raise e" "bind (lift (Inr x)) k = k x"
  by (simp_all add: fun_eq_iff bind_def lift_def raise_def)

lemma bind_ret: "bind (ret x) k = k x"
  by (simp add: fun_eq_iff bind_def ret_def)

text \<open>C30: the checks before the privileged gate and the view's own copy of them agree: a request that
  the preflight answers gets the same answer from the view, and one that it lets through starts an
  upload unless the database fails.\<close>

theorem preflight_agrees:
  assumes "ur_post rq"
  shows "case upload_init_preflight (te_settings te) rq of
      Inl e \<Rightarrow> upload_init te db rq w = (Inl e, w)
    | Inr (Some reply) \<Rightarrow> upload_init te db rq w = (Inr reply, w)
    | Inr None \<Rightarrow> (case upload_init te db rq w of
        (Inr (UCreated i n c), v) \<Rightarrow> (\<exists>r. tw_uploads v = tw_uploads w @ [r] \<and> fu_id r = i)
      | (r, v) \<Rightarrow> r = Inl DatabaseError \<and> db QCreate)"
  using assms
  by (cases "extension_error (te_settings te) (safe_upload_name (ur_filename rq))";
      cases "get_upload_max_file_size_bytes (te_settings te)"; cases "get_upload_chunk_size_bytes (te_settings te)")
     (simp_all add: upload_init_preflight_def upload_init_def Let_def bind_lift bind_ret query_def seq_def require_def
        raise_def ret_def bind_def gets_def fresh_id_def insert_upload_def modify_def lift_def split: option.splits)
section \<open>Rows of uploads\<close>

definition sound_upload :: "file_upload \<Rightarrow> bool" where
  "sound_upload r \<longleftrightarrow> 0 < fu_total_size r \<and> 0 < fu_chunk_size r
     \<and> fu_total_chunks r = (fu_total_size r + fu_chunk_size r - 1) div fu_chunk_size r
     \<and> 0 \<le> fu_chunks r \<and> fu_chunks r \<le> fu_total_chunks r
     \<and> fu_bytes r = min (fu_total_size r) (fu_chunks r * fu_chunk_size r)"

definition uploads_ok :: "tworld \<Rightarrow> bool" where
  "uploads_ok w \<longleftrightarrow> inj (tw_uuid w) \<and> distinct (map fu_id (tw_uploads w))
     \<and> fu_id ` set (tw_uploads w) \<subseteq> tw_uuid w ` {..<tw_uuids w} \<and> (\<forall>r \<in> set (tw_uploads w). sound_upload r)"

definition grown :: "tworld \<Rightarrow> tworld \<Rightarrow> bool" where
  "grown w v \<longleftrightarrow> uploads_ok v \<and> tw_uuid v = tw_uuid w \<and> tw_uuids w \<le> tw_uuids v"

lemma grown_other [simp]:
  "grown w (v\<lparr>tw_os := s\<rparr>) = grown w v" "grown w (v\<lparr>tw_transfers := ts\<rparr>) = grown w v"
  "grown w (v\<lparr>tw_temp := tmp\<rparr>) = grown w v" "grown w (v\<lparr>tw_previous := n\<rparr>) = grown w v"
  "grown w (v\<lparr>tw_moved := m\<rparr>) = grown w v" "uploads_ok (v\<lparr>tw_now := now\<rparr>) = uploads_ok v"
  "uploads_ok (v\<lparr>tw_os := s\<rparr>) = uploads_ok v"
  by (simp_all add: grown_def uploads_ok_def)

lemma grownD:
  assumes "grown w v"
  shows "inj (tw_uuid v)" "distinct (map fu_id (tw_uploads v))" "fu_id ` set (tw_uploads v) \<subseteq> tw_uuid v ` {..<tw_uuids v}"
    "\<And>r. r \<in> set (tw_uploads v) \<Longrightarrow> sound_upload r" "tw_uuid v = tw_uuid w" "tw_uuids w \<le> tw_uuids v"
  using assms unfolding grown_def uploads_ok_def by blast+

lemma grown_refl: "grown w w = uploads_ok w"
  by (simp add: grown_def)

lemma ceil_pred:
  fixes a b :: int
  assumes "0 < b"
  shows "((a + b - 1) div b - 1) * b < a" "a \<le> (a + b - 1) div b * b"
proof -
  obtain q m where q: "(a + b - 1) div b = q" and "(a + b - 1) mod b = m" by simp
  then have "q * b + m = a + b - 1" "0 \<le> m" "m < b" using assms by auto
  then show "((a + b - 1) div b - 1) * b < a" "a \<le> (a + b - 1) div b * b"
    unfolding q by (simp_all add: algebra_simps)
qed

lemma sound_chunk:
  assumes "sound_upload r" "fu_chunks r < fu_total_chunks r" "sz = expected_chunk_size r (fu_chunks r)"
    "fu_total_size q = fu_total_size r" "fu_chunk_size q = fu_chunk_size r" "fu_total_chunks q = fu_total_chunks r"
    "fu_bytes q = fu_bytes r + sz" "fu_chunks q = fu_chunks r + 1"
  shows "sound_upload q"
proof -
  let ?a = "fu_total_size r" and ?b = "fu_chunk_size r" and ?n = "fu_total_chunks r" and ?k = "fu_chunks r"
  have r: "0 < ?a" "0 < ?b" "?n = (?a + ?b - 1) div ?b" "0 \<le> ?k" "?k < ?n" "fu_bytes r = min ?a (?k * ?b)"
    using assms(1,2) by (simp_all add: sound_upload_def)
  have n: "(?n - 1) * ?b < ?a" "?a \<le> ?n * ?b" using ceil_pred[OF r(2), of ?a] r(3) by simp_all
  have "?k * ?b \<le> (?n - 1) * ?b" using r(2,5) by simp
  with n(1) have bytes: "fu_bytes r = ?k * ?b" using r(6) by simp
  have "fu_bytes r + sz = min ?a ((?k + 1) * ?b)"
  proof (cases "?k < ?n - 1")
    case True
    then have "(?k + 1) * ?b \<le> (?n - 1) * ?b" using r(2) by (intro mult_right_mono) simp_all
    with n(1) True bytes show ?thesis by (simp add: assms(3) expected_chunk_size_def algebra_simps)
  next
    case False
    then have "?k = ?n - 1" using r(5) by simp
    with n bytes show ?thesis by (simp add: assms(3) expected_chunk_size_def algebra_simps)
  qed
  with assms r show ?thesis by (simp add: sound_upload_def)
qed

lemma uploads_ok_map:
  assumes "uploads_ok w" "\<And>r. r \<in> set (tw_uploads w) \<Longrightarrow> fu_id (g r) = fu_id r \<and> sound_upload (g r)"
  shows "uploads_ok (w\<lparr>tw_uploads := map g (tw_uploads w)\<rparr>)"
proof -
  let ?v = "w\<lparr>tw_uploads := map g (tw_uploads w)\<rparr>"
  have ids: "map fu_id (tw_uploads ?v) = map fu_id (tw_uploads w)" using assms(2) by simp
  from arg_cong[OF ids, of distinct] arg_cong[OF ids, of set] assms(1)
  have "distinct (map fu_id (tw_uploads ?v))" "fu_id ` set (tw_uploads ?v) \<subseteq> tw_uuid w ` {..<tw_uuids w}"
    by (simp_all only: uploads_ok_def list.set_map)
  moreover have "\<forall>r \<in> set (tw_uploads ?v). sound_upload r" using assms(2) by simp
  moreover have u: "tw_uuid ?v = tw_uuid w" "tw_uuids ?v = tw_uuids w" by simp_all
  ultimately show ?thesis using assms(1) unfolding uploads_ok_def u by blast
qed

section \<open>Which calls keep them\<close>

lemma keeps_grown_table [keeps_intros]:
  "keeps (grown w) (on_fs m)" "keeps (grown w) fresh_id" "keeps (grown w) (find_transfer i)" "keeps (grown w) (find_upload j)"
  "keeps (grown w) (get_owned_upload u i)" "keeps (grown w) (send_transfer j)"
  "keeps (grown w) (save_transfer i f)" "keeps (grown w) (insert_transfer t)"
  "keeps (grown w) (get_transfer i)" "keeps (grown w) (get_transfer_or i d)" "keeps (grown w) (get_upload j)"
proof -
  show "keeps (grown w) (on_fs m)" by (auto simp: keeps_def intro!: wp_on_fs)
  show "keeps (grown w) fresh_id"
    by (auto simp: keeps_def fresh_id_def wp_def grown_def uploads_ok_def)
  show "keeps (grown w) (find_transfer i)" "keeps (grown w) (find_upload j)"
    "keeps (grown w) (get_owned_upload u i)" "keeps (grown w) (send_transfer j)"
    by (simp_all add: find_transfer_def find_upload_def get_owned_upload_def send_transfer_def keeps_gets)
  show get: "keeps (grown w) (get_transfer i)" for i
    by (simp add: keeps_def get_transfer_def find_transfer_def wp_simps split: option.splits)
  show "keeps (grown w) (save_transfer i f)"
    unfolding save_transfer_def by (intro keeps_intros get) simp
  show "keeps (grown w) (insert_transfer t)" unfolding insert_transfer_def by (intro keeps_intros) simp
  show "keeps (grown w) (get_transfer_or i d)"
    by (simp add: keeps_def get_transfer_or_def find_transfer_def wp_simps split: option.splits)
  show "keeps (grown w) (get_upload j)"
    by (simp add: keeps_def get_upload_def find_upload_def wp_simps split: option.splits)
qed

lemma keeps_grown_guards [keeps_intros]:
  "keeps (grown w) (ensure_enabled te)" "keeps (grown w) (check_capability u c)"
  "keeps (grown w) (transfer_capabilities u d)" "keeps (grown w) (require_owner u t)"
  "keeps (grown w) (acquire_transfer_slot te)"
  unfolding ensure_enabled_def check_capability_def transfer_capabilities_def require_owner_def acquire_transfer_slot_def
  by (intro keeps_intros)+

lemma grown_self: "grown w s \<Longrightarrow> grown s s"
  by (simp add: grown_def)

lemma grown_trans: "grown w s \<Longrightarrow> grown s v \<Longrightarrow> grown w v"
  by (simp add: grown_def)

lemma wp_atomic_grown:
  assumes s: "grown w s" and m: "wp m (\<lambda>_. grown s) (\<lambda>_. grown s) s"
  shows "wp (atomic m) (\<lambda>_. grown w) (\<lambda>_. grown w) s"
proof -
  have "grown w (v\<lparr>tw_transfers := ts, tw_uploads := tw_uploads s\<rparr>)" if v: "grown s v" for v ts
  proof -
    note a = grownD[OF s] and b = grownD[OF v]
    have "fu_id ` set (tw_uploads s) \<subseteq> tw_uuid v ` {..<tw_uuids v}"
      using a(3) b(5,6) by (metis (no_types, lifting) image_mono lessThan_subset_iff subset_trans)
    moreover have "tw_uuid v = tw_uuid w" "tw_uuids w \<le> tw_uuids v" using a(5,6) b(5,6) by simp_all
    ultimately show ?thesis using a(2,4) b(1) by (simp add: grown_def uploads_ok_def)
  qed
  then show ?thesis
    by (intro wp_atomic, intro wp_mono[OF m]) (auto intro: grown_trans[OF s])
qed

lemma keeps_atomic [keeps_intros]:
  assumes "\<And>s. keeps (grown s) m"
  shows "keeps (grown w) (atomic m)"
  by (intro keepsI wp_atomic_grown keepsD[OF assms] grown_self) assumption+

lemma keeps_save_upload [keeps_intros]:
  assumes "\<And>n r. fu_id (f n r) = fu_id r \<and> (sound_upload r \<longrightarrow> sound_upload (f n r))"
  shows "keeps (grown w) (save_upload i f)"
  unfolding save_upload_def
proof (rule keeps_modify)
  fix v assume "grown w v"
  then show "grown w (v\<lparr>tw_uploads := map (\<lambda>r. if fu_id r = i then f (tw_now v) r else r) (tw_uploads v)\<rparr>)"
    using assms uploads_ok_map[of v "\<lambda>r. if fu_id r = i then f (tw_now v) r else r"]
    by (auto simp: grown_def uploads_ok_def[of v])
qed

lemma sound_upload_fields [simp]:
  "sound_upload (r\<lparr>fu_status := st\<rparr>) = sound_upload r" "sound_upload (r\<lparr>fu_error := m\<rparr>) = sound_upload r"
  "sound_upload (r\<lparr>fu_storage := p\<rparr>) = sound_upload r" "sound_upload (r\<lparr>fu_completed := c\<rparr>) = sound_upload r"
  "sound_upload (r\<lparr>fu_updated := n\<rparr>) = sound_upload r"
  by (simp_all add: sound_upload_def)

lemma keeps_grown_sync [keeps_intros]:
  "keeps (grown w) (sync_transfer_upload_state r s m c)" "keeps (grown w) (cleanup_staging te p)"
  "keeps (grown w) (cleanup_send_upload_temp te j)"
proof -
  have "fu_id (synced_upload s m c n r) = fu_id r \<and> (sound_upload r \<longrightarrow> sound_upload (synced_upload s m c n r))" for n r
    by (cases s; cases m; simp add: synced_upload_def Let_def)
  then show "keeps (grown w) (sync_transfer_upload_state r s m c)"
    unfolding sync_transfer_upload_state_def by (intro keeps_intros)
  show "keeps (grown w) (cleanup_staging te p)" "keeps (grown w) (cleanup_send_upload_temp te j)"
    unfolding cleanup_staging_def cleanup_send_upload_temp_def by (intro keeps_intros)+
qed

lemma keeps_guarded:
  "(b \<Longrightarrow> keeps P k) \<Longrightarrow> keeps P (seq (require b e) k)"
  "(\<And>x. r = Inr x \<Longrightarrow> keeps P (f x)) \<Longrightarrow> keeps P (bind (lift r) f)"
  by (auto simp: keeps_def wp_simps split: sum.splits)

lemma keeps_new_upload:
  assumes "\<And>i. fu_id (r i) = i \<and> sound_upload (r i)" "\<And>i. keeps (grown w) (k i)"
  shows "keeps (grown w) (bind fresh_id (\<lambda>i. seq (insert_upload (r i)) (k i)))"
proof (rule keepsI)
  fix s assume s: "grown w s"
  let ?i = "tw_uuid s (tw_uuids s)"
  have new: "?i \<notin> fu_id ` set (tw_uploads s)"
  proof
    assume "?i \<in> fu_id ` set (tw_uploads s)"
    then obtain n where "n < tw_uuids s" "?i = tw_uuid s n" and "inj (tw_uuid s)"
      using s unfolding grown_def uploads_ok_def by blast
    then show False by (simp add: inj_eq)
  qed
  let ?v = "s\<lparr>tw_uuids := Suc (tw_uuids s), tw_uploads := tw_uploads s @ [r ?i]\<rparr>"
  note ids = grownD[OF s]
  have "fu_id ` set (tw_uploads ?v) \<subseteq> tw_uuid s ` {..<Suc (tw_uuids s)}"
    using assms(1)[of ?i] ids(3) by (auto simp: lessThan_Suc)
  moreover have "distinct (map fu_id (tw_uploads ?v))" using ids(2) new assms(1)[of ?i] by simp
  moreover have "\<forall>r \<in> set (tw_uploads ?v). sound_upload r" using ids(4) assms(1)[of ?i] by auto
  ultimately have "grown w ?v" using ids(1,5,6) by (simp add: grown_def uploads_ok_def)
  then show "wp (bind fresh_id (\<lambda>i. seq (insert_upload (r i)) (k i))) (\<lambda>_. grown w) (\<lambda>_. grown w) s"
    using keepsD[OF assms(2), of ?v] by (simp add: wp_simps wp_def[of fresh_id] fresh_id_def insert_upload_def)
qed

lemma keeps_create_send: "keeps (grown w) (create_send_transfer te u n sz ck req)"
  unfolding create_send_transfer_def Let_def
  apply (intro keeps_guarded keeps_new_upload keeps_intros)
  apply (auto simp: sound_upload_def pos_imp_zdiv_nonneg_iff dest: chunk_size_positive)
  done

lemma keeps_ignore [keeps_intros]: "keeps P m \<Longrightarrow> keeps P (ignore m)"
  unfolding ignore_def by (intro keeps_intros)

lemma keeps_others:
  "keeps (grown w) (resume_send_transfer te i u)" "keeps (grown w) (resume_receive_transfer te i u)"
  "keeps (grown w) (pause_transfer te t u)" "keeps (grown w) (retry_transfer te t u)"
  "keeps (grown w) (create_receive_transfer te u p n)" "keeps (grown w) (read_receive_chunk te t u j)"
  "keeps (grown w) (complete_receive te t u ck)" "keeps (grown w) (cancel_transfer te t u)"
  unfolding resume_send_transfer_def resume_receive_transfer_def pause_transfer_def retry_transfer_def retry_send_def
    create_receive_transfer_def read_receive_chunk_def complete_receive_def cancel_transfer_def Let_def
  by (intro keeps_intros)+

lemma keeps_finalize_send [keeps_intros]: "keeps (grown w) (sync_finalize_send te i u ck large)"
  unfolding sync_finalize_send_def finalize_upload_def finalize_ready_def fail_send_def promote_def promote_body_def
    promote_link_def promotion_failed_def Let_def
  by (intro keeps_intros keeps_with_fs; (simp add: gives_open_parent)?)

lemma keeps_maintenance: "keeps (grown w) (maintenance te b d)"
proof -
  have fail: "keeps (grown w) (fail_verifying te i m wu)" for w i m wu
    unfolding fail_verifying_def by (intro keeps_intros)
  have expire: "keeps (grown w) (expire_rows te b n is)" for b n "is"
    by (induction "is" arbitrary: n) (auto simp: expire_row_def Let_def intro!: keeps_intros)
  have verify: "keeps (grown w) (verify_rows f n m is)" if "\<And>i. keeps (grown w) (f i)" for f n m "is"
    by (induction "is" arbitrary: n m) (auto simp: Let_def intro!: keeps_intros that)
  show ?thesis
    unfolding maintenance_def Let_def
    by (intro keeps_intros expire verify; unfold verify_send_row_def verify_receive_row_def; intro keeps_intros fail)
qed

datatype u_call =
    UInit u_request
  | UChunk string u_request
  | UComplete string u_request
  | UList u_request
  | UDelete string u_request

fun run_upload :: "t_env \<Rightarrow> u_db \<Rightarrow> u_call \<Rightarrow> u_reply tio" where
  "run_upload te db (UInit rq) = upload_init te db rq"
| "run_upload te db (UChunk i rq) = upload_chunk te db i rq"
| "run_upload te db (UComplete i rq) = upload_complete te db i rq"
| "run_upload te db (UList rq) = upload_list rq"
| "run_upload te db (UDelete i rq) = upload_delete te db i rq"

lemma keeps_run_call: "keeps (grown w) (run_call te c)"
  by (cases c) (auto intro!: keeps_intros keeps_create_send keeps_others keeps_maintenance)

lemma keeps_query [keeps_intros]: "keeps P m \<Longrightarrow> keeps P (query db q m)"
  unfolding query_def by (intro keeps_intros)

lemma keeps_transaction [keeps_intros]: "(\<And>s. keeps (grown s) m) \<Longrightarrow> keeps (grown w) (transaction db m)"
  unfolding transaction_def by (intro keeps_intros)

lemma keeps_transfer_upload_error [keeps_intros]: "keeps (grown w) (transfer_upload_error db u r fw t)"
  unfolding transfer_upload_error_def by (intro keeps_intros)

lemma keeps_locked [keeps_intros]: "keeps (grown w) (locked_upload db u i m)"
  unfolding locked_upload_def by (intro keeps_intros)

lemma keeps_complete: "keeps (grown w) (upload_complete te db i rq)"
proof -
  have fail: "keeps (grown w) (fail_upload db r m n t)" for w r m n t
    unfolding fail_upload_def by (intro keeps_intros) simp
  have finish: "keeps (grown w) (finish_upload te db r t)" for w r t
    unfolding finish_upload_def Let_def by (intro keeps_intros fail) simp_all
  have body: "keeps (grown w) (complete_body te db i rq)" for w
    unfolding complete_body_def Let_def by (intro keeps_intros fail finish)
  show ?thesis
    unfolding upload_complete_def move_back_def by (intro keeps_intros body) simp_all
qed

lemma keeps_delete: "keeps (grown w) (upload_delete te db i rq)"
proof -
  have "grown w (v\<lparr>tw_uploads := filter P (tw_uploads v)\<rparr>)" if "grown w v" for v P
  proof -
    note ids = grownD[OF that]
    have "fu_id ` set (filter P (tw_uploads v)) \<subseteq> tw_uuid v ` {..<tw_uuids v}" using ids(3) by auto
    with ids show ?thesis by (simp add: grown_def uploads_ok_def distinct_map_filter)
  qed
  then show ?thesis unfolding upload_delete_def by (intro keeps_intros)
qed

lemma keeps_init: "keeps (grown w) (upload_init te db rq)"
proof -
  have new: "keeps (grown w) (bind fresh_id (\<lambda>i. seq (query db QCreate (insert_upload (r i))) (ret (f i))))"
    if "\<And>i. fu_id (r i) = i \<and> sound_upload (r i)" for r f w
  proof (cases "db QCreate")
    case False
    then have "query db QCreate m = m" for m :: "unit tio" by (simp add: query_def fun_eq_iff seq_def bind_def require_def ret_def)
    then show ?thesis by (simp only:) (rule keeps_new_upload[OF that keeps_ret])
  next
    case True
    then have "query db QCreate m = raise DatabaseError" for m :: "unit tio"
      by (simp add: query_def fun_eq_iff seq_def bind_def require_def raise_def)
    then show ?thesis by (simp only:) (intro keeps_intros)
  qed
  show ?thesis
    unfolding upload_init_def Let_def
    apply (intro keeps_guarded(2) keeps_cond keeps_case_option keeps_ret keeps_bind[OF keeps_gets] new keeps_bind keeps_lift)
    apply (auto simp: sound_upload_def pos_imp_zdiv_nonneg_iff)
    done
qed

lemma wp_query: "wp m Q E w \<Longrightarrow> (\<And>e. E e w) \<Longrightarrow> wp (query db q m) Q E w"
  by (simp add: query_def wp_simps)

lemma wp_transfer_upload_error:
  "(\<And>x. Q x w) \<Longrightarrow> (\<And>e. E e w) \<Longrightarrow> wp (transfer_upload_error db u r fw t) Q E w"
  unfolding transfer_upload_error_def send_transfer_def
  by (intro wp_query t_wp) auto

lemma wp_get_owned:
  "Q None w \<Longrightarrow> (\<And>r. r \<in> set (tw_uploads w) \<Longrightarrow> fu_id r = i \<Longrightarrow> Q (Some r) w) \<Longrightarrow> wp (get_owned_upload u i) Q E w"
  unfolding get_owned_upload_def wp_gets
  by (cases "find (\<lambda>r. fu_id r = i \<and> (u_superuser u \<or> fu_owner r = Some (u_id u))) (tw_uploads w)") (auto dest: find_member)

lemma wp_locked:
  assumes "\<And>x. Q (Inl x) w" "\<And>l. l \<in> set (tw_uploads w) \<Longrightarrow> fu_id l = i \<Longrightarrow> Q (Inr l) w" "\<And>e. E e w"
  shows "wp (locked_upload db u i m) Q E w"
  unfolding locked_upload_def send_transfer_def
  by (intro wp_query wp_get_owned wp_transfer_upload_error t_wp) (auto simp: assms)

text \<open>The index and the size that the checks let through.\<close>

definition chunk_fits :: "tworld \<Rightarrow> string \<Rightarrow> int \<Rightarrow> int \<Rightarrow> bool" where
  "chunk_fits w upload_id i sz \<longleftrightarrow> (\<forall>l \<in> set (tw_uploads w). fu_id l = upload_id \<longrightarrow>
     fu_chunks l = i \<longrightarrow> i < fu_total_chunks l \<and> sz = expected_chunk_size l i)"

lemma wp_store_chunk:
  assumes w: "grown w s" and fits: "chunk_fits s upload_id i sz"
  shows "wp (store_chunk db rq upload_id i sz pieces temp) (\<lambda>_. grown w) (\<lambda>_. grown w) s"
proof -
  have save: "wp (query db QSave (save_upload (fu_id l) (\<lambda>now r. r\<lparr>fu_bytes := fu_bytes l + sz, fu_chunks := fu_chunks l + 1,
        fu_status := UUploading, fu_updated := now\<rparr>))) (\<lambda>_. grown w) (\<lambda>_. grown w) v"
    if v: "grown w v" "tw_uploads v = tw_uploads s" and l: "l \<in> set (tw_uploads s)" "fu_id l = upload_id" "fu_chunks l = i" for v l
  proof -
    note ids = grownD[OF v(1)]
    let ?g = "\<lambda>r. if fu_id r = fu_id l then r\<lparr>fu_bytes := fu_bytes l + sz, fu_chunks := fu_chunks l + 1, fu_status := UUploading,
      fu_updated := tw_now v\<rparr> else r"
    have one: "r = l" if "r \<in> set (tw_uploads v)" "fu_id r = fu_id l" for r
      using that l(1) v(2) ids(2) by (auto simp: distinct_map dest: inj_onD)
    have "i < fu_total_chunks l" "sz = expected_chunk_size l i" using fits l by (auto simp: chunk_fits_def)
    then have new: "sound_upload (?g l)"
      using sound_chunk[of l sz "?g l"] ids(4)[of l] l v(2) by simp
    have "uploads_ok (v\<lparr>tw_uploads := map ?g (tw_uploads v)\<rparr>)"
    proof (rule uploads_ok_map)
      show "uploads_ok v" using v(1) by (simp add: grown_def)
      show "fu_id (?g r) = fu_id r \<and> sound_upload (?g r)" if "r \<in> set (tw_uploads v)" for r
        using one[OF that] new ids(4)[OF that] by (cases "fu_id r = fu_id l") auto
    qed
    with ids(5,6) have "grown w (v\<lparr>tw_uploads := map ?g (tw_uploads v)\<rparr>)" by (simp add: grown_def)
    then show ?thesis using v(1) by (intro wp_query) (simp_all add: save_upload_def wp_simps)
  qed
  have written: "wp (write_chunk_file temp pieces) (\<lambda>_ v. grown w v \<and> tw_uploads v = tw_uploads s)
      (\<lambda>_ v. grown w v) s"
    unfolding write_chunk_file_def whenever_def
    by (intro t_wp wp_modifyI) (auto simp: w)
  show ?thesis
    unfolding store_chunk_def
    apply (intro wp_bindI wp_locked)
      apply (simp_all add: wp_simps w)
    apply (intro impI wp_mono[OF written])
     apply (auto simp: wp_simps intro!: wp_mono[OF save])
    done
qed

lemma keeps_restore: "keeps (grown w) (restore_temp temp)"
  unfolding restore_temp_def by (intro keeps_intros)

lemma wp_guarded_chunk:
  assumes "grown w s" "chunk_fits s upload_id i sz"
  shows "wp (guarded_chunk db rq upload_id i sz pieces temp) (\<lambda>_. grown w) (\<lambda>_. grown w) s"
proof -
  let ?s = "s\<lparr>tw_previous := 0\<rparr>"
  have s: "grown w ?s" "chunk_fits ?s upload_id i sz" using assms by (simp_all add: chunk_fits_def)
  have "wp (transaction db (store_chunk db rq upload_id i sz pieces temp)) (\<lambda>_. grown w) (\<lambda>_. grown w) ?s"
    unfolding transaction_def
    by (intro wp_atomic_grown[OF s(1)] wp_bindI wp_mono[OF wp_store_chunk[OF grown_self[OF s(1)] s(2)]] wp_query wp_retI)
  then show ?thesis
    unfolding guarded_chunk_def
    apply (simp add: wp_simps)
    apply (erule wp_mono)
     apply (auto simp: wp_simps intro!: wp_mono[OF keepsD[OF keeps_restore]])
    done
qed

lemma chunk_request_fits:
  assumes "chunk_request st rq r = Inr (Inr (i, sz, pieces))"
  shows "i = fu_chunks r \<and> i < fu_total_chunks r \<and> sz = expected_chunk_size r i \<and> fu_status r \<noteq> UCompleted \<and> fu_status r \<noteq> UFailed"
  using assms by (auto simp: chunk_request_def bad_chunk_size_def bind_res_eq_Inr split: if_splits option.splits prod.splits)

lemma keeps_chunk: "keeps (grown w) (upload_chunk te db upload_id rq)"
proof (rule keepsI)
  fix s assume s: "grown w s"
  have fits: "chunk_fits (s\<lparr>tw_os := t\<rparr>) (fu_id r) i sz"
    if r: "r \<in> set (tw_uploads s)" and c: "chunk_request st rq r = Inr (Inr (i, sz, pieces))"
    for r st i sz pieces t
  proof -
    have "l = r" if "l \<in> set (tw_uploads s)" "fu_id l = fu_id r" for l
      using that r grownD(2)[OF s] by (auto simp: distinct_map dest: inj_onD)
    with chunk_request_fits[OF c] show ?thesis by (auto simp: chunk_fits_def)
  qed
  have guarded: "wp (guarded_chunk db rq (fu_id r) i sz pieces temp) (\<lambda>_. grown w) (\<lambda>_. grown w) (s\<lparr>tw_os := t\<rparr>)"
    if "r \<in> set (tw_uploads s)" "chunk_request (te_settings te) rq r = Inr (Inr (i, sz, pieces))"
    for r i sz pieces temp t
    by (rule wp_guarded_chunk[OF _ fits[OF that]]) (simp add: s)
  show "wp (upload_chunk te db upload_id rq) (\<lambda>_. grown w) (\<lambda>_. grown w) s"
    unfolding upload_chunk_def
    apply (intro wp_bindI wp_query wp_get_owned)
      apply (simp_all add: wp_simps s)
    apply (auto simp: s wp_simps split: sum.split intro!: wp_on_fs guarded)
    done
qed

inductive sys_run :: "t_env \<Rightarrow> tworld \<Rightarrow> tworld \<Rightarrow> bool" for te where
  start: "sys_run te w w"
| transfer: "sys_run te w v \<Longrightarrow> run_call te c v = (r, u) \<Longrightarrow> sys_run te w u"
| upload: "sys_run te w v \<Longrightarrow> run_upload te db c v = (r, u) \<Longrightarrow> sys_run te w u"
| other: "sys_run te w v \<Longrightarrow> sys_run te w (v\<lparr>tw_os := s, tw_now := n\<rparr>)"

lemma keeps_run_upload: "keeps (grown w) (run_upload te db c)"
  by (cases c) (auto simp: upload_list_def intro!: keeps_init keeps_chunk keeps_complete keeps_delete keeps_intros)

lemma keeps_result: "keeps P m \<Longrightarrow> m v = (r, u) \<Longrightarrow> P v \<Longrightarrow> P u"
  by (cases r) (auto dest!: keepsD[of P m v] simp: wp_def)

text \<open>C31: in every run of upload and transfer requests, whatever fails, the counters of every upload
  row agree: the bytes received are those of the chunks received, never more than declared, and all
  of them once every chunk is there.\<close>

theorem upload_rows_sound:
  assumes "sys_run te w v" "uploads_ok w" "r \<in> set (tw_uploads v)"
  shows "0 \<le> fu_chunks r \<and> fu_chunks r \<le> fu_total_chunks r
    \<and> fu_bytes r = min (fu_total_size r) (fu_chunks r * fu_chunk_size r)
    \<and> (fu_chunks r = fu_total_chunks r \<longrightarrow> fu_bytes r = fu_total_size r)"
proof -
  have "grown w v"
    using assms(1,2)
  proof (induction rule: sys_run.induct)
    case (transfer w v c r u)
    then show ?case using keeps_result[OF keeps_run_call] by blast
  next
    case (upload w v db c r u)
    then show ?case using keeps_result[OF keeps_run_upload] by blast
  next
    case (other w v s n)
    then show ?case by (auto simp: grown_def uploads_ok_def)
  qed (simp add: grown_refl)
  from grownD(4)[OF this assms(3)] have r: "sound_upload r" .
  then show ?thesis
    using ceil_pred(2)[of "fu_chunk_size r" "fu_total_size r"] by (auto simp: sound_upload_def)
qed
section \<open>The staging file\<close>

text \<open>A calm system in which the path leads to the regular file \<open>k\<close>.\<close>

definition leads_to :: "os \<Rightarrow> string \<Rightarrow> nat \<Rightarrow> bool" where
  "leads_to s p k \<longleftrightarrow> os_sched s = [] \<and> follow 41 s p = Inr k \<and> is_kind (os_fs s) k KFile"

lemma syscall_quiet: "os_sched s = [] \<Longrightarrow> syscall act s = act None s"
  by (simp add: syscall_def next_event_def)

lemma is_kind_Some: "is_kind f i k \<Longrightarrow> \<exists>n. f i = Some n \<and> i_kind n = k"
  by (simp add: is_kind_def split: option.splits)

lemma is_kind_set_data [simp]: "is_kind (set_data bs now i f) j k = is_kind f j k"
  by (simp add: is_kind_def set_data_def split: option.splits)

lemma is_kind_unique: "is_kind f i a \<Longrightarrow> is_kind f i b \<Longrightarrow> a = b"
  by (simp add: is_kind_def split: option.splits)

lemma file_data_set_data: "is_kind f i k \<Longrightarrow> file_data (set_data bs now i f) j = (if j = i then bs else file_data f j)"
  by (auto simp: file_data_def set_data_def is_kind_def split: option.splits)

lemma follow_cong:
  "os_paths t = os_paths s \<Longrightarrow> (\<And>i. is_kind (os_fs t) i KLink = is_kind (os_fs s) i KLink)
    \<Longrightarrow> (\<And>i. is_kind (os_fs s) i KLink \<Longrightarrow> file_data (os_fs t) i = file_data (os_fs s) i) \<Longrightarrow> follow n t p = follow n s p"
  by (induction n s p rule: follow.induct) (auto split: sum.splits)

definition appended :: "os \<Rightarrow> nat \<Rightarrow> nat \<Rightarrow> string \<Rightarrow> os \<Rightarrow> bool" where
  "appended s fd k bs t \<longleftrightarrow> os_sched t = [] \<and> os_fds t fd = Some k \<and> os_paths t = os_paths s
     \<and> (\<forall>i kd. is_kind (os_fs t) i kd = is_kind (os_fs s) i kd)
     \<and> (\<forall>i. file_data (os_fs t) i = (if i = k then file_data (os_fs s) k @ bs else file_data (os_fs s) i))"

lemma append_all_quiet:
  assumes "os_sched s = []" "os_fds s fd = Some k" "is_kind (os_fs s) k KFile"
  shows "\<exists>t. append_all fd view s = (Inr (), t) \<and> appended s fd k view t"
proof (cases "view = []")
  case True
  then show ?thesis using assms by (subst append_all.simps) (simp add: appended_def)
next
  case False
  let ?t = "s\<lparr>os_fs := set_data (file_data (os_fs s) k @ view) (os_clock s) k (os_fs s),
        os_pos := (os_pos s)(fd := length (file_data (os_fs s) k) + length view)\<rparr>"
  have "os_append fd view s = (Inr (length view), ?t)"
    using assms by (simp add: os_append_def syscall_quiet bind_def fd_inode_def Let_def)
  then have "append_all fd view s = (Inr (), ?t)"
    using False by (subst append_all.simps) (simp, subst append_all.simps, simp)
  moreover have "appended s fd k view ?t"
    using assms by (simp add: appended_def file_data_set_data)
  ultimately show ?thesis by blast
qed

lemma appended_trans: "appended s fd k a t \<Longrightarrow> appended t fd k b u \<Longrightarrow> appended s fd k (a @ b) u"
  by (auto simp: appended_def)

lemma append_pieces_quiet:
  assumes "os_sched s = []" "os_fds s fd = Some k" "is_kind (os_fs s) k KFile"
  shows "\<exists>t. for_each pieces (append_all fd) s = (Inr (), t) \<and> appended s fd k (concat pieces) t"
  using assms
proof (induction pieces arbitrary: s)
  case (Cons p ps)
  obtain t where t: "append_all fd p s = (Inr (), t)" "appended s fd k p t" using append_all_quiet[OF Cons.prems] by blast
  then obtain u where "for_each ps (append_all fd) t = (Inr (), u)" "appended t fd k (concat ps) u"
    using Cons.IH[of t] Cons.prems by (auto simp: appended_def)
  with t show ?case by (auto simp: seq_def bind_def intro: appended_trans)
qed (simp add: ret_def appended_def)

lemma truncate_quiet:
  assumes "leads_to s p k"
  shows "\<exists>t. truncate_path p n s = (Inr (), t) \<and> leads_to t p k \<and> os_paths t = os_paths s
    \<and> file_data (os_fs t) k = take (nat n) (file_data (os_fs s) k) @ replicate (nat n - length (file_data (os_fs s) k)) (CHR 0x00)
    \<and> (\<forall>i. i \<noteq> k \<longrightarrow> file_data (os_fs t) i = file_data (os_fs s) i)"
proof -
  have s: "os_sched s = []" "follow 41 s p = Inr k" "is_kind (os_fs s) k KFile" using assms by (simp_all add: leads_to_def)
  then obtain x where x: "os_fs s k = Some x" "i_kind x = KFile" by (auto dest: is_kind_Some)
  let ?old = "file_data (os_fs s) k"
  let ?f = "set_data (take (nat n) ?old @ replicate (nat n - length ?old) (CHR 0x00)) (os_clock s) k (os_fs s)"
  let ?t = "s\<lparr>os_fs := ?f, os_fds := ((os_fds s)(os_nfd s := Some k))(os_nfd s := None), os_pos := (os_pos s)(os_nfd s := 0),
     os_nfd := Suc (os_nfd s)\<rparr>"
  have run: "truncate_path p n s = (Inr (), ?t)"
    using s x by (simp add: truncate_path_def bind_def open_update_path_def syscall_quiet new_fd_def is_kind_def cleanup_def
        os_ftruncate_def fd_inode_def Let_def os_close_def del: fun_upd_upd follow.simps)
  have other: "i \<noteq> k \<Longrightarrow> file_data ?f i = file_data (os_fs s) i" and own: "file_data ?f k = take (nat n) ?old @ replicate (nat n - length ?old) (CHR 0x00)" for i
    using s(3) by (simp_all add: file_data_set_data)
  have "follow 41 ?t p = Inr k"
    unfolding s(2)[symmetric] by (rule follow_cong) (use other is_kind_unique[OF s(3)] in \<open>fastforce+\<close>)
  with run other own s show ?thesis by (intro exI[of _ ?t]) (simp add: leads_to_def del: follow.simps)
qed

lemma stat_quiet:
  assumes "leads_to s p k"
  shows "os_path_exists p s = (Inr True, s)" "os_path_getsize p s = (Inr (int (length (file_data (os_fs s) k))), s)"
proof -
  obtain x where x: "os_fs s k = Some x" using assms by (auto simp: leads_to_def dest: is_kind_Some)
  have st: "stat_path p s = (Inr (stat_of k x), s)"
    using assms x by (simp add: leads_to_def stat_path_def syscall_quiet del: follow.simps)
  then show "os_path_exists p s = (Inr True, s)"
    by (simp add: os_path_exists_def on_os_error_def catch_def bind_def ret_def)
  from st x show "os_path_getsize p s = (Inr (int (length (file_data (os_fs s) k))), s)"
    by (simp add: os_path_getsize_def bind_def ret_def stat_of_def file_data_def)
qed

lemma islink_quiet:
  assumes "os_sched s = []" "os_paths s p = Inr j" "is_kind (os_fs s) j kd"
  shows "os_path_islink p s = (Inr (kd = KLink), s)"
  using assms by (auto simp: os_path_islink_def on_os_error_def catch_def bind_def ret_def lstat_path_def syscall_quiet stat_of_def
      dest!: is_kind_Some)

lemma leads_to_direct: "os_sched s = [] \<Longrightarrow> os_paths s p = Inr k \<Longrightarrow> is_kind (os_fs s) k KFile \<Longrightarrow> leads_to s p k"
  by (auto simp: leads_to_def numeral_eq_Suc is_kind_def split: option.splits)

lemma open_append_quiet:
  assumes "os_sched s = []" "os_paths s p = Inr k" "is_kind (os_fs s) k KFile"
  shows "open_append_path p s = new_fd k s"
  using assms by (auto simp: open_append_path_def syscall_quiet is_kind_def split: option.splits)

lemma write_chunk_quiet:
  assumes os: "os_sched (tw_os w) = []" "os_paths (tw_os w) temp = Inr k" "is_kind (os_fs (tw_os w)) k KFile"
  obtains t where "write_chunk_file temp pieces w
      = (Inr (), w\<lparr>tw_previous := int (length (file_data (os_fs (tw_os w)) k)), tw_os := t\<rparr>)"
    and "leads_to t temp k" "file_data (os_fs t) k = file_data (os_fs (tw_os w)) k @ concat pieces"
proof -
  let ?s = "tw_os w"
  have leads: "leads_to ?s temp k" by (rule leads_to_direct[OF os])
  let ?s1 = "?s\<lparr>os_fds := (os_fds ?s)(os_nfd ?s := Some k), os_pos := (os_pos ?s)(os_nfd ?s := 0), os_nfd := Suc (os_nfd ?s)\<rparr>"
  obtain u where u: "for_each pieces (append_all (os_nfd ?s)) ?s1 = (Inr (), u)" "appended ?s1 (os_nfd ?s) k (concat pieces) u"
    using append_pieces_quiet[of ?s1 "os_nfd ?s" k pieces] os by auto
  let ?t = "u\<lparr>os_fds := (os_fds u)(os_nfd ?s := None)\<rparr>"
  have "bind (open_append_path temp) (\<lambda>fd. cleanup (for_each pieces (append_all fd)) (os_close fd)) ?s = (Inr (), ?t)"
    using u by (simp add: bind_def open_append_quiet[OF os] new_fd_def cleanup_def os_close_def appended_def syscall_quiet)
  then have "write_chunk_file temp pieces w = (Inr (), w\<lparr>tw_previous := int (length (file_data (os_fs ?s) k)), tw_os := ?t\<rparr>)"
    using stat_quiet[OF leads] islink_quiet[OF os]
    by (simp add: write_chunk_file_def bind_def seq_def whenever_def on_fs_def require_def ret_def modify_def)
  moreover have "leads_to ?t temp k"
    using u(2) os by (intro leads_to_direct) (auto simp: appended_def)
  moreover have "file_data (os_fs ?t) k = file_data (os_fs ?s) k @ concat pieces" using u(2) by (simp add: appended_def)
  ultimately show thesis by (rule that)
qed

lemma restore_quiet:
  assumes "leads_to (tw_os w) temp k" "0 \<le> tw_previous w" "nat (tw_previous w) \<le> length (file_data (os_fs (tw_os w)) k)"
  obtains t where "restore_temp temp w = (Inr (), w\<lparr>tw_os := t\<rparr>)"
    and "file_data (os_fs t) k = take (nat (tw_previous w)) (file_data (os_fs (tw_os w)) k)"
proof -
  obtain t where "truncate_path temp (tw_previous w) (tw_os w) = (Inr (), t)"
    "file_data (os_fs t) k = take (nat (tw_previous w)) (file_data (os_fs (tw_os w)) k)"
    using truncate_quiet[OF assms(1), of "tw_previous w"] assms(3) by auto
  then show thesis
    by (intro that[of t]) (simp_all add: restore_temp_def bind_def gets_def on_fs_def on_os_error_def catch_def)
qed

text \<open>C32: if nothing but the database fails, a chunk is stored whole or not at all. When the row is found
  under its lock with the expected chunk count, the staging file is an existing regular file and no system
  call fails, the bytes are appended and the row counts them; when the database then refuses the row or the
  commit, the file is cut back to what it was and the row is untouched. (C33 and C34 show two failures
  outside these conditions after which the file is lost.)\<close>

theorem chunk_all_or_nothing:
  assumes "os_sched (tw_os w) = []" "os_paths (tw_os w) temp = Inr k" "is_kind (os_fs (tw_os w)) k KFile"
    and "locked_upload db (ur_user rq) uid ''Upload session changed; retry this chunk'' (w\<lparr>tw_previous := 0\<rparr>)
      = (Inr (Inr l), w\<lparr>tw_previous := 0\<rparr>)"
    and "fu_status l \<noteq> UCompleted" "fu_chunks l = i"
  shows "let (r, v) = guarded_chunk db rq uid i sz pieces temp w;
             old = file_data (os_fs (tw_os w)) k; new = file_data (os_fs (tw_os v)) k in
    if db QSave \<or> db QCommit
    then r = Inr (chunk_failed DatabaseError) \<and> new = old \<and> tw_uploads v = tw_uploads w
    else r = Inr (UProgress (i + 1) (fu_total_chunks l) (fu_bytes l + sz) False) \<and> new = old @ concat pieces
      \<and> tw_uploads v = map (\<lambda>x. if fu_id x = fu_id l
          then x\<lparr>fu_bytes := fu_bytes l + sz, fu_chunks := i + 1, fu_status := UUploading, fu_updated := tw_now w\<rparr> else x)
          (tw_uploads w)"
proof -
  let ?w = "w\<lparr>tw_previous := 0\<rparr>"
  let ?old = "file_data (os_fs (tw_os w)) k"
  obtain t where t: "write_chunk_file temp pieces ?w = (Inr (), ?w\<lparr>tw_previous := int (length ?old), tw_os := t\<rparr>)"
    "leads_to t temp k" "file_data (os_fs t) k = ?old @ concat pieces"
    using write_chunk_quiet[of ?w temp k pieces] assms(1-3) by auto
  note run = guarded_chunk_def store_chunk_def transaction_def query_def seq_def modify_def catch_def atomic_def bind_def
    assms(4-6) t(1) require_def ret_def raise_def save_upload_def progress_reply_def
  have cut: "\<exists>u. restore_temp temp x = (Inr (), x\<lparr>tw_os := u\<rparr>) \<and> file_data (os_fs u) k = ?old"
    if "tw_os x = t" "tw_previous x = int (length ?old)" for x
    using restore_quiet[of x temp k] t(2,3) that by auto
  show ?thesis
  proof (cases "db QSave \<or> db QCommit")
    case True
    then have "\<exists>x. transaction db (store_chunk db rq uid i sz pieces temp) ?w = (Inl DatabaseError, x)
        \<and> tw_os x = t \<and> tw_previous x = int (length ?old) \<and> tw_uploads x = tw_uploads w"
      by (cases "db QSave") (simp_all add: run)
    then obtain x where x: "transaction db (store_chunk db rq uid i sz pieces temp) ?w = (Inl DatabaseError, x)"
      "tw_os x = t" "tw_previous x = int (length ?old)" "tw_uploads x = tw_uploads w" by blast
    obtain u where "restore_temp temp x = (Inr (), x\<lparr>tw_os := u\<rparr>)" "file_data (os_fs u) k = ?old"
      using cut[OF x(2,3)] by blast
    with x True show ?thesis
      by (auto simp: guarded_chunk_def seq_def bind_def modify_def catch_def ret_def)
  next
    case False
    then show ?thesis using t(3) by (simp add: run Let_def)
  qed
qed

text \<open>C33: when a query fails before the previous size was read, the handler still cuts the file back,
  to nothing: the bytes of all earlier chunks are lost while the row keeps counting them.\<close>

theorem failed_lookup_empties_file:
  assumes "leads_to (tw_os w) temp k"
    and "locked_upload db (ur_user rq) uid ''Upload session changed; retry this chunk'' (w\<lparr>tw_previous := 0\<rparr>)
      = (Inl e, w\<lparr>tw_previous := 0\<rparr>)"
  shows "let (r, v) = guarded_chunk db rq uid i sz pieces temp w in
    r = Inr (chunk_failed e) \<and> tw_uploads v = tw_uploads w \<and> file_data (os_fs (tw_os v)) k = []"
proof -
  let ?x = "w\<lparr>tw_previous := 0, tw_transfers := tw_transfers w, tw_uploads := tw_uploads w\<rparr>"
  obtain t where "restore_temp temp ?x = (Inr (), ?x\<lparr>tw_os := t\<rparr>)" "file_data (os_fs t) k = []"
    using restore_quiet[of ?x temp k] assms(1) by auto
  moreover have "transaction db (store_chunk db rq uid i sz pieces temp) (w\<lparr>tw_previous := 0\<rparr>) = (Inl e, ?x)"
    by (simp add: transaction_def atomic_def store_chunk_def bind_def assms(2))
  ultimately show ?thesis
    by (simp add: guarded_chunk_def seq_def bind_def modify_def catch_def ret_def)
qed

text \<open>C34: a staging path that is a symbolic link is refused, but the handler of that refusal opens it
  for writing, follows it, and empties the file it points to.\<close>

theorem refused_link_empties_target:
  assumes "leads_to (tw_os w) temp k" "os_paths (tw_os w) temp = Inr j" "is_kind (os_fs (tw_os w)) j KLink"
    and "locked_upload db (ur_user rq) uid ''Upload session changed; retry this chunk'' (w\<lparr>tw_previous := 0\<rparr>)
      = (Inr (Inr l), w\<lparr>tw_previous := 0\<rparr>)"
    and "fu_status l \<noteq> UCompleted" "fu_chunks l = i"
  shows "let (r, v) = guarded_chunk db rq uid i sz pieces temp w in
    r = Inr (chunk_failed plain_os_error) \<and> file_data (os_fs (tw_os v)) k = []"
proof -
  let ?x = "w\<lparr>tw_previous := 0, tw_transfers := tw_transfers w, tw_uploads := tw_uploads w\<rparr>"
  have quiet: "os_sched (tw_os w) = []" using assms(1) by (simp add: leads_to_def)
  obtain t where "restore_temp temp ?x = (Inr (), ?x\<lparr>tw_os := t\<rparr>)" "file_data (os_fs t) k = []"
    using restore_quiet[of ?x temp k] assms(1) by auto
  moreover have "transaction db (store_chunk db rq uid i sz pieces temp) (w\<lparr>tw_previous := 0\<rparr>) = (Inl plain_os_error, ?x)"
    using stat_quiet(1)[OF assms(1)] islink_quiet[OF quiet assms(2,3)] assms(5,6)
    by (simp add: transaction_def atomic_def store_chunk_def bind_def assms(4) seq_def write_chunk_file_def on_fs_def
        whenever_def require_def raise_def)
  ultimately show ?thesis
    by (simp add: guarded_chunk_def seq_def bind_def modify_def catch_def ret_def)
qed

section \<open>Examples\<close>

definition example_request :: "string \<Rightarrow> u_request" where
  "example_request name = \<lparr>ur_user = manager, ur_post = True, ur_filename = name, ur_total_size = Some ''10'',
     ur_chunk_size = None, ur_chunk_index = Some ''1'', ur_chunk = Some (5, [''wor'', ''ld''])\<rparr>"

theorem preflight_agrees_witness:
  "\<exists>m. upload_init (example_te (PBool True)) (\<lambda>_. False) (example_request ''shell.PHP'') (example_tw [])
     = (Inr (UError 400 m), example_tw [])"
proof -
  have "ur_post (example_request ''shell.PHP'')" by (simp add: example_request_def)
  moreover have "upload_init_preflight (te_settings (example_te (PBool True))) (example_request ''shell.PHP'')
      = Inr (Some (UError 400 (''Files with extension '' @ [CHR 0x22] @ ''.php'' @ [CHR 0x22] @ '' are not allowed.'')))"
    by code_simp
  ultimately show ?thesis
    using preflight_agrees[of "example_request ''shell.PHP''" "example_te (PBool True)" "\<lambda>_. False" "example_tw []"] by auto
qed

lemma uploads_ok_example: "uploads_ok (example_tw ts)"
  by (simp add: uploads_ok_def example_tw_def inj_def)

lemma init_runs:
  "let (r, v) = run_upload (example_te (PBool True)) (\<lambda>_. False) (UInit (example_request ''a.zip'')) (example_tw [])
   in r = Inr (UCreated ''t'' 1 5242880) \<and> map fu_id (tw_uploads v) = [''t'']"
  by code_simp

theorem upload_rows_sound_witness:
  "\<exists>v r. sys_run (example_te (PBool True)) (example_tw []) v \<and> tw_uploads v = [r]
     \<and> fu_bytes r = min (fu_total_size r) (fu_chunks r * fu_chunk_size r)"
proof -
  let ?c = "UInit (example_request ''a.zip'')"
  obtain v where run: "run_upload (example_te (PBool True)) (\<lambda>_. False) ?c (example_tw []) = (Inr (UCreated ''t'' 1 5242880), v)"
    and "map fu_id (tw_uploads v) = [''t'']"
    using init_runs by (auto simp: Let_def split: prod.splits)
  then obtain r where rows: "tw_uploads v = [r]" by auto
  have reach: "sys_run (example_te (PBool True)) (example_tw []) v" by (rule sys_run.upload[OF sys_run.start run])
  from upload_rows_sound[OF reach uploads_ok_example] rows reach show ?thesis by auto
qed

definition example_upload :: file_upload where
  "example_upload = \<lparr>fu_id = ''t'', fu_owner = Some 7, fu_filename = ''a.zip'', fu_total_size = 10, fu_bytes = 5,
     fu_chunk_size = 5, fu_total_chunks = 2, fu_chunks = 1, fu_status = UUploading, fu_purpose = Release, fu_transfer = None,
     fu_storage = [], fu_error = [], fu_created = 0, fu_updated = 0, fu_completed = None\<rparr>"

text \<open>The staging file is \<open>/srv/data/docs/a.txt\<close> with five bytes, or a link to it.\<close>

definition example_staging :: "nat \<Rightarrow> tworld" where
  "example_staging j = (example_tw [])\<lparr>tw_uploads := [example_upload],
     tw_os := (example_os [])\<lparr>os_fs := example_fs(5 := Some (plain_inode KLink ''/a'' [] 9)),
       os_paths := (\<lambda>p. if p = ''/t'' then Inr j else if p = ''/a'' then Inr 4 else Inl ENOENT)\<rparr>\<rparr>"

lemma example_staging_kinds:
  "is_kind (os_fs (tw_os (example_staging j))) 4 KFile" "is_kind (os_fs (tw_os (example_staging j))) 5 KLink"
  "os_sched (tw_os (example_staging j)) = []" "os_paths (tw_os (example_staging j)) ''/t'' = Inr j"
  by (simp_all add: example_staging_def example_os_def example_fs_def plain_inode_def is_kind_def)

lemma example_locked:
  "locked_upload (\<lambda>_. False) (ur_user (example_request n)) ''t'' m ((example_staging j)\<lparr>tw_previous := 0\<rparr>)
     = (Inr (Inr example_upload), (example_staging j)\<lparr>tw_previous := 0\<rparr>)"
  "locked_upload (\<lambda>q. q = QLocked) (ur_user (example_request n)) ''t'' m ((example_staging j)\<lparr>tw_previous := 0\<rparr>)
     = (Inl DatabaseError, (example_staging j)\<lparr>tw_previous := 0\<rparr>)"
  by (simp_all add: locked_upload_def query_def get_owned_upload_def transfer_upload_error_def bind_def seq_def require_def ret_def
      raise_def gets_def example_staging_def example_upload_def manager_def viewer_def example_request_def)

lemma example_row: "fu_status example_upload \<noteq> UCompleted" "fu_chunks example_upload = 1"
  by (simp_all add: example_upload_def)

lemma example_content: "file_data (os_fs (tw_os (example_staging j))) 4 = ''hello''"
  by (simp add: example_staging_def example_os_def example_fs_def plain_inode_def file_data_def)

theorem chunk_all_or_nothing_witness:
  "let v = snd (guarded_chunk (\<lambda>_. False) (example_request ''a.zip'') ''t'' 1 5 [''wor'', ''ld''] ''/t'' (example_staging 4))
   in file_data (os_fs (tw_os v)) 4 = ''helloworld''"
proof -
  from chunk_all_or_nothing[OF example_staging_kinds(3,4,1) example_locked(1)[of "''a.zip''"] example_row, where sz = 5 and pieces = "[''wor'', ''ld'']"]
  show ?thesis by (simp add: example_content Let_def case_prod_beta)
qed

theorem failed_lookup_empties_file_witness:
  "let v = snd (guarded_chunk (\<lambda>q. q = QLocked) (example_request ''a.zip'') ''t'' 1 5 [''world''] ''/t'' (example_staging 4))
   in file_data (os_fs (tw_os (example_staging 4))) 4 = ''hello'' \<and> file_data (os_fs (tw_os v)) 4 = []"
proof -
  have leads: "leads_to (tw_os (example_staging 4)) ''/t'' 4" by (rule leads_to_direct[OF example_staging_kinds(3,4,1)])
  from failed_lookup_empties_file[OF leads example_locked(2)[of "''a.zip''"], where i = 1 and sz = 5 and pieces = "[''world'']"]
  show ?thesis by (simp add: example_content Let_def case_prod_beta)
qed

theorem refused_link_empties_target_witness:
  "let v = snd (guarded_chunk (\<lambda>_. False) (example_request ''a.zip'') ''t'' 1 5 [''world''] ''/t'' (example_staging 5))
   in file_data (os_fs (tw_os (example_staging 5))) 4 = ''hello'' \<and> file_data (os_fs (tw_os v)) 4 = []"
proof -
  have "follow 41 (tw_os (example_staging 5)) ''/t'' = Inr 4" by code_simp
  with example_staging_kinds have leads: "leads_to (tw_os (example_staging 5)) ''/t'' 4" by (simp add: leads_to_def del: follow.simps)
  from refused_link_empties_target[OF leads example_staging_kinds(4,2) example_locked(1)[of "''a.zip''"] example_row, where sz = 5 and pieces = "[''world'']"]
  show ?thesis by (simp add: example_content Let_def case_prod_beta)
qed

section \<open>The write loop ends\<close>

definition undisturbed :: "event list \<Rightarrow> bool" where
  "undisturbed evs \<longleftrightarrow> list_all (\<lambda>ev. case ev of Interfere _ \<Rightarrow> False | _ \<Rightarrow> True) evs"

lemma append_call:
  assumes "os_append fd view s = (r, t)"
  shows "os_sched t = drop 1 (os_sched s)"
    and "undisturbed (os_sched s) \<Longrightarrow> os_fds s fd = Some k \<Longrightarrow> is_kind (os_fs s) k KFile \<Longrightarrow>
      os_fds t fd = Some k \<and> is_kind (os_fs t) k KFile \<and> file_data (os_fs t) k = file_data (os_fs s) k @
        (case r of Inl e \<Rightarrow> [] | Inr n \<Rightarrow> take n view) \<and> (case r of Inl e \<Rightarrow> True | Inr n \<Rightarrow> n \<le> length view)"
  using assms
  by (auto simp: os_append_def syscall_def next_event_def bind_def fd_inode_def Let_def undisturbed_def file_data_set_data min_def
      split: list.splits event.splits option.splits)

text \<open>The write loop of a chunk ends whatever the operating system does: it makes at most as many
  calls as there are bytes, since each call takes one byte or fails; and if nobody else changes the
  file meanwhile it ends without an error exactly when every byte was appended, in order, a failed loop
  leaving a proper prefix.\<close>

theorem append_loop_ends:
  "\<exists>r t n m. append_all fd view s = (r, t) \<and> n \<le> length view \<and> os_sched t = drop n (os_sched s)
     \<and> (undisturbed (os_sched s) \<longrightarrow> os_fds s fd = Some k \<longrightarrow> is_kind (os_fs s) k KFile \<longrightarrow>
          m \<le> length view \<and> (r = Inr () \<longleftrightarrow> m = length view)
          \<and> file_data (os_fs t) k = file_data (os_fs s) k @ take m view)"
proof (induction fd view s rule: append_all.induct)
  case (1 fd view s)
  show ?case
  proof (cases "view = []")
    case True
    then show ?thesis by (subst append_all.simps) simp
  next
    case False
    obtain r u where call: "os_append fd view s = (r, u)" by fastforce
    note step = append_call[OF call]
    show ?thesis
    proof (cases r)
      case (Inl e)
      with False call have "append_all fd view s = (Inl e, u)" by (subst append_all.simps) simp
      with False step Inl show ?thesis
        by (intro exI[of _ "Inl e"] exI[of _ u] exI[of _ 1] exI[of _ 0]) (auto simp: Suc_le_eq)
    next
      case (Inr c)
      have c: "0 < c" using os_append_progress[of fd view s c u] call Inr False by simp
      obtain x t n m where x: "append_all fd (drop c view) u = (x, t)" "n \<le> length (drop c view)" "os_sched t = drop n (os_sched u)"
        and rest: "undisturbed (os_sched u) \<Longrightarrow> os_fds u fd = Some k \<Longrightarrow> is_kind (os_fs u) k KFile \<Longrightarrow>
          m \<le> length (drop c view) \<and> (x = Inr () \<longleftrightarrow> m = length (drop c view))
          \<and> file_data (os_fs t) k = file_data (os_fs u) k @ take m (drop c view)"
        using "1.IH"[OF False call[symmetric, unfolded Inr] ] by (auto simp: Inr)
      have "append_all fd view s = (x, t)" using False call Inr x(1) by (subst append_all.simps) simp
      moreover have "Suc n \<le> length view" using x(2) c False by (cases view) auto
      moreover have "os_sched t = drop (Suc n) (os_sched s)" using x(3) step(1) by simp
      moreover have "undisturbed (os_sched u)" if "undisturbed (os_sched s)"
        using that step(1) by (cases "os_sched s") (auto simp: undisturbed_def)
      ultimately show ?thesis using step(2) rest Inr
        by (intro exI[of _ x] exI[of _ t] exI[of _ "Suc n"] exI[of _ "c + m"]) (auto simp: take_add)
    qed
  qed
qed

definition example_file :: os where
  "example_file = \<lparr>os_fs = (\<lambda>_. None)(1 \<mapsto> \<lparr>i_kind = KFile, i_dev = 0, i_data = ''ab'', i_entries = [], i_parent = 0, i_mode = 384,
      i_uid = 0, i_gid = 0, i_mtime = 0, i_ctime = 0\<rparr>), os_next = 2, os_fds = (\<lambda>_. None)(3 \<mapsto> 1), os_pos = (\<lambda>_. 0), os_nfd = 4,
      os_sched = [Short 1, Short 0, Fail EIO], os_paths = (\<lambda>_. Inl ENOENT), os_link_errno = ELOOP, os_uuid = (\<lambda>_. []), os_uuids = 0,
      os_clock = 5\<rparr>"

theorem append_loop_ends_witness:
  "append_all 3 ''cdef'' example_file = (Inl (OSError EIO), snd (append_all 3 ''cdef'' example_file))
   \<and> os_sched (snd (append_all 3 ''cdef'' example_file)) = []
   \<and> (\<exists>m < 4. file_data (os_fs (snd (append_all 3 ''cdef'' example_file))) 1 = ''ab'' @ take m ''cdef'')"
proof -
  have run: "fst (append_all 3 ''cdef'' example_file) = Inl (OSError EIO)"
    and sched: "os_sched (snd (append_all 3 ''cdef'' example_file)) = []"
    by (simp_all add: append_all.simps os_append_def syscall_def next_event_def bind_def fd_inode_def Let_def example_file_def)
  have opened: "undisturbed (os_sched example_file)" "os_fds example_file 3 = Some 1" "is_kind (os_fs example_file) 1 KFile"
    "file_data (os_fs example_file) 1 = ''ab''"
    by (simp_all add: undisturbed_def example_file_def is_kind_def file_data_def)
  obtain r t m where result: "append_all 3 ''cdef'' example_file = (r, t)" "m \<le> length ''cdef''" "r = Inr () \<longleftrightarrow> m = length ''cdef''"
    "file_data (os_fs t) 1 = ''ab'' @ take m ''cdef''"
    using append_loop_ends[of 3 "''cdef''" example_file 1] opened by metis
  have "m < 4" using result(1-3) run by simp
  moreover have "file_data (os_fs (snd (append_all 3 ''cdef'' example_file))) 1 = ''ab'' @ take m ''cdef''"
    using result(1,4) by simp
  ultimately have "\<exists>m < 4. file_data (os_fs (snd (append_all 3 ''cdef'' example_file))) 1 = ''ab'' @ take m ''cdef''" by blast
  with run sched show ?thesis by (simp add: prod_eq_iff)
qed

end
