(* ===== verification/Base64.thy ===== *)
theory Base64
  imports Prelude
begin

text \<open>
  Base64 as the WebAuthn services use it (\<open>webauthn_services.py\<close>): the URL-safe alphabet without
  padding in the database, and \<open>base64.urlsafe_b64decode\<close> after the padding is put back. The decoder
  is CPython's lenient one: it skips bytes outside the alphabet and stops at the padding. Bytes are
  characters.
\<close>

section \<open>The standard library\<close>

definition b64_alphabet :: string where
  "b64_alphabet = ''ABCDEFGHIJKLMNOPQRSTUVWXYZabcdefghijklmnopqrstuvwxyz0123456789+/''"

definition b64_char :: "nat \<Rightarrow> char" where
  "b64_char n = b64_alphabet ! n"

definition b64_value :: "char \<Rightarrow> nat option" where
  "b64_value c =
     (let n = code c in
      if 65 \<le> n \<and> n \<le> 90 then Some (n - 65)
      else if 97 \<le> n \<and> n \<le> 122 then Some (n - 71)
      else if 48 \<le> n \<and> n \<le> 57 then Some (n + 4)
      else if n = 43 then Some 62 else if n = 47 then Some 63 else None)"

definition pad_char :: char where
  "pad_char = CHR ''=''"

fun b64encode :: "string \<Rightarrow> string" where
  "b64encode [] = []"
| "b64encode [a] = [b64_char (code a div 4), b64_char (code a mod 4 * 16), pad_char, pad_char]"
| "b64encode [a, b] =
     [b64_char (code a div 4), b64_char (code a mod 4 * 16 + code b div 16), b64_char (code b mod 16 * 4), pad_char]"
| "b64encode (a # b # c # s) =
     b64_char (code a div 4) # b64_char (code a mod 4 * 16 + code b div 16)
     # b64_char (code b mod 16 * 4 + code c div 64) # b64_char (code c mod 64) # b64encode s"

text \<open>\<open>binascii.a2b_base64\<close>: the position in the quantum, the bits left over, the pads seen.\<close>

fun a2b_base64 :: "nat \<Rightarrow> nat \<Rightarrow> nat \<Rightarrow> string \<Rightarrow> string res" where
  "a2b_base64 q left pads [] = (if q = 0 then Inr [] else Inl (ValueError ''Incorrect padding''))"
| "a2b_base64 q left pads (c # s) =
     (if c = pad_char
      then if 2 \<le> q \<and> 4 \<le> q + Suc pads then Inr []
           else a2b_base64 q left (if 2 \<le> q then Suc pads else pads) s
      else case b64_value c of
          None \<Rightarrow> a2b_base64 q left pads s
        | Some v \<Rightarrow>
            if q = 0 then a2b_base64 1 v 0 s
            else if q = 1 then map_sum id (Cons (char_of (left * 4 + v div 16))) (a2b_base64 2 (v mod 16) 0 s)
            else if q = 2 then map_sum id (Cons (char_of (left * 16 + v div 4))) (a2b_base64 3 (v mod 4) 0 s)
            else map_sum id (Cons (char_of (left * 64 + v))) (a2b_base64 0 0 0 s))"

definition to_urlsafe :: "char \<Rightarrow> char" where
  "to_urlsafe c = (if c = CHR ''+'' then CHR ''-'' else if c = CHR ''/'' then CHR ''_'' else c)"

definition from_urlsafe :: "char \<Rightarrow> char" where
  "from_urlsafe c = (if c = CHR ''-'' then CHR ''+'' else if c = CHR ''_'' then CHR ''/'' else c)"

definition urlsafe_b64encode :: "string \<Rightarrow> string" where
  "urlsafe_b64encode s = map to_urlsafe (b64encode s)"

definition urlsafe_b64decode :: "string \<Rightarrow> string res" where
  "urlsafe_b64decode s = a2b_base64 0 0 0 (map from_urlsafe s)"

section \<open>The services\<close>

definition unpadded :: "string \<Rightarrow> string" where
  "unpadded bs = rstrip_by (\<lambda>c. c = pad_char) (urlsafe_b64encode bs)"

text \<open>\<open>value += b"=" * (-len(value) % 4)\<close>.\<close>

definition repadded :: "string \<Rightarrow> string" where
  "repadded s = s @ replicate (nat (- int (length s) mod 4)) pad_char"

definition ascii_encode :: "string \<Rightarrow> string res" where
  "ascii_encode s = (if list_all (\<lambda>c. code c < 128) s then Inr s else Inl (ValueError ''ordinal not in range(128)''))"

definition decode_unpadded :: "string \<Rightarrow> string res" where
  "decode_unpadded s = bind_res (ascii_encode s) (\<lambda>raw. urlsafe_b64decode (repadded raw))"

section \<open>The alphabet\<close>

lemma b64_chars:
  "\<forall>n \<in> set [0..<64]. b64_value (b64_char n) = Some n \<and> from_urlsafe (to_urlsafe (b64_char n)) = b64_char n
     \<and> to_urlsafe (b64_char n) \<noteq> pad_char \<and> code (to_urlsafe (b64_char n)) < 128 \<and> b64_char n \<noteq> pad_char"
  by code_simp

lemma b64_char_facts:
  assumes "n < 64"
  shows "b64_value (b64_char n) = Some n" "from_urlsafe (to_urlsafe (b64_char n)) = b64_char n"
    "to_urlsafe (b64_char n) \<noteq> pad_char" "code (to_urlsafe (b64_char n)) < 128" "b64_char n \<noteq> pad_char"
  using b64_chars assms by auto

lemma code_less_256: "code c < 256"
  by (simp add: code_def)

lemma char_of_code [simp]: "char_of (code c) = c"
  by (simp add: code_def)

lemma sextets:
  "code a div 4 < 64" "code a mod 4 * 16 < 64" "code a mod 4 * 16 + code b div 16 < 64"
  "code b mod 16 * 4 < 64" "code b mod 16 * 4 + code c div 64 < 64" "code c mod 64 < 64"
  using code_less_256[of a] code_less_256[of b] code_less_256[of c] by linarith+

lemma code_digits [simp]:
  "code b div 16 div 16 = 0" "code b div 16 mod 16 = code b div 16"
  "code c div 64 div 4 = 0" "code c div 64 mod 4 = code c div 64"
proof -
  have "code b div 16 < 16" "code c div 64 < 4"
    using code_less_256[of b] code_less_256[of c] by linarith+
  then show "code b div 16 div 16 = 0" "code b div 16 mod 16 = code b div 16"
    "code c div 64 div 4 = 0" "code c div 64 mod 4 = code c div 64" by simp_all
qed

section \<open>Round trip\<close>

text \<open>The encoding without its padding.\<close>

fun b64_body :: "string \<Rightarrow> nat list" where
  "b64_body [] = []"
| "b64_body [a] = [code a div 4, code a mod 4 * 16]"
| "b64_body [a, b] = [code a div 4, code a mod 4 * 16 + code b div 16, code b mod 16 * 4]"
| "b64_body (a # b # c # s) =
     code a div 4 # (code a mod 4 * 16 + code b div 16) # (code b mod 16 * 4 + code c div 64) # code c mod 64 # b64_body s"

lemma b64_body_small: "n \<in> set (b64_body s) \<Longrightarrow> n < 64"
  by (induction s rule: b64_body.induct) (auto intro: sextets)

lemma encode_body:
  "\<exists>k. b64encode s = map b64_char (b64_body s) @ replicate k pad_char"
proof (induction s rule: b64encode.induct)
  case (4 a b c s)
  then show ?case by auto
qed (auto intro: exI[of _ "0::nat"] exI[of _ "1::nat"] exI[of _ "2::nat"] simp: numeral_2_eq_2)

lemma unpadded_body: "unpadded s = map (\<lambda>n. to_urlsafe (b64_char n)) (b64_body s)"
proof -
  obtain k where k: "b64encode s = map b64_char (b64_body s) @ replicate k pad_char"
    using encode_body by blast
  have pad: "to_urlsafe pad_char = pad_char" by code_simp
  have strip: "rstrip_by P (xs @ replicate k c) = xs" if "P c" "\<And>x. x \<in> set xs \<Longrightarrow> \<not> P x" for P :: "char \<Rightarrow> bool" and xs c
  proof -
    have "dropWhile P (replicate k c @ ys) = dropWhile P ys" for ys
      using that(1) by (induction k) auto
    moreover have "dropWhile P (rev xs) = rev xs"
      using that(2) by (cases "rev xs") (auto simp: dropWhile_eq_self_iff dest: arg_cong[where f = set])
    ultimately show ?thesis by (simp add: rstrip_by_def)
  qed
  show ?thesis
    unfolding unpadded_def urlsafe_b64encode_def k
    by (simp add: pad comp_def) (rule strip, auto dest!: b64_body_small simp: b64_char_facts)
qed

lemma decode_body:
  "a2b_base64 0 0 0 (map b64_char (b64_body s) @ replicate (nat (- int (length (b64_body s)) mod 4)) pad_char) = Inr s"
proof (induction s rule: b64_body.induct)
  case (2 a)
  show ?case by (simp add: sextets b64_char_facts numeral_2_eq_2)
next
  case (3 a b)
  have "nat (- 3 mod 4) = Suc 0" by simp
  then show ?case by (simp add: sextets b64_char_facts)
next
  case (4 a b c s)
  have "- int (length (b64_body (a # b # c # s))) mod 4 = - int (length (b64_body s)) mod 4"
    by simp presburger
  with 4 show ?case by (simp add: sextets b64_char_facts)
qed simp

lemma decode_unpadded_unpadded: "decode_unpadded (unpadded s) = Inr s"
proof -
  have "list_all (\<lambda>c. code c < 128) (unpadded s)"
    by (auto simp: unpadded_body list_all_iff dest: b64_body_small intro: b64_char_facts)
  moreover have "map from_urlsafe (repadded (unpadded s))
      = map b64_char (b64_body s) @ replicate (nat (- int (length (b64_body s)) mod 4)) pad_char"
  proof -
    have "from_urlsafe pad_char = pad_char" by code_simp
    then show ?thesis
      by (auto simp: repadded_def unpadded_body dest: b64_body_small intro: b64_char_facts)
  qed
  ultimately show ?thesis
    by (simp add: decode_unpadded_def ascii_encode_def urlsafe_b64decode_def decode_body)
qed

end
