(* ===== verification/Admin_State.thy ===== *)
theory Admin_State
  imports Config Rate_Limit Base64
begin

text \<open>
  The state behind the administrator authentication: the rows of \<open>models.py\<close> it reads and writes,
  the session of the request and the session rows, and what the code takes from outside. The last
  (\<open>aenv\<close>) is the configuration, Django's password hashers, authentication backends and URL
  resolver, django-otp's \<open>verify_token\<close>, the WebAuthn library and the random source. Instants are
  microseconds. A database query may fail: \<open>ae_fails\<close> says on which tables.
\<close>

section \<open>Rows\<close>

record account =
  ac_pk :: string
  ac_username :: string
  ac_email :: string
  ac_active :: bool
  ac_staff :: bool
  ac_superuser :: bool
  ac_backend :: "string option"  \<comment> \<open>the transient attribute \<open>user.backend\<close>\<close>

record totp_device =
  td_id :: int
  td_user :: string
  td_name :: string
  td_confirmed :: bool
  td_key :: string
  td_last :: int

record recovery_code =
  rc_id :: string
  rc_user :: string
  rc_hash :: string
  rc_created :: int
  rc_used :: "int option"
  rc_revoked :: "int option"

datatype device_status = Active | Revoked | Disabled

record admin_device =
  dv_id :: string
  dv_user :: string
  dv_name :: string
  dv_status :: device_status
  dv_created :: int
  dv_revoked :: "int option"
  dv_last :: "int option"

record credential =
  cr_id :: string
  cr_device :: string
  cr_credential_id :: string
  cr_public_key :: string
  cr_sign_count :: int
  cr_handle :: string
  cr_type :: string
  cr_attachment :: string
  cr_backed_up :: bool
  cr_aaguid :: string
  cr_transports :: "string list"
  cr_created :: int
  cr_last :: "int option"

datatype ceremony = Registration | Authentication

record challenge =
  ch_id :: string
  ch_user :: string
  ch_kind :: ceremony
  ch_challenge :: string
  ch_handle :: "string option"
  ch_session :: string
  ch_created :: int
  ch_expires :: int
  ch_used :: "int option"

datatype event_type = LoginType | LogoutType

record login_event =
  le_id :: string
  le_type :: event_type
  le_user :: "string option"
  le_username :: string
  le_success :: bool
  le_admin :: bool
  le_device :: "string option"
  le_session :: string
  le_created :: int
  le_logged_out :: "int option"

section \<open>Sessions\<close>

text \<open>The keys of \<open>admin_security.py\<close>, Django's backend marker, and any other.\<close>

datatype skey = FinalKey | UserKey | BackendKey | StageKey | AuthAtKey | DeviceKey | IntentKey
  | HostAuthPendingKey | Host2faPendingKey | NextKey | DeviceNameKey | IsolatedSessionKey
  | DjangoBackendKey | OtherKey string

datatype sval = SBool bool | SText string | SStamp int

type_synonym sdata = "skey \<Rightarrow> sval option"

record session =
  s_key :: "string option"
  s_data :: sdata
  s_modified :: bool

fun s_truthy :: "sval option \<Rightarrow> bool" where
  "s_truthy None = False"
| "s_truthy (Some (SBool b)) = b"
| "s_truthy (Some (SText s)) = (s \<noteq> [])"
| "s_truthy (Some (SStamp t)) = (t \<noteq> 0)"

text \<open>\<open>str(value or "")\<close>.\<close>

fun s_text :: "sval option \<Rightarrow> string" where
  "s_text None = []"
| "s_text (Some (SBool b)) = (if b then ''True'' else [])"
| "s_text (Some (SText s)) = s"
| "s_text (Some (SStamp t)) = (if t = 0 then [] else show_int t)"

section \<open>The environment\<close>

record registration =
  rg_credential_id :: string
  rg_public_key :: string
  rg_sign_count :: int
  rg_device_type :: string
  rg_backed_up :: bool
  rg_aaguid :: string

record assertion =
  as_sign_count :: int
  as_device_type :: string
  as_backed_up :: bool

datatype table = TAccount | TTotp | TRecovery | TDevice | TCredential | TChallenge | TEvent | TSession

record 'c aenv =
  ae_settings :: settings
  ae_debug :: bool
  ae_checker :: "(account \<Rightarrow> bool res) option"  \<comment> \<open>SECURITY_ADMIN_USER_CHECK\<close>
  ae_fails :: "table \<Rightarrow> bool"
  ae_sha :: "string \<Rightarrow> string"
  ae_cache :: "'c cache_ops"
  ae_reverse :: "string \<Rightarrow> string"
  ae_resolve_url :: "pyval \<Rightarrow> string res"
  ae_url_allowed :: "string \<Rightarrow> string list \<Rightarrow> bool \<Rightarrow> bool"
  ae_login_url :: pyval  \<comment> \<open>settings.LOGIN_URL\<close>
  ae_backends :: "string list"  \<comment> \<open>settings.AUTHENTICATION_BACKENDS\<close>
  ae_backend_loads :: "string \<Rightarrow> bool"  \<comment> \<open>load_backend succeeds and has get_user\<close>
  ae_authenticate :: "string \<Rightarrow> (bool \<Rightarrow> string \<Rightarrow> string \<Rightarrow> account option res) option"
    \<comment> \<open>per backend path; True: called with \<open>username=\<close>\<close>
  ae_login :: "account \<Rightarrow> string \<Rightarrow> session \<Rightarrow> login_event list \<Rightarrow> (session \<times> login_event list) res"
  ae_session_key :: "nat \<Rightarrow> string"
  ae_random :: "nat \<Rightarrow> nat"
  ae_token :: "nat \<Rightarrow> string"  \<comment> \<open>\<open>secrets.token_bytes(64)\<close>\<close>
  ae_uuid :: "nat \<Rightarrow> string"
  ae_isoformat :: "int \<Rightarrow> string"
  ae_fromisoformat :: "string \<Rightarrow> int option"
  ae_otp_model :: bool  \<comment> \<open>django-otp can be imported\<close>
  ae_otp_installed :: bool  \<comment> \<open>and is among the installed applications\<close>
  ae_totp_key :: "nat \<Rightarrow> string"
  ae_verify_token :: "totp_device \<Rightarrow> string \<Rightarrow> bool \<times> totp_device"
  ae_make_password :: "nat \<Rightarrow> string \<Rightarrow> string"
  ae_check_password :: "string \<Rightarrow> string \<Rightarrow> bool"
  ae_webauthn :: bool  \<comment> \<open>the library can be imported\<close>
  ae_b64url :: "string \<Rightarrow> string res"
  ae_ip_literal :: "string \<Rightarrow> bool"
  ae_loopback :: "string \<Rightarrow> bool"
  ae_bracketed_ok :: "string \<Rightarrow> bool"
  ae_options :: "string \<Rightarrow> string \<Rightarrow> string list \<Rightarrow> string res"
    \<comment> \<open>the ceremony options for an RP, a challenge and credential ids\<close>
  ae_verify_registration :: "pyval \<Rightarrow> string \<Rightarrow> string \<Rightarrow> string \<Rightarrow> registration res"
  ae_verify_authentication :: "pyval \<Rightarrow> string \<Rightarrow> string \<Rightarrow> string \<Rightarrow> string \<Rightarrow> int \<Rightarrow> assertion res"

record a_request =
  rq_method :: string
  rq_secure :: bool
  rq_host :: "string option"  \<comment> \<open>\<open>get_host()\<close>; None: DisallowedHost\<close>
  rq_path :: string
  rq_full_path :: string
  rq_base_url :: string  \<comment> \<open>\<open>build_absolute_uri("/")\<close>\<close>
  rq_get :: "(string \<times> string) list"
  rq_post :: "(string \<times> string) list"
  rq_accept :: string
  rq_data :: "(pyval \<times> pyval) list"  \<comment> \<open>\<open>_request_data\<close>\<close>
  rq_challenge_header :: "string option"
  rq_ip :: string
  rq_user :: "account option"  \<comment> \<open>\<open>request.user\<close>; None: anonymous\<close>
  rq_isolated_auth :: bool  \<comment> \<open>set by the isolated authentication middleware\<close>

record 'c aworld =
  aw_session :: session
  aw_store :: "string \<Rightarrow> sdata option"
  aw_accounts :: "account list"
  aw_totp :: "totp_device list"
  aw_codes :: "recovery_code list"
  aw_devices :: "admin_device list"
  aw_credentials :: "credential list"
  aw_challenges :: "challenge list"
  aw_events :: "login_event list"
  aw_audit :: "(string option \<times> string) list"
  aw_now :: int
  aw_fresh :: nat  \<comment> \<open>identifiers, keys and random numbers drawn\<close>
  aw_cache :: 'c

type_synonym ('c, 'a) aio = "('c aworld, 'a) io"

section \<open>Queries\<close>

definition on_table :: "'c aenv \<Rightarrow> table \<Rightarrow> ('c, 'a) aio \<Rightarrow> ('c, 'a) aio" where
  "on_table env t m = seq (require (\<not> ae_fails env t) DatabaseError) m"

definition draw :: "('c, nat) aio" where
  "draw w = (Inr (aw_fresh w), w\<lparr>aw_fresh := Suc (aw_fresh w)\<rparr>)"

text \<open>\<open>with transaction.atomic()\<close>: on an exception the tables are as before; the session object, the
  cache and the random source are not part of the transaction.\<close>

definition a_atomic :: "('c, 'a) aio \<Rightarrow> ('c, 'a) aio" where
  "a_atomic m w = (case m w of
       (Inr x, v) \<Rightarrow> (Inr x, v)
     | (Inl e, v) \<Rightarrow> (Inl e, v\<lparr>aw_store := aw_store w, aw_accounts := aw_accounts w, aw_totp := aw_totp w,
         aw_codes := aw_codes w, aw_devices := aw_devices w, aw_credentials := aw_credentials w,
         aw_challenges := aw_challenges w, aw_events := aw_events w, aw_audit := aw_audit w\<rparr>))"

definition on_cache :: "('c, 'a) io \<Rightarrow> ('c, 'a) aio" where
  "on_cache m w = (case m (aw_cache w) of (r, c) \<Rightarrow> (r, w\<lparr>aw_cache := c\<rparr>))"

definition rate_allowed :: "'c aenv \<Rightarrow> string \<Rightarrow> pyval \<Rightarrow> pyval \<Rightarrow> string list \<Rightarrow> ('c, bool) aio" where
  "rate_allowed env scope limit window parts =
     bind (lift (py_int limit)) (\<lambda>l. bind (lift (py_int window)) (\<lambda>wd.
     bind (on_cache (allowed (ae_cache env) (ae_sha env) scope l wd (map PStr parts))) (\<lambda>(ok, left). ret ok)))"

definition rate_clear :: "'c aenv \<Rightarrow> string \<Rightarrow> string list \<Rightarrow> ('c, unit) aio" where
  "rate_clear env scope parts = on_cache (clear (ae_cache env) (ae_sha env) scope (map PStr parts))"

text \<open>\<open>log_action\<close> never raises; with its table out of order nothing is recorded.\<close>

definition log_action :: "'c aenv \<Rightarrow> a_request \<Rightarrow> string \<Rightarrow> ('c, unit) aio" where
  "log_action env rq action =
     unless (ae_fails env TEvent)
       (modify (\<lambda>w. w\<lparr>aw_audit := (map_option ac_pk (rq_user rq), action) # aw_audit w\<rparr>))"

section \<open>The session object\<close>

definition session_get :: "skey \<Rightarrow> ('c, sval option) aio" where
  "session_get k = gets (\<lambda>w. s_data (aw_session w) k)"

definition with_session :: "(session \<Rightarrow> session) \<Rightarrow> ('c, unit) aio" where
  "with_session f = modify (\<lambda>w. w\<lparr>aw_session := f (aw_session w)\<rparr>)"

definition s_put :: "skey \<Rightarrow> sval \<Rightarrow> session \<Rightarrow> session" where
  "s_put k v s = s\<lparr>s_data := (s_data s)(k := Some v), s_modified := True\<rparr>"

definition s_pop :: "skey \<Rightarrow> session \<Rightarrow> session" where
  "s_pop k s = s\<lparr>s_data := (s_data s)(k := None), s_modified := s_modified s \<or> s_data s k \<noteq> None\<rparr>"

definition session_put :: "skey \<Rightarrow> sval \<Rightarrow> ('c, unit) aio" where
  "session_put k v = with_session (s_put k v)"

definition session_pop :: "skey \<Rightarrow> ('c, unit) aio" where
  "session_pop k = with_session (s_pop k)"

text \<open>Django's \<open>create\<close>, \<open>save\<close>, \<open>cycle_key\<close> and \<open>flush\<close> of a database-backed session.\<close>

definition session_create :: "'c aenv \<Rightarrow> ('c, unit) aio" where
  "session_create env =
     on_table env TSession (bind draw (\<lambda>n. modify (\<lambda>w.
       w\<lparr>aw_session := (aw_session w)\<lparr>s_key := Some (ae_session_key env n), s_modified := True\<rparr>,
         aw_store := (aw_store w)(ae_session_key env n := Some (s_data (aw_session w)))\<rparr>)))"

definition session_save :: "'c aenv \<Rightarrow> ('c, unit) aio" where
  "session_save env =
     bind (gets (s_key \<circ> aw_session)) (\<lambda>k. case k of
       None \<Rightarrow> session_create env
     | Some k \<Rightarrow> on_table env TSession (modify (\<lambda>w. w\<lparr>aw_store := (aw_store w)(k := Some (s_data (aw_session w)))\<rparr>)))"

definition session_delete :: "'c aenv \<Rightarrow> ('c, unit) aio" where
  "session_delete env =
     bind (gets (s_key \<circ> aw_session)) (\<lambda>k. case k of
       None \<Rightarrow> ret ()
     | Some k \<Rightarrow> on_table env TSession (modify (\<lambda>w. w\<lparr>aw_store := (aw_store w)(k := None)\<rparr>)))"

definition cycle_key :: "'c aenv \<Rightarrow> ('c, unit) aio" where
  "cycle_key env =
     bind (gets (s_key \<circ> aw_session)) (\<lambda>old.
     seq (session_create env)
         (case old of None \<Rightarrow> ret ()
          | Some k \<Rightarrow> on_table env TSession (modify (\<lambda>w. w\<lparr>aw_store := (aw_store w)(k := None)\<rparr>))))"

definition empty_session :: session where
  "empty_session = \<lparr>s_key = None, s_data = (\<lambda>_. None), s_modified = False\<rparr>"

definition session_flush :: "'c aenv \<Rightarrow> ('c, unit) aio" where
  "session_flush env =
     seq (with_session (s_data_update (\<lambda>_ _. None)))
     (seq (session_delete env) (with_session (\<lambda>s. s\<lparr>s_key := None, s_modified := True\<rparr>)))"

end
