(* ===== verification/Urls.thy ===== *)
theory Urls
  imports Prelude
begin

text \<open>
  The parts of \<open>urllib.parse\<close> the code uses: splitting a URL into its parts, the user information,
  host and port of its network location, and form encoding. Whether the text between brackets of a
  network location is a valid IPv6 address is a parameter.
\<close>

section \<open>URLs\<close>

record split_url =
  url_scheme :: string
  url_netloc :: string
  url_path :: string
  url_query :: string
  url_fragment :: string

definition scheme_char :: "char \<Rightarrow> bool" where
  "scheme_char c = List.member ''abcdefghijklmnopqrstuvwxyzABCDEFGHIJKLMNOPQRSTUVWXYZ0123456789+-.'' c"

definition ascii_alpha :: "char \<Rightarrow> bool" where
  "ascii_alpha c \<longleftrightarrow> (let n = code c in 65 \<le> n \<and> n \<le> 90 \<or> 97 \<le> n \<and> n \<le> 122)"

text \<open>Python's \<open>text.split(sep, 1)\<close>: the part before the first separator and the part after it.\<close>

definition cut_at :: "char \<Rightarrow> string \<Rightarrow> string \<times> string" where
  "cut_at d s = (takeWhile (\<lambda>c. c \<noteq> d) s, drop 1 (dropWhile (\<lambda>c. c \<noteq> d) s))"

definition split_scheme :: "string \<Rightarrow> string \<times> string" where
  "split_scheme u =
     (let (s, rest) = cut_at CHR '':'' u in
      if List.member u CHR '':'' \<and> s \<noteq> [] \<and> ascii_alpha (hd s) \<and> list_all scheme_char s
      then (lower s, rest) else ([], u))"

definition split_url_text :: "(string \<Rightarrow> bool) \<Rightarrow> string \<Rightarrow> split_url res" where
  "split_url_text bracketed_ok url =
     (let cleaned = filter (\<lambda>c. \<not> List.member [CHR 0x09, CHR 0x0D, CHR 0x0A] c) (dropWhile (\<lambda>c. code c \<le> 32) url);
          (scheme, u) = split_scheme cleaned;
          (netloc, rest) = (if starts_with u ''//''
             then (let v = drop 2 u; delim = (\<lambda>c. List.member ''/?#'' c)
                   in (takeWhile (\<lambda>c. \<not> delim c) v, dropWhile (\<lambda>c. \<not> delim c) v))
             else ([], u));
          opens = List.member netloc CHR ''[''; closes = List.member netloc CHR '']'' in
      if opens \<noteq> closes then Inl (ValueError ''Invalid IPv6 URL'')
      else if opens \<and> closes \<and> \<not> bracketed_ok netloc then Inl (ValueError ''Invalid IPv6 URL'')
      else let (before, fragment) = cut_at CHR ''#'' rest; (path, query) = cut_at CHR ''?'' before in
        Inr \<lparr>url_scheme = scheme, url_netloc = netloc, url_path = path, url_query = query, url_fragment = fragment\<rparr>)"

definition upper_hex :: "nat \<Rightarrow> char" where
  "upper_hex n = (if n < 10 then char_of (48 + n) else char_of (55 + n))"

definition quote_plus :: "string \<Rightarrow> string" where
  "quote_plus s = concat (map (\<lambda>c.
     if ascii_alpha c \<or> is_digit c \<or> List.member ''_.-~'' c then [c]
     else if c = CHR '' '' then ''+''
     else [CHR ''%'', upper_hex (code c div 16), upper_hex (code c mod 16)]) (utf8 s))"

text \<open>\<open>urlsplit(...).hostname\<close>: without user information and port, in lower case.\<close>

definition url_hostname :: "split_url \<Rightarrow> string" where
  "url_hostname u =
     (let hostinfo = rev (takeWhile (\<lambda>c. c \<noteq> CHR ''@'') (rev (url_netloc u))) in
      lower (if List.member hostinfo CHR ''['' then fst (cut_at CHR '']'' (snd (cut_at CHR ''['' hostinfo)))
             else fst (cut_at CHR '':'' hostinfo)))"

text \<open>\<open>username\<close> and \<open>password\<close>: before the last at sign, cut at the first colon.\<close>

definition url_userinfo :: "split_url \<Rightarrow> string \<times> string" where
  "url_userinfo u =
     (let n = url_netloc u in
      if List.member n CHR ''@''
      then cut_at CHR '':'' (rev (drop 1 (dropWhile (\<lambda>c. c \<noteq> CHR ''@'') (rev n))))
      else ([], []))"

text \<open>\<open>port\<close>: absent, or a decimal number of ASCII digits up to 65535.\<close>

definition url_port :: "split_url \<Rightarrow> int option res" where
  "url_port u =
     (let hostinfo = rev (takeWhile (\<lambda>c. c \<noteq> CHR ''@'') (rev (url_netloc u)));
          after = (if List.member hostinfo CHR ''['' then snd (cut_at CHR '']'' (snd (cut_at CHR ''['' hostinfo))) else hostinfo);
          port = snd (cut_at CHR '':'' after) in
      if port = [] then Inr None
      else if \<not> list_all is_digit port then Inl (ValueError ''Port could not be cast to integer value'')
      else case parse_nat port of
          None \<Rightarrow> Inl (ValueError ''Exceeds the limit for integer string conversion'')
        | Some n \<Rightarrow> if n \<le> 65535 then Inr (Some n) else Inl (ValueError ''Port out of range 0-65535''))"

end
