(* ===== verification/Admin_Session.thy ===== *)
theory Admin_Session
  imports Admin_State Urls
begin

text \<open>
  The three-layer security gate (\<open>admin_security.py\<close>): who is an administrator, safe redirect
  targets, the stages of a pending verification kept in the session, the final session and the test
  whether it is still valid, and the decorator around every privileged view.
\<close>

section \<open>URLs\<close>

definition urlsplit :: "'c aenv \<Rightarrow> string \<Rightarrow> split_url res" where
  "urlsplit env url = split_url_text (ae_bracketed_ok env) url"

section \<open>Names\<close>

definition STAGE_PRIMARY :: string where "STAGE_PRIMARY = ''primary''"
definition STAGE_2FA :: string where "STAGE_2FA = ''2fa''"
definition STAGE_DEVICE :: string where "STAGE_DEVICE = ''device''"
definition STAGE_COMPLETE :: string where "STAGE_COMPLETE = ''complete''"

definition pending_stages :: "string list" where
  "pending_stages = [STAGE_PRIMARY, STAGE_2FA, STAGE_DEVICE]"

definition PAXALIA_TOTP_DEVICE_NAMES :: "string list" where
  "PAXALIA_TOTP_DEVICE_NAMES = [''Paxalia Dashboard Authenticator'', ''Paxalia Authenticator'']"

definition admin_user :: "'c aenv \<Rightarrow> account option \<Rightarrow> bool" where
  "admin_user env u = (case u of None \<Rightarrow> False
     | Some a \<Rightarrow> (case ae_checker env of
           Some f \<Rightarrow> (case f a of Inl e \<Rightarrow> False | Inr b \<Rightarrow> b)
         | None \<Rightarrow> ac_staff a \<or> ac_superuser a))"

definition host_authentication_enabled :: "'c aenv \<Rightarrow> bool" where
  "host_authentication_enabled env = truthy (cfg_get (ae_settings env) ''AUTH_USE_HOST_LOGIN'' (PBool False))"

section \<open>Safe destinations\<close>

definition safe_path :: "'c aenv \<Rightarrow> a_request \<Rightarrow> string \<Rightarrow> string \<Rightarrow> string res" where
  "safe_path env rq candidate dflt =
     (let fallback = Inr (if dflt = [] then ae_reverse env ''paxalia:dashboard'' else dflt);
          hosts = (case rq_host rq of None \<Rightarrow> [] | Some h \<Rightarrow> [h]) in
      if candidate \<noteq> [] \<and> ae_url_allowed env candidate hosts (rq_secure rq)
      then bind_res (urlsplit env candidate) (\<lambda>p.
        Inr (if url_netloc p \<noteq> [] then url_path p @ (if url_query p \<noteq> [] then ''?'' @ url_query p else []) else candidate))
      else fallback)"

definition config_text :: "'c aenv \<Rightarrow> string \<Rightarrow> string" where
  "config_text env name = (let v = cfg_get (ae_settings env) name PNone in strip (if truthy v then py_str v else []))"

definition admin_home_url :: "'c aenv \<Rightarrow> a_request \<Rightarrow> string res" where
  "admin_home_url env rq =
     (let configured = config_text env ''AUTH_ADMIN_HOME_URL''; dashboard = ae_reverse env ''paxalia:dashboard'' in
      if configured = [] then Inr dashboard
      else bind_res (urlsplit env configured) (\<lambda>p.
        if url_scheme p \<noteq> [] \<or> url_netloc p \<noteq> [] \<or> \<not> starts_with (url_path p) ''/'' then Inr dashboard
        else safe_path env rq configured dashboard))"

definition append_safe_next :: "'c aenv \<Rightarrow> a_request \<Rightarrow> string \<Rightarrow> string option \<Rightarrow> string res" where
  "append_safe_next env rq url next_url =
     bind_res (case next_url of Some n \<Rightarrow> if n \<noteq> [] then Inr n else admin_home_url env rq
               | None \<Rightarrow> admin_home_url env rq) (\<lambda>n.
     bind_res (safe_path env rq n []) (\<lambda>safe_next.
       Inr (url @ (if List.member url CHR ''?'' then ''&'' else ''?'') @ ''next='' @ quote_plus safe_next)))"

definition rstrip_slash :: "string \<Rightarrow> string" where
  "rstrip_slash s = rstrip_by (\<lambda>c. c = CHR ''/'') s"

definition configured_host_login_url :: "'c aenv \<Rightarrow> a_request \<Rightarrow> string option \<Rightarrow> string option res" where
  "configured_host_login_url env rq next_url =
     (if \<not> host_authentication_enabled env then Inr None
      else let cfg = cfg_get (ae_settings env) ''AUTH_LOGIN_URL'' PNone;
               target = (if truthy cfg then cfg else ae_login_url env) in
        if \<not> truthy target then Inr None
        else bind_res (case ae_resolve_url env target of
               Inr u \<Rightarrow> Inr u
             | Inl (Other n) \<Rightarrow> if n = ''NoReverseMatch'' then Inr (strip (py_str target)) else Inl (Other n)
             | Inl TypeError \<Rightarrow> Inr (strip (py_str target))
             | Inl (ValueError m) \<Rightarrow> Inr (strip (py_str target))
             | Inl e \<Rightarrow> Inl e) (\<lambda>resolved.
          if resolved = [] \<or> rstrip_slash resolved = rstrip_slash (ae_reverse env ''paxalia:auth_login'') then Inr None
          else bind_res (append_safe_next env rq resolved next_url) (\<lambda>u. Inr (Some u))))"

section \<open>The authentication backend\<close>

definition isolated_backends :: "'c aenv \<Rightarrow> string list res" where
  "isolated_backends env =
     (let v = cfg_get (ae_settings env) ''AUTH_ISOLATED_AUTHENTICATION_BACKENDS'' PNone in
      bind_res (if is_str v then Inr [v] else if truthy v then py_iter v else Inr []) (\<lambda>vs.
        Inr (filter (\<lambda>s. s \<noteq> []) (map (\<lambda>x. strip (py_str x)) vs))))"

definition MODEL_BACKEND :: string where
  "MODEL_BACKEND = ''django.contrib.auth.backends.ModelBackend''"

definition authentication_backend_for :: "'c aenv \<Rightarrow> account option \<Rightarrow> bool \<Rightarrow> ('c, string) aio" where
  "authentication_backend_for env u required =
     (if \<not> host_authentication_enabled env
      then bind (lift (isolated_backends env)) (\<lambda>bs. ret (case bs of [] \<Rightarrow> MODEL_BACKEND | b # _ \<Rightarrow> b))
      else bind (session_get BackendKey) (\<lambda>v1. bind (session_get DjangoBackendKey) (\<lambda>v2.
        let candidates = filter (\<lambda>s. s \<noteq> []) (map strip [s_text v1, s_text v2,
               (case u of None \<Rightarrow> [] | Some a \<Rightarrow> (case ac_backend a of None \<Rightarrow> [] | Some b \<Rightarrow> b))]);
            configured = ae_backends env in
        case find (\<lambda>c. configured = [] \<or> List.member configured c \<or> ae_backend_loads env c) candidates of
          Some c \<Rightarrow> ret c
        | None \<Rightarrow> if length configured = 1 then ret (hd configured)
                  else if required then raise (ValueError ''Unable to determine the Django authentication backend'')
                  else ret [])))"

section \<open>The stages in the session\<close>

definition mark_admin_intent :: "'c aenv \<Rightarrow> a_request \<Rightarrow> string option \<Rightarrow> ('c, unit) aio" where
  "mark_admin_intent env rq next_url =
     seq (session_put IntentKey (SBool True))
     (bind (lift (case next_url of Some n \<Rightarrow> if n \<noteq> [] then Inr n else admin_home_url env rq
                  | None \<Rightarrow> admin_home_url env rq)) (\<lambda>n.
      bind (lift (safe_path env rq n [])) (\<lambda>p.
      seq (session_put NextKey (SText p))
      (seq (if host_authentication_enabled env
            then seq (session_put HostAuthPendingKey (SBool True))
                     (bind (gets aw_now) (\<lambda>now. session_put Host2faPendingKey (SStamp now)))
            else seq (session_pop HostAuthPendingKey) (session_pop Host2faPendingKey))
           (with_session (s_modified_update (\<lambda>_. True)))))))"

definition security_keys :: "skey list" where
  "security_keys = [FinalKey, UserKey, BackendKey, StageKey, AuthAtKey, DeviceKey, NextKey, DeviceNameKey,
     IsolatedSessionKey, HostAuthPendingKey, Host2faPendingKey]"

definition clear_admin_security_state :: "bool \<Rightarrow> ('c, unit) aio" where
  "clear_admin_security_state keep_intent =
     seq (for_each (if keep_intent then filter (\<lambda>k. k \<noteq> NextKey) security_keys else security_keys) session_pop)
     (seq (unless keep_intent (session_pop IntentKey))
          (with_session (s_modified_update (\<lambda>_. True))))"

definition set_pending_primary :: "'c aenv \<Rightarrow> a_request \<Rightarrow> account \<Rightarrow> string \<Rightarrow> string \<Rightarrow> ('c, unit) aio" where
  "set_pending_primary env rq a backend next_url =
     bind (if strip backend \<noteq> [] then ret (strip backend) else authentication_backend_for env (Some a) True) (\<lambda>b.
     seq (cycle_key env)
     (seq (session_put UserKey (SText (ac_pk a)))
     (seq (session_put BackendKey (SText b))
     (seq (session_put StageKey (SText STAGE_PRIMARY))
     (seq (session_put IntentKey (SBool True))
     (bind (lift (safe_path env rq next_url [])) (\<lambda>p.
      seq (session_put NextKey (SText p))
     (seq (for_each [FinalKey, AuthAtKey, DeviceKey, HostAuthPendingKey, Host2faPendingKey] session_pop)
          (with_session (s_modified_update (\<lambda>_. True)))))))))))"

definition set_2fa_verified :: "('c, unit) aio" where
  "set_2fa_verified = session_put StageKey (SText STAGE_2FA)"

definition set_device_stage :: "('c, unit) aio" where
  "set_device_stage = session_put StageKey (SText STAGE_DEVICE)"

datatype a_reply =
    To string                     \<comment> \<open>a redirect\<close>
  | Page string nat "string list"  \<comment> \<open>template, status, the codes or markers it shows\<close>
  | Detail nat string              \<comment> \<open>a JSON error\<close>
  | ChallengeReply string string   \<comment> \<open>challenge id, challenge\<close>
  | Done string                    \<comment> \<open>JSON: ok, with the destination\<close>
  | LoginNeeded string             \<comment> \<open>JSON 401 with the login URL\<close>
  | NotAllowed
  | NotFound
  | ViewReply nat                  \<comment> \<open>what a privileged view answered\<close>

definition to_name :: "'c aenv \<Rightarrow> string \<Rightarrow> a_reply" where
  "to_name env name = To (ae_reverse env name)"

definition stage_page :: "'c aenv \<Rightarrow> string \<Rightarrow> a_reply" where
  "stage_page env stage =
     (if stage = STAGE_PRIMARY then to_name env ''paxalia:auth_2fa_setup''
      else if stage = STAGE_2FA then to_name env ''paxalia:auth_2fa_verify''
      else to_name env ''paxalia:auth_device_login'')"

definition begin_admin_verification :: "'c aenv \<Rightarrow> a_request \<Rightarrow> string \<Rightarrow> ('c, a_reply) aio" where
  "begin_admin_verification env rq next_url =
     bind (session_get NextKey) (\<lambda>stored.
     bind (lift (if next_url \<noteq> [] then Inr next_url else if s_truthy stored then Inr (s_text stored)
                 else admin_home_url env rq)) (\<lambda>n.
     bind (lift (safe_path env rq n [])) (\<lambda>target.
     if \<not> host_authentication_enabled env
     then bind (session_get UserKey) (\<lambda>u. bind (session_get StageKey) (\<lambda>st.
       if s_text u \<noteq> [] \<and> List.member pending_stages (s_text st) then ret (stage_page env (s_text st))
       else bind (lift (append_safe_next env rq (ae_reverse env ''paxalia:auth_login'') (Some target))) (\<lambda>url. ret (To url))))
     else case rq_user rq of
       None \<Rightarrow>
         seq (mark_admin_intent env rq (Some target))
         (bind (lift (configured_host_login_url env rq (Some target))) (\<lambda>host_login. case host_login of
            Some url \<Rightarrow> ret (To url)
          | None \<Rightarrow> bind (lift (append_safe_next env rq (ae_reverse env ''paxalia:auth_login'') (Some target))) (\<lambda>url. ret (To url))))
     | Some a \<Rightarrow>
         if \<not> admin_user env (Some a) then raise (PermissionDenied ''You do not have access to Paxalia Dashboard administration.'')
         else bind (session_get UserKey) (\<lambda>u. bind (session_get StageKey) (\<lambda>st.
           if s_text u = ac_pk a \<and> List.member pending_stages (s_text st)
           then bind (authentication_backend_for env (Some a) True) (\<lambda>_.
             seq (session_put IntentKey (SBool True))
             (seq (session_put NextKey (SText target)) (ret (stage_page env (s_text st)))))
           else seq (clear_admin_security_state False)
             (bind (authentication_backend_for env (Some a) True) (\<lambda>b.
              seq (set_pending_primary env rq a b target) (ret (to_name env ''paxalia:auth_2fa_setup'')))))))))"

section \<open>The final session\<close>

definition finalize_admin_session :: "'c aenv \<Rightarrow> account \<Rightarrow> credential \<Rightarrow> string \<Rightarrow> ('c, unit) aio" where
  "finalize_admin_session env a cred backend =
     bind (if strip backend \<noteq> [] then ret (strip backend) else authentication_backend_for env (Some a) True) (\<lambda>b.
     seq (if host_authentication_enabled env
          then seq (bind (gets (\<lambda>w. (aw_session w, aw_events w))) (\<lambda>(s, es).
                      bind (lift (ae_login env a b s es)) (\<lambda>(s', es').
                        modify (\<lambda>w. w\<lparr>aw_session := s', aw_events := es'\<rparr>))))
                   (session_pop UserKey)
          else bind (gets (s_key \<circ> aw_session)) (\<lambda>k.
               seq (whenever (k = None \<or> k = Some []) (session_save env))
               (seq (session_put UserKey (SText (ac_pk a)))
                    (bind (gets (s_key \<circ> aw_session)) (\<lambda>k'.
                      session_put IsolatedSessionKey (SText (case k' of None \<Rightarrow> [] | Some x \<Rightarrow> x)))))))
     (seq (session_put FinalKey (SBool True))
     (seq (session_put StageKey (SText STAGE_COMPLETE))
     (bind (gets aw_now) (\<lambda>now.
      seq (session_put AuthAtKey (SText (ae_isoformat env now)))
     (seq (session_put DeviceKey (SText (cr_id cred)))
     (seq (for_each [BackendKey, IntentKey, HostAuthPendingKey, Host2faPendingKey, DeviceNameKey] session_pop)
          (with_session (s_modified_update (\<lambda>_. True))))))))))"

definition parse_auth_time :: "'c aenv \<Rightarrow> sval option \<Rightarrow> int option" where
  "parse_auth_time env v = (case v of Some (SText s) \<Rightarrow> if s = [] then None else ae_fromisoformat env s | _ \<Rightarrow> None)"

definition find_account :: "string \<Rightarrow> 'c aworld \<Rightarrow> account option" where
  "find_account pk w = find (\<lambda>a. ac_pk a = pk) (aw_accounts w)"

definition effective_admin_user :: "'c aenv \<Rightarrow> a_request \<Rightarrow> ('c, account option) aio" where
  "effective_admin_user env rq =
     (if host_authentication_enabled env then ret (rq_user rq)
      else if rq_isolated_auth rq \<and> rq_user rq \<noteq> None \<and> admin_user env (rq_user rq) then ret (rq_user rq)
      else bind (session_get UserKey) (\<lambda>u.
        if \<not> s_truthy u then ret None
        else catch (on_table env TAccount (gets (\<lambda>w.
               case find_account (s_text u) w of None \<Rightarrow> None
               | Some a \<Rightarrow> if admin_user env (Some a) then Some a else None)))
             (\<lambda>_. ret None)))"

definition current_paxalia_session_id :: "'c aenv \<Rightarrow> ('c, string) aio" where
  "current_paxalia_session_id env =
     bind (gets (s_key \<circ> aw_session)) (\<lambda>k.
       let key = (case k of None \<Rightarrow> [] | Some x \<Rightarrow> x) in
       if host_authentication_enabled env \<or> key \<noteq> [] then ret (strip key)
       else bind (session_get IsolatedSessionKey) (\<lambda>v. ret (strip (s_text v))))"

definition confirmed_totp :: "string \<Rightarrow> totp_device \<Rightarrow> bool" where
  "confirmed_totp pk d \<longleftrightarrow> td_user d = pk \<and> td_confirmed d \<and> List.member PAXALIA_TOTP_DEVICE_NAMES (td_name d)"

definition live_login :: "string \<Rightarrow> string \<Rightarrow> string \<Rightarrow> login_event \<Rightarrow> bool" where
  "live_login pk key dev e \<longleftrightarrow> le_user e = Some pk \<and> le_type e = LoginType \<and> le_success e
     \<and> le_session e = key \<and> le_device e = Some dev \<and> le_logged_out e = None"

definition session_max_age :: "'c aenv \<Rightarrow> int res" where
  "session_max_age env =
     bind_res (py_int (cfg_get (ae_settings env) ''ADMIN_SESSION_MAX_AGE_SECONDS'' (PInt (8 * 60 * 60)))) (\<lambda>n. Inr (max 60 n))"

text \<open>A credential row together with its device.\<close>

definition credential_device :: "'c aworld \<Rightarrow> credential \<Rightarrow> admin_device option" where
  "credential_device w c = find (\<lambda>d. dv_id d = cr_device c) (aw_devices w)"

definition find_credential :: "string \<Rightarrow> 'c aworld \<Rightarrow> (credential \<times> admin_device) option" where
  "find_credential pk w = (case find (\<lambda>c. cr_id c = pk) (aw_credentials w) of
     None \<Rightarrow> None | Some c \<Rightarrow> map_option (Pair c) (credential_device w c))"

text \<open>The checks of a final session once the administrator is known.\<close>

definition admin_session_holds :: "'c aenv \<Rightarrow> account \<Rightarrow> ('c, bool) aio" where
  "admin_session_holds env a =
     (if \<not> admin_user env (Some a) \<or> \<not> ac_active a then ret False
      else bind (catch (seq (require (ae_otp_model env) (Other ''ImportError''))
                  (on_table env TTotp (gets (\<lambda>w. list_ex (confirmed_totp (ac_pk a)) (aw_totp w))))) (\<lambda>_. ret False)) (\<lambda>otp.
      if \<not> otp then ret False
      else bind (session_get AuthAtKey) (\<lambda>at. case parse_auth_time env at of
        None \<Rightarrow> ret False
      | Some auth_at \<Rightarrow>
          bind (lift (session_max_age env)) (\<lambda>max_age. bind (gets aw_now) (\<lambda>now.
          if now - auth_at > max_age * 1000000 then ret False
          else bind (session_get DeviceKey) (\<lambda>credential_id.
            if \<not> s_truthy credential_id then ret False
            else bind (on_table env TCredential (gets (find_credential (s_text credential_id)))) (\<lambda>row. case row of
              None \<Rightarrow> ret False
            | Some (cred, dev) \<Rightarrow>
                if dv_user dev \<noteq> ac_pk a \<or> dv_status dev \<noteq> Active then ret False
                else bind (current_paxalia_session_id env) (\<lambda>key.
                  if key = [] then ret False
                  else catch (on_table env TEvent (gets (\<lambda>w. list_ex (live_login (ac_pk a) key (dv_id dev)) (aw_events w))))
                         (\<lambda>_. ret False)))))))))"

definition admin_session_is_valid :: "'c aenv \<Rightarrow> a_request \<Rightarrow> ('c, bool) aio" where
  "admin_session_is_valid env rq =
     bind (session_get FinalKey) (\<lambda>final. bind (session_get StageKey) (\<lambda>stage.
     if \<not> s_truthy final \<or> stage \<noteq> Some (SText STAGE_COMPLETE) then ret False
     else bind (effective_admin_user env rq) (\<lambda>u. case u of
       None \<Rightarrow> ret False
     | Some a \<Rightarrow>
         admin_session_holds env a)))"

section \<open>The gate\<close>

definition privileged_view_gate ::
  "'c aenv \<Rightarrow> a_request \<Rightarrow> (a_request \<Rightarrow> ('c, a_reply) aio) \<Rightarrow> ('c, a_reply) aio"
where
  "privileged_view_gate env rq view =
     bind (admin_session_is_valid env rq) (\<lambda>ok.
       if ok then view rq else begin_admin_verification env rq (rq_full_path rq))"

definition admin_security_required ::
  "'c aenv \<Rightarrow> (a_request \<Rightarrow> ('c, a_reply option) aio) option \<Rightarrow> (a_request \<Rightarrow> ('c, a_reply) aio) \<Rightarrow> a_request
    \<Rightarrow> ('c, a_reply) aio"
where
  "admin_security_required env preflight view rq =
     bind (effective_admin_user env rq) (\<lambda>u.
     bind (if u \<noteq> None \<and> admin_user env u then (case preflight of None \<Rightarrow> ret None | Some p \<Rightarrow> p rq) else ret None) (\<lambda>early.
     case early of Some r \<Rightarrow> ret r
     | None \<Rightarrow>
         if \<not> host_authentication_enabled env then privileged_view_gate env rq view
         else if rq_user rq = None
         then bind (begin_admin_verification env rq (rq_full_path rq)) (\<lambda>r.
           ret (case r of To url \<Rightarrow> if contains (lower (rq_accept rq)) ''application/json'' then LoginNeeded url else r
                | _ \<Rightarrow> r))
         else if \<not> admin_user env (rq_user rq)
         then raise (PermissionDenied ''You do not have access to Paxalia Dashboard administration.'')
         else privileged_view_gate env rq view))"

definition current_device_credential :: "'c aenv \<Rightarrow> ('c, (credential \<times> admin_device) option) aio" where
  "current_device_credential env =
     bind (session_get DeviceKey) (\<lambda>v.
       if \<not> s_truthy v then ret None else on_table env TCredential (gets (find_credential (s_text v))))"

end
