(* ===== verification/Admin_Webauthn.thy ===== *)
theory Admin_Webauthn
  imports Admin_Session
begin

text \<open>
  The WebAuthn services (\<open>webauthn_services.py\<close>): the relying-party configuration of a request, the
  single-use challenges, and the two ceremonies, registration and authentication, around the
  library's verifiers. The options a browser gets are the library's text for them.
\<close>

section \<open>Configuration\<close>

definition host_without_port :: "string \<Rightarrow> string" where
  "host_without_port host =
     (if starts_with host ''['' \<and> List.member host CHR '']'' then takeWhile (\<lambda>c. c \<noteq> CHR '']'') (drop 1 host)
      else fst (cut_at CHR '':'' host))"

definition is_ip_literal :: "'c aenv \<Rightarrow> string \<Rightarrow> bool" where
  "is_ip_literal env host =
     (let bracket = (\<lambda>c. c = CHR ''['' \<or> c = CHR '']'') in
      ae_ip_literal env (rstrip_by bracket (dropWhile bracket host)))"

definition get_host :: "a_request \<Rightarrow> string res" where
  "get_host rq = (case rq_host rq of None \<Rightarrow> Inl (Other ''DisallowedHost'') | Some h \<Rightarrow> Inr h)"

definition is_local_web_authn_request :: "'c aenv \<Rightarrow> a_request \<Rightarrow> bool res" where
  "is_local_web_authn_request env rq =
     (if \<not> ae_debug env then Inr False
      else bind_res (get_host rq) (\<lambda>h. let host = host_without_port h in
        Inr (is_ip_literal env host \<and> ae_loopback env host)))"

definition configuration_for_request :: "'c aenv \<Rightarrow> a_request \<Rightarrow> (string \<times> string) res" where
  "configuration_for_request env rq =
     (let st = ae_settings env; rp = cfg_get st ''WEBAUTHN_RP_ID'' PNone; og = cfg_get st ''WEBAUTHN_ORIGIN'' PNone;
          invalid = (\<lambda>m. Inl (ValueError m)); dots = rstrip_by (\<lambda>c. c = CHR ''.'') in
      bind_res (if truthy rp then Inr (py_str rp) else bind_res (get_host rq) (\<lambda>h. Inr (host_without_port h))) (\<lambda>rp0.
      let rp_id = strip rp0; origin = rstrip_slash (if truthy og then py_str og else rq_base_url rq) in
      bind_res (urlsplit env origin) (\<lambda>p.
      let scheme = lower (url_scheme p) in
      if rp_id = [] \<or> \<not> List.member [''https'', ''http''] scheme \<or> url_netloc p = []
      then invalid ''Invalid WebAuthn relying-party configuration.''
      else if \<not> List.member [[], ''/''] (url_path p) \<or> url_query p \<noteq> [] \<or> url_fragment p \<noteq> []
      then invalid ''WEBAUTHN_ORIGIN must be an origin without a path, query string, or fragment.''
      else if \<not> ae_debug env \<and> scheme \<noteq> ''https''
      then invalid ''WebAuthn requires an HTTPS origin when DEBUG=False.''
      else if \<not> ae_debug env \<and> \<not> rq_secure rq
      then invalid ''Paxalia WebAuthn requires a secure request in production.''
      else let origin_host = lower (dots (url_hostname p)); normalized_rp_id = lower (dots rp_id);
               dotted = List.member origin_host CHR ''.'' in
        if origin_host = [] \<or> normalized_rp_id = []
        then invalid ''WebAuthn relying-party configuration requires a valid host.''
        else if is_ip_literal env origin_host
        then invalid (if ae_debug env \<and> ae_loopback env origin_host
                      then ''WebAuthn local development requires the browser origin to use http://localhost''
                      else ''WebAuthn requires a DNS-style relying-party domain'')
        else if is_ip_literal env normalized_rp_id
        then invalid ''WEBAUTHN_RP_ID must be a DNS-style domain and cannot be an IP address.''
        else if \<not> dotted \<and> origin_host \<noteq> normalized_rp_id
        then invalid ''WEBAUTHN_RP_ID must match the WebAuthn origin host.''
        else if dotted \<and> origin_host \<noteq> normalized_rp_id \<and> \<not> ends_with origin_host (''.'' @ normalized_rp_id)
        then invalid ''WEBAUTHN_RP_ID must match the WebAuthn origin host or a parent domain.''
        else Inr (normalized_rp_id, origin))))"

text \<open>\<open>_webauthn_configuration_context\<close> of the views: the detail when the request has no valid
  configuration; only a \<open>ValueError\<close> is turned into one.\<close>

definition webauthn_configuration_detail :: "'c aenv \<Rightarrow> a_request \<Rightarrow> string option res" where
  "webauthn_configuration_detail env rq =
     (case configuration_for_request env rq of
        Inr c \<Rightarrow> Inr None
      | Inl (ValueError m) \<Rightarrow>
          bind_res (is_local_web_authn_request env rq) (\<lambda>local.
            Inr (Some (if local then ''For local development, WebAuthn requires the dashboard to be opened through localhost.''
                       else ''WebAuthn is not configured for this browser origin.'')))
      | Inl e \<Rightarrow> Inl e)"

section \<open>Challenges\<close>

definition session_key_text :: "('c, string) aio" where
  "session_key_text = gets (\<lambda>w. case s_key (aw_session w) of None \<Rightarrow> [] | Some k \<Rightarrow> k)"

definition create_challenge :: "'c aenv \<Rightarrow> account \<Rightarrow> ceremony \<Rightarrow> string option \<Rightarrow> ('c, challenge) aio" where
  "create_challenge env a kind handle =
     bind draw (\<lambda>n. let encoded = unpadded (ae_token env n) in
     bind (lift (py_int (cfg_get (ae_settings env) ''WEBAUTHN_CHALLENGE_TTL_SECONDS'' (PInt 120)))) (\<lambda>t.
     bind (gets aw_now) (\<lambda>now.
     seq (on_table env TChallenge (modify (\<lambda>w. w\<lparr>aw_challenges :=
           filter (\<lambda>c. ch_user c \<noteq> ac_pk a \<or> now < ch_expires c \<and> ch_used c = None) (aw_challenges w)\<rparr>)))
     (bind draw (\<lambda>i. bind session_key_text (\<lambda>key.
      let c = \<lparr>ch_id = ae_uuid env i, ch_user = ac_pk a, ch_kind = kind, ch_challenge = encoded, ch_handle = handle,
               ch_session = key, ch_created = now, ch_expires = now + max 30 t * 1000000, ch_used = None\<rparr> in
      on_table env TChallenge (bind (gets (\<lambda>w. list_ex (\<lambda>d. ch_challenge d = encoded) (aw_challenges w))) (\<lambda>taken.
        seq (require (\<not> taken) DatabaseError)
        (seq (modify (\<lambda>w. w\<lparr>aw_challenges := c # aw_challenges w\<rparr>)) (ret c)))))))))) "

definition challenge_bytes :: "challenge \<Rightarrow> string res" where
  "challenge_bytes c = decode_unpadded (ch_challenge c)"

definition credential_id_bytes :: "string \<Rightarrow> string res" where
  "credential_id_bytes v = decode_unpadded v"

definition credential_id_string :: "string \<Rightarrow> string" where
  "credential_id_string bs = unpadded bs"

definition transports :: "pyval \<Rightarrow> string list" where
  "transports payload = []"  \<comment> \<open>a dictionary has no attribute \<open>response\<close>\<close>

section \<open>Options\<close>

definition credentials_of :: "string \<Rightarrow> 'c aworld \<Rightarrow> credential list" where
  "credentials_of pk w = sort_key (\<lambda>c. - cr_created c)
     (filter (\<lambda>c. case credential_device w c of None \<Rightarrow> False | Some d \<Rightarrow> dv_user d = pk) (aw_credentials w))"

definition active_credentials_of :: "string \<Rightarrow> 'c aworld \<Rightarrow> credential list" where
  "active_credentials_of pk w =
     filter (\<lambda>c. case credential_device w c of None \<Rightarrow> False | Some d \<Rightarrow> dv_status d = Active) (credentials_of pk w)"

definition user_handle_for :: "'c aenv \<Rightarrow> account \<Rightarrow> ('c, string) aio" where
  "user_handle_for env a =
     bind (on_table env TCredential (gets (credentials_of (ac_pk a)))) (\<lambda>cs.
       case cs of c # _ \<Rightarrow> if cr_handle c \<noteq> [] then ret (cr_handle c) else bind draw (\<lambda>n. ret (ae_token env n))
       | [] \<Rightarrow> bind draw (\<lambda>n. ret (ae_token env n)))"

definition registration_options :: "'c aenv \<Rightarrow> a_request \<Rightarrow> account \<Rightarrow> ('c, challenge \<times> string) aio" where
  "registration_options env rq a =
     bind (lift (configuration_for_request env rq)) (\<lambda>(rp_id, origin).
     bind (user_handle_for env a) (\<lambda>handle.
     seq (require (1 \<le> length handle \<and> length handle \<le> 64) (ValueError ''The stored WebAuthn user handle is invalid.''))
     (bind (create_challenge env a Registration None) (\<lambda>c.
      seq (on_table env TChallenge (modify (\<lambda>w. w\<lparr>aw_challenges :=
            map (\<lambda>d. if ch_id d = ch_id c then d\<lparr>ch_handle := Some handle\<rparr> else d) (aw_challenges w)\<rparr>)))
      (bind (on_table env TCredential (gets (active_credentials_of (ac_pk a)))) (\<lambda>existing.
       bind (lift (map_res (\<lambda>x. credential_id_bytes (cr_credential_id x)) existing)) (\<lambda>exclusions.
       bind (lift (challenge_bytes c)) (\<lambda>raw.
       bind (lift (ae_options env rp_id raw exclusions)) (\<lambda>options. ret (c, options)))))))))) "

definition authentication_options :: "'c aenv \<Rightarrow> a_request \<Rightarrow> account \<Rightarrow> ('c, challenge \<times> string) aio" where
  "authentication_options env rq a =
     bind (lift (configuration_for_request env rq)) (\<lambda>(rp_id, origin).
     bind (on_table env TCredential (gets (active_credentials_of (ac_pk a)))) (\<lambda>cs.
     seq (require (cs \<noteq> []) (ValueError ''No active Paxalia device credentials are registered for this administrator.''))
     (bind (create_challenge env a Authentication None) (\<lambda>c.
      bind (lift (map_res (\<lambda>x. credential_id_bytes (cr_credential_id x)) cs)) (\<lambda>allow.
      bind (lift (challenge_bytes c)) (\<lambda>raw.
      bind (lift (ae_options env rp_id raw allow)) (\<lambda>options. ret (c, options))))))))"

section \<open>Verification\<close>

definition payload_text :: "(pyval \<times> pyval) list \<Rightarrow> string \<Rightarrow> string" where
  "payload_text kvs key = (case dict_get kvs key of None \<Rightarrow> [] | Some v \<Rightarrow> if truthy v then py_str v else [])"

definition or_default :: "string \<Rightarrow> string \<Rightarrow> string" where
  "or_default s d = (if s = [] then d else s)"

definition active_device_count :: "string \<Rightarrow> 'c aworld \<Rightarrow> int" where
  "active_device_count pk w = int (length (filter (\<lambda>d. dv_user d = pk \<and> dv_status d = Active) (aw_devices w)))"

definition verify_registration ::
  "'c aenv \<Rightarrow> a_request \<Rightarrow> account \<Rightarrow> challenge \<Rightarrow> (pyval \<times> pyval) list \<Rightarrow> string \<Rightarrow> ('c, credential) aio"
where
  "verify_registration env rq a chal payload name =
     bind (lift (configuration_for_request env rq)) (\<lambda>(rp_id, origin).
     bind (lift (challenge_bytes chal)) (\<lambda>raw.
     bind (lift (ae_verify_registration env (PDict payload) raw rp_id origin)) (\<lambda>result.
     let credential_id = credential_id_string (rg_credential_id result) in
     bind (on_table env TCredential (gets (\<lambda>w. list_ex (\<lambda>c. cr_credential_id c = credential_id) (aw_credentials w)))) (\<lambda>known.
     seq (require (\<not> known) (ValueError ''That authenticator is already registered.''))
     (bind (lift (py_int (cfg_get (ae_settings env) ''ADMIN_MAX_DEVICES'' (PInt 5)))) (\<lambda>m.
      bind (on_table env TDevice (gets (active_device_count (ac_pk a)))) (\<lambda>active_count.
      seq (require (active_count < max 1 m) (ValueError ''The configured maximum number of active admin devices has been reached.''))
      (bind draw (\<lambda>i. bind (gets aw_now) (\<lambda>now.
       let dev = \<lparr>dv_id = ae_uuid env i, dv_user = ac_pk a, dv_name = take 120 (strip (or_default name ''Paxalia Authenticator'')),
                  dv_status = Active, dv_created = now, dv_revoked = None, dv_last = None\<rparr> in
       seq (on_table env TDevice (modify (\<lambda>w. w\<lparr>aw_devices := dev # aw_devices w\<rparr>)))
       (bind (case ch_handle chal of Some h \<Rightarrow> if h \<noteq> [] then ret h else user_handle_for env a
              | None \<Rightarrow> user_handle_for env a) (\<lambda>handle.
        bind draw (\<lambda>j.
        let cred = \<lparr>cr_id = ae_uuid env j, cr_device = dv_id dev, cr_credential_id = credential_id,
                    cr_public_key = rg_public_key result, cr_sign_count = rg_sign_count result, cr_handle = handle,
                    cr_type = take 32 (rg_device_type result),
                    cr_attachment = take 32 (payload_text payload ''authenticatorAttachment''),
                    cr_backed_up = rg_backed_up result, cr_aaguid = take 64 (rg_aaguid result),
                    cr_transports = transports (PDict payload), cr_created = now, cr_last = None\<rparr> in
        seq (on_table env TCredential (modify (\<lambda>w. w\<lparr>aw_credentials := cred # aw_credentials w\<rparr>)))
            (ret cred)))))))))))))) "

definition eligibility_bit :: "'c aenv \<Rightarrow> string \<Rightarrow> bool" where
  "eligibility_bit env encoded =
     (case ae_b64url env encoded of Inl e \<Rightarrow> False
      | Inr raw \<Rightarrow> 37 \<le> length raw \<and> code (raw ! 32) div 8 mod 2 = 1)"

definition backup_eligible :: "'c aenv \<Rightarrow> (pyval \<times> pyval) list \<Rightarrow> bool" where
  "backup_eligible env payload =
     (let response = (case dict_get payload ''response'' of None \<Rightarrow> PNone | Some v \<Rightarrow> v) in
      case response of
        PDict r \<Rightarrow> eligibility_bit env (payload_text r ''authenticatorData'')
      | v \<Rightarrow> \<not> truthy v \<and> eligibility_bit env [])"

definition authenticated_credential :: "int \<Rightarrow> assertion \<Rightarrow> credential \<Rightarrow> credential" where
  "authenticated_credential now result c =
     c\<lparr>cr_sign_count := max (as_sign_count result) (cr_sign_count c), cr_backed_up := as_backed_up result,
       cr_type := take 32 (as_device_type result), cr_last := Some now\<rparr>"

definition verify_authentication ::
  "'c aenv \<Rightarrow> a_request \<Rightarrow> account \<Rightarrow> challenge \<Rightarrow> (pyval \<times> pyval) list \<Rightarrow> ('c, credential) aio"
where
  "verify_authentication env rq a chal payload =
     bind (lift (ae_b64url env (or_default (payload_text payload ''rawId'') (payload_text payload ''id'')))) (\<lambda>bytes.
     let credential_id = credential_id_string bytes in
     bind (on_table env TCredential (gets (\<lambda>w.
            find (\<lambda>c. cr_credential_id c = credential_id) (active_credentials_of (ac_pk a) w)))) (\<lambda>found.
     case found of None \<Rightarrow> raise (ValueError ''This authenticator is not authorized for the administrator.'')
     | Some cred \<Rightarrow>
         bind (lift (configuration_for_request env rq)) (\<lambda>(rp_id, origin).
         let eligible = backup_eligible env payload; current = cr_sign_count cred in
         bind (lift (challenge_bytes chal)) (\<lambda>raw.
         bind (lift (ae_verify_authentication env (PDict payload) raw rp_id origin (cr_public_key cred)
                 (if eligible then 0 else current))) (\<lambda>result.
         seq (require (eligible \<or> current \<le> as_sign_count result) (ValueError ''The authenticator counter moved backwards.''))
         (bind (gets aw_now) (\<lambda>now.
          let cred' = authenticated_credential now result cred in
          seq (on_table env TCredential (modify (\<lambda>w. w\<lparr>aw_credentials :=
                map (\<lambda>c. if cr_id c = cr_id cred then cred' else c) (aw_credentials w)\<rparr>)))
          (seq (on_table env TDevice (modify (\<lambda>w. w\<lparr>aw_devices :=
                 map (\<lambda>d. if dv_id d = cr_device cred then d\<lparr>dv_last := Some now\<rparr> else d) (aw_devices w)\<rparr>)))
               (ret cred'))))))))) "

end
