(* ===== verification/Admin_Login.thy ===== *)
theory Admin_Login
  imports Admin_Webauthn
begin

text \<open>
  The views of the administrator's login (\<open>views/auth.py\<close>, \<open>forms.py\<close>): password, second factor,
  recovery codes, the two WebAuthn ceremonies, logout. Log lines are left out; audit records are kept.
\<close>

section \<open>Helpers\<close>

definition last_value :: "(string \<times> string) list \<Rightarrow> string \<Rightarrow> string" where
  "last_value kvs k = (case map_of (rev kvs) k of None \<Rightarrow> [] | Some v \<Rightarrow> v)"

definition all_values :: "(string \<times> string) list \<Rightarrow> string \<Rightarrow> string list" where
  "all_values kvs k = map snd (filter (\<lambda>(q, v). q = k) kvs)"

definition safe_next :: "'c aenv \<Rightarrow> a_request \<Rightarrow> string \<Rightarrow> ('c, string) aio" where
  "safe_next env rq value =
     bind (session_get NextKey) (\<lambda>stored.
     bind (lift (if value \<noteq> [] then Inr value else if s_truthy stored then Inr (s_text stored)
                 else admin_home_url env rq)) (\<lambda>candidate.
     bind (lift (admin_home_url env rq)) (\<lambda>home. lift (safe_path env rq candidate home))))"

definition slash_if_empty :: "string \<Rightarrow> string" where
  "slash_if_empty s = or_default s ''/''"

definition dashboard_path :: "'c aenv \<Rightarrow> string res" where
  "dashboard_path env =
     (let configured = config_text env ''DASHBOARD_URL'' in
      bind_res (urlsplit env (if configured = [] then ae_reverse env ''paxalia:dashboard''
                              else if starts_with configured ''/'' then configured else CHR ''/'' # configured)) (\<lambda>p.
        Inr (slash_if_empty (rstrip_slash (url_path p)))))"

definition below_path :: "string \<Rightarrow> string \<Rightarrow> bool" where
  "below_path base path \<longleftrightarrow> path = base \<or> starts_with path (base @ ''/'')"

definition is_admin_intent :: "'c aenv \<Rightarrow> a_request \<Rightarrow> string \<Rightarrow> ('c, bool) aio" where
  "is_admin_intent env rq next_value =
     bind (session_get IntentKey) (\<lambda>intent.
       if s_truthy intent then ret True
       else bind (lift (urlsplit env (or_default next_value (last_value (rq_get rq) ''next'')))) (\<lambda>p.
            bind (lift (dashboard_path env)) (\<lambda>dashboard.
              ret (url_path p \<noteq> [] \<and> below_path dashboard (url_path p)))))"

definition identifier_for_rate_limit :: "string \<Rightarrow> string" where
  "identifier_for_rate_limit v = take 255 (lower (strip v))"

definition limit_of :: "'c aenv \<Rightarrow> string \<Rightarrow> int \<Rightarrow> pyval" where
  "limit_of env name d = cfg_get (ae_settings env) name (PInt d)"

definition pending_user :: "'c aenv \<Rightarrow> ('c, account option) aio" where
  "pending_user env =
     bind (session_get UserKey) (\<lambda>u.
       if \<not> s_truthy u then ret None
       else on_table env TAccount (gets (\<lambda>w. case find_account (s_text u) w of None \<Rightarrow> None
              | Some a \<Rightarrow> if admin_user env (Some a) then Some a else None)))"

definition otp_ready :: "'c aenv \<Rightarrow> bool" where
  "otp_ready env \<longleftrightarrow> ae_otp_model env \<and> ae_otp_installed env"

definition has_confirmed_totp :: "'c aenv \<Rightarrow> account \<Rightarrow> ('c, bool) aio" where
  "has_confirmed_totp env a =
     (if \<not> ae_otp_model env then ret False
      else on_table env TTotp (gets (\<lambda>w. list_ex (confirmed_totp (ac_pk a)) (aw_totp w))))"

fun newest_totp :: "totp_device list \<Rightarrow> totp_device option" where
  "newest_totp [] = None"
| "newest_totp (d # ds) = (case newest_totp ds of None \<Rightarrow> Some d | Some e \<Rightarrow> Some (if td_id e \<le> td_id d then d else e))"

fun first_some :: "('a \<Rightarrow> 'b option) \<Rightarrow> 'a list \<Rightarrow> 'b option" where
  "first_some f [] = None"
| "first_some f (x # xs) = (case f x of None \<Rightarrow> first_some f xs | Some y \<Rightarrow> Some y)"

text \<open>\<open>order_by("-confirmed", "-id").first()\<close> per name.\<close>

definition totp_device_of :: "string \<Rightarrow> totp_device list \<Rightarrow> totp_device option" where
  "totp_device_of pk ds = first_some (\<lambda>name.
     let own = filter (\<lambda>d. td_user d = pk \<and> td_name d = name) ds; done = filter td_confirmed own
     in newest_totp (if done = [] then own else done)) PAXALIA_TOTP_DEVICE_NAMES"

definition replace_totp :: "totp_device \<Rightarrow> totp_device list \<Rightarrow> totp_device list" where
  "replace_totp d ds = map (\<lambda>e. if td_id e = td_id d then d else e) ds"

text \<open>django-otp's \<open>verify_token\<close> saves what it learns of the device.\<close>

definition verify_token :: "'c aenv \<Rightarrow> totp_device \<Rightarrow> string \<Rightarrow> ('c, bool) aio" where
  "verify_token env d token =
     (let (ok, d') = ae_verify_token env d token in
      on_table env TTotp (seq (modify (\<lambda>w. w\<lparr>aw_totp := replace_totp d' (aw_totp w)\<rparr>)) (ret ok)))"

fun any_token :: "'c aenv \<Rightarrow> string \<Rightarrow> totp_device list \<Rightarrow> ('c, bool) aio" where
  "any_token env token [] = ret False"
| "any_token env token (d # ds) = bind (verify_token env d token) (\<lambda>ok. if ok then ret True else any_token env token ds)"

definition posted_token :: "a_request \<Rightarrow> string" where
  "posted_token rq = or_default (strip (last_value (rq_post rq) ''token''))
     (concat (map strip (all_values (rq_post rq) ''otp_digit'')))"

section \<open>Recovery codes\<close>

definition code_alphabet :: string where
  "code_alphabet = ''ABCDEFGHIJKLMNOPQRSTUVWXYZ0123456789''"

fun groups_of_4 :: "string \<Rightarrow> string list" where
  "groups_of_4 [] = []"
| "groups_of_4 (c # s) = take 4 (c # s) # groups_of_4 (drop 3 s)"

definition dashed :: "string \<Rightarrow> string" where
  "dashed s = join ''-'' (groups_of_4 s)"

fun draw_chars :: "'c aenv \<Rightarrow> nat \<Rightarrow> ('c, string) aio" where
  "draw_chars env 0 = ret []"
| "draw_chars env (Suc n) = bind draw (\<lambda>i. bind (draw_chars env n) (\<lambda>s.
     ret (code_alphabet ! (ae_random env i mod 36) # s)))"

definition new_recovery_code :: "'c aenv \<Rightarrow> ('c, string) aio" where
  "new_recovery_code env = bind (draw_chars env 16) (\<lambda>raw. ret (dashed raw))"

definition usable_code :: "string \<Rightarrow> recovery_code \<Rightarrow> bool" where
  "usable_code pk r \<longleftrightarrow> rc_user r = pk \<and> rc_used r = None \<and> rc_revoked r = None"

definition revoke_codes :: "string \<Rightarrow> int \<Rightarrow> recovery_code list \<Rightarrow> recovery_code list" where
  "revoke_codes pk now rs = map (\<lambda>r. if usable_code pk r then r\<lparr>rc_revoked := Some now\<rparr> else r) rs"

definition recovery_code_count :: "'c aenv \<Rightarrow> nat res" where
  "recovery_code_count env =
     (let v = cfg_get (ae_settings env) ''SECURITY_RECOVERY_CODE_COUNT'' (PInt 10) in
      bind_res (int_or 10 (if truthy v then v else PInt 10)) (\<lambda>n. Inr (nat (max 1 (min n 100)))))"

fun new_codes :: "'c aenv \<Rightarrow> string \<Rightarrow> int \<Rightarrow> nat \<Rightarrow> ('c, (string \<times> recovery_code) list) aio" where
  "new_codes env pk now 0 = ret []"
| "new_codes env pk now (Suc n) =
     bind (new_recovery_code env) (\<lambda>c. bind draw (\<lambda>salt. bind draw (\<lambda>i.
     bind (new_codes env pk now n) (\<lambda>rest.
       ret ((c, \<lparr>rc_id = ae_uuid env i, rc_user = pk, rc_hash = ae_make_password env salt c, rc_created = now,
                 rc_used = None, rc_revoked = None\<rparr>) # rest)))))"

definition generate_recovery_codes :: "'c aenv \<Rightarrow> account \<Rightarrow> ('c, string list) aio" where
  "generate_recovery_codes env a =
     bind (gets aw_now) (\<lambda>now.
     seq (on_table env TRecovery (modify (\<lambda>w. w\<lparr>aw_codes := revoke_codes (ac_pk a) now (aw_codes w)\<rparr>)))
     (bind (lift (recovery_code_count env)) (\<lambda>n.
      bind (new_codes env (ac_pk a) now n) (\<lambda>rows.
      seq (on_table env TRecovery (modify (\<lambda>w. w\<lparr>aw_codes := map snd rows @ aw_codes w\<rparr>)))
          (ret (map fst rows))))))"

definition upper_char :: "char \<Rightarrow> char" where
  "upper_char c = (let n = code c in
     if 97 \<le> n \<and> n \<le> 122 \<or> 224 \<le> n \<and> n \<le> 254 \<and> n \<noteq> 247 then char_of (n - 32) else c)"

text \<open>\<open>str.upper\<close>: the sharp s becomes two letters; the letters whose capital is no Latin-1 character
  are dropped by the filter that follows, as is the capital.\<close>

definition upper :: "string \<Rightarrow> string" where
  "upper s = concat (map (\<lambda>c. if code c = 223 then ''SS'' else [upper_char c]) s)"

definition normalize_recovery_code :: "string \<Rightarrow> string" where
  "normalize_recovery_code submitted =
     (let normalized = filter (List.member code_alphabet) (upper (strip submitted)) in
      if length normalized \<noteq> 16 then [] else dashed normalized)"

definition recovery_candidates :: "string \<Rightarrow> recovery_code list \<Rightarrow> recovery_code list" where
  "recovery_candidates pk rs = take 50 (sort_key (\<lambda>r. - rc_created r) (filter (usable_code pk) rs))"

definition check_recovery_code :: "'c aenv \<Rightarrow> account \<Rightarrow> string \<Rightarrow> ('c, recovery_code option) aio" where
  "check_recovery_code env a submitted =
     (let formatted = normalize_recovery_code submitted in
      if formatted = [] then ret None
      else on_table env TRecovery (gets (\<lambda>w.
             find (\<lambda>r. ae_check_password env formatted (rc_hash r)) (recovery_candidates (ac_pk a) (aw_codes w)))))"

definition use_recovery_code :: "'c aenv \<Rightarrow> recovery_code \<Rightarrow> ('c, bool) aio" where
  "use_recovery_code env row =
     on_table env TRecovery (bind (gets (\<lambda>w. find (\<lambda>r. rc_id r = rc_id row) (aw_codes w))) (\<lambda>locked.
       case locked of None \<Rightarrow> raise DoesNotExist
       | Some r \<Rightarrow>
           if rc_used r = None \<and> rc_revoked r = None
           then bind (gets aw_now) (\<lambda>now.
             seq (modify (\<lambda>w. w\<lparr>aw_codes := map (\<lambda>q. if rc_id q = rc_id row then q\<lparr>rc_used := Some now\<rparr> else q) (aw_codes w)\<rparr>))
                 (ret True))
           else ret False))"

section \<open>The password\<close>

definition try_backend :: "'c aenv \<Rightarrow> string \<Rightarrow> string \<Rightarrow> string \<Rightarrow> account option" where
  "try_backend env path ident pw =
     (case ae_authenticate env path of
        None \<Rightarrow> None
      | Some auth \<Rightarrow>
          (case auth True ident pw of
             Inr u \<Rightarrow> u
           | Inl TypeError \<Rightarrow> (case auth False ident pw of Inr u \<Rightarrow> u | Inl e \<Rightarrow> None)
           | Inl e \<Rightarrow> None))"

definition form_backend_paths :: "'c aenv \<Rightarrow> string list res" where
  "form_backend_paths env =
     (let v = cfg_get (ae_settings env) ''AUTH_ISOLATED_AUTHENTICATION_BACKENDS'' PNone in
      bind_res (if truthy v then py_iter v else Inr [PStr MODEL_BACKEND]) (\<lambda>vs.
        Inr (filter (\<lambda>s. strip s \<noteq> []) (map py_str vs))))"

definition authenticate_isolated :: "'c aenv \<Rightarrow> string \<Rightarrow> string \<Rightarrow> account option res" where
  "authenticate_isolated env ident pw =
     bind_res (form_backend_paths env) (\<lambda>paths.
       Inr (first_some (\<lambda>p. map_option (\<lambda>a. a\<lparr>ac_backend := Some p\<rparr>) (try_backend env p ident pw)) paths))"

text \<open>One account with that e-mail address, or nothing; every exception is nothing.\<close>

definition authenticate_by_email :: "'c aenv \<Rightarrow> string \<Rightarrow> string \<Rightarrow> ('c, account option) aio" where
  "authenticate_by_email env email pw =
     catch (on_table env TAccount (bind (gets (\<lambda>w. filter (\<lambda>a. lower (ac_email a) = lower email) (aw_accounts w))) (\<lambda>matches.
        case matches of [a] \<Rightarrow> lift (authenticate_isolated env (ac_username a) pw) | _ \<Rightarrow> ret None)))
       (\<lambda>_. ret None)"

text \<open>\<open>form.is_valid()\<close>: the account, or None for a form with errors.\<close>

definition login_form :: "'c aenv \<Rightarrow> a_request \<Rightarrow> ('c, account option) aio" where
  "login_form env rq =
     (let ident = strip (last_value (rq_post rq) ''username''); pw = last_value (rq_post rq) ''password'';
          field_ok = (\<lambda>s. \<not> List.member s (CHR 0x00)) in
      if ident = [] \<or> 254 < length ident \<or> \<not> field_ok ident \<or> pw = [] \<or> \<not> field_ok pw then ret None
      else bind (lift (authenticate_isolated env ident pw)) (\<lambda>u.
           bind (if u = None \<and> List.member ident CHR ''@'' then authenticate_by_email env ident pw else ret u) (\<lambda>u'.
             case u' of None \<Rightarrow> ret None | Some a \<Rightarrow> ret (if ac_active a then Some a else None))))"

definition login_page :: "nat \<Rightarrow> a_reply" where
  "login_page status = Page ''paxalia_auth/login.html'' status []"

definition next_or_home :: "'c aenv \<Rightarrow> a_request \<Rightarrow> string \<Rightarrow> string res" where
  "next_or_home env rq next_value = (if next_value \<noteq> [] then Inr next_value else admin_home_url env rq)"

definition login_accepted :: "'c aenv \<Rightarrow> a_request \<Rightarrow> string \<Rightarrow> account \<Rightarrow> ('c, a_reply) aio" where
  "login_accepted env rq next_value a =
     bind (authentication_backend_for env (Some a) True) (\<lambda>b.
     bind (lift (next_or_home env rq next_value)) (\<lambda>n.
     seq (set_pending_primary env rq a b n)
     (if \<not> otp_ready env then ret (to_name env ''paxalia:auth_2fa_setup'')
      else bind (has_confirmed_totp env a) (\<lambda>ok.
        ret (to_name env (if ok then ''paxalia:auth_2fa_verify'' else ''paxalia:auth_2fa_setup''))))))"

definition login_post :: "'c aenv \<Rightarrow> a_request \<Rightarrow> string \<Rightarrow> bool \<Rightarrow> ('c, a_reply) aio" where
  "login_post env rq next_value admin_flow =
     (let ident = identifier_for_rate_limit (last_value (rq_post rq) ''username'');
          limit = limit_of env ''SECURITY_LOGIN_RATE_LIMIT_ATTEMPTS'' 8;
          window = limit_of env ''SECURITY_LOGIN_RATE_LIMIT_WINDOW_SECONDS'' 900;
          shown = (\<lambda>status. if admin_flow then bind (safe_next env rq next_value) (\<lambda>_. ret (login_page status))
                            else ret (login_page status)) in
      bind (rate_allowed env ''login-ip'' limit window [rq_ip rq]) (\<lambda>ip_ok.
      bind (rate_allowed env ''login-identifier'' limit window [rq_ip rq, ident]) (\<lambda>identifier_ok.
      if \<not> (ip_ok \<and> identifier_ok) then bind (safe_next env rq next_value) (\<lambda>_. ret (login_page 429))
      else bind (login_form env rq) (\<lambda>u. case u of
        None \<Rightarrow> shown 200
      | Some a \<Rightarrow>
          seq (rate_clear env ''login-ip'' [rq_ip rq])
          (seq (rate_clear env ''login-identifier'' [rq_ip rq, ident])
          (if admin_flow
           then if \<not> admin_user env (Some a) then shown 200 else login_accepted env rq next_value a
           else seq (bind (gets (\<lambda>w. (aw_session w, aw_events w))) (\<lambda>(s, es).
                      bind (lift (ae_login env a (case ac_backend a of None \<Rightarrow> [] | Some b \<Rightarrow> b) s es)) (\<lambda>(s', es').
                        modify (\<lambda>w. w\<lparr>aw_session := s', aw_events := es'\<rparr>))))
                    (if next_value \<noteq> [] then bind (safe_next env rq next_value) (\<lambda>p. ret (To p)) else ret (To ''/''))))))))"

definition resume_login :: "'c aenv \<Rightarrow> a_request \<Rightarrow> string \<Rightarrow> ('c, a_reply) aio" where
  "resume_login env rq next_value = bind (lift (next_or_home env rq next_value)) (begin_admin_verification env rq)"

definition paxalia_login :: "'c aenv \<Rightarrow> a_request \<Rightarrow> ('c, a_reply) aio" where
  "paxalia_login env rq =
     bind (session_get NextKey) (\<lambda>stored.
     let next_value = or_default (or_default (last_value (rq_post rq) ''next'') (last_value (rq_get rq) ''next'')) (s_text stored);
         asked = (last_value (rq_get rq) ''admin'' = ''1'') in
     bind (lift (urlsplit env (rq_full_path rq))) (\<lambda>p.
     bind (lift (dashboard_path env)) (\<lambda>dashboard.
     bind (if below_path dashboard (slash_if_empty (rstrip_slash (url_path p))) then ret True
           else is_admin_intent env rq next_value) (\<lambda>flow.
     let admin_flow = (flow \<or> asked) in
     seq (whenever asked (mark_admin_intent env rq (Some next_value)))
     (bind (session_get FinalKey) (\<lambda>final. bind (session_get UserKey) (\<lambda>pending.
      if host_authentication_enabled env
      then if rq_user rq \<noteq> None \<and> s_truthy final then bind (safe_next env rq next_value) (\<lambda>u. ret (To u))
           else resume_login env rq next_value
      else bind (if s_truthy final then admin_session_is_valid env rq else ret False) (\<lambda>valid.
        if valid then bind (safe_next env rq next_value) (\<lambda>u. ret (To u))
        else if s_truthy pending then resume_login env rq next_value
        else if rq_method rq = ''POST'' then login_post env rq next_value admin_flow
        else if admin_flow then bind (safe_next env rq next_value) (\<lambda>_. ret (login_page 200))
        else ret (login_page 200))))))))) "

section \<open>Login events\<close>

definition newest_event :: "(login_event \<Rightarrow> bool) \<Rightarrow> login_event list \<Rightarrow> login_event option" where
  "newest_event P es = (case sort_key (\<lambda>e. - le_created e) (filter P es) of [] \<Rightarrow> None | e # _ \<Rightarrow> Some e)"

definition record_isolated_admin_login :: "'c aenv \<Rightarrow> account \<Rightarrow> credential \<Rightarrow> ('c, login_event) aio" where
  "record_isolated_admin_login env a cred =
     bind (current_paxalia_session_id env) (\<lambda>key.
     seq (require (key \<noteq> []) RuntimeError)
     (on_table env TEvent (bind (gets (\<lambda>w. newest_event (live_login (ac_pk a) key (cr_device cred)) (aw_events w))) (\<lambda>found.
        case found of Some e \<Rightarrow> ret e
        | None \<Rightarrow> bind draw (\<lambda>i. bind (gets aw_now) (\<lambda>now.
            let e = \<lparr>le_id = ae_uuid env i, le_type = LoginType, le_user = Some (ac_pk a),
                     le_username = take 255 (ac_username a), le_success = True, le_admin = True,
                     le_device = Some (cr_device cred), le_session = key, le_created = now, le_logged_out = None\<rparr> in
            seq (modify (\<lambda>w. w\<lparr>aw_events := e # aw_events w\<rparr>)) (ret e)))))))"

definition host_login_event :: "string \<Rightarrow> string \<Rightarrow> login_event \<Rightarrow> bool" where
  "host_login_event pk key e \<longleftrightarrow> le_user e = Some pk \<and> le_type e = LoginType \<and> le_success e \<and> le_session e = key"

definition log_out_events :: "(login_event \<Rightarrow> bool) \<Rightarrow> int \<Rightarrow> login_event list \<Rightarrow> login_event list" where
  "log_out_events P now es = map (\<lambda>e. if P e then e\<lparr>le_logged_out := Some now\<rparr> else e) es"

text \<open>The verified device goes onto the login event: a new one in isolated mode, the one the host's
  login created otherwise.\<close>

definition attach_device :: "'c aenv \<Rightarrow> account \<Rightarrow> credential \<Rightarrow> ('c, unit) aio" where
  "attach_device env a cred =
     (if \<not> host_authentication_enabled env then bind (record_isolated_admin_login env a cred) (\<lambda>_. ret ())
      else bind session_key_text (\<lambda>key.
        on_table env TEvent (modify (\<lambda>w. case newest_event (host_login_event (ac_pk a) key) (aw_events w) of
          None \<Rightarrow> w
        | Some e \<Rightarrow> w\<lparr>aw_events := map (\<lambda>x. if le_id x = le_id e then x\<lparr>le_device := Some (cr_device cred)\<rparr> else x) (aw_events w)\<rparr>))))"

section \<open>Logout\<close>

definition open_login :: "string \<Rightarrow> string \<Rightarrow> login_event \<Rightarrow> bool" where
  "open_login pk key e \<longleftrightarrow> host_login_event pk key e \<and> le_logged_out e = None"

definition close_logins :: "'c aenv \<Rightarrow> string \<Rightarrow> string \<Rightarrow> ('c, unit) aio" where
  "close_logins env pk key = on_table env TEvent (bind (gets aw_now) (\<lambda>now.
     modify (\<lambda>w. w\<lparr>aw_events := log_out_events (open_login pk key) now (aw_events w)\<rparr>)))"

definition host_logout :: "'c aenv \<Rightarrow> ('c, unit) aio" where
  "host_logout env = session_flush env"

definition paxalia_logout :: "'c aenv \<Rightarrow> a_request \<Rightarrow> ('c, a_reply) aio" where
  "paxalia_logout env rq =
     (let login = to_name env ''paxalia:auth_login'' in
      if rq_method rq \<noteq> ''POST'' then ret login
      else if \<not> host_authentication_enabled env
      then bind (current_paxalia_session_id env) (\<lambda>key.
        seq (case rq_user rq of None \<Rightarrow> ret ()
             | Some a \<Rightarrow> unless (key = []) (close_logins env (ac_pk a) key))
        (seq (log_action env rq ''security.admin_logout'')
        (seq (cleanup (session_delete env) (with_session (\<lambda>s. s\<lparr>s_key := None, s_data := (\<lambda>_. None), s_modified := False\<rparr>)))
        (seq (with_session (\<lambda>_. empty_session)) (ret login)))))
      else bind (session_get FinalKey) (\<lambda>was_admin.
        seq (whenever (s_truthy was_admin)
              (bind session_key_text (\<lambda>key.
               seq (case rq_user rq of None \<Rightarrow> ret () | Some a \<Rightarrow> unless (key = []) (close_logins env (ac_pk a) key))
                   (log_action env rq ''security.admin_logout''))))
        (seq (host_logout env) (ret login))))"

section \<open>The second factor\<close>

definition setup_page :: "nat \<Rightarrow> string list \<Rightarrow> a_reply" where
  "setup_page status marks = Page ''paxalia_auth/two-factor-setup.html'' status marks"

definition twofa_limits :: "'c aenv \<Rightarrow> pyval \<times> pyval" where
  "twofa_limits env = (limit_of env ''SECURITY_2FA_RATE_LIMIT_ATTEMPTS'' 5, limit_of env ''SECURITY_2FA_RATE_LIMIT_WINDOW_SECONDS'' 300)"

definition device_limits :: "'c aenv \<Rightarrow> pyval \<times> pyval" where
  "device_limits env = (limit_of env ''SECURITY_DEVICE_RATE_LIMIT_ATTEMPTS'' 5, limit_of env ''SECURITY_DEVICE_RATE_LIMIT_WINDOW_SECONDS'' 300)"

definition within_limit :: "'c aenv \<Rightarrow> string \<Rightarrow> pyval \<times> pyval \<Rightarrow> a_request \<Rightarrow> account \<Rightarrow> ('c, bool) aio" where
  "within_limit env scope lim rq a = rate_allowed env scope (fst lim) (snd lim) [rq_ip rq, ac_pk a]"

text \<open>The pending administrator, or the one of a valid final session.\<close>

definition flow_user :: "'c aenv \<Rightarrow> a_request \<Rightarrow> ('c, account option) aio" where
  "flow_user env rq =
     bind (pending_user env) (\<lambda>u. case u of Some a \<Rightarrow> ret (Some a)
     | None \<Rightarrow> if rq_user rq = None then ret None
                else bind (admin_session_is_valid env rq) (\<lambda>ok. ret (if ok then rq_user rq else None)))"

definition enrolled :: "'c aenv \<Rightarrow> a_request \<Rightarrow> account \<Rightarrow> totp_device \<Rightarrow> ('c, a_reply) aio" where
  "enrolled env rq a d =
     seq (on_table env TTotp (modify (\<lambda>w. w\<lparr>aw_totp := map (\<lambda>e. if td_id e = td_id d
            then e\<lparr>td_confirmed := True, td_name := hd PAXALIA_TOTP_DEVICE_NAMES\<rparr> else e) (aw_totp w)\<rparr>)))
     (seq (rate_clear env ''2fa-setup'' [rq_ip rq, ac_pk a])
     (bind (generate_recovery_codes env a) (\<lambda>codes.
      bind (session_get UserKey) (\<lambda>u.
      seq (whenever (s_truthy u) (seq set_2fa_verified (log_action env rq ''security.admin_2fa_enrolled'')))
          (ret (Page ''paxalia_auth/recovery-codes.html'' 200 codes))))))"

definition paxalia_2fa_setup :: "'c aenv \<Rightarrow> a_request \<Rightarrow> ('c, a_reply) aio" where
  "paxalia_2fa_setup env rq =
     (if \<not> List.member [''GET'', ''POST''] (rq_method rq) then ret NotAllowed
      else bind (flow_user env rq) (\<lambda>u. case u of
        None \<Rightarrow> ret (to_name env ''paxalia:auth_login'')
      | Some a \<Rightarrow>
          if \<not> otp_ready env then ret (setup_page 503 [])
          else bind (has_confirmed_totp env a) (\<lambda>has.
            if has then bind (session_get StageKey) (\<lambda>st.
              ret (if List.member (map (\<lambda>x. Some (SText x)) pending_stages) st
                   then to_name env ''paxalia:auth_2fa_verify'' else setup_page 200 [''already_enabled'']))
            else bind (on_table env TTotp (gets (\<lambda>w. totp_device_of (ac_pk a) (aw_totp w)))) (\<lambda>found.
              bind (case found of Some d \<Rightarrow> ret d
                | None \<Rightarrow> bind draw (\<lambda>i. let d = \<lparr>td_id = int i, td_user = ac_pk a, td_name = hd PAXALIA_TOTP_DEVICE_NAMES,
                      td_confirmed = False, td_key = ae_totp_key env i, td_last = -1\<rparr> in
                    on_table env TTotp (seq (modify (\<lambda>w. w\<lparr>aw_totp := d # aw_totp w\<rparr>)) (ret d)))) (\<lambda>d.
              if rq_method rq \<noteq> ''POST'' then ret (setup_page 200 [])
              else bind (within_limit env ''2fa-setup'' (twofa_limits env) rq a) (\<lambda>ok.
                if \<not> ok then ret (setup_page 429 [''rate_limited''])
                else bind (if posted_token rq = [] then ret False else verify_token env d (posted_token rq)) (\<lambda>verified.
                  if verified then enrolled env rq a d else ret (setup_page 200 [''verification_error'']))))))))"

definition verify_page :: "nat \<Rightarrow> string list \<Rightarrow> a_reply" where
  "verify_page status marks = Page ''paxalia_auth/two-factor.html'' status marks"

text \<open>The transaction of the verification: whether the factor was verified, and by a recovery code.\<close>

definition verify_second_factor :: "'c aenv \<Rightarrow> account \<Rightarrow> string \<Rightarrow> string \<Rightarrow> ('c, bool \<times> bool) aio" where
  "verify_second_factor env a token recovery =
     a_atomic (bind (on_table env TTotp (gets (\<lambda>w. filter (confirmed_totp (ac_pk a)) (aw_totp w)))) (\<lambda>locked_devices.
       bind (if token = [] then ret False else any_token env token locked_devices) (\<lambda>by_token.
       if by_token \<or> recovery = [] then ret (by_token, False)
       else bind (check_recovery_code env a recovery) (\<lambda>row. case row of
         None \<Rightarrow> ret (False, False)
       | Some r \<Rightarrow> bind (use_recovery_code env r) (\<lambda>used. ret (used, used))))))"

definition paxalia_2fa_verify :: "'c aenv \<Rightarrow> a_request \<Rightarrow> ('c, a_reply) aio" where
  "paxalia_2fa_verify env rq =
     (if \<not> List.member [''GET'', ''POST''] (rq_method rq) then ret NotAllowed
      else bind (pending_user env) (\<lambda>u. case u of
        None \<Rightarrow> ret (to_name env ''paxalia:auth_login'')
      | Some a \<Rightarrow>
          let page = bind (on_table env TRecovery (gets (\<lambda>w. list_ex (usable_code (ac_pk a)) (aw_codes w)))) (\<lambda>more.
                 ret (verify_page 200 (if more then [''recovery_available''] else []))) in
          if \<not> otp_ready env then ret (to_name env ''paxalia:auth_2fa_setup'')
          else bind (on_table env TTotp (gets (\<lambda>w. list_ex (confirmed_totp (ac_pk a)) (aw_totp w)))) (\<lambda>has.
            if \<not> has then ret (to_name env ''paxalia:auth_2fa_setup'')
            else if rq_method rq \<noteq> ''POST'' then page
            else bind (within_limit env ''2fa'' (twofa_limits env) rq a) (\<lambda>ok.
              if \<not> ok then ret (verify_page 429 [''rate_limited''])
              else bind (verify_second_factor env a (posted_token rq)
                     (normalize_recovery_code (strip (last_value (rq_post rq) ''recovery_code'')))) (\<lambda>(verified, recovery_used).
                seq (whenever recovery_used (log_action env rq ''security.admin_recovery_used''))
                (if verified
                 then seq (rate_clear env ''2fa'' [rq_ip rq, ac_pk a])
                      (seq set_2fa_verified (seq set_device_stage (ret (to_name env ''paxalia:auth_device_login''))))
                 else page))))))"

definition denied :: exn where
  "denied = PermissionDenied []"

definition paxalia_2fa_reset :: "'c aenv \<Rightarrow> a_request \<Rightarrow> ('c, a_reply) aio" where
  "paxalia_2fa_reset env rq =
     bind (admin_session_is_valid env rq) (\<lambda>valid. case (valid, rq_user rq) of
       (True, Some a) \<Rightarrow>
         if rq_method rq \<noteq> ''POST'' then ret (to_name env ''paxalia:security_authentication'')
         else if \<not> ae_otp_model env then ret (setup_page 503 [])
         else bind (within_limit env ''2fa-reset'' (twofa_limits env) rq a) (\<lambda>ok.
           if \<not> ok then ret (verify_page 429 [''rate_limited''])
           else bind (if posted_token rq = [] then ret False
                      else bind (on_table env TTotp (gets (\<lambda>w. filter (confirmed_totp (ac_pk a)) (aw_totp w))))
                             (any_token env (posted_token rq))) (\<lambda>verified.
             if \<not> verified then ret (verify_page 200 [''verification_error''])
             else bind (gets aw_now) (\<lambda>now.
               seq (on_table env TTotp (modify (\<lambda>w. w\<lparr>aw_totp := filter (\<lambda>d. \<not> (td_user d = ac_pk a
                      \<and> List.member PAXALIA_TOTP_DEVICE_NAMES (td_name d))) (aw_totp w)\<rparr>)))
               (seq (on_table env TRecovery (modify (\<lambda>w. w\<lparr>aw_codes := revoke_codes (ac_pk a) now (aw_codes w)\<rparr>)))
               (bind (authentication_backend_for env (Some a) True) (\<lambda>b.
                bind (session_get NextKey) (\<lambda>stored.
                seq (set_pending_primary env rq a b
                      (if s_truthy stored then s_text stored else ae_reverse env ''paxalia:dashboard''))
                (seq (rate_clear env ''2fa-reset'' [rq_ip rq, ac_pk a])
                (seq (log_action env rq ''security.admin_2fa_reset'')
                     (ret (to_name env ''paxalia:auth_2fa_setup'')))))))))))
     | (True, None) \<Rightarrow> raise AttributeError
     | (False, _) \<Rightarrow> raise denied)"

definition paxalia_recovery_regenerate :: "'c aenv \<Rightarrow> a_request \<Rightarrow> ('c, a_reply) aio" where
  "paxalia_recovery_regenerate env rq =
     bind (admin_session_is_valid env rq) (\<lambda>valid. case (valid, rq_user rq) of
       (True, Some a) \<Rightarrow>
         if rq_method rq \<noteq> ''POST'' then ret (to_name env ''paxalia:security_authentication'')
         else bind (generate_recovery_codes env a) (\<lambda>codes.
           seq (log_action env rq ''security.recovery_codes_regenerated'')
               (ret (Page ''paxalia_auth/recovery-codes.html'' 200 codes)))
     | (True, None) \<Rightarrow> raise AttributeError
     | (False, _) \<Rightarrow> raise denied)"

end
