(* ===== verification/Admin_Devices.thy ===== *)
theory Admin_Devices
  imports Admin_Login
begin

text \<open>
  The third layer and what an administrator can do with it (\<open>views/auth.py\<close>,
  \<open>views/admin_security.py\<close>): authenticating with a registered device, registering one, renaming and
  revoking devices, revoking sessions. The management views stand behind \<open>admin_security_required\<close>.
\<close>

section \<open>Authenticating with a device\<close>

definition second_factor_done :: "sval option \<Rightarrow> bool" where
  "second_factor_done st \<longleftrightarrow> st = Some (SText STAGE_2FA) \<or> st = Some (SText STAGE_DEVICE)"

definition paxalia_device_login :: "'c aenv \<Rightarrow> a_request \<Rightarrow> ('c, a_reply) aio" where
  "paxalia_device_login env rq =
     (if rq_method rq \<noteq> ''GET'' then ret NotAllowed
      else bind (pending_user env) (\<lambda>u. case u of
        None \<Rightarrow> ret (to_name env ''paxalia:auth_login'')
      | Some a \<Rightarrow> bind (session_get StageKey) (\<lambda>st.
          if \<not> second_factor_done st then ret (to_name env ''paxalia:auth_2fa_verify'')
          else bind (on_table env TCredential (gets (active_credentials_of (ac_pk a)))) (\<lambda>cs.
            if cs = [] then ret (to_name env ''paxalia:auth_device_register'')
            else bind (lift (webauthn_configuration_detail env rq)) (\<lambda>detail.
              ret (Page ''paxalia_auth/device-verify.html'' 200 [show_nat (length cs)]))))))"

definition verification_required :: a_reply where
  "verification_required = Detail 401 ''Verification required.''"

definition too_many_attempts :: a_reply where
  "too_many_attempts = Detail 429 ''Too many authenticator attempts. Please wait and try again.''"

definition invalid_response :: a_reply where
  "invalid_response = Detail 400 ''Invalid authenticator response.''"

definition paxalia_device_login_options :: "'c aenv \<Rightarrow> a_request \<Rightarrow> ('c, a_reply) aio" where
  "paxalia_device_login_options env rq =
     (if rq_method rq \<noteq> ''GET'' then ret NotAllowed
      else bind (pending_user env) (\<lambda>u. bind (session_get StageKey) (\<lambda>st. case u of
        None \<Rightarrow> ret verification_required
      | Some a \<Rightarrow>
          if \<not> second_factor_done st then ret verification_required
          else bind (within_limit env ''device-options'' (device_limits env) rq a) (\<lambda>ok.
            if \<not> ok then ret too_many_attempts
            else if \<not> ae_webauthn env then ret (Detail 503 ''The WebAuthn server dependency is not installed.'')
            else bind (lift (webauthn_configuration_detail env rq)) (\<lambda>detail. case detail of
              Some d \<Rightarrow> ret (Detail 400 d)
            | None \<Rightarrow>
                catch (bind (authentication_options env rq a) (\<lambda>(c, options). ret (ChallengeReply (ch_id c) options)))
                      (\<lambda>_. ret (Detail 503 ''The authenticator challenge could not be prepared.'')))))))"

definition posted_challenge_id :: "a_request \<Rightarrow> string" where
  "posted_challenge_id rq =
     (case dict_get (rq_data rq) ''challenge_id'' of
        Some (PStr s) \<Rightarrow> if s \<noteq> [] then s else (case rq_challenge_header rq of None \<Rightarrow> [] | Some h \<Rightarrow> h)
      | Some v \<Rightarrow> if truthy v then py_str v else (case rq_challenge_header rq of None \<Rightarrow> [] | Some h \<Rightarrow> h)
      | None \<Rightarrow> (case rq_challenge_header rq of None \<Rightarrow> [] | Some h \<Rightarrow> h))"

definition posted_credential :: "a_request \<Rightarrow> (pyval \<times> pyval) list option" where
  "posted_credential rq = (case dict_get (rq_data rq) ''credential'' of Some (PDict kvs) \<Rightarrow> Some kvs | _ \<Rightarrow> None)"

definition open_challenge :: "string \<Rightarrow> string \<Rightarrow> ceremony \<Rightarrow> string option \<Rightarrow> int \<Rightarrow> challenge \<Rightarrow> bool" where
  "open_challenge cid pk kind key now c \<longleftrightarrow> ch_id c = cid \<and> ch_user c = pk \<and> ch_kind c = kind
     \<and> ch_used c = None \<and> Some (ch_session c) = key \<and> now < ch_expires c"

definition get_challenge :: "'c aenv \<Rightarrow> string \<Rightarrow> account \<Rightarrow> ceremony \<Rightarrow> ('c, challenge) aio" where
  "get_challenge env cid a kind =
     on_table env TChallenge (bind (gets (\<lambda>w.
         find (open_challenge cid (ac_pk a) kind (s_key (aw_session w)) (aw_now w)) (aw_challenges w))) (\<lambda>c.
       case c of None \<Rightarrow> raise DoesNotExist | Some c \<Rightarrow> ret c))"

definition consume_challenge :: "'c aenv \<Rightarrow> challenge \<Rightarrow> ('c, unit) aio" where
  "consume_challenge env c =
     on_table env TChallenge (bind (gets aw_now) (\<lambda>now. modify (\<lambda>w. w\<lparr>aw_challenges :=
       map (\<lambda>d. if ch_id d = ch_id c then d\<lparr>ch_used := Some now\<rparr> else d) (aw_challenges w)\<rparr>)))"

text \<open>The final steps shared by both ceremonies.\<close>

definition open_admin_session :: "'c aenv \<Rightarrow> a_request \<Rightarrow> account \<Rightarrow> credential \<Rightarrow> ('c, a_reply) aio" where
  "open_admin_session env rq a cred =
     bind (session_get BackendKey) (\<lambda>b.
     seq (finalize_admin_session env a cred (s_text b))
     (seq (attach_device env a cred)
     (seq (log_action env rq ''security.admin_session_created'')
          (bind (safe_next env rq []) (\<lambda>u. ret (Done u))))))"

definition assertion_ceremony :: "'c aenv \<Rightarrow> a_request \<Rightarrow> account \<Rightarrow> string \<Rightarrow> (pyval \<times> pyval) list \<Rightarrow> ('c, credential) aio" where
  "assertion_ceremony env rq a cid payload =
     a_atomic (bind (get_challenge env cid a Authentication) (\<lambda>c.
       bind (verify_authentication env rq a c payload) (\<lambda>cred.
       seq (consume_challenge env c) (ret cred))))"

definition paxalia_device_login_verify :: "'c aenv \<Rightarrow> a_request \<Rightarrow> ('c, a_reply) aio" where
  "paxalia_device_login_verify env rq =
     (if rq_method rq \<noteq> ''POST'' then ret NotAllowed
      else bind (pending_user env) (\<lambda>u. bind (session_get StageKey) (\<lambda>st. case u of
        None \<Rightarrow> ret verification_required
      | Some a \<Rightarrow>
          if \<not> second_factor_done st then ret verification_required
          else bind (within_limit env ''device-verify'' (device_limits env) rq a) (\<lambda>ok.
            if \<not> ok then ret too_many_attempts
            else case posted_credential rq of
              None \<Rightarrow> ret invalid_response
            | Some payload \<Rightarrow>
                if posted_challenge_id rq = [] then ret invalid_response
                else catch
                  (bind (assertion_ceremony env rq a (posted_challenge_id rq) payload) (\<lambda>cred.
                   seq (rate_clear env ''device-options'' [rq_ip rq, ac_pk a])
                   (seq (rate_clear env ''device-verify'' [rq_ip rq, ac_pk a])
                        (open_admin_session env rq a cred))))
                  (\<lambda>_. ret (Detail 401 ''This authenticator could not be verified.''))))))"

section \<open>Registering a device\<close>

definition configured_max_devices :: "'c aenv \<Rightarrow> int res" where
  "configured_max_devices env =
     (let v = cfg_get (ae_settings env) ''ADMIN_MAX_DEVICES'' (PInt 5) in
      bind_res (int_or 5 (if truthy v then v else PInt 5)) (\<lambda>n. Inr (max 1 (min n 100))))"

definition register_page :: "nat \<Rightarrow> a_reply" where
  "register_page status = Page ''paxalia_auth/device-register.html'' status []"

definition posted_device_name :: "a_request \<Rightarrow> string" where
  "posted_device_name rq = or_default (take 120 (strip (payload_text (rq_data rq) ''device_name''))) (hd PAXALIA_TOTP_DEVICE_NAMES)"

definition paxalia_device_register :: "'c aenv \<Rightarrow> a_request \<Rightarrow> ('c, a_reply) aio" where
  "paxalia_device_register env rq =
     (if \<not> List.member [''GET'', ''POST''] (rq_method rq) then ret NotAllowed
      else bind (pending_user env) (\<lambda>pending.
      bind (admin_session_is_valid env rq) (\<lambda>final. bind (session_get StageKey) (\<lambda>st.
      case (if pending = None \<and> final then rq_user rq else pending) of
        None \<Rightarrow> ret (to_name env ''paxalia:auth_login'')
      | Some a \<Rightarrow>
          if \<not> final \<and> \<not> second_factor_done st then ret (to_name env ''paxalia:auth_2fa_verify'')
          else bind (lift (configured_max_devices env)) (\<lambda>max_devices.
            bind (on_table env TDevice (gets (active_device_count (ac_pk a)))) (\<lambda>active_count.
            if active_count \<ge> max_devices \<and> \<not> final then ret (to_name env ''paxalia:auth_device_login'')
            else bind (lift (webauthn_configuration_detail env rq)) (\<lambda>detail.
              if rq_method rq = ''GET'' then ret (register_page 200)
              else if \<not> ae_webauthn env then ret (Detail 503 ''The WebAuthn server dependency is not installed.'')
              else case detail of Some d \<Rightarrow> ret (Detail 400 d)
              | None \<Rightarrow>
                  bind (within_limit env ''device-register'' (device_limits env) rq a) (\<lambda>ok.
                  if \<not> ok then ret (register_page 429)
                  else seq (session_put DeviceNameKey (SText (posted_device_name rq)))
                    (catch (bind (registration_options env rq a) (\<lambda>(c, options). ret (ChallengeReply (ch_id c) options)))
                           (\<lambda>_. ret (Detail 503 ''The authenticator registration challenge could not be prepared.'')))))))))))"

definition registration_ceremony :: "'c aenv \<Rightarrow> a_request \<Rightarrow> account \<Rightarrow> string \<Rightarrow> (pyval \<times> pyval) list \<Rightarrow> ('c, credential) aio" where
  "registration_ceremony env rq a cid payload =
     a_atomic (bind (on_table env TAccount (gets (find_account (ac_pk a)))) (\<lambda>u. case u of
       None \<Rightarrow> raise DoesNotExist
     | Some a' \<Rightarrow>
         bind (catch (get_challenge env cid a' Registration) (\<lambda>e. case e of
             DoesNotExist \<Rightarrow> on_table env TChallenge (raise (ValueError ''The WebAuthn registration challenge could not be matched to this browser session.''))
           | _ \<Rightarrow> raise e)) (\<lambda>c.
         bind (session_get DeviceNameKey) (\<lambda>name.
         bind (verify_registration env rq a' c payload (or_default (s_text name) (hd PAXALIA_TOTP_DEVICE_NAMES))) (\<lambda>cred.
         seq (consume_challenge env c) (ret cred))))))"

definition paxalia_device_register_verify :: "'c aenv \<Rightarrow> a_request \<Rightarrow> ('c, a_reply) aio" where
  "paxalia_device_register_verify env rq =
     (if rq_method rq \<noteq> ''POST'' then ret NotAllowed
      else catch
        (bind (flow_user env rq) (\<lambda>u. case u of
           None \<Rightarrow> ret verification_required
         | Some a \<Rightarrow> bind (session_get FinalKey) (\<lambda>final. bind (session_get StageKey) (\<lambda>st.
             if \<not> s_truthy final \<and> \<not> second_factor_done st then ret (Detail 401 ''Second-factor verification is required.'')
             else case posted_credential rq of
               None \<Rightarrow> ret invalid_response
             | Some payload \<Rightarrow>
                 if posted_challenge_id rq = [] then ret invalid_response
                 else bind (within_limit env ''device-register-verify'' (device_limits env) rq a) (\<lambda>ok.
                   if \<not> ok then ret too_many_attempts
                   else bind (registration_ceremony env rq a (posted_challenge_id rq) payload) (\<lambda>cred.
                     seq (log_action env rq ''security.admin_device_registered'')
                     (if s_truthy final then ret (Done (ae_reverse env ''paxalia:admin_devices''))
                      else seq set_device_stage (open_admin_session env rq a cred))))))))
        (\<lambda>_. ret (Detail 400 ''This authenticator could not be registered.'')))"

section \<open>Managing devices and sessions\<close>

definition post_only :: "(a_request \<Rightarrow> account \<Rightarrow> ('c, a_reply) aio) \<Rightarrow> a_request \<Rightarrow> ('c, a_reply) aio" where
  "post_only m rq = (if rq_method rq \<noteq> ''POST'' then ret NotAllowed
     else case rq_user rq of None \<Rightarrow> raise AttributeError | Some a \<Rightarrow> m rq a)"

definition own_device :: "string \<Rightarrow> account \<Rightarrow> 'c aworld \<Rightarrow> admin_device option" where
  "own_device i a w = find (\<lambda>d. dv_id d = i \<and> dv_user d = ac_pk a) (aw_devices w)"

definition set_device :: "admin_device \<Rightarrow> 'c aworld \<Rightarrow> 'c aworld" where
  "set_device d w = w\<lparr>aw_devices := map (\<lambda>e. if dv_id e = dv_id d then d else e) (aw_devices w)\<rparr>"

definition admin_device_rename :: "'c aenv \<Rightarrow> string \<Rightarrow> a_request \<Rightarrow> account \<Rightarrow> ('c, a_reply) aio" where
  "admin_device_rename env device_id rq a =
     bind (on_table env TDevice (gets (own_device device_id a))) (\<lambda>found. case found of
       None \<Rightarrow> ret NotFound
     | Some d \<Rightarrow>
         let name = take 120 (strip (last_value (rq_post rq) ''device_name'')) in
         if name = [] \<or> dv_name d = name then ret (to_name env ''paxalia:admin_devices'')
         else seq (on_table env TDevice (modify (set_device (d\<lparr>dv_name := name\<rparr>))))
              (seq (log_action env rq ''security.admin_device_renamed'') (ret (to_name env ''paxalia:admin_devices''))))"

definition event_session_keys :: "(login_event \<Rightarrow> bool) \<Rightarrow> 'c aworld \<Rightarrow> string list" where
  "event_session_keys P w = filter (\<lambda>k. k \<noteq> []) (map le_session (filter P (aw_events w)))"

text \<open>\<open>_delete_session_keys\<close>: the rows of the keys, at most 500 in one statement.\<close>

function delete_session_keys :: "'c aenv \<Rightarrow> string list \<Rightarrow> ('c, unit) aio" where
  "delete_session_keys env keys =
     (if keys = [] then ret ()
      else seq (on_table env TSession (modify (\<lambda>w. w\<lparr>aw_store := (\<lambda>k. if List.member (take 500 keys) k then None else aw_store w k)\<rparr>)))
               (delete_session_keys env (drop 500 keys)))"
  by pat_completeness auto
termination by (relation "measure (length \<circ> snd)") auto

declare delete_session_keys.simps [simp del]

definition close_events :: "'c aenv \<Rightarrow> (login_event \<Rightarrow> bool) \<Rightarrow> ('c, unit) aio" where
  "close_events env P =
     on_table env TEvent (bind (gets aw_now) (\<lambda>now. modify (\<lambda>w. w\<lparr>aw_events := log_out_events P now (aw_events w)\<rparr>)))"

definition end_sessions :: "'c aenv \<Rightarrow> (login_event \<Rightarrow> bool) \<Rightarrow> ('c, unit) aio" where
  "end_sessions env P =
     seq (whenever (host_authentication_enabled env)
            (bind (on_table env TEvent (gets (event_session_keys P))) (delete_session_keys env)))
         (close_events env P)"

definition active_login :: "string \<Rightarrow> login_event \<Rightarrow> bool" where
  "active_login pk e \<longleftrightarrow> le_user e = Some pk \<and> le_type e = LoginType \<and> le_success e \<and> le_logged_out e = None"

definition leave_session :: "'c aenv \<Rightarrow> ('c, unit) aio" where
  "leave_session env = (if host_authentication_enabled env then host_logout env else session_flush env)"

definition admin_device_revoke :: "'c aenv \<Rightarrow> string \<Rightarrow> a_request \<Rightarrow> account \<Rightarrow> ('c, a_reply) aio" where
  "admin_device_revoke env device_id rq a =
     bind (on_table env TDevice (gets (own_device device_id a))) (\<lambda>found. case found of
       None \<Rightarrow> ret NotFound
     | Some d \<Rightarrow>
         if dv_status d \<noteq> Active then ret (to_name env ''paxalia:admin_devices'')
         else bind (gets aw_now) (\<lambda>now.
           seq (on_table env TDevice (modify (set_device (d\<lparr>dv_status := Revoked, dv_revoked := Some now\<rparr>))))
           (seq (end_sessions env (\<lambda>e. active_login (ac_pk a) e \<and> le_device e = Some (dv_id d)))
           (seq (log_action env rq ''security.admin_device_revoked'')
           (bind (current_device_credential env) (\<lambda>current.
            if (case current of None \<Rightarrow> False | Some (c, cd) \<Rightarrow> cr_device c = dv_id d)
            then seq (leave_session env) (ret (to_name env ''paxalia:auth_login''))
            else ret (to_name env ''paxalia:admin_devices'')))))))"

definition admin_session_revoke :: "'c aenv \<Rightarrow> string \<Rightarrow> a_request \<Rightarrow> account \<Rightarrow> ('c, a_reply) aio" where
  "admin_session_revoke env event_id rq a =
     bind (on_table env TEvent (gets (\<lambda>w. find (\<lambda>e. le_id e = event_id \<and> le_user e = Some (ac_pk a)
            \<and> le_type e = LoginType \<and> le_success e) (aw_events w)))) (\<lambda>found. case found of
       None \<Rightarrow> ret NotFound
     | Some e \<Rightarrow>
         seq (whenever (host_authentication_enabled env \<and> le_session e \<noteq> []) (delete_session_keys env [le_session e]))
         (bind (gets aw_now) (\<lambda>now.
          let e' = e\<lparr>le_logged_out := Some (case le_logged_out e of None \<Rightarrow> now | Some t \<Rightarrow> t)\<rparr> in
          seq (on_table env TEvent (modify (\<lambda>w. w\<lparr>aw_events := map (\<lambda>x. if le_id x = le_id e then e' else x) (aw_events w)\<rparr>)))
          (seq (log_action env rq ''security.admin_session_revoked'')
          (bind (current_paxalia_session_id env) (\<lambda>key.
           if le_session e = key then seq (leave_session env) (ret (to_name env ''paxalia:auth_login''))
           else ret (to_name env ''paxalia:admin_sessions'')))))))"

definition admin_sessions_revoke_others :: "'c aenv \<Rightarrow> a_request \<Rightarrow> account \<Rightarrow> ('c, a_reply) aio" where
  "admin_sessions_revoke_others env rq a =
     bind (current_paxalia_session_id env) (\<lambda>key.
     seq (end_sessions env (\<lambda>e. active_login (ac_pk a) e \<and> le_session e \<noteq> key))
     (seq (log_action env rq ''security.admin_sessions_revoked_others'')
          (ret (to_name env ''paxalia:admin_sessions''))))"

definition admin_sessions_revoke_all :: "'c aenv \<Rightarrow> a_request \<Rightarrow> account \<Rightarrow> ('c, a_reply) aio" where
  "admin_sessions_revoke_all env rq a =
     seq (end_sessions env (active_login (ac_pk a)))
     (seq (log_action env rq ''security.admin_sessions_revoked_all'')
     (seq (leave_session env) (ret (to_name env ''paxalia:auth_login''))))"

text \<open>The sessions page lists at most 100 recent sessions, newest first.\<close>

definition listed_sessions :: "account \<Rightarrow> 'c aworld \<Rightarrow> login_event list" where
  "listed_sessions a w = take 100 (sort_key (\<lambda>e. - le_created e) (filter (\<lambda>e. active_login (ac_pk a) e
     \<and> aw_now w - 30 * 24 * 60 * 60 * 1000000 \<le> le_created e \<and> le_session e \<noteq> []) (aw_events w)))"

datatype management = Rename string | RevokeDevice string | RevokeSession string | RevokeOthers | RevokeAll

fun manage :: "'c aenv \<Rightarrow> management \<Rightarrow> a_request \<Rightarrow> account \<Rightarrow> ('c, a_reply) aio" where
  "manage env (Rename i) = admin_device_rename env i"
| "manage env (RevokeDevice i) = admin_device_revoke env i"
| "manage env (RevokeSession i) = admin_session_revoke env i"
| "manage env RevokeOthers = admin_sessions_revoke_others env"
| "manage env RevokeAll = admin_sessions_revoke_all env"

definition management_view :: "'c aenv \<Rightarrow> management \<Rightarrow> a_request \<Rightarrow> ('c, a_reply) aio" where
  "management_view env m = admin_security_required env None (post_only (manage env m))"

end
