(* ===== verification/Admin_Example.thy ===== *)
theory Admin_Example
  imports Admin_Devices
begin

text \<open>A concrete environment and administrator for the witnesses of the authentication properties.\<close>

definition example_root :: account where
  "example_root = \<lparr>ac_pk = ''1'', ac_username = ''root'', ac_email = ''root@example.org'', ac_active = True,
     ac_staff = True, ac_superuser = False, ac_backend = None\<rparr>"

definition example_settings :: settings where
  "example_settings = [(''AUTH_USE_HOST_LOGIN'', PBool False), (''AUTH_ADMIN_HOME_URL'', PNone), (''DASHBOARD_URL'', PNone),
     (''ADMIN_MAX_DEVICES'', PInt 5), (''ADMIN_SESSION_MAX_AGE_SECONDS'', PInt 28800), (''WEBAUTHN_RP_ID'', PNone),
     (''WEBAUTHN_ORIGIN'', PNone), (''SECURITY_DEVICE_RATE_LIMIT_ATTEMPTS'', PInt 5),
     (''SECURITY_DEVICE_RATE_LIMIT_WINDOW_SECONDS'', PInt 300)]"

definition example_aenv :: "settings \<Rightarrow> mem aenv" where
  "example_aenv st = \<lparr>ae_settings = st @ example_settings, ae_debug = True, ae_checker = None, ae_fails = (\<lambda>_. False), ae_sha = id,
     ae_cache = mem_cache, ae_reverse = (\<lambda>n. ''/admin/'' @ n), ae_resolve_url = (\<lambda>v. Inr (py_str v)),
     ae_url_allowed = (\<lambda>u hosts secure. starts_with u ''/''), ae_login_url = PNone, ae_backends = [MODEL_BACKEND],
     ae_backend_loads = (\<lambda>_. True),
     ae_authenticate = (\<lambda>path. Some (\<lambda>named ident pw.
       Inr (if ident = ''root'' \<and> pw = ''secret'' then Some example_root else None))),
     ae_login = (\<lambda>a b s es. Inr (s, es)), ae_session_key = (\<lambda>n. ''key'' @ show_nat n), ae_random = id,
     ae_token = (\<lambda>n. show_nat n), ae_uuid = (\<lambda>n. ''id'' @ show_nat n), ae_isoformat = show_int,
     ae_fromisoformat = parse_int, ae_otp_model = True, ae_otp_installed = True, ae_totp_key = show_nat,
     ae_verify_token = (\<lambda>d t. (t = ''123456'', d)), ae_make_password = (\<lambda>n c. c), ae_check_password = (=),
     ae_webauthn = True, ae_b64url = decode_unpadded, ae_ip_literal = (\<lambda>_. False), ae_loopback = (\<lambda>_. False),
     ae_bracketed_ok = (\<lambda>_. False), ae_options = (\<lambda>rp c ids. Inr c),
     ae_verify_registration = (\<lambda>p c rp og. Inr \<lparr>rg_credential_id = ''new'', rg_public_key = ''pk'', rg_sign_count = 0,
        rg_device_type = ''single_device'', rg_backed_up = False, rg_aaguid = []\<rparr>),
     ae_verify_authentication = (\<lambda>p c rp og pk n. Inr \<lparr>as_sign_count = n + 1, as_device_type = ''single_device'', as_backed_up = False\<rparr>)\<rparr>"

definition example_rq :: "string \<Rightarrow> (string \<times> string) list \<Rightarrow> a_request" where
  "example_rq method form = \<lparr>rq_method = method, rq_secure = False, rq_host = Some ''localhost'', rq_path = ''/admin/auth/login/'',
     rq_full_path = ''/admin/auth/login/'', rq_base_url = ''http://localhost/'', rq_get = [], rq_post = form, rq_accept = [],
     rq_data = [(PStr ''challenge_id'', PStr ''c1''),
                (PStr ''credential'', PDict [(PStr ''rawId'', PStr (unpadded ''cred''))])],
     rq_challenge_header = None, rq_ip = ''10.0.0.1'', rq_user = Some example_root, rq_isolated_auth = True\<rparr>"

definition example_session :: "string \<Rightarrow> bool \<Rightarrow> session" where
  "example_session stage final = \<lparr>s_key = Some ''key0'',
     s_data = (\<lambda>_. None)(UserKey \<mapsto> SText ''1'', StageKey \<mapsto> SText stage, FinalKey \<mapsto> SBool final,
       AuthAtKey \<mapsto> SText ''10'', DeviceKey \<mapsto> SText ''cr1'', BackendKey \<mapsto> SText MODEL_BACKEND), s_modified = False\<rparr>"

definition example_event :: login_event where
  "example_event = \<lparr>le_id = ''e1'', le_type = LoginType, le_user = Some ''1'', le_username = ''root'', le_success = True,
     le_admin = True, le_device = Some ''d1'', le_session = ''key0'', le_created = 10, le_logged_out = None\<rparr>"

definition example_device :: admin_device where
  "example_device = \<lparr>dv_id = ''d1'', dv_user = ''1'', dv_name = ''Laptop'', dv_status = Active, dv_created = 0,
     dv_revoked = None, dv_last = None\<rparr>"

definition example_credential :: credential where
  "example_credential = \<lparr>cr_id = ''cr1'', cr_device = ''d1'', cr_credential_id = unpadded ''cred'', cr_public_key = ''pk'',
     cr_sign_count = 3, cr_handle = ''handle'', cr_type = [], cr_attachment = [], cr_backed_up = False, cr_aaguid = [],
     cr_transports = [], cr_created = 0, cr_last = None\<rparr>"

definition example_challenge :: "ceremony \<Rightarrow> challenge" where
  "example_challenge kind = \<lparr>ch_id = ''c1'', ch_user = ''1'', ch_kind = kind, ch_challenge = unpadded ''nonce'',
     ch_handle = Some ''handle'', ch_session = ''key0'', ch_created = 0, ch_expires = 90, ch_used = None\<rparr>"

definition example_aworld :: "session \<Rightarrow> mem aworld" where
  "example_aworld s = \<lparr>aw_session = s, aw_store = (\<lambda>_. None)(''key0'' \<mapsto> s_data s), aw_accounts = [example_root],
     aw_totp = [\<lparr>td_id = 1, td_user = ''1'', td_name = ''Paxalia Authenticator'', td_confirmed = True, td_key = ''k'', td_last = -1\<rparr>],
     aw_codes = [\<lparr>rc_id = ''r1'', rc_user = ''1'', rc_hash = ''ABCD-EFGH-IJKL-MNOP'', rc_created = 0, rc_used = None, rc_revoked = None\<rparr>],
     aw_devices = [example_device], aw_credentials = [example_credential],
     aw_challenges = [example_challenge Authentication], aw_events = [example_event], aw_audit = [],
     aw_now = 20, aw_fresh = 7, aw_cache = \<lparr>mem_now = 2, mem_entries = []\<rparr>\<rparr>"

end
