(* ===== verification/Admin_Gate.thy ===== *)
theory Admin_Gate
  imports Admin_Example
begin

text \<open>
  What the gate lets through and how access ends: \<open>live_admin\<close> is the documented condition of a
  privileged session over the rows, the gate implements exactly it, and revoking devices or sessions
  ends it for every session concerned.
\<close>

section \<open>Programs that only read\<close>

lemma keeps_on_table [keeps_intros]: "keeps P m \<Longrightarrow> keeps P (on_table env t m)"
  unfolding on_table_def by (intro keeps_intros)

lemma reads_session_get [keeps_intros]: "keeps P (session_get k)"
  unfolding session_get_def by (intro keeps_intros)

lemma reads_session_key_text [keeps_intros]: "keeps P session_key_text"
  unfolding session_key_text_def by (intro keeps_intros)

lemma reads_effective_admin_user [keeps_intros]: "keeps P (effective_admin_user env rq)"
  unfolding effective_admin_user_def by (intro keeps_intros)

lemma reads_current_paxalia_session_id [keeps_intros]: "keeps P (current_paxalia_session_id env)"
  unfolding current_paxalia_session_id_def Let_def by (intro keeps_intros)

lemma reads_admin_session_holds [keeps_intros]: "keeps P (admin_session_holds env a)"
  unfolding admin_session_holds_def by (intro keeps_intros)

lemma reads_admin_session_is_valid [keeps_intros]: "keeps P (admin_session_is_valid env rq)"
  unfolding admin_session_is_valid_def by (intro keeps_intros)

lemma reads_pending_user [keeps_intros]: "keeps P (pending_user env)"
  unfolding pending_user_def by (intro keeps_intros)

lemma reads_safe_next [keeps_intros]: "keeps P (safe_next env rq v)"
  unfolding safe_next_def by (intro keeps_intros)

lemma reads_authentication_backend_for [keeps_intros]: "keeps P (authentication_backend_for env u b)"
  unfolding authentication_backend_for_def Let_def by (intro keeps_intros)

lemma reads_flow_user [keeps_intros]: "keeps P (flow_user env rq)"
  unfolding flow_user_def by (intro keeps_intros)

lemma reads_current_device_credential [keeps_intros]: "keeps P (current_device_credential env)"
  unfolding current_device_credential_def by (intro keeps_intros)

text \<open>In isolated mode resuming a verification only reads.\<close>

lemma reads_begin_isolated [keeps_intros]:
  "\<not> host_authentication_enabled env \<Longrightarrow> keeps P (begin_admin_verification env rq n)"
  unfolding begin_admin_verification_def by (simp cong: if_cong) (intro keeps_intros)

section \<open>The documented condition\<close>

text \<open>The administrator a request stands for in isolated mode.\<close>

definition identity :: "'c aenv \<Rightarrow> a_request \<Rightarrow> 'c aworld \<Rightarrow> account option" where
  "identity env rq w =
     (if rq_isolated_auth rq \<and> admin_user env (rq_user rq) then rq_user rq
      else find_account (s_text (s_data (aw_session w) UserKey)) w)"

definition session_id :: "'c aworld \<Rightarrow> string" where
  "session_id w = strip (case s_key (aw_session w) of
     Some k \<Rightarrow> if k \<noteq> [] then k else s_text (s_data (aw_session w) IsolatedSessionKey)
   | None \<Rightarrow> s_text (s_data (aw_session w) IsolatedSessionKey))"

text \<open>An active administrator with a confirmed second factor, a final session that has not expired,
  an active device of the same administrator, and a login on this session and device that nobody
  has ended.\<close>

definition live_admin :: "'c aenv \<Rightarrow> a_request \<Rightarrow> account \<Rightarrow> 'c aworld \<Rightarrow> bool" where
  "live_admin env rq a w \<longleftrightarrow>
     identity env rq w = Some a \<and> admin_user env (Some a) \<and> ac_active a
   \<and> s_truthy (s_data (aw_session w) FinalKey) \<and> s_data (aw_session w) StageKey = Some (SText STAGE_COMPLETE)
   \<and> (\<exists>d \<in> set (aw_totp w). confirmed_totp (ac_pk a) d)
   \<and> (\<exists>t m. parse_auth_time env (s_data (aw_session w) AuthAtKey) = Some t \<and> session_max_age env = Inr m
        \<and> aw_now w - t \<le> m * 1000000)
   \<and> (\<exists>c d. find_credential (s_text (s_data (aw_session w) DeviceKey)) w = Some (c, d)
        \<and> dv_user d = ac_pk a \<and> dv_status d = Active
        \<and> (\<exists>e \<in> set (aw_events w). live_login (ac_pk a) (session_id w) (dv_id d) e))
   \<and> session_id w \<noteq> [] \<and> s_truthy (s_data (aw_session w) DeviceKey)"

text \<open>The session names a user, or the middleware has put the isolated administrator on the request.\<close>

definition recognised :: "'c aenv \<Rightarrow> a_request \<Rightarrow> 'c aworld \<Rightarrow> bool" where
  "recognised env rq w \<longleftrightarrow>
     s_truthy (s_data (aw_session w) UserKey) \<or> rq_isolated_auth rq \<and> admin_user env (rq_user rq)"

definition isolated :: "'c aenv \<Rightarrow> bool" where
  "isolated env \<longleftrightarrow> \<not> host_authentication_enabled env"

lemma run_bind: "bind m k s = (case m s of (Inl e, t) \<Rightarrow> (Inl e, t) | (Inr x, t) \<Rightarrow> k x t)"
  by (simp add: bind_def)

lemma run_seq: "seq m k s = (case m s of (Inl e, t) \<Rightarrow> (Inl e, t) | (Inr x, t) \<Rightarrow> k t)"
  by (simp add: seq_def bind_def)

lemma run_catch: "catch m h s = (case m s of (Inl e, t) \<Rightarrow> h e t | (Inr x, t) \<Rightarrow> (Inr x, t))"
  by (simp add: catch_def)

lemma run_on_table: "on_table env tb m s = (if ae_fails env tb then (Inl DatabaseError, s) else m s)"
  by (simp add: on_table_def seq_def bind_def require_def raise_def ret_def)

lemma run_session_get: "session_get k s = (Inr (s_data (aw_session s) k), s)"
  by (simp add: session_get_def gets_def)

lemma run_require: "require b e s = (if b then (Inr (), s) else (Inl e, s))"
  by (simp add: require_def ret_def raise_def)

lemmas run_simps = run_bind run_seq run_catch run_on_table run_session_get run_require
  ret_def raise_def gets_def lift_def modify_def

lemma effective_identity:
  "isolated env \<Longrightarrow> effective_admin_user env rq w = (Inr u, t) \<Longrightarrow> u = Some a
    \<Longrightarrow> identity env rq w = Some a \<and> admin_user env (Some a) \<and> recognised env rq w"
  by (auto simp: recognised_def effective_admin_user_def isolated_def identity_def run_simps admin_user_def
      split: if_splits option.splits)

lemma session_id_run:
  "isolated env \<Longrightarrow> current_paxalia_session_id env w = (Inr (session_id w), w)"
  by (auto simp: current_paxalia_session_id_def isolated_def session_id_def run_simps Let_def split: option.splits)

lemma holds_sound:
  assumes "isolated env" "admin_session_holds env a w = (Inr True, t)"
  shows "admin_user env (Some a) \<and> ac_active a \<and> (\<exists>d \<in> set (aw_totp w). confirmed_totp (ac_pk a) d)
   \<and> (\<exists>t m. parse_auth_time env (s_data (aw_session w) AuthAtKey) = Some t \<and> session_max_age env = Inr m
        \<and> aw_now w - t \<le> m * 1000000)
   \<and> (\<exists>c d. find_credential (s_text (s_data (aw_session w) DeviceKey)) w = Some (c, d)
        \<and> dv_user d = ac_pk a \<and> dv_status d = Active
        \<and> (\<exists>e \<in> set (aw_events w). live_login (ac_pk a) (session_id w) (dv_id d) e))
   \<and> session_id w \<noteq> [] \<and> s_truthy (s_data (aw_session w) DeviceKey)"
  using assms(2)
  by (auto simp: admin_session_holds_def run_simps session_id_run[OF assms(1)] list_ex_iff
      split: if_splits option.splits sum.splits)

lemma valid_sound:
  assumes "isolated env" "admin_session_is_valid env rq w = (Inr True, t)"
  shows "(\<exists>a. live_admin env rq a w) \<and> recognised env rq w"
proof -
  have final: "s_truthy (s_data (aw_session w) FinalKey)" "s_data (aw_session w) StageKey = Some (SText STAGE_COMPLETE)"
    using assms(2) by (auto simp: admin_session_is_valid_def run_simps split: if_splits)
  obtain r v where r: "effective_admin_user env rq w = (r, v)" by fastforce
  have v: "v = w" by (rule reads_result[of w "effective_admin_user env rq", OF _ r]) (intro keeps_intros)
  obtain a where a: "r = Inr (Some a)" "admin_session_holds env a w = (Inr True, t)"
  proof (cases r)
    case (Inr u)
    with assms(2) final r v that show ?thesis
      by (cases u) (auto simp: admin_session_is_valid_def run_simps)
  qed (use assms(2) final r in \<open>simp add: admin_session_is_valid_def run_simps\<close>)
  show ?thesis
    using final holds_sound[OF assms(1) a(2)] effective_identity[OF assms(1) r[unfolded a(1)] refl]
    by (auto simp: live_admin_def)
qed

lemma effective_live:
  assumes "isolated env" "\<forall>t. \<not> ae_fails env t" "identity env rq w = Some a" "admin_user env (Some a)"
    and "recognised env rq w"
  shows "effective_admin_user env rq w = (Inr (Some a), w)"
  using assms
  by (cases "rq_user rq")
     (auto simp: recognised_def effective_admin_user_def isolated_def identity_def run_simps admin_user_def split: if_splits option.splits)

lemma valid_complete:
  assumes "isolated env" "\<forall>t. \<not> ae_fails env t" "ae_otp_model env" "live_admin env rq a w"
    and "recognised env rq w"
  shows "admin_session_is_valid env rq w = (Inr True, w)"
proof -
  have "effective_admin_user env rq w = (Inr (Some a), w)"
    by (rule effective_live) (use assms in \<open>simp_all add: live_admin_def\<close>)
  moreover have "admin_session_holds env a w = (Inr True, w)"
    using assms(2-4)
    by (auto simp: live_admin_def admin_session_holds_def run_simps session_id_run[OF assms(1)] list_ex_iff)
  ultimately show ?thesis
    using assms(4) by (simp add: live_admin_def admin_session_is_valid_def run_simps)
qed

text \<open>Sent to the verification flow, in isolated mode: a redirect, and nothing changes.\<close>

lemma begin_redirects:
  assumes "isolated env" "begin_admin_verification env rq n w = (r, v)"
  shows "v = w \<and> (\<forall>reply. r = Inr reply \<longrightarrow> (\<exists>url. reply = To url))"
  using assms
  by (auto simp: begin_admin_verification_def isolated_def run_simps stage_page_def to_name_def split: sum.splits if_splits)

text \<open>The gate without its preflight.\<close>

lemma gate_iff_live:
  assumes "isolated env"
  shows "let g = privileged_view_gate env rq view w in
    if (\<exists>a. live_admin env rq a w) \<and> recognised env rq w
    then g = view rq w \<or> (\<exists>t. ae_fails env t) \<or> \<not> ae_otp_model env
    else (\<exists>url. g = (Inr (To url), w)) \<or> (\<exists>e. g = (Inl e, w))"
proof -
  obtain b u where b: "admin_session_is_valid env rq w = (b, u)" by fastforce
  have u: "u = w" by (rule reads_result[of w "admin_session_is_valid env rq", OF _ b]) (intro keeps_intros)
  have gate: "privileged_view_gate env rq view w = (case b of Inl e \<Rightarrow> (Inl e, w) | Inr ok \<Rightarrow>
         if ok then view rq w else begin_admin_verification env rq (rq_full_path rq) w)"
    using b u by (auto simp: privileged_view_gate_def run_simps split: sum.splits)
  show ?thesis
  proof (cases "(\<exists>a. live_admin env rq a w) \<and> recognised env rq w")
    case True
    then obtain a where a: "live_admin env rq a w" "recognised env rq w" by blast
    show ?thesis
    proof (cases "(\<exists>t. ae_fails env t) \<or> \<not> ae_otp_model env")
      case False
      then have "b = Inr True" using valid_complete[OF assms _ _ a] b by auto
      with True show ?thesis by (simp add: gate)
    qed (use True in auto)
  next
    case False
    with valid_sound[OF assms] b have no: "b \<noteq> Inr True" by blast
    obtain r v where r: "begin_admin_verification env rq (rq_full_path rq) w = (r, v)" by fastforce
    with begin_redirects[OF assms r] no have "(\<exists>url. privileged_view_gate env rq view w = (Inr (To url), w))
        \<or> (\<exists>e. privileged_view_gate env rq view w = (Inl e, w))"
      by (cases r) (auto simp: gate split: sum.splits)
    with False show ?thesis by (simp only: Let_def if_False)
  qed
qed

text \<open>C35: in isolated mode the gate runs a privileged view exactly for a recognised active administrator
  with a confirmed second factor, an unexpired final session, an active device and a login nobody ended; for
  every other request, anonymous ones included, the view is not run: the request is redirected to the
  verification flow, or raises, and nothing changes. Such an administrator gets through whenever the
  database and django-otp work. A preflight of the view runs before, and only for a recognised
  administrator; it can answer in the view's place.\<close>

theorem gate_runs_view_iff_live:
  assumes "isolated env"
  shows "let g = admin_security_required env pre view rq w in
    \<exists>r t. (r = Inr None \<and> t = w \<or> (\<exists>p a. pre = Some p \<and> p rq w = (r, t)
             \<and> identity env rq w = Some a \<and> admin_user env (Some a) \<and> recognised env rq w))
      \<and> (case r of
           Inl e \<Rightarrow> g = (Inl e, t)
         | Inr (Some reply) \<Rightarrow> g = (Inr reply, t)
         | Inr None \<Rightarrow>
             if (\<exists>a. live_admin env rq a t) \<and> recognised env rq t
             then g = view rq t \<or> (\<exists>t. ae_fails env t) \<or> \<not> ae_otp_model env
             else (\<exists>url. g = (Inr (To url), t)) \<or> (\<exists>e. g = (Inl e, t)))"
proof -
  obtain x v where x: "effective_admin_user env rq w = (x, v)" by fastforce
  have v: "v = w" by (rule reads_result[of w "effective_admin_user env rq", OF _ x]) (intro keeps_intros)
  obtain u where u: "effective_admin_user env rq w = (Inr u, w)"
    using x v assms by (auto simp: effective_admin_user_def isolated_def run_simps split: if_splits)
  obtain r t where early: "(if u \<noteq> None \<and> admin_user env u then (case pre of None \<Rightarrow> ret None | Some p \<Rightarrow> p rq) else ret None) w = (r, t)"
    by fastforce
  have gate: "admin_security_required env pre view rq w = (case r of Inl e \<Rightarrow> (Inl e, t)
      | Inr (Some reply) \<Rightarrow> (Inr reply, t) | Inr None \<Rightarrow> privileged_view_gate env rq view t)"
  proof -
    have "admin_security_required env pre view rq w = (case (r, t) of (Inl e, t) \<Rightarrow> (Inl e, t)
        | (Inr early, t) \<Rightarrow> (case early of Some reply \<Rightarrow> ret reply | None \<Rightarrow> privileged_view_gate env rq view) t)"
      unfolding early[symmetric] using assms
      by (simp add: admin_security_required_def run_bind u isolated_def del: split_paired_All)
    then show ?thesis by (auto simp: ret_def split: sum.splits option.splits)
  qed
  have "r = Inr None \<and> t = w \<or> (\<exists>p a. pre = Some p \<and> p rq w = (r, t)
      \<and> identity env rq w = Some a \<and> admin_user env (Some a) \<and> recognised env rq w)"
    using early effective_identity[OF assms u] by (auto simp: ret_def split: if_splits option.splits)
  with gate_iff_live[OF assms, of rq view t] show ?thesis
    unfolding Let_def gate by (intro exI[of _ r] exI[of _ t]) (auto split: sum.splits option.splits)
qed

section \<open>Ending access\<close>

definition primary_keys :: "'c aworld \<Rightarrow> bool" where
  "primary_keys w \<longleftrightarrow> distinct (map dv_id (aw_devices w))"

lemma end_sessions_effect:
  assumes "isolated env" "end_sessions env P w = (Inr x, v)"
  shows "v = w\<lparr>aw_events := log_out_events P (aw_now w) (aw_events w)\<rparr>"
  using assms
  by (auto simp: end_sessions_def isolated_def whenever_def close_events_def run_simps split: if_splits)

lemma closed_events: "e \<in> set (log_out_events P now es) \<Longrightarrow> le_logged_out e = None \<Longrightarrow> e \<in> set es \<and> \<not> P e"
  by (auto simp: log_out_events_def split: if_splits)

text \<open>Leaving the session and recording the action touch neither devices nor logins.\<close>

definition same_rights :: "'c aworld \<Rightarrow> 'c aworld \<Rightarrow> bool" where
  "same_rights w v \<longleftrightarrow> aw_devices v = aw_devices w \<and> aw_events v = aw_events w \<and> aw_credentials v = aw_credentials w"

lemma keeps_log_action [keeps_intros]: "keeps (same_rights w) (log_action env rq s)"
  unfolding log_action_def by (intro keeps_intros) (simp add: same_rights_def)

lemma keeps_with_session [keeps_intros]: "keeps (same_rights w) (with_session f)"
  unfolding with_session_def by (intro keeps_intros) (simp add: same_rights_def)

lemma keeps_session_delete [keeps_intros]: "keeps (same_rights w) (session_delete env)"
  unfolding session_delete_def by (intro keeps_intros) (simp add: same_rights_def)

lemma keeps_leave_session [keeps_intros]: "keeps (same_rights w) (leave_session env)"
  unfolding leave_session_def host_logout_def session_flush_def by (intro keeps_intros)

lemma same_rights_refl [simp]: "same_rights w w"
  by (simp add: same_rights_def)

lemma keeps_same_rights: "keeps (same_rights w) m \<Longrightarrow> m w = (r, v) \<Longrightarrow> same_rights w v"
  using keepsD[of "same_rights w" m w] by (auto simp: wp_def split: sum.splits)

lemma wp_end_sessions:
  assumes "isolated env" "Q () (w\<lparr>aw_events := log_out_events P (aw_now w) (aw_events w)\<rparr>)"
  shows "wp (end_sessions env P) Q (\<lambda>_ _. True) w"
  using end_sessions_effect[OF assms(1)] assms(2) by (auto simp: wp_def split: prod.splits sum.splits)

lemma wp_same_rights:
  "keeps (same_rights w) m \<Longrightarrow> (\<And>x v. same_rights w v \<Longrightarrow> Q x v) \<Longrightarrow> wp m Q (\<lambda>_ _. True) w"
  by (rule wp_keeps[where P = "same_rights w"]) simp_all

lemma revoke_all_effect:
  assumes "isolated env"
  shows "wp (admin_sessions_revoke_all env rq a)
    (\<lambda>r v. aw_events v = log_out_events (active_login (ac_pk a)) (aw_now w) (aw_events w)) (\<lambda>_ _. True) w"
  unfolding admin_sessions_revoke_all_def wp_seq[of "end_sessions env P" for P]
  by (intro wp_end_sessions[OF assms] wp_same_rights keeps_intros) (simp add: same_rights_def)

lemma revoke_others_effect:
  assumes "isolated env"
  shows "wp (admin_sessions_revoke_others env rq a)
    (\<lambda>r v. aw_events v = log_out_events (\<lambda>e. active_login (ac_pk a) e \<and> le_session e \<noteq> session_id w) (aw_now w) (aw_events w))
    (\<lambda>_ _. True) w"
proof -
  have "wp (seq (end_sessions env (\<lambda>e. active_login (ac_pk a) e \<and> le_session e \<noteq> session_id w))
     (seq (log_action env rq ''security.admin_sessions_revoked_others'') (ret (to_name env ''paxalia:admin_sessions''))))
    (\<lambda>r v. aw_events v = log_out_events (\<lambda>e. active_login (ac_pk a) e \<and> le_session e \<noteq> session_id w) (aw_now w) (aw_events w))
    (\<lambda>_ _. True) w"
    unfolding wp_seq[of "end_sessions env P" for P]
    by (intro wp_end_sessions[OF assms] wp_same_rights keeps_intros) (simp add: same_rights_def)
  then show ?thesis
    by (simp add: admin_sessions_revoke_others_def wp_def run_bind session_id_run[OF assms])
qed

lemma find_own_device:
  assumes "primary_keys w" "own_device i a w = Some d"
  shows "d \<in> set (aw_devices w)" "dv_id d = i" "dv_user d = ac_pk a" "e \<in> set (aw_devices w) \<Longrightarrow> dv_id e = i \<Longrightarrow> e = d"
proof -
  show d: "d \<in> set (aw_devices w)" "dv_id d = i" "dv_user d = ac_pk a"
    using assms(2) by (auto simp: own_device_def find_Some_iff)
  show "e \<in> set (aw_devices w) \<Longrightarrow> dv_id e = i \<Longrightarrow> e = d"
    using assms(1) d by (auto simp: primary_keys_def distinct_map inj_on_def)
qed

lemma wp_on_tableI:
  "(\<not> ae_fails env t \<Longrightarrow> wp m Q E w) \<Longrightarrow> (ae_fails env t \<Longrightarrow> E DatabaseError w) \<Longrightarrow> wp (on_table env t m) Q E w"
  by (simp add: wp_def run_on_table)

lemma wp_end_then:
  fixes env :: "'c aenv"
  assumes "isolated env" "keeps (same_rights (w\<lparr>aw_events := log_out_events P (aw_now w) (aw_events w)\<rparr>)) m"
    and "\<And>r v. aw_devices v = aw_devices w \<Longrightarrow> Q r v"
  shows "wp (seq (end_sessions env P) m) Q (\<lambda>_ _. True) w"
  unfolding wp_seq using assms(2,3)
  by (intro wp_end_sessions[OF assms(1)] wp_same_rights) (simp_all add: same_rights_def)

lemma revoke_device_effect:
  assumes "isolated env"
  shows "wp (admin_device_revoke env i rq a)
    (\<lambda>r v. r \<noteq> NotFound \<longrightarrow> primary_keys w \<longrightarrow> (\<forall>d \<in> set (aw_devices v). dv_id d = i \<longrightarrow> dv_status d \<noteq> Active)) (\<lambda>_ _. True) w"
  unfolding admin_device_revoke_def
  apply (intro wp_bindI wp_on_tableI wp_getsI wp_optionI wp_ifI wp_retI)
        apply simp
       apply simp
      apply (use find_own_device in \<open>metis\<close>)
     apply (rule wp_seqI, intro wp_on_tableI wp_modifyI wp_end_then[OF assms] keeps_intros)
        apply (auto simp: set_device_def dest: find_own_device(2)[OF _ sym])
  done

lemma found: "find P xs = Some x \<Longrightarrow> x \<in> set xs \<and> P x" "Some x = find P xs \<Longrightarrow> x \<in> set xs \<and> P x"
  by (auto simp: find_Some_iff eq_commute[of "Some x"])

lemma found_device: "find_credential k w = Some (c, d) \<Longrightarrow> d \<in> set (aw_devices w)"
  by (auto simp: find_credential_def credential_device_def dest!: found split: option.splits)

lemma find_credential_session [simp]: "find_credential k (v\<lparr>aw_session := s\<rparr>) = find_credential k v"
  by (simp add: find_credential_def credential_device_def cong: option.case_cong)

lemma revoke_session_effect:
  assumes "isolated env"
  shows "wp (admin_session_revoke env i rq a)
    (\<lambda>r v. r \<noteq> NotFound \<longrightarrow> (\<forall>e \<in> set (aw_events v). le_id e = i \<longrightarrow> le_logged_out e \<noteq> None)) (\<lambda>_ _. True) w"
  unfolding admin_session_revoke_def
  apply (intro wp_bindI wp_on_tableI wp_getsI wp_optionI wp_retI)
     apply simp
    apply (rule wp_seqI)
    apply (use assms in \<open>simp add: isolated_def whenever_def wp_ret\<close>)
    apply (intro wp_bindI wp_getsI wp_letI, rule wp_seqI, intro wp_on_tableI wp_modifyI wp_same_rights keeps_intros)
     apply (auto simp: same_rights_def dest!: found(2))
  done

lemma rename_effect: "wp (admin_device_rename env i rq a) (\<lambda>r v. aw_events v = aw_events w) (\<lambda>_ _. True) w"
  unfolding admin_device_rename_def
  apply (intro wp_bindI wp_on_tableI wp_getsI wp_optionI wp_letI wp_ifI wp_retI)
     apply simp_all
  apply (rule wp_seqI, intro wp_on_tableI wp_modifyI wp_same_rights keeps_intros)
   apply (simp_all add: same_rights_def set_device_def)
  done

text \<open>C36: in isolated mode revoking ends privileged access at once. After \<open>revoke all\<close> no session of the
  administrator is live, whatever it holds; after \<open>revoke others\<close> none but the current one; after a device was
  revoked none that rests on this device; and after one login was revoked no browser is live that has no
  other open login. A browser that was verified again with a second device has one, and stays. Renaming a
  device leaves every login as it was.\<close>

theorem revocation_ends_sessions:
  assumes "isolated env" "primary_keys w" "manage env m rq a w = (Inr r, v)"
  shows "case m of
      RevokeAll \<Rightarrow> \<forall>rq' s. \<not> live_admin env rq' a (v\<lparr>aw_session := s\<rparr>)
    | RevokeOthers \<Rightarrow> \<forall>rq' s. session_id (v\<lparr>aw_session := s\<rparr>) \<noteq> session_id w \<longrightarrow> \<not> live_admin env rq' a (v\<lparr>aw_session := s\<rparr>)
    | RevokeDevice i \<Rightarrow> r \<noteq> NotFound \<longrightarrow> (\<forall>rq' s b c d. find_credential (s_text (s_data s DeviceKey)) v = Some (c, d)
          \<and> dv_id d = i \<longrightarrow> \<not> live_admin env rq' b (v\<lparr>aw_session := s\<rparr>))
    | RevokeSession i \<Rightarrow> r \<noteq> NotFound \<longrightarrow> (\<forall>rq' s b.
          (\<forall>e \<in> set (aw_events v). le_session e = session_id (v\<lparr>aw_session := s\<rparr>) \<and> le_id e \<noteq> i \<longrightarrow> le_logged_out e \<noteq> None)
          \<longrightarrow> \<not> live_admin env rq' b (v\<lparr>aw_session := s\<rparr>))
    | Rename i \<Rightarrow> aw_events v = aw_events w"
proof (cases m)
  case RevokeAll
  then have "aw_events v = log_out_events (active_login (ac_pk a)) (aw_now w) (aw_events w)"
    using wpD_Inr[OF revoke_all_effect[OF assms(1)]] assms(3) by fastforce
  then show ?thesis
    using RevokeAll by (auto simp: live_admin_def live_login_def active_login_def dest!: closed_events)
next
  case RevokeOthers
  then have "aw_events v = log_out_events (\<lambda>e. active_login (ac_pk a) e \<and> le_session e \<noteq> session_id w) (aw_now w) (aw_events w)"
    using wpD_Inr[OF revoke_others_effect[OF assms(1)]] assms(3) by fastforce
  then show ?thesis
    using RevokeOthers by (auto simp: live_admin_def live_login_def active_login_def dest!: closed_events)
next
  case (RevokeDevice i)
  then have "r \<noteq> NotFound \<longrightarrow> (\<forall>d \<in> set (aw_devices v). dv_id d = i \<longrightarrow> dv_status d \<noteq> Active)"
    using wpD_Inr[OF revoke_device_effect[OF assms(1)]] assms(2,3) by fastforce
  then show ?thesis
    using RevokeDevice by (auto simp: live_admin_def dest: found_device)
next
  case (RevokeSession i)
  then have "r \<noteq> NotFound \<longrightarrow> (\<forall>e \<in> set (aw_events v). le_id e = i \<longrightarrow> le_logged_out e \<noteq> None)"
    using wpD_Inr[OF revoke_session_effect[OF assms(1)]] assms(3) by fastforce
  then show ?thesis
    using RevokeSession by (auto simp: live_admin_def live_login_def)
next
  case (Rename i)
  then show ?thesis using wpD_Inr[OF rename_effect] assms(3) by fastforce
qed

section \<open>Examples\<close>

lemma isolated_example: "isolated (example_aenv [])"
  by code_simp

lemma example_up: "\<not> Ex (ae_fails (example_aenv st))" "ae_otp_model (example_aenv st)"
  by (simp_all add: example_aenv_def)

lemma live_example: "live_admin (example_aenv []) (example_rq ''GET'' []) example_root (example_aworld (example_session ''complete'' True))"
  unfolding live_admin_def
proof (intro conjI)
  show "\<exists>t m. parse_auth_time (example_aenv []) (s_data (aw_session (example_aworld (example_session ''complete'' True))) AuthAtKey)
        = Some t \<and> session_max_age (example_aenv []) = Inr m
      \<and> aw_now (example_aworld (example_session ''complete'' True)) - t \<le> m * 1000000"
    by (rule exI[of _ 10], rule exI[of _ 28800]) code_simp
  show "\<exists>c d. find_credential (s_text (s_data (aw_session (example_aworld (example_session ''complete'' True))) DeviceKey))
          (example_aworld (example_session ''complete'' True)) = Some (c, d)
      \<and> dv_user d = ac_pk example_root \<and> dv_status d = Active
      \<and> (\<exists>e \<in> set (aw_events (example_aworld (example_session ''complete'' True))).
           live_login (ac_pk example_root) (session_id (example_aworld (example_session ''complete'' True))) (dv_id d) e)"
    by (rule exI[of _ example_credential], rule exI[of _ example_device]) code_simp
qed code_simp+

definition anonymous_world :: "mem aworld" where
  "anonymous_world = (example_aworld (example_session ''complete'' True))\<lparr>aw_session :=
     (example_session ''complete'' True)\<lparr>s_data := (\<lambda>_. None)\<rparr>\<rparr>"

text \<open>The live administrator gets the view, an anonymous browser a redirect.\<close>

theorem gate_runs_view_iff_live_witness:
  "admin_security_required (example_aenv []) None (\<lambda>rq. ret (ViewReply 200)) (example_rq ''GET'' [])
     (example_aworld (example_session ''complete'' True)) = (Inr (ViewReply 200), example_aworld (example_session ''complete'' True))
   \<and> snd (admin_security_required (example_aenv []) None (\<lambda>rq. ret (ViewReply 200)) (example_rq ''GET'' []) anonymous_world)
     = anonymous_world"
proof -
  let ?w = "example_aworld (example_session ''complete'' True)" and ?rq = "example_rq ''GET'' []"
  note gate = gate_runs_view_iff_live[OF isolated_example, of None "\<lambda>rq. ret (ViewReply 200)" ?rq]
  have "recognised (example_aenv []) ?rq ?w" by (simp add: recognised_def example_aworld_def example_session_def)
  then have "admin_security_required (example_aenv []) None (\<lambda>rq. ret (ViewReply 200)) ?rq ?w = (Inr (ViewReply 200), ?w)"
    using gate[of ?w] live_example by (auto simp: Let_def ret_def example_up split: if_splits)
  moreover have "\<not> live_admin (example_aenv []) ?rq a anonymous_world" for a
    by (simp add: live_admin_def anonymous_world_def s_truthy.simps)
  then have "snd (admin_security_required (example_aenv []) None (\<lambda>rq. ret (ViewReply 200)) ?rq anonymous_world) = anonymous_world"
    using gate[of anonymous_world] by (auto simp: Let_def split: if_splits)
  ultimately show ?thesis by blast
qed

theorem revocation_ends_sessions_witness:
  "\<exists>r v. manage (example_aenv []) RevokeAll (example_rq ''POST'' []) example_root
       (example_aworld (example_session ''complete'' True)) = (Inr r, v)
     \<and> \<not> live_admin (example_aenv []) (example_rq ''GET'' []) example_root (v\<lparr>aw_session := example_session ''complete'' True\<rparr>)"
proof -
  have keys: "primary_keys (example_aworld (example_session ''complete'' True))"
    by (simp add: primary_keys_def example_aworld_def)
  have "fst (manage (example_aenv []) RevokeAll (example_rq ''POST'' []) example_root
       (example_aworld (example_session ''complete'' True))) = Inr (To (''/admin/paxalia:auth_login''))"
    by code_simp
  then obtain v where run: "manage (example_aenv []) RevokeAll (example_rq ''POST'' []) example_root
       (example_aworld (example_session ''complete'' True)) = (Inr (To (''/admin/paxalia:auth_login'')), v)"
    by (metis prod.collapse)
  with revocation_ends_sessions[OF isolated_example keys run] show ?thesis by auto
qed

end
