(* ===== verification/Admin_Layers.thy ===== *)
theory Admin_Layers
  imports Admin_Gate
begin

text \<open>
  The three layers as an abstract machine. The session of a request stands for one of four layers;
  \<open>layer_step\<close> is the documented way up, each step with the evidence it needs, and every request to
  every authentication or management view is one step of the machine.
\<close>

section \<open>The abstract machine\<close>

datatype layer = Outside | Knows string | Proved string | Inside string

definition user_of :: "session \<Rightarrow> string" where
  "user_of s = s_text (s_data s UserKey)"

definition layer_of :: "session \<Rightarrow> layer" where
  "layer_of s =
     (if user_of s = [] then Outside
      else if second_factor_done (s_data s StageKey) then Proved (user_of s)
      else if s_data s StageKey = Some (SText STAGE_COMPLETE) \<and> s_truthy (s_data s FinalKey) then Inside (user_of s)
      else Knows (user_of s))"

text \<open>The evidence: the posted password, the posted second factor, a signed challenge.\<close>

definition password_ok :: "'c aenv \<Rightarrow> a_request \<Rightarrow> account \<Rightarrow> 'c aworld \<Rightarrow> bool" where
  "password_ok env rq a w \<longleftrightarrow> admin_user env (Some a) \<and> ac_active a \<and>
     (\<exists>ident path auth named b. ae_authenticate env path = Some auth
        \<and> auth named ident (last_value (rq_post rq) ''password'') = Inr (Some b)
        \<and> a = b\<lparr>ac_backend := Some path\<rparr>
        \<and> (ident = strip (last_value (rq_post rq) ''username'')
           \<or> (\<exists>c \<in> set (aw_accounts w). ident = ac_username c
                \<and> lower (ac_email c) = lower (strip (last_value (rq_post rq) ''username'')))))"

definition posted_code :: "a_request \<Rightarrow> string" where
  "posted_code rq = normalize_recovery_code (strip (last_value (rq_post rq) ''recovery_code''))"

definition factor_ok :: "'c aenv \<Rightarrow> a_request \<Rightarrow> string \<Rightarrow> 'c aworld \<Rightarrow> bool" where
  "factor_ok env rq u w \<longleftrightarrow>
     (\<exists>d \<in> set (aw_totp w). confirmed_totp u d \<and> fst (ae_verify_token env d (posted_token rq)))
   \<or> (\<exists>r \<in> set (aw_codes w). usable_code u r \<and> ae_check_password env (normalize_recovery_code (posted_code rq)) (rc_hash r))"

definition enrolment_ok :: "'c aenv \<Rightarrow> a_request \<Rightarrow> string \<Rightarrow> 'c aworld \<Rightarrow> bool" where
  "enrolment_ok env rq u w \<longleftrightarrow> (\<forall>d \<in> set (aw_totp w). \<not> confirmed_totp u d)
     \<and> (\<exists>d. td_user d = u \<and> fst (ae_verify_token env d (posted_token rq)))"

definition signed_challenge :: "a_request \<Rightarrow> string \<Rightarrow> ceremony \<Rightarrow> string \<Rightarrow> 'c aworld \<Rightarrow> bool" where
  "signed_challenge rq u kind raw w \<longleftrightarrow> (\<exists>c \<in> set (aw_challenges w).
     open_challenge (posted_challenge_id rq) u kind (s_key (aw_session w)) (aw_now w) c \<and> challenge_bytes c = Inr raw)"

definition assertion_ok :: "'c aenv \<Rightarrow> a_request \<Rightarrow> string \<Rightarrow> 'c aworld \<Rightarrow> bool" where
  "assertion_ok env rq u w \<longleftrightarrow> (\<exists>raw rp og n res payload c.
     signed_challenge rq u Authentication raw w \<and> posted_credential rq = Some payload
   \<and> c \<in> set (active_credentials_of u w)
   \<and> ae_verify_authentication env (PDict payload) raw rp og (cr_public_key c) n = Inr res)"

definition registration_ok :: "'c aenv \<Rightarrow> a_request \<Rightarrow> string \<Rightarrow> 'c aworld \<Rightarrow> bool" where
  "registration_ok env rq u w \<longleftrightarrow> (\<exists>raw rp og res payload m.
     signed_challenge rq u Registration raw w \<and> posted_credential rq = Some payload
   \<and> py_int (cfg_get (ae_settings env) ''ADMIN_MAX_DEVICES'' (PInt 5)) = Inr m \<and> active_device_count u w < max 1 m
   \<and> ae_verify_registration env (PDict payload) raw rp og = Inr res)"

inductive layer_step :: "'c aenv \<Rightarrow> a_request \<Rightarrow> 'c aworld \<Rightarrow> layer \<Rightarrow> layer \<Rightarrow> bool"
  for env :: "'c aenv" and rq :: a_request and w :: "'c aworld"
where
  stay: "layer_step env rq w L L"
| leave: "layer_step env rq w L Outside"
| password: "password_ok env rq a w \<Longrightarrow> layer_step env rq w Outside (Knows (ac_pk a))"
| factor: "factor_ok env rq u w \<or> enrolment_ok env rq u w \<Longrightarrow> L \<in> {Knows u, Proved u, Inside u}
    \<Longrightarrow> layer_step env rq w L (Proved u)"
| device: "assertion_ok env rq u w \<or> registration_ok env rq u w \<Longrightarrow> layer_step env rq w (Proved u) (Inside u)"
| restart: "\<exists>d \<in> set (aw_totp w). confirmed_totp u d \<and> fst (ae_verify_token env d (posted_token rq))
    \<Longrightarrow> layer_step env rq w (Inside u) (Knows u)"

inductive_cases layer_step_into_Inside: "layer_step env rq w L (Inside u)"

section \<open>The requests\<close>

datatype a_call = Login | Logout | Setup2fa | Verify2fa | Reset2fa | Regenerate | DeviceLogin | DeviceOptions
  | DeviceVerify | DeviceRegister | DeviceRegisterVerify | Manage management

fun serve :: "'c aenv \<Rightarrow> a_call \<Rightarrow> a_request \<Rightarrow> ('c, a_reply) aio" where
  "serve env Login = paxalia_login env"
| "serve env Logout = paxalia_logout env"
| "serve env Setup2fa = paxalia_2fa_setup env"
| "serve env Verify2fa = paxalia_2fa_verify env"
| "serve env Reset2fa = paxalia_2fa_reset env"
| "serve env Regenerate = paxalia_recovery_regenerate env"
| "serve env DeviceLogin = paxalia_device_login env"
| "serve env DeviceOptions = paxalia_device_login_options env"
| "serve env DeviceVerify = paxalia_device_login_verify env"
| "serve env DeviceRegister = paxalia_device_register env"
| "serve env DeviceRegisterVerify = paxalia_device_register_verify env"
| "serve env (Manage m) = management_view env m"

text \<open>What the isolated authentication middleware puts on the request
  (\<open>PaxaliaIsolatedAdminAuthenticationMiddleware\<close>).\<close>

definition exposed_user :: "'c aenv \<Rightarrow> 'c aworld \<Rightarrow> account option" where
  "exposed_user env w =
     (let s = s_data (aw_session w) in
      if s_truthy (s FinalKey) \<and> s StageKey = Some (SText STAGE_COMPLETE) \<and> s_truthy (s UserKey)
      then (case find_account (s_text (s UserKey)) w of None \<Rightarrow> None
            | Some a \<Rightarrow> if ac_active a \<and> admin_user env (Some a) then Some a else None)
      else None)"

definition from_middleware :: "'c aenv \<Rightarrow> a_request \<Rightarrow> 'c aworld \<Rightarrow> bool" where
  "from_middleware env rq w \<longleftrightarrow> isolated env \<and> rq_isolated_auth rq \<and> rq_user rq = exposed_user env w"

text \<open>Django's \<open>login\<close>, on a session without an administrator, adds none.\<close>

definition login_adds_no_admin :: "'c aenv \<Rightarrow> bool" where
  "login_adds_no_admin env \<longleftrightarrow> (\<forall>a b s es s' es'. ae_login env a b s es = Inr (s', es') \<longrightarrow> user_of s = [] \<longrightarrow> user_of s' = [])"

section \<open>Programs and the session\<close>

definition onS :: "(session \<Rightarrow> bool) \<Rightarrow> 'c aworld \<Rightarrow> bool" where
  "onS P w \<longleftrightarrow> P (aw_session w)"

lemma onS_update [simp]:
  "onS P (w\<lparr>aw_store := a\<rparr>) = onS P w" "onS P (w\<lparr>aw_totp := b\<rparr>) = onS P w" "onS P (w\<lparr>aw_codes := c\<rparr>) = onS P w"
  "onS P (w\<lparr>aw_devices := d\<rparr>) = onS P w" "onS P (w\<lparr>aw_credentials := e\<rparr>) = onS P w"
  "onS P (w\<lparr>aw_challenges := f\<rparr>) = onS P w" "onS P (w\<lparr>aw_events := g\<rparr>) = onS P w" "onS P (w\<lparr>aw_audit := h\<rparr>) = onS P w"
  "onS P (w\<lparr>aw_fresh := i\<rparr>) = onS P w" "onS P (w\<lparr>aw_cache := j\<rparr>) = onS P w" "onS P (w\<lparr>aw_accounts := k\<rparr>) = onS P w"
  "onS P (w\<lparr>aw_session := s\<rparr>) = P s"
  by (simp_all add: onS_def)

lemma S_modify [keeps_intros]: "(\<And>w. onS P w \<Longrightarrow> onS P (f w)) \<Longrightarrow> keeps (onS P) (modify f)"
  by (intro keeps_modify)

lemma S_draw [keeps_intros]: "keeps (onS P) draw"
  by (simp add: keeps_def wp_def draw_def)

lemma S_on_cache [keeps_intros]: "keeps (onS P) (on_cache m)"
  by (auto simp: keeps_def wp_def on_cache_def onS_def split: prod.splits sum.splits)

lemma S_atomic [keeps_intros]: "keeps (onS P) m \<Longrightarrow> keeps (onS P) (a_atomic m)"
  by (auto simp: keeps_def wp_def a_atomic_def onS_def split: prod.splits sum.splits)

lemma S_with_session: "(\<And>s. P s \<Longrightarrow> P (f s)) \<Longrightarrow> keeps (onS P) (with_session f)"
  unfolding with_session_def by (intro keeps_intros) (simp add: onS_def)

lemma S_rate [keeps_intros]: "keeps (onS P) (rate_allowed env s l wd p)" "keeps (onS P) (rate_clear env s p)"
  "keeps (onS P) (within_limit env s lm rq a)"
  unfolding rate_allowed_def rate_clear_def within_limit_def by (intro keeps_intros)+

lemma S_log [keeps_intros]: "keeps (onS P) (log_action env rq s)"
  unfolding log_action_def by (intro keeps_intros) simp

lemma S_verify_token [keeps_intros]: "keeps (onS P) (verify_token env d t)"
  unfolding verify_token_def Let_def by (intro keeps_intros) simp

lemma S_any_token [keeps_intros]: "keeps (onS P) (any_token env t ds)"
  by (induction ds) (auto intro!: keeps_intros)

lemma S_draw_chars [keeps_intros]: "keeps (onS P) (draw_chars env n)"
  by (induction n) (auto intro!: keeps_intros)

lemma S_new_codes [keeps_intros]: "keeps (onS P) (new_codes env pk now n)"
  by (induction n) (auto simp: new_recovery_code_def intro!: keeps_intros)

lemma S_generate [keeps_intros]: "keeps (onS P) (generate_recovery_codes env a)"
  unfolding generate_recovery_codes_def by (intro keeps_intros) simp_all

lemma S_check_code [keeps_intros]: "keeps P (check_recovery_code env a s)"
  unfolding check_recovery_code_def Let_def by (intro keeps_intros)

lemma S_use_code [keeps_intros]: "keeps (onS P) (use_recovery_code env r)"
  unfolding use_recovery_code_def by (intro keeps_intros) simp

lemma S_verify_second_factor [keeps_intros]: "keeps (onS P) (verify_second_factor env a t r)"
  unfolding verify_second_factor_def by (intro keeps_intros)

lemma S_create_challenge [keeps_intros]: "keeps (onS P) (create_challenge env a k h)"
  unfolding create_challenge_def Let_def by (intro keeps_intros) simp_all

lemma keeps_case_list [keeps_intros]:
  "keeps P m \<Longrightarrow> (\<And>x xs. keeps P (n x xs)) \<Longrightarrow> keeps P (case v of [] \<Rightarrow> m | x # xs \<Rightarrow> n x xs)"
  by (cases v) auto

lemma S_user_handle [keeps_intros]: "keeps (onS P) (user_handle_for env a)"
  unfolding user_handle_for_def by (intro keeps_intros)

lemma S_registration_options [keeps_intros]: "keeps (onS P) (registration_options env rq a)"
  unfolding registration_options_def by (intro keeps_intros) simp

lemma S_authentication_options [keeps_intros]: "keeps (onS P) (authentication_options env rq a)"
  unfolding authentication_options_def by (intro keeps_intros)

lemma S_get_challenge [keeps_intros]: "keeps P (get_challenge env cid a k)"
  unfolding get_challenge_def by (intro keeps_intros)

lemma S_consume [keeps_intros]: "keeps (onS P) (consume_challenge env c)"
  unfolding consume_challenge_def by (intro keeps_intros) simp

lemma S_verify_registration [keeps_intros]: "keeps (onS P) (verify_registration env rq a c p n)"
  unfolding verify_registration_def Let_def by (intro keeps_intros) simp_all

lemma S_verify_authentication [keeps_intros]: "keeps (onS P) (verify_authentication env rq a c p)"
  unfolding verify_authentication_def Let_def by (intro keeps_intros) simp_all

lemma keeps_missing [keeps_intros]: "keeps P m \<Longrightarrow> keeps P (case e of DoesNotExist \<Rightarrow> m | _ \<Rightarrow> raise e)"
  by (cases e) (auto intro: keeps_intros)

lemma S_ceremonies [keeps_intros]: "keeps (onS P) (assertion_ceremony env rq a cid p)"
  "keeps (onS P) (registration_ceremony env rq a cid p)"
  unfolding assertion_ceremony_def registration_ceremony_def
  by (intro keeps_intros)+

lemma S_record_login [keeps_intros]: "keeps (onS P) (record_isolated_admin_login env a c)"
  unfolding record_isolated_admin_login_def Let_def by (intro keeps_intros) simp

lemma S_attach [keeps_intros]: "isolated env \<Longrightarrow> keeps (onS P) (attach_device env a c)"
  unfolding attach_device_def isolated_def by simp (intro keeps_intros)

lemma S_close [keeps_intros]: "keeps (onS P) (close_logins env pk key)" "isolated env \<Longrightarrow> keeps (onS P) (end_sessions env Q)"
proof -
  show "keeps (onS P) (close_logins env pk key)"
    unfolding close_logins_def by (intro keeps_intros) simp
  show "isolated env \<Longrightarrow> keeps (onS P) (end_sessions env Q)"
    unfolding end_sessions_def isolated_def whenever_def close_events_def
    by simp (intro keeps_intros, simp)
qed

text \<open>The session writes, by what they do to a predicate of the session.\<close>

lemma S_put: "(\<And>s. P s \<Longrightarrow> P (s_put k v s)) \<Longrightarrow> keeps (onS P) (session_put k v)"
  unfolding session_put_def by (rule S_with_session)

lemma S_pop: "(\<And>s. P s \<Longrightarrow> P (s_pop k s)) \<Longrightarrow> keeps (onS P) (session_pop k)"
  unfolding session_pop_def by (rule S_with_session)

text \<open>Predicates that see only the layer and the administrator.\<close>

definition at :: "string \<Rightarrow> layer set \<Rightarrow> session \<Rightarrow> bool" where
  "at u S s \<longleftrightarrow> user_of s = u \<and> layer_of s \<in> S"

lemma at_put [simp]:
  "k \<notin> {UserKey, StageKey, FinalKey} \<Longrightarrow> at u S (s_put k v s) = at u S s"
  "k \<notin> {UserKey, StageKey, FinalKey} \<Longrightarrow> at u S (s_pop k s) = at u S s"
  "at u S (s\<lparr>s_key := x\<rparr>) = at u S s" "at u S (s\<lparr>s_modified := y\<rparr>) = at u S s"
  by (cases k; simp add: at_def layer_of_def user_of_def s_put_def s_pop_def)+

lemma layer_2fa:
  "user_of s = u \<Longrightarrow> u \<noteq> [] \<Longrightarrow> stage \<in> {STAGE_2FA, STAGE_DEVICE} \<Longrightarrow> layer_of (s_put StageKey (SText stage) s) = Proved u"
  by (auto simp: layer_of_def user_of_def s_put_def second_factor_done_def)

lemma at_stage:
  "u \<noteq> [] \<Longrightarrow> Proved u \<in> S \<Longrightarrow> stage \<in> {STAGE_2FA, STAGE_DEVICE} \<Longrightarrow> at u T s \<Longrightarrow> at u S (s_put StageKey (SText stage) s)"
  by (auto simp: at_def layer_2fa) (simp_all add: user_of_def s_put_def)

section \<open>Requests that do not climb\<close>

definition steps :: "'c aenv \<Rightarrow> a_request \<Rightarrow> 'c aworld \<Rightarrow> 'c aworld \<Rightarrow> bool" where
  "steps env rq w v \<longleftrightarrow> layer_step env rq w (layer_of (aw_session w)) (layer_of (aw_session v))"

abbreviation implements :: "'c aenv \<Rightarrow> a_request \<Rightarrow> ('c, 'a) aio \<Rightarrow> 'c aworld \<Rightarrow> bool" where
  "implements env rq m w \<equiv> wp m (\<lambda>_. steps env rq w) (\<lambda>_. steps env rq w) w"

lemma wp_onS:
  assumes "keeps (onS P) m" "P (aw_session v)" "\<And>u. P (aw_session u) \<Longrightarrow> R u"
  shows "wp m (\<lambda>_. R) (\<lambda>_. R) v"
  by (rule wp_keeps[OF assms(1)]) (use assms(2,3) in \<open>simp_all add: onS_def\<close>)

lemma implements_stay:
  assumes "keeps (onS (\<lambda>s. layer_of s = layer_of (aw_session w))) m"
  shows "implements env rq m w"
  by (rule wp_onS[OF assms]) (auto simp: steps_def intro: layer_step.stay)

lemma implements_leave:
  assumes "keeps (onS (\<lambda>s. layer_of s \<in> {layer_of (aw_session w), Outside})) m"
  shows "implements env rq m w"
  by (rule wp_onS[OF assms]) (auto simp: steps_def intro: layer_step.stay layer_step.leave)

lemma layer_other_keys [simp]:
  "k \<notin> {UserKey, StageKey, FinalKey} \<Longrightarrow> layer_of (s_put k v s) = layer_of s"
  "k \<notin> {UserKey, StageKey, FinalKey} \<Longrightarrow> layer_of (s_pop k s) = layer_of s"
  "layer_of (s\<lparr>s_key := x\<rparr>) = layer_of s" "layer_of (s\<lparr>s_modified := y\<rparr>) = layer_of s"
  by (cases k; simp add: layer_of_def user_of_def s_put_def s_pop_def)+

lemma layer_emptied [simp]:
  "layer_of (s_data_update (\<lambda>_ _. None) s) = Outside" "layer_of empty_session = Outside"
  by (simp_all add: layer_of_def user_of_def empty_session_def)

lemma S_session_delete [keeps_intros]: "keeps (onS P) (session_delete env)"
  unfolding session_delete_def by (intro keeps_intros) simp

lemma leave_keeps [keeps_intros]: "keeps (onS (\<lambda>s. layer_of s \<in> {L, Outside})) (leave_session env)"
  unfolding leave_session_def host_logout_def session_flush_def
  by (intro keeps_intros S_with_session) simp_all

lemma plain_views:
  "keeps (onS P) (paxalia_recovery_regenerate env rq)" "keeps (onS P) (paxalia_device_login env rq)"
  "keeps (onS P) (paxalia_device_login_options env rq)"
  unfolding paxalia_recovery_regenerate_def paxalia_device_login_def paxalia_device_login_options_def
  by (intro keeps_intros | split bool.split, intro conjI impI | split option.split, intro conjI impI allI)+

lemma register_keeps: "keeps (onS (\<lambda>s. layer_of s = L)) (paxalia_device_register env rq)"
  unfolding paxalia_device_register_def by (intro keeps_intros S_put) simp

lemma host_off: "isolated env \<Longrightarrow> host_authentication_enabled env = False"
  by (simp add: isolated_def)

lemmas off_simps = not_False_eq_True if_True if_False simp_thms whenever_def

lemma logout_keeps:
  assumes "isolated env"
  shows "keeps (onS (\<lambda>s. layer_of s \<in> {L, Outside})) (paxalia_logout env rq)"
  by (simp only: paxalia_logout_def Let_def host_off[OF assms] off_simps)
     (intro keeps_intros S_with_session, simp_all add: layer_of_def user_of_def empty_session_def)

lemma manage_keeps:
  assumes "isolated env"
  shows "keeps (onS (\<lambda>s. layer_of s \<in> {L, Outside})) (manage env m rq a)"
  by (cases m; simp only: manage.simps admin_device_rename_def admin_device_revoke_def admin_session_revoke_def
      admin_sessions_revoke_others_def admin_sessions_revoke_all_def Let_def host_off[OF assms] off_simps;
      intro keeps_intros S_close(2)[OF assms]; simp add: set_device_def)

lemma management_keeps:
  assumes "isolated env"
  shows "keeps (onS (\<lambda>s. layer_of s \<in> {L, Outside})) (management_view env m rq)"
  by (simp only: management_view_def admin_security_required_def privileged_view_gate_def post_only_def
      host_off[OF assms] off_simps option.case)
     (intro keeps_intros manage_keeps[OF assms] reads_begin_isolated, simp_all add: host_off[OF assms])

section \<open>The second factor\<close>

lemma steps_same [simp]: "aw_session v = aw_session w \<Longrightarrow> steps env rq w v"
  by (simp add: steps_def layer_step.stay)

lemma wp_reads: "keeps ((=) w) m \<Longrightarrow> (\<And>x. Q x w) \<Longrightarrow> (\<And>e. E e w) \<Longrightarrow> wp m Q E w"
  by (rule wp_keeps[where P = "(=) w"]) auto

lemma wp_limit:
  "(\<And>b c. Q b (w\<lparr>aw_cache := c\<rparr>)) \<Longrightarrow> (\<And>e c. E e (w\<lparr>aw_cache := c\<rparr>)) \<Longrightarrow> wp (within_limit env s lm rq a) Q E w"
  unfolding within_limit_def rate_allowed_def on_cache_def wp_bind wp_lift
  by (auto simp: wp_def ret_def aworld.defs split: sum.splits prod.splits)
     (metis (full_types) aworld.surjective aworld.update_convs(13))+

lemma shown_int: "show_int t \<noteq> []"
proof -
  have "show_nat n \<noteq> []" for n by (subst show_nat.simps) simp
  then show ?thesis by (simp add: show_int_def)
qed

lemma truthy_text: "s_truthy x \<Longrightarrow> s_text x \<noteq> []"
  by (induction x rule: s_truthy.induct) (simp_all add: shown_int)

lemma find_account_pk: "find_account pk w = Some a \<Longrightarrow> ac_pk a = pk"
  by (auto simp: find_account_def dest: found)

lemma wp_pending_user:
  assumes "\<And>a. user_of (aw_session w) = ac_pk a \<Longrightarrow> ac_pk a \<noteq> [] \<Longrightarrow> admin_user env (Some a)
      \<Longrightarrow> find_account (user_of (aw_session w)) w = Some a \<Longrightarrow> Q (Some a) w"
    and "Q None w" "\<And>e. E e w"
  shows "wp (pending_user env) Q E w"
proof (cases "s_truthy (s_data (aw_session w) UserKey) \<and> \<not> ae_fails env TAccount")
  case True
  then show ?thesis
    using assms truthy_text[of "s_data (aw_session w) UserKey"]
    by (cases "find_account (user_of (aw_session w)) w")
       (auto simp: wp_def pending_user_def run_simps user_of_def find_account_pk)
next
  case False
  with assms(2,3) show ?thesis by (auto simp: wp_def pending_user_def run_simps)
qed

lemma any_token_evidence:
  "any_token env token ds w = (Inr True, v) \<Longrightarrow> \<exists>d \<in> set ds. fst (ae_verify_token env d token)"
  by (induction ds arbitrary: w)
     (auto simp: run_simps verify_token_def split: prod.splits if_splits sum.splits)

lemma any_token_codes: "keeps (\<lambda>v. aw_codes v = cs) (any_token env token ds)"
proof (induction ds)
  case (Cons d ds)
  then show ?case
    unfolding any_token.simps verify_token_def Let_def by (intro keeps_intros) simp_all
qed (simp add: keeps_ret)

lemma check_code_evidence:
  "check_recovery_code env a s w = (Inr (Some r), v) \<Longrightarrow>
     r \<in> set (aw_codes w) \<and> usable_code (ac_pk a) r \<and> ae_check_password env (normalize_recovery_code s) (rc_hash r)"
  by (auto simp: check_recovery_code_def recovery_candidates_def Let_def run_simps
      dest!: found in_set_takeD split: if_splits)

lemma onS_run: "keeps (onS (\<lambda>s. s = aw_session w)) m \<Longrightarrow> m w = (r, v) \<Longrightarrow> aw_session v = aw_session w"
  using keepsD[of "onS (\<lambda>s. s = aw_session w)" m w] by (auto simp: wp_def onS_def split: sum.splits)

lemma wp_factor:
  assumes "\<And>ok used v. aw_session v = aw_session w \<Longrightarrow>
      (ok \<Longrightarrow> (\<exists>d \<in> set (aw_totp w). confirmed_totp (ac_pk a) d \<and> fst (ae_verify_token env d token))
         \<or> (\<exists>r \<in> set (aw_codes w). usable_code (ac_pk a) r \<and> ae_check_password env (normalize_recovery_code rec) (rc_hash r)))
      \<Longrightarrow> Q (ok, used) v"
    and "\<And>e v. aw_session v = aw_session w \<Longrightarrow> E e v"
  shows "wp (verify_second_factor env a token rec) Q E w"
proof (rule wpI)
  fix x v
  assume run: "verify_second_factor env a token rec w = (Inr x, v)"
  have s: "aw_session v = aw_session w"
    by (rule onS_run[OF S_verify_second_factor run])
  obtain ok used where x: "x = (ok, used)" by fastforce
  show "Q x v"
    unfolding x
  proof (rule assms(1)[OF s])
    assume ok
    let ?ds = "filter (confirmed_totp (ac_pk a)) (aw_totp w)"
    obtain b u where b: "(if token = [] then ret False else any_token env token ?ds) w = (b, u)" by fastforce
    have u: "aw_codes u = aw_codes w"
      using keepsD[OF any_token_codes refl, of env token ?ds w] b by (auto simp: wp_def ret_def split: if_splits sum.splits)
    show "(\<exists>d \<in> set (aw_totp w). confirmed_totp (ac_pk a) d \<and> fst (ae_verify_token env d token))
       \<or> (\<exists>r \<in> set (aw_codes w). usable_code (ac_pk a) r \<and> ae_check_password env (normalize_recovery_code rec) (rc_hash r))"
    proof (cases "b = Inr True")
      case True
      with b have "any_token env token ?ds w = (Inr True, u)" by (auto simp: ret_def split: if_splits)
      from any_token_evidence[OF this] show ?thesis by auto
    next
      case False
      with run b x \<open>ok\<close> obtain r t where "check_recovery_code env a rec u = (Inr (Some r), t)"
        by (auto simp: verify_second_factor_def a_atomic_def run_simps split: sum.splits option.splits prod.splits if_splits)
      from check_code_evidence[OF this] u show ?thesis by auto
    qed
  qed
next
  fix e v
  assume run: "verify_second_factor env a token rec w = (Inl e, v)"
  show "E e v"
    by (rule assms(2)[OF onS_run[OF S_verify_second_factor run]])
qed

text \<open>Whatever stops half-way, a climb ends at the old layer or at the new one.\<close>

lemma climbs:
  assumes "keeps (onS (at u {layer_of (aw_session w), L})) m"
    and "user_of (aw_session w) = u" "aw_session v = aw_session w" "layer_step env rq w (layer_of (aw_session w)) L"
  shows "wp m (\<lambda>_. steps env rq w) (\<lambda>_. steps env rq w) v"
  by (rule wp_onS[OF assms(1)]) (use assms(2-4) in \<open>auto simp: at_def steps_def intro: layer_step.stay\<close>)

lemma at_set_2fa [keeps_intros]:
  "u \<noteq> [] \<Longrightarrow> keeps (onS (at u {L, Proved u})) set_2fa_verified"
  "u \<noteq> [] \<Longrightarrow> keeps (onS (at u {L, Proved u})) set_device_stage"
  unfolding set_2fa_verified_def set_device_stage_def
  by (intro S_put, erule at_stage[rotated 3]; simp)+

lemma layer_cases: "user_of s = u \<Longrightarrow> u \<noteq> [] \<Longrightarrow> layer_of s \<in> {Knows u, Proved u, Inside u}"
  by (auto simp: layer_of_def)

lemma verify_implements: "implements env rq (paxalia_2fa_verify env rq) w"
proof -
  have tail: "wp (seq (whenever used (log_action env rq lg)) (if ok
       then seq (rate_clear env sc ps) (seq set_2fa_verified (seq set_device_stage (ret r))) else page))
     (\<lambda>_. steps env rq w) (\<lambda>_. steps env rq w) v"
    if "user_of (aw_session w) \<noteq> []" "aw_session v = aw_session w" "ok \<Longrightarrow> factor_ok env rq (user_of (aw_session w)) w"
      "\<And>P. keeps (onS P) page" for v ok used r page lg sc ps
  proof (cases ok)
    case True
    have "layer_step env rq w (layer_of (aw_session w)) (Proved (user_of (aw_session w)))"
      using layer_cases[OF refl that(1)] that(3)[OF True] by (blast intro: layer_step.factor)
    with True that(1,2) show ?thesis
      by (auto intro!: climbs keeps_intros)
  next
    case False
    then have "keeps (onS (\<lambda>s. s = aw_session w)) (seq (whenever used (log_action env rq lg)) (if ok
       then seq (rate_clear env sc ps) (seq set_2fa_verified (seq set_device_stage (ret r))) else page))"
      using that(4) by (auto intro!: keeps_intros)
    then show ?thesis by (rule wp_onS) (simp_all add: that(2))
  qed
  show ?thesis
    unfolding paxalia_2fa_verify_def Let_def
    apply (intro tail keeps_intros wp_ifI wp_bindI wp_pending_user wp_optionI wp_retI wp_on_tableI wp_getsI wp_limit wp_factor wp_prodI)
    apply (auto simp: factor_ok_def posted_code_def)
    done
qed

section \<open>Enrolment and reset\<close>

lemma wp_flow:
  assumes "from_middleware env rq w"
    and "\<And>a. user_of (aw_session w) = ac_pk a \<Longrightarrow> ac_pk a \<noteq> [] \<Longrightarrow> admin_user env (Some a) \<Longrightarrow> Q (Some a) w"
    and "Q None w" "\<And>e. E e w"
  shows "wp (flow_user env rq) Q E w"
proof -
  obtain r v where r: "admin_session_is_valid env rq w = (r, v)" by fastforce
  have v: "v = w" by (rule reads_result[of w "admin_session_is_valid env rq", OF _ r]) (intro keeps_intros)
  show ?thesis
  proof (cases "ae_fails env TAccount \<and> s_truthy (s_data (aw_session w) UserKey)")
    case True
    with assms(4) show ?thesis by (simp add: flow_user_def pending_user_def wp_def run_simps)
  next
    case False
    have hidden: "rq_user rq = None" if "find_account (user_of (aw_session w)) w = None \<or>
        (\<exists>a. find_account (user_of (aw_session w)) w = Some a \<and> \<not> admin_user env (Some a))
        \<or> \<not> s_truthy (s_data (aw_session w) UserKey)"
      using assms(1) that by (auto simp: from_middleware_def exposed_user_def Let_def user_of_def)
    show ?thesis
      using False assms(2-4) hidden truthy_text[of "s_data (aw_session w) UserKey"] r v
      by (cases "find_account (user_of (aw_session w)) w"; cases "s_truthy (s_data (aw_session w) UserKey)")
         (auto simp: flow_user_def pending_user_def wp_def run_simps user_of_def find_account_pk)
  qed
qed

lemma first_some_member: "first_some f xs = Some y \<Longrightarrow> \<exists>x \<in> set xs. f x = Some y"
  by (induction xs) (auto split: option.splits)

lemma newest_totp_member: "newest_totp ds = Some d \<Longrightarrow> d \<in> set ds"
  by (induction ds arbitrary: d) (auto split: option.splits if_splits)

lemma totp_device_owner: "totp_device_of pk ds = Some d \<Longrightarrow> td_user d = pk"
  unfolding totp_device_of_def Let_def
  by (auto dest!: first_some_member newest_totp_member split: if_splits)

lemma wp_verify_token:
  assumes "\<And>v. aw_session v = aw_session w \<Longrightarrow> Q (fst (ae_verify_token env d t)) v" "\<And>e. E e w"
  shows "wp (verify_token env d t) Q E w"
  using assms by (auto simp: wp_def verify_token_def run_simps split: prod.splits)

lemma enrolled_keeps:
  "u \<noteq> [] \<Longrightarrow> keeps (onS (at u {L, Proved u})) (enrolled env rq a d)"
  unfolding enrolled_def by (intro keeps_intros) simp_all

lemma wp_drawI: "Q (aw_fresh w) (w\<lparr>aw_fresh := Suc (aw_fresh w)\<rparr>) \<Longrightarrow> wp draw Q E w"
  by (simp add: wp_def draw_def)

lemma enrolment_device:
  "fst (ae_verify_token env d t) \<Longrightarrow> td_user d = u \<Longrightarrow> \<exists>d. td_user d = u \<and> fst (ae_verify_token env d t)"
  by blast

lemma setup_implements:
  assumes "from_middleware env rq w"
  shows "implements env rq (paxalia_2fa_setup env rq) w"
proof -
  have tail: "wp (if ok then enrolled env rq a d else ret r) (\<lambda>_. steps env rq w) (\<lambda>_. steps env rq w) v"
    if "user_of (aw_session w) \<noteq> []" "aw_session v = aw_session w"
      "ok \<Longrightarrow> enrolment_ok env rq (user_of (aw_session w)) w" for ok a d r v
  proof (cases ok)
    case True
    have "layer_step env rq w (layer_of (aw_session w)) (Proved (user_of (aw_session w)))"
      using layer_cases[OF refl that(1)] that(3)[OF True] by (blast intro: layer_step.factor)
    with True that(1,2) show ?thesis by (auto intro!: climbs enrolled_keeps)
  qed (simp add: that(2) wp_ret)
  show ?thesis
    unfolding paxalia_2fa_setup_def has_confirmed_totp_def Let_def
    apply (intro tail wp_verify_token wp_ifI wp_bindI wp_flow[OF assms] wp_optionI wp_retI wp_on_tableI wp_getsI wp_limit
        wp_reads[where m = "session_get StageKey"] keeps_intros wp_seqI wp_modifyI wp_drawI)
    apply (auto simp: enrolment_ok_def list_ex_iff otp_ready_def dest: totp_device_owner[OF sym] intro: enrolment_device)
    done
qed

text \<open>The administrator a final session exposes is the one it belongs to.\<close>

lemma exposed_inside:
  "exposed_user env w = Some a \<Longrightarrow> user_of (aw_session w) = ac_pk a \<and> ac_pk a \<noteq> [] \<and> admin_user env (Some a)
     \<and> layer_of (aw_session w) = Inside (ac_pk a)"
  by (auto simp: exposed_user_def Let_def user_of_def find_account_pk layer_of_def second_factor_done_def
      STAGE_COMPLETE_def STAGE_2FA_def STAGE_DEVICE_def dest: truthy_text split: if_splits option.splits)

lemma layer_primary:
  "user_of s \<noteq> [] \<Longrightarrow> s_data s StageKey = Some (SText STAGE_PRIMARY) \<Longrightarrow> layer_of s = Knows (user_of s)"
  by (simp add: layer_of_def second_factor_done_def STAGE_PRIMARY_def STAGE_2FA_def STAGE_DEVICE_def STAGE_COMPLETE_def)

text \<open>\<open>set_pending_primary\<close> leaves the session at its old layer or at the first one.\<close>

definition primary :: "string \<Rightarrow> session \<Rightarrow> bool" where
  "primary u s \<longleftrightarrow> user_of s = u \<and> s_data s StageKey = Some (SText STAGE_PRIMARY)"

lemma primary_put [simp]:
  "k \<notin> {UserKey, StageKey} \<Longrightarrow> primary u (s_put k v s) = primary u s"
  "k \<notin> {UserKey, StageKey} \<Longrightarrow> primary u (s_pop k s) = primary u s"
  "primary u (s\<lparr>s_modified := y\<rparr>) = primary u s"
  by (cases k; simp add: primary_def user_of_def s_put_def s_pop_def)+

lemma cycle_key_layer: "keeps (onS (\<lambda>s. layer_of s = L)) (cycle_key env)"
  unfolding cycle_key_def session_create_def by (intro keeps_intros) (simp_all add: onS_def)

lemma set_pending_primary_layer:
  fixes env :: "'c aenv" and R :: "'c aworld \<Rightarrow> bool"
  assumes "\<And>v. layer_of (aw_session v) = layer_of (aw_session w) \<Longrightarrow> R v"
    and "\<And>v. layer_of (aw_session v) = Knows (ac_pk a) \<Longrightarrow> R v" "ac_pk a \<noteq> []"
  shows "wp (set_pending_primary env rq a b n) (\<lambda>_. R) (\<lambda>_. R) w"
proof -
  let ?same = "\<lambda>s. layer_of s = layer_of (aw_session w)"
  have head: "wp m Q (\<lambda>_. R) v" if "keeps (onS ?same) m" "?same (aw_session v)" "\<And>x u. ?same (aw_session u) \<Longrightarrow> Q x u"
    for m :: "('c, 'd) aio" and Q v
    by (rule wp_keeps[OF that(1)]) (use that(2,3) assms(1) in \<open>simp_all add: onS_def\<close>)
  have tail: "wp m (\<lambda>_. R) (\<lambda>_. R) v" if "keeps (onS (primary (ac_pk a))) m" "primary (ac_pk a) (aw_session v)"
    for m :: "('c, unit) aio" and v
    by (rule wp_onS[OF that]) (use assms(2,3) in \<open>auto simp: primary_def layer_primary\<close>)
  show ?thesis
    unfolding set_pending_primary_def for_each.simps
    apply (rule wp_bindI, rule head)
      apply (intro keeps_intros, rule refl)
    apply (rule wp_seqI, rule head, rule cycle_key_layer, assumption)
    apply (rule wp_seqI, subst session_put_def, subst with_session_def, rule wp_modifyI)
    apply (rule wp_seqI, subst session_put_def, subst with_session_def, rule wp_modifyI)
    apply (rule wp_seqI, subst session_put_def, subst with_session_def, rule wp_modifyI)
    apply (rule tail)
     apply (intro keeps_intros S_put S_pop S_with_session)
          apply simp_all
    apply (auto simp: primary_def user_of_def s_put_def s_pop_def)
    done
qed

lemma wp_any_token:
  assumes "\<And>ok v. aw_session v = aw_session w \<Longrightarrow> (ok \<Longrightarrow> \<exists>d \<in> set ds. fst (ae_verify_token env d t)) \<Longrightarrow> Q ok v"
    and "\<And>e v. aw_session v = aw_session w \<Longrightarrow> E e v"
  shows "wp (any_token env t ds) Q E w"
proof (rule wpI)
  fix ok v
  assume run: "any_token env t ds w = (Inr ok, v)"
  show "Q ok v" by (rule assms(1)[OF onS_run[OF S_any_token run]]) (use run any_token_evidence in \<open>cases ok; auto\<close>)
next
  fix e v
  assume "any_token env t ds w = (Inl e, v)"
  from onS_run[OF S_any_token this] show "E e v" by (rule assms(2))
qed

lemma wp_same:
  assumes "keeps (onS (\<lambda>s. s = aw_session v)) m" "\<And>x u. aw_session u = aw_session v \<Longrightarrow> Q x u" "\<And>e u. aw_session u = aw_session v \<Longrightarrow> E e u"
  shows "wp m Q E v"
  by (rule wp_keeps[OF assms(1)]) (use assms(2,3) in \<open>simp_all add: onS_def\<close>)

text \<open>Down to the first layer with a new key, then anything that leaves the layer alone.\<close>

lemma primary_then:
  assumes "\<And>P. keeps (onS P) k" "layer_of (aw_session v) = layer_of (aw_session w)" "ac_pk a \<noteq> []"
    and "layer_step env rq w (layer_of (aw_session w)) (Knows (ac_pk a))"
  shows "wp (seq (set_pending_primary env rq a b n) k) (\<lambda>_. steps env rq w) (\<lambda>_. steps env rq w) v"
proof -
  let ?R = "onS (\<lambda>s. layer_of s \<in> {layer_of (aw_session w), Knows (ac_pk a)})"
  have imp: "?R u \<Longrightarrow> steps env rq w u" for u
    using assms(4) by (auto simp: onS_def steps_def intro: layer_step.stay)
  have "wp (set_pending_primary env rq a b n) (\<lambda>_. ?R) (\<lambda>_. ?R) v"
    by (rule set_pending_primary_layer) (use assms(2,3) in \<open>simp_all add: onS_def\<close>)
  then show ?thesis
    unfolding wp_seq
    by (rule wp_mono) (use imp in \<open>auto intro!: wp_keeps[OF assms(1)]\<close>)
qed

lemma reset_implements:
  assumes "from_middleware env rq w"
  shows "implements env rq (paxalia_2fa_reset env rq) w"
proof -
  have user: "rq_user rq = Some a \<Longrightarrow> layer_of (aw_session w) = Inside (ac_pk a) \<and> ac_pk a \<noteq> []" for a
    using assms exposed_inside[of env w a] by (simp add: from_middleware_def)
  show ?thesis
  proof (cases "rq_user rq")
    case None
    have "keeps (onS (\<lambda>s. layer_of s = layer_of (aw_session w))) (paxalia_2fa_reset env rq)"
      unfolding paxalia_2fa_reset_def None
      by (rule keeps_bind, intro keeps_intros, rename_tac b, case_tac b) (simp_all add: keeps_raise)
    then show ?thesis by (rule implements_stay)
  next
    case (Some a)
    note user[OF Some, simp]
    show ?thesis
      unfolding paxalia_2fa_reset_def Some
      apply (rule wp_bindI, rule wp_reads, intro keeps_intros)
       apply (rename_tac valid, case_tac valid)
        apply (simp only: prod.case bool.case option.case)
        apply (intro primary_then wp_limit wp_any_token wp_ifI wp_retI wp_bindI wp_on_tableI wp_getsI
            wp_seqI[where m = "on_table env t (modify f)" for env t f] wp_modifyI
            wp_same[where m = "authentication_backend_for env u r" for env u r] wp_same[where m = "session_get NextKey"] keeps_intros)
       apply (simp_all add: wp_raise)
      apply (blast intro: layer_step.restart)
      done
  qed
qed

section \<open>The password\<close>

text \<open>What the login view keeps until it accepts a password.\<close>

definition calm :: "'c aworld \<Rightarrow> 'c aworld \<Rightarrow> bool" where
  "calm w v \<longleftrightarrow> aw_accounts v = aw_accounts w \<and> user_of (aw_session v) = user_of (aw_session w)
     \<and> layer_of (aw_session v) = layer_of (aw_session w)"

lemma calm_refl [simp]: "calm w w"
  by (simp add: calm_def)

lemma calm_steps: "calm w v \<Longrightarrow> steps env rq w v"
  by (simp add: calm_def steps_def layer_step.stay)

lemma user_other_keys [simp]: "k \<noteq> UserKey \<Longrightarrow> user_of (s_put k v s) = user_of s" "k \<noteq> UserKey \<Longrightarrow> user_of (s_pop k s) = user_of s"
  by (simp_all add: user_of_def s_put_def s_pop_def)

lemma calm_on_cache [keeps_intros]: "keeps (calm w) (on_cache m)"
  by (auto simp: keeps_def wp_def on_cache_def calm_def split: prod.splits sum.splits)

lemma calm_rate [keeps_intros]: "keeps (calm w) (rate_allowed env s l wd p)" "keeps (calm w) (rate_clear env s p)"
  unfolding rate_allowed_def rate_clear_def by (intro keeps_intros)+

lemma calm_intent [keeps_intros]: "keeps (calm w) (mark_admin_intent env rq n)"
  unfolding mark_admin_intent_def session_put_def session_pop_def with_session_def
  by (intro keeps_intros) (simp_all add: calm_def, simp add: user_of_def)

lemma wp_login_form:
  assumes "\<And>a. admin_user env (Some a) \<Longrightarrow> password_ok env rq a w \<Longrightarrow> Q (Some a) w"
    "\<And>a. \<not> admin_user env (Some a) \<Longrightarrow> Q (Some a) w" "Q None w" "\<And>e. E e w"
  shows "wp (login_form env rq) Q E w"
proof -
  have isolated: "admin_user env (Some a) \<Longrightarrow> ac_active a \<Longrightarrow> authenticate_isolated env ident (last_value (rq_post rq) ''password'') = Inr (Some a)
      \<Longrightarrow> ident = strip (last_value (rq_post rq) ''username'')
        \<or> (\<exists>c \<in> set (aw_accounts w). ident = ac_username c \<and> lower (ac_email c) = lower (strip (last_value (rq_post rq) ''username'')))
      \<Longrightarrow> password_ok env rq a w" for a ident
    unfolding password_ok_def authenticate_isolated_def
    by (auto simp: bind_res_eq_Inr try_backend_def dest!: first_some_member split: option.splits sum.splits exn.splits) metis+
  have reads: "keeps ((=) w) (login_form env rq)"
    unfolding login_form_def authenticate_by_email_def Let_def by (intro keeps_intros)
  show ?thesis
  proof (rule wpI)
    fix u v
    assume run: "login_form env rq w = (Inr u, v)"
    have v: "v = w" by (rule reads_result[OF reads run])
    have "password_ok env rq a w" if "u = Some a" "admin_user env (Some a)" for a
      using run[unfolded v] that
      by (auto simp: login_form_def authenticate_by_email_def Let_def run_simps intro: isolated
          split: if_splits sum.splits option.splits list.splits dest!: filter_eq_ConsD)
    then show "Q u v" using assms(1-3) v by (cases u) auto
  next
    fix e v
    assume "login_form env rq w = (Inl e, v)"
    from reads_result[OF reads this] show "E e v" using assms(4) by simp
  qed
qed

end
