(* ===== verification/Admin_Climb.thy ===== *)
theory Admin_Climb
  imports Admin_Layers
begin

text \<open>
  The requests that climb: the password opens the first layer, a WebAuthn ceremony the last; every
  request to the authentication views is one step of the layer machine. What a completed ceremony is
  worth, which recovery codes work, and where the login cannot recover from an ended session.
\<close>

section \<open>The password\<close>

lemma wp_calm:
  assumes "keeps (calm w) m" "calm w v" "\<And>x u. calm w u \<Longrightarrow> Q x u"
  shows "wp m Q (\<lambda>_. steps env rq w) v"
  by (rule wp_keeps[OF assms(1,2)]) (use assms(3) calm_steps in auto)

lemma reads_login_parts [keeps_intros]:
  "keeps P (has_confirmed_totp env a)" "keeps P (is_admin_intent env rq v)"
  unfolding has_confirmed_totp_def is_admin_intent_def by (intro keeps_intros)+

lemma password_any: "calm w v \<Longrightarrow> password_ok env rq a v = password_ok env rq a w"
  by (simp add: password_ok_def calm_def)

lemma login_accepted_steps:
  assumes "calm w v" "layer_of (aw_session w) = Outside" "ac_pk a \<noteq> []" "password_ok env rq a w"
  shows "wp (login_accepted env rq n a) (\<lambda>_. steps env rq w) (\<lambda>_. steps env rq w) v"
proof -
  have "layer_step env rq w (layer_of (aw_session w)) (Knows (ac_pk a))"
    unfolding assms(2) by (rule layer_step.password) (rule assms(4))
  with assms(1,3) show ?thesis
    unfolding login_accepted_def
    apply (intro wp_bindI wp_calm[where m = "authentication_backend_for env u r" for env u r]
        wp_calm[where m = "lift r" for r] primary_then keeps_intros)
    apply (auto simp: calm_def)
    done
qed

lemma login_post_steps:
  fixes env :: "'c aenv"
  assumes "isolated env" "login_adds_no_admin env" "calm w v" "layer_of (aw_session w) = Outside"
    and "\<And>a. password_ok env rq a w \<Longrightarrow> ac_pk a \<noteq> []"
  shows "wp (login_post env rq n flow) (\<lambda>_. steps env rq w) (\<lambda>_. steps env rq w) v"
proof -
  have out: "user_of s = [] \<longleftrightarrow> layer_of s = Outside" for s by (simp add: layer_of_def)
  have host: "wp (seq (bind (gets (\<lambda>w. (aw_session w, aw_events w))) (\<lambda>(s, es).
            bind (lift (ae_login env a b s es)) (\<lambda>(s', es'). modify (\<lambda>w. w\<lparr>aw_session := s', aw_events := es'\<rparr>)))) k)
        (\<lambda>_. steps env rq w) (\<lambda>_. steps env rq w) u"
    if "calm w u" "\<And>P. keeps (onS P) k" for a b k u
  proof -
    have o: "user_of (aw_session u) = []" using that(1) assms(4) by (simp add: calm_def out)
    have "user_of s' = []" if "ae_login env a b (aw_session u) (aw_events u) = Inr (s', es')" for s' es'
      using assms(2) o that unfolding login_adds_no_admin_def by blast
    then show ?thesis
      apply (intro wp_seqI wp_bindI wp_getsI wp_prodI wp_liftI wp_modifyI)
       apply (rule wp_onS[where P = "\<lambda>s. user_of s = []"], rule that(2))
      using o assms(4) that(1) by (auto simp: steps_def out calm_def intro: layer_step.stay)
  qed
  have reads: "wp m (\<lambda>_. steps env rq w) (\<lambda>_. steps env rq w) u"
    if "\<And>P. keeps P m" "calm w u" for m :: "('c, a_reply) aio" and u
    by (rule wp_calm[OF that]) (rule calm_steps)
  have accepted: "wp (seq (rate_clear env s1 p1) (seq (rate_clear env s2 p2)
      (if flow then if \<not> admin_user env (Some a) then shown else login_accepted env rq n a
       else seq (bind (gets (\<lambda>w. (aw_session w, aw_events w))) (\<lambda>(s, es).
            bind (lift (ae_login env a b s es)) (\<lambda>(s', es'). modify (\<lambda>w. w\<lparr>aw_session := s', aw_events := es'\<rparr>)))) k)))
      (\<lambda>_. steps env rq w) (\<lambda>_. steps env rq w) u"
    if "calm w u" "admin_user env (Some a) \<Longrightarrow> password_ok env rq a w" "\<And>P. keeps P shown" "\<And>P. keeps P k"
    for a b k u s1 s2 p1 p2 shown
    apply (rule wp_seqI, rule wp_calm[OF calm_rate(2) that(1)])
    apply (rule wp_seqI, rule wp_calm[OF calm_rate(2)], assumption)
    apply (rule wp_ifI, rule wp_ifI)
      apply (intro reads that(3), assumption)
     apply (intro login_accepted_steps assms(4); use that(2) assms(5) in simp)
    apply (intro host that(4), assumption)
    done
  show ?thesis
    unfolding login_post_def Let_def
    apply (rule wp_bindI, rule wp_calm[OF calm_rate(1) assms(3)])
    apply (rule wp_bindI, rule wp_calm[OF calm_rate(1)], assumption)
    apply (rule wp_ifI)
     apply (intro reads keeps_intros, assumption)
    apply (rule wp_bindI, rule wp_login_form, unfold option.case)
       apply (intro accepted keeps_intros, assumption, simp add: password_any)
      apply (intro accepted keeps_intros, assumption, simp)
     apply (intro reads keeps_intros, assumption)
    apply (erule calm_steps)
    done
qed

lemma reads_resume [keeps_intros]: "isolated env \<Longrightarrow> keeps P (resume_login env rq n)"
  unfolding resume_login_def isolated_def by (intro keeps_intros)

lemma login_implements:
  fixes env :: "'c aenv"
  assumes "isolated env" "login_adds_no_admin env" "\<And>a. password_ok env rq a w \<Longrightarrow> ac_pk a \<noteq> []"
  shows "implements env rq (paxalia_login env rq) w"
proof -
  have out: "\<not> s_truthy (s_data s UserKey) \<Longrightarrow> layer_of s = Outside" for s
    by (cases "s_data s UserKey" rule: s_truthy.cases) (auto simp: layer_of_def user_of_def split: if_splits)
  have reads: "wp m (\<lambda>_. steps env rq w) (\<lambda>_. steps env rq w) u"
    if "\<And>P. keeps P m" "calm w u" for m :: "('c, a_reply) aio" and u
    by (rule wp_calm[OF that]) (rule calm_steps)
  show ?thesis
    unfolding paxalia_login_def Let_def host_off[OF assms(1)] if_False
    apply (rule wp_bindI, rule wp_calm[of w, OF _ calm_refl], intro keeps_intros)
    apply (rule wp_bindI, rule wp_calm[of w], intro keeps_intros, assumption)
    apply (rule wp_bindI, rule wp_calm[of w], intro keeps_intros, assumption)
    apply (rule wp_bindI, rule wp_calm[of w], intro keeps_intros, assumption)
    apply (rule wp_seqI, rule wp_calm[of w], intro keeps_intros, assumption)
    apply (rule wp_bindI, rule wp_calm[of w], intro keeps_intros, assumption)
    apply (rule wp_bindI, simp only: session_get_def, rule wp_getsI)
    apply (rule wp_bindI, rule wp_reads, intro keeps_intros)
     apply (rule wp_ifI, (intro reads keeps_intros, assumption)[1])
     apply (rule wp_ifI, (intro reads keeps_intros assms(1), assumption)[1])
     apply (rule wp_ifI)
      apply (rule login_post_steps[OF assms(1,2)], assumption, simp add: calm_def out, rule assms(3), assumption)
     apply (intro reads keeps_intros, assumption)
    apply (erule calm_steps)
    done
qed

section \<open>The ceremonies\<close>

text \<open>A completed ceremony answered an open challenge of this session with the administrator's key.\<close>

lemma get_challenge_run:
  "get_challenge env cid a kind w = (Inr c, v) \<Longrightarrow> v = w \<and> c \<in> set (aw_challenges w)
     \<and> open_challenge cid (ac_pk a) kind (s_key (aw_session w)) (aw_now w) c"
  by (auto simp: get_challenge_def run_simps dest!: found split: if_splits option.splits)

lemma verify_authentication_run:
  "verify_authentication env rq a c payload w = (Inr cred, v) \<Longrightarrow> \<exists>raw rp og n res cr. challenge_bytes c = Inr raw
     \<and> cr \<in> set (active_credentials_of (ac_pk a) w)
     \<and> ae_verify_authentication env (PDict payload) raw rp og (cr_public_key cr) n = Inr res"
  by (auto simp: verify_authentication_def run_simps Let_def dest!: found split: if_splits option.splits sum.splits prod.splits)
     blast+

lemma verify_registration_run:
  "verify_registration env rq a c payload name w = (Inr cred, v) \<Longrightarrow> \<exists>raw rp og res m. challenge_bytes c = Inr raw
     \<and> ae_verify_registration env (PDict payload) raw rp og = Inr res
     \<and> py_int (cfg_get (ae_settings env) ''ADMIN_MAX_DEVICES'' (PInt 5)) = Inr m \<and> active_device_count (ac_pk a) w < max 1 m"
  by (auto simp: verify_registration_def run_simps Let_def split: if_splits option.splits sum.splits prod.splits)

lemma assertion_evidence:
  assumes "assertion_ceremony env rq a (posted_challenge_id rq) payload w = (Inr cred, v)" "posted_credential rq = Some payload"
  shows "assertion_ok env rq (ac_pk a) w"
proof -
  obtain b where "bind (get_challenge env (posted_challenge_id rq) a Authentication) (\<lambda>c.
       bind (verify_authentication env rq a c payload) (\<lambda>cred. seq (consume_challenge env c) (ret cred))) w = (Inr cred, b)"
    using assms(1) by (auto simp: assertion_ceremony_def a_atomic_def split: prod.splits sum.splits)
  then obtain c t x where c: "get_challenge env (posted_challenge_id rq) a Authentication w = (Inr c, w)"
    and x: "verify_authentication env rq a c payload w = (Inr x, t)"
    by (auto simp: run_bind split: prod.splits sum.splits dest: get_challenge_run)
  from get_challenge_run[OF c] verify_authentication_run[OF x] assms(2) show ?thesis
    unfolding assertion_ok_def signed_challenge_def by blast
qed

lemma registration_evidence:
  assumes "registration_ceremony env rq a (posted_challenge_id rq) payload w = (Inr cred, v)" "posted_credential rq = Some payload"
  shows "registration_ok env rq (ac_pk a) w"
proof -
  have pk: "find_account (ac_pk a) w = Some b \<Longrightarrow> ac_pk b = ac_pk a" for b by (rule find_account_pk)
  have missing: "(case e of DoesNotExist \<Rightarrow> on_table env t (raise x) | _ \<Rightarrow> raise e) u \<noteq> (Inr y, z)" for e t x u and y :: challenge and z
    by (cases e) (auto simp: run_simps)
  obtain b c t x where b: "find_account (ac_pk a) w = Some b"
    and c: "get_challenge env (posted_challenge_id rq) b Registration w = (Inr c, w)"
    and x: "\<exists>name. verify_registration env rq b c payload name w = (Inr x, t)"
    using assms(1)
    by (auto simp: registration_ceremony_def a_atomic_def run_simps missing
        split: prod.splits sum.splits option.splits if_splits) (metis get_challenge_run)
  from get_challenge_run[OF c] x assms(2) pk[OF b] show ?thesis
    unfolding registration_ok_def signed_challenge_def by (auto dest!: verify_registration_run) blast
qed

text \<open>Finalising a session of the second layer leads to the third.\<close>

lemma layer_iff:
  "layer_of s = Proved u \<longleftrightarrow> u \<noteq> [] \<and> user_of s = u \<and> second_factor_done (s_data s StageKey)"
  "layer_of s = Inside u \<longleftrightarrow> u \<noteq> [] \<and> user_of s = u \<and> \<not> second_factor_done (s_data s StageKey)
     \<and> s_data s StageKey = Some (SText STAGE_COMPLETE) \<and> s_truthy (s_data s FinalKey)"
  by (auto simp: layer_of_def)

lemma complete_is_no_factor: "\<not> second_factor_done (Some (SText STAGE_COMPLETE))"
  by (simp add: second_factor_done_def STAGE_COMPLETE_def STAGE_2FA_def STAGE_DEVICE_def)

lemma session_data [simp]:
  "s_data (s_put k v s) = (s_data s)(k := Some v)" "s_data (s_pop k s) = (s_data s)(k := None)"
  "user_of (s_put UserKey (SText u) s) = u"
  by (simp_all add: s_put_def s_pop_def user_of_def)

lemma finalize_keeps:
  assumes "isolated env" "ac_pk a \<noteq> []"
  shows "keeps (onS (at (ac_pk a) {Proved (ac_pk a), Inside (ac_pk a)})) (finalize_admin_session env a cred b)"
proof -
  let ?P = "at (ac_pk a) {Proved (ac_pk a), Inside (ac_pk a)}"
  let ?F = "\<lambda>s. ?P s \<and> s_truthy (s_data s FinalKey)"
  have user: "?P (s_put UserKey (SText (ac_pk a)) s)" if "?P s" for s
    using that by (auto simp: at_def layer_iff)
  have final: "?F (s_put FinalKey (SBool True) s)" if "?P s" for s
    using that by (auto simp: at_def layer_iff)
  have complete: "?F (s_put StageKey (SText STAGE_COMPLETE) s)" if "?F s" for s
    using that assms(2) by (auto simp: at_def layer_iff complete_is_no_factor)
  have other: "?F (s_put k v s)" "?F (s_pop k s)" if "?F s" "k \<notin> {UserKey, StageKey, FinalKey}" for k v s
    using that by (auto simp: at_def layer_iff)
  have create: "keeps (onS ?P) (session_save env)"
    unfolding session_save_def session_create_def by (intro keeps_intros) (simp_all add: onS_def)
  show ?thesis
    unfolding finalize_admin_session_def host_off[OF assms(1)] if_False for_each.simps
    apply (rule keepsI, rule wp_bindI, rule wp_keeps, intro keeps_intros, assumption)
     apply (rule wp_seqI, rule wp_keeps[where P = "onS ?P"])
        apply (intro keeps_intros create S_put user; simp)
       apply assumption
      apply (rule wp_seqI, subst session_put_def, subst with_session_def, rule wp_modifyI)
      apply (rule wp_onS[where P = ?F])
        apply (intro keeps_intros S_put S_pop S_with_session complete other)
                            apply (simp_all add: onS_def final)
    done
qed

lemma at_device_stage [keeps_intros]: "u \<noteq> [] \<Longrightarrow> keeps (onS (at u {Proved u, L})) set_device_stage"
  using at_set_2fa(2)[of u L] by (simp add: insert_commute)

lemma open_session_keeps:
  assumes "isolated env" "ac_pk a \<noteq> []"
  shows "keeps (onS (at (ac_pk a) {Proved (ac_pk a), Inside (ac_pk a)})) (open_admin_session env rq a cred)"
  unfolding open_admin_session_def by (intro keeps_intros finalize_keeps S_attach assms)

text \<open>A session of the second layer with evidence for the third.\<close>

lemma proved_at:
  "user_of s = u \<Longrightarrow> u \<noteq> [] \<Longrightarrow> second_factor_done (s_data s StageKey) \<Longrightarrow> layer_of s = Proved u \<and> at u {Proved u, L} s"
  by (simp add: at_def layer_iff)

lemma opening_steps:
  assumes "isolated env" "ac_pk a \<noteq> []" "user_of (aw_session w) = ac_pk a" "second_factor_done (s_data (aw_session w) StageKey)"
    and "assertion_ok env rq (ac_pk a) w \<or> registration_ok env rq (ac_pk a) w" "aw_session v = aw_session w"
    and "keeps (onS (at (ac_pk a) {Proved (ac_pk a), Inside (ac_pk a)})) m"
  shows "wp m (\<lambda>_. steps env rq w) (\<lambda>_. steps env rq w) v"
proof (rule climbs)
  have l: "layer_of (aw_session w) = Proved (ac_pk a)" using assms(2-4) proved_at by blast
  then show "keeps (onS (at (ac_pk a) {layer_of (aw_session w), Inside (ac_pk a)})) m" using assms(7) by simp
  show "layer_step env rq w (layer_of (aw_session w)) (Inside (ac_pk a))"
    unfolding l by (rule layer_step.device) (rule assms(5))
qed (use assms in simp_all)

lemma wp_assertion:
  assumes "\<And>cred u. aw_session u = aw_session v \<Longrightarrow> assertion_ok env rq (ac_pk a) v \<Longrightarrow> Q cred u"
    and "\<And>e u. aw_session u = aw_session v \<Longrightarrow> E e u" "posted_credential rq = Some payload"
  shows "wp (assertion_ceremony env rq a (posted_challenge_id rq) payload) Q E v"
  by (rule wpI) (use assms assertion_evidence onS_run[OF S_ceremonies(1)] in blast)+

lemma wp_registration:
  assumes "\<And>cred u. aw_session u = aw_session v \<Longrightarrow> registration_ok env rq (ac_pk a) v \<Longrightarrow> Q cred u"
    and "\<And>e u. aw_session u = aw_session v \<Longrightarrow> E e u" "posted_credential rq = Some payload"
  shows "wp (registration_ceremony env rq a (posted_challenge_id rq) payload) Q E v"
  by (rule wpI) (use assms registration_evidence onS_run[OF S_ceremonies(2)] in blast)+

lemma evidence_cache [simp]:
  "assertion_ok env rq u (w\<lparr>aw_cache := c\<rparr>) = assertion_ok env rq u w"
  "registration_ok env rq u (w\<lparr>aw_cache := c\<rparr>) = registration_ok env rq u w"
  by (simp_all add: assertion_ok_def registration_ok_def signed_challenge_def active_credentials_of_def credentials_of_def
      credential_device_def active_device_count_def cong: option.case_cong)

lemma wp_ret_fun: "wp (ret x) Q E = Q x"
  by (rule ext) (simp add: wp_ret)

lemma device_verify_implements:
  assumes "isolated env"
  shows "implements env rq (paxalia_device_login_verify env rq) w"
  unfolding paxalia_device_login_verify_def session_get_def
  apply (intro wp_ifI wp_bindI wp_pending_user wp_getsI wp_optionI wp_limit wp_catchI wp_assertion)
                   apply (simp_all add: wp_ret_fun)
  apply (rule opening_steps[OF assms])
       apply simp_all
   apply (erule disjI1)
  apply (intro keeps_intros open_session_keeps assms, assumption)
  done

lemma register_verify_implements:
  assumes "from_middleware env rq w"
  shows "implements env rq (paxalia_device_register_verify env rq) w"
proof -
  have iso: "isolated env" using assms by (simp add: from_middleware_def)
  show ?thesis
    unfolding paxalia_device_register_verify_def session_get_def
    apply (intro wp_ifI wp_catchI wp_bindI wp_flow[OF assms] wp_getsI wp_optionI wp_limit wp_registration)
                       apply (simp_all add: wp_ret_fun)
    apply (intro impI conjI)
     apply (rule wp_same, intro keeps_intros; simp)
    apply (rule opening_steps[OF iso])
          apply simp_all
     apply (erule disjI2)
    apply (intro keeps_intros open_session_keeps iso; assumption)
    done
qed

section \<open>Every request is a step\<close>

definition backends_name_accounts :: "'c aenv \<Rightarrow> bool" where
  "backends_name_accounts env \<longleftrightarrow> (\<forall>path auth named i p a. ae_authenticate env path = Some auth
     \<longrightarrow> auth named i p = Inr (Some a) \<longrightarrow> ac_pk a \<noteq> [])"

lemma serve_implements:
  assumes "from_middleware env rq w" "login_adds_no_admin env" "backends_name_accounts env"
  shows "implements env rq (serve env call rq) w"
proof -
  have iso: "isolated env" using assms(1) by (simp add: from_middleware_def)
  have named: "password_ok env rq a w \<Longrightarrow> ac_pk a \<noteq> []" for a
    using assms(3) by (auto simp: password_ok_def backends_name_accounts_def)
  show ?thesis
    by (cases call)
       (simp_all add: login_implements[OF iso assms(2) named] setup_implements[OF assms(1)] verify_implements
         reset_implements[OF assms(1)] device_verify_implements[OF iso] register_verify_implements[OF assms(1)]
         implements_stay plain_views register_keeps implements_leave[OF logout_keeps[OF iso]] implements_leave[OF management_keeps[OF iso]])
qed

text \<open>C37: every request to a login, second-factor, device or management view is one step of the layer
  machine. In particular the session of a request moves into the final layer only from the second layer
  and only when an open challenge of this session was signed: by a registered active device of the same
  administrator, or by a new authenticator being registered below the device limit; it enters the second
  layer only with a verified second factor, and the first only with an accepted password. Whatever
  fails half-way, the session is at the old layer or at the new one.\<close>

theorem requests_are_layer_steps:
  assumes "from_middleware env rq w" "login_adds_no_admin env" "backends_name_accounts env"
  shows "layer_step env rq w (layer_of (aw_session w)) (layer_of (aw_session (snd (serve env call rq w))))"
  using serve_implements[OF assms, of call] by (auto simp: wp_def steps_def split: prod.splits sum.splits)

section \<open>What a completed ceremony is worth\<close>

lemma finalize_run:
  assumes "isolated env" "strip b \<noteq> []" "s_key (aw_session w) = Some k" "k \<noteq> []"
  shows "\<exists>s. finalize_admin_session env a cred b w = (Inr (), w\<lparr>aw_session := s\<rparr>) \<and> s_key s = Some k
    \<and> s_data s UserKey = Some (SText (ac_pk a)) \<and> s_data s FinalKey = Some (SBool True)
    \<and> s_data s StageKey = Some (SText STAGE_COMPLETE) \<and> s_data s DeviceKey = Some (SText (cr_id cred))
    \<and> s_data s AuthAtKey = Some (SText (ae_isoformat env (aw_now w))) \<and> s_data s NextKey = s_data (aw_session w) NextKey"
  using assms(2-4)
  apply (simp add: finalize_admin_session_def host_off[OF assms(1)] run_simps whenever_def session_put_def session_pop_def
      with_session_def s_put_def s_pop_def)
  apply (rule exI, rule conjI, rule refl, simp)
  done

lemma newest_event_member:
  assumes "newest_event P es = Some e"
  shows "e \<in> set es \<and> P e"
proof -
  from assms obtain rest where "sort_key (\<lambda>e. - le_created e) (filter P es) = e # rest"
    by (auto simp: newest_event_def split: list.splits)
  then have "e \<in> set (sort_key (\<lambda>e. - le_created e) (filter P es))" by simp
  then show ?thesis unfolding set_sort by simp
qed

lemma record_run:
  assumes "isolated env" "s_key (aw_session w) = Some k" "k \<noteq> []" "strip k = k" "record_isolated_admin_login env a cred w = (Inr e, v)"
  shows "(\<exists>e \<in> set (aw_events v). live_login (ac_pk a) k (cr_device cred) e) \<and> (\<exists>es n. v = w\<lparr>aw_fresh := n, aw_events := es\<rparr>)"
proof -
  have k: "session_id w = k" using assms(2-4) by (simp add: session_id_def)
  show ?thesis
  proof (cases "newest_event (live_login (ac_pk a) k (cr_device cred)) (aw_events w)")
    case None
    with assms(3,5) show ?thesis
      by (auto simp: record_isolated_admin_login_def run_simps session_id_run[OF assms(1)] k draw_def live_login_def Let_def
          split: if_splits)
  next
    case (Some x)
    with assms(3,5) have "v = w" by (auto simp: record_isolated_admin_login_def run_simps session_id_run[OF assms(1)] k split: if_splits)
    moreover have "w = w\<lparr>aw_fresh := aw_fresh w, aw_events := aw_events w\<rparr>" by simp
    ultimately show ?thesis using newest_event_member[OF Some] by metis
  qed
qed

lemma record_runs:
  assumes "isolated env" "\<not> ae_fails env TEvent" "session_id w \<noteq> []"
  shows "\<exists>e n es. record_isolated_admin_login env a cred w = (Inr e, w\<lparr>aw_fresh := n, aw_events := es\<rparr>)"
proof (cases "newest_event (live_login (ac_pk a) (session_id w) (cr_device cred)) (aw_events w)")
  case None
  with assms(2,3) show ?thesis
    by (auto simp: record_isolated_admin_login_def run_simps session_id_run[OF assms(1)] draw_def Let_def)
next
  case (Some x)
  have "w = w\<lparr>aw_fresh := aw_fresh w, aw_events := aw_events w\<rparr>" by simp
  moreover have "record_isolated_admin_login env a cred w = (Inr x, w)"
    using Some assms(2,3) by (simp add: record_isolated_admin_login_def run_simps session_id_run[OF assms(1)])
  ultimately show ?thesis by metis
qed

text \<open>C39: a completed ceremony, whichever of the two it was, opens the gate: from then until the
  configured age, unless somebody revokes, every request of this browser is that of a live
  administrator. The other devices of the account play no part.\<close>

theorem ceremony_opens_gate:
  fixes env :: "'c aenv"
  assumes "isolated env" "admin_user env (Some a)" "ac_active a" "find_account (ac_pk a) w = Some a" "ac_pk a \<noteq> []"
    and "s_key (aw_session w) = Some k" "k \<noteq> []" "strip k = k" "strip (s_text (s_data (aw_session w) BackendKey)) \<noteq> []"
    and "\<exists>d \<in> set (aw_totp w). confirmed_totp (ac_pk a) d"
    and "find_credential (cr_id cred) w = Some (c, d)" "cr_id cred \<noteq> []" "cr_device cred = dv_id d" "dv_user d = ac_pk a" "dv_status d = Active"
    and "ae_fromisoformat env (ae_isoformat env (aw_now w)) = Some (aw_now w)" "ae_isoformat env (aw_now w) \<noteq> []"
    and "session_max_age env = Inr m" "t - aw_now w \<le> m * 1000000"
    and "open_admin_session env rq a cred w = (Inr r, v)" "from_middleware env rq' (v\<lparr>aw_now := t\<rparr>)"
  shows "live_admin env rq' a (v\<lparr>aw_now := t\<rparr>)"
proof -
  obtain s where fin: "finalize_admin_session env a cred (s_text (s_data (aw_session w) BackendKey)) w = (Inr (), w\<lparr>aw_session := s\<rparr>)"
    and s: "s_key s = Some k" "s_data s UserKey = Some (SText (ac_pk a))" "s_data s FinalKey = Some (SBool True)"
      "s_data s StageKey = Some (SText STAGE_COMPLETE)" "s_data s DeviceKey = Some (SText (cr_id cred))"
      "s_data s AuthAtKey = Some (SText (ae_isoformat env (aw_now w)))"
    using finalize_run[OF assms(1,9,6,7)] by blast
  let ?w = "w\<lparr>aw_session := s\<rparr>"
  have audit: "\<exists>au. x = x\<lparr>aw_audit := au\<rparr>" for x :: "'c aworld" by (rule exI[of _ "aw_audit x"]) simp
  obtain e u where u: "record_isolated_admin_login env a cred ?w = (Inr e, u)" and v: "\<exists>au. v = u\<lparr>aw_audit := au\<rparr>"
    using assms(20) fin audit
    by (auto simp: open_admin_session_def run_simps attach_device_def host_off[OF assms(1)] log_action_def unless_def
        safe_next_def split: sum.splits prod.splits if_splits)
  have key: "s_key (aw_session ?w) = Some k" by (simp add: s(1))
  note recorded = record_run[OF assms(1) key assms(7,8) u]
  then obtain es n where un: "u = ?w\<lparr>aw_fresh := n, aw_events := es\<rparr>" by blast
  from recorded have ev: "\<exists>e \<in> set (aw_events u). live_login (ac_pk a) k (cr_device cred) e" ..
  from v obtain au where va: "v = u\<lparr>aw_audit := au\<rparr>" ..
  have v: "v = ?w\<lparr>aw_fresh := n, aw_events := es, aw_audit := au\<rparr>" by (simp add: va un)
  have event: "\<exists>e \<in> set es. live_login (ac_pk a) k (dv_id d) e" using ev assms(13) by (simp add: un)
  let ?v = "v\<lparr>aw_now := t\<rparr>"
  have rows: "find_account pk ?v = find_account pk w" "find_credential i ?v = find_credential i w" for pk i
    by (simp_all add: v find_account_def find_credential_def credential_device_def cong: option.case_cong)
  have "rq_user rq' = Some a" "rq_isolated_auth rq'"
    using assms(2-5,21) by (simp_all add: from_middleware_def exposed_user_def v s rows[unfolded v])
  moreover have "session_id ?v = k" using assms(7,8) by (simp add: session_id_def v s)
  ultimately show ?thesis
    unfolding live_admin_def identity_def rows using assms(2,3,7,10-12,14-19) event
    by (simp add: v s parse_auth_time_def)
qed

section \<open>Examples\<close>

text \<open>A browser with password and second factor, and an open challenge to register an authenticator.\<close>

definition second_layer :: "mem aworld" where
  "second_layer = example_aworld (example_session ''device'' False)\<lparr>aw_challenges := [example_challenge Registration]\<rparr>"
definition example_pending :: a_request where
  "example_pending = example_rq ''POST'' []\<lparr>rq_user := None\<rparr>"

lemma example_values:
  "host_authentication_enabled (example_aenv []) = False" 
  "admin_home_url (example_aenv []) example_pending = Inr ''/admin/paxalia:dashboard''"
  "safe_path (example_aenv []) example_pending ''/admin/paxalia:dashboard'' ''/admin/paxalia:dashboard'' = Inr ''/admin/paxalia:dashboard''"
  "strip MODEL_BACKEND = MODEL_BACKEND" "MODEL_BACKEND \<noteq> []" "strip ''key0'' = ''key0''" "ae_fails (example_aenv []) t = False"
  subgoal by code_simp
  subgoal by code_simp
  subgoal by code_simp
  subgoal by code_simp
  subgoal by code_simp
  subgoal by code_simp
  subgoal by (simp add: example_aenv_def)
  done
lemma opened_example:
  assumes "s_data (aw_session w) BackendKey = Some (SText MODEL_BACKEND)" "s_data (aw_session w) NextKey = None" "s_key (aw_session w) = Some ''key0''"
  shows "\<exists>v. open_admin_session (example_aenv []) example_pending example_root cred w
       = (Inr (Done ''/admin/paxalia:dashboard''), v) \<and> layer_of (aw_session v) = Inside ''1''
     \<and> s_data (aw_session v) UserKey = Some (SText ''1'') \<and> aw_accounts v = aw_accounts w"
proof -
  have "strip MODEL_BACKEND \<noteq> []" by (simp add: example_values)
  then obtain s where fin: "finalize_admin_session (example_aenv []) example_root cred MODEL_BACKEND w = (Inr (), w\<lparr>aw_session := s\<rparr>)"
    and s: "s_key s = Some ''key0''" "s_data s UserKey = Some (SText ''1'')" "s_data s FinalKey = Some (SBool True)"
      "s_data s StageKey = Some (SText STAGE_COMPLETE)" "s_data s NextKey = None"
    using finalize_run[OF isolated_example, of MODEL_BACKEND w "''key0''" example_root cred] assms(2,3) by (auto simp: example_root_def)
  have "session_id (w\<lparr>aw_session := s\<rparr>) \<noteq> []" by (simp add: session_id_def s(1) example_values)
  then obtain e n es where rec: "record_isolated_admin_login (example_aenv []) example_root cred (w\<lparr>aw_session := s\<rparr>)
      = (Inr e, w\<lparr>aw_session := s, aw_fresh := n, aw_events := es\<rparr>)"
    using record_runs[OF isolated_example] example_values by fastforce
  have "rq_user example_pending = None" by (simp add: example_pending_def)
  then have "open_admin_session (example_aenv []) example_pending example_root cred w 
     = (Inr (Done ''/admin/paxalia:dashboard''), w\<lparr>aw_session := s, aw_fresh := n, aw_events := es, aw_audit := (None, ''security.admin_session_created'') # aw_audit w\<rparr>)"
    using assms fin s rec by (simp add: open_admin_session_def run_simps attach_device_def example_values log_action_def unless_def safe_next_def)
  with s show ?thesis by (simp add: layer_of_def user_of_def second_factor_done_def STAGE_COMPLETE_def STAGE_2FA_def STAGE_DEVICE_def)
qed

lemma registration_example:
  "\<exists>cred v. registration_ceremony (example_aenv []) example_pending example_root ''c1'' [(PStr ''rawId'', PStr (unpadded ''cred''))] (second_layer\<lparr>aw_cache := c\<rparr>) = (Inr cred, v)
   \<and> aw_session v = aw_session second_layer" (is "\<exists>cred v. ?run = _ \<and> _")
proof -
  have "case ?run of (Inr _, v) \<Rightarrow> True | (Inl _, v) \<Rightarrow> False" by code_simp
  then obtain cred v where run: "?run = (Inr cred, v)" by (auto split: prod.splits sum.splits)
  moreover have "aw_session v = aw_session (second_layer\<lparr>aw_cache := c\<rparr>)"
    by (rule onS_run[OF S_ceremonies(2) run])
  ultimately show ?thesis by auto
qed

lemma limited_example:
  "\<exists>c. within_limit (example_aenv []) ''device-register-verify'' (device_limits (example_aenv [])) example_pending example_root second_layer
     = (Inr True, second_layer\<lparr>aw_cache := c\<rparr>)" (is "\<exists>c. ?run = _")
proof -
  have "fst ?run = Inr True" by code_simp
  moreover have "py_int (fst (device_limits (example_aenv []))) = Inr 5" "py_int (snd (device_limits (example_aenv []))) = Inr 300"
    by code_simp+
  then have "\<exists>c. snd ?run = second_layer\<lparr>aw_cache := c\<rparr>"
    by (auto simp: within_limit_def rate_allowed_def run_simps on_cache_def split: sum.splits prod.splits)
  ultimately show ?thesis by (metis prod.collapse)
qed

lemma registered_example:
  "layer_of (aw_session (snd (serve (example_aenv []) DeviceRegisterVerify example_pending second_layer))) = Inside ''1''"
proof -
  have mid: "from_middleware (example_aenv []) example_pending second_layer" by code_simp
  have form: "posted_credential example_pending = Some [(PStr ''rawId'', PStr (unpadded ''cred''))]" "posted_challenge_id example_pending = ''c1''"
    "rq_method example_pending = ''POST''" by code_simp+
  have "fst (flow_user (example_aenv []) example_pending second_layer) = Inr (Some example_root)" by code_simp
  moreover have "wp (flow_user (example_aenv []) example_pending) (\<lambda>_ v. v = second_layer) (\<lambda>_ v. v = second_layer) second_layer"
    by (rule wp_flow) (simp_all add: mid)
  ultimately have user: "flow_user (example_aenv []) example_pending second_layer = (Inr (Some example_root), second_layer)"
    by (auto simp: wp_def split: prod.splits sum.splits)
  have key: "s_truthy (s_data (aw_session second_layer) FinalKey) = False" "second_factor_done (s_data (aw_session second_layer) StageKey)"
    "s_data (aw_session second_layer) BackendKey = Some (SText MODEL_BACKEND)" "s_data (aw_session second_layer) NextKey = None" "s_key (aw_session second_layer) = Some ''key0''"
    by code_simp+
  obtain c where lim: "within_limit (example_aenv []) ''device-register-verify'' (device_limits (example_aenv [])) example_pending example_root second_layer
     = (Inr True, second_layer\<lparr>aw_cache := c\<rparr>)" using limited_example ..
  obtain cred v where reg: "registration_ceremony (example_aenv []) example_pending example_root ''c1'' [(PStr ''rawId'', PStr (unpadded ''cred''))] (second_layer\<lparr>aw_cache := c\<rparr>) = (Inr cred, v)"
   and v: "aw_session v = aw_session second_layer" using registration_example by blast
  let ?v = "v\<lparr>aw_audit := (None, ''security.admin_device_registered'') # aw_audit v, aw_session := s_put StageKey (SText STAGE_DEVICE) (aw_session second_layer)\<rparr>"
  obtain u where u: "open_admin_session (example_aenv []) example_pending example_root cred ?v
       = (Inr (Done ''/admin/paxalia:dashboard''), u)" "layer_of (aw_session u) = Inside ''1''"
    using opened_example[of ?v cred] key by (auto simp: s_put_def)
  have "rq_user example_pending = None" by (simp add: example_pending_def)
  with form key user lim reg v u show ?thesis
    by (simp add: paxalia_device_register_verify_def run_simps log_action_def unless_def example_values set_device_stage_def session_put_def with_session_def s_put_def)
qed
text \<open>The step of the example: a session with password and second factor registers a new authenticator
  and is in the final layer, although the administrator has an active device that signed nothing.\<close>

theorem requests_are_layer_steps_witness:
  "layer_step (example_aenv []) example_pending second_layer (Proved ''1'') (Inside ''1'')
   \<and> active_device_count ''1'' second_layer = 1 \<and> \<not> assertion_ok (example_aenv []) example_pending ''1'' second_layer"
proof (intro conjI)
  have mid: "from_middleware (example_aenv []) example_pending second_layer" by code_simp
  have login: "login_adds_no_admin (example_aenv [])" "backends_name_accounts (example_aenv [])"
    by (auto simp: login_adds_no_admin_def backends_name_accounts_def example_aenv_def example_root_def split: if_splits)
  have before: "layer_of (aw_session second_layer) = Proved ''1''" by code_simp
  have after: "layer_of (aw_session (snd (serve (example_aenv []) DeviceRegisterVerify example_pending second_layer))) = Inside ''1''"
    by (rule registered_example)
  show "layer_step (example_aenv []) example_pending second_layer (Proved ''1'') (Inside ''1'')"
    using requests_are_layer_steps[OF mid login, of DeviceRegisterVerify] unfolding before after .
  show "active_device_count ''1'' second_layer = 1" by code_simp
  have "aw_challenges second_layer = [example_challenge Registration]" by (simp add: second_layer_def)
  then show "\<not> assertion_ok (example_aenv []) example_pending ''1'' second_layer"
    by (simp add: assertion_ok_def signed_challenge_def open_challenge_def example_challenge_def)
qed

theorem ceremony_opens_gate_witness:
  "\<exists>v. open_admin_session (example_aenv []) example_pending example_root example_credential second_layer
         = (Inr (Done ''/admin/paxalia:dashboard''), v)
     \<and> live_admin (example_aenv []) (example_rq ''GET'' []) example_root (v\<lparr>aw_now := 30\<rparr>)"
proof -
  let ?e = "example_aenv []" and ?w = second_layer
  have start: "s_data (aw_session ?w) BackendKey = Some (SText MODEL_BACKEND)" "s_data (aw_session ?w) NextKey = None"
    "s_key (aw_session ?w) = Some ''key0''" "aw_accounts ?w = [example_root]"
    by code_simp+
  obtain v where run: "open_admin_session ?e example_pending example_root example_credential ?w
      = (Inr (Done ''/admin/paxalia:dashboard''), v)"
    and v: "layer_of (aw_session v) = Inside ''1''" "s_data (aw_session v) UserKey = Some (SText ''1'')" "aw_accounts v = [example_root]"
    using opened_example[OF start(1-3)] start(4) by metis
  have found: "find_credential (cr_id example_credential) ?w = Some (example_credential, example_device)" by code_simp
  have rows: "admin_user ?e (Some example_root)" "ac_active example_root" "find_account (ac_pk example_root) ?w = Some example_root"
    "ac_pk example_root \<noteq> []" "''key0'' \<noteq> []"
    "strip (s_text (s_data (aw_session ?w) BackendKey)) \<noteq> []" "\<exists>d \<in> set (aw_totp ?w). confirmed_totp (ac_pk example_root) d"
    "cr_id example_credential \<noteq> []" "cr_device example_credential = dv_id example_device" "dv_user example_device = ac_pk example_root"
    "dv_status example_device = Active"
    "ae_fromisoformat ?e (ae_isoformat ?e (aw_now ?w)) = Some (aw_now ?w)" "ae_isoformat ?e (aw_now ?w) \<noteq> []"
    "session_max_age ?e = Inr 28800" "30 - aw_now ?w \<le> 28800 * 1000000"
    by code_simp+
  have "s_truthy (s_data (aw_session v) UserKey)" "s_truthy (s_data (aw_session v) FinalKey)"
    "s_data (aw_session v) StageKey = Some (SText STAGE_COMPLETE)" "s_text (s_data (aw_session v) UserKey) = ''1''"
    using v(1,2) by (auto simp: layer_iff)
  moreover have "find_account ''1'' (v\<lparr>aw_now := 30\<rparr>) = Some example_root"
    using v(3) by (simp add: find_account_def example_root_def)
  moreover have "rq_isolated_auth (example_rq ''GET'' [])" "rq_user (example_rq ''GET'' []) = Some example_root"
    by (simp_all add: example_rq_def)
  ultimately have mid: "from_middleware ?e (example_rq ''GET'' []) (v\<lparr>aw_now := 30\<rparr>)"
    using rows(1,2) isolated_example by (simp add: from_middleware_def exposed_user_def)
  have key: "strip ''key0'' = ''key0''" by (rule example_values)
  show ?thesis
    using run ceremony_opens_gate[OF isolated_example rows(1-4) start(3) rows(5) key rows(6-7) found rows(8-15) run mid] by blast
qed

end
