(* ===== verification/Admin_Recovery.thy ===== *)
theory Admin_Recovery
  imports Admin_Climb
begin

text \<open>
  Which recovery codes work and how often, the round trip of challenges and credential identifiers,
  and what a login request answers once a final session has ended.
\<close>

section \<open>Recovery codes\<close>

definition use_row :: "string \<Rightarrow> int \<Rightarrow> recovery_code list \<Rightarrow> recovery_code list" where
  "use_row i now rs = map (\<lambda>q. if rc_id q = i then q\<lparr>rc_used := Some now\<rparr> else q) rs"

lemma find_by_id: "distinct (map f xs) \<Longrightarrow> r \<in> set xs \<Longrightarrow> find (\<lambda>x. f x = f r) xs = Some r"
  by (induction xs) auto

text \<open>The first matching candidate decides, and is used up.\<close>

lemma first_candidate_accepted:
  assumes "\<forall>t. \<not> ae_fails env t" "distinct (map rc_id (aw_codes w))"
  shows "verify_second_factor env a [] s w =
    (case find (\<lambda>r. ae_check_password env (normalize_recovery_code s) (rc_hash r))
            (if normalize_recovery_code s = [] then [] else recovery_candidates (ac_pk a) (aw_codes w)) of
       None \<Rightarrow> (Inr (False, False), w)
     | Some r \<Rightarrow> if s = [] then (Inr (False, False), w)
                else (Inr (True, True), w\<lparr>aw_codes := use_row (rc_id r) (aw_now w) (aw_codes w)\<rparr>))"
proof (cases "find (\<lambda>r. ae_check_password env (normalize_recovery_code s) (rc_hash r))
            (if normalize_recovery_code s = [] then [] else recovery_candidates (ac_pk a) (aw_codes w))")
  case None
  with assms(1) show ?thesis
    by (auto simp: verify_second_factor_def a_atomic_def run_simps check_recovery_code_def Let_def split: if_splits)
next
  case (Some r)
  then have s: "normalize_recovery_code s \<noteq> []"
    and r: "find (\<lambda>r. ae_check_password env (normalize_recovery_code s) (rc_hash r)) (recovery_candidates (ac_pk a) (aw_codes w)) = Some r"
    by (auto split: if_splits)
  have "r \<in> set (aw_codes w)" "usable_code (ac_pk a) r"
    using found(1)[OF r] by (auto simp: recovery_candidates_def dest: in_set_takeD)
  then have locked: "find (\<lambda>q. rc_id q = rc_id r) (aw_codes w) = Some r" "rc_used r = None" "rc_revoked r = None"
    using find_by_id[OF assms(2)] by (simp_all add: usable_code_def)
  show ?thesis
  proof (cases "s = []")
    case False
    with assms(1) s r locked show ?thesis
      unfolding Some
      by (simp add: verify_second_factor_def a_atomic_def run_simps check_recovery_code_def use_recovery_code_def use_row_def Let_def)
  qed (use assms(1) Some in \<open>simp add: verify_second_factor_def a_atomic_def run_simps\<close>)
qed

text \<open>The first entries of a sorted list are smallest, whatever the order of equal keys is.\<close>

lemma sorted_smaller:
  assumes "sorted (map f xs)" "i < length xs"
  shows "length (filter (\<lambda>q. f q < f (xs ! i)) xs) \<le> i"
proof -
  have "\<not> f q < f (xs ! i)" if q: "q \<in> set (drop i xs)" for q
  proof -
    obtain j where "j < length xs - i" "q = xs ! (i + j)" using q by (auto simp: in_set_conv_nth)
    then show ?thesis using sorted_nth_mono[OF assms(1), of i "i + j"] by (simp add: not_less)
  qed
  then have "filter (\<lambda>q. f q < f (xs ! i)) (drop i xs) = []" by (auto simp: filter_empty_conv)
  then have "filter (\<lambda>q. f q < f (xs ! i)) (take i xs @ drop i xs) = filter (\<lambda>q. f q < f (xs ! i)) (take i xs)"
    by (simp only: filter_append append_Nil2)
  then show ?thesis using length_filter_le[of "\<lambda>q. f q < f (xs ! i)" "take i xs"] by simp
qed

lemma sorted_others:
  assumes "sorted (map f xs)" "distinct xs" "x \<in> set xs" "x \<notin> set (take n xs)"
  shows "n \<le> length (filter (\<lambda>q. q \<noteq> x \<and> f q \<le> f x) xs)"
proof -
  obtain i where i: "i < length xs" "x = xs ! i" using assms(3) by (auto simp: in_set_conv_nth)
  with assms(4) have le: "n \<le> i" by (metis in_set_conv_nth length_take min_less_iff_conj not_le nth_take)
  have "q \<noteq> x \<and> f q \<le> f x" if q: "q \<in> set (take n xs)" for q
  proof -
    obtain j where "j < n" "q = xs ! j" using q by (auto simp: in_set_conv_nth)
    then show ?thesis using sorted_nth_mono[OF assms(1), of j i] i le q assms(4) by auto
  qed
  then have "filter (\<lambda>q. q \<noteq> x \<and> f q \<le> f x) (take n xs) = take n xs" by (simp add: filter_id_conv)
  then have "length (filter (\<lambda>q. q \<noteq> x \<and> f q \<le> f x) (take n xs @ drop n xs)) \<ge> length (take n xs)"
    by (simp only: filter_append length_append le_add1)
  then show ?thesis using i le by simp
qed

lemma length_filter_sort: "length (filter P (sort_key f xs)) = length (filter P xs)"
  by (simp add: filter_sort)

lemma candidate_rank:
  assumes "r \<in> set (recovery_candidates pk rs)"
  shows "r \<in> set rs" "usable_code pk r"
    "length (filter (\<lambda>q. usable_code pk q \<and> rc_created r < rc_created q) rs) < 50"
proof -
  let ?xs = "sort_key (\<lambda>r. - rc_created r) (filter (usable_code pk) rs)"
  obtain i where i: "i < length ?xs" "i < 50" "r = ?xs ! i"
    using assms by (auto simp: recovery_candidates_def in_set_conv_nth simp del: length_sort)
  have "r \<in> set ?xs" using i nth_mem by blast
  then show "r \<in> set rs" "usable_code pk r" by simp_all
  have "length (filter (\<lambda>q. - rc_created q < - rc_created r) ?xs) \<le> i"
    unfolding i(3) by (rule sorted_smaller[OF sorted_sort_key i(1)])
  then show "length (filter (\<lambda>q. usable_code pk q \<and> rc_created r < rc_created q) rs) < 50"
    using i(2) by (simp add: length_filter_sort conj_commute)
qed

lemma not_candidate_rank:
  assumes "distinct (map rc_id rs)" "r \<in> set rs" "usable_code pk r" "r \<notin> set (recovery_candidates pk rs)"
  shows "50 \<le> length (filter (\<lambda>q. usable_code pk q \<and> rc_id q \<noteq> rc_id r \<and> rc_created r \<le> rc_created q) rs)"
proof -
  let ?xs = "sort_key (\<lambda>r. - rc_created r) (filter (usable_code pk) rs)"
  have "distinct ?xs" using assms(1) by (simp add: distinct_map)
  then have "50 \<le> length (filter (\<lambda>q. q \<noteq> r \<and> - rc_created q \<le> - rc_created r) ?xs)"
    using assms(2-4) by (intro sorted_others) (simp_all add: recovery_candidates_def)
  also have "\<dots> = length (filter (\<lambda>q. usable_code pk q \<and> q \<noteq> r \<and> rc_created r \<le> rc_created q) rs)"
    by (simp add: length_filter_sort conj_ac)
  also have "filter (\<lambda>q. usable_code pk q \<and> q \<noteq> r \<and> rc_created r \<le> rc_created q) rs
      = filter (\<lambda>q. usable_code pk q \<and> rc_id q \<noteq> rc_id r \<and> rc_created r \<le> rc_created q) rs"
    using assms(1,2) by (intro filter_cong refl) (auto simp: distinct_map inj_on_def)
  finally show ?thesis .
qed

lemma groups_of_16:
  assumes "length t = 16"
  shows "dashed t = take 4 t @ ''-'' @ take 4 (drop 4 t) @ ''-'' @ take 4 (drop 8 t) @ ''-'' @ drop 12 t"
proof -
  from assms obtain a b c d e f g h i j k l m n p q where "t = [a, b, c, d, e, f, g, h, i, j, k, l, m, n, p, q]"
    by (auto simp: numeral_eq_Suc length_Suc_conv)
  then show ?thesis by (simp add: dashed_def)
qed

text \<open>C40: a recovery code is accepted once and only while it is among the fifty newest. Without a token the
  second factor is decided by the letters and digits of the submitted text, in upper case: sixteen of them, in
  four groups. If it is accepted, then for an unused and unrevoked code of this administrator whose hash
  matches and than which fewer than fifty usable ones are newer; this row alone is marked used. If it is
  refused, nothing changes, and every usable code whose hash matches has at least fifty others that are as
  new: with up to a hundred codes generated at once, such a code is valid and yet refused. (Codes of one
  batch share their time; which fifty of them are looked at is the database's choice, and both statements
  hold for every choice.)\<close>

theorem recovery_code_accepted_iff:
  assumes "\<forall>t. \<not> ae_fails env t" "distinct (map rc_id (aw_codes w))"
    and "chars = filter (\<lambda>c. c \<in> set ''ABCDEFGHIJKLMNOPQRSTUVWXYZ0123456789'') (upper (strip s))"
    and "\<And>r. matches r \<longleftrightarrow> length chars = 16 \<and> ae_check_password env
        (take 4 chars @ ''-'' @ take 4 (drop 4 chars) @ ''-'' @ take 4 (drop 8 chars) @ ''-'' @ drop 12 chars) (rc_hash r)"
    and "\<And>r. usable r \<longleftrightarrow> rc_user r = ac_pk a \<and> rc_used r = None \<and> rc_revoked r = None"
  shows "(\<exists>r \<in> set (aw_codes w). usable r \<and> matches r
        \<and> length (filter (\<lambda>q. usable q \<and> rc_created r < rc_created q) (aw_codes w)) < 50
        \<and> verify_second_factor env a [] s w = (Inr (True, True), w\<lparr>aw_codes :=
             map (\<lambda>q. if rc_id q = rc_id r then q\<lparr>rc_used := Some (aw_now w)\<rparr> else q) (aw_codes w)\<rparr>))
    \<or> verify_second_factor env a [] s w = (Inr (False, False), w)
        \<and> (\<forall>r \<in> set (aw_codes w). usable r \<and> matches r \<longrightarrow>
             50 \<le> length (filter (\<lambda>q. usable q \<and> rc_id q \<noteq> rc_id r \<and> rc_created r \<le> rc_created q) (aw_codes w)))"
proof -
  have usable: "usable r = usable_code (ac_pk a) r" for r by (simp add: assms(5) usable_code_def)
  have chars: "filter (List.member code_alphabet) (upper (strip s)) = chars"
    unfolding assms(3) by (intro filter_cong refl) (simp add: code_alphabet_def)
  have normal: "normalize_recovery_code s = (if length chars = 16 then dashed chars else [])"
    by (simp add: normalize_recovery_code_def chars Let_def)
  have matches: "matches r \<longleftrightarrow> normalize_recovery_code s \<noteq> [] \<and> ae_check_password env (normalize_recovery_code s) (rc_hash r)" for r
    by (simp add: assms(4) normal groups_of_16)
  let ?find = "find (\<lambda>r. ae_check_password env (normalize_recovery_code s) (rc_hash r))
      (if normalize_recovery_code s = [] then [] else recovery_candidates (ac_pk a) (aw_codes w))"
  note verdict = first_candidate_accepted[OF assms(1,2), of a s]
  show ?thesis
  proof (cases ?find)
    case None
    have "r \<notin> set (recovery_candidates (ac_pk a) (aw_codes w))" if "matches r" for r
      using None that by (auto simp: find_None_iff matches)
    with None verdict not_candidate_rank[OF assms(2)] show ?thesis by (intro disjI2) (simp add: usable)
  next
    case (Some r)
    then have r: "r \<in> set (recovery_candidates (ac_pk a) (aw_codes w))" "matches r"
      using found(1)[OF Some] by (auto simp: matches split: if_splits)
    have "s \<noteq> []" using r(2) by (auto simp: assms(3,4) upper_def strip_def lstrip_def rstrip_by_def)
    with Some verdict candidate_rank[OF r(1)] r(2) show ?thesis by (intro disjI1 bexI[of _ r]) (simp_all add: usable use_row_def)
  qed
qed

section \<open>Round trip\<close>

text \<open>C4: what the services store of a random challenge, or of a credential identifier the library
  returned, decodes to exactly the same bytes, whatever they are: the padding that was stripped is put
  back in the right amount and the URL-safe alphabet is undone.\<close>

theorem challenge_roundtrip:
  "credential_id_bytes (credential_id_string bs) = Inr bs
   \<and> (create_challenge env a kind h w = (Inr c, v) \<longrightarrow> challenge_bytes c = Inr (ae_token env (aw_fresh w)))"
  by (auto simp: credential_id_bytes_def credential_id_string_def challenge_bytes_def create_challenge_def run_simps draw_def Let_def
      session_key_text_def decode_unpadded_unpadded split: if_splits sum.splits)

section \<open>A final session that has ended\<close>

fun login_replies :: "'c aenv \<Rightarrow> a_request list \<Rightarrow> 'c aworld \<Rightarrow> (exn + a_reply) list \<times> 'c aworld" where
  "login_replies env [] w = ([], w)"
| "login_replies env (rq # rqs) w =
     (case paxalia_login env rq w of (r, v) \<Rightarrow> case login_replies env rqs v of (rs, u) \<Rightarrow> (r # rs, u))"

lemma text_truthy: "s_text x \<noteq> [] \<Longrightarrow> s_truthy x"
  by (cases x rule: s_truthy.cases) (auto split: if_splits)

lemma append_safe_next_prefix: "append_safe_next env rq url n = Inr u \<Longrightarrow> \<exists>t. u = url @ t"
  unfolding append_safe_next_def bind_res_eq_Inr by blast

lemma resume_ended:
  assumes "isolated env" "s_data (aw_session w) StageKey = Some (SText STAGE_COMPLETE)"
  shows "wp (resume_login env rq n) (\<lambda>r v. v = w \<and> (\<exists>t. r = To (ae_reverse env ''paxalia:auth_login'' @ t))) (\<lambda>_ v. v = w) w"
proof -
  have stage: "\<not> List.member pending_stages STAGE_COMPLETE" by code_simp
  show ?thesis
    unfolding resume_login_def begin_admin_verification_def host_off[OF assms(1)] session_get_def not_False_eq_True if_True
    by (intro wp_bindI wp_liftI wp_getsI wp_ifI wp_retI)
       (use stage assms(2) append_safe_next_prefix in \<open>simp_all, blast?\<close>)
qed

text \<open>The four keys of the session that a request with \<open>?admin=1\<close> writes, and nothing else, may differ.\<close>

definition intent_only :: "'c aworld \<Rightarrow> 'c aworld \<Rightarrow> bool" where
  "intent_only w v \<longleftrightarrow> (\<exists>d b. v = w\<lparr>aw_session := (aw_session w)\<lparr>s_data := d, s_modified := b\<rparr>\<rparr>
     \<and> (\<forall>k. k \<notin> {IntentKey, NextKey, HostAuthPendingKey, Host2faPendingKey} \<longrightarrow> d k = s_data (aw_session w) k))"

lemma intent_only_refl: "intent_only w w"
  unfolding intent_only_def by (rule exI[of _ "s_data (aw_session w)"], rule exI[of _ "s_modified (aw_session w)"]) simp

lemma intent_only_sel:
  assumes "intent_only w v"
  shows "s_data (aw_session v) UserKey = s_data (aw_session w) UserKey" "s_data (aw_session v) FinalKey = s_data (aw_session w) FinalKey"
    "s_data (aw_session v) StageKey = s_data (aw_session w) StageKey" "s_data (aw_session v) AuthAtKey = s_data (aw_session w) AuthAtKey"
    "s_data (aw_session v) DeviceKey = s_data (aw_session w) DeviceKey"
    "s_data (aw_session v) IsolatedSessionKey = s_data (aw_session w) IsolatedSessionKey" "s_key (aw_session v) = s_key (aw_session w)"
    "aw_totp v = aw_totp w" "aw_now v = aw_now w" "aw_events v = aw_events w" "find_account k v = find_account k w"
    "find_credential k v = find_credential k w"
  using assms unfolding intent_only_def by (auto simp: find_account_def)

lemma intent_only_live: "intent_only w v \<Longrightarrow> live_admin env rq a v = live_admin env rq a w"
  by (simp only: live_admin_def identity_def session_id_def intent_only_sel)

lemma intent_only_step:
  assumes "intent_only w v" "\<And>k. k \<notin> {IntentKey, NextKey, HostAuthPendingKey, Host2faPendingKey} \<Longrightarrow> d k = s_data (aw_session v) k"
  shows "intent_only w (v\<lparr>aw_session := (aw_session v)\<lparr>s_data := d, s_modified := b\<rparr>\<rparr>)"
  using assms unfolding intent_only_def by (elim exE conjE, intro exI[of _ d] exI[of _ b]) auto

lemma intent_only_keys:
  assumes "intent_only w v" "k \<in> {IntentKey, NextKey, HostAuthPendingKey, Host2faPendingKey}"
  shows "intent_only w (v\<lparr>aw_session := s_put k x (aw_session v)\<rparr>)" "intent_only w (v\<lparr>aw_session := s_pop k (aw_session v)\<rparr>)"
  unfolding s_put_def s_pop_def by (rule intent_only_step[OF assms(1)], use assms(2) in auto)+

lemma intent_only_modified:
  assumes "intent_only w v"
  shows "intent_only w (v\<lparr>aw_session := (aw_session v)\<lparr>s_modified := True\<rparr>\<rparr>)"
  using intent_only_step[OF assms, of "s_data (aw_session v)" True] by simp

lemma keeps_intent: "isolated env \<Longrightarrow> keeps (intent_only w) (mark_admin_intent env rq n)"
  unfolding mark_admin_intent_def session_put_def session_pop_def with_session_def isolated_def
  by (simp cong: if_cong) (intro keeps_intros, simp_all add: intent_only_keys intent_only_modified)

lemma ended_session_redirects:
  assumes "isolated env" "user_of (aw_session w) \<noteq> []" "s_data (aw_session w) StageKey = Some (SText STAGE_COMPLETE)"
    and "\<not> (\<exists>a. live_admin env rq a w)" "intent_only w u"
  shows "wp (paxalia_login env rq) (\<lambda>r v. intent_only w v \<and> (\<exists>t. r = To (ae_reverse env ''paxalia:auth_login'' @ t)))
    (\<lambda>_ v. intent_only w v) u"
proof -
  let ?Q = "\<lambda>r v. intent_only w v \<and> (\<exists>t. r = To (ae_reverse env ''paxalia:auth_login'' @ t))"
  have pending: "s_truthy (s_data (aw_session w) UserKey)" using assms(2) text_truthy by (simp add: user_of_def)
  have asked: "wp (whenever b (mark_admin_intent env rq n)) (\<lambda>_. intent_only w) (\<lambda>_. intent_only w) u" for b n
    using keepsD[OF keeps_intent[OF assms(1)] assms(5)] assms(5) by (simp add: whenever_def wp_ret)
  have tail: "wp (bind (session_get FinalKey) (\<lambda>final. bind (session_get UserKey) (\<lambda>pending.
      bind (if s_truthy final then admin_session_is_valid env rq else ret False) (\<lambda>valid.
        if valid then bind (safe_next env rq n) (\<lambda>u. ret (To u))
        else if s_truthy pending then resume_login env rq n
        else if rq_method rq = ''POST'' then login_post env rq n flow
        else if flow then bind (safe_next env rq n) (\<lambda>_. ret (login_page 200))
        else ret (login_page 200))))) ?Q (\<lambda>_. intent_only w) v" if v: "intent_only w v" for n flow v
  proof -
    have invalid: "wp (if final then admin_session_is_valid env rq else ret False) (\<lambda>valid x. \<not> valid \<and> x = v) (\<lambda>_ x. x = v) v" for final
    proof (cases final)
      case True
      obtain b x where b: "admin_session_is_valid env rq v = (b, x)" by fastforce
      moreover have "x = v" by (rule reads_result[of v "admin_session_is_valid env rq", OF _ b]) (intro keeps_intros)
      moreover from b have "b \<noteq> Inr True" using valid_sound[OF assms(1), of rq v] assms(4) intent_only_live[OF v] by blast
      ultimately show ?thesis using True by (auto simp: wp_def split: sum.splits)
    qed (simp add: wp_ret)
    have resumed: "wp (resume_login env rq n) ?Q (\<lambda>_. intent_only w) v"
      by (rule wp_mono[OF resume_ended[OF assms(1)]]) (use v assms(3) intent_only_sel(3)[OF v] in auto)
    have named: "s_truthy (s_data (aw_session v) UserKey)" using pending intent_only_sel(1)[OF v] by simp
    show ?thesis
      unfolding session_get_def
      by (rule wp_bindI, rule wp_getsI, rule wp_bindI, rule wp_getsI, rule wp_bindI, rule wp_mono[OF invalid])
        (auto simp: named resumed v)
  qed
  show ?thesis
    unfolding paxalia_login_def Let_def host_off[OF assms(1)] if_False
    apply (rule wp_bindI, rule wp_reads, intro keeps_intros)
     apply (rule wp_bindI, rule wp_reads, intro keeps_intros)
      apply (rule wp_bindI, rule wp_reads, intro keeps_intros)
       apply (rule wp_bindI, rule wp_reads, intro keeps_intros)
        apply (rule wp_seqI, rule wp_mono[OF asked])
         apply (erule tail)
        apply (simp_all add: assms(5))
    done
qed

text \<open>C38: in isolated mode a final session whose administrator is no longer live (expired, revoked, its
  device revoked) locks its browser out of the login. Every request to the login view, with whatever method,
  credentials and parameters and however many of them, either raises or is answered by a redirect to the login
  view itself, and afterwards only the administrator-intent keys that \<open>?admin=1\<close> writes can differ: the
  session still names its user and its final stage, and no row changes, so the next request meets the same
  refusal.\<close>

theorem ended_session_login_loops:
  assumes "isolated env" "user_of (aw_session w) \<noteq> []" "s_data (aw_session w) StageKey = Some (SText STAGE_COMPLETE)"
    and "\<forall>rq \<in> set rqs. \<not> (\<exists>a. live_admin env rq a w)"
  shows "\<exists>rs v. login_replies env rqs w = (rs, v) \<and> length rs = length rqs
    \<and> list_all (\<lambda>r. \<forall>reply. r = Inr reply \<longrightarrow> (\<exists>t. reply = To (ae_reverse env ''paxalia:auth_login'' @ t))) rs
    \<and> (\<exists>d b. v = w\<lparr>aw_session := (aw_session w)\<lparr>s_data := d, s_modified := b\<rparr>\<rparr>
         \<and> (\<forall>k. k \<notin> {IntentKey, NextKey, HostAuthPendingKey, Host2faPendingKey} \<longrightarrow> d k = s_data (aw_session w) k))"
proof -
  have "\<exists>rs v. login_replies env rqs u = (rs, v) \<and> length rs = length rqs
      \<and> list_all (\<lambda>r. \<forall>reply. r = Inr reply \<longrightarrow> (\<exists>t. reply = To (ae_reverse env ''paxalia:auth_login'' @ t))) rs
      \<and> intent_only w v" if "intent_only w u" for u
    using assms(4) that
  proof (induction rqs arbitrary: u)
    case (Cons rq rqs)
    then have step: "wp (paxalia_login env rq) (\<lambda>r v. intent_only w v \<and> (\<exists>t. r = To (ae_reverse env ''paxalia:auth_login'' @ t)))
        (\<lambda>_ v. intent_only w v) u"
      by (intro ended_session_redirects[OF assms(1-3)]) simp_all
    obtain r x where r: "paxalia_login env rq u = (r, x)" by fastforce
    with step have x: "intent_only w x" "\<forall>reply. r = Inr reply \<longrightarrow> (\<exists>t. reply = To (ae_reverse env ''paxalia:auth_login'' @ t))"
      by (auto simp: wp_def split: sum.splits)
    from Cons.prems(1) have "\<forall>rq \<in> set rqs. \<not> (\<exists>a. live_admin env rq a w)" by simp
    from Cons.IH[OF this x(1)] obtain rs v where rest: "login_replies env rqs x = (rs, v)" "length rs = length rqs"
      "list_all (\<lambda>r. \<forall>reply. r = Inr reply \<longrightarrow> (\<exists>t. reply = To (ae_reverse env ''paxalia:auth_login'' @ t))) rs"
      "intent_only w v" by blast
    show ?case by (intro exI[of _ "r # rs"] exI[of _ v]) (simp add: r rest x(2))
  qed simp
  from this[OF intent_only_refl] show ?thesis unfolding intent_only_def .
qed

section \<open>Examples\<close>

definition many_codes :: "mem aworld" where
  "many_codes = example_aworld (example_session ''primary'' False)\<lparr>aw_codes := map (\<lambda>i. \<lparr>rc_id = show_nat i, rc_user = ''1'',
     rc_hash = (if i = 0 then ''ABCD-EFGH-IJKL-MNOP'' else ''other''), rc_created = int i, rc_used = None, rc_revoked = None\<rparr>) [0..<51]\<rparr>"

text \<open>The oldest of fifty-one usable codes is refused.\<close>

theorem recovery_code_accepted_iff_witness:
  "let valid = verify_second_factor (example_aenv []) example_root [] ''ABCD-EFGH-IJKL-MNOP'' in
   valid many_codes = (Inr (False, False), many_codes)
   \<and> fst (valid (many_codes\<lparr>aw_codes := take 50 (aw_codes many_codes)\<rparr>)) = Inr (True, True)"
proof -
  let ?env = "example_aenv []" and ?s = "''ABCD-EFGH-IJKL-MNOP''"
  let ?chars = "filter (\<lambda>c. c \<in> set ''ABCDEFGHIJKLMNOPQRSTUVWXYZ0123456789'') (upper (strip ?s))"
  let ?text = "take 4 ?chars @ ''-'' @ take 4 (drop 4 ?chars) @ ''-'' @ take 4 (drop 8 ?chars) @ ''-'' @ drop 12 ?chars"
  let ?matches = "\<lambda>r. length ?chars = 16 \<and> ae_check_password ?env ?text (rc_hash r)"
  let ?usable = "\<lambda>r. rc_user r = ac_pk example_root \<and> rc_used r = None \<and> rc_revoked r = None"
  let ?few = "many_codes\<lparr>aw_codes := take 50 (aw_codes many_codes)\<rparr>"
  have up: "\<forall>t. \<not> ae_fails ?env t" using example_up by auto
  have ids: "distinct (map rc_id (aw_codes many_codes))" "distinct (map rc_id (aw_codes ?few))" by code_simp+
  note verdict = recovery_code_accepted_iff[OF up, where s = ?s and chars = ?chars and matches = ?matches and usable = ?usable
    and a = example_root, OF _ refl refl refl]
  have "\<forall>r \<in> set (aw_codes many_codes). ?matches r \<longrightarrow>
      \<not> length (filter (\<lambda>q. ?usable q \<and> rc_created r < rc_created q) (aw_codes many_codes)) < 50" by code_simp
  with verdict[OF ids(1)] have "verify_second_factor ?env example_root [] ?s many_codes = (Inr (False, False), many_codes)" by blast
  moreover have "\<exists>r \<in> set (aw_codes ?few). ?usable r \<and> ?matches r \<and>
      \<not> 50 \<le> length (filter (\<lambda>q. ?usable q \<and> rc_id q \<noteq> rc_id r \<and> rc_created r \<le> rc_created q) (aw_codes ?few))" by code_simp
  then have "\<not> (\<forall>r \<in> set (aw_codes ?few). ?usable r \<and> ?matches r \<longrightarrow>
      50 \<le> length (filter (\<lambda>q. ?usable q \<and> rc_id q \<noteq> rc_id r \<and> rc_created r \<le> rc_created q) (aw_codes ?few)))" by blast
  with verdict[OF ids(2)] have "fst (verify_second_factor ?env example_root [] ?s ?few) = Inr (True, True)"
    by (elim disjE bexE conjE) (simp only: fst_conv, blast)
  ultimately show ?thesis unfolding Let_def by blast
qed

theorem challenge_roundtrip_witness:
  "\<exists>c v. create_challenge (example_aenv []) example_root Registration None second_layer = (Inr c, v)
     \<and> challenge_bytes c = Inr ''7''"
proof -
  have "\<exists>c. fst (create_challenge (example_aenv []) example_root Registration None second_layer) = Inr c"
    by (rule exI[of _ "example_challenge Registration\<lparr>ch_id := ''id8'', ch_challenge := unpadded ''7'', ch_handle := None,
       ch_created := 20, ch_expires := 120000020\<rparr>"]) code_simp
  then obtain c v where run: "create_challenge (example_aenv []) example_root Registration None second_layer = (Inr c, v)"
    by (metis prod.collapse)
  moreover have "ae_token (example_aenv []) (aw_fresh second_layer) = ''7''" by code_simp
  ultimately show ?thesis
    using challenge_roundtrip[of "[]" "example_aenv []" example_root Registration None second_layer c v] by auto
qed

definition expired :: "mem aworld" where
  "expired = example_aworld (example_session ''complete'' True)\<lparr>aw_now := 99000000000\<rparr>"

lemma expired_not_live: "\<not> (\<exists>a. live_admin (example_aenv []) rq a expired)"
proof -
  have "parse_auth_time (example_aenv []) (s_data (aw_session expired) AuthAtKey) = Some 10"
    "session_max_age (example_aenv []) = Inr 28800" "aw_now expired = 99000000000"
    by code_simp+
  then show ?thesis by (simp add: live_admin_def)
qed

theorem ended_session_login_loops_witness:
  "\<exists>rs v. login_replies (example_aenv []) [example_pending\<lparr>rq_get := [(''admin'', ''1'')]\<rparr>,
       example_rq ''POST'' [(''username'', ''root''), (''password'', ''secret'')]] expired = (rs, v)
     \<and> list_all (\<lambda>r. \<forall>reply. r = Inr reply \<longrightarrow> (\<exists>t. reply = To (''/admin/paxalia:auth_login'' @ t))) rs
     \<and> s_data (aw_session v) StageKey = Some (SText STAGE_COMPLETE) \<and> aw_events v = aw_events expired"
proof -
  have state: "user_of (aw_session expired) \<noteq> []" "s_data (aw_session expired) StageKey = Some (SText STAGE_COMPLETE)"
    by code_simp+
  have url: "ae_reverse (example_aenv []) n = ''/admin/'' @ n" for n by (simp add: example_aenv_def)
  let ?rqs = "[example_pending\<lparr>rq_get := [(''admin'', ''1'')]\<rparr>, example_rq ''POST'' [(''username'', ''root''), (''password'', ''secret'')]]"
  have "\<forall>rq \<in> set ?rqs. \<not> (\<exists>a. live_admin (example_aenv []) rq a expired)" using expired_not_live by blast
  from ended_session_login_loops[OF isolated_example state this] obtain rs v d b where
    run: "login_replies (example_aenv []) ?rqs expired = (rs, v)"
      "list_all (\<lambda>r. \<forall>reply. r = Inr reply \<longrightarrow> (\<exists>t. reply = To (''/admin/paxalia:auth_login'' @ t))) rs"
      "v = expired\<lparr>aw_session := (aw_session expired)\<lparr>s_data := d, s_modified := b\<rparr>\<rparr>"
      "\<forall>k. k \<notin> {IntentKey, NextKey, HostAuthPendingKey, Host2faPendingKey} \<longrightarrow> d k = s_data (aw_session expired) k"
    by (auto simp: url)
  with state(2) show ?thesis by (intro exI[of _ rs] exI[of _ v]) simp
qed

end
