(* ===== verification/Isolated_Session.thy ===== *)
theory Isolated_Session
  imports Admin_Example
begin

text \<open>
  The separate session of the dashboard (\<open>auth_middleware.py\<close>). A dashboard request runs with a session
  object of its own, opened from its own cookie; afterwards the host's session is put back. Session
  objects live in a heap, since the middleware and the code inside it share them. Django's \<open>SessionStore\<close>
  and the rest of the request are parameters: \<open>store_ops\<close> and the inner handler, which may do anything to
  the heap and to the request.
\<close>

section \<open>Session objects and the request\<close>

record ('s, 'r) store_ops =
  so_open :: "string option \<Rightarrow> 's res"
  so_key :: "'s \<Rightarrow> string option"
  so_empty :: "'s \<Rightarrow> bool"
  so_accessed :: "'s \<Rightarrow> bool"
  so_modified :: "'s \<Rightarrow> bool"
  so_create :: "'s \<Rightarrow> 'r \<Rightarrow> 's res \<times> 'r"
  so_save :: "'s \<Rightarrow> 'r \<Rightarrow> 's res \<times> 'r"

text \<open>\<open>iw_session\<close> is \<open>request.session\<close>, the next two fields are the attributes the middleware leaves on
  the request.\<close>

record ('s, 'r) iworld =
  iw_objects :: "nat \<Rightarrow> 's"
  iw_next :: nat
  iw_rows :: 'r
  iw_session :: "nat option"
  iw_host_session :: "nat option"
  iw_active :: bool

type_synonym ('s, 'r, 'a) iio = "(('s, 'r) iworld, 'a) io"

text \<open>A cookie of the response: set with a value, an age and a domain, or deleted.\<close>

datatype cookie = Set_Cookie string string int bool string pyval string | Delete_Cookie string string

record response =
  rs_status :: int
  rs_headers :: "(string \<times> string) list"
  rs_vary :: "string list"
  rs_cookies :: "cookie list"

text \<open>\<open>ie_touch\<close> evaluates the lazy \<open>request.user\<close>; its exceptions are dropped. \<open>ie_django\<close> are Django's own
  session settings.\<close>

record ('c, 's, 'r) ienv =
  ie_auth :: "'c aenv"
  ie_store :: "('s, 'r) store_ops"
  ie_touch :: "('s, 'r) iworld \<Rightarrow> ('s, 'r) iworld"
  ie_django :: settings

definition django_setting :: "('c, 's, 'r) ienv \<Rightarrow> string \<Rightarrow> pyval \<Rightarrow> pyval" where
  "django_setting ie name dflt = (case map_of (ie_django ie) name of None \<Rightarrow> dflt | Some v \<Rightarrow> v)"

definition new_object :: "'s \<Rightarrow> ('s, 'r, nat) iio" where
  "new_object s w = (Inr (iw_next w), w\<lparr>iw_objects := (iw_objects w)(iw_next w := s), iw_next := Suc (iw_next w)\<rparr>)"

definition store_call :: "nat \<Rightarrow> ('s \<Rightarrow> 'r \<Rightarrow> 's res \<times> 'r) \<Rightarrow> ('s, 'r, unit) iio" where
  "store_call obj f w = (case f (iw_objects w obj) (iw_rows w) of
      (Inl e, rows) \<Rightarrow> (Inl e, w\<lparr>iw_rows := rows\<rparr>)
    | (Inr s, rows) \<Rightarrow> (Inr (), w\<lparr>iw_rows := rows, iw_objects := (iw_objects w)(obj := s)\<rparr>))"

section \<open>The configuration of the cookie\<close>

definition isolated_mode :: "('c, 's, 'r) ienv \<Rightarrow> bool" where
  "isolated_mode ie = (\<not> host_authentication_enabled (ie_auth ie))"

definition is_paxalia_request :: "('c, 's, 'r) ienv \<Rightarrow> string \<Rightarrow> bool res" where
  "is_paxalia_request ie path =
     bind_res (dashboard_path (ie_auth ie)) (\<lambda>dashboard. Inr (below_path dashboard (slash_if_empty (rstrip_slash path))))"

definition isolated_session_cookie_name :: "('c, 's, 'r) ienv \<Rightarrow> string" where
  "isolated_session_cookie_name ie =
     (let v = cfg_get (ae_settings (ie_auth ie)) ''AUTH_ISOLATED_SESSION_COOKIE_NAME'' PNone;
          name = strip (if truthy v then py_str v else ''paxalia_admin_session'')
      in if name = [] then ''paxalia_admin_session'' else name)"

definition isolated_session_max_age :: "('c, 's, 'r) ienv \<Rightarrow> int res" where
  "isolated_session_max_age ie =
     bind_res (py_int (cfg_get (ae_settings (ie_auth ie)) ''ADMIN_SESSION_MAX_AGE_SECONDS'' (PInt (8 * 60 * 60))))
       (\<lambda>n. Inr (max 60 n))"

definition first_true :: "pyval \<Rightarrow> pyval \<Rightarrow> pyval" where
  "first_true v d = (if truthy v then v else d)"

definition session_cookie :: "('c, 's, 'r) ienv \<Rightarrow> string \<Rightarrow> string \<Rightarrow> string \<Rightarrow> cookie res" where
  "session_cookie ie name key path =
     bind_res (isolated_session_max_age ie) (\<lambda>age.
     let secure = truthy (django_setting ie ''SESSION_COOKIE_SECURE'' (PBool False));
         samesite = py_str (first_true (cfg_get (ae_settings (ie_auth ie)) ''AUTH_ISOLATED_SESSION_COOKIE_SAMESITE'' PNone)
           (first_true (django_setting ie ''SESSION_COOKIE_SAMESITE'' (PStr ''Lax'')) (PStr ''Lax'')));
         domain = first_true (cfg_get (ae_settings (ie_auth ie)) ''AUTH_ISOLATED_SESSION_COOKIE_DOMAIN'' PNone)
           (django_setting ie ''SESSION_COOKIE_DOMAIN'' PNone)
     in Inr (Set_Cookie name key age secure samesite domain path))"

section \<open>The middleware\<close>

definition finish_response :: "('c, 's, 'r) ienv \<Rightarrow> nat \<Rightarrow> string \<Rightarrow> string \<Rightarrow> response \<Rightarrow> ('s, 'r, response) iio" where
  "finish_response ie obj name path r =
     bind (gets (\<lambda>w. iw_objects w obj)) (\<lambda>s.
     let st = ie_store ie;
         headed = r\<lparr>rs_headers := rs_headers r @ [(''Referrer-Policy'', ''same-origin''), (''X-Robots-Tag'', ''noindex, nofollow, noarchive'')],
                    rs_vary := (if so_accessed st s then rs_vary r @ [''Cookie''] else rs_vary r)\<rparr>
     in seq (if so_modified st s \<or> truthy (django_setting ie ''SESSION_SAVE_EVERY_REQUEST'' (PBool False))
             then if so_key st s = None then whenever (\<not> so_empty st s) (store_call obj (so_create st))
                  else store_call obj (so_save st)
             else ret ())
       (bind (gets (\<lambda>w. iw_objects w obj)) (\<lambda>t.
        case so_key st t of
          None \<Rightarrow> ret (headed\<lparr>rs_cookies := rs_cookies r @ [Delete_Cookie name path]\<rparr>)
        | Some key \<Rightarrow>
            if so_empty st t then ret (headed\<lparr>rs_cookies := rs_cookies r @ [Delete_Cookie name path]\<rparr>)
            else bind (lift (session_cookie ie name key path)) (\<lambda>c.
              ret (headed\<lparr>rs_cookies := rs_cookies r @ [c]\<rparr>)))))"

text \<open>The host session to go back to: the object itself, or the original key opened again when the object
  no longer has it.\<close>

definition restored_host_session :: "('c, 's, 'r) ienv \<Rightarrow> nat option \<Rightarrow> string option \<Rightarrow> ('s, 'r, nat option) iio" where
  "restored_host_session ie host host_key =
     (case (host, host_key) of
        (Some obj, Some key) \<Rightarrow>
          bind (gets (\<lambda>w. so_key (ie_store ie) (iw_objects w obj))) (\<lambda>current.
            if key = [] \<or> current = Some key then ret host
            else (case so_open (ie_store ie) (Some key) of
                Inl e \<Rightarrow> ret host
              | Inr s \<Rightarrow> bind (new_object s) (\<lambda>o'. ret (Some o'))))
      | _ \<Rightarrow> ret host)"

definition restore_host :: "('c, 's, 'r) ienv \<Rightarrow> nat option \<Rightarrow> string option \<Rightarrow> ('s, 'r, unit) iio" where
  "restore_host ie host host_key =
     seq (modify (ie_touch ie))
       (bind (restored_host_session ie host host_key) (\<lambda>restored.
         modify (\<lambda>w. w\<lparr>iw_session := restored, iw_host_session := restored\<rparr>)))"

definition isolated_session :: "('c, 's, 'r) ienv \<Rightarrow> ('s, 'r, response) iio \<Rightarrow> string \<Rightarrow> (string \<times> string) list \<Rightarrow> ('s, 'r, response) iio" where
  "isolated_session ie inner path cookies =
     (if \<not> isolated_mode ie then inner
      else bind (lift (is_paxalia_request ie path)) (\<lambda>ours.
      if \<not> ours then inner
      else
      bind (gets (\<lambda>w. (iw_session w, Option.bind (iw_session w) (\<lambda>obj. so_key (ie_store ie) (iw_objects w obj))))) (\<lambda>(host, host_key).
      seq (modify (\<lambda>w. w\<lparr>iw_host_session := host\<rparr>))
      (bind (lift (dashboard_path (ie_auth ie))) (\<lambda>cookie_path.
       let name = isolated_session_cookie_name ie in
       bind (lift (so_open (ie_store ie) (map_of cookies name))) (\<lambda>s.
       bind (new_object s) (\<lambda>obj.
       seq (modify (\<lambda>w. w\<lparr>iw_session := Some obj, iw_active := True\<rparr>))
        (cleanup
          (bind inner (\<lambda>r. seq (modify (ie_touch ie)) (finish_response ie obj name cookie_path r)))
          (restore_host ie host host_key))))))))) "

text \<open>\<open>PaxaliaHostAuthIsolationMiddleware\<close>: the handler sees no user of the host; \<open>user\<close> and \<open>set_user\<close> are the
  field of the request.\<close>

definition host_auth_isolation :: "('c, 's, 'r) ienv \<Rightarrow> ('w \<Rightarrow> 'u option) \<Rightarrow> ('u option \<Rightarrow> 'w \<Rightarrow> 'w) \<Rightarrow> ('w, 'a) io \<Rightarrow> string \<Rightarrow> ('w, 'a) io" where
  "host_auth_isolation ie user set_user inner path =
     (if \<not> isolated_mode ie then inner
      else bind (lift (is_paxalia_request ie path)) (\<lambda>ours.
      if \<not> ours then inner
      else bind (gets user) (\<lambda>original.
        seq (modify (set_user None)) (cleanup inner (modify (set_user original))))))"

section \<open>What the middleware guarantees\<close>

text \<open>A clean-up that neither reads nor keeps anything of the outcome decides the state it leaves.\<close>

lemma snd_cleanup:
  assumes "\<And>v. fst (f v) = Inr ()"
  shows "snd (cleanup m f w) = snd (f (snd (m w)))"
proof -
  obtain r t where m: "m w = (r, t)" by fastforce
  obtain u where "f t = (Inr (), u)" using assms[of t] by (cases "f t") auto
  with m show ?thesis by (simp add: cleanup_def)
qed

lemma restore_host_returns: "fst (restore_host ie host host_key w) = Inr ()"
  by (auto simp: restore_host_def restored_host_session_def seq_def bind_def modify_def gets_def ret_def new_object_def
      split: option.splits sum.splits)

lemma restore_host_key:
  assumes "host_key = Option.bind host (\<lambda>obj. Some key)" "key \<noteq> []"
    and opens: "so_open (ie_store ie) (Some key) = Inr s" "so_key (ie_store ie) s = Some key"
  shows "case host of None \<Rightarrow> iw_session (snd (restore_host ie host host_key w)) = None
    | Some obj \<Rightarrow> \<exists>o'. iw_session (snd (restore_host ie host host_key w)) = Some o'
        \<and> so_key (ie_store ie) (iw_objects (snd (restore_host ie host host_key w)) o') = Some key"
  using assms
  by (cases host) (auto simp: restore_host_def restored_host_session_def seq_def bind_def modify_def gets_def ret_def new_object_def)

text \<open>The world the handler starts in: its session is a new object, opened from the dashboard's own cookie.\<close>

definition entered :: "('c, 's, 'r) ienv \<Rightarrow> 's \<Rightarrow> ('s, 'r) iworld \<Rightarrow> ('s, 'r) iworld" where
  "entered ie s w = w\<lparr>iw_host_session := iw_session w, iw_objects := (iw_objects w)(iw_next w := s),
     iw_next := Suc (iw_next w), iw_session := Some (iw_next w), iw_active := True\<rparr>"

definition session_key_of :: "('c, 's, 'r) ienv \<Rightarrow> ('s, 'r) iworld \<Rightarrow> string option" where
  "session_key_of ie w = Option.bind (iw_session w) (\<lambda>obj. so_key (ie_store ie) (iw_objects w obj))"

lemma isolated_session_runs:
  assumes "isolated_mode ie" "is_paxalia_request ie path = Inr True" "dashboard_path (ie_auth ie) = Inr d"
    and "so_open (ie_store ie) (map_of cookies (isolated_session_cookie_name ie)) = Inr s"
  shows "isolated_session ie inner path cookies w =
    cleanup (bind inner (\<lambda>r. seq (modify (ie_touch ie)) (finish_response ie (iw_next w) (isolated_session_cookie_name ie) d r)))
      (restore_host ie (iw_session w) (session_key_of ie w)) (entered ie s w)"
  using assms
  by (simp add: isolated_session_def bind_def lift_def gets_def seq_def modify_def new_object_def Let_def entered_def session_key_of_def)

text \<open>C13: a dashboard request in isolated mode runs with a session object of its own, opened from the
  dashboard's cookie, and whatever the handler does to either session, and however it ends, the request
  leaves with a session that has the key of the host's session before it, or with none if there was none.\<close>

theorem dashboard_session_is_separate:
  assumes "isolated_mode ie" "is_paxalia_request ie path = Inr True" "dashboard_path (ie_auth ie) = Inr d"
    and "so_open (ie_store ie) (map_of cookies (isolated_session_cookie_name ie)) = Inr s"
    and "so_open (ie_store ie) (Some key) = Inr h" "so_key (ie_store ie) h = Some key" "key \<noteq> []"
    and "iw_session w = None \<or> session_key_of ie w = Some key"
  shows "isolated_session ie inner path cookies w = isolated_session ie (\<lambda>_. inner (entered ie s w)) path cookies w
    \<and> session_key_of ie (snd (isolated_session ie inner path cookies w)) = session_key_of ie w
    \<and> iw_session (entered ie s w) = Some (iw_next w) \<and> iw_objects (entered ie s w) (iw_next w) = s"
proof -
  let ?run = "bind inner (\<lambda>r. seq (modify (ie_touch ie)) (finish_response ie (iw_next w) (isolated_session_cookie_name ie) d r))"
  note runs = isolated_session_runs[OF assms(1-4)]
  have key: "session_key_of ie w = Option.bind (iw_session w) (\<lambda>obj. Some key)"
    using assms(8) by (cases "iw_session w") (auto simp: session_key_of_def)
  have "snd (isolated_session ie inner path cookies w) =
      snd (restore_host ie (iw_session w) (session_key_of ie w) (snd (?run (entered ie s w))))"
    unfolding runs by (rule snd_cleanup) (rule restore_host_returns)
  with restore_host_key[OF key assms(7,5,6), of "snd (?run (entered ie s w))"]
  have "session_key_of ie (snd (isolated_session ie inner path cookies w)) = session_key_of ie w"
    unfolding key by (auto simp: session_key_of_def split: option.splits)
  moreover have "isolated_session ie inner path cookies w = isolated_session ie (\<lambda>_. inner (entered ie s w)) path cookies w"
    by (simp add: runs cleanup_def bind_def)
  ultimately show ?thesis by (simp add: entered_def)
qed

text \<open>With the dashboard at the root of the site no other page of it is isolated: the handler runs with
  the host's session.\<close>

lemma root_mount_not_isolated:
  assumes "dashboard_path (ie_auth ie) = Inr ''/''" "slash_if_empty (rstrip_slash path) \<noteq> ''/''" "\<not> starts_with path ''//''"
  shows "isolated_session ie inner path cookies w = inner w"
proof -
  have "\<not> starts_with (slash_if_empty (rstrip_slash path)) ''//''"
  proof
    assume "starts_with (slash_if_empty (rstrip_slash path)) ''//''"
    then have "prefix ''//'' (rstrip_slash path)"
      by (auto simp: starts_with_prefix slash_if_empty_def or_default_def split: if_splits)
    moreover have "prefix (rstrip_slash path) path"
      unfolding rstrip_slash_def rstrip_by_def by (metis suffix_dropWhile suffix_to_prefix rev_rev_ident)
    ultimately show False using assms(3) by (simp add: starts_with_prefix)
  qed
  with assms show ?thesis
    by (simp add: isolated_session_def is_paxalia_request_def below_path_def bind_def lift_def)
qed

text \<open>The session cookie of a response is that of the dashboard's own session object, or is deleted.\<close>

lemma finished_cookie:
  assumes "finish_response ie obj name path r w = (Inr r', w')"
  shows "\<exists>c. rs_cookies r' = rs_cookies r @ [c] \<and> (case c of
      Delete_Cookie n p \<Rightarrow> n = name \<and> p = path
    | Set_Cookie n key age secure samesite domain p \<Rightarrow> n = name \<and> p = path \<and> 60 \<le> age
        \<and> so_key (ie_store ie) (iw_objects w' obj) = Some key \<and> \<not> so_empty (ie_store ie) (iw_objects w' obj))"
proof -
  have ending: "wp (case so_key (ie_store ie) t of
          None \<Rightarrow> ret (h\<lparr>rs_cookies := rs_cookies r @ [Delete_Cookie name path]\<rparr>)
        | Some key \<Rightarrow>
            if so_empty (ie_store ie) t then ret (h\<lparr>rs_cookies := rs_cookies r @ [Delete_Cookie name path]\<rparr>)
            else bind (lift (session_cookie ie name key path)) (\<lambda>c. ret (h\<lparr>rs_cookies := rs_cookies r @ [c]\<rparr>)))
      (\<lambda>r' w'. \<exists>c. rs_cookies r' = rs_cookies r @ [c] \<and> (case c of
          Delete_Cookie n p \<Rightarrow> n = name \<and> p = path
        | Set_Cookie n key age secure samesite domain p \<Rightarrow> n = name \<and> p = path \<and> 60 \<le> age
            \<and> so_key (ie_store ie) (iw_objects w' obj) = Some key \<and> \<not> so_empty (ie_store ie) (iw_objects w' obj))) (\<lambda>_ _. True) v"
    if "t = iw_objects v obj" for t h v
    using that by (auto simp: wp_simps session_cookie_def isolated_session_max_age_def bind_res_eq_Inr Let_def split: option.splits sum.splits)
  have "wp (finish_response ie obj name path r)
      (\<lambda>r' w'. \<exists>c. rs_cookies r' = rs_cookies r @ [c] \<and> (case c of
          Delete_Cookie n p \<Rightarrow> n = name \<and> p = path
        | Set_Cookie n key age secure samesite domain p \<Rightarrow> n = name \<and> p = path \<and> 60 \<le> age
            \<and> so_key (ie_store ie) (iw_objects w' obj) = Some key \<and> \<not> so_empty (ie_store ie) (iw_objects w' obj))) (\<lambda>_ _. True) w"
    unfolding finish_response_def Let_def wp_bind[of "gets _"] wp_gets wp_seq by (rule wp_any) (rule ending, rule refl, simp)
  from wpD_Inr[OF this assms] show ?thesis .
qed

text \<open>A store whose sessions are their keys, and a handler that throws the sessions away and raises.\<close>

definition key_store :: "(string option, unit) store_ops" where
  "key_store = \<lparr>so_open = (\<lambda>k. Inr k), so_key = (\<lambda>s. s), so_empty = (\<lambda>s. s = None), so_accessed = (\<lambda>_. True),
     so_modified = (\<lambda>_. False), so_create = (\<lambda>s rows. (Inr s, rows)), so_save = (\<lambda>s rows. (Inr s, rows))\<rparr>"

definition example_ienv :: "(mem, string option, unit) ienv" where
  "example_ienv = \<lparr>ie_auth = example_aenv [(''DASHBOARD_URL'', PStr ''/admin/'')], ie_store = key_store, ie_touch = id, ie_django = []\<rparr>"

definition hostile_handler :: "(string option, unit, response) iio" where
  "hostile_handler w = (Inl RuntimeError, w\<lparr>iw_objects := (\<lambda>_. Some ''stolen''), iw_session := None\<rparr>)"

definition example_iworld :: "(string option, unit) iworld" where
  "example_iworld = \<lparr>iw_objects = (\<lambda>_. Some ''hostkey''), iw_next = 1, iw_rows = (), iw_session = Some 0, iw_host_session = None,
     iw_active = False\<rparr>"

theorem dashboard_session_is_separate_witness:
  "session_key_of example_ienv (snd (isolated_session example_ienv hostile_handler ''/admin/users/'' [] example_iworld)) = Some ''hostkey''"
proof -
  have mode: "isolated_mode example_ienv"
    by (simp add: isolated_mode_def host_authentication_enabled_def example_ienv_def example_aenv_def example_settings_def
        cfg_get_def get_config_def)
  have path: "dashboard_path (ie_auth example_ienv) = Inr ''/admin''"
    unfolding example_ienv_def ienv.simps by code_simp
  then have ours: "is_paxalia_request example_ienv ''/admin/users/'' = Inr True"
    by (simp add: is_paxalia_request_def) code_simp
  note store = example_ienv_def key_store_def
  have open_own: "so_open (ie_store example_ienv) (map_of [] (isolated_session_cookie_name example_ienv)) = Inr None"
    and open_host: "so_open (ie_store example_ienv) (Some ''hostkey'') = Inr (Some ''hostkey'')"
    and host_key: "so_key (ie_store example_ienv) (Some ''hostkey'') = Some ''hostkey''"
    and before: "session_key_of example_ienv example_iworld = Some ''hostkey''"
    by (simp_all add: store session_key_of_def example_iworld_def)
  have "session_key_of example_ienv (snd (isolated_session example_ienv hostile_handler ''/admin/users/'' [] example_iworld)) =
      session_key_of example_ienv example_iworld"
    by (rule dashboard_session_is_separate[OF mode ours path open_own open_host host_key, THEN conjunct2, THEN conjunct1])
      (simp_all add: before)
  from this before show ?thesis by (rule trans)
qed

end
