(* ===== verification/Monitor_Target.thy ===== *)
theory Monitor_Target
  imports Config State_Err Urls "HOL-Library.Word"
begin

text \<open>
  Which addresses an availability check may contact (\<open>uptime.py\<close>): the classification of addresses by
  Python's \<open>ipaddress\<close> (networks of version 3.11.10), and the resolution of a monitor's URL right
  before a connection is made. The answers of the resolver are a parameter and may differ from one
  lookup to the next.
\<close>

section \<open>Addresses\<close>

datatype ip = V4 "32 word" | V6 "128 word"

text \<open>A network is its base address and the length of its prefix.\<close>

definition in_net :: "'a::len word \<Rightarrow> 'a word \<times> nat \<Rightarrow> bool" where
  "in_net a net = (case net of (base, n) \<Rightarrow> drop_bit (LENGTH('a) - n) a = drop_bit (LENGTH('a) - n) base)"

definition in_nets :: "'a::len word \<Rightarrow> ('a word \<times> nat) list \<Rightarrow> bool" where
  "in_nets a nets = list_ex (in_net a) nets"

definition private_nets_v4 :: "(32 word \<times> nat) list" where
  "private_nets_v4 =
    [(0x00000000, 8), (0x0A000000, 8), (0x7F000000, 8), (0xA9FE0000, 16), (0xAC100000, 12), (0xC0000000, 24),
     (0xC00000AA, 31), (0xC0000200, 24), (0xC0A80000, 16), (0xC6120000, 15), (0xC6336400, 24), (0xCB007100, 24),
     (0xF0000000, 4), (0xFFFFFFFF, 32)]"

definition private_exceptions_v4 :: "(32 word \<times> nat) list" where
  "private_exceptions_v4 = [(0xC0000009, 32), (0xC000000A, 32)]"

definition private_v4 :: "32 word \<Rightarrow> bool" where
  "private_v4 a \<longleftrightarrow> in_nets a private_nets_v4 \<and> \<not> in_nets a private_exceptions_v4"

definition private_nets_v6 :: "(128 word \<times> nat) list" where
  "private_nets_v6 =
    [(1, 128), (0, 128), (0xFFFF00000000, 96), (0x0064FF9B000100000000000000000000, 48),
     (0x01000000000000000000000000000000, 64), (0x20010000000000000000000000000000, 23),
     (0x20010DB8000000000000000000000000, 32), (0x20020000000000000000000000000000, 16),
     (0xFC000000000000000000000000000000, 7), (0xFE800000000000000000000000000000, 10)]"

definition private_exceptions_v6 :: "(128 word \<times> nat) list" where
  "private_exceptions_v6 =
    [(0x20010001000000000000000000000001, 128), (0x20010001000000000000000000000002, 128),
     (0x20010003000000000000000000000000, 32), (0x20010004011200000000000000000000, 48),
     (0x20010020000000000000000000000000, 28), (0x20010030000000000000000000000000, 28)]"

definition reserved_nets_v6 :: "(128 word \<times> nat) list" where
  "reserved_nets_v6 =
    [(0, 8), (0x01000000000000000000000000000000, 8), (0x02000000000000000000000000000000, 7),
     (0x04000000000000000000000000000000, 6), (0x08000000000000000000000000000000, 5),
     (0x10000000000000000000000000000000, 4), (0x40000000000000000000000000000000, 3),
     (0x60000000000000000000000000000000, 3), (0x80000000000000000000000000000000, 3),
     (0xA0000000000000000000000000000000, 3), (0xC0000000000000000000000000000000, 3),
     (0xE0000000000000000000000000000000, 4), (0xF0000000000000000000000000000000, 5),
     (0xF8000000000000000000000000000000, 6), (0xFE000000000000000000000000000000, 9)]"

definition mapped_v4 :: "128 word \<Rightarrow> 32 word option" where
  "mapped_v4 a = (if drop_bit 32 a = 0xFFFF then Some (ucast a) else None)"

fun ip_private :: "ip \<Rightarrow> bool" where
  "ip_private (V4 a) = private_v4 a"
| "ip_private (V6 a) = (case mapped_v4 a of
      Some b \<Rightarrow> private_v4 b
    | None \<Rightarrow> in_nets a private_nets_v6 \<and> \<not> in_nets a private_exceptions_v6)"

fun ip_loopback :: "ip \<Rightarrow> bool" where
  "ip_loopback (V4 a) = in_net a (0x7F000000, 8)"
| "ip_loopback (V6 a) = (a = 1)"

fun ip_link_local :: "ip \<Rightarrow> bool" where
  "ip_link_local (V4 a) = in_net a (0xA9FE0000, 16)"
| "ip_link_local (V6 a) = in_net a (0xFE800000000000000000000000000000, 10)"

fun ip_reserved :: "ip \<Rightarrow> bool" where
  "ip_reserved (V4 a) = in_net a (0xF0000000, 4)"
| "ip_reserved (V6 a) = in_nets a reserved_nets_v6"

fun ip_multicast :: "ip \<Rightarrow> bool" where
  "ip_multicast (V4 a) = in_net a (0xE0000000, 4)"
| "ip_multicast (V6 a) = in_net a (0xFF000000000000000000000000000000, 8)"

fun ip_unspecified :: "ip \<Rightarrow> bool" where
  "ip_unspecified (V4 a) = (a = 0)"
| "ip_unspecified (V6 a) = (a = 0)"

text \<open>One answer of the resolver: no socket address, a text \<open>ipaddress\<close> refuses, or an address.\<close>

datatype sockaddr = NoAddress | Unparsable | Address ip

fun is_disallowed_ip :: "sockaddr \<Rightarrow> bool" where
  "is_disallowed_ip (Address i) = (ip_private i \<or> ip_loopback i \<or> ip_link_local i \<or> ip_reserved i \<or> ip_multicast i \<or> ip_unspecified i)"
| "is_disallowed_ip a = True"

section \<open>The network as a check sees it\<close>

text \<open>The answer of a server to one request; \<open>hr_read\<close> is the exception reading past \<open>hr_body\<close> ends in.\<close>

record http_request =
  rq_url :: string
  rq_method :: string
  rq_headers :: "(string \<times> string) list"
  rq_data :: "string option"
  rq_timeout :: int

record http_reply =
  hr_status :: int
  hr_reason :: string
  hr_headers :: "(string \<times> string) list"
  hr_body :: string
  hr_read :: "exn option"

text \<open>\<open>ne_lookup\<close> is the resolver and \<open>ne_serve\<close> the network: what a request over a connection to this
  address gets, or the exception it ends in; both depend on how many operations came before.
  \<open>ne_location\<close> is the address a redirect names, made absolute, or the library's refusal to follow it;
  \<open>ne_decode\<close> decodes bytes with replacement, \<open>ne_json\<close> parses JSON, \<open>ne_errtext\<close> the text of an
  exception, \<open>ne_elapsed\<close> the clock.\<close>

record net_env =
  ne_settings :: settings
  ne_bracketed_ok :: "string \<Rightarrow> bool"
  ne_lookup :: "nat \<Rightarrow> string \<Rightarrow> int \<Rightarrow> sockaddr list res"
  ne_serve :: "nat \<Rightarrow> ip \<Rightarrow> http_request \<Rightarrow> http_reply res"
  ne_location :: "string \<Rightarrow> string \<Rightarrow> (string + string) res"
  ne_decode :: "string \<Rightarrow> string"
  ne_json :: "string \<Rightarrow> pyval res"
  ne_errtext :: "exn \<Rightarrow> string"
  ne_elapsed :: "nat \<Rightarrow> int"

text \<open>\<open>nw_connects\<close> records, newest first, every connection with the URL requested over it and the
  answer of the resolver it was made from.\<close>

record net_world =
  nw_step :: nat
  nw_connects :: "(ip \<times> string \<times> sockaddr list) list"

type_synonym 'a netio = "(net_world, 'a) io"

definition tick :: "nat netio" where
  "tick w = (Inr (nw_step w), w\<lparr>nw_step := Suc (nw_step w)\<rparr>)"

lemma wp_tick [wp_simps]: "wp tick Q E w = Q (nw_step w) (w\<lparr>nw_step := Suc (nw_step w)\<rparr>)"
  by (simp add: wp_def tick_def)

definition invalid :: "string \<Rightarrow> 'a res" where
  "invalid m = Inl (ValueError m)"

text \<open>\<open>except ValueError\<close> and \<open>except OSError\<close>, both re-raised as a \<open>ValueError\<close> with a fixed text.\<close>

fun value_error_as :: "string \<Rightarrow> 'a res \<Rightarrow> 'a res" where
  "value_error_as m (Inl (ValueError _)) = invalid m"
| "value_error_as m r = r"

fun os_error_as :: "string \<Rightarrow> 'a res \<Rightarrow> 'a res" where
  "os_error_as m (Inl (OSError _)) = invalid m"
| "os_error_as m r = r"

definition web_scheme :: "string \<Rightarrow> bool" where
  "web_scheme s \<longleftrightarrow> List.member [''http'', ''https''] (lower s)"

text \<open>\<open>parsed.port or (443 if https else 80)\<close>.\<close>

definition monitor_port :: "split_url \<Rightarrow> int res" where
  "monitor_port p = bind_res (value_error_as ''Monitor URL contains an invalid port.'' (url_port p)) (\<lambda>port.
     let default_port = (if lower (url_scheme p) = ''https'' then 443 else 80) in
     Inr (case port of None \<Rightarrow> default_port | Some n \<Rightarrow> if n = 0 then default_port else n))"

definition monitor_host :: "net_env \<Rightarrow> string \<Rightarrow> (string \<times> int) res" where
  "monitor_host ne url =
     bind_res (value_error_as ''Invalid monitor URL.'' (split_url_text (ne_bracketed_ok ne) url)) (\<lambda>p.
     if \<not> web_scheme (url_scheme p) then invalid ''Only http:// and https:// monitor URLs are allowed.''
     else if fst (url_userinfo p) \<noteq> [] \<or> snd (url_userinfo p) \<noteq> []
     then invalid ''Monitor URLs must not contain embedded credentials.''
     else if url_hostname p = [] then invalid ''Monitor URL must include a hostname.''
     else let hostname = lower (rstrip_by (\<lambda>c. c = CHR ''.'') (url_hostname p)) in
       bind_res (monitor_port p) (\<lambda>port.
       if \<not> (1 \<le> port \<and> port \<le> 65535) then invalid ''Monitor URL contains an invalid port.''
       else Inr (hostname, port)))"

text \<open>One address that may not be contacted refuses the whole answer.\<close>

fun usable_addresses :: "sockaddr list \<Rightarrow> ip list res" where
  "usable_addresses [] = Inr []"
| "usable_addresses (NoAddress # infos) = usable_addresses infos"
| "usable_addresses (Unparsable # infos) = invalid ''Monitor URL resolves to a private, local, or reserved network address.''"
| "usable_addresses (Address i # infos) =
     (if is_disallowed_ip (Address i)
      then invalid ''Monitor URL resolves to a private, local, or reserved network address.''
      else bind_res (usable_addresses infos) (\<lambda>is. Inr (i # is)))"

text \<open>The address to connect to, with the answer it was taken from.\<close>

definition resolve_public_target :: "net_env \<Rightarrow> string \<Rightarrow> (ip \<times> sockaddr list) netio" where
  "resolve_public_target ne url =
     bind (lift (monitor_host ne url)) (\<lambda>(hostname, port).
     bind tick (\<lambda>n.
     bind (lift (os_error_as ''Monitor hostname could not be resolved.'' (ne_lookup ne n hostname port))) (\<lambda>infos.
     bind (lift (usable_addresses infos)) (\<lambda>addresses.
     case addresses of [] \<Rightarrow> raise (ValueError ''Monitor hostname has no usable address.'')
     | i # _ \<Rightarrow> ret (i, infos)))))"

text \<open>\<open>validate_monitor_url\<close>: nothing for a URL that may be checked, the reason otherwise.\<close>

definition validate_monitor_url :: "net_env \<Rightarrow> string \<Rightarrow> string option netio" where
  "validate_monitor_url ne url =
     catch (bind (resolve_public_target ne url) (\<lambda>_. ret None))
       (\<lambda>e. case e of ValueError m \<Rightarrow> ret (Some m) | _ \<Rightarrow> raise e)"

section \<open>What the policy admits\<close>

lemma quotient_bounds:
  assumes "(0::int) < m"
  shows "a div m = q \<longleftrightarrow> q * m \<le> a \<and> a < q * m + m"
proof
  assume "a div m = q"
  then have "a = q * m + a mod m" by (metis div_mult_mod_eq)
  moreover have "0 \<le> a mod m" "a mod m < m" using assms by simp_all
  ultimately show "q * m \<le> a \<and> a < q * m + m" by linarith
next
  assume bounds: "q * m \<le> a \<and> a < q * m + m"
  show "a div m = q" using assms bounds by (intro int_div_pos_eq[where r = "a - q * m"]) (simp_all add: algebra_simps)
qed

lemma same_prefix_iff:
  fixes a base :: "'a::len word"
  shows "drop_bit k a = drop_bit k base \<longleftrightarrow> uint a div 2 ^ k = uint base div 2 ^ k"
proof -
  have "uint (drop_bit k w) = uint w div 2 ^ k" for w :: "'a word"
    by (simp only: unsigned_drop_bit_eq) (simp add: drop_bit_eq_div take_bit_int_eq_self uint_lt2p)
  then show ?thesis by (simp only: word_uint_eq_iff)
qed

text \<open>A network of the policy is the interval of addresses from its base.\<close>

lemma in_net_iff:
  fixes a base :: "'a::len word"
  assumes "uint base mod 2 ^ (LENGTH('a) - n) = 0"
  shows "in_net a (base, n) \<longleftrightarrow> uint base \<le> uint a \<and> uint a < uint base + 2 ^ (LENGTH('a) - n)"
proof -
  let ?m = "2 ^ (LENGTH('a) - n) :: int"
  have base: "uint base div ?m * ?m = uint base" using assms by (metis add.right_neutral div_mult_mod_eq)
  have "0 < ?m" by simp
  from quotient_bounds[OF this] show ?thesis by (simp only: in_net_def prod.case same_prefix_iff base)
qed

definition refused_v4 :: "(int \<times> int) list" where
  "refused_v4 =
    [(0x00000000, 0x00FFFFFF), (0x0A000000, 0x0AFFFFFF), (0x7F000000, 0x7FFFFFFF), (0xA9FE0000, 0xA9FEFFFF),
     (0xAC100000, 0xAC1FFFFF), (0xC0000000, 0xC0000008), (0xC000000B, 0xC00000FF), (0xC0000200, 0xC00002FF),
     (0xC0A80000, 0xC0A8FFFF), (0xC6120000, 0xC613FFFF), (0xC6336400, 0xC63364FF), (0xCB007100, 0xCB0071FF),
     (0xE0000000, 0xFFFFFFFF)]"

definition in_ranges :: "(int \<times> int) list \<Rightarrow> int \<Rightarrow> bool" where
  "in_ranges rs x \<longleftrightarrow> list_ex (\<lambda>(lo, hi). lo \<le> x \<and> x \<le> hi) rs"

lemma in_net_range:
  fixes a base :: "'a::len word"
  assumes "uint base mod 2 ^ (LENGTH('a) - n) = 0"
  shows "in_net a (base, n) \<longleftrightarrow> in_ranges [(uint base, uint base + 2 ^ (LENGTH('a) - n) - 1)] (uint a)"
  using in_net_iff[OF assms, of a] by (simp add: in_ranges_def)

lemma in_ranges_Cons: "in_ranges (r # rs) x \<longleftrightarrow> in_ranges [r] x \<or> in_ranges rs x"
  by (simp add: in_ranges_def)

text \<open>The IPv4 addresses a check refuses to contact are exactly the thirteen ranges of
  \<open>refused_v4\<close>. The shared address space \<open>100.64.0.0/10\<close> is in none of them: addresses of a provider's
  internal network there are contacted.\<close>

theorem refused_v4_iff: "is_disallowed_ip (Address (V4 a)) \<longleftrightarrow> in_ranges refused_v4 (uint a)"
proof -
  let ?x = "uint a"
  have size: "?x \<le> 0xFFFFFFFF" using uint_lt2p[of a] by simp
  note sub = in_nets_def in_net_range in_ranges_Cons[of _ "_ # _"]
  have privates: "in_nets a private_nets_v4 \<longleftrightarrow> in_ranges
     [(0x00000000, 0x00FFFFFF), (0x0A000000, 0x0AFFFFFF), (0x7F000000, 0x7FFFFFFF), (0xA9FE0000, 0xA9FEFFFF),
     (0xAC100000, 0xAC1FFFFF), (0xC0000000, 0xC00000FF), (0xC00000AA, 0xC00000AB), (0xC0000200, 0xC00002FF),
     (0xC0A80000, 0xC0A8FFFF), (0xC6120000, 0xC613FFFF), (0xC6336400, 0xC63364FF), (0xCB007100, 0xCB0071FF),
     (0xF0000000, 0xFFFFFFFF), (0xFFFFFFFF, 0xFFFFFFFF)] ?x"
    by (simp add: sub private_nets_v4_def)
  have exceptions: "in_nets a private_exceptions_v4 \<longleftrightarrow> ?x = 0xC0000009 \<or> ?x = 0xC000000A"
    by (auto simp: sub private_exceptions_v4_def in_ranges_def)
  have others: "in_net a (0x7F000000, 8) = in_ranges [(0x7F000000, 0x7FFFFFFF)] ?x"
    "in_net a (0xA9FE0000, 16) = in_ranges [(0xA9FE0000, 0xA9FEFFFF)] ?x"
    "in_net a (0xF0000000, 4) = in_ranges [(0xF0000000, 0xFFFFFFFF)] ?x"
    "in_net a (0xE0000000, 4) = in_ranges [(0xE0000000, 0xEFFFFFFF)] ?x" "a = 0 \<longleftrightarrow> ?x = 0"
    by (simp_all add: in_net_range word_uint_eq_iff)
  have c0: "in_ranges [(0xC0000000, 0xC00000FF)] ?x \<longleftrightarrow> ?x = 0xC0000009 \<or> ?x = 0xC000000A
     \<or> in_ranges [(0xC0000000, 0xC0000008), (0xC000000B, 0xC00000FF)] ?x"
    "in_ranges [(0xC00000AA, 0xC00000AB)] ?x \<Longrightarrow> in_ranges [(0xC000000B, 0xC00000FF)] ?x"
    "in_ranges [(0xE0000000, 0xFFFFFFFF)] ?x \<longleftrightarrow> in_ranges [(0xE0000000, 0xEFFFFFFF), (0xF0000000, 0xFFFFFFFF)] ?x"
    "in_ranges [(0xFFFFFFFF, 0xFFFFFFFF)] ?x \<Longrightarrow> in_ranges [(0xF0000000, 0xFFFFFFFF)] ?x"
    "?x = 0 \<Longrightarrow> in_ranges [(0x00000000, 0x00FFFFFF)] ?x"
    by (auto simp: in_ranges_def)
  show ?thesis
  proof (cases "?x = 0xC0000009 \<or> ?x = 0xC000000A")
    case True
    then show ?thesis
      by (elim disjE) (simp_all add: private_v4_def exceptions others in_ranges_def refused_v4_def)
  next
    case False
    note facts = False c0[unfolded in_ranges_Cons[of _ "_ # _"]]
    show ?thesis
      unfolding is_disallowed_ip.simps ip_private.simps ip_loopback.simps ip_link_local.simps ip_reserved.simps
        ip_multicast.simps ip_unspecified.simps private_v4_def privates exceptions others refused_v4_def in_ranges_Cons[of _ "_ # _"]
      using facts by blast
  qed
qed

end
