(* ===== verification/Monitor_Check.thy ===== *)
theory Monitor_Check
  imports Monitor_Target
begin

text \<open>
  One availability check (\<open>uptime.py\<close>): the request headers a monitor may set, the assertions over a
  response, the bounded reading of its body, the redirects Python's \<open>urllib\<close> follows through the
  handlers of the code, and \<open>perform_check\<close> with the exceptions it turns into an observation.
\<close>

section \<open>Monitors and observations\<close>

record monitor =
  mo_id :: nat
  mo_name :: string
  mo_url :: string
  mo_method :: string
  mo_expected :: int
  mo_timeout :: int
  mo_minutes :: int
  mo_seconds :: int
  mo_failure :: int
  mo_recovery :: int
  mo_follow :: bool
  mo_headers :: pyval
  mo_body :: string
  mo_content_type :: string
  mo_assertions :: pyval
  mo_active :: bool
  mo_site :: "nat option"

record check_result =
  cr_status :: string
  cr_code :: "int option"
  cr_ms :: "int option"
  cr_error :: string
  cr_assertions :: "(bool \<times> string) list"
  cr_request :: "string option"

definition outcome_row :: "string \<Rightarrow> int option \<Rightarrow> int option \<Rightarrow> string \<Rightarrow> check_result" where
  "outcome_row status c ms err =
     \<lparr>cr_status = status, cr_code = c, cr_ms = ms, cr_error = err, cr_assertions = [], cr_request = None\<rparr>"

text \<open>\<open>_cfg_int\<close>.\<close>

definition cfg_int :: "settings \<Rightarrow> string \<Rightarrow> int \<Rightarrow> int \<Rightarrow> int option \<Rightarrow> int res" where
  "cfg_int st name dflt minimum maximum =
     bind_res (int_or dflt (cfg_get st name (PInt dflt))) (\<lambda>v.
       let w = max minimum v in Inr (case maximum of None \<Rightarrow> w | Some most \<Rightarrow> min most w))"

section \<open>Request headers\<close>

text \<open>A dictionary keeps the place of the first entry of a key and the value of the last.\<close>

fun assoc_put :: "'k \<Rightarrow> 'v \<Rightarrow> ('k \<times> 'v) list \<Rightarrow> ('k \<times> 'v) list" where
  "assoc_put k v [] = [(k, v)]"
| "assoc_put k v ((q, w) # kvs) = (if q = k then (k, v) # kvs else (q, w) # assoc_put k v kvs)"

definition text_or_empty :: "pyval \<Rightarrow> string" where
  "text_or_empty v = (if truthy v then py_str v else [])"

definition line_break :: "string \<Rightarrow> bool" where
  "line_break s \<longleftrightarrow> List.member s CHR 0x0D \<or> List.member s CHR 0x0A"

definition framing_headers :: "string list" where
  "framing_headers = [''host'', ''content-length'', ''transfer-encoding'', ''connection'', ''proxy-connection'',
     ''keep-alive'', ''te'', ''trailer'', ''upgrade'']"

text \<open>The clean headers, or the reason they are refused.\<close>

fun clean_headers :: "(pyval \<times> pyval) list \<Rightarrow> (string \<times> string) list \<Rightarrow> string + (string \<times> string) list" where
  "clean_headers [] clean = Inr clean"
| "clean_headers ((raw_name, raw_value) # rest) clean =
     (let name = strip (text_or_empty raw_name); value = text_or_empty raw_value in
      if name = [] \<or> 100 < length name \<or> line_break name then Inl ''A configured request header name is invalid.''
      else if List.member framing_headers (casefold name)
      then Inl ''Hop-by-hop or framing request headers cannot be configured.''
      else if 2048 < length value \<or> line_break value then Inl ''A configured request header value is invalid.''
      else clean_headers rest (assoc_put name value clean))"

fun validate_headers :: "pyval \<Rightarrow> string + (string \<times> string) list" where
  "validate_headers (PDict kvs) =
     (if 32 < length kvs then Inl ''Too many request headers configured.'' else clean_headers kvs [])"
| "validate_headers v = Inl ''Request headers must be an object.''"

section \<open>Assertions\<close>

text \<open>Equality of JSON values. A float whose printed form ends in \<open>.0\<close> or has a positive exponent is
  the integer it truncates to.\<close>

definition whole_float :: "string \<Rightarrow> bool" where
  "whole_float r \<longleftrightarrow> ends_with r ''.0'' \<or> contains r ''e+''"

fun number_value :: "pyval \<Rightarrow> (int + string) option" where
  "number_value (PBool b) = Some (Inl (if b then 1 else 0))"
| "number_value (PInt i) = Some (Inl i)"
| "number_value (PFloat t r) = Some (if whole_float r then Inl t else Inr r)"
| "number_value v = None"

function (sequential) py_eq :: "pyval \<Rightarrow> pyval \<Rightarrow> bool"
  and py_eqs :: "pyval list \<Rightarrow> pyval list \<Rightarrow> bool"
  and py_within :: "(pyval \<times> pyval) list \<Rightarrow> (pyval \<times> pyval) list \<Rightarrow> bool" where
  "py_eq PNaN v = False"
| "py_eq (PList xs) (PList ys) = py_eqs xs ys"
| "py_eq (PDict kvs) (PDict kvs') = (length kvs = length kvs' \<and> py_within kvs kvs')"
| "py_eq v v' = (case (number_value v, number_value v') of
      (Some n, Some n') \<Rightarrow> n = n'
    | (None, None) \<Rightarrow> v = v'
    | _ \<Rightarrow> False)"
| "py_eqs [] [] = True"
| "py_eqs (x # xs) (y # ys) = (py_eq x y \<and> py_eqs xs ys)"
| "py_eqs xs ys = False"
| "py_within [] d = True"
| "py_within ((k, v) # kvs) d = ((case map_of d k of None \<Rightarrow> False | Some v' \<Rightarrow> py_eq v v') \<and> py_within kvs d)"
  by pat_completeness auto
termination
  by (relation "measure (\<lambda>x. case x of Inl (v, _) \<Rightarrow> size v
      | Inr (Inl (xs, _)) \<Rightarrow> size_list size xs
      | Inr (Inr (kvs, _)) \<Rightarrow> size_list (size_prod size size) kvs)") auto

text \<open>\<open>isdigit\<close> also holds of the superscripts, which \<open>int\<close> refuses.\<close>

definition all_digits :: "string \<Rightarrow> bool" where
  "all_digits s \<longleftrightarrow> s \<noteq> [] \<and> list_all (\<lambda>c. is_digit c \<or> List.member [CHR 0xB2, CHR 0xB3, CHR 0xB9] c) s"

fun json_step :: "pyval \<Rightarrow> string \<Rightarrow> pyval option res" where
  "json_step (PDict kvs) part = Inr (dict_get kvs part)"
| "json_step (PList xs) part =
     (if \<not> all_digits part then Inr None
      else bind_res (py_int (PStr part)) (\<lambda>i. Inr (if i < int (length xs) then Some (xs ! nat i) else None)))"
| "json_step v part = Inr None"

fun json_walk :: "pyval \<Rightarrow> string list \<Rightarrow> pyval option res" where
  "json_walk v [] = Inr (Some v)"
| "json_walk v (part # parts) =
     (if part = [] then Inr None
      else bind_res (json_step v part) (\<lambda>found. case found of None \<Rightarrow> Inr None | Some u \<Rightarrow> json_walk u parts))"

definition get_json_value :: "pyval \<Rightarrow> pyval \<Rightarrow> pyval option res" where
  "get_json_value data path = json_walk data (split_on CHR ''.'' (text_or_empty path))"

definition header_dict :: "(string \<times> string) list \<Rightarrow> (string \<times> string) list" where
  "header_dict items = fold (\<lambda>(k, v). assoc_put k v) items []"

definition header_value :: "(string \<times> string) list \<Rightarrow> string \<Rightarrow> string" where
  "header_value headers name = (case find (\<lambda>(k, v). lower k = name) headers of None \<Rightarrow> [] | Some (k, v) \<Rightarrow> v)"

text \<open>The value under \<open>json_path\<close> compared as the assertion asks. A text assertion is looked for first.\<close>

definition json_holds :: "(pyval \<times> pyval) list \<Rightarrow> pyval option \<Rightarrow> bool" where
  "json_holds a found =
     (case (dict_get a ''equals'', dict_get a ''not_equals'', dict_get a ''contains'') of
        (Some v, _, _) \<Rightarrow> (case found of None \<Rightarrow> False | Some u \<Rightarrow> py_eq u v)
      | (None, Some v, _) \<Rightarrow> (case found of None \<Rightarrow> False | Some u \<Rightarrow> \<not> py_eq u v)
      | (None, None, Some v) \<Rightarrow> (case found of None \<Rightarrow> False | Some u \<Rightarrow> contains (py_str u) (py_str v))
      | (None, None, None) \<Rightarrow> False)"

definition assertion_row :: "net_env \<Rightarrow> (pyval \<times> pyval) list \<Rightarrow> string \<Rightarrow> (string \<times> string) list \<Rightarrow> (bool \<times> string) res" where
  "assertion_row ne a body headers =
     (case dict_get a ''contains'' of
        Some v \<Rightarrow> Inr (let passed = contains body (take 5000 (py_str v)) in
          (passed, if passed then ''Response contains expected text.'' else ''Expected text was not found.''))
      | None \<Rightarrow>
     (case dict_get a ''not_contains'' of
        Some v \<Rightarrow> Inr (let passed = \<not> contains body (take 5000 (py_str v)) in
          (passed, if passed then ''Response does not contain forbidden text.'' else ''Forbidden text was found.''))
      | None \<Rightarrow>
     (case dict_get a ''header'' of
        Some h \<Rightarrow>
          (let expected = (case dict_get a ''equals'' of None \<Rightarrow> [] | Some v \<Rightarrow> text_or_empty v);
               passed = (header_value headers (lower (text_or_empty h)) = expected)
           in Inr (passed, if passed then ''Response header matched.'' else ''Response header did not match.''))
      | None \<Rightarrow>
     (case dict_get a ''json_path'' of
        Some path \<Rightarrow>
          bind_res (ne_json ne body) (\<lambda>data.
          bind_res (get_json_value data path) (\<lambda>found.
          let passed = json_holds a found in
          Inr (passed, if passed then ''JSON assertion matched.'' else ''JSON assertion did not match.'')))
      | None \<Rightarrow> Inr (False, ''Unsupported assertion.'')))))"

text \<open>Values and types that cannot be compared make the assertion fail; other exceptions escape.\<close>

fun assertion_failed :: "(bool \<times> string) res \<Rightarrow> (bool \<times> string) res" where
  "assertion_failed (Inl (ValueError m)) = Inr (False, ''Response could not be validated against the configured assertion.'')"
| "assertion_failed (Inl TypeError) = Inr (False, ''Response could not be validated against the configured assertion.'')"
| "assertion_failed r = r"

fun check_assertion :: "net_env \<Rightarrow> string \<Rightarrow> (string \<times> string) list \<Rightarrow> pyval \<Rightarrow> (bool \<times> string) res" where
  "check_assertion ne body headers (PDict a) = assertion_failed (assertion_row ne a body headers)"
| "check_assertion ne body headers v = Inr (False, ''Assertion must be an object.'')"

definition check_assertions :: "net_env \<Rightarrow> pyval \<Rightarrow> string \<Rightarrow> (string \<times> string) list \<Rightarrow> (bool \<times> (bool \<times> string) list) res" where
  "check_assertions ne assertions body headers =
     (if \<not> truthy assertions then Inr (True, [])
      else case assertions of
        PList xs \<Rightarrow>
          if 20 < length xs then Inr (False, [(False, ''Too many response assertions configured.'')])
          else bind_res (map_res (check_assertion ne body headers) xs) (\<lambda>rows. Inr (list_all fst rows, rows))
      | _ \<Rightarrow> Inr (False, [(False, ''Too many response assertions configured.'')]))"

section \<open>Evaluating a response\<close>

definition response_media_type :: "string \<Rightarrow> string" where
  "response_media_type v = lower (strip (fst (cut_at CHR '';'' v)))"

text \<open>\<open>read(n)\<close> of a response: the first bytes of the body, or the exception when it ends earlier in one.\<close>

definition read_response :: "nat \<Rightarrow> http_reply \<Rightarrow> string res" where
  "read_response n r =
     (if n \<le> length (hr_body r) then Inr (take n (hr_body r))
      else case hr_read r of None \<Rightarrow> Inr (hr_body r) | Some e \<Rightarrow> Inl e)"

definition read_bounded_body :: "net_env \<Rightarrow> http_reply \<Rightarrow> int \<Rightarrow> string \<Rightarrow> string res" where
  "read_bounded_body ne r max_bytes mthd =
     (if mthd = ''HEAD'' then Inr []
      else bind_res (read_response (nat (max_bytes + 1)) r) (\<lambda>raw.
        if max_bytes < int (length raw) then Inl (ValueError ''Response body exceeded the configured validation limit.'')
        else Inr (ne_decode ne raw)))"

definition evaluate_response :: "net_env \<Rightarrow> monitor \<Rightarrow> http_reply \<Rightarrow> string \<Rightarrow> int \<Rightarrow> check_result res" where
  "evaluate_response ne m r body ms =
     (let status = hr_status r; row = (\<lambda>s. outcome_row s (Some status) (Some ms));
          expected_type = response_media_type (mo_content_type m);
          content_type = response_media_type (header_value (hr_headers r) ''content-type'') in
      if expected_type \<noteq> [] \<and> content_type \<noteq> expected_type
      then Inr (row ''down'' (''Expected content type '' @ expected_type @ '', got '' @
                 (if content_type = [] then ''missing'' else content_type) @ ''.''))
      else bind_res (check_assertions ne (mo_assertions m) body (header_dict (hr_headers r))) (\<lambda>(passed, rows).
        if \<not> passed then Inr (row ''down'' ''Response validation failed.'' \<lparr>cr_assertions := rows\<rparr>)
        else if status = mo_expected m then Inr (row ''up'' [] \<lparr>cr_assertions := rows\<rparr>)
        else Inr (row ''down'' (''Expected status '' @ show_int (mo_expected m) @ '', got '' @ show_int status)
                   \<lparr>cr_assertions := rows\<rparr>)))"

section \<open>Connections and redirects\<close>

datatype opened = Response http_reply | Http_Error http_reply | Broken exn

text \<open>The handlers of \<open>http\<close> and \<open>https\<close> resolve the host again and connect to the address they
  checked; \<open>urllib\<close> takes the scheme from the text before the first colon.\<close>

definition known_scheme :: "string \<Rightarrow> bool" where
  "known_scheme url = web_scheme (takeWhile (\<lambda>c. c \<noteq> CHR '':'' \<and> c \<noteq> CHR ''/'') (strip url))"

definition fetch :: "net_env \<Rightarrow> http_request \<Rightarrow> http_reply netio" where
  "fetch ne req =
     (if \<not> known_scheme (rq_url req) then raise (OSError EIO)
      else bind (resolve_public_target ne (rq_url req)) (\<lambda>(address, infos).
        seq (modify (\<lambda>w. w\<lparr>nw_connects := (address, rq_url req, infos) # nw_connects w\<rparr>))
          (bind tick (\<lambda>n. lift (ne_serve ne n address req)))))"

type_synonym visits = "(string \<times> nat) list"

definition visit_count :: "visits \<Rightarrow> string \<Rightarrow> nat" where
  "visit_count visited u = (case map_of visited u of None \<Rightarrow> 0 | Some n \<Rightarrow> n)"

definition redirect_codes :: "int list" where
  "redirect_codes = [301, 302, 303, 307, 308]"

definition method_redirects :: "string \<Rightarrow> int \<Rightarrow> bool" where
  "method_redirects mthd c \<longleftrightarrow> List.member redirect_codes c \<and>
     (List.member [''GET'', ''HEAD''] mthd \<or> List.member [301, 302, 303] c \<and> mthd = ''POST'')"

definition refused :: "http_reply \<Rightarrow> string \<Rightarrow> opened" where
  "refused r reason = Http_Error (r\<lparr>hr_reason := reason\<rparr>)"

definition loop_message :: string where
  "loop_message = ''The HTTP server returned a redirect error that would lead to an infinite loop.'' @ [CHR 0x0A] @
     ''The last 30x error message was:'' @ [CHR 0x0A]"

definition find_header :: "(string \<times> string) list \<Rightarrow> string \<Rightarrow> string option" where
  "find_header headers name = map_option snd (find (\<lambda>(k, v). lower k = name) headers)"

definition spaces_quoted :: "string \<Rightarrow> string" where
  "spaces_quoted u = concat (map (\<lambda>c. if c = CHR '' '' then ''%20'' else [c]) u)"

text \<open>\<open>HTTPRedirectHandler.redirect_request\<close>: the request that follows, or the error raised instead.\<close>

definition follow_up :: "http_request \<Rightarrow> http_reply \<Rightarrow> string \<Rightarrow> opened + http_request" where
  "follow_up req r newurl =
     (if method_redirects (rq_method req) (hr_status r)
      then Inr (req\<lparr>rq_url := spaces_quoted newurl, rq_method := ''GET'', rq_data := None,
             rq_headers := filter (\<lambda>(k, v). \<not> List.member [''content-length'', ''content-type''] (lower k)) (rq_headers req)\<rparr>)
      else Inl (Http_Error r))"

text \<open>\<open>_NoRedirect\<close> and \<open>_SafeRedirect\<close>.\<close>

definition redirect_request :: "net_env \<Rightarrow> bool \<Rightarrow> http_request \<Rightarrow> http_reply \<Rightarrow> string \<Rightarrow> (opened + http_request) netio" where
  "redirect_request ne follow req r newurl =
     (if \<not> follow then ret (Inl (refused r ''Redirects are disabled for availability checks''))
      else bind (validate_monitor_url ne newurl) (\<lambda>reason.
        ret (case reason of Some m \<Rightarrow> Inl (refused r m) | None \<Rightarrow> follow_up req r newurl)))"

text \<open>Loop detection: at most four visits of one address, at most ten addresses. The body of a redirect
  that is followed is read to its end.\<close>

definition visit :: "http_request \<Rightarrow> http_request \<Rightarrow> http_reply \<Rightarrow> string \<Rightarrow> visits \<Rightarrow> opened + http_request \<times> visits" where
  "visit req new r newurl visited =
     (if 4 \<le> visit_count visited newurl \<or> 10 \<le> length visited then Inl (refused r (loop_message @ hr_reason r))
      else case (if rq_method req = ''HEAD'' then None else hr_read r) of
        Some e \<Rightarrow> Inl (Broken e)
      | None \<Rightarrow> Inr (new, assoc_put newurl (Suc (visit_count visited newurl)) visited))"

text \<open>\<open>http_error_302\<close>.\<close>

definition redirected :: "net_env \<Rightarrow> bool \<Rightarrow> http_request \<Rightarrow> visits \<Rightarrow> http_reply \<Rightarrow> (opened + http_request \<times> visits) netio" where
  "redirected ne follow req visited r =
     (if \<not> List.member redirect_codes (hr_status r) then ret (Inl (Http_Error r))
      else case (case find_header (hr_headers r) ''location'' of None \<Rightarrow> find_header (hr_headers r) ''uri'' | l \<Rightarrow> l) of
        None \<Rightarrow> ret (Inl (Http_Error r))
      | Some l \<Rightarrow>
         (case ne_location ne (rq_url req) l of
            Inl e \<Rightarrow> ret (Inl (Broken e))
          | Inr (Inl m) \<Rightarrow> ret (Inl (refused r m))
          | Inr (Inr newurl) \<Rightarrow>
              bind (redirect_request ne follow req r newurl) (\<lambda>next.
                ret (case next of Inl out \<Rightarrow> Inl out | Inr new \<Rightarrow> visit req new r newurl visited))))"

text \<open>What is left of the two limits bounds the number of requests.\<close>

definition visits_left :: "visits \<Rightarrow> nat" where
  "visits_left visited = (10 - length visited) * 5 + sum_list (map (\<lambda>(_, n). 4 - n) visited)"

lemma length_assoc_put: "length (assoc_put u k vs) = (if map_of vs u = None then Suc (length vs) else length vs)"
  by (induction vs) auto

lemma visits_put: "visit_count vs u < 4 \<Longrightarrow>
  sum_list (map (\<lambda>(_, n). 4 - n) (assoc_put u (Suc (visit_count vs u)) vs))
    < sum_list (map (\<lambda>(_, n). 4 - n) vs) + (if map_of vs u = None then 5 else 0)"
  by (induction vs) (auto simp: visit_count_def split: option.splits)

lemma assoc_put_left:
  assumes "visit_count visited u < 4" "length visited < 10"
  shows "visits_left (assoc_put u (Suc (visit_count visited u)) visited) < visits_left visited"
proof -
  have "(10 - length visited) * 5 = (10 - Suc (length visited)) * 5 + 5" using assms(2) by simp
  with visits_put[OF assms(1)] show ?thesis by (auto simp: visits_left_def length_assoc_put split: if_splits)
qed

lemma visit_left: "visit req new r newurl visited = Inr (req', v) \<Longrightarrow> visits_left v < visits_left visited"
  by (auto simp: visit_def assoc_put_left split: if_splits option.splits)

lemma redirected_left:
  assumes "redirected ne follow req visited r w = (Inr (Inr (new, visited')), w')"
  shows "visits_left visited' < visits_left visited"
proof -
  let ?Q = "\<lambda>x _. \<forall>new v. x = Inr (new, v) \<longrightarrow> visits_left v < visits_left visited"
  let ?E = "\<lambda>_ _. True"
  have last: "wp (ret (case next of Inl out \<Rightarrow> Inl out | Inr new \<Rightarrow> visit req new r newurl visited)) ?Q ?E t" for "next" newurl t
    by (cases "next") (auto simp: wp_simps dest: visit_left)
  have "wp (redirected ne follow req visited r) ?Q ?E w"
    unfolding redirected_def by (intro wp_ifI wp_optionI wp_sumI wp_bindI wp_retI) (auto intro!: wp_any[OF last])
  from wpD_Inr[OF this assms] show ?thesis by simp
qed

text \<open>\<open>OpenerDirector.open\<close>: the response, or the error it ends in, after the redirects.\<close>

function (sequential) open_url :: "net_env \<Rightarrow> bool \<Rightarrow> http_request \<Rightarrow> visits \<Rightarrow> net_world \<Rightarrow> opened \<times> net_world" where
  "open_url ne follow req visited w =
     (case fetch ne req w of
        (Inl e, w1) \<Rightarrow> (Broken e, w1)
      | (Inr r, w1) \<Rightarrow>
          if 200 \<le> hr_status r \<and> hr_status r < 300 then (Response r, w1)
          else (case redirected ne follow req visited r w1 of
             (Inl e, w2) \<Rightarrow> (Broken e, w2)
           | (Inr (Inl out), w2) \<Rightarrow> (out, w2)
           | (Inr (Inr (new, visited')), w2) \<Rightarrow> open_url ne follow new visited' w2))"
  by pat_completeness auto
termination
  by (relation "measure (\<lambda>(ne, follow, req, visited, w). visits_left visited)") (auto dest: redirected_left[OF sym])

declare open_url.simps [simp del]

section \<open>The check\<close>

definition unknown_row :: "string \<Rightarrow> check_result" where
  "unknown_row err = outcome_row ''unknown'' None None err"

definition worker_failed :: check_result where
  "worker_failed = unknown_row ''Availability worker could not complete the check safely.''"

definition failure_text :: "net_env \<Rightarrow> exn \<Rightarrow> string" where
  "failure_text ne e = (let t = take 500 (ne_errtext ne e) in if t = [] then ''Request failed'' else t)"

text \<open>\<open>int((time.monotonic() - start) * 1000)\<close>.\<close>

definition elapsed :: "net_env \<Rightarrow> int netio" where
  "elapsed ne = bind tick (\<lambda>n. ret (ne_elapsed ne n))"

text \<open>The \<open>except\<close> clauses for a transport failure and for everything else.\<close>

fun transport_failed :: "net_env \<Rightarrow> exn \<Rightarrow> check_result netio" where
  "transport_failed ne (OSError x) =
     bind (elapsed ne) (\<lambda>ms. ret (outcome_row ''down'' None (Some ms) (failure_text ne (OSError x))))"
| "transport_failed ne e = ret worker_failed"

definition policy_words :: "string list" where
  "policy_words = [''private'', ''local'', ''reserved'', ''multicast'', ''unspecified'']"

definition names_policy :: "string \<Rightarrow> bool" where
  "names_policy reason \<longleftrightarrow> list_ex (contains (lower reason)) policy_words"

text \<open>A response that arrived: a body over the limit is an observation, the exceptions after it go to the
  clauses above.\<close>

definition observe_response :: "net_env \<Rightarrow> monitor \<Rightarrow> int \<Rightarrow> http_reply \<Rightarrow> check_result netio" where
  "observe_response ne m max_bytes r =
     (case read_bounded_body ne r max_bytes (mo_method m) of
        Inl (ValueError t) \<Rightarrow> bind (elapsed ne) (\<lambda>ms. ret (outcome_row ''down'' (Some (hr_status r)) (Some ms) t))
      | Inl e \<Rightarrow> transport_failed ne e
      | Inr body \<Rightarrow> bind (elapsed ne) (\<lambda>ms.
          catch (lift (evaluate_response ne m r body ms)) (transport_failed ne)))"

text \<open>An HTTP error: its clause is not protected by the clauses after it.\<close>

definition observe_error :: "net_env \<Rightarrow> monitor \<Rightarrow> int \<Rightarrow> http_reply \<Rightarrow> check_result netio" where
  "observe_error ne m max_bytes r =
     bind (elapsed ne) (\<lambda>ms.
     if names_policy (hr_reason r) then ret (outcome_row ''unknown'' (Some (hr_status r)) (Some ms) (take 500 (hr_reason r)))
     else case read_bounded_body ne r max_bytes (mo_method m) of
        Inl (ValueError t) \<Rightarrow> bind (elapsed ne) (\<lambda>ms. ret (outcome_row ''down'' (Some (hr_status r)) (Some ms) t))
      | Inl (OSError x) \<Rightarrow>
          bind (elapsed ne) (\<lambda>ms. ret (outcome_row ''down'' (Some (hr_status r)) (Some ms) (failure_text ne (OSError x))))
      | Inl e \<Rightarrow> raise e
      | Inr body \<Rightarrow> bind (elapsed ne) (\<lambda>ms. lift (evaluate_response ne m r body ms)))"

definition or_default :: "pyval \<Rightarrow> pyval \<Rightarrow> pyval" where
  "or_default v d = (if truthy v then v else d)"

definition open_checked :: "net_env \<Rightarrow> bool \<Rightarrow> http_request \<Rightarrow> opened netio" where
  "open_checked ne follow req w = (case open_url ne follow req [] w of (out, t) \<Rightarrow> (Inr out, t))"

definition perform_check :: "net_env \<Rightarrow> monitor \<Rightarrow> check_result netio" where
  "perform_check ne m =
     bind (validate_monitor_url ne (mo_url m)) (\<lambda>invalid_url.
     case invalid_url of Some reason \<Rightarrow> ret (unknown_row reason)
     | None \<Rightarrow>
     case validate_headers (or_default (mo_headers m) (PDict [])) of Inl reason \<Rightarrow> ret (unknown_row reason)
     | Inr headers \<Rightarrow>
     bind (lift (cfg_int (ne_settings ne) ''AVAILABILITY_MAX_REQUEST_BODY_BYTES'' 65536 0 (Some (1024 * 1024)))) (\<lambda>max_body.
     if mo_method m = ''POST'' \<and> max_body < int (length (utf8 (mo_body m)))
     then ret (unknown_row ''Configured request body exceeds the Availability validation limit.'')
     else
     bind (lift (cfg_int (ne_settings ne) ''AVAILABILITY_DEFAULT_TIMEOUT_SECONDS'' 10 1 (Some 60))) (\<lambda>_.
     bind (lift (cfg_int (ne_settings ne) ''AVAILABILITY_MAX_RESPONSE_BYTES'' 262144 1024 (Some (5 * 1024 * 1024)))) (\<lambda>max_bytes.
     bind (open_checked ne (mo_follow m)
        \<lparr>rq_url = mo_url m, rq_method = mo_method m, rq_headers = headers,
         rq_data = (if mo_method m = ''POST'' \<and> mo_body m \<noteq> [] then Some (utf8 (mo_body m)) else None),
         rq_timeout = max 1 (min (mo_timeout m) 60)\<rparr>) (\<lambda>out.
     case out of
       Response r \<Rightarrow> observe_response ne m max_bytes r
     | Http_Error r \<Rightarrow> observe_error ne m max_bytes r
     | Broken e \<Rightarrow> transport_failed ne e)))))"

end
