(* ===== verification/Monitor_Incidents.thy ===== *)
theory Monitor_Incidents
  imports Monitor_Check Cache
begin

text \<open>
  What becomes of the observations (\<open>uptime.py\<close>, \<open>alerts.py\<close>, \<open>models.py\<close>, the command \<open>check_uptime\<close> and the
  acknowledgement view): \<open>record_check\<close> with its thresholds, incidents and alerts, the lease of a check,
  the monitors that are due, and the loop of the command. Rows are listed newest first and ties of
  \<open>order_by\<close> are taken in that order; times are in microseconds.
\<close>

section \<open>Rows\<close>

record check_row =
  ck_monitor :: nat
  ck_at :: int
  ck_status :: string
  ck_code :: "int option"
  ck_ms :: "int option"
  ck_error :: string
  ck_assertions :: "(bool \<times> string) list"

datatype inc_state = Inc_Open | Inc_Acknowledged | Inc_Recovered

record incident =
  in_id :: nat
  in_monitor :: nat
  in_state :: inc_state
  in_started :: int
  in_healthy :: "int option"
  in_failed :: "int option"
  in_recovery :: "int option"
  in_resolved :: "int option"
  in_cause :: string
  in_code :: "int option"
  in_ms :: "int option"
  in_request :: string
  in_acked :: "int option"
  in_acked_by :: "nat option"

text \<open>\<open>UptimeIncident.is_ongoing\<close>.\<close>

definition ongoing :: "incident \<Rightarrow> bool" where
  "ongoing i \<longleftrightarrow> in_state i = Inc_Open \<or> in_state i = Inc_Acknowledged"

record notice =
  nt_site :: "nat option"
  nt_category :: string
  nt_subject :: string
  nt_message :: string

text \<open>\<open>al_iso\<close> prints a time, \<open>al_hex\<close> is the random identifier of a number, \<open>al_saved\<close> says whether a
  notification could be stored, \<open>al_logged\<close> whether the log took a record.\<close>

record 'c mon_env =
  al_cache :: "'c cache_ops"
  al_sha256 :: "string \<Rightarrow> string"
  al_iso :: "int \<Rightarrow> string"
  al_hex :: "nat \<Rightarrow> string"
  al_saved :: "notice \<Rightarrow> bool"
  al_logged :: "string \<Rightarrow> bool"
  al_net :: net_env

definition al_settings :: "'c mon_env \<Rightarrow> settings" where
  "al_settings env = ne_settings (al_net env)"

record 'c mon_world =
  mw_now :: int
  mw_fresh :: nat
  mw_monitors :: "monitor list"
  mw_checks :: "check_row list"
  mw_incidents :: "incident list"
  mw_notices :: "notice list"
  mw_mails :: "(string \<times> string) list"
  mw_hooks :: "(string \<times> string) list"
  mw_log :: "(string \<times> string) list"
  mw_cache :: 'c
  mw_net :: net_world

definition fresh_hex :: "'c mon_env \<Rightarrow> ('c mon_world, string) io" where
  "fresh_hex env w = (Inr (al_hex env (mw_fresh w)), w\<lparr>mw_fresh := Suc (mw_fresh w)\<rparr>)"

definition on_cache :: "('c, 'a) io \<Rightarrow> ('c mon_world, 'a) io" where
  "on_cache m w = (case m (mw_cache w) of (r, c) \<Rightarrow> (r, w\<lparr>mw_cache := c\<rparr>))"

definition on_net :: "'a netio \<Rightarrow> ('c mon_world, 'a) io" where
  "on_net m w = (case m (mw_net w) of (r, n) \<Rightarrow> (r, w\<lparr>mw_net := n\<rparr>))"

section \<open>Alerts\<close>

definition safe_int :: "pyval \<Rightarrow> int \<Rightarrow> int \<Rightarrow> int \<Rightarrow> int" where
  "safe_int v dflt minimum maximum =
     max minimum (min maximum (case py_int v of Inr i \<Rightarrow> i | Inl e \<Rightarrow> dflt))"

definition dedupe_cache_key :: "'c mon_env \<Rightarrow> string \<Rightarrow> string \<Rightarrow> nat option \<Rightarrow> string \<Rightarrow> string" where
  "dedupe_cache_key env category subject site dedupe =
     ''paxalia:alert-dedupe:'' @ al_sha256 env (utf8 (category @ [CHR 0x00] @
       (case site of None \<Rightarrow> [] | Some s \<Rightarrow> show_nat s) @ [CHR 0x00] @ (if dedupe = [] then subject else dedupe)))"

definition should_send :: "'c mon_env \<Rightarrow> string \<Rightarrow> string \<Rightarrow> nat option \<Rightarrow> string \<Rightarrow> ('c mon_world, bool) io" where
  "should_send env category subject site dedupe =
     (if \<not> truthy (cfg_get (al_settings env) ''ALERT_DEDUPLICATION_ENABLED'' (PBool True)) \<or> dedupe = [] then ret True
      else let cooldown = safe_int (cfg_get (al_settings env) ''ALERT_DEFAULT_COOLDOWN_SECONDS'' (PInt 300)) 300 1 86400 in
        catch (on_cache (c_add (al_cache env) (dedupe_cache_key env category subject site dedupe) 1 cooldown))
          (\<lambda>_. ret True))"

text \<open>The deliveries; a failed one is logged and forgotten.\<close>

definition deliver :: "'c mon_env \<Rightarrow> notice \<Rightarrow> 'c mon_world \<Rightarrow> 'c mon_world" where
  "deliver env n w =
     w\<lparr>mw_notices := (if al_saved env n then n # mw_notices w else mw_notices w),
       mw_mails := (if truthy (cfg_get (al_settings env) ''SECURITY_ALERT_EMAILS'' PNone)
                    then (nt_subject n, nt_message n) # mw_mails w else mw_mails w),
       mw_hooks := (if truthy (cfg_get (al_settings env) ''SECURITY_ALERT_WEBHOOK_URL'' PNone)
                    then (nt_subject n, nt_message n) # mw_hooks w else mw_hooks w)\<rparr>"

definition send_alert :: "'c mon_env \<Rightarrow> string \<Rightarrow> string \<Rightarrow> string \<Rightarrow> nat option \<Rightarrow> string \<Rightarrow> ('c mon_world, bool) io" where
  "send_alert env subject message category site dedupe =
     (let n = \<lparr>nt_site = site, nt_category = take 20 (if category = [] then ''general'' else category),
               nt_subject = take 255 subject, nt_message = take 12000 message\<rparr> in
      bind (should_send env (nt_category n) (nt_subject n) site dedupe) (\<lambda>send.
        if \<not> send then ret False else seq (modify (deliver env n)) (ret True)))"

section \<open>Recording an observation\<close>

text \<open>\<open>max(1, min(20, int(value or 2)))\<close>.\<close>

definition threshold :: "int \<Rightarrow> nat" where
  "threshold v = nat (max 1 (min 20 (if v = 0 then 2 else v)))"

definition known_status :: "string \<Rightarrow> string" where
  "known_status s = (let t = lower (if s = [] then ''unknown'' else s) in
     if List.member [''up'', ''down'', ''unknown''] t then t else ''unknown'')"

definition streak :: "check_row list \<Rightarrow> string \<Rightarrow> check_row list" where
  "streak checks status = takeWhile (\<lambda>c. ck_status c = status) checks"

definition checks_of :: "nat \<Rightarrow> 'c mon_world \<Rightarrow> check_row list" where
  "checks_of pk w = sort_key (\<lambda>c. - ck_at c) (filter (\<lambda>c. ck_monitor c = pk) (mw_checks w))"

definition open_incident :: "nat \<Rightarrow> 'c mon_world \<Rightarrow> incident option" where
  "open_incident pk w =
     (case sort_key (\<lambda>i. - in_started i) (filter (\<lambda>i. in_monitor i = pk \<and> ongoing i) (mw_incidents w)) of
        [] \<Rightarrow> None | i # _ \<Rightarrow> Some i)"

definition save_incident :: "incident \<Rightarrow> 'c mon_world \<Rightarrow> 'c mon_world" where
  "save_incident i w = w\<lparr>mw_incidents := map (\<lambda>j. if in_id j = in_id i then i else j) (mw_incidents w)\<rparr>"

text \<open>An alert and a log record of a transition: subject, message, key, level, action.\<close>

type_synonym transition = "string \<times> string \<times> string \<times> string \<times> string"

definition opened_row :: "nat \<Rightarrow> nat \<Rightarrow> string \<Rightarrow> check_row list \<Rightarrow> check_row list \<Rightarrow> check_row \<Rightarrow> incident" where
  "opened_row i pk request_id down recent c =
     (let started = ck_at (last down) in
      \<lparr>in_id = i, in_monitor = pk, in_state = Inc_Open, in_started = started,
       in_healthy = (if length down < length recent \<and> ck_status (recent ! length down) = ''up''
                     then Some (ck_at (recent ! length down)) else None),
       in_failed = Some started, in_recovery = None, in_resolved = None,
       in_cause = ck_error c, in_code = ck_code c, in_ms = ck_ms c, in_request = request_id,
       in_acked = None, in_acked_by = None\<rparr>)"

definition recovered_row :: "incident \<Rightarrow> string \<Rightarrow> check_row list \<Rightarrow> check_row \<Rightarrow> incident" where
  "recovered_row i request_id up c =
     (let recovery = ck_at (last up) in
      i\<lparr>in_state := Inc_Recovered, in_recovery := Some recovery, in_resolved := Some recovery,
        in_code := ck_code c, in_ms := ck_ms c,
        in_request := (if request_id = [] then in_request i else request_id)\<rparr>)"

definition open_key :: "nat \<Rightarrow> string" where
  "open_key pk = ''uptime:'' @ show_nat pk @ '':opened''"

definition recovered_key :: "nat \<Rightarrow> nat \<Rightarrow> string" where
  "recovered_key pk i = ''uptime:'' @ show_nat pk @ '':recovered:'' @ show_nat i"

text \<open>A failed check: an incident is opened once enough of them follow each other.\<close>

definition on_down :: "'c mon_env \<Rightarrow> monitor \<Rightarrow> string \<Rightarrow> check_row list \<Rightarrow> check_row \<Rightarrow> ('c mon_world, transition option) io" where
  "on_down env m request_id recent c =
     bind (gets (open_incident (mo_id m))) (\<lambda>inc.
     let down = streak recent ''down'' in
     if threshold (mo_failure m) \<le> length down \<and> inc = None
     then seq (modify (\<lambda>w. w\<lparr>mw_fresh := Suc (mw_fresh w),
            mw_incidents := opened_row (mw_fresh w) (mo_id m) request_id down recent c # mw_incidents w\<rparr>))
          (ret (Some (mo_name m @ '' is down'',
             mo_name m @ '' has '' @ show_nat (length down) @ '' consecutive failed availability observations. '' @
               ''First confirmed failure: '' @ al_iso env (ck_at (last down)) @ ''.'',
             open_key (mo_id m), ''WARNING'', ''availability.incident_opened'')))
     else ret None)"

text \<open>A healthy check: the open incident is closed once enough of them follow each other.\<close>

definition on_up :: "'c mon_env \<Rightarrow> monitor \<Rightarrow> string \<Rightarrow> check_row list \<Rightarrow> check_row \<Rightarrow> ('c mon_world, transition option) io" where
  "on_up env m request_id recent c =
     bind (gets (open_incident (mo_id m))) (\<lambda>inc.
     let up = streak recent ''up'' in
     case inc of None \<Rightarrow> ret None
     | Some i \<Rightarrow>
        if threshold (mo_recovery m) \<le> length up
        then seq (modify (save_incident (recovered_row i request_id up c)))
          (ret (Some (mo_name m @ '' is back up'',
             mo_name m @ '' has '' @ show_nat (length up) @ '' consecutive healthy availability observations. '' @
               ''First confirmed recovery: '' @ al_iso env (ck_at (last up)) @ ''.'',
             recovered_key (mo_id m) (in_id i), ''INFO'', ''availability.incident_recovered'')))
        else ret None)"

definition new_check :: "nat \<Rightarrow> check_result \<Rightarrow> int \<Rightarrow> check_row" where
  "new_check pk res now =
     \<lparr>ck_monitor = pk, ck_at = now, ck_status = known_status (cr_status res), ck_code = cr_code res, ck_ms = cr_ms res,
      ck_error = take 500 (cr_error res), ck_assertions = cr_assertions res\<rparr>"

definition result_request :: "'c mon_env \<Rightarrow> check_result \<Rightarrow> ('c mon_world, string) io" where
  "result_request env res =
     (case cr_request res of
        Some (c # s) \<Rightarrow> ret (take 100 (c # s))
      | _ \<Rightarrow> bind (fresh_hex env) (\<lambda>h. ret (take 100 h)))"

text \<open>The transaction, under the lock of the monitor's row.\<close>

definition record_observation :: "'c mon_env \<Rightarrow> monitor \<Rightarrow> check_result \<Rightarrow> ('c mon_world, check_row \<times> transition option) io" where
  "record_observation env m res =
     bind (result_request env res) (\<lambda>request_id.
     bind (gets (\<lambda>w. new_check (mo_id m) res (mw_now w))) (\<lambda>c.
     seq (modify (\<lambda>w. w\<lparr>mw_checks := c # mw_checks w\<rparr>))
     (bind (gets (\<lambda>w. take (max (threshold (mo_failure m)) (threshold (mo_recovery m)) + 2) (checks_of (mo_id m) w))) (\<lambda>recent.
      bind (if ck_status c = ''down'' then on_down env m request_id recent c
            else if ck_status c = ''up'' then on_up env m request_id recent c
            else ret None) (\<lambda>transition. ret (c, transition))))))"

definition announce :: "'c mon_env \<Rightarrow> monitor \<Rightarrow> transition option \<Rightarrow> ('c mon_world, unit) io" where
  "announce env m transition =
     (case transition of None \<Rightarrow> ret ()
      | Some (subject, message, key, level, action) \<Rightarrow>
          seq (modify (\<lambda>w. if al_logged env action then w\<lparr>mw_log := (level, action) # mw_log w\<rparr> else w))
            (bind (send_alert env subject message ''uptime'' (mo_site m) key) (\<lambda>_. ret ())))"

definition record_check :: "'c mon_env \<Rightarrow> monitor \<Rightarrow> check_result \<Rightarrow> ('c mon_world, check_row) io" where
  "record_check env m res =
     bind (gets (\<lambda>w. find (\<lambda>l. mo_id l = mo_id m) (mw_monitors w))) (\<lambda>found.
     case found of None \<Rightarrow> raise DoesNotExist
     | Some locked \<Rightarrow>
         bind (record_observation env locked res) (\<lambda>(c, transition).
         seq (announce env locked transition) (ret c)))"

section \<open>Acknowledging an incident\<close>

text \<open>The view reads the incident, looks at it and writes three of its fields.\<close>

definition ack_read :: "nat \<Rightarrow> ('c mon_world, incident) io" where
  "ack_read i = bind (gets (\<lambda>w. find (\<lambda>j. in_id j = i) (mw_incidents w))) (\<lambda>found.
     case found of None \<Rightarrow> raise DoesNotExist | Some j \<Rightarrow> ret j)"

definition ack_write :: "incident \<Rightarrow> nat \<Rightarrow> ('c mon_world, unit) io" where
  "ack_write snapshot u =
     bind (gets (\<lambda>w. list_ex (\<lambda>j. in_id j = in_id snapshot) (mw_incidents w))) (\<lambda>present.
     if \<not> present then raise DatabaseError
     else modify (\<lambda>w. w\<lparr>mw_incidents := map (\<lambda>j. if in_id j = in_id snapshot
        then j\<lparr>in_state := Inc_Acknowledged, in_acked := Some (mw_now w), in_acked_by := Some u\<rparr> else j) (mw_incidents w)\<rparr>))"

definition incident_acknowledge :: "bool \<Rightarrow> nat \<Rightarrow> nat \<Rightarrow> ('c mon_world, bool) io" where
  "incident_acknowledge allowed u i =
     (if \<not> allowed then raise (PermissionDenied [])
      else bind (ack_read i) (\<lambda>j. if \<not> ongoing j then ret False else seq (ack_write j u) (ret True)))"

section \<open>Leases and due monitors\<close>

definition lease_key :: "nat \<Rightarrow> string" where
  "lease_key pk = ''paxalia:availability:monitor:'' @ show_nat pk"

definition lease_seconds :: "monitor \<Rightarrow> int" where
  "lease_seconds m = max 30 (min 300 ((if mo_timeout m = 0 then 10 else mo_timeout m) + 30))"

definition acquire_monitor_check_lease :: "'c mon_env \<Rightarrow> monitor \<Rightarrow> ('c mon_world, bool) io" where
  "acquire_monitor_check_lease env m =
     bind (fresh_hex env) (\<lambda>_.
     catch (on_cache (c_add (al_cache env) (lease_key (mo_id m)) 1 (lease_seconds m))) (\<lambda>_. ret False))"

text \<open>\<open>UptimeMonitor.effective_interval_seconds\<close>.\<close>

definition effective_interval_seconds :: "monitor \<Rightarrow> int" where
  "effective_interval_seconds m =
     (let v = (if mo_seconds m \<le> 0 then (if mo_minutes m = 0 then 5 else mo_minutes m) * 60 else mo_seconds m)
      in max 30 (min v 86400))"

definition last_checked :: "'c mon_world \<Rightarrow> monitor \<Rightarrow> int option" where
  "last_checked w m = map_option ck_at (case checks_of (mo_id m) w of [] \<Rightarrow> None | c # _ \<Rightarrow> Some c)"

definition is_due :: "'c mon_world \<Rightarrow> monitor \<Rightarrow> bool" where
  "is_due w m = (case last_checked w m of None \<Rightarrow> True
     | Some t \<Rightarrow> effective_interval_seconds m * 1000000 \<le> mw_now w - t)"

text \<open>Active monitors, the never checked first, then by their last check; the identifier decides ties.\<close>

definition scheduled :: "'c mon_world \<Rightarrow> monitor list" where
  "scheduled w =
     (let active = sort_key mo_id (filter mo_active (mw_monitors w)) in
      filter (\<lambda>m. last_checked w m = None) active @
      sort_key (\<lambda>m. the (last_checked w m)) (filter (\<lambda>m. last_checked w m \<noteq> None) active))"

text \<open>The loop: it stops after so many due monitors and after so many rows.\<close>

fun due_scan :: "(monitor \<Rightarrow> bool) \<Rightarrow> nat \<Rightarrow> nat \<Rightarrow> monitor list \<Rightarrow> monitor list" where
  "due_scan due limit rows [] = []"
| "due_scan due limit rows (m # ms) =
     (if due m then m # (if limit \<le> 1 \<or> rows \<le> 1 then [] else due_scan due (limit - 1) (rows - 1) ms)
      else if rows \<le> 1 then [] else due_scan due limit (rows - 1) ms)"

definition max_checks_per_run :: "settings \<Rightarrow> int res" where
  "max_checks_per_run st = bind_res (int_or 100 (cfg_get st ''AVAILABILITY_MAX_CHECKS_PER_RUN'' (PInt 100)))
     (\<lambda>n. Inr (max 1 (min n 5000)))"

definition monitors_due_for_check :: "'c mon_env \<Rightarrow> ('c mon_world, monitor list) io" where
  "monitors_due_for_check env =
     bind (lift (max_checks_per_run (al_settings env))) (\<lambda>limit.
     bind (lift (cfg_int (al_settings env) ''AVAILABILITY_MAX_SCHEDULER_SCAN'' (max limit 1000) limit (Some 50000))) (\<lambda>rows.
     gets (\<lambda>w. due_scan (is_due w) (nat limit) (nat rows) (scheduled w))))"

section \<open>The command\<close>

record run_counts =
  rc_up :: nat
  rc_down :: nat
  rc_unknown :: nat
  rc_checked :: nat
  rc_skipped :: nat

definition count_result :: "string \<Rightarrow> run_counts \<Rightarrow> run_counts" where
  "count_result status n =
     (if status = ''up'' then n\<lparr>rc_up := Suc (rc_up n)\<rparr>
      else if status = ''down'' then n\<lparr>rc_down := Suc (rc_down n)\<rparr>
      else n\<lparr>rc_unknown := Suc (rc_unknown n)\<rparr>)"

fun check_loop :: "'c mon_env \<Rightarrow> bool \<Rightarrow> monitor list \<Rightarrow> run_counts \<Rightarrow> ('c mon_world, run_counts) io" where
  "check_loop env dry [] n = ret n"
| "check_loop env dry (m # ms) n =
     bind (if dry then ret True else acquire_monitor_check_lease env m) (\<lambda>leased.
     if \<not> leased then check_loop env dry ms (n\<lparr>rc_skipped := Suc (rc_skipped n)\<rparr>)
     else bind (on_net (perform_check (al_net env) m)) (\<lambda>res.
       bind (if dry then ret () else bind (record_check env m res) (\<lambda>_. ret ())) (\<lambda>_.
         check_loop env dry ms (count_result (cr_status res) (n\<lparr>rc_checked := Suc (rc_checked n)\<rparr>)))))"

definition no_counts :: run_counts where
  "no_counts = \<lparr>rc_up = 0, rc_down = 0, rc_unknown = 0, rc_checked = 0, rc_skipped = 0\<rparr>"

definition check_uptime :: "'c mon_env \<Rightarrow> bool \<Rightarrow> ('c mon_world, run_counts) io" where
  "check_uptime env dry = bind (monitors_due_for_check env) (\<lambda>due. check_loop env dry due no_counts)"

end
