(* ===== verification/Monitor_Check_Props.thy ===== *)
theory Monitor_Check_Props
  imports Monitor_Check
begin

text \<open>
  What a check may do to the network and what its observation means: every connection goes to an
  address the policy admits, the number of connections is bounded, and a target is only reported healthy
  on a response that arrived and met the criteria of its monitor.
\<close>

section \<open>Connections\<close>

text \<open>The address is one of the answer it was taken from, and no address of that answer is disallowed.\<close>

definition admitted_answer :: "ip \<Rightarrow> sockaddr list \<Rightarrow> bool" where
  "admitted_answer i infos \<longleftrightarrow>
     List.member infos (Address i) \<and> list_all (\<lambda>a. a = NoAddress \<or> \<not> is_disallowed_ip a) infos"

text \<open>The connections made since a world with the connections \<open>before\<close>, when at most \<open>n\<close> of the
  \<open>most\<close> are left.\<close>

definition new_connects :: "nat \<Rightarrow> (ip \<times> string \<times> sockaddr list) list \<Rightarrow> nat \<Rightarrow> net_world \<Rightarrow> bool" where
  "new_connects most before n w \<longleftrightarrow> (\<exists>made. nw_connects w = made @ before \<and> length made + n \<le> most
     \<and> list_all (\<lambda>(i, url, infos). admitted_answer i infos) made)"

text \<open>A response the network gave over a connection to an address the policy admits.\<close>

definition served :: "net_env \<Rightarrow> http_reply \<Rightarrow> bool" where
  "served ne r \<longleftrightarrow> (\<exists>n i req. ne_serve ne n i req = Inr r \<and> \<not> is_disallowed_ip (Address i))"

lemma usable_admitted:
  "usable_addresses infos = Inr is \<Longrightarrow>
     (\<forall>i. List.member is i \<longrightarrow> List.member infos (Address i)) \<and> list_all (\<lambda>a. a = NoAddress \<or> \<not> is_disallowed_ip a) infos"
  by (induction infos arbitrary: "is" rule: usable_addresses.induct)
    (auto simp: invalid_def bind_res_eq_Inr simp del: is_disallowed_ip.simps split: if_splits)

lemma resolve_admitted:
  "wp (resolve_public_target ne url) (\<lambda>(i, infos) _. admitted_answer i infos) (\<lambda>_ _. True) w"
  unfolding resolve_public_target_def
  by (auto simp: wp_simps admitted_answer_def dest!: usable_admitted split: sum.splits list.splits)

lemma keeps_tick: "(\<And>w. P w \<Longrightarrow> P (w\<lparr>nw_step := Suc (nw_step w)\<rparr>)) \<Longrightarrow> keeps P tick"
  by (simp add: keeps_def wp_tick)

lemma keeps_resolve:
  assumes "\<And>w. P w \<Longrightarrow> P (w\<lparr>nw_step := Suc (nw_step w)\<rparr>)"
  shows "keeps P (resolve_public_target ne url)"
  unfolding resolve_public_target_def
  by (intro keeps_intros keeps_tick) (auto intro: assms keeps_intros split: list.splits)

lemma keeps_validate:
  assumes "\<And>w. P w \<Longrightarrow> P (w\<lparr>nw_step := Suc (nw_step w)\<rparr>)"
  shows "keeps P (validate_monitor_url ne url)"
  unfolding validate_monitor_url_def
  by (intro keeps_intros keeps_resolve) (auto intro: assms keeps_intros split: exn.splits)

lemma keeps_redirected:
  assumes "\<And>w. P w \<Longrightarrow> P (w\<lparr>nw_step := Suc (nw_step w)\<rparr>)"
  shows "keeps P (redirected ne follow req visited r)"
  unfolding redirected_def redirect_request_def
  by (intro keeps_intros keeps_validate assms)

lemma connects_step: "new_connects most before n w \<Longrightarrow> new_connects most before n (w\<lparr>nw_step := k\<rparr>)"
  by (simp add: new_connects_def)

lemma connects_less: "k \<le> n \<Longrightarrow> new_connects most before n w \<Longrightarrow> new_connects most before k w"
  by (auto simp: new_connects_def)

lemma connects_one:
  "new_connects most before (Suc n) w \<Longrightarrow> admitted_answer i infos
    \<Longrightarrow> new_connects most before n (w\<lparr>nw_connects := (i, url, infos) # nw_connects w\<rparr>)"
  by (fastforce simp: new_connects_def)

lemma admitted_allowed: "admitted_answer i infos \<Longrightarrow> \<not> is_disallowed_ip (Address i)"
  by (auto simp: admitted_answer_def list_all_iff simp del: is_disallowed_ip.simps)

lemma connects_fetch:
  assumes w: "new_connects most before (Suc n) w"
  shows "wp (fetch ne req) (\<lambda>r t. new_connects most before n t \<and> served ne r) (\<lambda>_. new_connects most before 0) w"
proof -
  let ?R = "resolve_public_target ne (rq_url req)" and ?I = "new_connects most before (Suc n)"
  have resolved: "wp ?R (\<lambda>(i, infos) t. admitted_answer i infos \<and> ?I t) (\<lambda>_. ?I) w"
  proof -
    have "keeps ?I ?R" by (rule keeps_resolve) (rule connects_step)
    from wp_conj[OF resolve_admitted keepsD[OF this w]] show ?thesis by (rule wp_mono) auto
  qed
  show ?thesis unfolding fetch_def
  proof (intro wp_ifI wp_raiseI wp_bindI wp_mono[OF resolved] wp_prodI wp_seqI wp_modifyI)
    show "new_connects most before 0 w" using w by (rule connects_less[rotated]) simp
  next
    fix x t i infos
    assume "(case x of (i, infos) \<Rightarrow> \<lambda>t. admitted_answer i infos \<and> ?I t) t" and "x = (i, infos)"
    then have i: "admitted_answer i infos" and "?I t" by simp_all
    then have "new_connects most before n (t\<lparr>nw_connects := (i, rq_url req, infos) # nw_connects t\<rparr>)" (is "new_connects _ _ _ ?u")
      by (intro connects_one)
    then have "new_connects most before n (?u\<lparr>nw_step := Suc (nw_step ?u)\<rparr>)" by (rule connects_step)
    with i show "wp tick (\<lambda>n'. wp (lift (ne_serve ne n' i req)) (\<lambda>r t. new_connects most before n t \<and> served ne r)
        (\<lambda>_. new_connects most before 0)) (\<lambda>_. new_connects most before 0) ?u"
      by (auto simp: wp_simps served_def simp del: is_disallowed_ip.simps dest!: admitted_allowed intro: connects_less split: sum.splits)
  qed (auto intro: connects_less)
qed

text \<open>The requests of one call of \<open>open\<close>: \<open>I n\<close> holds while at most \<open>n\<close> more may follow.\<close>

definition opened_from :: "(http_reply \<Rightarrow> bool) \<Rightarrow> opened \<Rightarrow> bool" where
  "opened_from S out = (case out of
      Response r \<Rightarrow> S r
    | Http_Error r \<Rightarrow> \<exists>reason. S (r\<lparr>hr_reason := reason\<rparr>)
    | Broken e \<Rightarrow> True)"

lemma opened_from_simps [simp]: "opened_from S (Response r) = S r" "opened_from S (Broken e)"
  by (simp_all add: opened_from_def)

lemma refused_from: "S r \<Longrightarrow> opened_from S (refused r m)" "S r \<Longrightarrow> opened_from S (Http_Error r)"
  by (cases r; auto simp: opened_from_def refused_def intro: exI[of _ "hr_reason r"])+

lemma redirected_from:
  assumes "S r"
  shows "wp (redirected ne follow req visited r) (\<lambda>x _. \<forall>out. x = Inl out \<longrightarrow> opened_from S out) (\<lambda>_ _. True) w"
proof -
  let ?Q = "\<lambda>x _. \<forall>out. x = Inl out \<longrightarrow> opened_from S out" and ?E = "\<lambda>_ _. True"
  have follow: "\<forall>out. follow_up req r newurl = Inl out \<longrightarrow> opened_from S out" for newurl
    using assms by (auto simp: follow_up_def intro: refused_from)
  have request: "wp (redirect_request ne follow req r newurl) ?Q ?E t" for newurl t
  proof -
    have "\<forall>out. (case reason of Some m \<Rightarrow> Inl (refused r m) | None \<Rightarrow> follow_up req r newurl) = Inl out \<longrightarrow> opened_from S out" for reason
      using assms follow by (cases reason) (auto intro: refused_from)
    then show ?thesis using assms unfolding redirect_request_def
      by (intro wp_ifI wp_bindI wp_retI wp_any) (auto intro: refused_from)
  qed
  have visit: "\<forall>out. visit req new r newurl visited = Inl out \<longrightarrow> opened_from S out" for new newurl
    using assms by (auto simp: visit_def intro: refused_from split: option.splits)
  have last: "?Q next t \<Longrightarrow> wp (ret (case next of Inl out \<Rightarrow> Inl out | Inr new \<Rightarrow> visit req new r newurl visited)) ?Q ?E t" for "next" newurl t
    using visit by (cases "next") (auto simp: wp_simps)
  show ?thesis unfolding redirected_def
    by (intro wp_ifI wp_optionI wp_sumI wp_bindI wp_retI)
      (use assms in \<open>auto intro: refused_from wp_mono[OF request last]\<close>)
qed

lemma open_url_rule:
  assumes fetch: "\<And>n w req. I (Suc n) w \<Longrightarrow> wp (fetch ne req) (\<lambda>r t. I n t \<and> S r) (\<lambda>_. K) w"
    and step: "\<And>n w. I n w \<Longrightarrow> I n (w\<lparr>nw_step := Suc (nw_step w)\<rparr>)"
    and less: "\<And>m n w. m \<le> n \<Longrightarrow> I n w \<Longrightarrow> I m w"
    and final: "\<And>n w. I n w \<Longrightarrow> K w"
  shows "I (Suc (visits_left visited)) w \<Longrightarrow> open_url ne follow req visited w = (out, t) \<Longrightarrow> K t \<and> opened_from S out"
proof (induction "visits_left visited" arbitrary: req visited w rule: less_induct)
  case less_visits: less
  obtain a w1 where f: "fetch ne req w = (a, w1)" by fastforce
  from fetch[OF less_visits(2), of req] have a: "case a of Inl e \<Rightarrow> K w1 | Inr r \<Rightarrow> I (visits_left visited) w1 \<and> S r"
    by (simp add: wp_def f split: sum.splits)
  show ?case
  proof (cases a)
    case Inl with f a less_visits(3) show ?thesis by (auto simp: open_url.simps)
  next
    case (Inr r)
    with a have r: "S r" and w1: "I (visits_left visited) w1" by simp_all
    obtain b w2 where g: "redirected ne follow req visited r w1 = (b, w2)" by fastforce
    have "keeps (I (visits_left visited)) (redirected ne follow req visited r)" by (intro keeps_redirected step)
    from keepsD[OF this w1] have w2: "I (visits_left visited) w2" by (simp add: wp_def g split: sum.splits)
    have b: "b = Inr (Inl out') \<Longrightarrow> opened_from S out'" for out'
      using redirected_from[of S r ne follow req visited w1] r by (simp add: wp_def g)
    note unfolded = less_visits(3) f Inr g final[OF w1] final[OF w2]
    show ?thesis
    proof (cases "200 \<le> hr_status r \<and> hr_status r < 300")
      case True
      with unfolded r show ?thesis by (auto simp: open_url.simps[of ne follow req visited w])
    next
      case again: False
      show ?thesis
      proof (cases "\<exists>new visited'. b = Inr (Inr (new, visited'))")
        case True
        then obtain new visited' where b_new: "b = Inr (Inr (new, visited'))" by blast
        have left: "visits_left visited' < visits_left visited" using redirected_left g b_new by simp
        moreover have "I (Suc (visits_left visited')) w2" using less w2 left by (metis Suc_leI)
        moreover have "open_url ne follow new visited' w2 = (out, t)"
          using unfolded again b_new by (simp add: open_url.simps[of ne follow req visited w])
        ultimately show ?thesis by (rule less_visits(1))
      next
        case False
        with unfolded again b show ?thesis
          by (auto simp: open_url.simps[of ne follow req visited w] split: sum.splits)
      qed
    qed
  qed
qed

section \<open>Observations\<close>

text \<open>The response meets the criteria of the monitor.\<close>

definition meets :: "net_env \<Rightarrow> monitor \<Rightarrow> int \<Rightarrow> http_reply \<Rightarrow> bool" where
  "meets ne m max_bytes r \<longleftrightarrow> hr_status r = mo_expected m \<and>
     (response_media_type (mo_content_type m) = [] \<or>
      response_media_type (header_value (hr_headers r) ''content-type'') = response_media_type (mo_content_type m)) \<and>
     (case read_bounded_body ne r max_bytes (mo_method m) of Inl e \<Rightarrow> False
      | Inr body \<Rightarrow> (case check_assertions ne (mo_assertions m) body (header_dict (hr_headers r)) of
            Inl e \<Rightarrow> False | Inr (passed, rows) \<Rightarrow> passed))"

lemma meets_reason: "meets ne m max_bytes (r\<lparr>hr_reason := reason\<rparr>) = meets ne m max_bytes r"
  by (simp add: meets_def read_bounded_body_def read_response_def cong: sum.case_cong option.case_cong)

lemma outcome_row_sel [simp]: "cr_status (outcome_row s c ms err) = s" "cr_code (outcome_row s c ms err) = c"
  by (simp_all add: outcome_row_def)

lemma evaluate_up:
  "read_bounded_body ne r max_bytes (mo_method m) = Inr body \<Longrightarrow> evaluate_response ne m r body ms = Inr res
    \<Longrightarrow> cr_status res = ''up'' \<Longrightarrow> meets ne m max_bytes r \<and> cr_code res = Some (hr_status r)"
  by (auto simp: evaluate_response_def meets_def Let_def bind_res_eq_Inr split: if_splits sum.splits)

text \<open>\<open>K\<close> holds of the world a check leaves, and an observation \<open>up\<close> comes from a response that meets the
  criteria.\<close>

definition observed :: "net_env \<Rightarrow> monitor \<Rightarrow> (http_reply \<Rightarrow> bool) \<Rightarrow> check_result \<Rightarrow> bool" where
  "observed ne m S res \<longleftrightarrow> (cr_status res = ''up'' \<longrightarrow>
     (\<exists>r max_bytes. cfg_int (ne_settings ne) ''AVAILABILITY_MAX_RESPONSE_BYTES'' 262144 1024 (Some (5 * 1024 * 1024)) = Inr max_bytes
        \<and> S r \<and> meets ne m max_bytes r \<and> cr_code res = Some (hr_status r)))"

lemma wp_elapsed [wp_simps]: "wp (elapsed ne) Q E w = Q (ne_elapsed ne (nw_step w)) (w\<lparr>nw_step := Suc (nw_step w)\<rparr>)"
  by (simp add: elapsed_def wp_simps)

lemma transport_failed_rule:
  assumes "\<And>w. K w \<Longrightarrow> K (w\<lparr>nw_step := Suc (nw_step w)\<rparr>)" "K w"
  shows "wp (transport_failed ne e) (\<lambda>res t. K t \<and> observed ne m S res) E w"
  using assms by (cases e) (auto simp: wp_simps observed_def worker_failed_def unknown_row_def)

lemma observe_response_rule:
  assumes step: "\<And>w. K w \<Longrightarrow> K (w\<lparr>nw_step := Suc (nw_step w)\<rparr>)" and "K w" "S r"
    and limit: "cfg_int (ne_settings ne) ''AVAILABILITY_MAX_RESPONSE_BYTES'' 262144 1024 (Some (5 * 1024 * 1024)) = Inr max_bytes"
  shows "wp (observe_response ne m max_bytes r) (\<lambda>res t. K t \<and> observed ne m S res) (\<lambda>_. K) w"
proof (cases "read_bounded_body ne r max_bytes (mo_method m)")
  case (Inl e)
  with assms show ?thesis
    by (cases e) (auto simp: observe_response_def wp_simps observed_def worker_failed_def unknown_row_def)
next
  case (Inr body)
  let ?t = "w\<lparr>nw_step := Suc (nw_step w)\<rparr>"
  have "K ?t" using step \<open>K w\<close> by blast
  note simps = observe_response_def Inr wp_simps
  show ?thesis
  proof (cases "evaluate_response ne m r body (ne_elapsed ne (nw_step w))")
    case (Inl e)
    have "wp (transport_failed ne e) (\<lambda>res t. K t \<and> observed ne m S res) (\<lambda>_. K) ?t"
      by (rule transport_failed_rule[where K = K]) (fact step, fact)
    with Inl show ?thesis by (simp add: simps)
  next
    case (Inr res)
    with \<open>K ?t\<close> assms evaluate_up[OF \<open>_ = Inr body\<close> Inr] show ?thesis by (auto simp: simps observed_def)
  qed
qed

lemma observe_error_rule:
  assumes step: "\<And>w. K w \<Longrightarrow> K (w\<lparr>nw_step := Suc (nw_step w)\<rparr>)" and "K w" "S (r\<lparr>hr_reason := reason\<rparr>)"
    and limit: "cfg_int (ne_settings ne) ''AVAILABILITY_MAX_RESPONSE_BYTES'' 262144 1024 (Some (5 * 1024 * 1024)) = Inr max_bytes"
  shows "wp (observe_error ne m max_bytes r) (\<lambda>res t. K t \<and> observed ne m S res) (\<lambda>_. K) w"
proof -
  note K = step[OF \<open>K w\<close>] step[OF step[OF \<open>K w\<close>]]
  have up: "observed ne m S res"
    if "read_bounded_body ne r max_bytes (mo_method m) = Inr body" "evaluate_response ne m r body ms = Inr res" for body ms res
    using evaluate_up[OF that] meets_reason[where reason = reason and r = r] assms(3) limit unfolding observed_def by fastforce
  show ?thesis
  proof (cases "read_bounded_body ne r max_bytes (mo_method m)")
    case (Inl e)
    with K show ?thesis by (cases e) (auto simp: observe_error_def wp_simps observed_def)
  next
    case (Inr body)
    with K up[OF Inr] show ?thesis
      by (auto simp: observe_error_def wp_simps observed_def[of ne m S "outcome_row _ _ _ _"] split: sum.splits)
  qed
qed

lemma perform_check_rule:
  assumes fetch: "\<And>n w req. I (Suc n) w \<Longrightarrow> wp (fetch ne req) (\<lambda>r t. I n t \<and> S r) (\<lambda>_. K) w"
    and step: "\<And>n w. I n w \<Longrightarrow> I n (w\<lparr>nw_step := Suc (nw_step w)\<rparr>)"
    and less: "\<And>m n w. m \<le> n \<Longrightarrow> I n w \<Longrightarrow> I m w"
    and final: "\<And>n w. I n w \<Longrightarrow> K w"
    and K_step: "\<And>w. K w \<Longrightarrow> K (w\<lparr>nw_step := Suc (nw_step w)\<rparr>)"
    and start: "I 51 w"
  shows "wp (perform_check ne m) (\<lambda>res t. K t \<and> observed ne m S res) (\<lambda>_. K) w"
proof -
  let ?Q = "\<lambda>res t. K t \<and> observed ne m S res" and ?E = "\<lambda>_. K"
  have unknown: "observed ne m S (unknown_row reason)" for reason by (simp add: observed_def unknown_row_def)
  have opened: "wp (open_checked ne (mo_follow m) req) (\<lambda>out t. K t \<and> opened_from S out) ?E t" if "I 51 t" for req t
    using open_url_rule[OF fetch step less final, where visited = "[]" and w = t and follow = "mo_follow m" and req = req] that
    by (simp add: wp_def open_checked_def visits_left_def split: prod.splits)
  have validated: "wp (validate_monitor_url ne (mo_url m)) (\<lambda>_. I 51) ?E w"
  proof -
    have "keeps (I 51) (validate_monitor_url ne (mo_url m))" by (rule keeps_validate) (rule step)
    from keepsD[OF this start] show ?thesis by (rule wp_mono) (auto intro: final)
  qed
  show ?thesis unfolding perform_check_def
    by (intro wp_bindI wp_optionI wp_sumI wp_liftI wp_ifI wp_retI wp_mono[OF validated] wp_mono[OF opened])
      (auto intro: final unknown observe_response_rule observe_error_rule transport_failed_rule K_step
        simp: opened_from_def split: opened.splits)
qed

lemma check_rule:
  "wp (perform_check ne m) (\<lambda>res t. new_connects 51 (nw_connects w) 0 t \<and> observed ne m (served ne) res)
     (\<lambda>_. new_connects 51 (nw_connects w) 0) w"
  by (rule perform_check_rule[where I = "new_connects 51 (nw_connects w)"])
    (auto intro: connects_fetch connects_step connects_less simp: new_connects_def[of _ _ 51])

section \<open>A check that reaches its target\<close>

text \<open>The request a monitor's check makes.\<close>

definition check_request :: "monitor \<Rightarrow> (string \<times> string) list \<Rightarrow> http_request" where
  "check_request m headers =
     \<lparr>rq_url = mo_url m, rq_method = mo_method m, rq_headers = headers,
      rq_data = (if mo_method m = ''POST'' \<and> mo_body m \<noteq> [] then Some (utf8 (mo_body m)) else None),
      rq_timeout = max 1 (min (mo_timeout m) 60)\<rparr>"

text \<open>The check gets as far as \<open>out\<close>, the end of its requests, with this bound on the body.\<close>

definition reaches :: "net_env \<Rightarrow> monitor \<Rightarrow> net_world \<Rightarrow> int \<Rightarrow> opened \<Rightarrow> net_world \<Rightarrow> bool" where
  "reaches ne m w max_bytes out t \<longleftrightarrow>
     (\<exists>headers max_body timeout w1. validate_monitor_url ne (mo_url m) w = (Inr None, w1)
        \<and> validate_headers (or_default (mo_headers m) (PDict [])) = Inr headers
        \<and> cfg_int (ne_settings ne) ''AVAILABILITY_MAX_REQUEST_BODY_BYTES'' 65536 0 (Some (1024 * 1024)) = Inr max_body
        \<and> (mo_method m \<noteq> ''POST'' \<or> int (length (utf8 (mo_body m))) \<le> max_body)
        \<and> cfg_int (ne_settings ne) ''AVAILABILITY_DEFAULT_TIMEOUT_SECONDS'' 10 1 (Some 60) = Inr timeout
        \<and> cfg_int (ne_settings ne) ''AVAILABILITY_MAX_RESPONSE_BYTES'' 262144 1024 (Some (5 * 1024 * 1024)) = Inr max_bytes
        \<and> open_url ne (mo_follow m) (check_request m headers) [] w1 = (out, t))"

lemma check_reaches:
  assumes "reaches ne m w max_bytes out t"
  shows "perform_check ne m w = (case out of
      Response r \<Rightarrow> observe_response ne m max_bytes r t
    | Http_Error r \<Rightarrow> observe_error ne m max_bytes r t
    | Broken e \<Rightarrow> transport_failed ne e t)"
  using assms unfolding reaches_def perform_check_def
  by (auto simp: bind_def lift_def open_checked_def check_request_def not_less split: opened.splits)

text \<open>An exception in reading the body of an HTTP error that is neither an operating system error nor a
  \<open>ValueError\<close>, such as the \<open>IncompleteRead\<close> of a malformed chunked body, leaves the check.\<close>

lemma unread_error_raises:
  assumes "reaches ne m w max_bytes (Http_Error r) t" "\<not> names_policy (hr_reason r)"
    and "mo_method m \<noteq> ''HEAD''" "int (length (hr_body r)) \<le> max_bytes" "hr_read r = Some (Other e)"
  shows "fst (perform_check ne m w) = Inl (Other e)"
proof -
  have "\<not> nat (max_bytes + 1) \<le> length (hr_body r)" using assms(4) by linarith
  with assms(2-) show ?thesis
  by (simp add: check_reaches[OF assms(1)] observe_error_def bind_def elapsed_def tick_def ret_def
      read_bounded_body_def read_response_def raise_def)
qed

section \<open>Properties of a check\<close>

text \<open>C2: a check contacts at most 51 addresses, redirects included, and each of them is an address of the
  resolver's answer it was taken from, in which no address is disallowed; whatever the resolver answers
  next time and wherever the servers redirect.\<close>

theorem check_connects_admitted:
  "\<exists>made. nw_connects (snd (perform_check ne m w)) = made @ nw_connects w \<and> length made \<le> 51
     \<and> list_all (\<lambda>(i, url, infos). admitted_answer i infos) made"
  using check_rule[of ne m w] by (simp add: wp_def new_connects_def split: prod.splits sum.splits)

text \<open>C9: a target is reported healthy only on a response of an admitted address that has the expected
  status, the expected content type and a body of the configured size that passes every assertion.\<close>

theorem up_is_observed:
  assumes "perform_check ne m w = (Inr res, t)" "cr_status res = ''up''"
  shows "\<exists>r n i req max_bytes. ne_serve ne n i req = Inr r \<and> \<not> is_disallowed_ip (Address i)
    \<and> cfg_int (ne_settings ne) ''AVAILABILITY_MAX_RESPONSE_BYTES'' 262144 1024 (Some (5 * 1024 * 1024)) = Inr max_bytes
    \<and> meets ne m max_bytes r \<and> cr_code res = Some (hr_status r)"
  using check_rule[of ne m w] assms unfolding wp_def observed_def served_def by auto

text \<open>What an HTTP error is reported as, by the reason phrase the server chose.\<close>

lemma evaluate_status:
  assumes "evaluate_response ne m r body ms = Inr res"
  shows "cr_code res = Some (hr_status r) \<and> (cr_status res = ''down'' \<or> cr_status res = ''up'' \<and> hr_status r = mo_expected m)"
  using assms by (auto simp: evaluate_response_def Let_def bind_res_eq_Inr outcome_row_def split: if_splits)

lemma policy_error_unknown:
  assumes "reaches ne m w max_bytes (Http_Error r) t" "names_policy (hr_reason r)"
  shows "\<exists>res v. perform_check ne m w = (Inr res, v) \<and> cr_status res = ''unknown'' \<and> cr_code res = Some (hr_status r)"
  using assms(2) by (simp add: check_reaches[OF assms(1)] observe_error_def bind_def elapsed_def tick_def ret_def outcome_row_def)

lemma other_error_known:
  assumes "reaches ne m w max_bytes (Http_Error r) t" "\<not> names_policy (hr_reason r)" "perform_check ne m w = (Inr res, v)"
  shows "cr_code res = Some (hr_status r) \<and> (cr_status res = ''down'' \<or> cr_status res = ''up'' \<and> hr_status r = mo_expected m)"
proof (cases "read_bounded_body ne r max_bytes (mo_method m)")
  case (Inl e)
  with assms show ?thesis
    by (cases e) (auto simp: check_reaches[OF assms(1)] observe_error_def bind_def elapsed_def tick_def ret_def raise_def outcome_row_def)
next
  case (Inr body)
  with assms show ?thesis
    by (auto simp: check_reaches[OF assms(1)] observe_error_def bind_def elapsed_def tick_def ret_def lift_def dest: evaluate_status)
qed

text \<open>An assertion with \<open>contains\<close> is decided by the text of the body alone: its \<open>json_path\<close> is never
  looked at, so the branch of the code that compares the value under the path is dead.\<close>

lemma contains_ignores_json_path:
  assumes "dict_get a ''contains'' = Some v"
  shows "check_assertion ne body headers (PDict a) =
     Inr (if contains body (take 5000 (py_str v)) then (True, ''Response contains expected text.'')
          else (False, ''Expected text was not found.''))"
  using assms by (simp add: assertion_row_def Let_def)

section \<open>A concrete check\<close>

text \<open>A network of one host that gives the same reply to every request.\<close>

definition one_host :: "http_reply \<Rightarrow> net_env" where
  "one_host r = \<lparr>ne_settings = [], ne_bracketed_ok = (\<lambda>_. False), ne_lookup = (\<lambda>_ _ _. Inr [Address (V4 0x5DB8D822)]),
     ne_serve = (\<lambda>_ _ _. Inr r), ne_location = (\<lambda>_ l. Inr (Inr l)), ne_decode = (\<lambda>s. s), ne_json = (\<lambda>_. Inl (ValueError [])),
     ne_errtext = (\<lambda>_. []), ne_elapsed = (\<lambda>n. int n)\<rparr>"

definition plain_monitor :: monitor where
  "plain_monitor = \<lparr>mo_id = 1, mo_name = ''shop'', mo_url = ''https://shop.example/'', mo_method = ''GET'', mo_expected = 200,
     mo_timeout = 10, mo_minutes = 5, mo_seconds = 60, mo_failure = 2, mo_recovery = 2, mo_follow = False,
     mo_headers = PDict [], mo_body = [], mo_content_type = [], mo_assertions = PList [PDict [(PStr ''contains'', PStr ''ok'')]],
     mo_active = True, mo_site = None\<rparr>"

definition plain_reply :: "int \<Rightarrow> string \<Rightarrow> string \<Rightarrow> exn option \<Rightarrow> http_reply" where
  "plain_reply status reason body e = \<lparr>hr_status = status, hr_reason = reason, hr_headers = [], hr_body = body, hr_read = e\<rparr>"

definition start_world :: net_world where
  "start_world = \<lparr>nw_step = 0, nw_connects = []\<rparr>"

lemma one_host_sel [simp]: "ne_lookup (one_host r) n h port = Inr [Address (V4 0x5DB8D822)]"
  "ne_serve (one_host r) n i req = Inr r" "ne_settings (one_host r) = []" "ne_decode (one_host r) s = s"
  by (simp_all add: one_host_def)

lemma one_host_target: "monitor_host (one_host r) ''https://shop.example/'' = Inr (''shop.example'', 443)"
  unfolding monitor_host_def one_host_def net_env.simps by code_simp

lemma one_host_allowed: "\<not> is_disallowed_ip (Address (V4 0x5DB8D822))"
  by code_simp

lemma one_host_resolve: "resolve_public_target (one_host r) ''https://shop.example/'' w =
  (Inr (V4 0x5DB8D822, [Address (V4 0x5DB8D822)]), w\<lparr>nw_step := Suc (nw_step w)\<rparr>)"
  using one_host_allowed
  by (simp add: resolve_public_target_def bind_def lift_def one_host_target tick_def ret_def del: is_disallowed_ip.simps)

lemma one_host_fetch:
  assumes "rq_url req = ''https://shop.example/''"
  shows "fetch (one_host r) req w = (Inr r, w\<lparr>nw_step := nw_step w + 2,
    nw_connects := (V4 0x5DB8D822, ''https://shop.example/'', [Address (V4 0x5DB8D822)]) # nw_connects w\<rparr>)"
proof -
  have "known_scheme ''https://shop.example/''" by code_simp
  with assms show ?thesis
    by (simp add: fetch_def bind_def seq_def one_host_resolve modify_def tick_def lift_def)
qed

text \<open>What the network answers is what the check reaches, unless it redirects.\<close>

lemma one_host_reaches:
  assumes "\<not> List.member redirect_codes (hr_status r)"
  shows "\<exists>t. reaches (one_host r) plain_monitor w 262144
    (if 200 \<le> hr_status r \<and> hr_status r < 300 then Response r else Http_Error r) t"
proof -
  let ?w = "w\<lparr>nw_step := Suc (nw_step w)\<rparr>" and ?req = "check_request plain_monitor []"
  have req: "rq_url ?req = ''https://shop.example/''" by (simp add: check_request_def plain_monitor_def)
  have "validate_monitor_url (one_host r) (mo_url plain_monitor) w = (Inr None, ?w)"
    by (simp add: validate_monitor_url_def catch_def bind_def plain_monitor_def one_host_resolve ret_def)
  moreover have "validate_headers (or_default (mo_headers plain_monitor) (PDict [])) = Inr []"
    by (simp add: plain_monitor_def or_default_def)
  moreover have "cfg_int [] ''AVAILABILITY_MAX_REQUEST_BODY_BYTES'' 65536 0 (Some (1024 * 1024)) = Inr 65536"
    "cfg_int [] ''AVAILABILITY_DEFAULT_TIMEOUT_SECONDS'' 10 1 (Some 60) = Inr 10"
    "cfg_int [] ''AVAILABILITY_MAX_RESPONSE_BYTES'' 262144 1024 (Some (5 * 1024 * 1024)) = Inr 262144"
    by code_simp+
  moreover have "mo_method plain_monitor \<noteq> ''POST''" by (simp add: plain_monitor_def)
  moreover have "fst (open_url (one_host r) (mo_follow plain_monitor) ?req [] ?w) =
      (if 200 \<le> hr_status r \<and> hr_status r < 300 then Response r else Http_Error r)" (is "_ = ?out")
    using assms by (simp add: open_url.simps one_host_fetch[OF req] redirected_def ret_def)
  then have "open_url (one_host r) (mo_follow plain_monitor) ?req [] ?w =
      (?out, snd (open_url (one_host r) (mo_follow plain_monitor) ?req [] ?w))" by (intro prod_eqI) (simp_all only: fst_conv snd_conv)
  ultimately show ?thesis unfolding reaches_def one_host_sel by blast
qed

lemma plain_check_up:
  "\<exists>res t. perform_check (one_host (plain_reply 200 ''OK'' ''all ok'' None)) plain_monitor w = (Inr res, t)
     \<and> cr_status res = ''up'' \<and> cr_code res = Some 200"
proof -
  let ?r = "plain_reply 200 ''OK'' ''all ok'' None"
  obtain t where "reaches (one_host ?r) plain_monitor w 262144 (Response ?r) t"
    using one_host_reaches[of ?r w] by (auto simp: plain_reply_def redirect_codes_def)
  note run = check_reaches[OF this]
  have "read_bounded_body (one_host ?r) ?r 262144 (mo_method plain_monitor) = Inr ''all ok''"
    by (simp add: read_bounded_body_def read_response_def plain_reply_def plain_monitor_def)
  moreover have "\<exists>rows. evaluate_response (one_host ?r) plain_monitor ?r ''all ok'' ms =
      Inr (outcome_row ''up'' (Some 200) (Some ms) [] \<lparr>cr_assertions := rows\<rparr>)" for ms
    by (simp add: evaluate_response_def plain_monitor_def plain_reply_def response_media_type_def cut_at_def strip_def lstrip_def
        rstrip_by_def lower_def check_assertions_def assertion_row_def starts_with_def outcome_row_def)
  moreover obtain rows where "evaluate_response (one_host ?r) plain_monitor ?r ''all ok'' (ne_elapsed (one_host ?r) (nw_step t)) =
      Inr (outcome_row ''up'' (Some 200) (Some (ne_elapsed (one_host ?r) (nw_step t))) [] \<lparr>cr_assertions := rows\<rparr>)"
    using calculation(2) by blast
  ultimately show ?thesis
    by (simp add: run observe_response_def bind_def elapsed_def tick_def ret_def catch_def lift_def)
qed

lemma plain_check_raises:
  "fst (perform_check (one_host (plain_reply 404 ''Not Found'' [] (Some (Other e)))) plain_monitor w) = Inl (Other e)"
proof -
  let ?r = "plain_reply 404 ''Not Found'' [] (Some (Other e))"
  obtain t where t: "reaches (one_host ?r) plain_monitor w 262144 (Http_Error ?r) t"
    using one_host_reaches[of ?r w] by (auto simp: plain_reply_def redirect_codes_def)
  have "\<not> names_policy ''Not Found''" by code_simp
  then have "\<not> names_policy (hr_reason ?r)" by (simp add: plain_reply_def)
  from unread_error_raises[OF t this] show ?thesis by (simp add: plain_reply_def plain_monitor_def)
qed

theorem up_is_observed_witness:
  "\<exists>res :: check_result. cr_status res = ''up'' \<and> cr_code res = Some 200
     \<and> (\<exists>r n i req max_bytes. ne_serve (one_host (plain_reply 200 ''OK'' ''all ok'' None)) n i req = Inr r
        \<and> \<not> is_disallowed_ip (Address i) \<and> meets (one_host (plain_reply 200 ''OK'' ''all ok'' None)) plain_monitor max_bytes r)"
proof -
  obtain res t where run: "perform_check (one_host (plain_reply 200 ''OK'' ''all ok'' None)) plain_monitor start_world = (Inr res, t)"
    "cr_status res = ''up''" "cr_code res = Some 200" using plain_check_up by blast
  from up_is_observed[OF run(1,2)] run(2,3) show ?thesis by blast
qed

end
