(* ===== verification/Monitor_Incidents_Props.thy ===== *)
theory Monitor_Incidents_Props
  imports Monitor_Incidents Monitor_Check_Props
begin

text \<open>
  Availability over time: in every run of observations and acknowledgements the incidents of a monitor
  are what its history of observations says they should be, the due monitors and the leases of a
  scheduler pass are bounded, and what goes wrong when the acknowledgement races a recovery, when a
  lease outlives the interval, when a check raises and when an error's reason phrase hides it.
\<close>

section \<open>The reference: what a history of observations says\<close>

definition run_length :: "string \<Rightarrow> string list \<Rightarrow> nat" where
  "run_length s history = length (takeWhile (\<lambda>x. x = s) history)"

text \<open>Going back from the newest observation, the first full run decides: \<open>f\<close> failures in a row, the
  monitor is in an incident, \<open>r\<close> healthy observations in a row, it is not; and before the first full run
  it is not.\<close>

fun last_verdict :: "nat \<Rightarrow> nat \<Rightarrow> string list \<Rightarrow> bool" where
  "last_verdict f r [] = False"
| "last_verdict f r (s # older) =
     (if f \<le> run_length ''down'' (s # older) then True
      else if r \<le> run_length ''up'' (s # older) then False
      else last_verdict f r older)"

definition ongoing_of :: "nat \<Rightarrow> 'c mon_world \<Rightarrow> incident list" where
  "ongoing_of pk w = filter (\<lambda>i. in_monitor i = pk \<and> ongoing i) (mw_incidents w)"

definition history_of :: "monitor \<Rightarrow> 'c mon_world \<Rightarrow> string list" where
  "history_of m w = map ck_status (checks_of (mo_id m) w)"

definition tracked :: "'c mon_world \<Rightarrow> monitor \<Rightarrow> bool" where
  "tracked w m \<longleftrightarrow> length (ongoing_of (mo_id m) w) =
     (if last_verdict (threshold (mo_failure m)) (threshold (mo_recovery m)) (history_of m w) then 1 else 0)"

text \<open>The tables: times do not run ahead of the clock, rows are newest first, identifiers are unique, and
  an incident is over exactly when it has a time of resolution.\<close>

definition tables_ok :: "'c mon_world \<Rightarrow> bool" where
  "tables_ok w \<longleftrightarrow> distinct (map mo_id (mw_monitors w))
     \<and> sorted (map (\<lambda>c. - ck_at c) (mw_checks w)) \<and> list_all (\<lambda>c. ck_at c \<le> mw_now w) (mw_checks w)
     \<and> distinct (map in_id (mw_incidents w)) \<and> list_all (\<lambda>i. in_id i < mw_fresh w) (mw_incidents w)
     \<and> list_all (\<lambda>i. ongoing i = (in_resolved i = None)) (mw_incidents w)"

definition avail_ok :: "'c mon_world \<Rightarrow> bool" where
  "avail_ok w \<longleftrightarrow> tables_ok w \<and> list_all (tracked w) (mw_monitors w)"

section \<open>Runs\<close>

text \<open>Checks recorded by any worker, acknowledgements, and time passing with whatever the cache and the
  network do.\<close>

inductive avail_step :: "'c mon_env \<Rightarrow> 'c mon_world \<Rightarrow> 'c mon_world \<Rightarrow> bool" for env where
  observe: "record_check env m res w = (r, w') \<Longrightarrow> avail_step env w w'"
| acknowledge: "incident_acknowledge allowed u i w = (a, w') \<Longrightarrow> avail_step env w w'"
| later: "mw_now w \<le> now \<Longrightarrow> avail_step env w (w\<lparr>mw_now := now, mw_cache := c, mw_net := n\<rparr>)"

lemma threshold_pos: "1 \<le> threshold v"
  by (simp add: threshold_def)

lemma checks_filter: "sorted (map (\<lambda>c. - ck_at c) (mw_checks w)) \<Longrightarrow>
  checks_of pk w = filter (\<lambda>c. ck_monitor c = pk) (mw_checks w)"
  unfolding checks_of_def by (intro sort_key_id_if_sorted sorted_filter)

lemma open_incident_none: "open_incident pk w = None \<longleftrightarrow> ongoing_of pk w = []"
  by (auto simp: open_incident_def ongoing_of_def split: list.splits dest: arg_cong[where f = set])

lemma open_incident_some:
  assumes "open_incident pk w = Some i"
  shows "List.member (ongoing_of pk w) i"
proof -
  have "\<exists>rest. sort_key (\<lambda>i. - in_started i) (ongoing_of pk w) = i # rest"
    using assms by (auto simp: open_incident_def ongoing_of_def split: list.splits)
  then have "i \<in> set (sort_key (\<lambda>i. - in_started i) (ongoing_of pk w))" by (metis list.set_intros(1))
  then show ?thesis by simp
qed

lemma streak_length: "n \<le> k \<Longrightarrow> n \<le> length (streak (take k checks) s) \<longleftrightarrow> n \<le> run_length s (map ck_status checks)"
proof -
  assume "n \<le> k"
  have "length (takeWhile P (take k xs)) = min k (length (takeWhile P xs))" for P and xs :: "check_row list"
    by (induction xs arbitrary: k) (auto simp: take_Cons split: nat.splits)
  then have "length (streak (take k checks) s) = min k (run_length s (map ck_status checks))"
    by (simp add: streak_def run_length_def takeWhile_map o_def)
  with \<open>n \<le> k\<close> show ?thesis by simp
qed

lemma verdict_down: "f \<le> run_length ''down'' (s # older) \<Longrightarrow> last_verdict f r (s # older)"
  and verdict_up: "1 \<le> f \<Longrightarrow> r \<le> run_length ''up'' (''up'' # older) \<Longrightarrow> \<not> last_verdict f r (''up'' # older)"
  and verdict_same: "1 \<le> r \<Longrightarrow> \<not> f \<le> run_length ''down'' (''down'' # older) \<Longrightarrow> last_verdict f r (''down'' # older) = last_verdict f r older"
    "1 \<le> f \<Longrightarrow> \<not> r \<le> run_length ''up'' (''up'' # older) \<Longrightarrow> last_verdict f r (''up'' # older) = last_verdict f r older"
    "1 \<le> f \<Longrightarrow> 1 \<le> r \<Longrightarrow> s \<noteq> ''up'' \<Longrightarrow> s \<noteq> ''down'' \<Longrightarrow> last_verdict f r (s # older) = last_verdict f r older"
  by (auto simp: run_length_def)

declare last_verdict.simps [simp del]

section \<open>Every step keeps the tables\<close>

text \<open>The invariant sees the tables and the clock, and new identifiers may be drawn.\<close>

definition tables_of :: "'c mon_world \<Rightarrow> int \<times> monitor list \<times> check_row list \<times> incident list" where
  "tables_of w = (mw_now w, mw_monitors w, mw_checks w, mw_incidents w)"

lemma tables_of_sel:
  assumes "tables_of w' = tables_of w"
  shows "mw_now w' = mw_now w" "mw_monitors w' = mw_monitors w" "mw_checks w' = mw_checks w" "mw_incidents w' = mw_incidents w"
    "checks_of pk w' = checks_of pk w" "ongoing_of pk w' = ongoing_of pk w" "tracked w' = tracked w" "open_incident pk w' = open_incident pk w"
  using assms by (auto simp: tables_of_def checks_of_def ongoing_of_def tracked_def history_of_def open_incident_def fun_eq_iff)

lemma tables_ok_later:
  assumes "tables_of w' = tables_of w" "mw_fresh w \<le> mw_fresh w'" "tables_ok w"
  shows "tables_ok w'"
  using assms(2,3) by (auto simp: tables_ok_def tables_of_sel[OF assms(1)] list_all_iff dest!: bspec)

lemma avail_ok_later:
  assumes "tables_of w' = tables_of w" "mw_fresh w \<le> mw_fresh w'" "avail_ok w"
  shows "avail_ok w'"
  using assms(3) tables_ok_later[OF assms(1,2)] by (simp add: avail_ok_def tables_of_sel[OF assms(1)])

definition later_than :: "'c mon_world \<Rightarrow> 'c mon_world \<Rightarrow> bool" where
  "later_than w w' \<longleftrightarrow> tables_of w' = tables_of w \<and> mw_fresh w \<le> mw_fresh w'"

lemma later_refl [simp]: "later_than w w"
  by (simp add: later_than_def)

lemma keeps_alert_cache: "keeps (later_than w) (on_cache m)"
  by (auto simp: keeps_def wp_def on_cache_def later_than_def tables_of_def split: prod.splits sum.splits)

lemma keeps_fresh_hex: "keeps (later_than w) (fresh_hex env)"
  by (auto simp: keeps_def wp_def fresh_hex_def later_than_def tables_of_def)

lemma keeps_announce: "keeps (later_than w) (announce env m transition)"
  unfolding announce_def send_alert_def should_send_def Let_def
  by (intro keeps_intros keeps_alert_cache) (auto simp: later_than_def tables_of_def deliver_def)

lemma keeps_request: "keeps (later_than w) (result_request env res)"
  unfolding result_request_def
  by (auto intro!: keeps_intros keeps_fresh_hex split: option.splits list.splits)

section \<open>Recording an observation\<close>

text \<open>After the row of the check is stored, all monitors but this one agree with their history.\<close>

definition others_ok :: "monitor \<Rightarrow> 'c mon_world \<Rightarrow> bool" where
  "others_ok m w \<longleftrightarrow> tables_ok w \<and> List.member (mw_monitors w) m
     \<and> list_all (\<lambda>l. mo_id l = mo_id m \<or> tracked w l) (mw_monitors w)"

definition observed_row :: "monitor \<Rightarrow> check_row \<Rightarrow> 'c mon_world \<Rightarrow> bool" where
  "observed_row m c w \<longleftrightarrow> others_ok m w \<and>
     (\<exists>older. history_of m w = ck_status c # older \<and> length (ongoing_of (mo_id m) w) =
          (if last_verdict (threshold (mo_failure m)) (threshold (mo_recovery m)) older then 1 else 0))"

lemma row_observed:
  assumes "avail_ok w" "List.member (mw_monitors w) m" "ck_monitor c = mo_id m" "ck_at c = mw_now w"
  shows "observed_row m c (w\<lparr>mw_checks := c # mw_checks w\<rparr>)" (is "observed_row m c ?w")
proof -
  have ok: "tables_ok w" and tracked: "list_all (tracked w) (mw_monitors w)" using assms by (simp_all add: avail_ok_def)
  have new: "tables_ok ?w" using ok assms(4) by (auto simp: tables_ok_def list_all_iff)
  have sorted: "sorted (map (\<lambda>c. - ck_at c) (mw_checks w))" "sorted (map (\<lambda>c. - ck_at c) (mw_checks ?w))"
    using ok new by (simp_all add: tables_ok_def)
  note checks = checks_filter[OF sorted(1)] checks_filter[OF sorted(2)]
  have others: "tracked ?w l = tracked w l" if "mo_id l \<noteq> mo_id m" for l
    using that assms(3) by (simp add: tracked_def history_of_def checks ongoing_of_def)
  have own: "history_of m ?w = ck_status c # history_of m w" "ongoing_of (mo_id m) ?w = ongoing_of (mo_id m) w"
    using assms(3) by (simp_all add: history_of_def checks ongoing_of_def)
  from tracked assms(2) have "tracked w m" by (auto simp: list_all_iff)
  with own new others tracked assms(2) show ?thesis
    by (auto simp: observed_row_def others_ok_def list_all_iff tracked_def[of w m])
qed

text \<open>Once this monitor agrees with its history too, the tables are consistent.\<close>

lemma observed_done:
  assumes "others_ok m w" "tracked w m"
  shows "avail_ok w"
proof -
  have "tracked w l" if "List.member (mw_monitors w) l" "mo_id l = mo_id m" for l
  proof -
    have "distinct (map mo_id (mw_monitors w))" "List.member (mw_monitors w) m"
      using assms(1) by (simp_all add: others_ok_def tables_ok_def)
    with that have "l = m" by (auto simp: distinct_map inj_on_def)
    with assms(2) show ?thesis by simp
  qed
  with assms(1) show ?thesis by (auto simp: others_ok_def avail_ok_def list_all_iff)
qed

lemma unchanged_done:
  assumes "observed_row m c w" and "\<And>older. history_of m w = ck_status c # older \<Longrightarrow>
    last_verdict (threshold (mo_failure m)) (threshold (mo_recovery m)) (ck_status c # older) =
    last_verdict (threshold (mo_failure m)) (threshold (mo_recovery m)) older"
  shows "avail_ok w"
  by (rule observed_done[of m]) (use assms in \<open>auto simp: observed_row_def tracked_def\<close>)

lemma opened_row_sel [simp]: "in_id (opened_row i pk q down recent c) = i" "in_monitor (opened_row i pk q down recent c) = pk"
  "ongoing (opened_row i pk q down recent c)" "in_resolved (opened_row i pk q down recent c) = None"
  by (simp_all add: opened_row_def Let_def ongoing_def)

lemma recovered_row_sel [simp]: "in_id (recovered_row i q up c) = in_id i" "in_monitor (recovered_row i q up c) = in_monitor i"
  "\<not> ongoing (recovered_row i q up c)" "in_resolved (recovered_row i q up c) \<noteq> None"
  by (simp_all add: recovered_row_def Let_def ongoing_def)

text \<open>The tables after an incident is opened.\<close>

lemma opened_ok:
  assumes obs: "observed_row m c w" and none: "ongoing_of (mo_id m) w = []"
    and verdict: "last_verdict (threshold (mo_failure m)) (threshold (mo_recovery m)) (history_of m w)"
  shows "avail_ok (w\<lparr>mw_fresh := Suc (mw_fresh w),
      mw_incidents := opened_row (mw_fresh w) (mo_id m) q down recent c # mw_incidents w\<rparr>)" (is "avail_ok ?w")
proof -
  have ok: "tables_ok w" and others_ok: "others_ok m w" using obs by (simp_all add: observed_row_def others_ok_def)
  have same: "history_of l ?w = history_of l w" for l by (simp add: history_of_def checks_of_def)
  have others: "tracked ?w l = tracked w l" if "mo_id l \<noteq> mo_id m" for l
    using that by (simp add: tracked_def same ongoing_of_def)
  have "tables_ok ?w" using ok by (force simp: tables_ok_def list_all_iff)
  moreover have "ongoing_of (mo_id m) ?w = [opened_row (mw_fresh w) (mo_id m) q down recent c]"
    using none by (simp add: ongoing_of_def)
  ultimately show ?thesis
    using others_ok others verdict same[of m]
    by (intro observed_done[of m]) (auto simp: others_ok_def list_all_iff tracked_def[of _ m])
qed

text \<open>The tables after the open incident is closed.\<close>

lemma recovered_ok:
  assumes obs: "observed_row m c w" and some: "open_incident (mo_id m) w = Some i"
    and verdict: "\<not> last_verdict (threshold (mo_failure m)) (threshold (mo_recovery m)) (history_of m w)"
  shows "avail_ok (save_incident (recovered_row i q up c) w)" (is "avail_ok ?w")
proof -
  let ?j = "recovered_row i q up c"
  have ok: "tables_ok w" and others_ok: "others_ok m w" using obs by (simp_all add: observed_row_def others_ok_def)
  have i: "i \<in> set (ongoing_of (mo_id m) w)" using open_incident_some[OF some] by simp
  have "length (ongoing_of (mo_id m) w) \<le> 1" using obs by (auto simp: observed_row_def)
  with i have single: "j = i" if "j \<in> set (ongoing_of (mo_id m) w)" for j
    using that by (cases "ongoing_of (mo_id m) w") auto
  have i': "i \<in> set (mw_incidents w)" "in_monitor i = mo_id m" using i by (simp_all add: ongoing_of_def)
  have unique: "j = i" if "j \<in> set (mw_incidents w)" "in_id j = in_id i" for j
    using that i' ok by (auto simp: tables_ok_def distinct_map inj_on_def)
  have same: "history_of l ?w = history_of l w" for l by (simp add: history_of_def checks_of_def save_incident_def)
  have "ongoing_of (mo_id m) ?w = []"
    using single by (fastforce simp: ongoing_of_def save_incident_def filter_empty_conv)
  moreover have "length (ongoing_of pk ?w) = length (ongoing_of pk w)" if "pk \<noteq> mo_id m" for pk
  proof -
    have "filter ((\<lambda>j. in_monitor j = pk \<and> ongoing j) \<circ> (\<lambda>j. if in_id j = in_id ?j then ?j else j)) (mw_incidents w) =
        filter (\<lambda>j. in_monitor j = pk \<and> ongoing j) (mw_incidents w)"
      using that unique i' by (intro filter_cong) (auto simp: o_def)
    then show ?thesis by (simp add: ongoing_of_def save_incident_def filter_map)
  qed
  moreover have "tables_ok ?w"
    using ok i'(1) by (auto simp: tables_ok_def save_incident_def list_all_iff o_def if_distrib[of in_id] cong: if_cong)
  moreover have "mw_monitors ?w = mw_monitors w" by (simp add: save_incident_def)
  moreover have "tracked ?w l = tracked w l" if "mo_id l \<noteq> mo_id m" for l
    using calculation(2)[OF that] by (simp add: tracked_def same)
  ultimately show ?thesis
    using others_ok verdict same[of m]
    by (intro observed_done[of m]) (auto simp: others_ok_def list_all_iff tracked_def[of _ m])
qed

lemma on_down_ok:
  assumes "observed_row m c w" "ck_status c = ''down''" "threshold (mo_failure m) \<le> k" "recent = take k (checks_of (mo_id m) w)"
  shows "wp (on_down env m q recent c) (\<lambda>_. avail_ok) (\<lambda>_. avail_ok) w"
proof -
  obtain older where h: "history_of m w = ''down'' # older" using assms(1,2) by (auto simp: observed_row_def)
  have long: "threshold (mo_failure m) \<le> length (streak recent ''down'') \<longleftrightarrow>
      threshold (mo_failure m) \<le> run_length ''down'' (''down'' # older)"
    using streak_length[OF assms(3)] h by (simp add: assms(4) history_of_def)
  have keep: "avail_ok w" if "\<not> threshold (mo_failure m) \<le> run_length ''down'' (''down'' # older)"
    using that by (intro unchanged_done[OF assms(1)]) (simp add: h assms(2) verdict_same(1)[OF threshold_pos])
  have already: "avail_ok w" if "open_incident (mo_id m) w \<noteq> None" "threshold (mo_failure m) \<le> run_length ''down'' (''down'' # older)"
  proof (rule unchanged_done[OF assms(1)])
    have "ongoing_of (mo_id m) w \<noteq> []" using that(1) by (simp add: open_incident_none)
    then have "last_verdict (threshold (mo_failure m)) (threshold (mo_recovery m)) older"
      using assms(1) h by (auto simp: observed_row_def split: if_splits)
    then show "last_verdict (threshold (mo_failure m)) (threshold (mo_recovery m)) (ck_status c # older') =
        last_verdict (threshold (mo_failure m)) (threshold (mo_recovery m)) older'"
      if "history_of m w = ck_status c # older'" for older'
      using that h \<open>threshold _ \<le> run_length _ _\<close> verdict_down by (auto simp: assms(2))
  qed
  show ?thesis unfolding on_down_def Let_def
    using keep already long opened_ok[OF assms(1)] verdict_down h
    by (auto simp: wp_simps open_incident_none)
qed

lemma on_up_ok:
  assumes "observed_row m c w" "ck_status c = ''up''" "threshold (mo_recovery m) \<le> k" "recent = take k (checks_of (mo_id m) w)"
  shows "wp (on_up env m q recent c) (\<lambda>_. avail_ok) (\<lambda>_. avail_ok) w"
proof -
  obtain older where h: "history_of m w = ''up'' # older" using assms(1,2) by (auto simp: observed_row_def)
  have long: "threshold (mo_recovery m) \<le> length (streak recent ''up'') \<longleftrightarrow>
      threshold (mo_recovery m) \<le> run_length ''up'' (''up'' # older)"
    using streak_length[OF assms(3)] h by (simp add: assms(4) history_of_def)
  have keep: "avail_ok w" if "\<not> threshold (mo_recovery m) \<le> run_length ''up'' (''up'' # older)"
    using that by (intro unchanged_done[OF assms(1)]) (simp add: h assms(2) verdict_same(2)[OF threshold_pos])
  have already: "avail_ok w" if "open_incident (mo_id m) w = None" "threshold (mo_recovery m) \<le> run_length ''up'' (''up'' # older)"
  proof (rule unchanged_done[OF assms(1)])
    have "ongoing_of (mo_id m) w = []" using that(1) by (simp add: open_incident_none)
    then have "\<not> last_verdict (threshold (mo_failure m)) (threshold (mo_recovery m)) older"
      using assms(1) h by (auto simp: observed_row_def split: if_splits)
    then show "last_verdict (threshold (mo_failure m)) (threshold (mo_recovery m)) (ck_status c # older') =
        last_verdict (threshold (mo_failure m)) (threshold (mo_recovery m)) older'"
      if "history_of m w = ck_status c # older'" for older'
      using that h \<open>threshold _ \<le> run_length _ _\<close> verdict_up threshold_pos by (auto simp: assms(2))
  qed
  show ?thesis unfolding on_up_def Let_def
    using keep already long recovered_ok[OF assms(1)] verdict_up[OF threshold_pos] h
    by (auto simp: wp_simps split: option.splits)
qed

lemma record_observation_ok:
  assumes "avail_ok w" "List.member (mw_monitors w) m"
  shows "wp (record_observation env m res) (\<lambda>_. avail_ok) (\<lambda>_. avail_ok) w"
proof -
  let ?c = "\<lambda>v. new_check (mo_id m) res (mw_now v)"
  let ?k = "max (threshold (mo_failure m)) (threshold (mo_recovery m)) + 2"
  have observed: "wp (if ck_status (?c v) = ''down'' then on_down env m q (take ?k (checks_of (mo_id m) u)) (?c v)
      else if ck_status (?c v) = ''up'' then on_up env m q (take ?k (checks_of (mo_id m) u)) (?c v) else ret None)
      (\<lambda>_. avail_ok) (\<lambda>_. avail_ok) u"
    if "later_than w v" "u = v\<lparr>mw_checks := ?c v # mw_checks v\<rparr>" for q u v
  proof -
    have "avail_ok v" "List.member (mw_monitors v) m"
      using that(1) assms avail_ok_later by (auto simp: later_than_def tables_of_def)
    then have u: "observed_row m (?c v) u" unfolding that(2) by (rule row_observed) (simp_all add: new_check_def)
    show ?thesis
    proof (intro wp_ifI)
      assume "ck_status (?c v) \<noteq> ''down''" "ck_status (?c v) \<noteq> ''up''"
      then show "wp (ret None) (\<lambda>_. avail_ok) (\<lambda>_. avail_ok) u"
        using unchanged_done[OF u] verdict_same(3)[OF threshold_pos threshold_pos] by (simp add: wp_simps)
    qed (use u in \<open>auto intro!: on_down_ok[where k = ?k] on_up_ok[where k = ?k]\<close>)
  qed
  have request: "wp (result_request env res) (\<lambda>_. later_than w) (\<lambda>_. later_than w) w"
    by (rule keepsD[OF keeps_request]) simp
  show ?thesis unfolding record_observation_def wp_bind[of "result_request env res"]
  proof (rule wp_mono[OF request])
    fix q v assume v: "later_than w v"
    show "wp (bind (gets (\<lambda>w. new_check (mo_id m) res (mw_now w))) (\<lambda>c.
        seq (modify (\<lambda>w. w\<lparr>mw_checks := c # mw_checks w\<rparr>))
         (bind (gets (\<lambda>w. take ?k (checks_of (mo_id m) w))) (\<lambda>recent.
          bind (if ck_status c = ''down'' then on_down env m q recent c
            else if ck_status c = ''up'' then on_up env m q recent c else ret None) (\<lambda>transition. ret (c, transition))))))
        (\<lambda>_. avail_ok) (\<lambda>_. avail_ok) v"
      by (simp only: wp_bind wp_gets wp_seq wp_modify) (rule wp_mono[OF observed[OF v refl]]; simp add: wp_ret)
  next
    fix e v assume "later_than w v"
    then show "avail_ok v" using avail_ok_later assms(1) by (auto simp: later_than_def)
  qed
qed

lemma record_check_ok:
  assumes "avail_ok w"
  shows "wp (record_check env m res) (\<lambda>_. avail_ok) (\<lambda>_. avail_ok) w"
proof -
  have announced: "wp (announce env l t) (\<lambda>_. avail_ok) (\<lambda>_. avail_ok) v" if "avail_ok v" for l t and v :: "'a mon_world"
    by (rule wp_keeps[OF keeps_announce[of v]]) (use that avail_ok_later in \<open>auto simp: later_than_def\<close>)
  have recorded: "wp (record_observation env l res) (\<lambda>_. avail_ok) (\<lambda>_. avail_ok) w"
    if "find (\<lambda>l. mo_id l = mo_id m) (mw_monitors w) = Some l" for l
    using that by (intro record_observation_ok assms) (auto simp: find_Some_iff)
  show ?thesis unfolding record_check_def
    by (intro wp_bindI wp_getsI wp_optionI wp_raiseI wp_prodI wp_seqI wp_retI assms)
      (auto intro!: wp_mono[OF recorded] wp_mono[OF announced] wp_seqI wp_retI wp_prodI)
qed

text \<open>Acknowledging changes the state of one ongoing incident to another ongoing state.\<close>

lemma acknowledge_ok:
  assumes "avail_ok w"
  shows "wp (incident_acknowledge allowed u i) (\<lambda>_. avail_ok) (\<lambda>_. avail_ok) w"
proof -
  have "avail_ok (w\<lparr>mw_incidents := map (\<lambda>k. if in_id k = in_id j
      then k\<lparr>in_state := Inc_Acknowledged, in_acked := Some now, in_acked_by := Some u\<rparr> else k) (mw_incidents w)\<rparr>)"
    if "find (\<lambda>j. in_id j = i) (mw_incidents w) = Some j" "ongoing j" for j now
  proof -
    define f :: "incident \<Rightarrow> incident" where "f = (\<lambda>k. if in_id k = in_id j
      then k\<lparr>in_state := Inc_Acknowledged, in_acked := Some now, in_acked_by := Some u\<rparr> else k)"
    let ?w = "w\<lparr>mw_incidents := map f (mw_incidents w)\<rparr>"
    have ok: "tables_ok w" using assms by (simp add: avail_ok_def)
    have j: "j \<in> set (mw_incidents w)" using that(1) by (auto simp: find_Some_iff)
    with ok have unique: "k = j" if "k \<in> set (mw_incidents w)" "in_id k = in_id j" for k
      using that by (auto simp: tables_ok_def distinct_map inj_on_def)
    have same: "in_id (f k) = in_id k" "in_monitor (f k) = in_monitor k" "ongoing (f k) = ongoing k" "in_resolved (f k) = in_resolved k"
      if "k \<in> set (mw_incidents w)" for k
      using unique[OF that] \<open>ongoing j\<close> by (auto simp: f_def ongoing_def)
    have ids: "map (in_id \<circ> f) (mw_incidents w) = map in_id (mw_incidents w)" using same by simp
    have "distinct (map (in_id \<circ> f) (mw_incidents w))" unfolding ids using ok by (simp add: tables_ok_def)
    then have "tables_ok ?w" using ok same by (auto simp: tables_ok_def list_all_iff)
    moreover have "length (ongoing_of pk ?w) = length (ongoing_of pk w)" for pk
    proof -
      have "filter ((\<lambda>k. in_monitor k = pk \<and> ongoing k) \<circ> f) (mw_incidents w) = filter (\<lambda>k. in_monitor k = pk \<and> ongoing k) (mw_incidents w)"
        using same by (intro filter_cong) (auto simp: o_def)
      then show ?thesis by (simp add: ongoing_of_def filter_map)
    qed
    then have "tracked ?w l = tracked w l" for l by (simp add: tracked_def history_of_def checks_of_def)
    ultimately have "avail_ok ?w" using assms by (simp add: avail_ok_def list_all_iff)
    then show ?thesis by (simp add: f_def)
  qed
  then show ?thesis using assms
    unfolding incident_acknowledge_def ack_read_def ack_write_def
    by (auto simp: wp_simps split: option.splits)
qed

lemma avail_step_ok: "avail_step env w w' \<Longrightarrow> avail_ok w \<Longrightarrow> avail_ok w'"
proof (induction rule: avail_step.induct)
  case (observe m res w r w')
  then show ?case using record_check_ok[of w env m res] by (auto simp: wp_def split: sum.splits)
next
  case (acknowledge allowed u i w a w')
  then show ?case using acknowledge_ok[of w allowed u i] by (auto simp: wp_def split: sum.splits)
next
  case (later w now c n)
  then show ?case by (auto simp: avail_ok_def tables_ok_def list_all_iff tracked_def history_of_def checks_of_def ongoing_of_def dest!: bspec)
qed

lemma avail_run_ok: "(avail_step env)\<^sup>*\<^sup>* w w' \<Longrightarrow> avail_ok w \<Longrightarrow> avail_ok w'"
  by (induction rule: rtranclp_induct) (auto intro: avail_step_ok)

lemma empty_ok: "mw_checks w = [] \<Longrightarrow> mw_incidents w = [] \<Longrightarrow> distinct (map mo_id (mw_monitors w)) \<Longrightarrow> avail_ok w"
  by (auto simp: avail_ok_def tables_ok_def list_all_iff tracked_def history_of_def checks_of_def ongoing_of_def last_verdict.simps)

section \<open>Due monitors\<close>

lemma due_scan_eq: "1 \<le> limit \<Longrightarrow> 1 \<le> rows \<Longrightarrow> due_scan P limit rows ms = take limit (filter P (take rows ms))"
proof (induction P limit rows ms rule: due_scan.induct)
  case (2 P limit rows m ms)
  then show ?case by (cases limit; cases rows) (auto simp: not_le le_Suc_eq)
qed simp

section \<open>The command\<close>

lemma wp_counts:
  "wp (check_loop env dry ms n) (\<lambda>k _. rc_checked k + rc_skipped k = rc_checked n + rc_skipped n + length ms
     \<and> rc_up k + rc_down k + rc_unknown k + rc_checked n = rc_up n + rc_down n + rc_unknown n + rc_checked k) (\<lambda>_ _. True) w"
proof (induction ms arbitrary: n w)
  case (Cons m ms)
  have rest: "wp (check_loop env dry ms k) (\<lambda>k' _. rc_checked k' + rc_skipped k' = rc_checked n + rc_skipped n + length (m # ms)
     \<and> rc_up k' + rc_down k' + rc_unknown k' + rc_checked n = rc_up n + rc_down n + rc_unknown n + rc_checked k') (\<lambda>_ _. True) v"
    if "rc_checked k + rc_skipped k = Suc (rc_checked n + rc_skipped n)"
      "rc_up k + rc_down k + rc_unknown k + rc_checked n = rc_up n + rc_down n + rc_unknown n + rc_checked k" for k v
    by (rule wp_mono[OF Cons.IH]) (use that in auto)
  have counted: "rc_checked (count_result s k) = rc_checked k \<and> rc_skipped (count_result s k) = rc_skipped k
      \<and> rc_up (count_result s k) + rc_down (count_result s k) + rc_unknown (count_result s k) = Suc (rc_up k + rc_down k + rc_unknown k)"
    for s k by (simp add: count_result_def)
  show ?case unfolding check_loop.simps
    by (rule wp_bindI, rule wp_any, rule wp_ifI, rule rest, simp, simp, rule wp_bindI, rule wp_any, rule wp_bindI, rule wp_any, rule rest)
      (simp_all add: counted)
qed (simp add: wp_simps)

text \<open>A dry run leaves the tables and the cache alone.\<close>

lemma keeps_net: "(\<And>n w. P w \<Longrightarrow> P (w\<lparr>mw_net := n\<rparr>)) \<Longrightarrow> keeps P (on_net m)"
  by (auto simp: keeps_def wp_def on_net_def split: prod.splits sum.splits)

lemma keeps_dry: "keeps (\<lambda>v. \<exists>n. v = w\<lparr>mw_net := n\<rparr>) (check_loop env True ms k)"
proof (induction ms arbitrary: k)
  case (Cons m ms)
  show ?case unfolding check_loop.simps if_True
    by (intro keeps_intros keeps_net Cons) auto
qed (simp add: keeps_ret)

section \<open>Properties\<close>

text \<open>C1: in every run of observations and acknowledgements, by any number of workers, a monitor has
  exactly one ongoing incident when the most recent full run of its history is one of failures, and none
  otherwise; an incident is over exactly when it has a time of resolution, and identifiers stay unique.\<close>

theorem incidents_follow_history:
  assumes "(avail_step env)\<^sup>*\<^sup>* w w'" "mw_checks w = []" "mw_incidents w = []" "distinct (map mo_id (mw_monitors w))"
    and "List.member (mw_monitors w') m"
  shows "length (ongoing_of (mo_id m) w') =
      (if last_verdict (threshold (mo_failure m)) (threshold (mo_recovery m)) (history_of m w') then 1 else 0)
    \<and> list_all (\<lambda>i. ongoing i = (in_resolved i = None)) (mw_incidents w') \<and> distinct (map in_id (mw_incidents w'))"
  using avail_run_ok[OF assms(1) empty_ok[OF assms(2-4)]] assms(5)
  by (simp add: avail_ok_def tables_ok_def list_all_iff tracked_def)

text \<open>C12: the due monitors are the first so many due ones among the first so many active ones, in the order of
  the schedule, and asking for them changes nothing; the two limits are the configured ones, at least one
  and at most 5,000 and 50,000.\<close>

theorem monitors_due_spec:
  "monitors_due_for_check env w =
     (bind_res (max_checks_per_run (al_settings env)) (\<lambda>limit.
      bind_res (cfg_int (al_settings env) ''AVAILABILITY_MAX_SCHEDULER_SCAN'' (max limit 1000) limit (Some 50000)) (\<lambda>rows.
      Inr (take (nat (max 1 (min limit 5000))) (filter (is_due w) (take (nat (max 1 (min rows 50000))) (scheduled w)))))), w)"
proof (cases "max_checks_per_run (al_settings env)")
  case (Inl e)
  then show ?thesis by (simp add: monitors_due_for_check_def bind_def lift_def)
next
  case (Inr limit)
  then have limit: "1 \<le> limit" "limit \<le> 5000" by (auto simp: max_checks_per_run_def bind_res_eq_Inr)
  show ?thesis
  proof (cases "cfg_int (al_settings env) ''AVAILABILITY_MAX_SCHEDULER_SCAN'' (max limit 1000) limit (Some 50000)")
    case Inl with Inr show ?thesis by (simp add: monitors_due_for_check_def bind_def lift_def)
  next
    case rows: (Inr rows)
    then have "1 \<le> rows" "rows \<le> 50000" using limit by (auto simp: cfg_int_def bind_res_eq_Inr Let_def)
    moreover from this limit have "1 \<le> nat limit" "1 \<le> nat rows" by simp_all
    ultimately show ?thesis using limit Inr rows
      by (simp add: monitors_due_for_check_def bind_def lift_def gets_def due_scan_eq)
  qed
qed

text \<open>A lease refuses every other check of its monitor until it expires; since it lasts the time-out of
  the check and thirty seconds more, it also refuses a check that is due again before that, as the check
  of a monitor with an interval and a time-out of 60 seconds is at each second pass of a minutely
  scheduler.\<close>

theorem lease_refuses_until_expiry:
  assumes "al_cache env = mem_cache" "acquire_monitor_check_lease env m w = (Inr True, w1)"
    and "mw_cache w2 = (mw_cache w1)\<lparr>mem_now := t\<rparr>" "t < mem_now (mw_cache w) + lease_seconds m"
  shows "fst (acquire_monitor_check_lease env m w2) = Inr False"
  using assms
  by (auto simp: acquire_monitor_check_lease_def bind_def fresh_hex_def catch_def on_cache_def mem_cache_def mem_add_def
      mem_view_def mem_put_def ret_def split: option.splits if_splits prod.splits)

text \<open>A run of the command accounts for every monitor that was due: each is checked or skipped for its
  lease, and each check is counted once by its status; a dry run leaves tables, alerts and cache as they were.\<close>

lemma check_uptime_counts:
  assumes "check_uptime env dry w = (Inr n, w')" "monitors_due_for_check env w = (Inr due, w)"
  shows "rc_checked n + rc_skipped n = length due \<and> rc_up n + rc_down n + rc_unknown n = rc_checked n
    \<and> (dry \<longrightarrow> w' = w\<lparr>mw_net := mw_net w'\<rparr>)"
proof -
  have loop: "check_loop env dry due no_counts w = (Inr n, w')" using assms by (simp add: check_uptime_def bind_def)
  have "\<exists>k. w' = w\<lparr>mw_net := k\<rparr>" if dry
  proof -
    have "\<exists>k. w = w\<lparr>mw_net := k\<rparr>" by (rule exI[of _ "mw_net w"]) simp
    from keepsD[OF keeps_dry this, of env due no_counts] loop that show ?thesis by (simp add: wp_def)
  qed
  then show ?thesis using wpD_Inr[OF wp_counts loop] by (auto simp: no_counts_def)
qed

text \<open>The five words, written out.\<close>

lemma names_policy_words:
  "names_policy reason \<longleftrightarrow> contains (lower reason) ''private'' \<or> contains (lower reason) ''local'' \<or> contains (lower reason) ''reserved''
     \<or> contains (lower reason) ''multicast'' \<or> contains (lower reason) ''unspecified''"
  by (simp add: names_policy_def policy_words_def)

lemma check_loop_append:
  assumes "check_loop env dry ms n w = (Inr k, u)"
  shows "check_loop env dry (ms @ ms') n w = check_loop env dry ms' k u"
  using assms
proof (induction ms arbitrary: n w)
  case (Cons m ms)
  then show ?case by (auto simp: bind_def split: prod.splits sum.splits if_splits)
qed (simp add: ret_def)

text \<open>C23: a server that answers a monitor with an HTTP error whose body cannot be read, such as a malformed
  chunked one, ends the run of the command for all monitors. The monitors before it in the run keep their
  observations; from then on nothing is stored: no check, no incident, no alert, for this monitor or the later
  ones, none of which is contacted. The tables stay, so the next run has the same order.\<close>

theorem failing_check_ends_run:
  assumes "monitors_due_for_check env w = (Inr (earlier @ m # later), w)"
    and "check_loop env False earlier no_counts w = (Inr n, u)"
    and "acquire_monitor_check_lease env m u = (Inr True, u1)"
    and "reaches (al_net env) m (mw_net u1) max_bytes (Http_Error r) t" "mo_method m \<noteq> ''HEAD''"
    and "\<not> (contains (lower (hr_reason r)) ''private'' \<or> contains (lower (hr_reason r)) ''local''
        \<or> contains (lower (hr_reason r)) ''reserved'' \<or> contains (lower (hr_reason r)) ''multicast''
        \<or> contains (lower (hr_reason r)) ''unspecified'')"
    and "int (length (hr_body r)) \<le> max_bytes" "hr_read r = Some (Other e)"
  shows "\<exists>v. check_uptime env False w = (Inl (Other e), v)
    \<and> v = u\<lparr>mw_fresh := mw_fresh v, mw_cache := mw_cache v, mw_net := snd (perform_check (al_net env) m (mw_net u1))\<rparr>
    \<and> scheduled v = scheduled u"
proof -
  have "fst (perform_check (al_net env) m (mw_net u1)) = Inl (Other e)"
    by (rule unread_error_raises[OF assms(4) _ assms(5,7,8)]) (use assms(6) in \<open>simp add: names_policy_words\<close>)
  then obtain n1 where raised: "perform_check (al_net env) m (mw_net u1) = (Inl (Other e), n1)" by (cases "perform_check (al_net env) m (mw_net u1)") simp
  have u1: "u1 = u\<lparr>mw_fresh := mw_fresh u1, mw_cache := mw_cache u1\<rparr>"
    using assms(3) by (auto simp: acquire_monitor_check_lease_def bind_def fresh_hex_def catch_def on_cache_def ret_def
        split: prod.splits sum.splits)
  let ?v = "u1\<lparr>mw_net := n1\<rparr>"
  have "check_uptime env False w = check_loop env False (m # later) n u"
    by (simp add: check_uptime_def bind_def assms(1) check_loop_append[OF assms(2)] del: check_loop.simps)
  also have "\<dots> = (Inl (Other e), ?v)" using assms(3) raised by (simp add: bind_def on_net_def)
  finally have run: "check_uptime env False w = (Inl (Other e), ?v)" .
  have "?v = u\<lparr>mw_fresh := mw_fresh ?v, mw_cache := mw_cache ?v, mw_net := n1\<rparr>" by (subst u1) simp
  moreover have "tables_of ?v = tables_of u" by (subst u1) (simp add: tables_of_def)
  ultimately show ?thesis
    using run raised by (intro exI[of _ ?v]) (simp add: scheduled_def last_checked_def checks_of_def tables_of_def)
qed

lemmas run_record = record_observation_def result_request_def on_down_def bind_def seq_def gets_def modify_def ret_def Let_def

lemma unknown_keeps_incidents:
  assumes "cr_status res = ''unknown''"
  shows "mw_incidents (snd (record_check env m res w)) = mw_incidents w"
proof -
  have "known_status ''unknown'' = ''unknown''" by code_simp
  with assms have status: "ck_status (new_check pk res now) = ''unknown''" for pk now by (simp add: new_check_def)
  have request: "\<exists>h w1. result_request env res w = (Inr h, w1) \<and> mw_incidents w1 = mw_incidents w"
    by (auto simp: result_request_def bind_def fresh_hex_def ret_def split: option.split list.split)
  have observed: "\<exists>c w2. record_observation env l res w = (Inr (c, None), w2) \<and> mw_incidents w2 = mw_incidents w" for l
    using request status by (auto simp: record_observation_def bind_def seq_def gets_def modify_def ret_def)
  show ?thesis
  proof (cases "find (\<lambda>l. mo_id l = mo_id m) (mw_monitors w)")
    case None
    then show ?thesis by (simp add: record_check_def bind_def gets_def raise_def)
  next
    case (Some l)
    obtain c w2 where "record_observation env l res w = (Inr (c, None), w2)" "mw_incidents w2 = mw_incidents w"
      using observed by blast
    with Some show ?thesis by (simp add: record_check_def announce_def bind_def seq_def gets_def ret_def)
  qed
qed

text \<open>C28: a target that answers with an HTTP error is reported as unknown exactly when the reason phrase, which
  its server chooses, contains one of the words private, local, reserved, multicast and unspecified. No such
  observation ever changes an incident, however many there are. With any other phrase the error, if its
  body can be read, is reported as down unless its status is the expected one.\<close>

theorem error_reason_hides_failure:
  assumes "reaches (al_net env) m (mw_net w) max_bytes (Http_Error r) t"
    and "words \<longleftrightarrow> contains (lower (hr_reason r)) ''private'' \<or> contains (lower (hr_reason r)) ''local''
        \<or> contains (lower (hr_reason r)) ''reserved'' \<or> contains (lower (hr_reason r)) ''multicast''
        \<or> contains (lower (hr_reason r)) ''unspecified''"
  shows "(words \<longrightarrow> (\<exists>res v. perform_check (al_net env) m (mw_net w) = (Inr res, v)
        \<and> cr_status res = ''unknown'' \<and> cr_code res = Some (hr_status r)
        \<and> (\<forall>w'. mw_incidents (snd (record_check env m res w')) = mw_incidents w')))
    \<and> (\<not> words \<longrightarrow> (\<forall>res v. perform_check (al_net env) m (mw_net w) = (Inr res, v) \<longrightarrow>
        cr_code res = Some (hr_status r)
        \<and> (cr_status res = ''down'' \<or> cr_status res = ''up'' \<and> hr_status r = mo_expected m)))"
proof (intro conjI impI allI)
  have words: "words \<longleftrightarrow> names_policy (hr_reason r)" using assms(2) by (simp add: names_policy_words)
  show "\<exists>res v. perform_check (al_net env) m (mw_net w) = (Inr res, v) \<and> cr_status res = ''unknown''
      \<and> cr_code res = Some (hr_status r) \<and> (\<forall>w'. mw_incidents (snd (record_check env m res w')) = mw_incidents w')" if words
    using policy_error_unknown[OF assms(1)] that words unknown_keeps_incidents by blast
  fix res v assume "\<not> words" and run: "perform_check (al_net env) m (mw_net w) = (Inr res, v)"
  with words have "\<not> names_policy (hr_reason r)" by simp
  from other_error_known[OF assms(1) this run]
  show "cr_code res = Some (hr_status r)"
    "cr_status res = ''down'' \<or> cr_status res = ''up'' \<and> hr_status r = mo_expected m" by auto
qed

text \<open>C20: the acknowledgement view decides on an incident it read before: when the incident recovers in
  between, the write makes it ongoing again although it has a time of resolution, and the tables no longer
  agree with the history.\<close>

theorem stale_acknowledgement_reopens:
  assumes "avail_ok w" "find (\<lambda>j. in_id j = in_id snapshot) (mw_incidents w) = Some j" "in_state j = Inc_Recovered"
  shows "\<exists>w' k. ack_write snapshot u w = (Inr (), w') \<and> List.member (mw_incidents w') k \<and> in_id k = in_id snapshot
    \<and> ongoing k \<and> in_resolved k \<noteq> None \<and> \<not> avail_ok w'"
proof -
  let ?f = "\<lambda>k. if in_id k = in_id snapshot then k\<lparr>in_state := Inc_Acknowledged, in_acked := Some (mw_now w), in_acked_by := Some u\<rparr> else k"
  let ?w = "w\<lparr>mw_incidents := map ?f (mw_incidents w)\<rparr>"
  have j: "j \<in> set (mw_incidents w)" "in_id j = in_id snapshot" using assms(2) by (auto simp: find_Some_iff)
  have resolved: "in_resolved j \<noteq> None"
    using assms(1,3) j by (auto simp: avail_ok_def tables_ok_def list_all_iff ongoing_def)
  have k: "?f j \<in> set (mw_incidents ?w)" "ongoing (?f j)" "in_resolved (?f j) \<noteq> None" "in_id (?f j) = in_id snapshot"
    using j resolved by (auto simp: ongoing_def)
  have "ack_write snapshot u w = (Inr (), ?w)"
    using j by (auto simp: ack_write_def bind_def gets_def modify_def list_ex_iff)
  moreover have "\<not> avail_ok ?w" using k by (auto simp: avail_ok_def tables_ok_def list_all_iff)
  ultimately show ?thesis using k by auto
qed

section \<open>Concrete runs\<close>

definition plain_env :: "'c cache_ops \<Rightarrow> http_reply \<Rightarrow> 'c mon_env" where
  "plain_env ops r = \<lparr>al_cache = ops, al_sha256 = (\<lambda>s. s), al_iso = show_int, al_hex = show_nat, al_saved = (\<lambda>_. True),
     al_logged = (\<lambda>_. True), al_net = one_host r\<rparr>"

definition quick_monitor :: monitor where
  "quick_monitor = plain_monitor\<lparr>mo_timeout := 60, mo_failure := 1, mo_recovery := 1\<rparr>"

definition plain_world :: "monitor list \<Rightarrow> mem mon_world" where
  "plain_world ms = \<lparr>mw_now = 0, mw_fresh = 0, mw_monitors = ms, mw_checks = [], mw_incidents = [], mw_notices = [],
     mw_mails = [], mw_hooks = [], mw_log = [], mw_cache = \<lparr>mem_now = 0, mem_entries = []\<rparr>, mw_net = start_world\<rparr>"

definition plain_env_200 :: "mem mon_env" where
  "plain_env_200 = plain_env mem_cache (plain_reply 200 ''OK'' ''all ok'' None)"

text \<open>The alert of a transition leaves the tables as they are.\<close>

lemma record_check_tables:
  assumes "find (\<lambda>l. mo_id l = mo_id m) (mw_monitors w) = Some l" "record_observation env l res w = (Inr (c, t), w1)"
  shows "tables_of (snd (record_check env m res w)) = tables_of w1"
proof -
  have "record_check env m res w = seq (announce env l t) (ret c) w1"
    using assms by (simp add: record_check_def bind_def gets_def)
  moreover have "wp (seq (announce env l t) (ret c)) (\<lambda>_. later_than w1) (\<lambda>_. later_than w1) w1"
    by (rule keepsD[OF keeps_seq[OF keeps_announce keeps_ret]]) simp
  ultimately show ?thesis by (auto simp: wp_def later_than_def split: prod.splits sum.splits)
qed

definition down_result :: check_result where
  "down_result = \<lparr>cr_status = ''down'', cr_code = None, cr_ms = None, cr_error = [], cr_assertions = [], cr_request = Some ''r1''\<rparr>"

lemma quick_thresholds: "mo_id quick_monitor = 1" "threshold (mo_failure quick_monitor) = 1" "threshold (mo_recovery quick_monitor) = 1"
  by (simp_all add: quick_monitor_def plain_monitor_def threshold_def)

lemma down_known: "known_status ''down'' = ''down''"
  by code_simp

lemma quick_observed:
  "\<exists>t. record_observation env quick_monitor down_result (plain_world [quick_monitor]) =
     (Inr (new_check 1 down_result 0, t), (plain_world [quick_monitor])\<lparr>mw_fresh := 1, mw_checks := [new_check 1 down_result 0],
        mw_incidents := [opened_row 0 1 ''r1'' [new_check 1 down_result 0] [new_check 1 down_result 0] (new_check 1 down_result 0)]\<rparr>)"
  by (simp add: run_record plain_world_def down_result_def down_known quick_thresholds new_check_def streak_def checks_of_def
      open_incident_def)

lemma quick_tables:
  assumes "w' = snd (record_check env quick_monitor down_result (plain_world [quick_monitor]))"
  shows "mw_monitors w' = [quick_monitor]" "history_of quick_monitor w' = [''down'']"
proof -
  obtain t w1 where run: "record_observation env quick_monitor down_result (plain_world [quick_monitor]) = (Inr (new_check 1 down_result 0, t), w1)"
    and w1: "w1 = (plain_world [quick_monitor])\<lparr>mw_fresh := 1, mw_checks := [new_check 1 down_result 0],
        mw_incidents := [opened_row 0 1 ''r1'' [new_check 1 down_result 0] [new_check 1 down_result 0] (new_check 1 down_result 0)]\<rparr>"
    using quick_observed by blast
  have "tables_of w' = tables_of w1" unfolding assms
    by (rule record_check_tables[OF _ run]) (simp add: plain_world_def)
  note sel = tables_of_sel[OF this]
  show "mw_monitors w' = [quick_monitor]" by (simp add: sel w1 plain_world_def)
  show "history_of quick_monitor w' = [''down'']"
    by (simp add: history_of_def sel) (simp add: w1 checks_of_def quick_thresholds new_check_def down_result_def down_known)
qed

theorem incidents_follow_history_witness:
  "length (ongoing_of 1 (snd (record_check plain_env_200 quick_monitor down_result (plain_world [quick_monitor])))) = 1"
proof -
  let ?w = "plain_world [quick_monitor]" and ?w' = "snd (record_check plain_env_200 quick_monitor down_result (plain_world [quick_monitor]))"
  have "(avail_step plain_env_200)\<^sup>*\<^sup>* ?w ?w'" by (rule r_into_rtranclp, rule avail_step.observe) (rule prod.collapse[symmetric])
  moreover have "mw_checks ?w = []" "mw_incidents ?w = []" "distinct (map mo_id (mw_monitors ?w))" by (simp_all add: plain_world_def)
  moreover have "List.member (mw_monitors ?w') quick_monitor" by (simp add: quick_tables[OF refl])
  ultimately have "length (ongoing_of (mo_id quick_monitor) ?w') =
      (if last_verdict (threshold (mo_failure quick_monitor)) (threshold (mo_recovery quick_monitor)) (history_of quick_monitor ?w') then 1 else 0)"
    by (rule incidents_follow_history[THEN conjunct1])
  moreover have "last_verdict 1 1 [''down'']" by (simp add: last_verdict.simps run_length_def)
  ultimately show ?thesis by (simp add: quick_tables[OF refl] quick_thresholds)
qed

theorem lease_refuses_until_expiry_witness:
  "\<exists>w1 :: mem mon_world. acquire_monitor_check_lease plain_env_200 quick_monitor (plain_world [quick_monitor]) = (Inr True, w1)
     \<and> effective_interval_seconds quick_monitor = 60
     \<and> fst (acquire_monitor_check_lease plain_env_200 quick_monitor (w1\<lparr>mw_cache := (mw_cache w1)\<lparr>mem_now := 60\<rparr>\<rparr>)) = Inr False"
proof -
  let ?w = "plain_world [quick_monitor]"
  have lease: "lease_seconds quick_monitor = 90" by (simp add: lease_seconds_def quick_monitor_def)
  have cache: "al_cache plain_env_200 = mem_cache" by (simp add: plain_env_200_def plain_env_def)
  obtain w1 where w1: "acquire_monitor_check_lease plain_env_200 quick_monitor ?w = (Inr True, w1)"
    by (simp add: acquire_monitor_check_lease_def bind_def fresh_hex_def catch_def on_cache_def cache mem_cache_def mem_add_def
        mem_view_def plain_world_def)
  have "(60::int) < mem_now (mw_cache ?w) + lease_seconds quick_monitor" by (simp add: lease plain_world_def)
  from lease_refuses_until_expiry[OF cache w1 _ this, of "w1\<lparr>mw_cache := (mw_cache w1)\<lparr>mem_now := 60\<rparr>\<rparr>"]
  have "fst (acquire_monitor_check_lease plain_env_200 quick_monitor (w1\<lparr>mw_cache := (mw_cache w1)\<lparr>mem_now := 60\<rparr>\<rparr>)) = Inr False"
    by simp
  moreover have "effective_interval_seconds quick_monitor = 60"
    by (simp add: effective_interval_seconds_def quick_monitor_def plain_monitor_def)
  ultimately show ?thesis using w1 by blast
qed

lemma plain_lease:
  assumes "al_cache env = mem_cache"
  shows "\<exists>w1. acquire_monitor_check_lease env m (plain_world ms) = (Inr True, w1) \<and> mw_net w1 = start_world"
  using assms by (simp add: acquire_monitor_check_lease_def bind_def fresh_hex_def catch_def on_cache_def mem_cache_def mem_add_def
      mem_view_def plain_world_def)

lemma plain_due:
  "monitors_due_for_check (plain_env mem_cache r) (plain_world [plain_monitor])
     = (Inr ([] @ plain_monitor # []), plain_world [plain_monitor])"
proof -
  have limit: "max_checks_per_run [] = Inr 100" "cfg_int [] ''AVAILABILITY_MAX_SCHEDULER_SCAN'' (max 100 1000) 100 (Some 50000) = Inr 1000"
    by code_simp+
  have settings: "al_settings (plain_env mem_cache r) = []" by (simp add: plain_env_def al_settings_def)
  have "scheduled (plain_world [plain_monitor]) = [plain_monitor]" "is_due (plain_world [plain_monitor]) plain_monitor"
    by (simp_all add: scheduled_def is_due_def last_checked_def checks_of_def plain_world_def plain_monitor_def)
  with limit settings show ?thesis by (simp add: monitors_due_for_check_def bind_def lift_def gets_def)
qed

theorem failing_check_ends_run_witness:
  "\<exists>v. check_uptime (plain_env mem_cache (plain_reply 404 ''Not Found'' [] (Some (Other ''IncompleteRead'')))) False
      (plain_world [plain_monitor]) = (Inl (Other ''IncompleteRead''), v) \<and> mw_checks v = []"
proof -
  let ?r = "plain_reply 404 ''Not Found'' [] (Some (Other ''IncompleteRead''))"
  let ?env = "plain_env mem_cache ?r" and ?w = "plain_world [plain_monitor]"
  have net: "al_net ?env = one_host ?r" and cache: "al_cache ?env = mem_cache" by (simp_all add: plain_env_def)
  have due: "monitors_due_for_check ?env ?w = (Inr ([] @ plain_monitor # []), ?w)" by (rule plain_due)
  from plain_lease[OF cache] obtain u1 where u1: "acquire_monitor_check_lease ?env plain_monitor ?w = (Inr True, u1)" by blast
  have "\<not> List.member redirect_codes (hr_status ?r)" "\<not> (200 \<le> hr_status ?r \<and> hr_status ?r < 300)"
    by (simp_all add: plain_reply_def redirect_codes_def)
  with one_host_reaches[of ?r "mw_net u1"] obtain t where t: "reaches (al_net ?env) plain_monitor (mw_net u1) 262144 (Http_Error ?r) t"
    unfolding net by auto
  have words: "\<not> (contains (lower (hr_reason ?r)) ''private'' \<or> contains (lower (hr_reason ?r)) ''local''
        \<or> contains (lower (hr_reason ?r)) ''reserved'' \<or> contains (lower (hr_reason ?r)) ''multicast''
        \<or> contains (lower (hr_reason ?r)) ''unspecified'')"
    unfolding plain_reply_def http_reply.simps by code_simp
  have start: "check_loop ?env False [] no_counts ?w = (Inr no_counts, ?w)" by (simp add: ret_def)
  from failing_check_ends_run[OF due start u1 t _ words] obtain v where
    v: "check_uptime ?env False ?w = (Inl (Other ''IncompleteRead''), v)"
      "v = ?w\<lparr>mw_fresh := mw_fresh v, mw_cache := mw_cache v, mw_net := snd (perform_check (al_net ?env) plain_monitor (mw_net u1))\<rparr>"
    by (auto simp: plain_reply_def plain_monitor_def)
  have "mw_checks v = []" by (subst v(2)) (simp add: plain_world_def)
  with v(1) show ?thesis by blast
qed

theorem error_reason_hides_failure_witness:
  "\<exists>res v. perform_check (one_host (plain_reply 503 ''Local overload'' [] None)) plain_monitor start_world = (Inr res, v)
     \<and> cr_status res = ''unknown'' \<and> cr_code res = Some 503"
proof -
  let ?r = "plain_reply 503 ''Local overload'' [] None"
  let ?env = "plain_env mem_cache ?r"
  have net: "al_net ?env = one_host ?r" "mw_net (plain_world []) = start_world" by (simp_all add: plain_env_def plain_world_def)
  have "\<not> List.member redirect_codes (hr_status ?r)" "\<not> (200 \<le> hr_status ?r \<and> hr_status ?r < 300)"
    by (simp_all add: plain_reply_def redirect_codes_def)
  with one_host_reaches[of ?r start_world] obtain t
    where t: "reaches (al_net ?env) plain_monitor (mw_net (plain_world [])) 262144 (Http_Error ?r) t" unfolding net by auto
  have "contains (lower (hr_reason ?r)) ''local''" unfolding plain_reply_def http_reply.simps by code_simp
  with error_reason_hides_failure[OF t refl] show ?thesis unfolding net by (auto simp: plain_reply_def)
qed

text \<open>An incident of one failed check, recovered by one healthy check.\<close>

definition quick_incident :: incident where
  "quick_incident = opened_row 0 1 ''r1'' [new_check 1 down_result 0] [] (new_check 1 down_result 0)"

definition up_check :: check_row where
  "up_check = new_check 1 (down_result\<lparr>cr_status := ''up''\<rparr>) 1"

definition recovered_world :: "mem mon_world" where
  "recovered_world = (plain_world [quick_monitor])\<lparr>mw_now := 2, mw_fresh := 1,
     mw_checks := [up_check, new_check 1 down_result 0],
     mw_incidents := [recovered_row quick_incident ''r2'' [up_check] up_check]\<rparr>"

lemma recovered_world_ok: "avail_ok recovered_world"
proof -
  have "known_status ''up'' = ''up''" by code_simp
  then have up: "ck_status up_check = ''up''" "ck_monitor up_check = 1" "ck_at up_check = 1"
    by (simp_all add: up_check_def new_check_def down_result_def)
  have id: "in_id quick_incident = 0" "in_monitor quick_incident = 1" by (simp_all add: quick_incident_def)
  have "tables_ok recovered_world"
    by (simp add: tables_ok_def recovered_world_def plain_world_def up new_check_def id)
  moreover have "history_of quick_monitor recovered_world = [''up'', ''down'']"
    by (simp add: history_of_def checks_of_def recovered_world_def plain_world_def quick_thresholds up new_check_def
        down_result_def down_known)
  moreover have "ongoing_of 1 recovered_world = []" by (simp add: ongoing_of_def recovered_world_def)
  moreover have "\<not> last_verdict 1 1 [''up'', ''down'']" by (simp add: last_verdict.simps run_length_def)
  ultimately show ?thesis
    by (simp add: avail_ok_def tracked_def quick_thresholds) (simp add: recovered_world_def plain_world_def tracked_def quick_thresholds)
qed

theorem stale_acknowledgement_reopens_witness:
  "\<exists>w' k. ack_write quick_incident 7 recovered_world = (Inr (), w') \<and> List.member (mw_incidents w') k
     \<and> ongoing k \<and> in_resolved k \<noteq> None \<and> \<not> avail_ok w'"
proof -
  let ?j = "recovered_row quick_incident ''r2'' [up_check] up_check"
  have "find (\<lambda>j. in_id j = in_id quick_incident) (mw_incidents recovered_world) = Some ?j" by (simp add: recovered_world_def)
  moreover have "in_state ?j = Inc_Recovered" by (simp add: recovered_row_def Let_def)
  ultimately show ?thesis using stale_acknowledgement_reopens[OF recovered_world_ok] by blast
qed

end
