(* ===== verification/Package_Records.thy ===== *)
theory Package_Records
  imports Config Base64 "HOL-Library.AList" "HOL-Library.List_Lexorder" "HOL-Library.Char_ord"
begin

text \<open>
  The records of a package as JSON values (\<open>packages/engine.py\<close>): the values that are exported with their
  secrets redacted, how redacted values come back, the identity keys of records and references, and the
  dependencies between the records of one package. \<open>PackageError\<close> is \<open>Other\<close> with its message. A record that
  reaches these functions was validated, so \<open>relationships\<close> and \<open>many_to_many\<close> are objects, and lists below
  the latter.
\<close>

section \<open>Exported values\<close>

definition package_error :: "string \<Rightarrow> exn" where
  "package_error msg = Other msg"

definition flat_name :: "string \<Rightarrow> string" where
  "flat_name name = filter (\<lambda>c. c \<noteq> CHR ''_'') (lower name)"

definition normalise_sensitive_names :: "string list \<Rightarrow> string list" where
  "normalise_sensitive_names names = map flat_name (filter (\<lambda>n. strip n \<noteq> []) names)"

definition is_sensitive_key :: "string \<Rightarrow> string list \<Rightarrow> bool" where
  "is_sensitive_key name sensitive \<longleftrightarrow> List.member sensitive (flat_name name)"

definition redacted :: pyval where
  "redacted = PDict [(PStr ''__paxalia_type__'', PStr ''redacted'')]"

definition encoded_bytes :: "string \<Rightarrow> pyval" where
  "encoded_bytes bs = PDict [(PStr ''__paxalia_type__'', PStr ''bytes''), (PStr ''encoding'', PStr ''base64''),
     (PStr ''value'', PStr (b64encode bs))]"

text \<open>Of the values the source converts, those of the model are here; \<open>PBytesPath\<close> stands for what JSON refuses.
  The names are normalised again in every call.\<close>

fun jsonable :: "string list \<Rightarrow> pyval \<Rightarrow> pyval res"
  and jsonable_items :: "string list \<Rightarrow> string list \<Rightarrow> (pyval \<times> pyval) list \<Rightarrow> (pyval \<times> pyval) list res"
  and jsonable_list :: "string list \<Rightarrow> pyval list \<Rightarrow> pyval list res" where
  "jsonable names PNone = Inr PNone"
| "jsonable names (PBool b) = Inr (PBool b)"
| "jsonable names (PInt i) = Inr (PInt i)"
| "jsonable names (PStr s) = Inr (PStr s)"
| "jsonable names (PFloat t r) = Inr (PFloat t r)"
| "jsonable names PInf = Inl (package_error ''A field contains a non-finite numeric value that cannot be exported safely.'')"
| "jsonable names PNaN = Inl (package_error ''A field contains a non-finite numeric value that cannot be exported safely.'')"
| "jsonable names (PPath p) = Inr (PStr p)"
| "jsonable names (PBytes bs) = Inr (encoded_bytes bs)"
| "jsonable names (PBytesPath p) = Inl (package_error ''A field contains an unsupported value type for Paxalia package export.'')"
| "jsonable names (PDict kvs) = map_sum id PDict (jsonable_items (normalise_sensitive_names names) [] kvs)"
| "jsonable names (PList xs) = map_sum id PList (jsonable_list (normalise_sensitive_names names) xs)"
| "jsonable names (PTuple xs) = map_sum id PList (jsonable_list (normalise_sensitive_names names) xs)"
| "jsonable_items names seen [] = Inr []"
| "jsonable_items names seen ((k, v) # kvs) =
     (let key = py_str k in
      if List.member seen key
      then Inl (package_error ''A mapping contains duplicate keys after JSON normalization and cannot be exported safely.'')
      else bind_res (if is_sensitive_key key names then Inr redacted else jsonable names v) (\<lambda>u.
        map_sum id (Cons (PStr key, u)) (jsonable_items names (key # seen) kvs)))"
| "jsonable_list names [] = Inr []"
| "jsonable_list names (x # xs) = bind_res (jsonable names x) (\<lambda>u. map_sum id (Cons u) (jsonable_list names xs))"

text \<open>\<open>None\<close> stands for the marker \<open>_MISSING\<close>.\<close>

fun existing_map :: "pyval option \<Rightarrow> (pyval \<times> pyval) list" where
  "existing_map (Some (PDict kvs)) = kvs"
| "existing_map v = []"

fun existing_list :: "pyval option \<Rightarrow> pyval list" where
  "existing_list (Some (PList xs)) = xs"
| "existing_list v = []"

definition nothing_to_restore :: exn where
  "nothing_to_restore = package_error ''A protected JSON value cannot be reconstructed because no existing value is available.''"

fun restore_redacted :: "pyval \<Rightarrow> pyval option \<Rightarrow> pyval res"
  and restore_items :: "(pyval \<times> pyval) list \<Rightarrow> (pyval \<times> pyval) list \<Rightarrow> (pyval \<times> pyval) list res"
  and restore_list :: "pyval list \<Rightarrow> pyval list \<Rightarrow> pyval list res" where
  "restore_redacted (PDict kvs) existing =
     (if PDict kvs = redacted
      then (case existing of None \<Rightarrow> Inl nothing_to_restore | Some v \<Rightarrow> Inr v)
      else map_sum id PDict (restore_items kvs (existing_map existing)))"
| "restore_redacted (PList xs) existing = map_sum id PList (restore_list xs (existing_list existing))"
| "restore_redacted v existing = Inr v"
| "restore_items [] prior = Inr []"
| "restore_items ((k, v) # kvs) prior =
     bind_res (restore_redacted v (map_of prior k)) (\<lambda>u. map_sum id (Cons (k, u)) (restore_items kvs prior))"
| "restore_list [] prior = Inr []"
| "restore_list (x # xs) prior =
     bind_res (restore_redacted x (case prior of [] \<Rightarrow> None | p # ps \<Rightarrow> Some p)) (\<lambda>u.
       map_sum id (Cons u) (restore_list xs (tl prior)))"

section \<open>JSON text\<close>

text \<open>\<open>json.dumps\<close> with sorted keys and without spaces; \<open>ascii\<close> is \<open>ensure_ascii\<close>. A value JSON has no text for
  is printed with \<open>default=str\<close>.\<close>

definition json_char :: "bool \<Rightarrow> char \<Rightarrow> string" where
  "json_char ascii c =
     (let n = code c in
      if n = 34 \<or> n = 92 then [CHR 0x5C, c]
      else if n = 10 then [CHR 0x5C, CHR ''n'']
      else if n = 13 then [CHR 0x5C, CHR ''r'']
      else if n = 9 then [CHR 0x5C, CHR ''t'']
      else if n = 8 then [CHR 0x5C, CHR ''b'']
      else if n = 12 then [CHR 0x5C, CHR ''f'']
      else if n < 32 \<or> ascii \<and> 127 < n
      then [CHR 0x5C, CHR ''u'', CHR ''0'', CHR ''0'', hex_digit (n div 16), hex_digit (n mod 16)]
      else [c])"

definition json_string :: "bool \<Rightarrow> string \<Rightarrow> string" where
  "json_string ascii s = CHR 0x22 # concat (map (json_char ascii) s) @ [CHR 0x22]"

fun json_text :: "bool \<Rightarrow> pyval \<Rightarrow> string" where
  "json_text ascii PNone = ''null''"
| "json_text ascii (PBool b) = (if b then ''true'' else ''false'')"
| "json_text ascii (PInt i) = show_int i"
| "json_text ascii (PFloat t r) = r"
| "json_text ascii PInf = ''Infinity''"
| "json_text ascii PNaN = ''NaN''"
| "json_text ascii (PStr s) = json_string ascii s"
| "json_text ascii (PList xs) = ''['' @ join '','' (map (json_text ascii) xs) @ '']''"
| "json_text ascii (PTuple xs) = ''['' @ join '','' (map (json_text ascii) xs) @ '']''"
| "json_text ascii (PDict kvs) =
     ''{'' @ join '','' (map (\<lambda>(k, t). json_string ascii k @ '':'' @ t)
       (sort_key fst (map (\<lambda>(k, v). (py_str k, json_text ascii v)) kvs))) @ ''}''"
| "json_text ascii v = json_string ascii (py_str v)"

section \<open>Identities and references\<close>

text \<open>\<open>record.get(name)\<close>, and what \<open>(record.get(name) or {})\<close> is for a validated record.\<close>

definition rec_get :: "pyval \<Rightarrow> string \<Rightarrow> pyval" where
  "rec_get r name = (case r of PDict kvs \<Rightarrow> (case dict_get kvs name of None \<Rightarrow> PNone | Some v \<Rightarrow> v) | _ \<Rightarrow> PNone)"

fun items_of :: "pyval \<Rightarrow> (pyval \<times> pyval) list" where
  "items_of (PDict kvs) = kvs"
| "items_of v = []"

fun elements_of :: "pyval \<Rightarrow> pyval list" where
  "elements_of (PList xs) = xs"
| "elements_of v = []"

fun is_dict :: "pyval \<Rightarrow> bool" where
  "is_dict (PDict kvs) = True"
| "is_dict v = False"

definition package_identity_key :: "pyval \<Rightarrow> string" where
  "package_identity_key identity =
     json_text True (PDict (fold (\<lambda>(k, v). AList.update (PStr (py_str k))
       (case jsonable [] v of Inr u \<Rightarrow> u | Inl e \<Rightarrow> PStr (py_str v))) (items_of identity) []))"

definition text_of :: "pyval \<Rightarrow> string" where
  "text_of v = (if truthy v then py_str v else [])"

type_synonym ref_key = "(string \<times> string) option"

definition package_reference_key :: "pyval \<Rightarrow> ref_key" where
  "package_reference_key ref =
     (if is_dict ref then Some (lower (strip (text_of (rec_get ref ''model''))), package_identity_key (rec_get ref ''identity''))
      else None)"

definition package_record_key :: "pyval \<Rightarrow> ref_key" where
  "package_record_key r =
     (if is_dict r then package_reference_key (PDict [(PStr ''model'', rec_get r ''model''), (PStr ''identity'', rec_get r ''identity'')])
      else None)"

definition record_refs :: "pyval \<Rightarrow> pyval list" where
  "record_refs r = map snd (items_of (rec_get r ''relationships''))
     @ concat (map (elements_of \<circ> snd) (items_of (rec_get r ''many_to_many'')))"

section \<open>Dependencies\<close>

definition indices_of :: "pyval list \<Rightarrow> ref_key \<Rightarrow> nat list" where
  "indices_of rs key = filter (\<lambda>i. package_record_key (rs ! i) = key) [0..<length rs]"

fun ref_dependencies :: "pyval list \<Rightarrow> nat \<Rightarrow> pyval list \<Rightarrow> nat list res" where
  "ref_dependencies rs i [] = Inr []"
| "ref_dependencies rs i (ref # refs) =
     (case indices_of rs (package_reference_key ref) of
        [] \<Rightarrow> ref_dependencies rs i refs
      | [j] \<Rightarrow> map_sum id (if j = i then id else List.insert j) (ref_dependencies rs i refs)
      | _ \<Rightarrow> Inl (package_error ''A package relationship points to an ambiguous record identity.''))"

definition dependency_indices :: "pyval list \<Rightarrow> nat list list res" where
  "dependency_indices rs = map_res (\<lambda>i. ref_dependencies rs i (record_refs (rs ! i))) [0..<length rs]"

end
