(* ===== verification/Package_Import.thy ===== *)
theory Package_Import
  imports Package_Records
begin

text \<open>
  The import of a package (\<open>packages/engine.py\<close>) after its container was read and its records validated.
  The host's models are Django's: their registration, permissions, queries, fields and transactions are
  the parameter \<open>pkg_env\<close>. Objects are references of type \<open>'o\<close>, what is known of them and of the database
  is the world \<open>'w\<close>. \<open>PackageError\<close> is \<open>Other\<close>, Django's \<open>ValidationError\<close> is \<open>ValueError\<close>.
\<close>

section \<open>The host's models\<close>

text \<open>
  \<open>pe_model\<close> is the canonical label of a model that exists, \<open>pe_resolve\<close> is \<open>_resolve_identity\<close> (through
  the user's queryset if the flag is set), \<open>pe_key\<close> the canonical identity key, \<open>pe_assign\<close>
  \<open>_assign_scalar_fields\<close>, \<open>pe_relation\<close> a field of the model: none, not a single relation, or one.
  \<open>pe_rollback\<close> gives the world after a rolled back transaction from the worlds at its start and end.
\<close>

record ('o, 'w) pkg_env =
  pe_settings :: settings
  pe_model :: "pyval \<Rightarrow> string res"
  pe_registered :: "string \<Rightarrow> bool"
  pe_permission :: "string \<Rightarrow> string \<Rightarrow> 'o option \<Rightarrow> 'w \<Rightarrow> bool"
  pe_resolve :: "bool \<Rightarrow> string \<Rightarrow> pyval \<Rightarrow> 'w \<Rightarrow> 'o option res"
  pe_key :: "string \<Rightarrow> pyval \<Rightarrow> string"
  pe_label :: "'o \<Rightarrow> string"
  pe_pk :: "'w \<Rightarrow> 'o \<Rightarrow> string"
  pe_new :: "string \<Rightarrow> ('w, 'o) io"
  pe_restores_pk :: "string \<Rightarrow> bool"
  pe_assign :: "'o \<Rightarrow> pyval \<Rightarrow> bool \<Rightarrow> ('w, unit) io"
  pe_relation :: "string \<Rightarrow> string \<Rightarrow> bool option"
  pe_set :: "'o \<Rightarrow> string \<Rightarrow> 'o option \<Rightarrow> ('w, unit) io"
  pe_save :: "'o \<Rightarrow> ('w, unit) io"
  pe_set_many :: "'o \<Rightarrow> string \<Rightarrow> 'o list \<Rightarrow> ('w, unit) io"
  pe_translate :: "'o \<Rightarrow> pyval \<Rightarrow> ('w, int) io"
  pe_commit :: "('w, unit) io"
  pe_rollback :: "'w \<Rightarrow> 'w \<Rightarrow> 'w"

type_synonym 'o cache = "(string \<times> string) \<Rightarrow> 'o option"

text \<open>\<open>transaction.atomic()\<close>.\<close>

definition p_atomic :: "('o, 'w) pkg_env \<Rightarrow> ('w, 'a) io \<Rightarrow> ('w, 'a) io" where
  "p_atomic pe m w =
     (case bind m (\<lambda>x. seq (pe_commit pe) (ret x)) w of
        (Inl e, v) \<Rightarrow> (Inl e, pe_rollback pe w v)
      | (Inr x, v) \<Rightarrow> (Inr x, v))"

section \<open>Policies\<close>

fun find_option :: "string \<Rightarrow> (pyval \<times> pyval) list \<Rightarrow> pyval" where
  "find_option label [] = PDict []"
| "find_option label ((k, v) # kvs) =
     (if lower (py_str k) = lower label then if is_dict v then v else PDict [] else find_option label kvs)"

definition model_options :: "settings \<Rightarrow> string \<Rightarrow> pyval" where
  "model_options st label = find_option label (items_of (cfg_get st ''ADMIN_MODELS'' PNone))"

definition allow_duplicate :: "settings \<Rightarrow> string \<Rightarrow> bool" where
  "allow_duplicate st label = truthy (rec_get (model_options st label) ''allow_duplicate'')"

definition allowed_conflicts :: "settings \<Rightarrow> string list" where
  "allowed_conflicts st =
     (let v = cfg_get st ''PACKAGE_ALLOWED_CONFLICTS'' PNone;
          names = (if \<not> truthy v then [''update'', ''skip''] else if is_str v then [py_str v]
                   else case v of PList xs \<Rightarrow> map py_str xs | PTuple xs \<Rightarrow> map py_str xs | PDict kvs \<Rightarrow> map (py_str \<circ> fst) kvs | _ \<Rightarrow> []);
          allowed = filter (\<lambda>n. n = ''update'' \<or> n = ''skip'') (map (lower \<circ> strip) names)
      in if allowed = [] then [''update'', ''skip''] else allowed)"

definition import_denied :: exn where
  "import_denied = PermissionDenied []"

definition check_import_models_permissions :: "('o, 'w) pkg_env \<Rightarrow> string list \<Rightarrow> pyval \<Rightarrow> ('w, unit) io" where
  "check_import_models_permissions pe models manifest =
     for_each models (\<lambda>label.
       bind (gets (pe_permission pe ''view'' label None)) (\<lambda>may.
       seq (require (pe_registered pe label \<and> may) import_denied)
           (require (\<not> (truthy (rec_get (model_options (pe_settings pe) label) ''protected'')
                \<and> truthy (cfg_get (pe_settings pe) ''PACKAGE_REQUIRE_ENCRYPTION_FOR_PROTECTED'' (PBool True))
                \<and> \<not> truthy (rec_get manifest ''encrypted'')))
              (package_error ''This protected model requires an encrypted Paxalia package.''))))"

section \<open>One record\<close>

definition reference_key :: "('o, 'w) pkg_env \<Rightarrow> pyval \<Rightarrow> ref_key" where
  "reference_key pe ref =
     (if is_dict ref then let label = lower (text_of (rec_get ref ''model''))
        in Some (label, pe_key pe label (let v = rec_get ref ''identity'' in if truthy v then v else PDict []))
      else None)"

definition record_key :: "('o, 'w) pkg_env \<Rightarrow> pyval \<Rightarrow> string \<times> string" where
  "record_key pe r = the (reference_key pe (PDict [(PStr ''model'', rec_get r ''model''), (PStr ''identity'', rec_get r ''identity'')]))"

definition ensure_reference_permission :: "('o, 'w) pkg_env \<Rightarrow> string \<Rightarrow> 'o option \<Rightarrow> ('w, unit) io" where
  "ensure_reference_permission pe label obj =
     bind (gets (\<lambda>w. pe_registered pe label \<and> pe_permission pe ''view'' label None w
         \<and> (obj = None \<or> pe_permission pe ''view'' label obj w))) (\<lambda>may. require may import_denied)"

definition resolve_reference :: "('o, 'w) pkg_env \<Rightarrow> 'o cache \<Rightarrow> pyval \<Rightarrow> ('w, 'o option) io" where
  "resolve_reference pe cache ref =
     (case reference_key pe ref of
        None \<Rightarrow> ret None
      | Some key \<Rightarrow>
          (case cache key of
             Some obj \<Rightarrow> seq (ensure_reference_permission pe (pe_label pe obj) (Some obj)) (ret (Some obj))
           | None \<Rightarrow>
               bind (lift (pe_model pe (rec_get ref ''model''))) (\<lambda>label.
               seq (ensure_reference_permission pe label None)
               (bind (gets (pe_resolve pe True label (rec_get ref ''identity''))) (\<lambda>found.
                bind (lift found) (\<lambda>related.
                seq (whenever (related \<noteq> None) (ensure_reference_permission pe label related))
                    (ret related)))))))"

datatype op_status = Created | Updated | Skipped

definition unresolved :: exn where
  "unresolved = package_error ''Relationship could not be resolved.''"

text \<open>A foreign key is resolved and set before the first save.\<close>

definition set_relation :: "('o, 'w) pkg_env \<Rightarrow> 'o cache \<Rightarrow> 'o \<Rightarrow> pyval \<times> pyval \<Rightarrow> ('w, unit) io" where
  "set_relation pe cache obj kv =
     bind (resolve_reference pe cache (snd kv)) (\<lambda>related.
     seq (require (\<not> (related = None \<and> snd kv \<noteq> PNone)) unresolved)
         (pe_set pe obj (py_str (fst kv)) related))"

definition prepare_record :: "('o, 'w) pkg_env \<Rightarrow> string \<Rightarrow> bool \<Rightarrow> 'o cache \<Rightarrow> pyval \<Rightarrow> ('w, (op_status \<times> 'o) \<times> 'o cache) io" where
  "prepare_record pe conflict duplicate cache r =
     (let label = py_str (rec_get r ''model'') in
      bind (gets (\<lambda>w. pe_registered pe label \<and> pe_permission pe ''view'' label None w)) (\<lambda>visible.
      seq (require visible import_denied)
      (bind (gets (\<lambda>w. if duplicate then Inr None else pe_resolve pe True label (rec_get r ''identity'') w)) (\<lambda>found.
       bind (lift found) (\<lambda>existing.
       if existing \<noteq> None \<and> conflict = ''skip''
       then bind (gets (pe_permission pe ''view'' label existing)) (\<lambda>may.
            seq (require may import_denied)
                (ret ((Skipped, the existing), cache(record_key pe r := existing))))
       else
       bind (gets (\<lambda>w. if existing \<noteq> None then pe_permission pe ''change'' label existing w
                       else pe_permission pe ''add'' label None w)) (\<lambda>may.
       seq (require may import_denied)
       (bind (case existing of Some obj \<Rightarrow> ret obj | None \<Rightarrow> pe_new pe label) (\<lambda>obj.
        seq (pe_assign pe obj (rec_get r ''fields'') (existing = None \<and> pe_restores_pk pe label))
        (seq (for_each (items_of (rec_get r ''relationships'')) (\<lambda>kv.
            case pe_relation pe label (py_str (fst kv)) of
              None \<Rightarrow> raise (package_error ''Relationship field is not available.'')
            | Some single \<Rightarrow> seq (require single (package_error ''Relationship field is not a supported FK/O2O field.''))
                               (set_relation pe cache obj kv)))
        (seq (catch (pe_save pe obj) (\<lambda>e. raise (package_error ''The record could not be saved safely.'')))
             (ret ((if existing \<noteq> None then Updated else Created, obj), cache))))))))))))"

fun resolve_many :: "('o, 'w) pkg_env \<Rightarrow> 'o cache \<Rightarrow> pyval list \<Rightarrow> ('w, 'o list) io" where
  "resolve_many pe cache [] = ret []"
| "resolve_many pe cache (ref # refs) =
     bind (resolve_reference pe cache ref) (\<lambda>related.
       case related of
         None \<Rightarrow> raise (package_error ''Many-to-many relationship could not be fully resolved.'')
       | Some obj \<Rightarrow> bind (resolve_many pe cache refs) (\<lambda>objs. ret (obj # objs)))"

definition apply_record_relations :: "('o, 'w) pkg_env \<Rightarrow> 'o cache \<Rightarrow> pyval \<Rightarrow> op_status \<times> 'o \<Rightarrow> ('w, int \<times> 'o cache) io" where
  "apply_record_relations pe cache r op =
     (case op of (status, obj) \<Rightarrow>
      if status = Skipped then ret (0, cache)
      else
       seq (for_each (items_of (rec_get r ''relationships'')) (set_relation pe cache obj))
       (seq (pe_save pe obj)
       (seq (for_each (items_of (rec_get r ''many_to_many'')) (\<lambda>(name, refs).
              bind (resolve_many pe cache (elements_of refs)) (pe_set_many pe obj (py_str name))))
       (bind (pe_translate pe obj (rec_get r ''translations'')) (\<lambda>n.
        ret (n, cache(record_key pe r := Some obj)))))))"

section \<open>The result\<close>

record pkg_result =
  pr_created :: int
  pr_updated :: int
  pr_skipped :: int
  pr_failed :: int
  pr_translations :: int
  pr_errors :: "(nat \<times> pyval \<times> string) list"

definition reason_text :: "exn \<Rightarrow> string" where
  "reason_text e = (case e of
      PermissionDenied m \<Rightarrow> ''You do not have permission to import this record.''
    | Other msg \<Rightarrow> msg
    | ValueError m \<Rightarrow> ''The record failed validation.''
    | _ \<Rightarrow> ''The record could not be imported safely.'')"

definition append_import_error :: "nat \<Rightarrow> pyval \<Rightarrow> exn \<Rightarrow> pkg_result \<Rightarrow> pkg_result" where
  "append_import_error i label e r =
     (let r' = r\<lparr>pr_failed := pr_failed r + 1\<rparr> in
      if 250 \<le> length (pr_errors r') then r'
      else r'\<lparr>pr_errors := pr_errors r' @ [(i, label, take 500 (reason_text e))]\<rparr>)"

definition apply_operation_counts :: "op_status \<Rightarrow> int \<Rightarrow> pkg_result \<Rightarrow> pkg_result" where
  "apply_operation_counts status n r =
     r\<lparr>pr_skipped := pr_skipped r + of_bool (status = Skipped), pr_updated := pr_updated r + of_bool (status = Updated),
       pr_created := pr_created r + of_bool (status = Created), pr_translations := pr_translations r + n\<rparr>"

end
