(* ===== verification/Package_Schedule.thy ===== *)
theory Package_Schedule
  imports Package_Import "HOL-Library.Multiset"
begin

text \<open>
  The two ways \<open>import_package\<close> goes through the records: all of them in one transaction, or each in its
  own, dependencies first. Sets of indices are ascending lists; their members are handled in that order.
\<close>

section \<open>Attempts\<close>

text \<open>\<open>_prepare_record\<close> with the arguments \<open>import_package\<close> gives it, and the entry of its object in the cache.\<close>

definition prepare_one :: "('o, 'w) pkg_env \<Rightarrow> string \<Rightarrow> bool \<Rightarrow> pyval \<Rightarrow> 'o cache \<Rightarrow> ('w, (op_status \<times> 'o) \<times> 'o cache) io" where
  "prepare_one pe conflict translations_only r cache =
     bind (prepare_record pe conflict (allow_duplicate (pe_settings pe) (py_str (rec_get r ''model'')) \<and> \<not> translations_only) cache r)
       (\<lambda>(op, cache1).
        seq (require (\<not> (translations_only \<and> fst op = Created))
              (package_error ''Translation-only packages require existing matching objects.''))
            (ret (op, cache1(record_key pe r := Some (snd op)))))"

fun prepare_all :: "('o, 'w) pkg_env \<Rightarrow> string \<Rightarrow> bool \<Rightarrow> pyval list \<Rightarrow> 'o cache \<Rightarrow> ('w, (pyval \<times> op_status \<times> 'o) list \<times> 'o cache) io" where
  "prepare_all pe conflict translations_only [] cache = ret ([], cache)"
| "prepare_all pe conflict translations_only (r # rs) cache =
     bind (prepare_one pe conflict translations_only r cache) (\<lambda>(op, cache1).
     bind (prepare_all pe conflict translations_only rs cache1) (\<lambda>(ops, cache2). ret ((r, op) # ops, cache2)))"

fun apply_all :: "('o, 'w) pkg_env \<Rightarrow> (pyval \<times> op_status \<times> 'o) list \<Rightarrow> 'o cache \<Rightarrow> ('w, (op_status \<times> int) list \<times> 'o cache) io" where
  "apply_all pe [] cache = ret ([], cache)"
| "apply_all pe ((r, op) # ops) cache =
     bind (apply_record_relations pe cache r op) (\<lambda>(n, cache1).
     bind (apply_all pe ops cache1) (\<lambda>(counts, cache2). ret ((fst op, n) # counts, cache2)))"

text \<open>A list of records in one transaction: first every object, then every relation. A single record
  and a whole atomic import are instances.\<close>

definition import_batch :: "('o, 'w) pkg_env \<Rightarrow> string \<Rightarrow> bool \<Rightarrow> pyval list \<Rightarrow> 'o cache \<Rightarrow> ('w, (op_status \<times> int) list \<times> 'o cache) io" where
  "import_batch pe conflict translations_only rs cache =
     p_atomic pe (bind (prepare_all pe conflict translations_only rs cache) (\<lambda>(ops, cache1). apply_all pe ops cache1))"

definition counted :: "(op_status \<times> int) list \<Rightarrow> pkg_result \<Rightarrow> pkg_result" where
  "counted counts r = fold (\<lambda>(status, n). apply_operation_counts status n) counts r"

section \<open>The partial import\<close>

record 'o imp =
  im_remaining :: "nat list"
  im_completed :: "nat list"
  im_failed :: "nat list"
  im_failed_objects :: "(string \<times> string) list"
  im_cache :: "'o cache"
  im_result :: pkg_result

definition dependency_error :: exn where
  "dependency_error = package_error ''This record was not imported because a package dependency failed.''"

text \<open>\<open>_append_import_error\<close>, \<open>failed.add\<close> and \<open>remaining.remove\<close>, which always go together.\<close>

definition settle_failed :: "pyval list \<Rightarrow> exn \<Rightarrow> nat \<Rightarrow> 'o imp \<Rightarrow> 'o imp" where
  "settle_failed rs e i s = s\<lparr>im_result := append_import_error i (rec_get (rs ! i) ''model'') e (im_result s),
     im_failed := im_failed s @ [i], im_remaining := filter (\<lambda>j. j \<noteq> i) (im_remaining s)\<rparr>"

definition settle_completed :: "nat \<Rightarrow> 'o imp \<Rightarrow> 'o imp" where
  "settle_completed i s = s\<lparr>im_completed := im_completed s @ [i], im_remaining := filter (\<lambda>j. j \<noteq> i) (im_remaining s)\<rparr>"

definition note_failed_object :: "('o, 'w) pkg_env \<Rightarrow> 'w \<Rightarrow> pyval \<Rightarrow> 'o imp \<Rightarrow> 'o imp" where
  "note_failed_object pe w r s =
     (let label = py_str (rec_get r ''model'') in
      case pe_resolve pe False label (rec_get r ''identity'') w of
        Inr (Some obj) \<Rightarrow> s\<lparr>im_failed_objects := List.insert (label, pe_pk pe w obj) (im_failed_objects s)\<rparr>
      | _ \<Rightarrow> s)"

definition record_depends_on_failed_record :: "pyval list \<Rightarrow> pyval \<Rightarrow> nat list \<Rightarrow> bool" where
  "record_depends_on_failed_record rs r failed \<longleftrightarrow>
     list_ex (\<lambda>f. List.member (map package_reference_key (record_refs r)) (package_record_key (rs ! f))) failed"

definition resolved_reference_object_key :: "('o, 'w) pkg_env \<Rightarrow> 'w \<Rightarrow> pyval \<Rightarrow> (string \<times> string) option" where
  "resolved_reference_object_key pe w ref =
     (if \<not> is_dict ref then None
      else case pe_model pe (rec_get ref ''model'') of
        Inl e \<Rightarrow> None
      | Inr label \<Rightarrow>
          if \<not> (pe_registered pe label \<and> pe_permission pe ''view'' label None w) then None
          else case pe_resolve pe True label (rec_get ref ''identity'') w of
            Inr (Some obj) \<Rightarrow> Some (label, pe_pk pe w obj)
          | _ \<Rightarrow> None)"

text \<open>The references of one record, with the objects resolved so far by their keys.\<close>

fun refs_blocked :: "('o, 'w) pkg_env \<Rightarrow> 'w \<Rightarrow> (string \<times> string) list \<Rightarrow> (ref_key \<times> (string \<times> string) option) list
    \<Rightarrow> pyval list \<Rightarrow> bool \<times> (ref_key \<times> (string \<times> string) option) list" where
  "refs_blocked pe w failed_objects known [] = (False, known)"
| "refs_blocked pe w failed_objects known (ref # refs) =
     (let key = reference_key pe ref;
          known1 = (case map_of known key of None \<Rightarrow> (key, resolved_reference_object_key pe w ref) # known | Some v \<Rightarrow> known);
          blocked = (case map_of known1 key of Some (Some obj) \<Rightarrow> List.member failed_objects obj | _ \<Rightarrow> False)
      in if blocked then (True, known1) else refs_blocked pe w failed_objects known1 refs)"

fun records_blocked :: "('o, 'w) pkg_env \<Rightarrow> 'w \<Rightarrow> (string \<times> string) list \<Rightarrow> (ref_key \<times> (string \<times> string) option) list
    \<Rightarrow> pyval list \<Rightarrow> nat list \<Rightarrow> nat list" where
  "records_blocked pe w failed_objects known rs [] = []"
| "records_blocked pe w failed_objects known rs (i # is) =
     (case refs_blocked pe w failed_objects known (record_refs (rs ! i)) of
        (blocked, known1) \<Rightarrow> (if blocked then [i] else []) @ records_blocked pe w failed_objects known1 rs is)"

definition failed_database_dependency_indices :: "('o, 'w) pkg_env \<Rightarrow> 'w \<Rightarrow> pyval list \<Rightarrow> 'o imp \<Rightarrow> nat list" where
  "failed_database_dependency_indices pe w rs s =
     (if im_failed_objects s = [] then [] else records_blocked pe w (im_failed_objects s) [] rs (im_remaining s))"

definition blocked_records :: "('o, 'w) pkg_env \<Rightarrow> 'w \<Rightarrow> pyval list \<Rightarrow> nat list list \<Rightarrow> 'o imp \<Rightarrow> nat list" where
  "blocked_records pe w rs deps s =
     (let database = failed_database_dependency_indices pe w rs s in
      filter (\<lambda>i. list_ex (List.member (im_failed s)) (deps ! i)
          \<or> record_depends_on_failed_record rs (rs ! i) (im_failed s) \<or> List.member database i) (im_remaining s))"

definition block_records :: "('o, 'w) pkg_env \<Rightarrow> 'w \<Rightarrow> pyval list \<Rightarrow> nat list list \<Rightarrow> 'o imp \<Rightarrow> 'o imp" where
  "block_records pe w rs deps s = fold (settle_failed rs dependency_error) (blocked_records pe w rs deps s) s"

definition ready_records :: "nat list list \<Rightarrow> 'o imp \<Rightarrow> nat list" where
  "ready_records deps s = filter (\<lambda>i. list_all (List.member (im_completed s)) (deps ! i)) (im_remaining s)"

text \<open>What an attempt to import the records \<open>is\<close> together makes of the state.\<close>

definition import_together :: "('o, 'w) pkg_env \<Rightarrow> string \<Rightarrow> bool \<Rightarrow> pyval list \<Rightarrow> nat list \<Rightarrow> 'o imp \<times> 'w \<Rightarrow> 'o imp \<times> 'w" where
  "import_together pe conflict translations_only rs is sw =
     (case sw of (s, w) \<Rightarrow>
      case import_batch pe conflict translations_only (map (nth rs) is) (im_cache s) w of
        (Inr (counts, cache), v) \<Rightarrow>
          (fold settle_completed is (s\<lparr>im_cache := cache, im_result := counted counts (im_result s)\<rparr>), v)
      | (Inl e, v) \<Rightarrow> (fold (\<lambda>i t. settle_failed rs e i (note_failed_object pe v (rs ! i) t)) is s, v))"

definition import_one :: "('o, 'w) pkg_env \<Rightarrow> string \<Rightarrow> bool \<Rightarrow> pyval list \<Rightarrow> nat \<Rightarrow> 'o imp \<times> 'w \<Rightarrow> 'o imp \<times> 'w" where
  "import_one pe conflict translations_only rs i sw =
     (case sw of (s, w) \<Rightarrow>
      if record_depends_on_failed_record rs (rs ! i) (im_failed s) then (settle_failed rs dependency_error i s, w)
      else import_together pe conflict translations_only rs [i] (s, w))"

definition import_pass :: "('o, 'w) pkg_env \<Rightarrow> string \<Rightarrow> bool \<Rightarrow> pyval list \<Rightarrow> nat list list \<Rightarrow> 'o imp \<times> 'w \<Rightarrow> 'o imp \<times> 'w" where
  "import_pass pe conflict translations_only rs deps sw =
     (case sw of (s, w) \<Rightarrow>
      let s1 = block_records pe w rs deps s in
      if im_remaining s1 = [] then (s1, w)
      else if ready_records deps s1 = []
      then import_together pe conflict translations_only rs (im_remaining s1) (s1, w)
      else fold (import_one pe conflict translations_only rs) (ready_records deps s1) (s1, w))"

section \<open>Every pass settles a record\<close>

named_theorems settle_simps

lemma settle_fields [settle_simps]:
  "im_remaining (settle_failed rs e i s) = filter (\<lambda>j. j \<noteq> i) (im_remaining s)"
  "im_remaining (settle_completed i s) = filter (\<lambda>j. j \<noteq> i) (im_remaining s)"
  "im_failed (settle_failed rs e i s) = im_failed s @ [i]"
  "im_failed (settle_completed i s) = im_failed s"
  "im_completed (settle_failed rs e i s) = im_completed s"
  "im_completed (settle_completed i s) = im_completed s @ [i]"
  "im_remaining (note_failed_object pe w r s) = im_remaining s"
  "im_failed (note_failed_object pe w r s) = im_failed s"
  "im_completed (note_failed_object pe w r s) = im_completed s"
  "im_result (note_failed_object pe w r s) = im_result s"
  "im_cache (note_failed_object pe w r s) = im_cache s"
  "im_result (settle_completed i s) = im_result s"
  "im_result (settle_failed rs e i s) = append_import_error i (rec_get (rs ! i) ''model'') e (im_result s)"
  by (simp_all add: settle_failed_def settle_completed_def note_failed_object_def Let_def split: sum.splits option.splits)

text \<open>The indices \<open>is\<close> are settled between two states: each has gone from the remaining ones to the
  completed or to the failed ones, and nothing else has moved.\<close>

definition settled :: "nat list \<Rightarrow> 'o imp \<Rightarrow> 'o imp \<Rightarrow> bool" where
  "settled is s t \<longleftrightarrow> im_remaining t = filter (\<lambda>j. j \<notin> set is) (im_remaining s)
     \<and> (\<exists>good bad. im_completed t = im_completed s @ good \<and> im_failed t = im_failed s @ bad \<and> mset good + mset bad = mset is)"

lemma settled_Nil: "settled [] s s"
  by (simp add: settled_def)

lemma settled_trans:
  assumes "settled is s t" "settled js t u"
  shows "settled (is @ js) s u"
proof -
  from assms obtain g b g' b' where
    "im_completed t = im_completed s @ g" "im_failed t = im_failed s @ b" "mset g + mset b = mset is"
    "im_completed u = im_completed t @ g'" "im_failed u = im_failed t @ b'" "mset g' + mset b' = mset js"
    unfolding settled_def by blast
  moreover have "mset (g @ g') + mset (b @ b') = (mset g + mset b) + (mset g' + mset b')" by (simp add: ac_simps)
  ultimately have "im_completed u = im_completed s @ g @ g'" "im_failed u = im_failed s @ b @ b'"
    "mset (g @ g') + mset (b @ b') = mset (is @ js)" by simp_all
  moreover have "im_remaining u = filter (\<lambda>j. j \<notin> set (is @ js)) (im_remaining s)"
    using assms by (auto simp: settled_def intro: filter_cong)
  ultimately show ?thesis unfolding settled_def by blast
qed

lemma settled_failed: "settled [i] s (settle_failed rs e i s)"
  by (auto simp: settled_def settle_simps)

lemma settled_completed: "settled [i] s (settle_completed i s)"
  unfolding settled_def settle_simps by (rule conjI, simp) (rule exI[of _ "[i]"], simp)

lemma settled_fold:
  assumes "\<And>i t. settled [i] t (f i t)"
  shows "settled is s (fold f is s)"
proof (induction "is" arbitrary: s)
  case (Cons i "is")
  show ?case using settled_trans[OF assms Cons.IH, of i s] by simp
qed (simp add: settled_Nil)

lemma settled_block: "settled (blocked_records pe w rs deps s) s (block_records pe w rs deps s)"
  unfolding block_records_def by (rule settled_fold) (rule settled_failed)

lemma settled_together:
  "settled is s (fst (import_together pe conflict tonly rs is (s, w)))"
proof -
  have "settled is s (fold settle_completed is (s\<lparr>im_cache := c, im_result := r\<rparr>))" for c r
    using settled_fold[OF settled_completed, of "is" "s\<lparr>im_cache := c, im_result := r\<rparr>"] by (simp add: settled_def)
  moreover have "settled is s (fold (\<lambda>i t. settle_failed rs e i (note_failed_object pe v (rs ! i) t)) is s)" for e v
    by (rule settled_fold) (auto simp: settled_def settle_simps)
  ultimately show ?thesis by (auto simp: import_together_def split: sum.splits prod.splits)
qed

lemma settled_one: "settled [i] s (fst (import_one pe conflict tonly rs i (s, w)))"
  by (simp add: import_one_def settled_failed settled_together)

lemma settled_ready:
  "settled is s (fst (fold (import_one pe conflict tonly rs) is (s, w)))"
proof (induction "is" arbitrary: s w)
  case (Cons i "is")
  obtain t v where t: "import_one pe conflict tonly rs i (s, w) = (t, v)" by fastforce
  from settled_trans[OF settled_one[of i s pe conflict tonly rs w, unfolded t fst_conv] Cons.IH[of t v]] t
  show ?case by simp
qed (simp add: settled_Nil)

lemma filter_shorter: "x \<in> set xs \<Longrightarrow> \<not> P x \<Longrightarrow> length (filter P xs) < length xs"
  by (simp add: length_filter_less)

text \<open>The records a pass settles: those that are blocked, and the ready ones or all that are left.\<close>

lemma pass_settles:
  "\<exists>is. settled is s (fst (import_pass pe conflict tonly rs deps (s, w))) \<and> set is \<subseteq> set (im_remaining s)
     \<and> (im_remaining s \<noteq> [] \<longrightarrow> is \<noteq> []) \<and> (distinct (im_remaining s) \<longrightarrow> distinct is)"
proof -
  let ?b = "blocked_records pe w rs deps s" and ?s = "block_records pe w rs deps s"
  have b: "settled ?b s ?s" by (rule settled_block)
  then have rem: "im_remaining ?s = filter (\<lambda>j. j \<notin> set ?b) (im_remaining s)" by (simp add: settled_def)
  have sub: "set ?b \<subseteq> set (im_remaining s)" "distinct (im_remaining s) \<longrightarrow> distinct ?b"
    by (auto simp: blocked_records_def Let_def)
  have joined: ?thesis if "settled is ?s (fst (import_pass pe conflict tonly rs deps (s, w)))" "set is \<subseteq> set (im_remaining ?s)"
      "is \<noteq> [] \<or> im_remaining ?s = []" "distinct (im_remaining ?s) \<longrightarrow> distinct is" for "is"
  proof (intro exI conjI)
    show "settled (?b @ is) s (fst (import_pass pe conflict tonly rs deps (s, w)))" by (rule settled_trans[OF b that(1)])
    show "set (?b @ is) \<subseteq> set (im_remaining s)" using that(2) sub(1) rem by auto
    show "im_remaining s \<noteq> [] \<longrightarrow> ?b @ is \<noteq> []" using that(3) rem by auto
    show "distinct (im_remaining s) \<longrightarrow> distinct (?b @ is)" using that(2,4) sub(2) rem by auto
  qed
  consider "im_remaining ?s = []" | "im_remaining ?s \<noteq> []" "ready_records deps ?s = []"
    | "im_remaining ?s \<noteq> []" "ready_records deps ?s \<noteq> []" by blast
  then show ?thesis
  proof cases
    case 1 then show ?thesis using joined[of "[]"] by (simp add: import_pass_def Let_def settled_Nil)
  next
    case 2 then show ?thesis using joined[of "im_remaining ?s"] by (simp add: import_pass_def Let_def settled_together)
  next
    case 3
    moreover have "set (ready_records deps ?s) \<subseteq> set (im_remaining ?s)" "distinct (im_remaining ?s) \<longrightarrow> distinct (ready_records deps ?s)"
      by (auto simp: ready_records_def)
    ultimately show ?thesis using joined[of "ready_records deps ?s"] by (simp add: import_pass_def Let_def settled_ready)
  qed
qed

lemma pass_shrinks:
  assumes "im_remaining s \<noteq> []"
  shows "length (im_remaining (fst (import_pass pe conflict tonly rs deps (s, w)))) < length (im_remaining s)"
proof -
  obtain "is" where "settled is s (fst (import_pass pe conflict tonly rs deps (s, w)))" "set is \<subseteq> set (im_remaining s)" "is \<noteq> []"
    using pass_settles[of s pe conflict tonly rs deps w] assms by (elim exE conjE) simp
  then obtain i where "i \<in> set is" "i \<in> set (im_remaining s)"
    "im_remaining (fst (import_pass pe conflict tonly rs deps (s, w))) = filter (\<lambda>j. j \<notin> set is) (im_remaining s)"
    by (cases "is") (auto simp: settled_def)
  then show ?thesis by (simp add: filter_shorter)
qed

function import_loop :: "('o, 'w) pkg_env \<Rightarrow> string \<Rightarrow> bool \<Rightarrow> pyval list \<Rightarrow> nat list list \<Rightarrow> 'o imp \<times> 'w \<Rightarrow> 'o imp \<times> 'w" where
  "import_loop pe conflict translations_only rs deps sw =
     (if im_remaining (fst sw) = [] then sw
      else import_loop pe conflict translations_only rs deps (import_pass pe conflict translations_only rs deps sw))"
  by pat_completeness auto
termination
proof (relation "measure (\<lambda>(_, _, _, _, _, sw). length (im_remaining (fst sw)))")
  fix pe :: "('o, 'w) pkg_env" and conflict tonly rs deps and sw :: "'o imp \<times> 'w"
  assume "im_remaining (fst sw) \<noteq> []"
  then show "((pe, conflict, tonly, rs, deps, import_pass pe conflict tonly rs deps sw), pe, conflict, tonly, rs, deps, sw)
      \<in> measure (\<lambda>(_, _, _, _, _, sw). length (im_remaining (fst sw)))"
    using pass_shrinks[of "fst sw" pe conflict tonly rs deps "snd sw"] by simp
qed simp

declare import_loop.simps [simp del]

end
