(* ===== verification/Package_Run.thy ===== *)
theory Package_Run
  imports Package_Schedule
begin

text \<open>
  \<open>import_package\<close> with its preview and its two modes, the counts it reports, and the payload of the retry
  package (\<open>packages/engine.py\<close>). The container is read and validated before: manifest, payload and the labels
  of the models are arguments.
\<close>

section \<open>The import\<close>

definition new_result :: "int \<Rightarrow> pkg_result" where
  "new_result translations = \<lparr>pr_created = 0, pr_updated = 0, pr_skipped = 0, pr_failed = 0, pr_translations = translations,
     pr_errors = []\<rparr>"

definition start :: "pyval list \<Rightarrow> int \<Rightarrow> 'o imp" where
  "start rs translations = \<lparr>im_remaining = [0..<length rs], im_completed = [], im_failed = [], im_failed_objects = [],
     im_cache = (\<lambda>_. None), im_result = new_result translations\<rparr>"

definition payload_records :: "pyval \<Rightarrow> pyval list" where
  "payload_records payload = elements_of (rec_get payload ''records'')"

definition stated_count :: "pyval \<Rightarrow> string \<Rightarrow> int res" where
  "stated_count payload name = (let v = rec_get payload name in if truthy v then py_int v else Inr 0)"

definition preview_record :: "('o, 'w) pkg_env \<Rightarrow> string \<Rightarrow> bool \<Rightarrow> 'w \<Rightarrow> nat \<times> pyval \<Rightarrow> pkg_result \<Rightarrow> pkg_result" where
  "preview_record pe conflict translations_only w ir r =
     (let label = py_str (rec_get (snd ir) ''model''); may = (\<lambda>action obj. pe_registered pe label \<and> pe_permission pe action label obj w);
          refuse = (\<lambda>e. append_import_error (fst ir) (rec_get (snd ir) ''model'') e r) in
      case (if allow_duplicate (pe_settings pe) label \<and> \<not> translations_only then Inr None
            else pe_resolve pe (pe_registered pe label) label (rec_get (snd ir) ''identity'') w) of
        Inl e \<Rightarrow> refuse e
      | Inr None \<Rightarrow>
          if translations_only then refuse (package_error ''Translation-only packages require an existing matching object.'')
          else if \<not> may ''add'' None then refuse import_denied else apply_operation_counts Created 0 r
      | Inr (Some obj) \<Rightarrow>
          if \<not> may (if conflict = ''skip'' then ''view'' else ''change'') (Some obj) then refuse import_denied
          else apply_operation_counts (if conflict = ''skip'' then Skipped else Updated) 0 r)"

definition admitted :: "('o, 'w) pkg_env \<Rightarrow> string list \<Rightarrow> pyval \<Rightarrow> string \<Rightarrow> ('w, unit) io" where
  "admitted pe models manifest conflict =
     seq (require (List.member (allowed_conflicts (pe_settings pe)) conflict)
           (package_error ''Unsupported import conflict strategy.''))
         (check_import_models_permissions pe models manifest)"

definition preview_package :: "('o, 'w) pkg_env \<Rightarrow> string list \<Rightarrow> pyval \<Rightarrow> pyval \<Rightarrow> string \<Rightarrow> ('w, pkg_result) io" where
  "preview_package pe models manifest payload conflict =
     seq (admitted pe models manifest conflict)
      (bind (lift (stated_count payload ''translation_count'')) (\<lambda>n.
       gets (\<lambda>w. fold (preview_record pe conflict (truthy (rec_get payload ''translations_only'')) w)
         (enumerate 0 (payload_records payload)) (new_result n))))"

definition import_atomic :: "('o, 'w) pkg_env \<Rightarrow> string \<Rightarrow> bool \<Rightarrow> pyval list \<Rightarrow> int \<Rightarrow> ('w, pkg_result) io" where
  "import_atomic pe conflict translations_only rs n =
     bind (catch (import_batch pe conflict translations_only rs (\<lambda>_. None))
            (\<lambda>e. case e of PermissionDenied m \<Rightarrow> raise e | Other m \<Rightarrow> raise e
               | _ \<Rightarrow> raise (package_error ''Paxalia import failed safely.'')))
       (\<lambda>(counts, cache). ret (counted counts (new_result n)))"

definition import_partial :: "('o, 'w) pkg_env \<Rightarrow> string \<Rightarrow> bool \<Rightarrow> pyval list \<Rightarrow> int \<Rightarrow> ('w, pkg_result) io" where
  "import_partial pe conflict translations_only rs n =
     bind (lift (dependency_indices rs)) (\<lambda>deps w.
       case import_loop pe conflict translations_only rs deps (start rs n, w) of (s, v) \<Rightarrow> (Inr (im_result s), v))"

definition import_package :: "('o, 'w) pkg_env \<Rightarrow> string list \<Rightarrow> pyval \<Rightarrow> pyval \<Rightarrow> string \<Rightarrow> bool \<Rightarrow> bool \<Rightarrow> ('w, pkg_result) io" where
  "import_package pe models manifest payload conflict atomic dry_run =
     seq (admitted pe models manifest conflict)
      (if dry_run then preview_package pe models manifest payload conflict
       else bind (lift (stated_count payload ''translation_count'')) (\<lambda>n.
         (if atomic then import_atomic else import_partial) pe conflict (truthy (rec_get payload ''translations_only''))
           (payload_records payload) n))"

section \<open>The retry package\<close>

definition dict_put :: "string \<Rightarrow> pyval \<Rightarrow> pyval \<Rightarrow> pyval" where
  "dict_put name v d = PDict (AList.update (PStr name) v (items_of d))"

definition relationship_count :: "pyval list \<Rightarrow> nat" where
  "relationship_count rs = sum_list (map (\<lambda>r. length (items_of (rec_get r ''relationships''))
     + sum_list (map (length \<circ> elements_of \<circ> snd) (items_of (rec_get r ''many_to_many'')))) rs)"

definition count_label :: "pyval list \<Rightarrow> pyval \<Rightarrow> nat" where
  "count_label rs label = length (filter (\<lambda>r. rec_get r ''model'' = label) rs)"

definition failed_records :: "pyval \<Rightarrow> pkg_result \<Rightarrow> pyval list" where
  "failed_records payload r =
     map snd (filter (\<lambda>(i, _). List.member (map fst (pr_errors r)) i) (enumerate 0 (payload_records payload)))"

definition retry_payload :: "pyval \<Rightarrow> pkg_result \<Rightarrow> string \<Rightarrow> pyval option" where
  "retry_payload payload r source_id =
     (let rs = failed_records payload r in
      if rs = [] then None
      else
       let models = map (\<lambda>md. dict_put ''record_count'' (PInt (int (count_label rs (rec_get md ''label'')))) md)
             (filter (\<lambda>md. 0 < count_label rs (rec_get md ''label'')) (elements_of (rec_get payload ''models'')));
           p = dict_put ''translation_count'' (PInt (int (sum_list (map (\<lambda>r. length (items_of (rec_get r ''translations''))) rs))))
               (dict_put ''models'' (PList models)
               (dict_put ''relationship_count'' (PInt (int (relationship_count rs)))
               (dict_put ''record_count'' (PInt (int (length rs))) (dict_put ''records'' (PList rs) payload))))
       in Some (if source_id \<noteq> [] then dict_put ''retry_of'' (PStr source_id) p else p))"

section \<open>What is reported\<close>

text \<open>The report agrees with the state: every failure is counted, the first 250 are listed.\<close>

definition reported :: "'o imp \<Rightarrow> bool" where
  "reported s \<longleftrightarrow> map fst (pr_errors (im_result s)) = take 250 (im_failed s)
     \<and> pr_failed (im_result s) = int (length (im_failed s))
     \<and> pr_created (im_result s) + pr_updated (im_result s) + pr_skipped (im_result s) = int (length (im_completed s))"

lemma reported_length: "reported s \<Longrightarrow> length (pr_errors (im_result s)) = min (length (im_failed s)) 250"
  unfolding reported_def by (metis length_map length_take)

lemma reported_failed: "reported s \<Longrightarrow> reported (settle_failed rs e i s)"
  using reported_length[of s]
  by (auto simp: reported_def settle_simps append_import_error_def Let_def)

lemma reported_noted: "reported (note_failed_object pe v r s) = reported s"
  by (simp add: reported_def settle_simps)

lemma reported_fold:
  assumes "\<And>i t. reported t \<Longrightarrow> reported (f i t)"
  shows "reported s \<Longrightarrow> reported (fold f is s)"
  by (induction "is" arbitrary: s) (auto intro: assms)

lemma length_prepared: "wp (prepare_all pe c t rs cache) (\<lambda>(ops, _) _. length ops = length rs) (\<lambda>_ _. True) w"
proof (induction rs arbitrary: cache w)
  case (Cons r rs)
  show ?case
    unfolding prepare_all.simps wp_bind
    by (rule wp_mono[OF wp_True]) (auto simp: wp_simps intro!: wp_mono[OF Cons.IH])
qed (simp add: wp_simps)

lemma length_applied: "wp (apply_all pe ops cache) (\<lambda>(counts, _) _. length counts = length ops) (\<lambda>_ _. True) w"
proof (induction ops arbitrary: cache w)
  case (Cons p ops)
  obtain r q where "p = (r, q)" by (cases p)
  then show ?case
    by (simp only: apply_all.simps wp_bind) (rule wp_mono[OF wp_True], auto simp: wp_simps intro!: wp_mono[OF Cons.IH])
qed (simp add: wp_simps)

lemma length_counts:
  assumes "import_batch pe c t rs cache w = (Inr (counts, cache'), v)"
  shows "length counts = length rs"
proof -
  have "wp (bind (prepare_all pe c t rs cache) (\<lambda>(ops, cache1). apply_all pe ops cache1))
      (\<lambda>(counts, _) _. length counts = length rs) (\<lambda>_ _. True) w"
    unfolding wp_bind by (rule wp_mono[OF length_prepared]) (auto intro!: wp_mono[OF length_applied])
  with assms show ?thesis
    by (auto simp: import_batch_def p_atomic_def bind_def seq_def ret_def wp_def split: prod.splits sum.splits)
qed

lemma counted_fields:
  "pr_created (counted counts r) + pr_updated (counted counts r) + pr_skipped (counted counts r)
     = pr_created r + pr_updated r + pr_skipped r + int (length counts)"
  "pr_failed (counted counts r) = pr_failed r" "pr_errors (counted counts r) = pr_errors r"
proof (induction counts arbitrary: r)
  case (Cons c counts)
  obtain st n where c: "c = (st, n)" by fastforce
  have step: "counted (c # counts) r = counted counts (apply_operation_counts st n r)" for r by (simp add: counted_def c)
  { case 1 show ?case unfolding step Cons.IH(1) by (cases st) (simp_all add: apply_operation_counts_def) }
  { case 2 show ?case unfolding step Cons.IH(2) by (simp add: apply_operation_counts_def) }
  { case 3 show ?case unfolding step Cons.IH(3) by (simp add: apply_operation_counts_def) }
qed (simp_all add: counted_def)

lemma completed_fold:
  "im_completed (fold settle_completed is s) = im_completed s @ is" "im_failed (fold settle_completed is s) = im_failed s"
  "im_result (fold settle_completed is s) = im_result s"
  by (induction "is" arbitrary: s) (simp_all add: settle_simps)

lemma reported_together:
  assumes "reported s"
  shows "reported (fst (import_together pe c t rs is (s, w)))"
proof (cases "import_batch pe c t (map (nth rs) is) (im_cache s) w")
  case (Pair res v)
  show ?thesis
  proof (cases res)
    case (Inl e)
    have "reported (fold (\<lambda>i t. settle_failed rs e i (note_failed_object pe v (rs ! i) t)) is s)"
      by (rule reported_fold[OF _ assms]) (simp add: reported_failed reported_noted)
    with Pair Inl show ?thesis by (simp add: import_together_def)
  next
    case (Inr q)
    then obtain counts cache where q: "q = (counts, cache)" by fastforce
    with Pair Inr have "length counts = length is" by (auto dest: length_counts)
    with assms Pair Inr q show ?thesis
      by (simp add: import_together_def reported_def completed_fold counted_fields)
  qed
qed

lemma reported_one: "reported s \<Longrightarrow> reported (fst (import_one pe c t rs i (s, w)))"
  by (simp add: import_one_def reported_failed reported_together)

lemma reported_ready: "reported s \<Longrightarrow> reported (fst (fold (import_one pe c t rs) is (s, w)))"
proof (induction "is" arbitrary: s w)
  case (Cons i "is")
  obtain u v where u: "import_one pe c t rs i (s, w) = (u, v)" by fastforce
  with reported_one[OF Cons.prems, of pe c t rs i w] have "reported u" by simp
  from Cons.IH[OF this, of v] u show ?case by simp
qed simp

lemma reported_pass: "reported s \<Longrightarrow> reported (fst (import_pass pe c t rs deps (s, w)))"
  using reported_fold[of "settle_failed rs dependency_error" s, OF reported_failed]
  by (simp add: import_pass_def Let_def block_records_def reported_together reported_ready)

end
