(* ===== verification/Package_Props.thy ===== *)
theory Package_Props
  imports Package_Run "HOL-Library.Sublist"
begin

text \<open>
  What is proved of package imports: every record of a partial import is settled and reported, what the
  retry package holds, when dependencies are respected and when they are not, that an import resolves
  foreign keys in archive order, and that redacted values come back.
\<close>

section \<open>The loop settles every record\<close>

lemma import_loop_rule:
  assumes "P s" "\<And>s w. P s \<Longrightarrow> im_remaining s \<noteq> [] \<Longrightarrow> P (fst (import_pass pe c t rs deps (s, w)))"
  shows "P (fst (import_loop pe c t rs deps (s, w))) \<and> im_remaining (fst (import_loop pe c t rs deps (s, w))) = []"
  using assms(1)
proof (induction "length (im_remaining s)" arbitrary: s w rule: less_induct)
  case less
  show ?case
  proof (cases "im_remaining s = []")
    case True with less.prems show ?thesis by (simp add: import_loop.simps)
  next
    case False
    obtain u v where u: "import_pass pe c t rs deps (s, w) = (u, v)" by fastforce
    have "length (im_remaining u) < length (im_remaining s)" using pass_shrinks[OF False, of pe c t rs deps w] u by simp
    from less.hyps[OF this] assms(2)[OF less.prems False, of w] u False show ?thesis
      by (simp add: import_loop.simps[of pe c t rs deps "(s, w)"])
  qed
qed

definition fully_accounted :: "nat \<Rightarrow> 'o imp \<Rightarrow> bool" where
  "fully_accounted n s \<longleftrightarrow> mset (im_remaining s) + mset (im_completed s) + mset (im_failed s) = mset [0..<n]"

lemma accounted_distinct:
  assumes "fully_accounted n s"
  shows "distinct (im_remaining s @ im_completed s @ im_failed s)"
proof -
  have "mset (im_remaining s @ im_completed s @ im_failed s) = mset [0..<n]"
    using assms by (simp add: fully_accounted_def add.assoc)
  then show ?thesis by (metis distinct_upt mset_eq_imp_distinct_iff)
qed

lemma accounted_settled:
  assumes "fully_accounted n s" "settled is s t" "distinct is" "set is \<subseteq> set (im_remaining s)"
  shows "fully_accounted n t"
proof -
  have dist: "distinct (im_remaining s)" using accounted_distinct[OF assms(1)] by simp
  have "set (filter (\<lambda>j. j \<in> set is) (im_remaining s)) = set is" using assms(4) by auto
  with dist assms(3) have "mset is = mset (filter (\<lambda>j. j \<in> set is) (im_remaining s))"
    by (subst (asm) set_eq_iff_mset_eq_distinct) simp_all
  moreover have "mset (im_remaining s) = mset (filter (\<lambda>j. j \<in> set is) (im_remaining s)) + mset (filter (\<lambda>j. j \<notin> set is) (im_remaining s))"
    unfolding mset_filter by (rule multiset_partition)
  ultimately have split: "mset (im_remaining s) = mset is + mset (im_remaining t)"
    using assms(2) by (simp only: settled_def)
  obtain good bad where moved: "im_completed t = im_completed s @ good" "im_failed t = im_failed s @ bad" "mset good + mset bad = mset is"
    using assms(2) unfolding settled_def by blast
  have "mset (im_remaining t) + mset (im_completed t) + mset (im_failed t)
      = (mset good + mset bad + mset (im_remaining t)) + mset (im_completed s) + mset (im_failed s)"
    unfolding moved(1,2) mset_append by (simp only: ac_simps)
  with assms(1) show ?thesis unfolding moved(3) fully_accounted_def split by simp
qed

lemma accounted_pass:
  assumes "fully_accounted n s"
  shows "fully_accounted n (fst (import_pass pe c t rs deps (s, w)))"
proof -
  obtain "is" where i: "settled is s (fst (import_pass pe c t rs deps (s, w)))" "set is \<subseteq> set (im_remaining s)"
      "distinct (im_remaining s) \<longrightarrow> distinct is"
    using pass_settles[of s pe c t rs deps w] by (elim exE conjE) simp
  with accounted_distinct[OF assms] show ?thesis by (auto intro: accounted_settled[OF assms i(1)])
qed

lemma start_holds: "fully_accounted (length rs) (start rs n)" "reported (start rs n)"
  by (simp_all add: fully_accounted_def start_def reported_def new_result_def)

lemma loop_outcome:
  assumes "import_loop pe c t rs deps (start rs n, w) = (s, v)"
  shows "im_remaining s = []" "fully_accounted (length rs) s" "reported s"
  using import_loop_rule[of "\<lambda>s. fully_accounted (length rs) s \<and> reported s" "start rs n" pe c t rs deps w] assms
  by (simp_all add: start_holds accounted_pass reported_pass)

lemma failed_records_nth:
  "failed_records payload r = map (nth (payload_records payload))
     (filter (\<lambda>i. i \<in> set (map fst (pr_errors r))) [0..<length (payload_records payload)])"
proof -
  have "enumerate 0 xs = map (\<lambda>i. (i, xs ! i)) [0..<length xs]" for xs :: "pyval list"
    by (rule nth_equalityI) (simp_all add: nth_enumerate_eq)
  then show ?thesis by (simp add: failed_records_def filter_map comp_def case_prod_beta)
qed

lemma retry_payload_records:
  assumes "retry_payload payload r source_id = Some p"
  shows "payload_records p = failed_records payload r"
proof -
  have get: "rec_get (dict_put name v d) ''records'' = (if name = ''records'' then v else rec_get d ''records'')" for name v d
  proof -
    have dg: "dict_get kvs k = map_of kvs (PStr k)" for kvs k by (induction kvs) auto
    show ?thesis by (cases d) (auto simp: rec_get_def dict_put_def dg update_conv')
  qed
  from assms show ?thesis
    by (auto simp: retry_payload_def Let_def payload_records_def get split: if_splits)
qed

section \<open>Dependencies\<close>


























lemma map_res_nth:
  "map_res f xs = Inr ys \<Longrightarrow> length ys = length xs \<and> (\<forall>i < length xs. f (xs ! i) = Inr (ys ! i))"
proof (induction xs arbitrary: ys)
  case (Cons x xs)
  then obtain y zs where "f x = Inr y" "map_res f xs = Inr zs" "ys = y # zs" by (auto simp: bind_res_eq_Inr)
  with Cons.IH show ?case by (auto simp: nth_Cons split: nat.splits)
qed simp

lemma indices_of_iff: "j \<in> set (indices_of rs key) \<longleftrightarrow> j < length rs \<and> package_record_key (rs ! j) = key"
  by (auto simp: indices_of_def)

lemma ref_dependencies_set:
  "ref_dependencies rs i refs = Inr ds \<Longrightarrow>
     set ds = {j. j < length rs \<and> j \<noteq> i \<and> package_record_key (rs ! j) \<in> package_reference_key ` set refs}"
proof (induction refs arbitrary: ds)
  case (Cons ref refs)
  show ?case
  proof (cases "indices_of rs (package_reference_key ref)")
    case Nil
    then have "\<not> (j < length rs \<and> package_record_key (rs ! j) = package_reference_key ref)" for j
      using indices_of_iff[of j rs "package_reference_key ref"] by simp
    with Cons.IH[of ds] Cons.prems Nil show ?thesis by auto
  next
    case one: (Cons k ks)
    with Cons.prems have ks: "ks = []" by (cases ks) auto
    then have k: "j < length rs \<and> package_record_key (rs ! j) = package_reference_key ref \<longleftrightarrow> j = k" for j
      using indices_of_iff[of j rs "package_reference_key ref"] one by auto
    obtain es where es: "ref_dependencies rs i refs = Inr es" "ds = (if k = i then es else List.insert k es)"
      using Cons.prems one ks by (cases "ref_dependencies rs i refs") auto
    show ?thesis using Cons.IH[OF es(1)] es(2) k by auto
  qed
qed simp

lemma dependency_indices_set:
  assumes "dependency_indices rs = Inr deps"
  shows "length deps = length rs" "i < length rs \<Longrightarrow>
     set (deps ! i) = {j. j < length rs \<and> j \<noteq> i \<and> package_record_key (rs ! j) \<in> package_reference_key ` set (record_refs (rs ! i))}"
  using map_res_nth[OF assms[unfolded dependency_indices_def]] by (auto dest: ref_dependencies_set)

text \<open>Compared by their keys, the failed records a record depends on are those of its dependencies.\<close>

lemma depends_on_failed_iff:
  assumes "dependency_indices rs = Inr deps" "i < length rs" "set failed \<subseteq> {..<length rs}" "i \<notin> set failed"
  shows "record_depends_on_failed_record rs (rs ! i) failed \<longleftrightarrow> set (deps ! i) \<inter> set failed \<noteq> {}"
  using dependency_indices_set(2)[OF assms(1,2)] assms(3,4)
  by (auto simp: record_depends_on_failed_record_def list_ex_iff)



section \<open>Properties of partial imports\<close>

text \<open>C5: a partial import of records whose references are unambiguous returns, after finitely many passes.
  Every record is then imported or failed, the counts say how many, the first 250 failures are listed, and
  the retry package holds exactly these, in the order of the package: if more failed, the others are lost.\<close>

theorem partial_import_settles:
  assumes "dependency_indices (payload_records payload) = Inr deps"
  shows "\<exists>r v completed failed. import_partial pe conflict tonly (payload_records payload) n w = (Inr r, v)
    \<and> mset completed + mset failed = mset [0..<length (payload_records payload)]
    \<and> pr_failed r = int (length failed) \<and> pr_created r + pr_updated r + pr_skipped r = int (length completed)
    \<and> map fst (pr_errors r) = take 250 failed
    \<and> (case retry_payload payload r source_id of
        None \<Rightarrow> failed = []
      | Some p \<Rightarrow> payload_records p = map (nth (payload_records payload))
            (filter (\<lambda>i. i \<in> set (take 250 failed)) [0..<length (payload_records payload)])
          \<and> length (payload_records p) = min 250 (length failed))"
proof -
  let ?rs = "payload_records payload"
  obtain s v where run: "import_loop pe conflict tonly ?rs deps (start ?rs n, w) = (s, v)" by fastforce
  note out = loop_outcome[OF run]
  let ?listed = "filter (\<lambda>i. i \<in> set (take 250 (im_failed s))) [0..<length ?rs]"
  have all: "mset (im_completed s) + mset (im_failed s) = mset [0..<length ?rs]"
    using out(1,2) by (simp add: fully_accounted_def)
  have dist: "distinct (im_failed s)" using accounted_distinct[OF out(2)] by simp
  have sub: "set (im_failed s) \<subseteq> {..<length ?rs}"
    using all by (metis atLeast_upt mset_append set_append set_mset_mset sup_ge2)
  have "set ?listed = set (take 250 (im_failed s))" using sub set_take_subset[of 250 "im_failed s"] by auto
  then have len: "length ?listed = min 250 (length (im_failed s))"
    using distinct_card[of ?listed] distinct_card[of "take 250 (im_failed s)"] dist by (simp add: distinct_take ac_simps)
  have retry: "failed_records payload (im_result s) = map (nth ?rs) ?listed"
    using out(3) by (simp add: failed_records_nth reported_def)
  have "case retry_payload payload (im_result s) source_id of
        None \<Rightarrow> im_failed s = []
      | Some p \<Rightarrow> payload_records p = map (nth ?rs) ?listed \<and> length (payload_records p) = min 250 (length (im_failed s))"
  proof (cases "retry_payload payload (im_result s) source_id")
    case None
    then have "length ?listed = 0" using retry by (simp add: retry_payload_def Let_def split: if_splits)
    with len None show ?thesis by (auto simp: min_def split: if_splits)
  next
    case (Some p)
    with retry_payload_records[OF Some] retry len show ?thesis by simp
  qed
  moreover have "import_partial pe conflict tonly ?rs n w = (Inr (im_result s), v)"
    using assms run by (simp add: import_partial_def bind_def lift_def)
  ultimately show ?thesis using all out(3) unfolding reported_def by blast
qed


lemma upt3: "[0..<3] = [0, 1, 2 :: nat]" by (simp add: numeral_3_eq_3)

text \<open>The run of three records, each of which refers to the one before, when the first fails.\<close>

lemma chain_run:
  fixes pe :: "('o, 'w) pkg_env"
  assumes deps: "dependency_indices rs = Inr [[], [0], [1]]"
    and first: "import_batch pe conflict tonly [rs ! 0] (\<lambda>_. None) w = (Inl e, v)"
    and absent: "pe_resolve pe False (py_str (rec_get (rs ! 0) ''model'')) (rec_get (rs ! 0) ''identity'') v = Inr None"
    and third: "import_batch pe conflict tonly [rs ! 2] (\<lambda>_. None) v = (Inr (counts, cache), v')"
  shows "\<exists>s. import_loop pe conflict tonly rs [[], [0], [1]] (start rs n, w) = (s, v')
    \<and> im_failed s = [0, 1] \<and> im_completed s = [2]"
proof -
  have len: "length rs = 3" using dependency_indices_set(1)[OF deps] by simp
  define ds :: "nat list list" where "ds = [[], [0], [1]]"
  have d: "ds ! 0 = []" "ds ! Suc 0 = [0]" "ds ! 2 = [Suc 0]" by (simp_all add: ds_def)
  note depends = depends_on_failed_iff[OF deps[folded ds_def], unfolded len]
  have nofail: "record_depends_on_failed_record rs r [] = False" for r by (simp add: record_depends_on_failed_record_def)
  let ?s = "start rs n :: 'o imp" and ?loop = "import_loop pe conflict tonly rs ds" and ?pass = "import_pass pe conflict tonly rs ds"
  have s: "im_remaining ?s = [0, Suc 0, 2]" "im_completed ?s = []" "im_failed ?s = []" "im_failed_objects ?s = []" "im_cache ?s = (\<lambda>_. None)"
    by (simp_all add: start_def len upt3)
  let ?t = "settle_failed rs e 0 ?s"
  have blocked1: "blocked_records pe w rs ds ?s = []"
    by (simp add: blocked_records_def Let_def s d nofail failed_database_dependency_indices_def)
  have noted: "note_failed_object pe v (rs ! 0) ?s = ?s" by (simp add: note_failed_object_def absent)
  have pass1: "?pass (?s, w) = (?t, v)"
    by (simp add: import_pass_def Let_def block_records_def blocked1 s d ready_records_def import_one_def nofail import_together_def
        first noted)
  have t: "im_remaining ?t = [Suc 0, 2]" "im_completed ?t = []" "im_failed ?t = [0]" "im_failed_objects ?t = []" "im_cache ?t = (\<lambda>_. None)"
    by (simp_all add: settle_simps s) (simp_all add: settle_failed_def s)
  have blocked2: "blocked_records pe v rs ds ?t = [Suc 0]"
    using depends[of "Suc 0" "[0]"] depends[of 2 "[0]"]
    by (simp add: blocked_records_def Let_def t d failed_database_dependency_indices_def)
  let ?u = "settle_failed rs dependency_error (Suc 0) ?t"
  have u: "im_remaining ?u = [2]" "im_completed ?u = []" "im_failed ?u = [0, Suc 0]" "im_cache ?u = (\<lambda>_. None)"
    by (simp_all add: settle_simps t s) (simp add: settle_failed_def s)
  let ?f = "settle_completed 2 (?u\<lparr>im_cache := cache, im_result := counted counts (im_result ?u)\<rparr>)"
  have pass2: "?pass (?t, v) = (?f, v')"
    by (simp add: import_pass_def Let_def block_records_def blocked2 u d ready_records_def import_together_def third)
  have f: "im_remaining ?f = []" "im_failed ?f = [0, 1]" "im_completed ?f = [2]" by (simp_all add: settle_simps s)
  have "?loop (?s, w) = ?loop (?pass (?s, w))" by (subst import_loop.simps) (simp add: s)
  also have "\<dots> = ?loop (?pass (?t, v))" unfolding pass1 by (subst import_loop.simps) (simp add: t)
  also have "\<dots> = (?f, v')" unfolding pass2 by (subst import_loop.simps) (simp add: f)
  finally show ?thesis using f unfolding ds_def by blast
qed

text \<open>C11: of three records, each of which refers to the one before, the first fails. The second is refused for
  it, and the third is then imported although the record it refers to is not: the records that are left
  when none is ready are taken for a cycle.\<close>

theorem refused_dependency_then_imported:
  fixes pe :: "('o, 'w) pkg_env"
  assumes deps: "dependency_indices rs = Inr [[], [0], [1]]"
    and first: "import_batch pe conflict tonly [rs ! 0] (\<lambda>_. None) w = (Inl e, v)"
    and absent: "pe_resolve pe False (py_str (rec_get (rs ! 0) ''model'')) (rec_get (rs ! 0) ''identity'') v = Inr None"
    and third: "import_batch pe conflict tonly [rs ! 2] (\<lambda>_. None) v = (Inr (counts, cache), v')"
  shows "\<exists>s. import_loop pe conflict tonly rs [[], [0], [1]] (start rs n, w) = (s, v')
    \<and> im_failed s = [0, 1] \<and> im_completed s = [2]"
  using assms by (rule chain_run)

section \<open>References are resolved in the order of the archive\<close>

lemma show_nat_inj: "show_nat m = show_nat n \<Longrightarrow> m = n"
proof (induction m arbitrary: n rule: less_induct)
  case (less m)
  have short: "length (show_nat k) = 1 \<longleftrightarrow> k < 10" for k
    by (subst show_nat.simps) (use show_nat.simps[of "k div 10"] in auto)
  show ?case
  proof (cases "m < 10")
    case True
    with short[of m] short[of n] less.prems have "n < 10" by simp
    with True less.prems show ?thesis by (simp add: show_nat.simps[of m] show_nat.simps[of n])
  next
    case False
    with short[of m] short[of n] less.prems have "\<not> n < 10" by simp
    with False less.prems less.IH[of "m div 10" "n div 10"] show ?thesis
      by (simp add: show_nat.simps[of m] show_nat.simps[of n]) (metis div_mult_mod_eq)
  qed
qed
text \<open>A host that keeps its objects in memory: a model instance is its index in \<open>th_objects\<close>, \<open>th_rows\<close> are
  those that are saved, and a transaction that fails leaves the world as it was.\<close>

record host_object =
  ho_label :: string
  ho_fields :: "(pyval \<times> pyval) list"
  ho_links :: "(string \<times> nat option) list"

record table_world =
  th_objects :: "host_object list"
  th_rows :: "nat list"

definition matches :: "table_world \<Rightarrow> string \<Rightarrow> pyval \<Rightarrow> nat \<Rightarrow> bool" where
  "matches w label identity i \<longleftrightarrow> ho_label (th_objects w ! i) = label
     \<and> list_all (\<lambda>(k, v). dict_get (ho_fields (th_objects w ! i)) (py_str k) = Some v) (items_of identity)"

definition table_resolve :: "bool \<Rightarrow> string \<Rightarrow> pyval \<Rightarrow> table_world \<Rightarrow> nat option res" where
  "table_resolve visible label identity w =
     (if items_of identity = [] then Inr None
      else case filter (matches w label identity) (th_rows w) of
        [] \<Rightarrow> Inr None
      | [i] \<Rightarrow> Inr (Some i)
      | _ \<Rightarrow> Inl (package_error ''Identity matches multiple existing objects and cannot be resolved safely.''))"

definition change_object :: "nat \<Rightarrow> (host_object \<Rightarrow> host_object) \<Rightarrow> (table_world, unit) io" where
  "change_object i f = modify (\<lambda>w. w\<lparr>th_objects := (th_objects w)[i := f (th_objects w ! i)]\<rparr>)"

definition table_env :: "(nat, table_world) pkg_env" where
  "table_env = \<lparr>pe_settings = [], pe_model = (\<lambda>v. Inr (text_of v)), pe_registered = (\<lambda>_. True), pe_permission = (\<lambda>_ _ _ _. True),
     pe_resolve = table_resolve, pe_key = (\<lambda>_. package_identity_key), pe_label = (\<lambda>_. []), pe_pk = (\<lambda>_. show_nat),
     pe_new = (\<lambda>label w. (Inr (length (th_objects w)),
        w\<lparr>th_objects := th_objects w @ [\<lparr>ho_label = label, ho_fields = [], ho_links = []\<rparr>]\<rparr>)),
     pe_restores_pk = (\<lambda>_. False),
     pe_assign = (\<lambda>i fields _. change_object i (\<lambda>obj. obj\<lparr>ho_fields := items_of fields\<rparr>)),
     pe_relation = (\<lambda>_ _. Some True),
     pe_set = (\<lambda>i name target. change_object i (\<lambda>obj. obj\<lparr>ho_links := AList.update name target (ho_links obj)\<rparr>)),
     pe_save = (\<lambda>i. modify (\<lambda>w. w\<lparr>th_rows := List.insert i (th_rows w)\<rparr>)), pe_set_many = (\<lambda>_ _ _. ret ()),
     pe_translate = (\<lambda>_ _. ret 0), pe_commit = ret (), pe_rollback = (\<lambda>w v. w)\<rparr>"

text \<open>The record of the object \<open>n\<close> of a model with a foreign key \<open>parent\<close> to itself.\<close>

definition id_of :: "nat \<Rightarrow> pyval" where
  "id_of n = PDict [(PStr ''id'', PInt (int n))]"

definition page :: "string \<Rightarrow> nat \<Rightarrow> nat list \<Rightarrow> pyval" where
  "page label n parents = PDict [(PStr ''model'', PStr label), (PStr ''identity'', id_of n), (PStr ''fields'', id_of n),
     (PStr ''relationships'', PDict (map (\<lambda>p. (PStr ''parent'',
        PDict [(PStr ''model'', PStr label), (PStr ''identity'', id_of p)])) parents))]"

definition page_object :: "string \<Rightarrow> nat \<Rightarrow> (string \<times> nat option) list \<Rightarrow> host_object" where
  "page_object label n links = \<lparr>ho_label = label, ho_fields = [(PStr ''id'', PInt (int n))], ho_links = links\<rparr>"

text \<open>The table has no row for \<open>n\<close>.\<close>

definition no_page :: "table_world \<Rightarrow> string \<Rightarrow> nat \<Rightarrow> bool" where
  "no_page w label n \<longleftrightarrow> (\<forall>i \<in> set (th_rows w). i < length (th_objects w)
     \<and> \<not> (ho_label (th_objects w ! i) = label \<and> dict_get (ho_fields (th_objects w ! i)) ''id'' = Some (PInt (int n))))"

lemma resolve_absent: "no_page w label n \<Longrightarrow> table_resolve b label (id_of n) w = Inr None"
  by (auto simp: table_resolve_def id_of_def matches_def no_page_def filter_empty_conv split: list.splits)

lemma identity_key_inj: "package_identity_key (id_of m) = package_identity_key (id_of n) \<Longrightarrow> m = n"
  by (auto simp: package_identity_key_def id_of_def show_int_def dest: show_nat_inj split: if_splits)

lemma page_keys:
  "rec_get (page label n ps) ''model'' = PStr label" "rec_get (page label n ps) ''identity'' = id_of n"
  "rec_get (page label n ps) ''fields'' = id_of n" "rec_get (page label n ps) ''many_to_many'' = PNone"
  "rec_get (page label n ps) ''translations'' = PNone"
  "items_of (rec_get (page label n ps) ''relationships'') = map (\<lambda>p. (PStr ''parent'',
     PDict [(PStr ''model'', PStr label), (PStr ''identity'', id_of p)])) ps"
  by (simp_all add: page_def rec_get_def)

lemma page_reference_key:
  assumes "label \<noteq> []"
  shows "reference_key table_env (PDict [(PStr ''model'', PStr label), (PStr ''identity'', id_of p)])
    = Some (lower label, package_identity_key (id_of p))"
    "record_key table_env (page label n ps) = (lower label, package_identity_key (id_of n))"
  using assms by (simp_all add: record_key_def reference_key_def page_def Let_def rec_get_def text_of_def table_env_def id_of_def)

lemma page_package_key:
  "package_record_key (page label n ps) = Some (lower (strip (text_of (PStr label))), package_identity_key (id_of n))"
  "package_reference_key (PDict [(PStr ''model'', PStr label), (PStr ''identity'', id_of p)])
    = Some (lower (strip (text_of (PStr label))), package_identity_key (id_of p))"
  by (simp_all add: package_record_key_def package_reference_key_def page_keys rec_get_def) (simp add: page_def)


lemmas run_simps = bind_def seq_def gets_def lift_def require_def raise_def ret_def modify_def catch_def whenever_def Let_def
  change_object_def

text \<open>One new page, with the relation its reference resolves to.\<close>

definition added :: "string \<Rightarrow> nat \<Rightarrow> (string \<times> nat option) list \<Rightarrow> table_world \<Rightarrow> table_world" where
  "added label n links w = w\<lparr>th_objects := th_objects w @ [page_object label n links],
     th_rows := List.insert (length (th_objects w)) (th_rows w)\<rparr>"

lemma resolve_page:
  assumes "label \<noteq> []"
  shows "resolve_reference table_env cache (PDict [(PStr ''model'', PStr label), (PStr ''identity'', id_of p)]) w
    = (case cache (lower label, package_identity_key (id_of p)) of Some i \<Rightarrow> (Inr (Some i), w)
       | None \<Rightarrow> (table_resolve True label (id_of p) w, w))"
  using assms
  by (simp add: resolve_reference_def page_reference_key run_simps split: option.split sum.split)
     (simp add: table_env_def rec_get_def text_of_def ensure_reference_permission_def run_simps split: sum.split)

lemma no_page_append:
  "no_page w label n \<Longrightarrow> no_page (w\<lparr>th_objects := th_objects w @ xs\<rparr>) label n"
  by (auto simp: no_page_def nth_append)

lemma table_models: "cfg_get (pe_settings table_env) ''ADMIN_MODELS'' PNone = PNone"
proof -
  have "cfg_get [] ''ADMIN_MODELS'' PNone = PNone" by code_simp
  then show ?thesis by (simp add: table_env_def)
qed

lemma prepare_page:
  assumes "label \<noteq> []" "no_page w label n"
  shows "prepare_one table_env conflict False (page label n []) cache w
      = (Inr ((Created, length (th_objects w)), cache((lower label, package_identity_key (id_of n)) := Some (length (th_objects w)))),
         added label n [] w)"
    "cache (lower label, package_identity_key (id_of p)) = Some j \<Longrightarrow>
      prepare_one table_env conflict False (page label n [p]) cache w
      = (Inr ((Created, length (th_objects w)), cache((lower label, package_identity_key (id_of n)) := Some (length (th_objects w)))),
         added label n [(''parent'', Some j)] w)"
    "cache (lower label, package_identity_key (id_of p)) = None \<Longrightarrow> no_page w label p \<Longrightarrow>
      \<exists>v. prepare_one table_env conflict False (page label n [p]) cache w = (Inl unresolved, v)"
proof -
  note key = page_reference_key[OF assms(1)]
  have dup: "\<not> allow_duplicate (pe_settings table_env) l" for l
    by (simp add: allow_duplicate_def model_options_def table_models rec_get_def)
  note steps = prepare_one_def prepare_record_def page_keys dup key run_simps resolve_absent[OF assms(2)] set_relation_def
    resolve_page[OF assms(1)] added_def page_object_def
  have fields: "pe_registered table_env l" "pe_permission table_env a l obj w" "pe_resolve table_env = table_resolve"
    "pe_restores_pk table_env l = False" "pe_relation table_env l name = Some True"
    "pe_new table_env label w = (Inr (length (th_objects w)), w\<lparr>th_objects := th_objects w @ [\<lparr>ho_label = label, ho_fields = [], ho_links = []\<rparr>]\<rparr>)"
    "pe_assign table_env i fields b = change_object i (\<lambda>obj. obj\<lparr>ho_fields := items_of fields\<rparr>)"
    "pe_set table_env i name target = change_object i (\<lambda>obj. obj\<lparr>ho_links := AList.update name target (ho_links obj)\<rparr>)"
    "pe_save table_env i = modify (\<lambda>w. w\<lparr>th_rows := List.insert i (th_rows w)\<rparr>)"
    for l a obj w name label i fields b target by (simp_all add: table_env_def)
  show "prepare_one table_env conflict False (page label n []) cache w
      = (Inr ((Created, length (th_objects w)), cache((lower label, package_identity_key (id_of n)) := Some (length (th_objects w)))),
         added label n [] w)"
    by (simp add: steps fields) (simp add: id_of_def)
  show "prepare_one table_env conflict False (page label n [p]) cache w
      = (Inr ((Created, length (th_objects w)), cache((lower label, package_identity_key (id_of n)) := Some (length (th_objects w)))),
         added label n [(''parent'', Some j)] w)" if "cache (lower label, package_identity_key (id_of p)) = Some j"
    using that by (simp add: steps fields) (simp add: id_of_def)
  show "\<exists>v. prepare_one table_env conflict False (page label n [p]) cache w = (Inl unresolved, v)"
    if "cache (lower label, package_identity_key (id_of p)) = None" "no_page w label p"
    using that resolve_absent[OF no_page_append[OF that(2)]] by (simp add: steps fields)
qed

lemma apply_page:
  assumes "label \<noteq> []" "i < length (th_objects w)" "i \<in> set (th_rows w)" "ps = [] \<or> (\<exists>p j. ps = [p]
      \<and> cache (lower label, package_identity_key (id_of p)) = Some j \<and> th_objects w ! i = page_object label n [(''parent'', Some j)])"
  shows "apply_record_relations table_env cache (page label n ps) (Created, i) w
    = (Inr (0, cache((lower label, package_identity_key (id_of n)) := Some i)), w)"
proof -
  have fields: "pe_set table_env i name target = change_object i (\<lambda>obj. obj\<lparr>ho_links := AList.update name target (ho_links obj)\<rparr>)"
    "pe_save table_env i = modify (\<lambda>w. w\<lparr>th_rows := List.insert i (th_rows w)\<rparr>)" "pe_translate table_env i ts = ret 0" for name target ts
    by (simp_all add: table_env_def)
  have same: "w\<lparr>th_rows := List.insert i (th_rows w)\<rparr> = w" using assms(3) by (simp add: List.insert_def)
  show ?thesis
    using assms(4)
  proof (elim disjE exE conjE)
    assume "ps = []"
    then show ?thesis by (simp add: apply_record_relations_def page_keys page_reference_key[OF assms(1)] fields run_simps same)
  next
    fix p j assume p: "ps = [p]" "cache (lower label, package_identity_key (id_of p)) = Some j"
      and obj: "th_objects w ! i = page_object label n [(''parent'', Some j)]"
    have "(th_objects w)[i := (th_objects w ! i)\<lparr>ho_links := AList.update ''parent'' (Some j) (ho_links (th_objects w ! i))\<rparr>] = th_objects w"
      by (rule list_update_same_conv[THEN iffD2]) (simp_all add: assms(2) obj page_object_def)
    then have links: "change_object i (\<lambda>obj. obj\<lparr>ho_links := AList.update ''parent'' (Some j) (ho_links obj)\<rparr>) w = (Inr (), w)"
      by (simp add: run_simps)
    show ?thesis
      by (simp add: apply_record_relations_def page_keys page_reference_key[OF assms(1)] fields set_relation_def resolve_page[OF assms(1)]
          p bind_def seq_def require_def ret_def links) (simp add: modify_def same bind_def ret_def)
  qed
qed

text \<open>A page and a page that refers to it, in both orders, and two pages that refer to each other.\<close>

lemma parent_before_child:
  assumes "label \<noteq> []" "m \<noteq> n" "no_page w label m" "no_page w label n"
  shows "\<exists>cache. import_batch table_env conflict False [page label n [], page label m [n]] (\<lambda>_. None) w
    = (Inr ([(Created, 0), (Created, 0)], cache),
       added label m [(''parent'', Some (length (th_objects w)))] (added label n [] w))"
proof -
  let ?v = "added label n [] w" and ?k = "length (th_objects w)"
  let ?u = "added label m [(''parent'', Some ?k)] ?v"
  have absent: "no_page ?v label m"
    using assms(2-4) by (auto simp: no_page_def added_def page_object_def nth_append)
  have rows: "?k \<notin> set (th_rows w)" "Suc ?k \<notin> set (th_rows w)" using assms(3) by (auto simp: no_page_def)
  have key: "package_identity_key (id_of m) \<noteq> package_identity_key (id_of n)" using assms(2) identity_key_inj by blast
  have u: "?k < length (th_objects ?u)" "?k \<in> set (th_rows ?u)" "Suc ?k < length (th_objects ?u)" "Suc ?k \<in> set (th_rows ?u)"
    "th_objects ?u ! Suc ?k = page_object label m [(''parent'', Some ?k)]" "length (th_objects ?v) = Suc ?k"
    by (simp_all add: added_def nth_append)
  show ?thesis
    by (simp add: import_batch_def p_atomic_def bind_def prepare_page(1)[OF assms(1,4)] prepare_page(2)[OF assms(1) absent]
        apply_page[OF assms(1)] u key ret_def seq_def) (simp add: table_env_def ret_def)
qed

lemma child_before_parent:
  assumes "label \<noteq> []" "no_page w label m" "no_page w label n"
  shows "import_batch table_env conflict False (page label m [n] # rs) (\<lambda>_. None) w = (Inl unresolved, w)"
proof -
  obtain v where "prepare_one table_env conflict False (page label m [n]) (\<lambda>_. None) w = (Inl unresolved, v)"
    using prepare_page(3)[OF assms(1,2) _ assms(3), of "\<lambda>_. None" conflict] by auto
  then show ?thesis by (simp add: import_batch_def p_atomic_def bind_def) (simp add: table_env_def)
qed

lemma cycle_dependencies:
  assumes "m \<noteq> n"
  shows "dependency_indices [page label m [n], page label n [m]] = Inr [[Suc 0], [0]]"
proof -
  have key: "package_identity_key (id_of m) \<noteq> package_identity_key (id_of n)" using assms identity_key_inj by blast
  have refs: "record_refs (page label a [b]) = [PDict [(PStr ''model'', PStr label), (PStr ''identity'', id_of b)]]" for a b
    by (simp add: record_refs_def page_keys)
  show ?thesis
    using key key[symmetric] by (simp add: dependency_indices_def refs indices_of_def page_package_key upt_rec)
qed

lemma cycle_fails:
  assumes "label \<noteq> []" "m \<noteq> n" "no_page w label m" "no_page w label n"
  shows "\<exists>r. import_partial table_env conflict False [page label m [n], page label n [m]] 0 w = (Inr r, w)
    \<and> pr_created r = 0 \<and> map fst (pr_errors r) = [0, 1]"
proof -
  let ?rs = "[page label m [n], page label n [m]]" and ?deps = "[[Suc 0], [0]] :: nat list list"
  let ?s = "start ?rs 0 :: nat imp"
  have s: "im_remaining ?s = [0, Suc 0]" "im_completed ?s = []" "im_failed ?s = []" "im_failed_objects ?s = []" "im_cache ?s = (\<lambda>_. None)"
    "im_result ?s = new_result 0"
    by (simp_all add: start_def upt_rec)
  have blocked: "blocked_records table_env w ?rs ?deps ?s = []"
    by (simp add: blocked_records_def Let_def s record_depends_on_failed_record_def failed_database_dependency_indices_def)
  have batch: "import_batch table_env conflict False (map (nth ?rs) [0, Suc 0]) (\<lambda>_. None) w = (Inl unresolved, w)"
    by (simp add: child_before_parent[OF assms(1,3,4)])
  have noted: "note_failed_object table_env w (page label k ps) t = t" if "no_page w label k" for k ps t
    using resolve_absent[OF that] by (simp add: note_failed_object_def page_keys) (simp add: table_env_def)
  let ?f = "settle_failed ?rs unresolved (Suc 0) (settle_failed ?rs unresolved 0 ?s)"
  have pass: "import_pass table_env conflict False ?rs ?deps (?s, w) = (?f, w)"
    using batch by (simp add: import_pass_def Let_def block_records_def blocked s ready_records_def import_together_def noted assms(3,4))
  have left: "im_remaining ?f = []" by (simp add: settle_simps s)
  have "import_loop table_env conflict False ?rs ?deps (?s, w) = import_loop table_env conflict False ?rs ?deps (?f, w)"
    unfolding pass[symmetric] by (subst import_loop.simps) (simp add: s)
  also have "\<dots> = (?f, w)" by (subst import_loop.simps) (simp add: left)
  finally show ?thesis
    by (simp add: import_partial_def cycle_dependencies[OF assms(2)] bind_def lift_def settle_simps s append_import_error_def Let_def new_result_def)
qed

text \<open>C19: an atomic import depends on the order of the archive. Two new records of which one has a foreign key
  to the other are both created, and linked, if the referred one comes first, and in the other order the
  import raises and leaves the database as it was, whatever rows it has, because foreign keys are resolved
  before the later objects exist. Of two new records that refer to each other a partial import, which takes
  them together as a cycle, imports neither.\<close>

theorem forward_reference_fails:
  assumes "label \<noteq> []" "m \<noteq> n" "no_page w label m" "no_page w label n"
  shows "import_atomic table_env conflict False [page label m [n], page label n []] 0 w = (Inl unresolved, w)
    \<and> (\<exists>r v. import_atomic table_env conflict False [page label n [], page label m [n]] 0 w = (Inr r, v)
        \<and> pr_created r = 2
        \<and> th_objects v = th_objects w @ [page_object label n [], page_object label m [(''parent'', Some (length (th_objects w)))]]
        \<and> set (th_rows v) = set (th_rows w) \<union> {length (th_objects w), Suc (length (th_objects w))})
    \<and> (\<exists>r. import_partial table_env conflict False [page label m [n], page label n [m]] 0 w = (Inr r, w)
        \<and> pr_created r = 0 \<and> map fst (pr_errors r) = [0, 1])"
proof (intro conjI)
  show "\<exists>r. import_partial table_env conflict False [page label m [n], page label n [m]] 0 w = (Inr r, w)
      \<and> pr_created r = 0 \<and> map fst (pr_errors r) = [0, 1]" by (rule cycle_fails[OF assms])
  show "import_atomic table_env conflict False [page label m [n], page label n []] 0 w = (Inl unresolved, w)"
    by (simp add: import_atomic_def bind_def catch_def child_before_parent[OF assms(1,3,4)] unresolved_def package_error_def raise_def)
  show "\<exists>r v. import_atomic table_env conflict False [page label n [], page label m [n]] 0 w = (Inr r, v)
        \<and> pr_created r = 2
        \<and> th_objects v = th_objects w @ [page_object label n [], page_object label m [(''parent'', Some (length (th_objects w)))]]
        \<and> set (th_rows v) = set (th_rows w) \<union> {length (th_objects w), Suc (length (th_objects w))}"
    using parent_before_child[OF assms, of conflict]
    by (auto simp: import_atomic_def bind_def catch_def ret_def counted_def apply_operation_counts_def new_result_def added_def)
qed

theorem forward_reference_fails_witness:
  "import_atomic table_env ''update'' False [page ''shop.page'' 1 [2], page ''shop.page'' 2 []] 0
     \<lparr>th_objects = [page_object ''shop.page'' 7 []], th_rows = [0]\<rparr>
   = (Inl unresolved, \<lparr>th_objects = [page_object ''shop.page'' 7 []], th_rows = [0]\<rparr>)"
  by (rule conjunct1[OF forward_reference_fails]) (simp_all add: no_page_def page_object_def)

text \<open>The translations of the package are counted when the result is made and when they are applied.\<close>

lemma translations_counted_twice: "pr_translations (counted counts (new_result n)) = n + sum_list (map snd counts)"
proof -
  have "pr_translations (counted counts r) = pr_translations r + sum_list (map snd counts)" for r
    by (induction counts arbitrary: r) (auto simp: counted_def apply_operation_counts_def)
  then show ?thesis by (simp add: new_result_def)
qed

section \<open>Concrete imports\<close>

text \<open>A host whose objects are the labels of its models and whose database lists those saved; the model
  \<open>broken\<close> refuses its fields.\<close>

definition example_pkg_env :: "(string, string list) pkg_env" where
  "example_pkg_env = \<lparr>pe_settings = [], pe_model = (\<lambda>v. Inr (text_of v)), pe_registered = (\<lambda>_. True),
     pe_permission = (\<lambda>_ _ _ _. True), pe_resolve = (\<lambda>_ label _ w. Inr (if List.member w label then Some label else None)),
     pe_key = (\<lambda>_. package_identity_key), pe_label = (\<lambda>obj. obj), pe_pk = (\<lambda>_ obj. obj), pe_new = ret, pe_restores_pk = (\<lambda>_. False),
     pe_assign = (\<lambda>obj _ _. require (obj \<noteq> ''broken'') (ValueError [])), pe_relation = (\<lambda>_ _. Some True), pe_set = (\<lambda>_ _ _. ret ()),
     pe_save = (\<lambda>obj. modify (\<lambda>w. w @ [obj])), pe_set_many = (\<lambda>_ _ _. ret ()), pe_translate = (\<lambda>_ _. ret 0), pe_commit = ret (),
     pe_rollback = (\<lambda>w v. w)\<rparr>"

definition example_ref :: "string \<Rightarrow> pyval" where
  "example_ref label = PDict [(PStr ''model'', PStr label), (PStr ''identity'', PDict [(PStr ''id'', PInt 1)])]"

definition example_record :: "string \<Rightarrow> pyval list \<Rightarrow> pyval" where
  "example_record label refs = PDict [(PStr ''model'', PStr label), (PStr ''identity'', PDict [(PStr ''id'', PInt 1)]),
     (PStr ''relationships'', PDict (map (\<lambda>ref. (PStr ''parent'', ref)) refs))]"

text \<open>\<open>old\<close> exists in the database already.\<close>

definition example_chain :: "pyval list" where
  "example_chain = [example_record ''broken'' [], example_record ''old'' [example_ref ''broken''], example_record ''leaf'' [example_ref ''old'']]"

lemma example_dependencies: "dependency_indices example_chain = Inr [[], [0], [1]]"
  by code_simp

lemma example_first: "import_batch example_pkg_env ''update'' False [example_chain ! 0] (\<lambda>_. None) [''old''] = (Inl (ValueError []), [''old''])"
  by (simp add: import_batch_def p_atomic_def prepare_one_def prepare_record_def example_pkg_env_def example_chain_def example_record_def
      allow_duplicate_def model_options_def cfg_get_def get_config_def DEFAULTS_def rec_get_def bind_def seq_def gets_def lift_def require_def
      raise_def ret_def Let_def)

lemma example_third: "\<exists>counts cache. import_batch example_pkg_env ''update'' False [example_chain ! 2] (\<lambda>_. None) [''old'']
    = (Inr (counts, cache), [''old'', ''leaf'', ''leaf''])"
  by (simp add: import_batch_def p_atomic_def prepare_one_def prepare_record_def example_pkg_env_def example_chain_def example_record_def
      example_ref_def
      allow_duplicate_def model_options_def cfg_get_def get_config_def DEFAULTS_def rec_get_def bind_def seq_def gets_def lift_def require_def
      raise_def ret_def Let_def set_relation_def resolve_reference_def reference_key_def ensure_reference_permission_def whenever_def
      modify_def catch_def apply_record_relations_def text_of_def)

lemma example_absent:
  "pe_resolve example_pkg_env False (py_str (rec_get (example_chain ! 0) ''model'')) (rec_get (example_chain ! 0) ''identity'') [''old''] = Inr None"
  by (simp add: example_pkg_env_def example_chain_def example_record_def rec_get_def)

definition example_payload :: pyval where
  "example_payload = PDict [(PStr ''records'', PList example_chain), (PStr ''models'', PList [])]"

lemma example_payload_records: "payload_records example_payload = example_chain"
  by (simp add: payload_records_def example_payload_def rec_get_def)

theorem partial_import_settles_witness:
  "\<exists>r v completed failed. import_partial example_pkg_env ''update'' False example_chain 0 [''old''] = (Inr r, v)
    \<and> mset completed + mset failed = mset [0..<3] \<and> map fst (pr_errors r) = take 250 failed"
proof -
  have "length example_chain = 3" by (simp add: example_chain_def)
  with partial_import_settles[of example_payload "[[], [0], [1]]" example_pkg_env "''update''" False 0 "[''old'']" "[]",
      unfolded example_payload_records, OF example_dependencies]
  show ?thesis by (elim exE conjE) (intro exI conjI, assumption, simp, simp)
qed


theorem refused_dependency_then_imported_witness:
  "\<exists>s v. import_loop example_pkg_env ''update'' False example_chain [[], [0], [1]] (start example_chain 0, [''old'']) = (s, v)
    \<and> im_failed s = [0, 1] \<and> im_completed s = [2]"
proof -
  obtain counts cache where "import_batch example_pkg_env ''update'' False [example_chain ! 2] (\<lambda>_. None) [''old'']
      = (Inr (counts, cache), [''old'', ''leaf'', ''leaf''])" using example_third by blast
  from refused_dependency_then_imported[OF example_dependencies example_first example_absent this, of 0] show ?thesis by blast
qed

end
