(* ===== verification/Package_Redaction.thy ===== *)
theory Package_Redaction
  imports Package_Records
begin

text \<open>
  Values exported with their secrets redacted and imported again over the values they were taken from.
\<close>

text \<open>The values of a JSON column.\<close>

fun plain :: "pyval \<Rightarrow> bool" where
  "plain (PDict kvs) \<longleftrightarrow> distinct (map fst kvs) \<and> list_all (\<lambda>(k, v). is_str k \<and> plain v) kvs"
| "plain (PList xs) \<longleftrightarrow> list_all plain xs"
| "plain (PTuple xs) \<longleftrightarrow> False"
| "plain (PBytes b) \<longleftrightarrow> False"
| "plain (PPath p) \<longleftrightarrow> False"
| "plain (PBytesPath p) \<longleftrightarrow> False"
| "plain v \<longleftrightarrow> True"

text \<open>Below a sensitive key there is nothing but the mark.\<close>

fun hides :: "string list \<Rightarrow> pyval \<Rightarrow> bool" where
  "hides names (PDict kvs) \<longleftrightarrow> list_all (\<lambda>(k, v). v = redacted \<or> \<not> is_sensitive_key (py_str k) names \<and> hides names v) kvs"
| "hides names (PList xs) \<longleftrightarrow> list_all (hides names) xs"
| "hides names v \<longleftrightarrow> True"

lemma is_str_py_str: "is_str k \<Longrightarrow> PStr (py_str k) = k"
  by (cases k) auto

lemma map_sum_Inr: "map_sum id f m = Inr y \<longleftrightarrow> (\<exists>x. m = Inr x \<and> y = f x)"
  by (cases m) auto

lemma jsonable_restored:
  "plain v \<Longrightarrow> jsonable names v = Inr u \<Longrightarrow> restore_redacted u (Some v) = Inr v"
  "distinct (map fst kvs) \<Longrightarrow> list_all (\<lambda>(k, v). is_str k \<and> plain v \<and> map_of prior k = Some v) kvs
     \<Longrightarrow> jsonable_items names seen kvs = Inr us \<Longrightarrow> restore_items us prior = Inr kvs"
  "list_all plain xs \<Longrightarrow> jsonable_list names xs = Inr vs \<Longrightarrow> restore_list vs xs = Inr xs"
proof (induction names v and names seen kvs and names xs arbitrary: u and prior us and vs
    rule: jsonable_jsonable_items_jsonable_list.induct)
  case (11 names kvs)
  obtain us where us: "jsonable_items (normalise_sensitive_names names) [] kvs = Inr us" "u = PDict us"
    using 11(3) by (cases "jsonable_items (normalise_sensitive_names names) [] kvs") auto
  have "restore_items us kvs = Inr kvs"
    using 11(2) by (intro 11(1)[OF _ _ us(1)]) (auto simp: list_all_iff)
  then show ?case by (simp add: us(2))
next
  case (12 names xs)
  then show ?case by (cases "jsonable_list (normalise_sensitive_names names) xs") auto
next
  case (15 names seen k v kvs)
  let ?hidden = "is_sensitive_key (py_str k) names"
  have new: "\<not> List.member seen (py_str k)" using 15(5) by (auto simp: Let_def split: if_splits)
  then obtain u ws where u: "(if ?hidden then Inr redacted else jsonable names v) = Inr u"
      and ws: "jsonable_items names (py_str k # seen) kvs = Inr ws" and us: "us = (PStr (py_str k), u) # ws"
    using 15(5) by (auto simp: Let_def bind_res_eq_Inr map_sum_Inr split: if_splits)
  have k: "PStr (py_str k) = k" "plain v" "map_of prior k = Some v" using 15(4) by (simp_all add: is_str_py_str)
  have "restore_redacted u (Some v) = Inr v"
  proof (cases ?hidden)
    case True with u show ?thesis by (auto simp: redacted_def)
  next
    case False with u 15(1)[OF refl new False k(2)] show ?thesis by simp
  qed
  moreover have "restore_items ws prior = Inr kvs" using 15(2)[OF refl new] 15(3,4) u ws by auto
  ultimately show ?case using k by (simp add: us)
next
  case (17 names x xs)
  then show ?case by (auto simp: bind_res_eq_Inr map_sum_Inr)
qed auto

lemma flat_name_flat [simp]: "flat_name (flat_name s) = flat_name s"
proof -
  have "lower_char (lower_char c) = lower_char c" for c
  proof -
    have "code (char_of n) = n" if "n < 256" for n using that by (simp add: code_def)
    then show ?thesis by (auto simp: lower_char_def Let_def)
  qed
  then have "lower (filter P (lower s)) = filter P (lower s)" for P
    unfolding lower_def by (induction s) simp_all
  then show ?thesis by (simp add: flat_name_def)
qed

text \<open>Names that normalising leaves alone stay sensitive at every depth.\<close>

definition settled_names :: "string list \<Rightarrow> bool" where
  "settled_names names \<longleftrightarrow> (\<forall>n \<in> set names. strip n \<noteq> [] \<and> flat_name n = n)"

lemma settled_normalised: "settled_names sens \<Longrightarrow> set sens \<subseteq> set names \<Longrightarrow> set sens \<subseteq> set (normalise_sensitive_names names)"
  by (force simp: settled_names_def normalise_sensitive_names_def)

lemma twice_normalised:
  "settled_names (normalise_sensitive_names (normalise_sensitive_names names))"
  "set (normalise_sensitive_names (normalise_sensitive_names names)) \<subseteq> set (normalise_sensitive_names names)"
  by (auto simp: settled_names_def normalise_sensitive_names_def)

lemma jsonable_hides:
  assumes "settled_names sens"
  shows "plain v \<Longrightarrow> set sens \<subseteq> set (normalise_sensitive_names names) \<Longrightarrow> jsonable names v = Inr u \<Longrightarrow> hides sens u"
    "list_all (\<lambda>(k, v). plain v) kvs \<Longrightarrow> set sens \<subseteq> set names \<Longrightarrow> jsonable_items names seen kvs = Inr us
       \<Longrightarrow> hides sens (PDict us)"
    "list_all plain xs \<Longrightarrow> set sens \<subseteq> set names \<Longrightarrow> jsonable_list names xs = Inr vs \<Longrightarrow> list_all (hides sens) vs"
proof (induction names v and names seen kvs and names xs arbitrary: u and us and vs
    rule: jsonable_jsonable_items_jsonable_list.induct)
  case (11 names kvs)
  have "list_all (\<lambda>(k, v). plain v) kvs" using 11(2) by (auto simp: list_all_iff)
  with 11 show ?case by (auto simp: map_sum_Inr)
next
  case (12 names xs) then show ?case by (auto simp: map_sum_Inr)
next
  case (15 names seen k v kvs)
  let ?hidden = "is_sensitive_key (py_str k) names"
  have new: "\<not> List.member seen (py_str k)" using 15(5) by (auto simp: Let_def split: if_splits)
  then obtain u ws where u: "(if ?hidden then Inr redacted else jsonable names v) = Inr u"
      and ws: "jsonable_items names (py_str k # seen) kvs = Inr ws" and us: "us = (PStr (py_str k), u) # ws"
    using 15(5) by (auto simp: Let_def bind_res_eq_Inr map_sum_Inr split: if_splits)
  have "u = redacted \<or> \<not> is_sensitive_key (py_str k) sens \<and> hides sens u"
  proof (cases ?hidden)
    case True with u show ?thesis by simp
  next
    case False
    with u 15(1)[OF refl new False] 15(3,4) settled_normalised[OF assms 15(4)]
    show ?thesis by (auto simp: is_sensitive_key_def)
  qed
  moreover have "hides sens (PDict ws)" using 15(2)[OF refl new] 15(3,4) u ws by auto
  ultimately show ?case by (simp add: us)
next
  case (17 names x xs)
  then show ?case using settled_normalised[OF assms 17(4)] by (auto simp: bind_res_eq_Inr map_sum_Inr)
qed auto

text \<open>C7: a JSON value exported with redacted secrets shows nothing below a sensitive key, at any depth, and
  imported over the value it was taken from it gives back that value.\<close>

theorem redacted_value_returns:
  assumes "plain v" "jsonable names v = Inr u"
  shows "restore_redacted u (Some v) = Inr v
    \<and> hides (normalise_sensitive_names (normalise_sensitive_names names)) u"
  using jsonable_restored(1)[OF assms] jsonable_hides(1)[OF twice_normalised(1) assms(1) twice_normalised(2) assms(2)] by blast

definition example_secret :: pyval where
  "example_secret = PDict [(PStr ''host'', PStr ''db''), (PStr ''Api_Key'', PStr ''s3cret''), (PStr ''more'', PList [PDict [(PStr ''token'', PInt 7)]])]"

theorem redacted_value_returns_witness:
  "restore_redacted (PDict [(PStr ''host'', PStr ''db''), (PStr ''Api_Key'', redacted), (PStr ''more'', PList [PDict [(PStr ''token'', redacted)]])])
     (Some example_secret) = Inr example_secret"
proof (rule redacted_value_returns[THEN conjunct1])
  show "plain example_secret" by (simp add: example_secret_def)
  show "jsonable [''token'', ''API_KEY''] example_secret
      = Inr (PDict [(PStr ''host'', PStr ''db''), (PStr ''Api_Key'', redacted), (PStr ''more'', PList [PDict [(PStr ''token'', redacted)]])])"
    unfolding example_secret_def by code_simp
qed

end
