(* ===== verification/Spec2Isabelle.thy ===== *)
theory Spec2Isabelle
  imports Rate_Limit Server_Files_Moves Server_Files_Reads Server_Files_Web_Props Transfer_Props Upload_Props Admin_Recovery Isolated_Session Monitor_Incidents_Props Package_Props
    Package_Redaction
begin

text \<open>
  A verification library for Paxalia Dashboard, a Django application that administers a site: it serves
  files of the host to administrators, transfers and uploads files in pieces, protects itself by a login
  of three layers, and watches other sites. Paths below are relative to \<open>src/paxalia\<close>.

  \<^bold>\<open>The parts and how they interact.\<close>
  \<^item> Every request of the dashboard passes the administrator gate (\<open>admin_security.py\<close>): a session
    that went through password, second factor and WebAuthn device (\<open>views/auth.py\<close>,
    \<open>webauthn_services.py\<close>, \<open>views/admin_security.py\<close>) and was not revoked. The rate limiter
    (\<open>security_rate_limit.py\<close>) counts the attempts in the shared cache.
  \<^item> Server Files (\<open>server_files/\<close>): a path policy decides what may be touched, the service does it with
    descriptor-relative system calls that follow no link, and the views keep an append-only history.
  \<^item> The Transfer Center (\<open>transfer_center/\<close>) sends and receives files between a client and one exchange
    directory in resumable pieces; its sends arrive through the chunked uploads of \<open>views/uploads.py\<close>
    and are verified by checksum. Both share the upload table and the private staging area.
  \<^item> Availability (\<open>uptime.py\<close>, \<open>alerts.py\<close>, the command \<open>check_uptime\<close>) checks monitored URLs under an address
    policy and opens and closes incidents.
  \<^item> Packages (\<open>packages/engine.py\<close>) carry records between installations; an import makes them objects of
    the host's models, dependencies first, and reports what failed.

  \<^bold>\<open>Theories and the code they model.\<close>
  \<^item> Prelude: Python values, strings, integers and exceptions. State_Err: stateful code that may raise, as
    functions \<open>'s \<Rightarrow> (exn + 'a) \<times> 's\<close>, with a calculus of weakest preconditions (\<open>wp\<close>) and of kept
    predicates (\<open>keeps\<close>). Cache: the cache interface, its contract \<open>counter_cache\<close> and an implementation
    with time-outs. Config: \<open>settings.py\<close> and the numeric policies. Urls, Base64, Posix_Path: the parts of
    Python's library the code relies on.
  \<^item> Rate_Limit: \<open>security_rate_limit.py\<close>.
  \<^item> Path_Policy, Path_Policy_Props: \<open>server_files/policy.py\<close> and \<open>exceptions.py\<close>.
  \<^item> Os_Model, Os_Spec, Publish: the system calls (inodes, descriptors, a schedule of failures, short transfers
    and foreign changes), triples over them, and the pattern of a temporary file linked to its final name.
  \<^item> Server_Files, Server_Files_Props, Server_Files_Moves, Server_Files_Reads: \<open>server_files/service.py\<close>.
    Server_Files_Web, Server_Files_Web_Props: \<open>views.py\<close>, \<open>audit.py\<close>, \<open>middleware.py\<close> of \<open>server_files\<close>.
  \<^item> Staging: \<open>transfer_center/policy.py\<close>. Transfers, Transfer_Life, Transfer_Props: \<open>service.py\<close> and \<open>models.py\<close>
    there. Uploads, Upload_Props: \<open>views/uploads.py\<close> and \<open>conf_uploads.py\<close>.
  \<^item> Admin_State (the rows of \<open>models.py\<close>, sessions, and what comes from outside), Admin_Session
    (\<open>admin_security.py\<close>), Admin_Webauthn (\<open>webauthn_services.py\<close>), Admin_Login and Admin_Devices
    (\<open>views/auth.py\<close>, \<open>forms.py\<close>, \<open>views/admin_security.py\<close>). Admin_Gate, Admin_Layers, Admin_Climb and
    Admin_Recovery hold what is proved of them, Admin_Example a concrete installation.
    Isolated_Session: \<open>auth_middleware.py\<close>, the dashboard's own session beside the host's.
  \<^item> Monitor_Target and Monitor_Check (\<open>uptime.py\<close> up to \<open>perform_check\<close>), Monitor_Incidents (the rest of it,
    \<open>alerts.py\<close>, \<open>check_uptime\<close>, the acknowledgement view), Monitor_Check_Props and Monitor_Incidents_Props.
  \<^item> Package_Records (identity keys, dependencies, redaction), Package_Import (one record), Package_Schedule
    (transactions and passes) and Package_Run (\<open>import_package\<close>, the preview, the retry payload) model the
    import of \<open>packages/engine.py\<close>; Package_Redaction and Package_Props hold what is proved of it.

  State is a record per component (\<open>os\<close>, \<open>web\<close>, \<open>tworld\<close>, \<open>aworld\<close>, \<open>mon_world\<close>; a table is a list of
  rows, a session a map), an operation is a definition with the name of the source's function, and every
  \<open>raise\<close>, early return and \<open>except\<close> of the source is a branch. A context manager is a function that takes
  the body of its \<open>with\<close>. What is not code of the repository is a parameter: SHA-256, password hashers,
  the WebAuthn and OTP libraries, the resolver and the network, JSON parsing, \<open>realpath\<close> of host paths. Where
  a database query or a system call may fail, a schedule or a predicate of the world says when.

  \<^bold>\<open>What the lemmas show.\<close>
  \<^item> Limits: attempts per window, chunk and transfer numbers, active transfers, recovery codes,
    connections of a check.
  \<^item> Path policy: exactly which path texts are accepted, that protection covers subtrees and cannot be
    configured away, that roots are disjoint.
  \<^item> Effects on the file system under every schedule of failures: an upload or a copy publishes all or
    nothing, a deletion removes one entry, a move changes one, a listing shows what the policy allows; no
    change without a history row and without the guards; a chunk is appended whole or cut off
    as long as only the database fails.
  \<^item> Life cycles: every call of the Transfer Center is a step of a small status machine (\<open>t_step\<close>), every
    authentication request a step of the machine of four layers (\<open>layer_step\<close>), incidents follow the
    reference \<open>last_verdict\<close> of the history; a package import settles every record; with the invariants of all reachable states.
  \<^item> The gate, without a host login (isolated mode): it runs a privileged view exactly for a live
    administrator session, a completed ceremony makes one, a revocation ends it.
  \<^item> Defects, each as a theorem about the modelled code: among others a malformed error body that ends
    the command of the checks, a stale acknowledgement that reopens an incident, a handler that truncates
    what it should restore or follows a refused link, a maintenance run that dies of a name error, a login
    loop of an ended session, an import that takes dependents of a refused record for a cycle and resolves
    foreign keys in archive order.

  \<^bold>\<open>Bounds.\<close> Recursion is structural or has a measure: the redirects of a check by what is left of the
  limits of \<open>urllib\<close> (ten addresses, four visits each), writing loops by the bytes left, the copying loop by
  what its limit leaves, an import by the records left. Lookups of absolute paths follow at most 40 links (\<open>follow 41\<close>), as the kernel
  does, and are \<open>ELOOP\<close> then. Characters are code
  points below 256, integers are unbounded as in Python, addresses are words of 32 and 128 bits.

  \<^bold>\<open>Not modelled.\<close> Export and validation of packages and the Admin Center walk Django's model metadata
  and call \<open>ModelAdmin\<close> and forms at every step; the container of a package is calls of \<open>zipfile\<close> and
  \<open>cryptography\<close>, and values only Django has (dates, decimals, files) are not values of the model. Analytics,
  logging and security health are database aggregates and rendered pages. Left out are also the bridge to
  a host application's login (\<open>admin_auth_middleware.py\<close>) and the traffic middleware; previews, pages and
  response headers of Server Files, the JSON wrappers of the Transfer Center, the pages and statistics of
  Availability, and Django's own signup and password views. Side channels that cannot fail a request (log
  lines, mirrored audit records, alerts of transfers) are left out. Two workers interleave by whole
  transactions, except where a property says otherwise.
\<close>

end
